(* ===== verification/Prelude.thy ===== *)
theory Prelude
  imports Main "HOL-Library.Word"
begin

text \<open>
  The vocabulary every component shares: the fixed-width integers of the C
  code as words, little-endian packing of 16- and 32-bit values (the
  \<open>*p++ = x & 0xFF\<close> idiom of the sources), byte-slice reads, and the
  collections of simplification facts the component proofs are written over.
\<close>

unbundle bit_operations_syntax

type_synonym u8 = "8 word"
type_synonym u16 = "16 word"
type_synonym u32 = "32 word"
type_synonym bytes = "u8 list"

named_theorems sofa_len "lengths of the buffers the code builds"
named_theorems sofa_codec "pack and unpack equations"

text \<open>A result type for code that returns an error code next to a value.\<close>

type_synonym ('e, 'a) result = "'e + 'a"

section \<open>Little-endian packing\<close>

definition le16 :: "u16 \<Rightarrow> bytes" where
  "le16 w = [ucast w, ucast (drop_bit 8 w)]"

definition le32 :: "u32 \<Rightarrow> bytes" where
  "le32 w = [ucast w, ucast (drop_bit 8 w), ucast (drop_bit 16 w), ucast (drop_bit 24 w)]"

definition rd16 :: "u8 \<Rightarrow> u8 \<Rightarrow> u16" where
  "rd16 a b = ucast a OR push_bit 8 (ucast b)"

definition rd32 :: "u8 \<Rightarrow> u8 \<Rightarrow> u8 \<Rightarrow> u8 \<Rightarrow> u32" where
  "rd32 a b c d =
     ucast a OR push_bit 8 (ucast b) OR push_bit 16 (ucast c) OR push_bit 24 (ucast d)"

text \<open>The same reads at an offset of a buffer (\<open>p[0] | p[1] << 8 | ...\<close>).\<close>

definition get16 :: "bytes \<Rightarrow> nat \<Rightarrow> u16" where
  "get16 p i = rd16 (p ! i) (p ! (i + 1))"

definition get32 :: "bytes \<Rightarrow> nat \<Rightarrow> u32" where
  "get32 p i = rd32 (p ! i) (p ! (i + 1)) (p ! (i + 2)) (p ! (i + 3))"

definition slice :: "bytes \<Rightarrow> nat \<Rightarrow> nat \<Rightarrow> bytes" where
  "slice p i n = take n (drop i p)"

lemma length_le16 [simp, sofa_len]: "length (le16 w) = 2"
  by (simp add: le16_def)

lemma length_le32 [simp, sofa_len]: "length (le32 w) = 4"
  by (simp add: le32_def)

lemma length_slice [simp, sofa_len]: "i + n \<le> length p \<Longrightarrow> length (slice p i n) = n"
  by (simp add: slice_def)

lemma bit_u8_high [simp]: "8 \<le> n \<Longrightarrow> \<not> bit (a :: u8) n"
  using bit_imp_le_length [of a n] by auto

lemma rd16_ucast [simp, sofa_codec]: "rd16 (ucast w) (ucast (drop_bit 8 w)) = w"
  by (rule bit_word_eqI)
     (auto simp: rd16_def bit_or_iff bit_ucast_iff bit_push_bit_iff bit_drop_bit_eq)

lemma rd32_ucast [simp, sofa_codec]:
  "rd32 (ucast w) (ucast (drop_bit 8 w)) (ucast (drop_bit 16 w)) (ucast (drop_bit 24 w)) = w"
proof (rule bit_word_eqI)
  fix n assume n: "n < LENGTH(32)"
  then consider "n < 8" | "8 \<le> n" "n < 16" | "16 \<le> n" "n < 24" | "24 \<le> n" "n < 32"
    by fastforce
  then show "bit (rd32 (ucast w) (ucast (drop_bit 8 w)) (ucast (drop_bit 16 w))
    (ucast (drop_bit 24 w))) n = bit w n"
    by cases
       (auto simp: rd32_def bit_or_iff bit_ucast_iff bit_push_bit_iff bit_drop_bit_eq)
qed

lemma rd16_bytes:
  "ucast (rd16 a b) = a" "ucast (drop_bit 8 (rd16 a b)) = b"
  by (rule bit_word_eqI, simp add: rd16_def bit_or_iff bit_ucast_iff bit_push_bit_iff bit_drop_bit_eq)+

lemma rd32_bytes:
  "ucast (rd32 a b c d) = a" "ucast (drop_bit 8 (rd32 a b c d)) = b"
  "ucast (drop_bit 16 (rd32 a b c d)) = c" "ucast (drop_bit 24 (rd32 a b c d)) = d"
  by (rule bit_word_eqI, simp add: rd32_def bit_or_iff bit_ucast_iff bit_push_bit_iff bit_drop_bit_eq)+

lemma le16_rd16 [simp, sofa_codec]: "le16 (rd16 a b) = [a, b]"
  by (simp add: le16_def rd16_bytes)

lemma le32_rd32 [simp, sofa_codec]: "le32 (rd32 a b c d) = [a, b, c, d]"
  by (simp add: le32_def rd32_bytes)

lemma get16_le16 [simp, sofa_codec]: "get16 (le16 w @ xs) 0 = w"
  by (simp add: get16_def le16_def)

lemma get32_le32 [simp, sofa_codec]: "get32 (le32 w @ xs) 0 = w"
  unfolding get32_def le32_def
  by (simp only: append_Cons add_0 nth_Cons_0 nth_Cons_numeral nth_Cons' one_neq_zero if_False
      rd32_ucast) simp

lemma le16_inject [simp]: "le16 v = le16 w \<longleftrightarrow> v = w"
  by (metis get16_le16)

lemma le32_inject [simp]: "le32 v = le32 w \<longleftrightarrow> v = w"
  by (metis get32_le32)

lemma get16_append [sofa_codec]:
  "length xs = n \<Longrightarrow> get16 (xs @ ys) (n + k) = get16 ys k"
  by (auto simp: get16_def nth_append)

lemma get32_append [sofa_codec]:
  "length xs = n \<Longrightarrow> get32 (xs @ ys) (n + k) = get32 ys k"
  by (auto simp: get32_def nth_append)

section \<open>Lists and words\<close>

lemma append_eq_split:
  "length xs = length xs' \<Longrightarrow> xs @ ys = xs' @ ys' \<longleftrightarrow> xs = xs' \<and> ys = ys'"
  by simp

lemma slice_append_left [simp]: "i + n \<le> length xs \<Longrightarrow> slice (xs @ ys) i n = slice xs i n"
  by (simp add: slice_def)

lemma slice_append_right [simp]:
  "length xs \<le> i \<Longrightarrow> slice (xs @ ys) i n = slice ys (i - length xs) n"
  by (simp add: slice_def)

lemma slice_all [simp]: "slice xs 0 (length xs) = xs"
  by (simp add: slice_def)

lemma slice_zero [simp]: "slice xs i 0 = []"
  by (simp add: slice_def)

lemma list_length_expand: "length xs = Suc n \<longleftrightarrow> (\<exists>y ys. xs = y # ys \<and> length ys = n)"
  by (cases xs) auto

lemma ex_bytes_length: "\<exists>xs::bytes. length xs = n"
  by (rule exI [where x = "replicate n 0"]) simp

lemma xor_word_eq_0_iff [simp]: "(a :: 'a::len word) XOR b = 0 \<longleftrightarrow> a = b"
proof
  assume "a XOR b = 0"
  then have "(a XOR b) XOR b = b" by simp
  then show "a = b" by (simp add: xor.assoc)
qed simp

lemma xor_word_cancel [simp]: "(a :: 'a::len word) XOR b = a XOR c \<longleftrightarrow> b = c"
  by (metis xor.assoc xor_self_eq xor.left_neutral)

lemma xor_word_cancel_right [simp]: "(b :: 'a::len word) XOR a = c XOR a \<longleftrightarrow> b = c"
  by (metis xor.commute xor_word_cancel)

text \<open>Casting a byte up and back.\<close>

lemma ucast_u8_u16_u8 [simp]: "ucast (ucast (x :: u8) :: u16) = x"
  by (rule bit_word_eqI) (simp add: bit_ucast_iff)

lemma ucast_u8_u32_u8 [simp]: "ucast (ucast (x :: u8) :: u32) = x"
  by (rule bit_word_eqI) (simp add: bit_ucast_iff)

lemma unat_ucast_u16_u32 [simp]: "unat (ucast (x :: u16) :: u32) = unat x"
  using unsigned_less [where ?'a = nat, of x] by (simp add: unsigned_ucast_eq take_bit_nat_eq_self)

lemma unat_ucast_u8_u16 [simp]: "unat (ucast (x :: u8) :: u16) = unat x"
  using unsigned_less [where ?'a = nat, of x] by (simp add: unsigned_ucast_eq take_bit_nat_eq_self)

lemma unat_ucast_u8_u32 [simp]: "unat (ucast (x :: u8) :: u32) = unat x"
  using unsigned_less [where ?'a = nat, of x] by (simp add: unsigned_ucast_eq take_bit_nat_eq_self)

lemma unat_of_nat_u16: "n < 65536 \<Longrightarrow> unat (of_nat n :: u16) = n"
  by (simp add: unat_of_nat take_bit_nat_eq_self)

lemma of_nat_u16_inject:
  "m < 65536 \<Longrightarrow> n < 65536 \<Longrightarrow> (of_nat m :: u16) = of_nat n \<longleftrightarrow> m = n"
  by (metis unat_of_nat_u16)

end
