(* ===== verification/Sofa_Config.thy ===== *)
theory Sofa_Config
  imports Prelude
begin

text \<open>
  The compile-time configuration the model is built for (the stock build of
  \<open>shared/fbsec_config.h\<close>: AES-128-GCM, full 16-byte tag, one-byte peer
  identifiers, every feature compiled in) and the one-byte abort codes of
  \<open>shared/fbsec_abort.h\<close>. Lengths are naturals; codes that travel on the wire
  are bytes.
\<close>

section \<open>AEAD parameters\<close>

abbreviation (input) FBSEC_AEAD_KEY_SIZE :: nat where
  "FBSEC_AEAD_KEY_SIZE \<equiv> 16"

abbreviation (input) FBSEC_AEAD_NONCE_SIZE :: nat where
  "FBSEC_AEAD_NONCE_SIZE \<equiv> 12"

abbreviation (input) FBSEC_AEAD_PRIMITIVE_ID :: u8 where
  "FBSEC_AEAD_PRIMITIVE_ID \<equiv> 0x01"

abbreviation (input) FBSEC_AEAD_TAG_SIZE :: nat where
  "FBSEC_AEAD_TAG_SIZE \<equiv> 16"

abbreviation (input) FBSEC_AEAD_RAND_SIZE :: nat where
  "FBSEC_AEAD_RAND_SIZE \<equiv> 12"

abbreviation (input) FBSEC_AEAD_MAX_PROTECTED :: nat where
  "FBSEC_AEAD_MAX_PROTECTED \<equiv> 32"

abbreviation (input) FBSEC_AEAD_AAD_PREFIX_SIZE :: nat where
  "FBSEC_AEAD_AAD_PREFIX_SIZE \<equiv> 12"

abbreviation (input) FBSEC_AEAD_AAD_MAX :: nat where
  "FBSEC_AEAD_AAD_MAX \<equiv>
     FBSEC_AEAD_AAD_PREFIX_SIZE + 2 * FBSEC_AEAD_RAND_SIZE + FBSEC_AEAD_MAX_PROTECTED"

abbreviation (input) FBSEC_AEAD_KEY_USE_LIMIT :: u32 where
  "FBSEC_AEAD_KEY_USE_LIMIT \<equiv> 1000000"

abbreviation (input) FBSEC_AEAD_PROTOCOL_VERSION :: u8 where
  "FBSEC_AEAD_PROTOCOL_VERSION \<equiv> 0x01"

section \<open>Directions\<close>

abbreviation (input) FBSEC_AEAD_DIR_READ_CHALLENGE :: u8 where
  "FBSEC_AEAD_DIR_READ_CHALLENGE \<equiv> 0x01"

abbreviation (input) FBSEC_AEAD_DIR_READ_RESPONSE :: u8 where
  "FBSEC_AEAD_DIR_READ_RESPONSE \<equiv> 0x02"

abbreviation (input) FBSEC_AEAD_DIR_WRITE_CHALLENGE :: u8 where
  "FBSEC_AEAD_DIR_WRITE_CHALLENGE \<equiv> 0x03"

abbreviation (input) FBSEC_AEAD_DIR_WRITE_REQUEST :: u8 where
  "FBSEC_AEAD_DIR_WRITE_REQUEST \<equiv> 0x04"

abbreviation (input) FBSEC_AEAD_DIR_READ_POLL_REQUEST :: u8 where
  "FBSEC_AEAD_DIR_READ_POLL_REQUEST \<equiv> 0x05"

abbreviation (input) FBSEC_AEAD_DIR_READ_POLL_RESPONSE :: u8 where
  "FBSEC_AEAD_DIR_READ_POLL_RESPONSE \<equiv> 0x06"

abbreviation (input) FBSEC_AEAD_DIR_WRITE_POLL_REQUEST :: u8 where
  "FBSEC_AEAD_DIR_WRITE_POLL_REQUEST \<equiv> 0x07"

section \<open>Abort codes\<close>

type_synonym abort = u8

abbreviation (input) FBSEC_ABORT_NONE :: abort where
  "FBSEC_ABORT_NONE \<equiv> 0x00"

abbreviation (input) FBSEC_ABORT_BAD_CMD :: abort where
  "FBSEC_ABORT_BAD_CMD \<equiv> 0x13"

abbreviation (input) FBSEC_ABORT_SEG_COUNTER :: abort where
  "FBSEC_ABORT_SEG_COUNTER \<equiv> 0x14"

abbreviation (input) FBSEC_ABORT_DATA_SIZE :: abort where
  "FBSEC_ABORT_DATA_SIZE \<equiv> 0x15"

abbreviation (input) FBSEC_ABORT_SESSION_ID :: abort where
  "FBSEC_ABORT_SESSION_ID \<equiv> 0x21"

abbreviation (input) FBSEC_ABORT_WRITE_ONLY :: abort where
  "FBSEC_ABORT_WRITE_ONLY \<equiv> 0x31"

abbreviation (input) FBSEC_ABORT_READ_ONLY :: abort where
  "FBSEC_ABORT_READ_ONLY \<equiv> 0x32"

abbreviation (input) FBSEC_ABORT_NO_OBJECT :: abort where
  "FBSEC_ABORT_NO_OBJECT \<equiv> 0x33"

abbreviation (input) FBSEC_ABORT_NO_SUBINDEX :: abort where
  "FBSEC_ABORT_NO_SUBINDEX \<equiv> 0x34"

abbreviation (input) FBSEC_ABORT_TYPE_MISMATCH :: abort where
  "FBSEC_ABORT_TYPE_MISMATCH \<equiv> 0x36"

abbreviation (input) FBSEC_ABORT_LEN_TOO_HIGH :: abort where
  "FBSEC_ABORT_LEN_TOO_HIGH \<equiv> 0x37"

abbreviation (input) FBSEC_ABORT_LEN_TOO_LOW :: abort where
  "FBSEC_ABORT_LEN_TOO_LOW \<equiv> 0x38"

abbreviation (input) FBSEC_ABORT_INTERNAL :: abort where
  "FBSEC_ABORT_INTERNAL \<equiv> 0x60"

abbreviation (input) FBSEC_ABORT_DEVICE_STATE :: abort where
  "FBSEC_ABORT_DEVICE_STATE \<equiv> 0x62"

abbreviation (input) FBSEC_ABORT_TAG_VERIFY :: abort where
  "FBSEC_ABORT_TAG_VERIFY \<equiv> 0xC0"

abbreviation (input) FBSEC_ABORT_SIG_VERIFY :: abort where
  "FBSEC_ABORT_SIG_VERIFY \<equiv> 0xC1"

abbreviation (input) FBSEC_ABORT_VOUCHER :: abort where
  "FBSEC_ABORT_VOUCHER \<equiv> 0xC2"

abbreviation (input) FBSEC_ABORT_ROLE_DENIED :: abort where
  "FBSEC_ABORT_ROLE_DENIED \<equiv> 0xC3"

abbreviation (input) FBSEC_ABORT_KEY_ID :: abort where
  "FBSEC_ABORT_KEY_ID \<equiv> 0xC4"

abbreviation (input) FBSEC_ABORT_NO_SESSION :: abort where
  "FBSEC_ABORT_NO_SESSION \<equiv> 0xC5"

abbreviation (input) FBSEC_ABORT_POLL_COUNTER :: abort where
  "FBSEC_ABORT_POLL_COUNTER \<equiv> 0xC6"

abbreviation (input) FBSEC_ABORT_KEY_BUDGET :: abort where
  "FBSEC_ABORT_KEY_BUDGET \<equiv> 0xC7"

abbreviation (input) FBSEC_ABORT_NOT_BUILT :: abort where
  "FBSEC_ABORT_NOT_BUILT \<equiv> 0xC8"

abbreviation (input) FBSEC_ABORT_NOT_IMPLEMENTED :: abort where
  "FBSEC_ABORT_NOT_IMPLEMENTED \<equiv> 0xC9"

end
