(* ===== verification/Aead.thy ===== *)
theory Aead
  imports Sofa_Config
begin

text \<open>
  Model of \<open>shared/fbsec_aead.h\<close> and \<open>shared/fbsec_aead.c\<close>: the wire key-id
  byte, the additional authenticated data, the XOR nonce and the
  seal / open pair in both modes. The block cipher mode itself (mbedTLS GCM)
  is not part of the repository: it is the record \<open>gcm\<close> of its three
  entry points, and \<open>gcm_ok\<close> is its documented contract.
\<close>

section \<open>The GCM parameter\<close>

text \<open>
  \<open>mbedtls_gcm_setkey\<close>, \<open>mbedtls_gcm_crypt_and_tag\<close> in encrypt mode
  (key, nonce, additional data, plaintext) and \<open>mbedtls_gcm_auth_decrypt\<close> (key,
  nonce, additional data, tag, ciphertext); \<open>None\<close> is a non-zero return code.
\<close>

record gcm =
  gcm_setkey :: "bytes \<Rightarrow> bool"
  gcm_crypt_and_tag :: "bytes \<Rightarrow> bytes \<Rightarrow> bytes \<Rightarrow> bytes \<Rightarrow> (bytes \<times> bytes) option"
  gcm_auth_decrypt :: "bytes \<Rightarrow> bytes \<Rightarrow> bytes \<Rightarrow> bytes \<Rightarrow> bytes \<Rightarrow> bytes option"

text \<open>
  The documented contract for a 16-byte key and a 12-byte nonce: encryption
  succeeds with a ciphertext as long as the plaintext and a 16-byte tag, and
  decryption succeeds exactly on what encryption produced.
\<close>

definition gcm_ok :: "gcm \<Rightarrow> bool" where
  "gcm_ok g \<longleftrightarrow>
     (\<forall>k n a p. length k = FBSEC_AEAD_KEY_SIZE \<longrightarrow> length n = FBSEC_AEAD_NONCE_SIZE \<longrightarrow>
        gcm_setkey g k \<and>
        (\<exists>c t. gcm_crypt_and_tag g k n a p = Some (c, t) \<and> length c = length p \<and> length t = 16) \<and>
        (\<forall>c t. gcm_auth_decrypt g k n a t c = Some p \<longleftrightarrow>
               gcm_crypt_and_tag g k n a p = Some (c, t)))"

lemma gcm_ok_setkey:
  "gcm_ok g \<Longrightarrow> length k = FBSEC_AEAD_KEY_SIZE \<Longrightarrow> gcm_setkey g k"
  unfolding gcm_ok_def using ex_bytes_length [of FBSEC_AEAD_NONCE_SIZE] by blast

lemma gcm_ok_enc:
  assumes "gcm_ok g" "length k = FBSEC_AEAD_KEY_SIZE" "length n = FBSEC_AEAD_NONCE_SIZE"
  obtains c t where "gcm_crypt_and_tag g k n a p = Some (c, t)" "length c = length p" "length t = 16"
  using assms unfolding gcm_ok_def by blast

lemma gcm_ok_dec:
  "gcm_ok g \<Longrightarrow> length k = FBSEC_AEAD_KEY_SIZE \<Longrightarrow> length n = FBSEC_AEAD_NONCE_SIZE \<Longrightarrow>
   gcm_auth_decrypt g k n a t c = Some p \<longleftrightarrow> gcm_crypt_and_tag g k n a p = Some (c, t)"
  unfolding gcm_ok_def by blast

lemma gcm_ok_lengths:
  "gcm_ok g \<Longrightarrow> length k = FBSEC_AEAD_KEY_SIZE \<Longrightarrow> length n = FBSEC_AEAD_NONCE_SIZE \<Longrightarrow>
   gcm_crypt_and_tag g k n a p = Some (c, t) \<Longrightarrow> length c = length p \<and> length t = 16"
  by (metis gcm_ok_enc option.inject prod.inject)

section \<open>The key-id byte\<close>

definition FBSEC_AEAD_MECHANISM_FOR :: "u8 \<Rightarrow> u8" where
  "FBSEC_AEAD_MECHANISM_FOR kid = (kid AND 0x80) OR FBSEC_AEAD_PRIMITIVE_ID"

definition FBSEC_AEAD_KEYID_ENCRYPT :: "u8 \<Rightarrow> bool" where
  "FBSEC_AEAD_KEYID_ENCRYPT kid \<longleftrightarrow> kid AND 0x80 \<noteq> 0"

definition FBSEC_AEAD_KEYID_IS_CYCLIC :: "u8 \<Rightarrow> bool" where
  "FBSEC_AEAD_KEYID_IS_CYCLIC kid \<longleftrightarrow> kid AND 0x40 \<noteq> 0"

definition FBSEC_AEAD_KEYID_RESERVED :: "u8 \<Rightarrow> u8" where
  "FBSEC_AEAD_KEYID_RESERVED kid = drop_bit 4 kid AND 0x03"

definition FBSEC_AEAD_KEYID_BASE :: "u8 \<Rightarrow> u8" where
  "FBSEC_AEAD_KEYID_BASE kid = kid AND 0x0F"

section \<open>Additional authenticated data\<close>

definition dir_takes_dual_randoms :: "u8 \<Rightarrow> bool" where
  "dir_takes_dual_randoms direction \<longleftrightarrow>
     direction = FBSEC_AEAD_DIR_READ_RESPONSE \<or> direction = FBSEC_AEAD_DIR_WRITE_REQUEST"

text \<open>
  \<open>aad_build\<close>: a NULL pointer is \<open>None\<close>. The caller passes a \<open>data_len\<close>
  next to the pointer; the data appended are the first \<open>data_len\<close> bytes.
\<close>

definition aad_build ::
  "u8 \<Rightarrow> u8 \<Rightarrow> u16 \<Rightarrow> u16 \<Rightarrow> u32 \<Rightarrow> bytes option \<Rightarrow> bytes option \<Rightarrow>
   bool \<Rightarrow> bytes option \<Rightarrow> u16 \<Rightarrow> bytes" where
  "aad_build direction key_id server_device_id client_device_id data_id
     client_random_rd server_random_rd include_data data data_len =
     [FBSEC_AEAD_PROTOCOL_VERSION,
      FBSEC_AEAD_MECHANISM_FOR key_id,
      direction,
      key_id,
      ucast server_device_id,
      ucast client_device_id]
     @ le32 data_id
     @ le16 data_len
     @ (if dir_takes_dual_randoms direction then
          (case (client_random_rd, server_random_rd) of
             (Some cr, Some sr) \<Rightarrow> take FBSEC_AEAD_RAND_SIZE cr @ take FBSEC_AEAD_RAND_SIZE sr
           | _ \<Rightarrow> [])
        else [])
     @ (if include_data \<and> data_len > 0 then
          (case data of Some d \<Rightarrow> take (unat data_len) d | None \<Rightarrow> [])
        else [])"

section \<open>GCM helpers\<close>

definition gcm_mac_only :: "gcm \<Rightarrow> bytes \<Rightarrow> bytes \<Rightarrow> bytes \<Rightarrow> bytes option" where
  "gcm_mac_only g key nonce aad =
     (if \<not> gcm_setkey g key then None
      else case gcm_crypt_and_tag g key nonce aad [] of
             None \<Rightarrow> None
           | Some (_, full_tag) \<Rightarrow> Some (take FBSEC_AEAD_TAG_SIZE full_tag))"

definition gcm_seal :: "gcm \<Rightarrow> bytes \<Rightarrow> bytes \<Rightarrow> bytes \<Rightarrow> bytes \<Rightarrow> (bytes \<times> bytes) option" where
  "gcm_seal g key nonce aad plaintext =
     (if \<not> gcm_setkey g key then None
      else case gcm_crypt_and_tag g key nonce aad plaintext of
             None \<Rightarrow> None
           | Some (ct, full_tag) \<Rightarrow> Some (ct, take FBSEC_AEAD_TAG_SIZE full_tag))"

definition gcm_open :: "gcm \<Rightarrow> bytes \<Rightarrow> bytes \<Rightarrow> bytes \<Rightarrow> bytes \<Rightarrow> bytes \<Rightarrow> bytes option" where
  "gcm_open g key nonce aad ciphertext tag_in =
     (if \<not> gcm_setkey g key then None
      else gcm_auth_decrypt g key nonce aad tag_in ciphertext)"

text \<open>\<open>const_time_diff\<close>: the OR over the byte differences.\<close>

definition const_time_diff :: "bytes \<Rightarrow> bytes \<Rightarrow> nat \<Rightarrow> u8" where
  "const_time_diff a b n = fold (\<lambda>i diff. diff OR (a ! i XOR b ! i)) [0..<n] 0"

definition fbsec_aead_xor_nonce :: "bytes \<Rightarrow> bytes \<Rightarrow> bytes" where
  "fbsec_aead_xor_nonce client_random_rd server_random_rd =
     map (\<lambda>i. client_random_rd ! i XOR server_random_rd ! i) [0..<FBSEC_AEAD_NONCE_SIZE]"

section \<open>Public operations\<close>

definition fbsec_aead_compute_tag ::
  "gcm \<Rightarrow> bytes \<Rightarrow> bytes \<Rightarrow> u8 \<Rightarrow> u8 \<Rightarrow> u16 \<Rightarrow> u16 \<Rightarrow> u32 \<Rightarrow> bytes option \<Rightarrow> bytes option \<Rightarrow>
   bytes \<Rightarrow> bytes option" where
  "fbsec_aead_compute_tag g key nonce direction key_id sid cid data_id cr sr data =
     (if length data > FBSEC_AEAD_MAX_PROTECTED then None
      else gcm_mac_only g key nonce
             (aad_build direction key_id sid cid data_id cr sr True (Some data)
                (of_nat (length data))))"

definition fbsec_aead_verify_tag ::
  "gcm \<Rightarrow> bytes \<Rightarrow> bytes \<Rightarrow> u8 \<Rightarrow> u8 \<Rightarrow> u16 \<Rightarrow> u16 \<Rightarrow> u32 \<Rightarrow> bytes option \<Rightarrow> bytes option \<Rightarrow>
   bytes \<Rightarrow> bytes \<Rightarrow> bool" where
  "fbsec_aead_verify_tag g key nonce direction key_id sid cid data_id cr sr data tag_in =
     (case fbsec_aead_compute_tag g key nonce direction key_id sid cid data_id cr sr data of
        None \<Rightarrow> False
      | Some expected \<Rightarrow> const_time_diff expected tag_in FBSEC_AEAD_TAG_SIZE = 0)"

definition fbsec_aead_seal ::
  "gcm \<Rightarrow> bytes \<Rightarrow> bytes \<Rightarrow> u8 \<Rightarrow> u8 \<Rightarrow> u16 \<Rightarrow> u16 \<Rightarrow> u32 \<Rightarrow> bytes option \<Rightarrow> bytes option \<Rightarrow>
   bytes \<Rightarrow> (bytes \<times> bytes) option" where
  "fbsec_aead_seal g key nonce direction key_id sid cid data_id cr sr plaintext =
     (if length plaintext > FBSEC_AEAD_MAX_PROTECTED then None
      else if FBSEC_AEAD_KEYID_ENCRYPT key_id then
        gcm_seal g key nonce
          (aad_build direction key_id sid cid data_id cr sr False None 0) plaintext
      else
        (case gcm_mac_only g key nonce
               (aad_build direction key_id sid cid data_id cr sr True (Some plaintext)
                  (of_nat (length plaintext))) of
           None \<Rightarrow> None
         | Some tag \<Rightarrow> Some (plaintext, tag)))"

definition fbsec_aead_open ::
  "gcm \<Rightarrow> bytes \<Rightarrow> bytes \<Rightarrow> u8 \<Rightarrow> u8 \<Rightarrow> u16 \<Rightarrow> u16 \<Rightarrow> u32 \<Rightarrow> bytes option \<Rightarrow> bytes option \<Rightarrow>
   bytes \<Rightarrow> bytes \<Rightarrow> bytes option" where
  "fbsec_aead_open g key nonce direction key_id sid cid data_id cr sr ciphertext tag_in =
     (if length ciphertext > FBSEC_AEAD_MAX_PROTECTED then None
      else if FBSEC_AEAD_KEYID_ENCRYPT key_id then
        gcm_open g key nonce
          (aad_build direction key_id sid cid data_id cr sr False None 0) ciphertext tag_in
      else
        (case gcm_mac_only g key nonce
               (aad_build direction key_id sid cid data_id cr sr True (Some ciphertext)
                  (of_nat (length ciphertext))) of
           None \<Rightarrow> None
         | Some expected \<Rightarrow>
             if const_time_diff expected tag_in FBSEC_AEAD_TAG_SIZE \<noteq> 0 then None
             else Some ciphertext))"

section \<open>Lemmas\<close>

lemma const_time_diff_zero:
  "const_time_diff a b n = 0 \<longleftrightarrow> (\<forall>i<n. a ! i = b ! i)"
proof -
  have "fold (\<lambda>i diff. diff OR (a ! i XOR b ! i)) [0..<n] 0 = 0
    \<longleftrightarrow> (\<forall>i<n. a ! i = b ! i)"
    by (induction n) (auto simp: less_Suc_eq or_eq_0_iff)
  then show ?thesis by (simp add: const_time_diff_def)
qed

lemma const_time_diff_eq:
  "length a = n \<Longrightarrow> length b = n \<Longrightarrow> const_time_diff a b n = 0 \<longleftrightarrow> a = b"
  by (auto simp: const_time_diff_zero intro: nth_equalityI)

lemma const_time_diff_refl [simp]: "const_time_diff a a n = 0"
  by (simp add: const_time_diff_zero)

lemma keyid_cases:
  "FBSEC_AEAD_MECHANISM_FOR kid =
     (if FBSEC_AEAD_KEYID_ENCRYPT kid then 0x81 else 0x01)"
proof -
  have "kid AND 0x80 = (if bit kid 7 then 0x80 else 0)"
    by (rule bit_word_eqI) (auto simp: bit_simps less_Suc_eq numeral_eq_Suc)
  then show ?thesis
    by (simp add: FBSEC_AEAD_MECHANISM_FOR_def FBSEC_AEAD_KEYID_ENCRYPT_def)
qed

lemma keyid_base_less: "FBSEC_AEAD_KEYID_BASE kid < 16"
proof -
  have "kid AND 0x0F \<le> 0x0F" by (rule word_and_le1)
  then show ?thesis by (simp add: FBSEC_AEAD_KEYID_BASE_def word_le_nat_alt word_less_nat_alt)
qed

lemma length_xor_nonce [simp, sofa_len]: "length (fbsec_aead_xor_nonce a b) = FBSEC_AEAD_NONCE_SIZE"
  by (simp add: fbsec_aead_xor_nonce_def)


lemma xor_nonce_inject_server:
  "length cr = FBSEC_AEAD_RAND_SIZE \<Longrightarrow> length sr = FBSEC_AEAD_RAND_SIZE \<Longrightarrow>
   length sr' = FBSEC_AEAD_RAND_SIZE \<Longrightarrow>
   fbsec_aead_xor_nonce cr sr = fbsec_aead_xor_nonce cr sr' \<longleftrightarrow> sr = sr'"
  by (auto simp: fbsec_aead_xor_nonce_def intro!: nth_equalityI)

lemma xor_nonce_inject_client:
  "length cr = FBSEC_AEAD_RAND_SIZE \<Longrightarrow> length sr = FBSEC_AEAD_RAND_SIZE \<Longrightarrow>
   length cr' = FBSEC_AEAD_RAND_SIZE \<Longrightarrow>
   fbsec_aead_xor_nonce cr sr = fbsec_aead_xor_nonce cr' sr \<longleftrightarrow> cr = cr'"
  by (auto simp: fbsec_aead_xor_nonce_def intro!: nth_equalityI)

text \<open>
  The additional data never outgrows the stack buffer of \<open>seal\<close> and \<open>open\<close>.
\<close>

lemma aad_build_length_le:
  assumes "unat n \<le> FBSEC_AEAD_MAX_PROTECTED"
  shows "length (aad_build d k s c i cr sr inc data n) \<le> FBSEC_AEAD_AAD_MAX"
  using assms by (auto simp: aad_build_def split: option.splits)

lemma aad_build_length_dual:
  assumes "dir_takes_dual_randoms d" "length cr = FBSEC_AEAD_RAND_SIZE"
    "length sr = FBSEC_AEAD_RAND_SIZE"
  shows "length (aad_build d k s c i (Some cr) (Some sr) False None 0) = 36"
  using assms by (simp add: aad_build_def)

text \<open>The fixed prefix determines everything but the peer identifiers' high bytes.\<close>

lemma aad_build_prefix:
  assumes "aad_build d k s c i cr sr inc data n = aad_build d' k' s' c' i' cr' sr' inc' data' n'"
  shows "d = d'" "k = k'" "(ucast s :: u8) = ucast s'" "(ucast c :: u8) = ucast c'"
    "i = i'" "n = n'"
  using assms by (simp_all add: aad_build_def append_eq_split)

lemma aad_build_tail:
  assumes eq: "aad_build d k s c i (Some cr) (Some sr) inc (Some data) n =
      aad_build d k s c i (Some cr') (Some sr') inc (Some data') n"
    and len: "length cr = FBSEC_AEAD_RAND_SIZE" "length sr = FBSEC_AEAD_RAND_SIZE"
      "length cr' = FBSEC_AEAD_RAND_SIZE" "length sr' = FBSEC_AEAD_RAND_SIZE"
  shows "(dir_takes_dual_randoms d \<longrightarrow> cr = cr' \<and> sr = sr') \<and>
    (inc \<and> n > 0 \<longrightarrow> take (unat n) data = take (unat n) data')"
  using eq len by (auto simp: aad_build_def append_eq_split split: if_splits)

text \<open>Both modes: what \<open>open\<close> accepts is exactly what \<open>seal\<close> produces.\<close>

lemma gcm_mac_only_ok:
  assumes "gcm_ok g" "length k = FBSEC_AEAD_KEY_SIZE" "length n = FBSEC_AEAD_NONCE_SIZE"
  obtains t where "gcm_mac_only g k n a = Some t" "length t = FBSEC_AEAD_TAG_SIZE"
proof -
  obtain c t where "gcm_crypt_and_tag g k n a [] = Some (c, t)" "length t = 16"
    by (rule gcm_ok_enc [OF assms])
  then have "gcm_mac_only g k n a = Some t"
    using gcm_ok_setkey [OF assms(1,2)] by (simp add: gcm_mac_only_def)
  then show ?thesis using that \<open>length t = 16\<close> by blast
qed

lemma seal_succeeds:
  assumes "gcm_ok g" "length key = FBSEC_AEAD_KEY_SIZE" "length nonce = FBSEC_AEAD_NONCE_SIZE"
    "length pt \<le> FBSEC_AEAD_MAX_PROTECTED"
  obtains ct tag where
    "fbsec_aead_seal g key nonce d kid s c i cr sr pt = Some (ct, tag)"
    "length ct = length pt" "length tag = FBSEC_AEAD_TAG_SIZE"
proof (cases "FBSEC_AEAD_KEYID_ENCRYPT kid")
  case True
  obtain ct tag where enc: "gcm_crypt_and_tag g key nonce
        (aad_build d kid s c i cr sr False None 0) pt = Some (ct, tag)"
      "length ct = length pt" "length tag = 16"
    by (rule gcm_ok_enc [OF assms(1-3)])
  then have "fbsec_aead_seal g key nonce d kid s c i cr sr pt = Some (ct, tag)"
    using True assms(4) gcm_ok_setkey [OF assms(1,2)]
    by (simp add: fbsec_aead_seal_def gcm_seal_def)
  then show ?thesis using that enc by blast
next
  case False
  obtain tag where mac: "gcm_mac_only g key nonce
        (aad_build d kid s c i cr sr True (Some pt) (of_nat (length pt))) = Some tag"
      "length tag = FBSEC_AEAD_TAG_SIZE"
    by (rule gcm_mac_only_ok [OF assms(1-3)])
  then have "fbsec_aead_seal g key nonce d kid s c i cr sr pt = Some (pt, tag)"
    using False assms(4) by (simp add: fbsec_aead_seal_def)
  then show ?thesis using that mac by blast
qed

lemma seal_lengths:
  assumes "gcm_ok g" "length key = FBSEC_AEAD_KEY_SIZE" "length nonce = FBSEC_AEAD_NONCE_SIZE"
    "fbsec_aead_seal g key nonce d kid s c i cr sr pt = Some (ct, tag)"
  shows "length ct = length pt" "length tag = FBSEC_AEAD_TAG_SIZE"
    "length pt \<le> FBSEC_AEAD_MAX_PROTECTED"
proof -
  show pt: "length pt \<le> FBSEC_AEAD_MAX_PROTECTED"
    using assms(4) by (simp add: fbsec_aead_seal_def split: if_splits)
  obtain ct' tag' where "fbsec_aead_seal g key nonce d kid s c i cr sr pt = Some (ct', tag')"
      "length ct' = length pt" "length tag' = FBSEC_AEAD_TAG_SIZE"
    by (rule seal_succeeds [OF assms(1-3) pt])
  then show "length ct = length pt" "length tag = FBSEC_AEAD_TAG_SIZE" using assms(4) by simp_all
qed

lemma open_iff_seal:
  assumes "gcm_ok g" "length key = FBSEC_AEAD_KEY_SIZE" "length nonce = FBSEC_AEAD_NONCE_SIZE"
    "length tag = FBSEC_AEAD_TAG_SIZE"
  shows "fbsec_aead_open g key nonce d kid s c i cr sr ct tag = Some pt \<longleftrightarrow>
    fbsec_aead_seal g key nonce d kid s c i cr sr pt = Some (ct, tag)"
proof (cases "FBSEC_AEAD_KEYID_ENCRYPT kid")
  case True
  let ?a = "aad_build d kid s c i cr sr False None 0"
  note key = gcm_ok_setkey [OF assms(1,2)]
  have open_eq: "gcm_open g key nonce ?a ct tag = Some pt \<longleftrightarrow>
      gcm_crypt_and_tag g key nonce ?a pt = Some (ct, tag)"
    using key gcm_ok_dec [OF assms(1-3)] by (simp add: gcm_open_def)
  obtain c' t' where enc: "gcm_crypt_and_tag g key nonce ?a pt = Some (c', t')"
      "length c' = length pt" "length t' = 16"
    by (rule gcm_ok_enc [OF assms(1-3)])
  then have seal_eq: "gcm_seal g key nonce ?a pt = Some (ct, tag) \<longleftrightarrow>
      gcm_crypt_and_tag g key nonce ?a pt = Some (ct, tag)"
    using key by (simp add: gcm_seal_def)
  have len: "gcm_crypt_and_tag g key nonce ?a pt = Some (ct, tag) \<Longrightarrow> length ct = length pt"
    using enc by simp
  show ?thesis
  proof (cases "length ct = length pt")
    case same: True
    then show ?thesis
      using True by (simp add: fbsec_aead_seal_def fbsec_aead_open_def open_eq seal_eq)
  next
    case diff: False
    then have "gcm_crypt_and_tag g key nonce ?a pt \<noteq> Some (ct, tag)" using len by blast
    then show ?thesis
      using True by (simp add: fbsec_aead_seal_def fbsec_aead_open_def open_eq seal_eq)
  qed
next
  case False
  obtain t where t: "gcm_mac_only g key nonce
        (aad_build d kid s c i cr sr True (Some ct) (of_nat (length ct))) = Some t"
      "length t = FBSEC_AEAD_TAG_SIZE"
    by (rule gcm_mac_only_ok [OF assms(1-3)])
  then have "const_time_diff t tag FBSEC_AEAD_TAG_SIZE = 0 \<longleftrightarrow> t = tag"
    using assms(4) by (simp add: const_time_diff_eq)
  with False t show ?thesis
    by (auto simp: fbsec_aead_seal_def fbsec_aead_open_def split: option.splits)
qed

lemma open_length:
  assumes "gcm_ok g" "length key = FBSEC_AEAD_KEY_SIZE" "length nonce = FBSEC_AEAD_NONCE_SIZE"
    "length tag = FBSEC_AEAD_TAG_SIZE"
    "fbsec_aead_open g key nonce d kid s c i cr sr ct tag = Some pt"
  shows "length pt = length ct"
proof -
  from assms have seal: "fbsec_aead_seal g key nonce d kid s c i cr sr pt = Some (ct, tag)"
    by (simp add: open_iff_seal)
  then have "length pt \<le> FBSEC_AEAD_MAX_PROTECTED"
    by (simp add: fbsec_aead_seal_def split: if_splits)
  with seal_succeeds [OF assms(1-3) this, of d kid s c i cr sr] seal show ?thesis
    by (metis option.inject prod.inject)
qed

section \<open>A concrete instance of the contract\<close>

text \<open>
  A stand-in for GCM on which witnesses evaluate: the ciphertext is the
  plaintext masked by the key's first byte, the tag the nonce followed by
  checksums of key, additional data and plaintext. It satisfies \<open>gcm_ok\<close>;
  nothing but the witnesses uses it.
\<close>

definition xsum :: "bytes \<Rightarrow> u8" where
  "xsum xs = foldr (\<lambda>x acc. 3 * acc + x) xs 0"

definition demo_gcm :: gcm where
  "demo_gcm = \<lparr>
     gcm_setkey = (\<lambda>k. length k = FBSEC_AEAD_KEY_SIZE),
     gcm_crypt_and_tag = (\<lambda>k n a p.
       if length n = FBSEC_AEAD_NONCE_SIZE
       then Some (map (\<lambda>x. x XOR hd k) p, n @ [xsum k, xsum a, xsum p, hd k]) else None),
     gcm_auth_decrypt = (\<lambda>k n a t c.
       let p = map (\<lambda>x. x XOR hd k) c in
       if length n = FBSEC_AEAD_NONCE_SIZE \<and> t = n @ [xsum k, xsum a, xsum p, hd k]
       then Some p else None)\<rparr>"

lemma map_xor_twice [simp]: "map (\<lambda>x. x XOR k) (map (\<lambda>x. x XOR (k :: u8)) xs) = xs"
  by (simp add: xor.assoc comp_def)

lemma map_xor_eq_iff:
  "map (\<lambda>x. x XOR (k :: u8)) xs = ys \<longleftrightarrow> xs = map (\<lambda>x. x XOR k) ys"
  by (metis map_xor_twice)

lemma ex_map_xor [simp]: "\<exists>c. p = map (\<lambda>x. x XOR (k :: u8)) c \<and> length c = length p"
  by (rule exI [where x = "map (\<lambda>x. x XOR k) p"]) (simp add: xor.assoc comp_def)

lemma demo_gcm_ok: "gcm_ok demo_gcm"
  by (auto simp: gcm_ok_def demo_gcm_def Let_def map_xor_eq_iff xor.assoc comp_def)

end
