(* ===== verification/Hkdf.thy ===== *)
theory Hkdf
  imports Sofa_Config
begin

text \<open>
  Model of \<open>shared/fbsec_hkdf.c\<close>: HMAC-SHA256 over up to three message
  segments and HKDF (RFC 5869). mbedTLS SHA-256 is a parameter: the record
  \<open>sha\<close> of its streaming entry points over a context type, with the
  contract \<open>sha_ok\<close> that the streamed segments hash like their
  concatenation. The code is proved equal to the RFC's definition of HKDF.
\<close>

abbreviation (input) FBSEC_HKDF_HASH_LEN :: nat where
  "FBSEC_HKDF_HASH_LEN \<equiv> 32"

abbreviation (input) FBSEC_HKDF_BLOCK_LEN :: nat where
  "FBSEC_HKDF_BLOCK_LEN \<equiv> 64"

section \<open>The SHA-256 parameter\<close>

record 'c sha =
  sha_starts :: "'c option"
  sha_update :: "'c \<Rightarrow> bytes \<Rightarrow> 'c option"
  sha_finish :: "'c \<Rightarrow> bytes option"

text \<open>
  The contract: contexts reached from \<open>starts\<close> by \<open>update\<close>s carry the
  bytes fed so far (\<open>absorbed\<close>), and \<open>finish\<close> returns their 32-byte hash.
\<close>

definition sha_ok :: "'c sha \<Rightarrow> ('c \<Rightarrow> bytes) \<Rightarrow> (bytes \<Rightarrow> bytes) \<Rightarrow> bool" where
  "sha_ok S absorbed H \<longleftrightarrow>
     (\<exists>c. sha_starts S = Some c \<and> absorbed c = []) \<and>
     (\<forall>c d. \<exists>c'. sha_update S c d = Some c' \<and> absorbed c' = absorbed c @ d) \<and>
     (\<forall>c. sha_finish S c = Some (H (absorbed c))) \<and>
     (\<forall>m. length (H m) = FBSEC_HKDF_HASH_LEN)"

section \<open>The code\<close>

text \<open>One guarded \<open>update\<close>: skipped on a NULL or empty segment.\<close>

definition feed :: "'c sha \<Rightarrow> bytes option \<Rightarrow> 'c \<Rightarrow> 'c option" where
  "feed S seg c =
     (case seg of
        None \<Rightarrow> Some c
      | Some d \<Rightarrow> if length d > 0 then sha_update S c d else Some c)"

definition fbsec_sha256 :: "'c sha \<Rightarrow> bytes option \<Rightarrow> bytes option" where
  "fbsec_sha256 S data =
     (case sha_starts S of
        None \<Rightarrow> None
      | Some c \<Rightarrow>
          (case feed S data c of
             None \<Rightarrow> None
           | Some c' \<Rightarrow> sha_finish S c'))"

text \<open>\<open>memset\<close> to zero, then a copy into the front of a block-sized buffer.\<close>

definition zero_pad :: "nat \<Rightarrow> bytes \<Rightarrow> bytes" where
  "zero_pad n xs = xs @ replicate (n - length xs) 0"

definition hmac_k0 :: "'c sha \<Rightarrow> bytes \<Rightarrow> bytes option" where
  "hmac_k0 S key =
     (if length key > FBSEC_HKDF_BLOCK_LEN then
        (case fbsec_sha256 S (Some key) of
           None \<Rightarrow> None
         | Some h \<Rightarrow> Some (zero_pad FBSEC_HKDF_BLOCK_LEN h))
      else Some (zero_pad FBSEC_HKDF_BLOCK_LEN key))"

definition fbsec_hmac_sha256 ::
  "'c sha \<Rightarrow> bytes \<Rightarrow> bytes option \<Rightarrow> bytes option \<Rightarrow> bytes option \<Rightarrow> bytes option" where
  "fbsec_hmac_sha256 S key msg_a msg_b msg_c =
     (case hmac_k0 S key of
        None \<Rightarrow> None
      | Some k0 \<Rightarrow>
          let ipad = map (\<lambda>b. b XOR 0x36) k0;
              opad = map (\<lambda>b. b XOR 0x5C) k0
          in (case Option.bind (sha_starts S) (\<lambda>c0.
                   Option.bind (sha_update S c0 ipad) (\<lambda>c1.
                   Option.bind (feed S msg_a c1) (\<lambda>c2.
                   Option.bind (feed S msg_b c2) (\<lambda>c3.
                   Option.bind (feed S msg_c c3) (sha_finish S))))) of
                None \<Rightarrow> None
              | Some inner \<Rightarrow> fbsec_sha256 S (Some (opad @ inner))))"

text \<open>
  The expand loop \<open>while (produced < okm_len)\<close>: \<open>okm\<close> holds the bytes written
  so far, \<open>t\<close> the last block (empty before the first round), \<open>counter\<close> the
  8-bit block number.
\<close>

function hkdf_expand ::
  "'c sha \<Rightarrow> bytes \<Rightarrow> bytes \<Rightarrow> nat \<Rightarrow> nat \<Rightarrow> bytes \<Rightarrow> bytes \<Rightarrow> u8 \<Rightarrow> bytes option" where
  "hkdf_expand S prk info okm_len produced okm t counter =
     (if produced < okm_len then
        (case fbsec_hmac_sha256 S prk (Some t) (Some info) (Some [counter + 1]) of
           None \<Rightarrow> None
         | Some t' \<Rightarrow>
             let n = min (okm_len - produced) FBSEC_HKDF_HASH_LEN
             in hkdf_expand S prk info okm_len (produced + n) (okm @ take n t') t' (counter + 1))
      else Some okm)"
  by pat_completeness auto
termination
  by (relation "measure (\<lambda>(_, _, _, okm_len, produced, _, _, _). okm_len - produced)")
     (auto simp: min_def)

declare hkdf_expand.simps [simp del]

definition fbsec_hkdf_sha256 ::
  "'c sha \<Rightarrow> bytes \<Rightarrow> bytes option \<Rightarrow> bytes \<Rightarrow> nat \<Rightarrow> bytes option" where
  "fbsec_hkdf_sha256 S ikm salt info okm_len =
     (if length ikm = 0 then None
      else if okm_len = 0 then None
      else if okm_len > 255 * FBSEC_HKDF_HASH_LEN then None
      else
        let salt' = (case salt of
                       None \<Rightarrow> replicate FBSEC_HKDF_HASH_LEN 0
                     | Some s \<Rightarrow> if length s = 0 then replicate FBSEC_HKDF_HASH_LEN 0 else s)
        in (case fbsec_hmac_sha256 S salt' (Some ikm) None None of
              None \<Rightarrow> None
            | Some prk \<Rightarrow> hkdf_expand S prk info okm_len 0 [] [] 0))"

section \<open>RFC 5869 and RFC 2104, over the hash function\<close>

definition hmac_ref :: "(bytes \<Rightarrow> bytes) \<Rightarrow> bytes \<Rightarrow> bytes \<Rightarrow> bytes" where
  "hmac_ref H key m =
     (let k0 = zero_pad FBSEC_HKDF_BLOCK_LEN
                 (if length key > FBSEC_HKDF_BLOCK_LEN then H key else key)
      in H (map (\<lambda>b. b XOR 0x5C) k0 @ H (map (\<lambda>b. b XOR 0x36) k0 @ m)))"

text \<open>\<open>T(0)\<close> is empty and \<open>T(i+1)\<close> is the HMAC of \<open>T(i) | info | i+1\<close>.\<close>

fun rfc_T :: "(bytes \<Rightarrow> bytes) \<Rightarrow> bytes \<Rightarrow> bytes \<Rightarrow> nat \<Rightarrow> bytes" where
  "rfc_T H prk info 0 = []"
| "rfc_T H prk info (Suc i) = hmac_ref H prk (rfc_T H prk info i @ info @ [of_nat (Suc i)])"

definition rfc_okm :: "(bytes \<Rightarrow> bytes) \<Rightarrow> bytes \<Rightarrow> bytes \<Rightarrow> nat \<Rightarrow> nat \<Rightarrow> bytes" where
  "rfc_okm H prk info n l = take l (concat (map (rfc_T H prk info) [1..<Suc n]))"

definition hkdf_ref :: "(bytes \<Rightarrow> bytes) \<Rightarrow> bytes \<Rightarrow> bytes \<Rightarrow> bytes \<Rightarrow> nat \<Rightarrow> bytes" where
  "hkdf_ref H salt ikm info l =
     rfc_okm H
       (hmac_ref H (if salt = [] then replicate FBSEC_HKDF_HASH_LEN 0 else salt) ikm)
       info ((l + (FBSEC_HKDF_HASH_LEN - 1)) div FBSEC_HKDF_HASH_LEN) l"


section \<open>The code computes the RFC functions\<close>

definition seg :: "bytes option \<Rightarrow> bytes" where
  "seg m = (case m of None \<Rightarrow> [] | Some d \<Rightarrow> d)"

lemma seg_simps [simp]: "seg None = []" "seg (Some d) = d"
  by (simp_all add: seg_def)

lemma feed_ok:
  assumes "sha_ok S absorbed H"
  obtains c' where "feed S m c = Some c'" "absorbed c' = absorbed c @ seg m"
proof -
  have "\<exists>c'. sha_update S c d = Some c' \<and> absorbed c' = absorbed c @ d" for d
    using assms unfolding sha_ok_def by blast
  then have "\<exists>c'. feed S m c = Some c' \<and> absorbed c' = absorbed c @ seg m"
    by (cases m) (auto simp: feed_def)
  then show ?thesis using that by blast
qed

lemma sha_ok_finish: "sha_ok S absorbed H \<Longrightarrow> sha_finish S c = Some (H (absorbed c))"
  by (simp add: sha_ok_def)

lemma sha_ok_length [simp]: "sha_ok S absorbed H \<Longrightarrow> length (H m) = FBSEC_HKDF_HASH_LEN"
  by (simp add: sha_ok_def)

lemma fbsec_sha256_ok:
  assumes "sha_ok S absorbed H"
  shows "fbsec_sha256 S m = Some (H (seg m))"
proof -
  obtain c where c: "sha_starts S = Some c" "absorbed c = []"
    using assms by (auto simp: sha_ok_def)
  obtain c' where "feed S m c = Some c'" "absorbed c' = absorbed c @ seg m"
    by (rule feed_ok [OF assms])
  then show ?thesis using c assms by (simp add: fbsec_sha256_def sha_ok_finish)
qed

lemma hmac_k0_ok:
  assumes "sha_ok S absorbed H"
  shows "hmac_k0 S key = Some (zero_pad FBSEC_HKDF_BLOCK_LEN
    (if length key > FBSEC_HKDF_BLOCK_LEN then H key else key))"
  by (simp add: hmac_k0_def fbsec_sha256_ok [OF assms])

lemma hmac_ok:
  assumes "sha_ok S absorbed H"
  shows "fbsec_hmac_sha256 S key a b c = Some (hmac_ref H key (seg a @ seg b @ seg c))"
proof -
  define k0 where "k0 = zero_pad FBSEC_HKDF_BLOCK_LEN
    (if length key > FBSEC_HKDF_BLOCK_LEN then H key else key)"
  define ipad where "ipad = map (\<lambda>b. b XOR 0x36) k0"
  obtain c0 where c0: "sha_starts S = Some c0" "absorbed c0 = []"
    using assms by (auto simp: sha_ok_def)
  obtain c1 where c1: "sha_update S c0 ipad = Some c1" "absorbed c1 = absorbed c0 @ ipad"
    using assms unfolding sha_ok_def by blast
  obtain c2 where c2: "feed S a c1 = Some c2" "absorbed c2 = absorbed c1 @ seg a"
    by (rule feed_ok [OF assms])
  obtain c3 where c3: "feed S b c2 = Some c3" "absorbed c3 = absorbed c2 @ seg b"
    by (rule feed_ok [OF assms])
  obtain c4 where c4: "feed S c c3 = Some c4" "absorbed c4 = absorbed c3 @ seg c"
    by (rule feed_ok [OF assms])
  have "hmac_k0 S key = Some k0"
    by (simp add: hmac_k0_ok [OF assms] k0_def)
  then show ?thesis
    using c0 c1 c2 c3 c4
    by (simp add: fbsec_hmac_sha256_def hmac_ref_def Let_def ipad_def [symmetric]
        k0_def [symmetric] sha_ok_finish [OF assms] fbsec_sha256_ok [OF assms])
qed

lemma length_hmac_ref [simp]:
  "sha_ok S absorbed H \<Longrightarrow> length (hmac_ref H k m) = FBSEC_HKDF_HASH_LEN"
  by (simp add: hmac_ref_def Let_def)

lemma length_rfc_blocks:
  "sha_ok S absorbed H \<Longrightarrow>
   length (concat (map (rfc_T H prk info) [1..<Suc n])) = n * FBSEC_HKDF_HASH_LEN"
  by (induction n) simp_all

lemma length_rfc_okm:
  "sha_ok S absorbed H \<Longrightarrow>
   length (rfc_okm H prk info n l) = min l (n * FBSEC_HKDF_HASH_LEN)"
  by (simp only: rfc_okm_def length_take length_rfc_blocks)

lemma rfc_okm_Suc:
  assumes "sha_ok S absorbed H" "n * FBSEC_HKDF_HASH_LEN < l"
  shows "rfc_okm H prk info (Suc n) l =
    rfc_okm H prk info n l @
    take (min (l - n * FBSEC_HKDF_HASH_LEN) FBSEC_HKDF_HASH_LEN) (rfc_T H prk info (Suc n))"
proof -
  have "length (rfc_T H prk info (Suc n)) = FBSEC_HKDF_HASH_LEN"
    using assms(1) by simp
  then have eq: "take (l - n * FBSEC_HKDF_HASH_LEN) (rfc_T H prk info (Suc n)) =
      take (min (l - n * FBSEC_HKDF_HASH_LEN) FBSEC_HKDF_HASH_LEN) (rfc_T H prk info (Suc n))"
    by (simp only: take_all_iff min_def split: if_split)
       (metis nle_le take_all)
  have "concat (map (rfc_T H prk info) [1..<Suc (Suc n)]) =
      concat (map (rfc_T H prk info) [1..<Suc n]) @ rfc_T H prk info (Suc n)"
    by simp
  then show ?thesis
    unfolding rfc_okm_def
    by (simp only: take_append length_rfc_blocks [OF assms(1)] eq)
qed

lemma hkdf_expand_ok:
  assumes ok: "sha_ok S absorbed H"
    and "produced = min (i * FBSEC_HKDF_HASH_LEN) okm_len"
    and "okm = rfc_okm H prk info i okm_len"
    and "t = rfc_T H prk info i"
    and "counter = of_nat i"
    and "i \<le> (okm_len + 31) div 32"
  shows "hkdf_expand S prk info okm_len produced okm t counter =
    Some (rfc_okm H prk info ((okm_len + 31) div 32) okm_len)"
  using assms
proof (induction S prk info okm_len produced okm t counter arbitrary: i
    rule: hkdf_expand.induct)
  case (1 S prk info okm_len produced okm t counter)
  note ok = \<open>sha_ok S absorbed H\<close>
  show ?case
  proof (cases "produced < okm_len")
    case more: True
    with 1(3) have less: "i * 32 < okm_len" and prod: "produced = i * 32" by auto
    define t' where "t' = rfc_T H prk info (Suc i)"
    define n where "n = min (okm_len - produced) FBSEC_HKDF_HASH_LEN"
    have hm: "fbsec_hmac_sha256 S prk (Some t) (Some info) (Some [counter + 1]) = Some t'"
      using 1(5,6) by (simp add: hmac_ok [OF ok] t'_def add.commute)
    have "hkdf_expand S prk info okm_len (produced + n) (okm @ take n t') t' (counter + 1) =
        Some (rfc_okm H prk info ((okm_len + 31) div 32) okm_len)"
    proof (rule 1(1) [where i = "Suc i"])
      show "produced < okm_len" "n = min (okm_len - produced) FBSEC_HKDF_HASH_LEN"
        using more n_def by simp_all
      show "fbsec_hmac_sha256 S prk (Some t) (Some info) (Some [counter + 1]) = Some t'"
        by (rule hm)
      show "sha_ok S absorbed H" by (rule ok)
      show "produced + n = min (Suc i * FBSEC_HKDF_HASH_LEN) okm_len"
        using less prod by (auto simp: n_def)
      show "okm @ take n t' = rfc_okm H prk info (Suc i) okm_len"
        using rfc_okm_Suc [OF ok less] 1(4) prod by (simp add: n_def t'_def)
      show "t' = rfc_T H prk info (Suc i)" by (simp add: t'_def)
      show "counter + 1 = of_nat (Suc i)" using 1(6) by simp
      show "Suc i \<le> (okm_len + 31) div 32" using less by linarith
    qed
    then show ?thesis
      using more hm by (simp add: hkdf_expand.simps [of S] n_def Let_def)
  next
    case fin: False
    with 1(3) have "okm_len \<le> i * 32" by simp
    then have "(okm_len + 31) div 32 \<le> i" by linarith
    with 1(7) have "i = (okm_len + 31) div 32" by simp
    then show ?thesis using fin 1(4) by (simp add: hkdf_expand.simps)
  qed
qed

lemma hkdf_ok:
  assumes "sha_ok S absorbed H" "0 < length ikm" "0 < l" "l \<le> 255 * FBSEC_HKDF_HASH_LEN"
  shows "fbsec_hkdf_sha256 S ikm salt info l = Some (hkdf_ref H (seg salt) ikm info l)"
  using assms
  by (auto simp: fbsec_hkdf_sha256_def hkdf_ref_def Let_def hmac_ok [OF assms(1)] seg_def
      hkdf_expand_ok [OF assms(1), where i = 0] rfc_okm_def split: option.splits)

lemma length_hkdf_ref:
  assumes "sha_ok S absorbed H"
  shows "length (hkdf_ref H salt ikm info l) = l"
  unfolding hkdf_ref_def length_rfc_okm [OF assms] by simp

section \<open>A concrete instance of the contract\<close>

text \<open>A context that is the bytes fed so far and a 32-byte checksum, for witnesses only.\<close>

definition demo_hash :: "bytes \<Rightarrow> bytes" where
  "demo_hash m = map (\<lambda>i. foldr (\<lambda>x acc. 5 * acc + x + of_nat i) m 7) [0..<FBSEC_HKDF_HASH_LEN]"

definition demo_sha :: "bytes sha" where
  "demo_sha = \<lparr>sha_starts = Some [], sha_update = (\<lambda>c d. Some (c @ d)),
     sha_finish = (\<lambda>c. Some (demo_hash c))\<rparr>"

lemma demo_sha_ok: "sha_ok demo_sha (\<lambda>c. c) demo_hash"
  by (simp add: sha_ok_def demo_sha_def demo_hash_def)

end
