(* ===== verification/Descriptor.thy ===== *)
theory Descriptor
  imports Sofa_Config
begin

text \<open>
  Model of \<open>shared/fbsec_descriptor.h\<close> and \<open>shared/fbsec_descriptor.c\<close>: the
  capability record C000h, the status record C001h, their per-sub-index
  encodings and the client's fail-closed predicates. A serializer returns the
  bytes it writes (the empty list is the C return value 0), a deserializer
  \<open>None\<close> when it returns false and leaves the record alone.
\<close>

section \<open>Constants\<close>

abbreviation (input) FBSEC_DESC_CAP_INDEX :: u16 where "FBSEC_DESC_CAP_INDEX \<equiv> 0xC000"
abbreviation (input) FBSEC_DESC_STAT_INDEX :: u16 where "FBSEC_DESC_STAT_INDEX \<equiv> 0xC001"
abbreviation (input) FBSEC_DESC_CAP_SUB_MAX :: u8 where "FBSEC_DESC_CAP_SUB_MAX \<equiv> 0x08"
abbreviation (input) FBSEC_DESC_STAT_SUB_MAX :: u8 where "FBSEC_DESC_STAT_SUB_MAX \<equiv> 0x05"

abbreviation (input) FBSEC_PROFILE_CUSTOM :: u32 where "FBSEC_PROFILE_CUSTOM \<equiv> 0x00"

definition FBSEC_TYPEWORD :: "u32 \<Rightarrow> u32 \<Rightarrow> u32" where
  "FBSEC_TYPEWORD profile level = (profile AND 0x0FFF) OR push_bit 12 (level AND 0x0F)"

definition FBSEC_TYPEWORD_PROFILE :: "u32 \<Rightarrow> u16" where
  "FBSEC_TYPEWORD_PROFILE tw = ucast (tw AND 0x0FFF)"

definition FBSEC_TYPEWORD_LEVEL :: "u32 \<Rightarrow> u8" where
  "FBSEC_TYPEWORD_LEVEL tw = ucast (drop_bit 12 tw AND 0x0F)"

abbreviation (input) FBSEC_DESC_AEAD_AES128_GCM :: u8 where "FBSEC_DESC_AEAD_AES128_GCM \<equiv> 0x01"
abbreviation (input) FBSEC_DESC_KDF_HKDF_SHA256 :: u16 where "FBSEC_DESC_KDF_HKDF_SHA256 \<equiv> 0x0001"
abbreviation (input) FBSEC_DESC_SIG_ED25519 :: u16 where "FBSEC_DESC_SIG_ED25519 \<equiv> 0x0001"
abbreviation (input) FBSEC_DESC_SYMLVL_PROVISIONING :: u8 where "FBSEC_DESC_SYMLVL_PROVISIONING \<equiv> 0x01"
abbreviation (input) FBSEC_DESC_SYMLVL_INTEGRATOR :: u8 where "FBSEC_DESC_SYMLVL_INTEGRATOR \<equiv> 0x02"
abbreviation (input) FBSEC_DESC_SYMLVL_OPERATOR :: u8 where "FBSEC_DESC_SYMLVL_OPERATOR \<equiv> 0x04"
abbreviation (input) FBSEC_DESC_ID_IDEVID :: u8 where "FBSEC_DESC_ID_IDEVID \<equiv> 0x01"
abbreviation (input) FBSEC_DESC_ID_LDEVID :: u8 where "FBSEC_DESC_ID_LDEVID \<equiv> 0x02"
abbreviation (input) FBSEC_DESC_HANDOVER_TOFU :: u8 where "FBSEC_DESC_HANDOVER_TOFU \<equiv> 0x01"
abbreviation (input) FBSEC_DESC_HANDOVER_TOKEN :: u8 where "FBSEC_DESC_HANDOVER_TOKEN \<equiv> 0x02"
abbreviation (input) FBSEC_DESC_HANDOVER_VOUCHER :: u8 where "FBSEC_DESC_HANDOVER_VOUCHER \<equiv> 0x04"
abbreviation (input) FBSEC_MECH_AEAD :: u16 where "FBSEC_MECH_AEAD \<equiv> 0x01"
abbreviation (input) FBSEC_MECH_RPK :: u16 where "FBSEC_MECH_RPK \<equiv> 0x02"
abbreviation (input) FBSEC_STAT_UNCOMMISSIONED :: u8 where "FBSEC_STAT_UNCOMMISSIONED \<equiv> 0x00"
abbreviation (input) FBSEC_STAT_COMMISSIONED :: u8 where "FBSEC_STAT_COMMISSIONED \<equiv> 0x01"
abbreviation (input) FBSEC_STAT_KEY_PROVISIONING :: u8 where "FBSEC_STAT_KEY_PROVISIONING \<equiv> 0x01"
abbreviation (input) FBSEC_STAT_KEY_INTEGRATOR :: u8 where "FBSEC_STAT_KEY_INTEGRATOR \<equiv> 0x02"
abbreviation (input) FBSEC_STAT_KEY_OPERATOR :: u8 where "FBSEC_STAT_KEY_OPERATOR \<equiv> 0x04"

section \<open>The records\<close>

record caps =
  caps_highest_sub :: u8
  type_word :: u32
  aead_and_tag :: u32
  kdf :: u16
  sig_alg :: u16
  sym_levels :: u8
  id_flags :: u8
  handover_model :: u8
  mechanisms :: u16

record status_rec =
  st_highest_sub :: u8
  commissioning :: u8
  active_gate :: u8
  keys_installed :: u8
  active_aead :: u32
  identities :: u8

section \<open>Capabilities\<close>

definition desc_aead_bitmap :: u8 where
  "desc_aead_bitmap = 0 OR FBSEC_DESC_AEAD_AES128_GCM"

definition put_u32le :: "u32 \<Rightarrow> bytes" where "put_u32le v = le32 v"
definition get_u32le :: "bytes \<Rightarrow> u32" where "get_u32le p = get32 p 0"
definition put_u16le :: "u16 \<Rightarrow> bytes" where "put_u16le v = le16 v"
definition get_u16le :: "bytes \<Rightarrow> u16" where "get_u16le p = get16 p 0"

definition fbsec_descriptor_build_caps :: "u8 \<Rightarrow> caps" where
  "fbsec_descriptor_build_caps live_id_flags = \<lparr>
     caps_highest_sub = FBSEC_DESC_CAP_SUB_MAX,
     type_word = FBSEC_TYPEWORD FBSEC_PROFILE_CUSTOM 0,
     aead_and_tag = ucast desc_aead_bitmap OR push_bit 8 (of_nat FBSEC_AEAD_TAG_SIZE AND 0xFF),
     kdf = FBSEC_DESC_KDF_HKDF_SHA256,
     sig_alg = FBSEC_DESC_SIG_ED25519,
     sym_levels = FBSEC_DESC_SYMLVL_PROVISIONING OR FBSEC_DESC_SYMLVL_INTEGRATOR
                    OR FBSEC_DESC_SYMLVL_OPERATOR,
     id_flags = live_id_flags,
     handover_model = FBSEC_DESC_HANDOVER_TOFU OR FBSEC_DESC_HANDOVER_TOKEN
                        OR FBSEC_DESC_HANDOVER_VOUCHER,
     mechanisms = FBSEC_MECH_AEAD OR FBSEC_MECH_RPK\<rparr>"

definition fbsec_caps_serialize_sub :: "caps \<Rightarrow> u8 \<Rightarrow> nat \<Rightarrow> bytes" where
  "fbsec_caps_serialize_sub c sub out_max =
     (if sub = 0x00 then (if out_max < 1 then [] else [caps_highest_sub c])
      else if sub = 0x01 then (if out_max < 4 then [] else put_u32le (type_word c))
      else if sub = 0x02 then (if out_max < 4 then [] else put_u32le (aead_and_tag c))
      else if sub = 0x03 then (if out_max < 2 then [] else put_u16le (kdf c))
      else if sub = 0x04 then (if out_max < 2 then [] else put_u16le (sig_alg c))
      else if sub = 0x05 then (if out_max < 1 then [] else [sym_levels c])
      else if sub = 0x06 then (if out_max < 1 then [] else [id_flags c])
      else if sub = 0x07 then (if out_max < 1 then [] else [handover_model c])
      else if sub = 0x08 then (if out_max < 2 then [] else put_u16le (mechanisms c))
      else [])"

definition fbsec_caps_deserialize_sub :: "caps \<Rightarrow> u8 \<Rightarrow> bytes \<Rightarrow> caps option" where
  "fbsec_caps_deserialize_sub c sub inp =
     (let len = length inp in
      if sub = 0x00 then
        (if len \<noteq> 1 then None else Some (c\<lparr>caps_highest_sub := inp ! 0\<rparr>))
      else if sub = 0x01 then
        (if len \<noteq> 4 then None else Some (c\<lparr>type_word := get_u32le inp\<rparr>))
      else if sub = 0x02 then
        (if len \<noteq> 4 then None else Some (c\<lparr>aead_and_tag := get_u32le inp\<rparr>))
      else if sub = 0x03 then
        (if len \<noteq> 2 then None else Some (c\<lparr>kdf := get_u16le inp\<rparr>))
      else if sub = 0x04 then
        (if len \<noteq> 2 then None else Some (c\<lparr>sig_alg := get_u16le inp\<rparr>))
      else if sub = 0x05 then
        (if len \<noteq> 1 then None else Some (c\<lparr>sym_levels := inp ! 0\<rparr>))
      else if sub = 0x06 then
        (if len \<noteq> 1 then None else Some (c\<lparr>id_flags := inp ! 0\<rparr>))
      else if sub = 0x07 then
        (if len \<noteq> 1 then None else Some (c\<lparr>handover_model := inp ! 0\<rparr>))
      else if sub = 0x08 then
        (if len \<noteq> 2 then None else Some (c\<lparr>mechanisms := get_u16le inp\<rparr>))
      else None)"

section \<open>Status\<close>

definition desc_active_gate :: u8 where
  "desc_active_gate = FBSEC_DESC_HANDOVER_VOUCHER"

definition fbsec_descriptor_build_status :: "u8 \<Rightarrow> u8 \<Rightarrow> u8 \<Rightarrow> status_rec" where
  "fbsec_descriptor_build_status commissioning_v keys_v identities_v = \<lparr>
     st_highest_sub = FBSEC_DESC_STAT_SUB_MAX,
     commissioning = commissioning_v,
     active_gate = desc_active_gate,
     keys_installed = keys_v,
     active_aead = ucast desc_aead_bitmap OR push_bit 8 (of_nat FBSEC_AEAD_TAG_SIZE AND 0xFF),
     identities = identities_v\<rparr>"

definition fbsec_status_serialize_sub :: "status_rec \<Rightarrow> u8 \<Rightarrow> nat \<Rightarrow> bytes" where
  "fbsec_status_serialize_sub s sub out_max =
     (if sub = 0x00 then (if out_max < 1 then [] else [st_highest_sub s])
      else if sub = 0x01 then (if out_max < 1 then [] else [commissioning s])
      else if sub = 0x02 then (if out_max < 1 then [] else [active_gate s])
      else if sub = 0x03 then (if out_max < 1 then [] else [keys_installed s])
      else if sub = 0x04 then (if out_max < 4 then [] else put_u32le (active_aead s))
      else if sub = 0x05 then (if out_max < 1 then [] else [identities s])
      else [])"

definition fbsec_status_deserialize_sub :: "status_rec \<Rightarrow> u8 \<Rightarrow> bytes \<Rightarrow> status_rec option" where
  "fbsec_status_deserialize_sub s sub inp =
     (let len = length inp in
      if sub = 0x00 then
        (if len \<noteq> 1 then None else Some (s\<lparr>st_highest_sub := inp ! 0\<rparr>))
      else if sub = 0x01 then
        (if len \<noteq> 1 then None else Some (s\<lparr>commissioning := inp ! 0\<rparr>))
      else if sub = 0x02 then
        (if len \<noteq> 1 then None else Some (s\<lparr>active_gate := inp ! 0\<rparr>))
      else if sub = 0x03 then
        (if len \<noteq> 1 then None else Some (s\<lparr>keys_installed := inp ! 0\<rparr>))
      else if sub = 0x04 then
        (if len \<noteq> 4 then None else Some (s\<lparr>active_aead := get_u32le inp\<rparr>))
      else if sub = 0x05 then
        (if len \<noteq> 1 then None else Some (s\<lparr>identities := inp ! 0\<rparr>))
      else None)"

section \<open>Client-side predicates\<close>

definition fbsec_caps_supports_voucher_handover :: "caps option \<Rightarrow> bool" where
  "fbsec_caps_supports_voucher_handover c =
     (case c of None \<Rightarrow> False | Some c \<Rightarrow> handover_model c AND FBSEC_DESC_HANDOVER_VOUCHER \<noteq> 0)"

definition fbsec_caps_has_ed25519 :: "caps option \<Rightarrow> bool" where
  "fbsec_caps_has_ed25519 c =
     (case c of None \<Rightarrow> False | Some c \<Rightarrow> sig_alg c AND FBSEC_DESC_SIG_ED25519 \<noteq> 0)"

section \<open>The interface of a record read sub-index by sub-index\<close>

text \<open>
  A client rebuilds a record by reading every sub-index and decoding it into
  its own copy. \<open>agree s c r\<close> says that the copy \<open>c\<close> and the original \<open>r\<close> hold
  the same value at sub-index \<open>s\<close>.
\<close>

fun transfer_subs ::
  "('r \<Rightarrow> u8 \<Rightarrow> nat \<Rightarrow> bytes) \<Rightarrow> ('r \<Rightarrow> u8 \<Rightarrow> bytes \<Rightarrow> 'r option) \<Rightarrow> nat \<Rightarrow> 'r \<Rightarrow> u8 list \<Rightarrow> 'r
   \<Rightarrow> 'r option" where
  "transfer_subs ser des m r [] c = Some c"
| "transfer_subs ser des m r (s # ss) c =
     (case des c s (ser r s m) of
        None \<Rightarrow> None
      | Some c' \<Rightarrow> transfer_subs ser des m r ss c')"

locale record_codec =
  fixes ser :: "'r \<Rightarrow> u8 \<Rightarrow> nat \<Rightarrow> bytes"
    and des :: "'r \<Rightarrow> u8 \<Rightarrow> bytes \<Rightarrow> 'r option"
    and agree :: "u8 \<Rightarrow> 'r \<Rightarrow> 'r \<Rightarrow> bool"
    and subs :: "u8 list"
  assumes decode_set: "s \<in> set subs \<Longrightarrow> 4 \<le> m \<Longrightarrow>
      \<exists>c'. des c s (ser r s m) = Some c' \<and> agree s c' r"
    and decode_frame: "des c s (ser r s m) = Some c' \<Longrightarrow> agree s' c r \<Longrightarrow> agree s' c' r"
    and agree_all: "(\<forall>s\<in>set subs. agree s c r) \<Longrightarrow> c = r"
begin

lemma transfer_agree:
  assumes "set ss \<subseteq> set subs" "4 \<le> m"
  shows "\<exists>c'. transfer_subs ser des m r ss c = Some c' \<and>
    (\<forall>s. s \<in> set ss \<or> agree s c r \<longrightarrow> agree s c' r)"
  using assms(1)
proof (induction ss arbitrary: c)
  case Nil
  then show ?case by simp
next
  case (Cons s ss)
  then obtain c1 where c1: "des c s (ser r s m) = Some c1" "agree s c1 r"
    using decode_set [of s m c r] assms(2) by auto
  from Cons obtain c' where c': "transfer_subs ser des m r ss c1 = Some c'"
      "\<forall>s. s \<in> set ss \<or> agree s c1 r \<longrightarrow> agree s c' r"
    by fastforce
  then show ?case using c1 decode_frame [OF c1(1)] by auto
qed

lemma transfer_all: "4 \<le> m \<Longrightarrow> transfer_subs ser des m r subs c = Some r"
  using transfer_agree [of subs m r c] agree_all by blast

end

section \<open>Both records are such records\<close>

definition caps_subs :: "u8 list" where
  "caps_subs = [0, 1, 2, 3, 4, 5, 6, 7, 8]"

definition status_subs :: "u8 list" where
  "status_subs = [0, 1, 2, 3, 4, 5]"

definition caps_agree :: "u8 \<Rightarrow> caps \<Rightarrow> caps \<Rightarrow> bool" where
  "caps_agree s c r \<longleftrightarrow> fbsec_caps_serialize_sub c s 4 = fbsec_caps_serialize_sub r s 4"

definition status_agree :: "u8 \<Rightarrow> status_rec \<Rightarrow> status_rec \<Rightarrow> bool" where
  "status_agree s c r \<longleftrightarrow> fbsec_status_serialize_sub c s 4 = fbsec_status_serialize_sub r s 4"

lemma put_get_simps [simp, sofa_codec]:
  "length (put_u32le v) = 4" "length (put_u16le w) = 2"
  "get_u32le (put_u32le v) = v" "get_u16le (put_u16le w) = w"
  "put_u32le v = put_u32le v' \<longleftrightarrow> v = v'" "put_u16le w = put_u16le w' \<longleftrightarrow> w = w'"
  using get32_le32 [of v "[]"] get16_le16 [of w "[]"]
  by (simp_all add: put_u32le_def put_u16le_def get_u32le_def get_u16le_def)

interpretation caps_codec: record_codec
  fbsec_caps_serialize_sub fbsec_caps_deserialize_sub caps_agree caps_subs
proof
  show "\<exists>c'. fbsec_caps_deserialize_sub c s (fbsec_caps_serialize_sub r s m) = Some c' \<and>
      caps_agree s c' r" if "s \<in> set caps_subs" "4 \<le> m" for s m c r
    using that by (auto simp: caps_subs_def caps_agree_def fbsec_caps_serialize_sub_def
        fbsec_caps_deserialize_sub_def Let_def)
next
  show "caps_agree s' c' r"
    if "fbsec_caps_deserialize_sub c s (fbsec_caps_serialize_sub r s m) = Some c'"
      "caps_agree s' c r" for c s r m c' s'
    using that by (auto simp: caps_agree_def fbsec_caps_serialize_sub_def
        fbsec_caps_deserialize_sub_def Let_def split: if_splits)
next
  show "c = r" if "\<forall>s\<in>set caps_subs. caps_agree s c r" for c r
    using that by (simp add: caps_subs_def caps_agree_def fbsec_caps_serialize_sub_def)
qed

interpretation status_codec: record_codec
  fbsec_status_serialize_sub fbsec_status_deserialize_sub status_agree status_subs
proof
  show "\<exists>c'. fbsec_status_deserialize_sub c s (fbsec_status_serialize_sub r s m) = Some c' \<and>
      status_agree s c' r" if "s \<in> set status_subs" "4 \<le> m" for s m c r
    using that by (auto simp: status_subs_def status_agree_def fbsec_status_serialize_sub_def
        fbsec_status_deserialize_sub_def Let_def)
next
  show "status_agree s' c' r"
    if "fbsec_status_deserialize_sub c s (fbsec_status_serialize_sub r s m) = Some c'"
      "status_agree s' c r" for c s r m c' s'
    using that by (auto simp: status_agree_def fbsec_status_serialize_sub_def
        fbsec_status_deserialize_sub_def Let_def split: if_splits)
next
  show "c = r" if "\<forall>s\<in>set status_subs. status_agree s c r" for c r
    using that by (simp add: status_subs_def status_agree_def fbsec_status_serialize_sub_def)
qed

lemma typeword_fields:
  "FBSEC_TYPEWORD_PROFILE (FBSEC_TYPEWORD p l) = ucast (p AND 0x0FFF)"
  "FBSEC_TYPEWORD_LEVEL (FBSEC_TYPEWORD p l) = ucast (l AND 0x0F)"
proof -
  have m: "(0x0FFF :: u32) = mask 12" "(0x0F :: u32) = mask 4"
    by (simp_all add: mask_eq_exp_minus_1)
  show "FBSEC_TYPEWORD_PROFILE (FBSEC_TYPEWORD p l) = ucast (p AND 0x0FFF)"
    unfolding FBSEC_TYPEWORD_def FBSEC_TYPEWORD_PROFILE_def m
    by (rule bit_word_eqI) (auto simp: bit_simps)
  show "FBSEC_TYPEWORD_LEVEL (FBSEC_TYPEWORD p l) = ucast (l AND 0x0F)"
    unfolding FBSEC_TYPEWORD_def FBSEC_TYPEWORD_LEVEL_def m
    by (rule bit_word_eqI) (auto simp: bit_simps)
qed

end
