(* ===== verification/Secure_Od.thy ===== *)
theory Secure_Od
  imports Aead
begin

text \<open>
  The state of the secure object dictionary (\<open>shared/fbsec_secure_od.h\<close>, first
  half of \<open>shared/fbsec_secure_od.c\<close>): the registry of secure entries, the read
  and write slots that run in lockstep with it, the write-once key store, the
  16-bit freshness checks and the per-frame nonce. The module's static
  variables are the record \<open>sod\<close>; its field \<open>host\<close> is the state of the
  application behind the port hooks, so one value is the whole server.
\<close>

section \<open>Sizes and flags\<close>

abbreviation (input) FBSEC_SOD_MAX_ENTRIES :: nat where "FBSEC_SOD_MAX_ENTRIES \<equiv> 8"
abbreviation (input) FBSEC_SOD_KEY_SLOTS :: u8 where "FBSEC_SOD_KEY_SLOTS \<equiv> 4"
abbreviation (input) FBSEC_SOD_CHALLENGE_TIMEOUT_MS :: u16 where
  "FBSEC_SOD_CHALLENGE_TIMEOUT_MS \<equiv> 5000"
abbreviation (input) FBSEC_SOD_SESSION_IDLE_TIMEOUT_MS :: u16 where
  "FBSEC_SOD_SESSION_IDLE_TIMEOUT_MS \<equiv> 60000"
abbreviation (input) FBSEC_SOD_ACCESS_NONE :: u8 where "FBSEC_SOD_ACCESS_NONE \<equiv> 0x00"
abbreviation (input) FBSEC_SOD_ACCESS_SECURE_RO :: u8 where "FBSEC_SOD_ACCESS_SECURE_RO \<equiv> 0x01"
abbreviation (input) FBSEC_SOD_ACCESS_SECURE_WO :: u8 where "FBSEC_SOD_ACCESS_SECURE_WO \<equiv> 0x02"
abbreviation (input) FBSEC_SOD_ACCESS_CONFIDENTIAL :: u8 where
  "FBSEC_SOD_ACCESS_CONFIDENTIAL \<equiv> 0x04"
abbreviation (input) FBSEC_SOD_KEY_NONE :: u8 where "FBSEC_SOD_KEY_NONE \<equiv> 0x00"
abbreviation (input) FBSEC_SOD_TYPE_BIN :: u8 where "FBSEC_SOD_TYPE_BIN \<equiv> 0x00"
abbreviation (input) FBSEC_SOD_TYPE_STRING :: u8 where "FBSEC_SOD_TYPE_STRING \<equiv> 0x01"

abbreviation (input) READ_CHALLENGE_LEN :: nat where
  "READ_CHALLENGE_LEN \<equiv> 1 + FBSEC_AEAD_RAND_SIZE"
abbreviation (input) WRITE_CHALLENGE_LEN :: nat where
  "WRITE_CHALLENGE_LEN \<equiv> FBSEC_AEAD_RAND_SIZE"
abbreviation (input) READ_RESPONSE_MAX :: nat where
  "READ_RESPONSE_MAX \<equiv> FBSEC_AEAD_RAND_SIZE + FBSEC_AEAD_MAX_PROTECTED + FBSEC_AEAD_TAG_SIZE"

section \<open>Types\<close>

datatype sod_op = SOD_OP_READ | SOD_OP_WRITE

text \<open>
  The status of a request together with what the C code returns through
  \<open>reply\<close> / \<open>reply_len\<close> (OK) or \<open>out_abort\<close> (ABORT).
\<close>

datatype sod_status =
    SOD_OK bytes
  | SOD_NOT_HANDLED
  | SOD_ABORT abort
  | SOD_DEFER

record sod_entry =
  ent_data_id :: u32
  ent_key_id :: u8
  ent_access_flags :: u8
  ent_value_type :: u8
  ent_data_len :: u16

text \<open>\<open>prepared\<close> holds the first \<open>prepared_len\<close> bytes of the C buffer.\<close>

record read_state =
  rs_in_use :: bool
  rs_cyclic :: bool
  rs_client_dev :: u16
  rs_armed_at :: u16
  rs_prepared :: bytes
  rs_key_id :: u8
  rs_nonce_base :: bytes
  rs_counter :: u32

record write_state =
  ws_in_use :: bool
  ws_cyclic :: bool
  ws_client_dev :: u16
  ws_armed_at :: u16
  ws_key_id :: u8
  ws_server_random :: bytes
  ws_nonce_base :: bytes
  ws_counter :: u32

record 'h sod =
  registry :: "sod_entry list"
  read_slot :: "read_state list"
  write_slot :: "write_state list"
  sod_keys :: "bytes list"
  key_present :: "bool list"
  key_id_val :: "u32 list"
  last_write_kid_base :: u8
  host :: 'h

text \<open>
  The port hooks the host implements. A hook may read and change the whole
  server state (the reference server's \<open>write_after\<close> installs keys).
  \<open>port_read_before\<close> gets the buffer size and returns the abort code and the
  bytes it left in the buffer.
\<close>

record 'h port =
  port_get_device_id :: "'h sod \<Rightarrow> u16"
  port_get_time_ms :: "'h sod \<Rightarrow> u16"
  port_random :: "nat \<Rightarrow> 'h sod \<Rightarrow> bytes option \<times> 'h sod"
  port_access_allowed :: "sod_op \<Rightarrow> u32 \<Rightarrow> 'h sod \<Rightarrow> bool"
  port_role_allowed :: "sod_op \<Rightarrow> u8 \<Rightarrow> u32 \<Rightarrow> 'h sod \<Rightarrow> bool"
  port_read_before :: "u32 \<Rightarrow> nat \<Rightarrow> 'h sod \<Rightarrow> (abort \<times> bytes) \<times> 'h sod"
  port_write_after :: "u32 \<Rightarrow> bytes \<Rightarrow> 'h sod \<Rightarrow> abort \<times> 'h sod"

section \<open>Lifecycle and registry\<close>

definition read_state_zero :: read_state where
  "read_state_zero = \<lparr>rs_in_use = False, rs_cyclic = False, rs_client_dev = 0, rs_armed_at = 0,
     rs_prepared = [], rs_key_id = 0, rs_nonce_base = replicate FBSEC_AEAD_NONCE_SIZE 0,
     rs_counter = 0\<rparr>"

definition write_state_zero :: write_state where
  "write_state_zero = \<lparr>ws_in_use = False, ws_cyclic = False, ws_client_dev = 0, ws_armed_at = 0,
     ws_key_id = 0, ws_server_random = replicate FBSEC_AEAD_RAND_SIZE 0,
     ws_nonce_base = replicate FBSEC_AEAD_NONCE_SIZE 0, ws_counter = 0\<rparr>"

definition fbsec_sod_init :: "'h \<Rightarrow> 'h sod" where
  "fbsec_sod_init h = \<lparr>
     registry = [],
     read_slot = replicate FBSEC_SOD_MAX_ENTRIES read_state_zero,
     write_slot = replicate FBSEC_SOD_MAX_ENTRIES write_state_zero,
     sod_keys = replicate 5 (replicate FBSEC_AEAD_KEY_SIZE 0),
     key_present = replicate 5 False,
     key_id_val = replicate 5 0,
     last_write_kid_base = 0,
     host = h\<rparr>"

definition fbsec_sod_last_write_key_id :: "'h sod \<Rightarrow> u8" where
  "fbsec_sod_last_write_key_id s = last_write_kid_base s"

text \<open>The scan of the registry: the first index whose entry has the id.\<close>

fun find_index_from :: "nat \<Rightarrow> sod_entry list \<Rightarrow> u32 \<Rightarrow> nat option" where
  "find_index_from i [] d = None"
| "find_index_from i (e # es) d = (if ent_data_id e = d then Some i else find_index_from (i + 1) es d)"

definition find_index :: "'h sod \<Rightarrow> u32 \<Rightarrow> nat option" where
  "find_index s d = find_index_from 0 (registry s) d"

definition fbsec_sod_register_entry :: "sod_entry \<Rightarrow> 'h sod \<Rightarrow> bool \<times> 'h sod" where
  "fbsec_sod_register_entry e s =
     (if unat (ent_data_len e) > FBSEC_AEAD_MAX_PROTECTED then (False, s)
      else case find_index s (ent_data_id e) of
             Some idx \<Rightarrow> (True, s\<lparr>registry := (registry s)[idx := e]\<rparr>)
           | None \<Rightarrow>
               if length (registry s) \<ge> FBSEC_SOD_MAX_ENTRIES then (False, s)
               else (True, s\<lparr>registry := registry s @ [e]\<rparr>))"

definition fbsec_sod_find_entry :: "'h sod \<Rightarrow> u32 \<Rightarrow> sod_entry option" where
  "fbsec_sod_find_entry s d = map_option (\<lambda>i. registry s ! i) (find_index s d)"

definition fbsec_sod_test_expire_arming :: "'h port \<Rightarrow> 'h sod \<Rightarrow> 'h sod" where
  "fbsec_sod_test_expire_arming P s =
     (let stale = port_get_time_ms P s - (FBSEC_SOD_SESSION_IDLE_TIMEOUT_MS + 1)
      in s\<lparr>read_slot := map (\<lambda>r. r\<lparr>rs_armed_at := stale\<rparr>) (read_slot s),
           write_slot := map (\<lambda>w. w\<lparr>ws_armed_at := stale\<rparr>) (write_slot s)\<rparr>)"

section \<open>Key store\<close>

definition fbsec_sod_set_key_ex :: "u8 \<Rightarrow> bytes \<Rightarrow> u32 \<Rightarrow> 'h sod \<Rightarrow> bool \<times> 'h sod" where
  "fbsec_sod_set_key_ex key_id key id_value s =
     (if key_id < 1 \<or> key_id > FBSEC_SOD_KEY_SLOTS then (False, s)
      else if key_present s ! unat key_id then (False, s)
      else (True, s\<lparr>sod_keys := (sod_keys s)[unat key_id := key],
                   key_present := (key_present s)[unat key_id := True],
                   key_id_val := (key_id_val s)[unat key_id := id_value]\<rparr>))"

definition fbsec_sod_set_key :: "u8 \<Rightarrow> bytes \<Rightarrow> 'h sod \<Rightarrow> bool \<times> 'h sod" where
  "fbsec_sod_set_key key_id key s = fbsec_sod_set_key_ex key_id key (ucast key_id) s"

definition fbsec_sod_clear_keys :: "'h sod \<Rightarrow> 'h sod" where
  "fbsec_sod_clear_keys s =
     s\<lparr>sod_keys := replicate 5 (replicate FBSEC_AEAD_KEY_SIZE 0),
       key_present := replicate 5 False,
       key_id_val := replicate 5 0\<rparr>"

definition fbsec_sod_has_key :: "'h sod \<Rightarrow> u8 \<Rightarrow> bool" where
  "fbsec_sod_has_key s key_id =
     (if key_id < 1 \<or> key_id > FBSEC_SOD_KEY_SLOTS then False else key_present s ! unat key_id)"

definition fbsec_sod_get_key_id_value :: "'h sod \<Rightarrow> u8 \<Rightarrow> u32" where
  "fbsec_sod_get_key_id_value s key_id =
     (if key_id < 1 \<or> key_id > FBSEC_SOD_KEY_SLOTS then 0
      else if key_present s ! unat key_id then key_id_val s ! unat key_id else 0)"

definition get_key :: "'h sod \<Rightarrow> u8 \<Rightarrow> bytes option" where
  "get_key s key_id = (if fbsec_sod_has_key s key_id then Some (sod_keys s ! unat key_id) else None)"

section \<open>Freshness\<close>

definition slot_is_fresh_for :: "'h port \<Rightarrow> 'h sod \<Rightarrow> u16 \<Rightarrow> u16 \<Rightarrow> bool" where
  "slot_is_fresh_for P s armed_at timeout_ms \<longleftrightarrow> port_get_time_ms P s - armed_at \<le> timeout_ms"

definition slot_is_fresh :: "'h port \<Rightarrow> 'h sod \<Rightarrow> u16 \<Rightarrow> bool" where
  "slot_is_fresh P s armed_at = slot_is_fresh_for P s armed_at FBSEC_SOD_CHALLENGE_TIMEOUT_MS"

definition session_is_fresh :: "'h port \<Rightarrow> 'h sod \<Rightarrow> u16 \<Rightarrow> bool" where
  "session_is_fresh P s armed_at = slot_is_fresh_for P s armed_at FBSEC_SOD_SESSION_IDLE_TIMEOUT_MS"

definition length_abort :: "nat \<Rightarrow> nat \<Rightarrow> abort" where
  "length_abort got want =
     (if got > want then FBSEC_ABORT_LEN_TOO_HIGH
      else if got < want then FBSEC_ABORT_LEN_TOO_LOW
      else FBSEC_ABORT_TYPE_MISMATCH)"

definition slot_held_by_other ::
  "'h port \<Rightarrow> 'h sod \<Rightarrow> bool \<Rightarrow> bool \<Rightarrow> u16 \<Rightarrow> u16 \<Rightarrow> u16 \<Rightarrow> bool" where
  "slot_held_by_other P s in_use cyclic owner_dev armed_at req_dev =
     (if \<not> in_use \<or> owner_dev = req_dev then False
      else if cyclic then session_is_fresh P s armed_at
      else slot_is_fresh P s armed_at)"

section \<open>Poll nonce\<close>

definition build_session_nonce :: "bytes \<Rightarrow> u32 \<Rightarrow> bytes" where
  "build_session_nonce nonce_base counter =
     (let n0 = nonce_base;
          n1 = n0[8 := n0 ! 8 XOR ucast (drop_bit 24 counter)];
          n2 = n1[9 := n1 ! 9 XOR ucast (drop_bit 16 counter)];
          n3 = n2[10 := n2 ! 10 XOR ucast (drop_bit 8 counter)]
      in n3[11 := n3 ! 11 XOR ucast counter])"

section \<open>Invariant\<close>

definition registry_wf :: "sod_entry list \<Rightarrow> bool" where
  "registry_wf es \<longleftrightarrow> length es \<le> FBSEC_SOD_MAX_ENTRIES \<and> distinct (map ent_data_id es) \<and>
     (\<forall>e\<in>set es. unat (ent_data_len e) \<le> FBSEC_AEAD_MAX_PROTECTED)"

definition read_state_wf :: "read_state \<Rightarrow> bool" where
  "read_state_wf r \<longleftrightarrow> length (rs_nonce_base r) = FBSEC_AEAD_NONCE_SIZE \<and>
     length (rs_prepared r) \<le> READ_RESPONSE_MAX \<and>
     rs_counter r \<le> FBSEC_AEAD_KEY_USE_LIMIT"

definition write_state_wf :: "write_state \<Rightarrow> bool" where
  "write_state_wf w \<longleftrightarrow> length (ws_nonce_base w) = FBSEC_AEAD_NONCE_SIZE \<and>
     length (ws_server_random w) = FBSEC_AEAD_RAND_SIZE \<and>
     ws_counter w \<le> FBSEC_AEAD_KEY_USE_LIMIT"

definition keys_wf :: "'h sod \<Rightarrow> bool" where
  "keys_wf s \<longleftrightarrow> length (sod_keys s) = 5 \<and> length (key_present s) = 5 \<and> length (key_id_val s) = 5 \<and>
     (\<forall>k\<in>set (sod_keys s). length k = FBSEC_AEAD_KEY_SIZE)"

definition sod_wf :: "'h sod \<Rightarrow> bool" where
  "sod_wf s \<longleftrightarrow> registry_wf (registry s) \<and>
     length (read_slot s) = FBSEC_SOD_MAX_ENTRIES \<and> (\<forall>r\<in>set (read_slot s). read_state_wf r) \<and>
     length (write_slot s) = FBSEC_SOD_MAX_ENTRIES \<and> (\<forall>w\<in>set (write_slot s). write_state_wf w) \<and>
     keys_wf s"

lemma zero_states_wf [simp]: "read_state_wf read_state_zero" "write_state_wf write_state_zero"
  by (simp_all add: read_state_wf_def write_state_wf_def read_state_zero_def write_state_zero_def)

lemma init_wf: "sod_wf (fbsec_sod_init h)"
  by (simp add: sod_wf_def fbsec_sod_init_def registry_wf_def keys_wf_def)

section \<open>Registry lemmas\<close>

lemma find_index_from_SomeD:
  "find_index_from i es d = Some j \<Longrightarrow>
   i \<le> j \<and> j < i + length es \<and> ent_data_id (es ! (j - i)) = d"
proof (induction es arbitrary: i)
  case Nil
  then show ?case by simp
next
  case (Cons e es)
  show ?case
  proof (cases "ent_data_id e = d")
    case True
    then show ?thesis using Cons.prems by auto
  next
    case False
    then have "find_index_from (i + 1) es d = Some j" using Cons.prems by simp
    from Cons.IH [OF this] show ?thesis by (auto simp: nth_Cons')
  qed
qed

lemma find_index_from_None:
  "find_index_from i es d = None \<longleftrightarrow> d \<notin> ent_data_id ` set es"
  by (induction es arbitrary: i) auto

lemma find_index_SomeD:
  assumes "find_index s d = Some i"
  shows "i < length (registry s)" "ent_data_id (registry s ! i) = d"
  using assms find_index_from_SomeD [of 0 "registry s" d i] by (auto simp: find_index_def)

lemma find_index_None: "find_index s d = None \<longleftrightarrow> d \<notin> ent_data_id ` set (registry s)"
  by (simp add: find_index_def find_index_from_None)

lemma find_index_cong: "registry s = registry s' \<Longrightarrow> find_index s = find_index s'"
  by (auto simp: find_index_def)

lemma find_entry_distinct:
  assumes "distinct (map ent_data_id (registry s))"
  shows "fbsec_sod_find_entry s d = Some e \<longleftrightarrow> e \<in> set (registry s) \<and> ent_data_id e = d"
proof
  assume "fbsec_sod_find_entry s d = Some e"
  then show "e \<in> set (registry s) \<and> ent_data_id e = d"
    by (auto simp: fbsec_sod_find_entry_def dest: find_index_SomeD)
next
  assume e: "e \<in> set (registry s) \<and> ent_data_id e = d"
  then obtain j where j: "find_index s d = Some j"
    using find_index_None [of s d] by (cases "find_index s d") force+
  moreover from e obtain k where "k < length (registry s)" "registry s ! k = e"
    by (auto simp: in_set_conv_nth)
  ultimately have "registry s ! j = e"
    using find_index_SomeD [OF j] e assms nth_eq_iff_index_eq [of "map ent_data_id (registry s)" j k]
    by auto
  then show "fbsec_sod_find_entry s d = Some e" using j by (simp add: fbsec_sod_find_entry_def)
qed

lemma find_entry_None:
  "fbsec_sod_find_entry s d = None \<longleftrightarrow> d \<notin> ent_data_id ` set (registry s)"
  by (simp add: fbsec_sod_find_entry_def find_index_None)

lemma register_registry:
  assumes "registry_wf (registry s)" "fbsec_sod_register_entry e s = (True, s')"
  shows "registry_wf (registry s')"
    "set (registry s') = insert e {x \<in> set (registry s). ent_data_id x \<noteq> ent_data_id e}"
proof -
  have small: "unat (ent_data_len e) \<le> FBSEC_AEAD_MAX_PROTECTED"
    using assms(2) by (auto simp: fbsec_sod_register_entry_def split: if_splits)
  have "registry_wf (registry s') \<and>
    set (registry s') = insert e {x \<in> set (registry s). ent_data_id x \<noteq> ent_data_id e}"
  proof (cases "find_index s (ent_data_id e)")
    case None
    then have new: "ent_data_id e \<notin> ent_data_id ` set (registry s)"
      by (simp add: find_index_None)
    then have all: "{x \<in> set (registry s). ent_data_id x \<noteq> ent_data_id e} = set (registry s)"
      by (auto dest: image_eqI [OF sym])
    from None assms(2) have "registry s' = registry s @ [e]" "length (registry s) < 8"
      by (auto simp: fbsec_sod_register_entry_def split: if_splits)
    then show ?thesis
      unfolding all using assms(1) small new by (auto simp: registry_wf_def)
  next
    case (Some i)
    note i = find_index_SomeD [OF Some]
    have s': "registry s' = (registry s)[i := e]"
      using Some assms(2) by (auto simp: fbsec_sod_register_entry_def split: if_splits)
    have dist: "distinct (map ent_data_id (registry s))"
      using assms(1) by (simp add: registry_wf_def)
    have map_same: "map ent_data_id ((registry s)[i := e]) = map ent_data_id (registry s)"
      using i by (metis list_update_id map_update nth_map)
    have split: "registry s = take i (registry s) @ registry s ! i # drop (Suc i) (registry s)"
      using i(1) by (rule id_take_nth_drop)
    have upd: "(registry s)[i := e] = take i (registry s) @ e # drop (Suc i) (registry s)"
      using i(1) by (rule upd_conv_take_nth_drop)
    have others: "x \<in> set (take i (registry s)) \<union> set (drop (Suc i) (registry s)) \<longleftrightarrow>
        x \<in> set (registry s) \<and> ent_data_id x \<noteq> ent_data_id e" for x
    proof -
      have "distinct (map ent_data_id (take i (registry s) @ registry s ! i # drop (Suc i) (registry s)))"
        using dist split by simp
      then show ?thesis using i(2) arg_cong [OF split, of set] by (auto simp: image_iff)
    qed
    have "set ((registry s)[i := e]) =
        insert e {x \<in> set (registry s). ent_data_id x \<noteq> ent_data_id e}"
      using others upd by auto
    then show ?thesis
      using assms(1) small s' map_same by (auto simp: registry_wf_def)
  qed
  then show "registry_wf (registry s')"
    "set (registry s') = insert e {x \<in> set (registry s). ent_data_id x \<noteq> ent_data_id e}"
    by auto
qed

lemma register_False: "fbsec_sod_register_entry e s = (False, s') \<Longrightarrow> s' = s"
  by (auto simp: fbsec_sod_register_entry_def split: if_splits option.splits)

lemma register_frame:
  assumes "fbsec_sod_register_entry e s = (b, s')"
  shows "\<exists>es. s' = s\<lparr>registry := es\<rparr>"
  using assms
  by (auto simp: fbsec_sod_register_entry_def split: if_splits option.splits intro: exI [of _ "registry s"])

lemma register_wf:
  assumes "sod_wf s" "fbsec_sod_register_entry e s = (b, s')"
  shows "sod_wf s'"
proof (cases b)
  case True
  with assms have "registry_wf (registry s')"
    using register_registry(1) by (auto simp: sod_wf_def)
  moreover obtain es where "s' = s\<lparr>registry := es\<rparr>" using register_frame [OF assms(2)] by blast
  ultimately show ?thesis using assms(1) by (simp add: sod_wf_def keys_wf_def)
next
  case False
  then have "s' = s" using assms(2) register_False [of e s s'] by simp
  then show ?thesis using assms(1) by simp
qed

section \<open>The registry as an interface\<close>

text \<open>
  What the rest of the server relies on: an id lookup that sees the latest
  successful registration and a refused registration that changes nothing.
\<close>

locale entry_map =
  fixes find :: "'s \<Rightarrow> u32 \<Rightarrow> sod_entry option"
    and register :: "sod_entry \<Rightarrow> 's \<Rightarrow> bool \<times> 's"
    and inv :: "'s \<Rightarrow> bool"
  assumes find_register: "inv s \<Longrightarrow> register e s = (True, s') \<Longrightarrow>
      find s' d = (if d = ent_data_id e then Some e else find s d)"
    and register_refused: "register e s = (False, s') \<Longrightarrow> s' = s"
    and inv_register: "inv s \<Longrightarrow> register e s = (b, s') \<Longrightarrow> inv s'"
begin

fun register_all :: "sod_entry list \<Rightarrow> 's \<Rightarrow> bool \<times> 's" where
  "register_all [] s = (True, s)"
| "register_all (e # es) s =
     (case register e s of (ok, s1) \<Rightarrow>
        if ok then register_all es s1 else (False, s1))"

lemma register_all_find:
  assumes "inv s" "register_all es s = (True, s')" "distinct (map ent_data_id es)"
  shows "inv s' \<and> (\<forall>e\<in>set es. find s' (ent_data_id e) = Some e) \<and>
    (\<forall>d. d \<notin> ent_data_id ` set es \<longrightarrow> find s' d = find s d)"
  using assms
proof (induction es arbitrary: s)
  case Nil
  then show ?case by simp
next
  case (Cons e es)
  obtain ok s1 where r: "register e s = (ok, s1)" by force
  with Cons.prems(2) have ok: "ok" "register_all es s1 = (True, s')"
    by (auto split: if_splits)
  then have "inv s1" using r Cons.prems(1) inv_register by blast
  with Cons.IH [OF this ok(2)] Cons.prems(3) find_register [OF Cons.prems(1), of e s1] r ok(1)
  show ?case by auto
qed

end

lemma find_register_entry:
  assumes "registry_wf (registry s)" "fbsec_sod_register_entry e s = (True, s')"
  shows "fbsec_sod_find_entry s' d =
    (if d = ent_data_id e then Some e else fbsec_sod_find_entry s d)"
proof -
  note s' = register_registry [OF assms]
  have d: "distinct (map ent_data_id (registry s'))" "distinct (map ent_data_id (registry s))"
    using s'(1) assms(1) by (simp_all add: registry_wf_def)
  show ?thesis
  proof (cases "fbsec_sod_find_entry s' d")
    case None
    then have "d \<noteq> ent_data_id e" "fbsec_sod_find_entry s d = None"
      using s'(2) by (auto simp: find_entry_None)
    then show ?thesis using None by simp
  next
    case (Some e')
    then have e': "e' \<in> set (registry s')" "ent_data_id e' = d"
      using find_entry_distinct [OF d(1)] by blast+
    show ?thesis
    proof (cases "e' = e")
      case True
      then show ?thesis using Some e' by simp
    next
      case False
      then have "e' \<in> set (registry s)" "d \<noteq> ent_data_id e" using e' s'(2) by auto
      then have "fbsec_sod_find_entry s d = Some e'"
        using find_entry_distinct [OF d(2)] e'(2) by blast
      then show ?thesis using Some \<open>d \<noteq> ent_data_id e\<close> by simp
    qed
  qed
qed

interpretation sod_map: entry_map fbsec_sod_find_entry fbsec_sod_register_entry sod_wf
proof
  show "fbsec_sod_find_entry s' d = (if d = ent_data_id e then Some e else fbsec_sod_find_entry s d)"
    if "sod_wf s" "fbsec_sod_register_entry e s = (True, s')" for s e and s' :: "'h sod" and d
    using that find_register_entry [of s e s' d] by (simp add: sod_wf_def)
  show "s' = s" if "fbsec_sod_register_entry e s = (False, s')" for e s and s' :: "'h sod"
    using that by (rule register_False)
  show "sod_wf s'" if "sod_wf s" "fbsec_sod_register_entry e s = (b, s')" for s e b and s' :: "'h sod"
    using that by (rule register_wf)
qed

section \<open>Key store lemmas\<close>

lemma key_id_range:
  "k \<noteq> 0 \<Longrightarrow> k \<le> FBSEC_SOD_KEY_SLOTS \<Longrightarrow> unat (k :: u8) < 5 \<and> 0 < unat k"
  by (auto simp: word_le_nat_alt unat_gt_0)

lemma has_key_range: "fbsec_sod_has_key s k \<Longrightarrow> unat k < 5"
  using key_id_range [of k] by (auto simp: fbsec_sod_has_key_def split: if_splits)

lemma get_key_length:
  assumes "keys_wf s" "get_key s k = Some key"
  shows "length key = FBSEC_AEAD_KEY_SIZE"
proof -
  have "fbsec_sod_has_key s k" "key = sod_keys s ! unat k"
    using assms(2) by (auto simp: get_key_def split: if_splits)
  then show ?thesis using assms(1) has_key_range [of s k] by (auto simp: keys_wf_def)
qed

lemma set_key_ex_result:
  "fst (fbsec_sod_set_key_ex k key v s) \<longleftrightarrow>
   k \<noteq> 0 \<and> k \<le> FBSEC_SOD_KEY_SLOTS \<and> \<not> fbsec_sod_has_key s k"
  by (auto simp: fbsec_sod_set_key_ex_def fbsec_sod_has_key_def not_less)

lemma set_key_ex_refused: "fbsec_sod_set_key_ex k key v s = (False, s') \<Longrightarrow> s' = s"
  by (auto simp: fbsec_sod_set_key_ex_def split: if_splits)

lemma set_key_ex_wf:
  assumes "keys_wf s" "length key = FBSEC_AEAD_KEY_SIZE" "fbsec_sod_set_key_ex k key v s = (b, s')"
  shows "keys_wf s'"
  using assms set_update_subset_insert [of "sod_keys s" "unat k" key]
  by (auto simp: fbsec_sod_set_key_ex_def keys_wf_def split: if_splits)

lemma set_key_ex_get:
  assumes "keys_wf s" "fbsec_sod_set_key_ex k key v s = (True, s')"
  shows "get_key s' j = (if j = k then Some key else get_key s j)"
    "fbsec_sod_get_key_id_value s' j = (if j = k then v else fbsec_sod_get_key_id_value s j)"
proof -
  have k: "k \<noteq> 0" "k \<le> FBSEC_SOD_KEY_SLOTS" and
    s': "s' = s\<lparr>sod_keys := (sod_keys s)[unat k := key],
               key_present := (key_present s)[unat k := True],
               key_id_val := (key_id_val s)[unat k := v]\<rparr>"
    using assms(2) by (auto simp: fbsec_sod_set_key_ex_def split: if_splits)
  have ne: "unat k = unat j \<longleftrightarrow> j = k" by (auto simp: word_unat_eq_iff)
  show "get_key s' j = (if j = k then Some key else get_key s j)"
    "fbsec_sod_get_key_id_value s' j = (if j = k then v else fbsec_sod_get_key_id_value s j)"
    using k key_id_range [OF k] assms(1)
    by (auto simp: ne s' get_key_def fbsec_sod_has_key_def fbsec_sod_get_key_id_value_def keys_wf_def
        nth_list_update)
qed

lemma clear_keys_get [simp]: "get_key (fbsec_sod_clear_keys s) k = None"
  using key_id_range [of k]
  by (auto simp: get_key_def fbsec_sod_has_key_def fbsec_sod_clear_keys_def nth_replicate)

lemma clear_keys_wf: "keys_wf (fbsec_sod_clear_keys s)"
  by (simp add: keys_wf_def fbsec_sod_clear_keys_def)

section \<open>The key store as an interface\<close>

locale write_once_store =
  fixes get :: "'s \<Rightarrow> u8 \<Rightarrow> bytes option"
    and put :: "u8 \<Rightarrow> bytes \<Rightarrow> u32 \<Rightarrow> 's \<Rightarrow> bool \<times> 's"
    and clear :: "'s \<Rightarrow> 's"
    and inv :: "'s \<Rightarrow> bool"
  assumes put_get: "inv s \<Longrightarrow> put k key v s = (True, s') \<Longrightarrow>
      get s' j = (if j = k then Some key else get s j)"
    and put_full: "get s k \<noteq> None \<Longrightarrow> \<not> fst (put k key v s)"
    and put_refused: "put k key v s = (False, s') \<Longrightarrow> s' = s"
    and clear_get: "get (clear s) k = None"
    and inv_put: "inv s \<Longrightarrow> length key = FBSEC_AEAD_KEY_SIZE \<Longrightarrow> put k key v s = (b, s') \<Longrightarrow> inv s'"
begin

text \<open>Any sequence of installs, successful or not.\<close>

fun put_all :: "(u8 \<times> bytes \<times> u32) list \<Rightarrow> 's \<Rightarrow> 's" where
  "put_all [] s = s"
| "put_all ((k, key, v) # xs) s = put_all xs (snd (put k key v s))"

lemma put_keeps:
  assumes "inv s" "get s k = Some key"
  shows "get (snd (put j key' v s)) k = Some key"
proof -
  obtain b s' where r: "put j key' v s = (b, s')" by force
  show ?thesis
  proof (cases b)
    case True
    have "j \<noteq> k" using put_full [of s k key' v] assms(2) r True by auto
    then show ?thesis using put_get [OF assms(1)] r True assms(2) by simp
  next
    case False
    then have "s' = s" using r put_refused [of j key' v s s'] by simp
    then show ?thesis using r assms(2) by simp
  qed
qed

lemma put_all_keeps:
  assumes "inv s" "get s k = Some key" "\<forall>(j, key', v)\<in>set xs. length key' = FBSEC_AEAD_KEY_SIZE"
  shows "get (put_all xs s) k = Some key"
  using assms
proof (induction xs arbitrary: s)
  case Nil
  then show ?case by simp
next
  case (Cons x xs)
  obtain j key' v where x: "x = (j, key', v)" using prod_cases3 by blast
  have "inv (snd (put j key' v s))"
    using Cons.prems(1,3) inv_put [of s key' j v] x by (cases "put j key' v s") auto
  then show ?case
    using Cons.IH put_keeps [OF Cons.prems(1,2)] Cons.prems(3) x by simp
qed

end

interpretation key_store: write_once_store
  get_key fbsec_sod_set_key_ex fbsec_sod_clear_keys keys_wf
proof
  show "get_key s' j = (if j = k then Some key else get_key s j)"
    if "keys_wf s" "fbsec_sod_set_key_ex k key v s = (True, s')" for s k key v and s' :: "'h sod" and j
    using that by (rule set_key_ex_get(1))
  show "\<not> fst (fbsec_sod_set_key_ex k key v s)" if "get_key s k \<noteq> None"
    for s :: "'h sod" and k key v
    using that by (auto simp: set_key_ex_result get_key_def split: if_splits)
  show "s' = s" if "fbsec_sod_set_key_ex k key v s = (False, s')" for k key v s and s' :: "'h sod"
    using that by (rule set_key_ex_refused)
  show "get_key (fbsec_sod_clear_keys s) k = None" for s :: "'h sod" and k by simp
  show "keys_wf s'" if "keys_wf s" "length key = FBSEC_AEAD_KEY_SIZE"
      "fbsec_sod_set_key_ex k key v s = (b, s')" for s k key v b and s' :: "'h sod"
    using that by (rule set_key_ex_wf)
qed

section \<open>Nonce lemmas\<close>

lemma length_session_nonce [simp, sofa_len]: "length (build_session_nonce nb c) = length nb"
  by (simp add: build_session_nonce_def Let_def)

lemma session_nonce_split:
  assumes "length nb = FBSEC_AEAD_NONCE_SIZE"
  shows "build_session_nonce nb c = take 8 nb @
    [nb ! 8 XOR ucast (drop_bit 24 c), nb ! 9 XOR ucast (drop_bit 16 c),
     nb ! 10 XOR ucast (drop_bit 8 c), nb ! 11 XOR ucast c]"
  by (rule nth_equalityI)
     (auto simp: build_session_nonce_def Let_def nth_list_update assms nth_append less_Suc_eq
       numeral_eq_Suc)

lemma session_nonce_inject:
  assumes "length nb = FBSEC_AEAD_NONCE_SIZE"
  shows "build_session_nonce nb c = build_session_nonce nb c' \<longleftrightarrow> c = c'"
proof
  assume "build_session_nonce nb c = build_session_nonce nb c'"
  then have "(ucast c :: u8) = ucast c'" "(ucast (drop_bit 8 c) :: u8) = ucast (drop_bit 8 c')"
    "(ucast (drop_bit 16 c) :: u8) = ucast (drop_bit 16 c')"
    "(ucast (drop_bit 24 c) :: u8) = ucast (drop_bit 24 c')"
    by (simp_all add: session_nonce_split [OF assms])
  then have "le32 c = le32 c'" by (simp add: le32_def)
  then show "c = c'" by simp
qed simp

end
