(* ===== verification/Secure_Od_Dispatch.thy ===== *)
theory Secure_Od_Dispatch
  imports Secure_Od
begin

text \<open>
  The request handlers of \<open>shared/fbsec_secure_od.c\<close>: read and write arming,
  the single-shot write, the cyclic polls and \<open>fbsec_sod_dispatch\<close>. Every
  handler takes the GCM parameter \<open>g\<close>, the host's hooks \<open>P\<close>, the slot index and
  the server state, and returns the status and the new state. The hooks see the
  state at the point the C code calls them, so the order of the calls is the
  source's.
\<close>

section \<open>Slot updates\<close>

text \<open>Assignments through the C pointers \<open>&g_read_slot[i]\<close> and \<open>&g_write_slot[i]\<close>.\<close>

definition upd_read :: "nat \<Rightarrow> (read_state \<Rightarrow> read_state) \<Rightarrow> 'h sod \<Rightarrow> 'h sod" where
  "upd_read i f s = s\<lparr>read_slot := (read_slot s)[i := f (read_slot s ! i)]\<rparr>"

definition upd_write :: "nat \<Rightarrow> (write_state \<Rightarrow> write_state) \<Rightarrow> 'h sod \<Rightarrow> 'h sod" where
  "upd_write i f s = s\<lparr>write_slot := (write_slot s)[i := f (write_slot s ! i)]\<rparr>"

section \<open>Read arming\<close>

text \<open>
  The slot after \<open>memset(slot, 0, ..)\<close> and the assignments that follow a
  successful seal (lines 505-520).
\<close>

definition armed_read_slot ::
  "'h port \<Rightarrow> 'h sod \<Rightarrow> u16 \<Rightarrow> u8 \<Rightarrow> bytes \<Rightarrow> bytes \<Rightarrow> bytes \<Rightarrow> bytes \<Rightarrow> read_state" where
  "armed_read_slot P s client_dev key_id client_random server_random ct tag =
     (let is_cyclic = FBSEC_AEAD_KEYID_IS_CYCLIC key_id
      in read_state_zero\<lparr>
           rs_prepared := server_random @ ct @ tag,
           rs_in_use := True,
           rs_client_dev := client_dev,
           rs_armed_at := port_get_time_ms P s,
           rs_cyclic := is_cyclic,
           rs_key_id := (if is_cyclic then key_id else 0),
           rs_nonce_base := (if is_cyclic then fbsec_aead_xor_nonce client_random server_random
                             else rs_nonce_base read_state_zero),
           rs_counter := 0\<rparr>)"

definition arm_read_response ::
  "gcm \<Rightarrow> 'h port \<Rightarrow> nat \<Rightarrow> sod_entry \<Rightarrow> u16 \<Rightarrow> bytes \<Rightarrow> 'h sod \<Rightarrow> sod_status \<times> 'h sod" where
  "arm_read_response g P slot_idx entry client_dev challenge s =
     (let key_id = challenge ! 0;
          client_random = slice challenge 1 FBSEC_AEAD_RAND_SIZE;
          kid_base = FBSEC_AEAD_KEYID_BASE key_id;
          slot = read_slot s ! slot_idx
      in if FBSEC_AEAD_KEYID_RESERVED key_id \<noteq> 0 then (SOD_ABORT FBSEC_ABORT_KEY_ID, s)
      else if ent_key_id entry \<noteq> FBSEC_SOD_KEY_NONE \<and> kid_base \<noteq> ent_key_id entry then
        (SOD_ABORT FBSEC_ABORT_KEY_ID, s)
      else if get_key s kid_base = None then (SOD_ABORT FBSEC_ABORT_KEY_ID, s)
      else if \<not> port_access_allowed P SOD_OP_READ (ent_data_id entry) s then
        (SOD_ABORT FBSEC_ABORT_DEVICE_STATE, s)
      else if \<not> port_role_allowed P SOD_OP_READ kid_base (ent_data_id entry) s then
        (SOD_ABORT FBSEC_ABORT_ROLE_DENIED, s)
      else if slot_held_by_other P s (rs_in_use slot) (rs_cyclic slot) (rs_client_dev slot)
                (rs_armed_at slot) client_dev then
        (SOD_ABORT FBSEC_ABORT_DEVICE_STATE, s)
      else
        (case port_read_before P (ent_data_id entry) (unat (ent_data_len entry)) s of
          ((hook_rc, plaintext), s1) \<Rightarrow>
            if hook_rc \<noteq> FBSEC_ABORT_NONE then (SOD_ABORT hook_rc, s1)
            else if length plaintext \<noteq> unat (ent_data_len entry) then
              (SOD_ABORT FBSEC_ABORT_INTERNAL, s1)
            else
              (case port_random P FBSEC_AEAD_RAND_SIZE s1 of
                (None, s2) \<Rightarrow> (SOD_ABORT FBSEC_ABORT_INTERNAL, s2)
              | (Some server_random, s2) \<Rightarrow>
                  let nonce = fbsec_aead_xor_nonce client_random server_random;
                      s3 = upd_read slot_idx (\<lambda>_. read_state_zero) s2
                  in (case fbsec_aead_seal g (sod_keys s3 ! unat kid_base) nonce
                             FBSEC_AEAD_DIR_READ_RESPONSE key_id
                             (port_get_device_id P s3) client_dev (ent_data_id entry)
                             (Some client_random) (Some server_random) plaintext of
                       None \<Rightarrow> (SOD_ABORT FBSEC_ABORT_INTERNAL, s3)
                     | Some (ct, tag) \<Rightarrow>
                         (SOD_DEFER,
                          upd_read slot_idx
                            (\<lambda>_. armed_read_slot P s3 client_dev key_id client_random
                                    server_random ct tag) s3)))))"

section \<open>Write arming and the single-shot write\<close>

definition armed_write_slot ::
  "'h port \<Rightarrow> 'h sod \<Rightarrow> u16 \<Rightarrow> u8 \<Rightarrow> bool \<Rightarrow> bool \<Rightarrow> bytes \<Rightarrow> write_state" where
  "armed_write_slot P s client_dev wire_key_id have_kid is_cyclic random_buf =
     write_state_zero\<lparr>ws_in_use := True,
       ws_cyclic := is_cyclic,
       ws_client_dev := client_dev,
       ws_armed_at := port_get_time_ms P s,
       ws_key_id := (if have_kid then wire_key_id else 0),
       ws_server_random := random_buf,
       ws_counter := 0\<rparr>"

definition arm_write_challenge ::
  "'h port \<Rightarrow> nat \<Rightarrow> sod_entry \<Rightarrow> u16 \<Rightarrow> u8 \<Rightarrow> bool \<Rightarrow> nat \<Rightarrow> 'h sod \<Rightarrow> sod_status \<times> 'h sod" where
  "arm_write_challenge P slot_idx entry client_dev wire_key_id have_kid reply_max s =
     (let kid_base = FBSEC_AEAD_KEYID_BASE wire_key_id;
          is_cyclic = (have_kid \<and> FBSEC_AEAD_KEYID_IS_CYCLIC wire_key_id)
      in if \<not> port_access_allowed P SOD_OP_WRITE (ent_data_id entry) s then
        (SOD_ABORT FBSEC_ABORT_DEVICE_STATE, s)
      else if have_kid \<and> FBSEC_AEAD_KEYID_RESERVED wire_key_id \<noteq> 0 then
        (SOD_ABORT FBSEC_ABORT_KEY_ID, s)
      else if have_kid \<and> \<not> is_cyclic then (SOD_ABORT FBSEC_ABORT_KEY_ID, s)
      else if have_kid \<and> ent_key_id entry \<noteq> FBSEC_SOD_KEY_NONE \<and> kid_base \<noteq> ent_key_id entry then
        (SOD_ABORT FBSEC_ABORT_KEY_ID, s)
      else if have_kid \<and> get_key s kid_base = None then (SOD_ABORT FBSEC_ABORT_KEY_ID, s)
      else if have_kid \<and> \<not> port_role_allowed P SOD_OP_WRITE kid_base (ent_data_id entry) s then
        (SOD_ABORT FBSEC_ABORT_ROLE_DENIED, s)
      else if reply_max < WRITE_CHALLENGE_LEN then (SOD_ABORT FBSEC_ABORT_INTERNAL, s)
      else
        (case port_random P FBSEC_AEAD_RAND_SIZE s of
          (None, s1) \<Rightarrow> (SOD_ABORT FBSEC_ABORT_INTERNAL, s1)
        | (Some random_buf, s1) \<Rightarrow>
            let slot = write_slot s1 ! slot_idx
            in if slot_held_by_other P s1 (ws_in_use slot) (ws_cyclic slot) (ws_client_dev slot)
                    (ws_armed_at slot) client_dev then
                 (SOD_ABORT FBSEC_ABORT_DEVICE_STATE, s1)
               else
                 (SOD_OK random_buf,
                  upd_write slot_idx
                    (\<lambda>_. armed_write_slot P s1 client_dev wire_key_id have_kid is_cyclic
                            random_buf) s1)))"

definition verify_and_apply_write ::
  "gcm \<Rightarrow> 'h port \<Rightarrow> nat \<Rightarrow> sod_entry \<Rightarrow> bytes \<Rightarrow> 'h sod \<Rightarrow> sod_status \<times> 'h sod" where
  "verify_and_apply_write g P slot_idx entry req s =
     (let slot = write_slot s ! slot_idx;
          data_len = unat (ent_data_len entry);
          expected = 1 + FBSEC_AEAD_RAND_SIZE + data_len + FBSEC_AEAD_TAG_SIZE;
          release = upd_write slot_idx (\<lambda>sl. sl\<lparr>ws_in_use := False\<rparr>)
      in if \<not> ws_in_use slot then (SOD_ABORT FBSEC_ABORT_NO_SESSION, s)
      else if \<not> slot_is_fresh P s (ws_armed_at slot) then
        (SOD_ABORT FBSEC_ABORT_NO_SESSION, release s)
      else if length req \<noteq> expected then
        (SOD_ABORT (length_abort (length req) expected), release s)
      else
        let wire_key_id = req ! 0;
            kid_base = FBSEC_AEAD_KEYID_BASE wire_key_id;
            client_random = slice req 1 FBSEC_AEAD_RAND_SIZE;
            ciphertext = slice req (1 + FBSEC_AEAD_RAND_SIZE) data_len;
            tag = slice req (1 + FBSEC_AEAD_RAND_SIZE + data_len) FBSEC_AEAD_TAG_SIZE
        in if FBSEC_AEAD_KEYID_RESERVED wire_key_id \<noteq> 0 then
             (SOD_ABORT FBSEC_ABORT_KEY_ID, release s)
           else if ent_key_id entry \<noteq> FBSEC_SOD_KEY_NONE \<and> kid_base \<noteq> ent_key_id entry then
             (SOD_ABORT FBSEC_ABORT_KEY_ID, release s)
           else
             (case get_key s kid_base of
                None \<Rightarrow> (SOD_ABORT FBSEC_ABORT_KEY_ID, release s)
              | Some key \<Rightarrow>
                  if \<not> port_role_allowed P SOD_OP_WRITE kid_base (ent_data_id entry) s then
                    (SOD_ABORT FBSEC_ABORT_ROLE_DENIED, release s)
                  else
                    let s1 = upd_write slot_idx (\<lambda>sl. sl\<lparr>ws_key_id := wire_key_id\<rparr>) s;
                        nonce = fbsec_aead_xor_nonce client_random (ws_server_random slot)
                    in (case fbsec_aead_open g key nonce FBSEC_AEAD_DIR_WRITE_REQUEST wire_key_id
                               (port_get_device_id P s1) (ws_client_dev slot) (ent_data_id entry)
                               (Some client_random) (Some (ws_server_random slot))
                               ciphertext tag of
                         None \<Rightarrow> (SOD_ABORT FBSEC_ABORT_TAG_VERIFY, release s1)
                       | Some plaintext \<Rightarrow>
                           (case port_write_after P (ent_data_id entry) plaintext
                                   (s1\<lparr>last_write_kid_base := kid_base\<rparr>) of
                              (hook_rc, s2) \<Rightarrow>
                                if hook_rc \<noteq> FBSEC_ABORT_NONE then
                                  (SOD_ABORT hook_rc, release s2)
                                else if FBSEC_AEAD_KEYID_IS_CYCLIC wire_key_id then
                                  (SOD_OK [],
                                   upd_write slot_idx
                                     (\<lambda>sl. sl\<lparr>ws_cyclic := True,
                                             ws_key_id := wire_key_id,
                                             ws_nonce_base :=
                                               fbsec_aead_xor_nonce client_random
                                                 (ws_server_random sl),
                                             ws_counter := 0,
                                             ws_armed_at := port_get_time_ms P s2\<rparr>) s2)
                                else (SOD_OK [], release s2)))))"

section \<open>Cyclic polls\<close>

text \<open>\<open>Inl\<close> is the abort code of a refused frame, \<open>Inr\<close> the counter it must use.\<close>

definition poll_check_counter :: "u32 \<Rightarrow> u8 \<Rightarrow> (abort, u32) result" where
  "poll_check_counter current_counter wire_counter_low =
     (if current_counter \<ge> FBSEC_AEAD_KEY_USE_LIMIT then Inl FBSEC_ABORT_KEY_BUDGET
      else let expected = current_counter + 1
           in if ucast expected \<noteq> wire_counter_low then Inl FBSEC_ABORT_POLL_COUNTER
              else Inr expected)"

definition handle_read_poll ::
  "gcm \<Rightarrow> 'h port \<Rightarrow> nat \<Rightarrow> sod_entry \<Rightarrow> u16 \<Rightarrow> bytes \<Rightarrow> nat \<Rightarrow> 'h sod \<Rightarrow> sod_status \<times> 'h sod" where
  "handle_read_poll g P slot_idx entry client_dev req reply_max s =
     (let slot = read_slot s ! slot_idx;
          needed = 1 + unat (ent_data_len entry) + FBSEC_AEAD_TAG_SIZE;
          kid_base = FBSEC_AEAD_KEYID_BASE (rs_key_id slot);
          release = upd_read slot_idx (\<lambda>sl. sl\<lparr>rs_in_use := False\<rparr>)
      in if \<not> rs_in_use slot \<or> \<not> rs_cyclic slot then (SOD_ABORT FBSEC_ABORT_NO_SESSION, s)
      else if rs_client_dev slot \<noteq> client_dev then (SOD_ABORT FBSEC_ABORT_NO_SESSION, s)
      else if \<not> session_is_fresh P s (rs_armed_at slot) then
        (SOD_ABORT FBSEC_ABORT_NO_SESSION, release s)
      else if length req \<noteq> 1 then (SOD_ABORT (length_abort (length req) 1), s)
      else if reply_max < needed then (SOD_ABORT FBSEC_ABORT_INTERNAL, s)
      else
        (case poll_check_counter (rs_counter slot) (req ! 0) of
           Inl ac \<Rightarrow> (SOD_ABORT ac, if ac = FBSEC_ABORT_KEY_BUDGET then release s else s)
         | Inr expected_counter \<Rightarrow>
             if \<not> port_access_allowed P SOD_OP_READ (ent_data_id entry) s then
               (SOD_ABORT FBSEC_ABORT_DEVICE_STATE, s)
             else if \<not> port_role_allowed P SOD_OP_READ kid_base (ent_data_id entry) s then
               (SOD_ABORT FBSEC_ABORT_ROLE_DENIED, s)
             else
               (case port_read_before P (ent_data_id entry) (unat (ent_data_len entry)) s of
                 ((hook_rc, plaintext), s1) \<Rightarrow>
                   if hook_rc \<noteq> FBSEC_ABORT_NONE then (SOD_ABORT hook_rc, s1)
                   else if length plaintext \<noteq> unat (ent_data_len entry) then
                     (SOD_ABORT FBSEC_ABORT_INTERNAL, s1)
                   else
                     (case get_key s1 kid_base of
                        None \<Rightarrow> (SOD_ABORT FBSEC_ABORT_KEY_ID, s1)
                      | Some key \<Rightarrow>
                          (case fbsec_aead_seal g key
                                  (build_session_nonce (rs_nonce_base slot) expected_counter)
                                  FBSEC_AEAD_DIR_READ_POLL_RESPONSE (rs_key_id slot)
                                  (port_get_device_id P s1) (rs_client_dev slot)
                                  (ent_data_id entry) None None plaintext of
                             None \<Rightarrow> (SOD_ABORT FBSEC_ABORT_INTERNAL, s1)
                           | Some (ct, tag) \<Rightarrow>
                               (SOD_OK (ucast expected_counter # ct @ tag),
                                upd_read slot_idx
                                  (\<lambda>sl. sl\<lparr>rs_counter := expected_counter,
                                          rs_armed_at := port_get_time_ms P s1\<rparr>) s1))))))"

definition handle_write_poll ::
  "gcm \<Rightarrow> 'h port \<Rightarrow> nat \<Rightarrow> sod_entry \<Rightarrow> u16 \<Rightarrow> bytes \<Rightarrow> 'h sod \<Rightarrow> sod_status \<times> 'h sod" where
  "handle_write_poll g P slot_idx entry client_dev req s =
     (let slot = write_slot s ! slot_idx;
          data_len = unat (ent_data_len entry);
          expected_len = 1 + data_len + FBSEC_AEAD_TAG_SIZE;
          kid_base = FBSEC_AEAD_KEYID_BASE (ws_key_id slot);
          release = upd_write slot_idx (\<lambda>sl. sl\<lparr>ws_in_use := False\<rparr>)
      in if \<not> ws_in_use slot \<or> \<not> ws_cyclic slot then (SOD_ABORT FBSEC_ABORT_NO_SESSION, s)
      else if ws_client_dev slot \<noteq> client_dev then (SOD_ABORT FBSEC_ABORT_NO_SESSION, s)
      else if \<not> session_is_fresh P s (ws_armed_at slot) then
        (SOD_ABORT FBSEC_ABORT_NO_SESSION, release s)
      else if length req \<noteq> expected_len then
        (SOD_ABORT (length_abort (length req) expected_len), s)
      else
        (case poll_check_counter (ws_counter slot) (req ! 0) of
           Inl ac \<Rightarrow> (SOD_ABORT ac, if ac = FBSEC_ABORT_KEY_BUDGET then release s else s)
         | Inr expected_counter \<Rightarrow>
             if \<not> port_role_allowed P SOD_OP_WRITE kid_base (ent_data_id entry) s then
               (SOD_ABORT FBSEC_ABORT_ROLE_DENIED, s)
             else
               (case get_key s kid_base of
                  None \<Rightarrow> (SOD_ABORT FBSEC_ABORT_KEY_ID, s)
                | Some key \<Rightarrow>
                    (case fbsec_aead_open g key
                            (build_session_nonce (ws_nonce_base slot) expected_counter)
                            FBSEC_AEAD_DIR_WRITE_POLL_REQUEST (ws_key_id slot)
                            (port_get_device_id P s) (ws_client_dev slot) (ent_data_id entry)
                            None None
                            (slice req 1 data_len)
                            (slice req (1 + data_len) FBSEC_AEAD_TAG_SIZE) of
                       None \<Rightarrow> (SOD_ABORT FBSEC_ABORT_TAG_VERIFY, s)
                     | Some plaintext \<Rightarrow>
                         (case port_write_after P (ent_data_id entry) plaintext s of
                            (hook_rc, s1) \<Rightarrow>
                              if hook_rc \<noteq> FBSEC_ABORT_NONE then (SOD_ABORT hook_rc, s1)
                              else (SOD_OK [],
                                    upd_write slot_idx
                                      (\<lambda>sl. sl\<lparr>ws_counter := expected_counter,
                                              ws_armed_at := port_get_time_ms P s1\<rparr>) s1))))))"

section \<open>Dispatch\<close>

definition deliver_prepared :: "'h port \<Rightarrow> nat \<Rightarrow> nat \<Rightarrow> 'h sod \<Rightarrow> sod_status \<times> 'h sod" where
  "deliver_prepared P idx reply_max s =
     (let slot = read_slot s ! idx
      in if length (rs_prepared slot) > reply_max then
           (SOD_ABORT FBSEC_ABORT_INTERNAL, upd_read idx (\<lambda>sl. sl\<lparr>rs_in_use := False\<rparr>) s)
         else if rs_cyclic slot then
           (SOD_OK (rs_prepared slot),
            upd_read idx (\<lambda>sl. sl\<lparr>rs_prepared := [], rs_armed_at := port_get_time_ms P s\<rparr>) s)
         else
           (SOD_OK (rs_prepared slot), upd_read idx (\<lambda>sl. sl\<lparr>rs_in_use := False\<rparr>) s))"

text \<open>The SECURE_WO branch that ends \<open>fbsec_sod_dispatch\<close>.\<close>

definition dispatch_write ::
  "gcm \<Rightarrow> 'h port \<Rightarrow> nat \<Rightarrow> sod_entry \<Rightarrow> u16 \<Rightarrow> bytes \<Rightarrow> nat \<Rightarrow> 'h sod \<Rightarrow> sod_status \<times> 'h sod" where
  "dispatch_write g P idx entry client_dev req reply_max s =
     (if length req = 0 then arm_write_challenge P idx entry client_dev 0 False reply_max s
      else if length req = 1 then
        arm_write_challenge P idx entry client_dev (req ! 0) True reply_max s
      else verify_and_apply_write g P idx entry req s)"

definition fbsec_sod_dispatch ::
  "gcm \<Rightarrow> 'h port \<Rightarrow> u16 \<Rightarrow> u32 \<Rightarrow> bytes \<Rightarrow> nat \<Rightarrow> 'h sod \<Rightarrow> sod_status \<times> 'h sod" where
  "fbsec_sod_dispatch g P client_dev data_id req reply_max s =
     (case find_index s data_id of
        None \<Rightarrow> (SOD_NOT_HANDLED, s)
      | Some idx \<Rightarrow>
          let entry = registry s ! idx;
              has_ro = (ent_access_flags entry AND FBSEC_SOD_ACCESS_SECURE_RO \<noteq> 0);
              has_wo = (ent_access_flags entry AND FBSEC_SOD_ACCESS_SECURE_WO \<noteq> 0);
              rslot = read_slot s ! idx;
              wslot = write_slot s ! idx;
              poll_len = 1 + unat (ent_data_len entry) + FBSEC_AEAD_TAG_SIZE
          in if has_ro \<and> length req = 1 \<and> rs_in_use rslot \<and> rs_cyclic rslot then
               handle_read_poll g P idx entry client_dev req reply_max s
             else if has_wo \<and> length req = poll_len \<and> ws_in_use wslot \<and> ws_cyclic wslot then
               handle_write_poll g P idx entry client_dev req s
             else if has_ro \<and> length req = READ_CHALLENGE_LEN then
               arm_read_response g P idx entry client_dev req s
             else if has_ro \<and> length req = 0 \<and> rs_in_use rslot \<and> rs_prepared rslot \<noteq> []
                       \<and> slot_is_fresh P s (rs_armed_at rslot) then
               deliver_prepared P idx reply_max s
             else if has_ro \<and> length req = 0 \<and> \<not> has_wo then
               (SOD_ABORT FBSEC_ABORT_NO_SESSION, s)
             else if has_ro \<and> length req \<noteq> 0 \<and> \<not> has_wo then
               (SOD_ABORT FBSEC_ABORT_TYPE_MISMATCH, s)
             else if has_wo then
               dispatch_write g P idx entry client_dev req reply_max s
             else (SOD_ABORT FBSEC_ABORT_NOT_BUILT, s))"

section \<open>What the handlers rely on from the host\<close>

text \<open>
  Hooks reach the module only through its API: they never touch the registry
  or the slots, and leave the key store well formed. \<open>port_random\<close> fills the
  whole buffer.
\<close>

definition same_slots :: "'h sod \<Rightarrow> 'h sod \<Rightarrow> bool" where
  "same_slots s s' \<longleftrightarrow> registry s' = registry s \<and> read_slot s' = read_slot s \<and>
     write_slot s' = write_slot s \<and> (keys_wf s \<longrightarrow> keys_wf s')"

definition port_ok :: "'h port \<Rightarrow> bool" where
  "port_ok P \<longleftrightarrow>
     (\<forall>d n s. same_slots s (snd (port_read_before P d n s))) \<and>
     (\<forall>n s. same_slots s (snd (port_random P n s)) \<and>
            (\<forall>b. fst (port_random P n s) = Some b \<longrightarrow> length b = n)) \<and>
     (\<forall>d v s. same_slots s (snd (port_write_after P d v s)))"

lemma same_slots_refl [simp]: "same_slots s s"
  by (simp add: same_slots_def)

lemma same_slots_trans: "same_slots s s' \<Longrightarrow> same_slots s' s'' \<Longrightarrow> same_slots s s''"
  by (simp add: same_slots_def)

lemma port_read_before_frame:
  "port_ok P \<Longrightarrow> port_read_before P d n s = (r, s') \<Longrightarrow> same_slots s s'"
  by (metis port_ok_def snd_conv)

lemma port_random_frame:
  "port_ok P \<Longrightarrow> port_random P n s = (r, s') \<Longrightarrow> same_slots s s'"
  by (metis port_ok_def snd_conv)

lemma port_random_length:
  "port_ok P \<Longrightarrow> port_random P n s = (Some b, s') \<Longrightarrow> length b = n"
  by (metis port_ok_def fst_conv)

lemma port_write_after_frame:
  "port_ok P \<Longrightarrow> port_write_after P d v s = (r, s') \<Longrightarrow> same_slots s s'"
  by (metis port_ok_def snd_conv)

lemma same_slots_last_write [simp]:
  "same_slots (s\<lparr>last_write_kid_base := k\<rparr>) s' \<longleftrightarrow> same_slots s s'"
  by (simp add: same_slots_def keys_wf_def)

lemmas port_frames = port_read_before_frame port_random_frame port_write_after_frame

section \<open>Slot update lemmas\<close>

lemma upd_read_simps [simp]:
  "registry (upd_read i f s) = registry s" "write_slot (upd_read i f s) = write_slot s"
  "sod_keys (upd_read i f s) = sod_keys s" "key_present (upd_read i f s) = key_present s"
  "key_id_val (upd_read i f s) = key_id_val s"
  "last_write_kid_base (upd_read i f s) = last_write_kid_base s" "host (upd_read i f s) = host s"
  "read_slot (upd_read i f s) = (read_slot s)[i := f (read_slot s ! i)]"
  by (simp_all add: upd_read_def)

lemma upd_write_simps [simp]:
  "registry (upd_write i f s) = registry s" "read_slot (upd_write i f s) = read_slot s"
  "sod_keys (upd_write i f s) = sod_keys s" "key_present (upd_write i f s) = key_present s"
  "key_id_val (upd_write i f s) = key_id_val s"
  "last_write_kid_base (upd_write i f s) = last_write_kid_base s" "host (upd_write i f s) = host s"
  "write_slot (upd_write i f s) = (write_slot s)[i := f (write_slot s ! i)]"
  by (simp_all add: upd_write_def)

lemma keys_upd [simp]:
  "keys_wf (upd_read i f s) = keys_wf s" "keys_wf (upd_write i h s) = keys_wf s"
  "get_key (upd_read i f s) k = get_key s k" "get_key (upd_write i h s) k = get_key s k"
  by (simp_all add: keys_wf_def get_key_def fbsec_sod_has_key_def)

lemma find_index_upd [simp]:
  "find_index (upd_read i f s) d = find_index s d"
  "find_index (upd_write i h s) d = find_index s d"
  by (simp_all add: find_index_def)

lemma set_list_update_wf:
  "\<forall>x\<in>set xs. Q x \<Longrightarrow> Q y \<Longrightarrow> \<forall>x\<in>set (xs[i := y]). Q x"
  using set_update_subset_insert [of xs i y] by auto

lemma upd_read_wf:
  "sod_wf s \<Longrightarrow> read_state_wf (f (read_slot s ! i)) \<Longrightarrow> sod_wf (upd_read i f s)"
  using set_list_update_wf [of "read_slot s" read_state_wf "f (read_slot s ! i)" i]
  by (simp add: sod_wf_def)

lemma upd_write_wf:
  "sod_wf s \<Longrightarrow> write_state_wf (f (write_slot s ! i)) \<Longrightarrow> sod_wf (upd_write i f s)"
  using set_list_update_wf [of "write_slot s" write_state_wf "f (write_slot s ! i)" i]
  by (simp add: sod_wf_def)

lemma same_slots_wf: "sod_wf s \<Longrightarrow> same_slots s s' \<Longrightarrow> sod_wf s'"
  by (simp add: sod_wf_def same_slots_def)

lemma sod_wf_read_slot: "sod_wf s \<Longrightarrow> i < 8 \<Longrightarrow> read_state_wf (read_slot s ! i)"
  by (simp add: sod_wf_def)

lemma sod_wf_write_slot: "sod_wf s \<Longrightarrow> i < 8 \<Longrightarrow> write_state_wf (write_slot s ! i)"
  by (simp add: sod_wf_def)

lemma sod_wf_find_index: "sod_wf s \<Longrightarrow> find_index s d = Some i \<Longrightarrow> i < 8"
  using find_index_SomeD(1) [of s d i] by (auto simp: sod_wf_def registry_wf_def)

lemma sod_wf_data_len:
  "sod_wf s \<Longrightarrow> find_index s d = Some i \<Longrightarrow> unat (ent_data_len (registry s ! i)) \<le> FBSEC_AEAD_MAX_PROTECTED"
  using find_index_SomeD(1) [of s d i] by (auto simp: sod_wf_def registry_wf_def)

lemma read_state_wf_simps [simp]:
  "read_state_wf (r\<lparr>rs_in_use := b\<rparr>) = read_state_wf r"
  "read_state_wf (r\<lparr>rs_armed_at := t\<rparr>) = read_state_wf r"
  by (simp_all add: read_state_wf_def)

lemma write_state_wf_simps [simp]:
  "write_state_wf (w\<lparr>ws_in_use := b\<rparr>) = write_state_wf w"
  "write_state_wf (w\<lparr>ws_armed_at := t\<rparr>) = write_state_wf w"
  "write_state_wf (w\<lparr>ws_key_id := k\<rparr>) = write_state_wf w"
  "write_state_wf (w\<lparr>ws_cyclic := b\<rparr>) = write_state_wf w"
  by (simp_all add: write_state_wf_def)

section \<open>Counter checks\<close>

lemma poll_check_counter_InrD:
  assumes "poll_check_counter c low = Inr c'"
  shows "c < FBSEC_AEAD_KEY_USE_LIMIT" "c' = c + 1" "unat c' = Suc (unat c)" "low = ucast c'"
    "c' \<le> FBSEC_AEAD_KEY_USE_LIMIT"
proof -
  show c: "c < FBSEC_AEAD_KEY_USE_LIMIT" and c': "c' = c + 1" and "low = ucast c'"
    using assms by (auto simp: poll_check_counter_def Let_def not_le split: if_splits)
  then have "unat c < 1000000" by (simp add: word_less_nat_alt)
  then show "unat c' = Suc (unat c)"
    using c' by (simp add: unat_word_ariths)
  with \<open>unat c < 1000000\<close> show "c' \<le> FBSEC_AEAD_KEY_USE_LIMIT"
    by (simp add: word_le_nat_alt)
qed

lemma poll_check_counter_Inl:
  "poll_check_counter c low = Inl FBSEC_ABORT_KEY_BUDGET \<longleftrightarrow> c \<ge> FBSEC_AEAD_KEY_USE_LIMIT"
  by (auto simp: poll_check_counter_def Let_def)

section \<open>Case rules of the handlers\<close>

text \<open>The three ways \<open>arm_read_response\<close> ends.\<close>

definition arm_read_armed ::
  "gcm \<Rightarrow> 'h port \<Rightarrow> nat \<Rightarrow> sod_entry \<Rightarrow> u16 \<Rightarrow> bytes \<Rightarrow> 'h sod \<Rightarrow>
   bytes \<Rightarrow> bytes \<Rightarrow> bytes \<Rightarrow> bytes \<Rightarrow> 'h sod \<Rightarrow> 'h sod \<Rightarrow> bool" where
  "arm_read_armed g P i e c ch s plaintext sr ct tag s3 s' \<longleftrightarrow>
     (let kid = ch ! 0; kb = FBSEC_AEAD_KEYID_BASE kid;
          cr = slice ch 1 FBSEC_AEAD_RAND_SIZE in
      FBSEC_AEAD_KEYID_RESERVED kid = 0 \<and>
      (ent_key_id e = FBSEC_SOD_KEY_NONE \<or> kb = ent_key_id e) \<and>
      get_key s kb \<noteq> None \<and>
      port_access_allowed P SOD_OP_READ (ent_data_id e) s \<and>
      port_role_allowed P SOD_OP_READ kb (ent_data_id e) s \<and>
      length plaintext = unat (ent_data_len e) \<and>
      (\<exists>s1 s2. port_read_before P (ent_data_id e) (unat (ent_data_len e)) s
                 = ((FBSEC_ABORT_NONE, plaintext), s1) \<and>
         port_random P FBSEC_AEAD_RAND_SIZE s1 = (Some sr, s2) \<and>
         s3 = upd_read i (\<lambda>_. read_state_zero) s2) \<and>
      fbsec_aead_seal g (sod_keys s3 ! unat kb) (fbsec_aead_xor_nonce cr sr)
        FBSEC_AEAD_DIR_READ_RESPONSE kid (port_get_device_id P s3) c (ent_data_id e)
        (Some cr) (Some sr) plaintext = Some (ct, tag) \<and>
      s' = upd_read i (\<lambda>_. armed_read_slot P s3 c kid cr sr ct tag) s3)"

lemma arm_read_response_cases:
  assumes "arm_read_response g P i e c ch s = (st, s')" "port_ok P"
  obtains (refused) ac where "st = SOD_ABORT ac" "same_slots s s'"
  | (seal_failed) s2 where "st = SOD_ABORT FBSEC_ABORT_INTERNAL" "same_slots s s2"
      "s' = upd_read i (\<lambda>_. read_state_zero) s2"
  | (armed) plaintext sr ct tag s3 where "st = SOD_DEFER"
      "arm_read_armed g P i e c ch s plaintext sr ct tag s3 s'"
proof -
  let ?kid = "ch ! 0"
  let ?kb = "FBSEC_AEAD_KEYID_BASE ?kid"
  let ?cr = "slice ch 1 FBSEC_AEAD_RAND_SIZE"
  let ?rb = "port_read_before P (ent_data_id e) (unat (ent_data_len e)) s"
  obtain rc pt s1 where rb: "?rb = ((rc, pt), s1)" by (metis surj_pair)
  obtain r s2 where rnd: "port_random P FBSEC_AEAD_RAND_SIZE s1 = (r, s2)" by force
  have f1: "same_slots s s1" using port_read_before_frame [OF assms(2) rb] .
  have f2: "same_slots s s2" using f1 port_random_frame [OF assms(2) rnd] same_slots_trans by blast
  show ?thesis
  proof (cases "FBSEC_AEAD_KEYID_RESERVED ?kid \<noteq> 0 \<or>
      ent_key_id e \<noteq> FBSEC_SOD_KEY_NONE \<and> ?kb \<noteq> ent_key_id e \<or> get_key s ?kb = None \<or>
      \<not> port_access_allowed P SOD_OP_READ (ent_data_id e) s \<or>
      \<not> port_role_allowed P SOD_OP_READ ?kb (ent_data_id e) s \<or>
      slot_held_by_other P s (rs_in_use (read_slot s ! i)) (rs_cyclic (read_slot s ! i))
        (rs_client_dev (read_slot s ! i)) (rs_armed_at (read_slot s ! i)) c")
    case True
    then show ?thesis
      using assms(1) refused by (auto simp: arm_read_response_def Let_def split: if_splits)
  next
    case False
    then have pass: "FBSEC_AEAD_KEYID_RESERVED ?kid = 0"
      "\<not> (ent_key_id e \<noteq> FBSEC_SOD_KEY_NONE \<and> ?kb \<noteq> ent_key_id e)" "get_key s ?kb \<noteq> None"
      "port_access_allowed P SOD_OP_READ (ent_data_id e) s"
      "port_role_allowed P SOD_OP_READ ?kb (ent_data_id e) s"
      "\<not> slot_held_by_other P s (rs_in_use (read_slot s ! i)) (rs_cyclic (read_slot s ! i))
        (rs_client_dev (read_slot s ! i)) (rs_armed_at (read_slot s ! i)) c"
      unfolding de_Morgan_disj by (simp_all only: not_not not_False_eq_True conj_assoc)
    note run = assms(1) [unfolded arm_read_response_def Let_def, simplified pass rb rnd, simplified]
    show ?thesis
    proof (cases "rc = FBSEC_ABORT_NONE \<and> length pt = unat (ent_data_len e) \<and> r \<noteq> None")
      case False
      then have "\<exists>ac. st = SOD_ABORT ac" "s' = s1 \<or> s' = s2"
        using run rnd by (auto split: if_splits)
      then show ?thesis using refused f1 f2 by blast
    next
      case True
      then obtain sr where sr: "r = Some sr" "rc = FBSEC_ABORT_NONE"
          "length pt = unat (ent_data_len e)" by auto
      define s3 where "s3 = upd_read i (\<lambda>_. read_state_zero) s2"
      let ?seal = "fbsec_aead_seal g (sod_keys s3 ! unat ?kb) (fbsec_aead_xor_nonce ?cr sr)
        FBSEC_AEAD_DIR_READ_RESPONSE ?kid (port_get_device_id P s3) c (ent_data_id e)
        (Some ?cr) (Some sr) pt"
      show ?thesis
      proof (cases ?seal)
        case None
        then have "st = SOD_ABORT FBSEC_ABORT_INTERNAL" "s' = s3"
          using run rnd sr by (simp_all add: s3_def)
        then show ?thesis using seal_failed f2 s3_def by blast
      next
        case (Some x)
        then obtain ct tag where seal: "?seal = Some (ct, tag)" by (cases x) auto
        have "st = SOD_DEFER"
          and s': "s' = upd_read i (\<lambda>_. armed_read_slot P s3 c ?kid ?cr sr ct tag) s3"
          using run rnd sr seal by (simp_all add: s3_def)
        moreover have "arm_read_armed g P i e c ch s pt sr ct tag s3 s'"
          using pass rb rnd sr seal s' by (auto simp: arm_read_armed_def Let_def s3_def)
        ultimately show ?thesis using armed by blast
      qed
    qed
  qed
qed

lemma armed_read_slot_wf:
  assumes "length sr = FBSEC_AEAD_RAND_SIZE" "length ct \<le> FBSEC_AEAD_MAX_PROTECTED"
    "length tag = FBSEC_AEAD_TAG_SIZE"
  shows "read_state_wf (armed_read_slot P s c kid cr sr ct tag)"
  using assms by (simp add: read_state_wf_def armed_read_slot_def read_state_zero_def Let_def)

lemma keys_nth_length:
  "keys_wf s \<Longrightarrow> n < 5 \<Longrightarrow> length (sod_keys s ! n) = FBSEC_AEAD_KEY_SIZE"
  by (simp add: keys_wf_def)

lemma get_key_range: "get_key s k \<noteq> None \<Longrightarrow> unat k < 5"
  using has_key_range [of s k] by (auto simp: get_key_def split: if_splits)

lemma arm_read_armed_facts:
  assumes "arm_read_armed g P i e c ch s plaintext sr ct tag s3 s'" "port_ok P" "gcm_ok g"
    "sod_wf s" "i < 8"
  shows "length sr = FBSEC_AEAD_RAND_SIZE" "length ct = unat (ent_data_len e)"
    "length tag = FBSEC_AEAD_TAG_SIZE" "sod_wf s3" "sod_wf s'"
proof -
  let ?kb = "FBSEC_AEAD_KEYID_BASE (ch ! 0)"
  from assms(1) obtain s1 s2 where
    rb: "port_read_before P (ent_data_id e) (unat (ent_data_len e)) s = ((0, plaintext), s1)" and
    rnd: "port_random P FBSEC_AEAD_RAND_SIZE s1 = (Some sr, s2)" and
    s3: "s3 = upd_read i (\<lambda>_. read_state_zero) s2" and
    key: "get_key s ?kb \<noteq> None" and
    seal: "fbsec_aead_seal g (sod_keys s3 ! unat ?kb)
        (fbsec_aead_xor_nonce (slice ch 1 FBSEC_AEAD_RAND_SIZE) sr)
        FBSEC_AEAD_DIR_READ_RESPONSE (ch ! 0) (port_get_device_id P s3) c (ent_data_id e)
        (Some (slice ch 1 FBSEC_AEAD_RAND_SIZE)) (Some sr) plaintext = Some (ct, tag)" and
    s': "s' = upd_read i (\<lambda>_. armed_read_slot P s3 c (ch ! 0)
          (slice ch 1 FBSEC_AEAD_RAND_SIZE) sr ct tag) s3" and
    len: "length plaintext = unat (ent_data_len e)"
    unfolding arm_read_armed_def Let_def by blast
  show sr: "length sr = FBSEC_AEAD_RAND_SIZE" using port_random_length [OF assms(2) rnd] .
  have "same_slots s s2"
    using port_frames(1,2) [OF assms(2)] rb rnd same_slots_trans by blast
  then have "sod_wf s2" using assms(4) same_slots_wf by blast
  then show wf3: "sod_wf s3" by (simp add: s3 upd_read_wf)
  then have "length (sod_keys s3 ! unat ?kb) = FBSEC_AEAD_KEY_SIZE"
    using keys_nth_length get_key_range [OF key] by (auto simp: sod_wf_def)
  note lens = seal_lengths [OF assms(3) this length_xor_nonce seal]
  show ct: "length ct = unat (ent_data_len e)" "length tag = FBSEC_AEAD_TAG_SIZE"
    using lens len by simp_all
  show "sod_wf s'"
    unfolding s' using wf3 sr lens by (intro upd_read_wf) (simp_all add: armed_read_slot_wf)
qed

lemma arm_read_wf:
  assumes "arm_read_response g P i e c ch s = (st, s')" "port_ok P" "gcm_ok g" "sod_wf s" "i < 8"
  shows "sod_wf s'"
proof -
  from assms(1,2) show ?thesis
  proof (cases rule: arm_read_response_cases)
    case refused
    then show ?thesis using assms(4) same_slots_wf by blast
  next
    case (seal_failed s2)
    then show ?thesis using assms(4) same_slots_wf by (auto intro!: upd_read_wf)
  next
    case armed
    then show ?thesis using arm_read_armed_facts(5) assms by blast
  qed
qed

lemma arm_write_challenge_cases:
  assumes "arm_write_challenge P i e c kid hk rm s = (st, s')" "port_ok P"
  obtains (refused) ac where "st = SOD_ABORT ac" "same_slots s s'"
  | (armed) rnd s1 where "st = SOD_OK rnd" "length rnd = FBSEC_AEAD_RAND_SIZE"
      "port_access_allowed P SOD_OP_WRITE (ent_data_id e) s"
      "hk \<longrightarrow> FBSEC_AEAD_KEYID_IS_CYCLIC kid \<and> FBSEC_AEAD_KEYID_RESERVED kid = 0 \<and>
         (ent_key_id e = FBSEC_SOD_KEY_NONE \<or> FBSEC_AEAD_KEYID_BASE kid = ent_key_id e) \<and>
         get_key s (FBSEC_AEAD_KEYID_BASE kid) \<noteq> None \<and>
         port_role_allowed P SOD_OP_WRITE (FBSEC_AEAD_KEYID_BASE kid) (ent_data_id e) s"
      "port_random P FBSEC_AEAD_RAND_SIZE s = (Some rnd, s1)" "same_slots s s1"
      "s' = upd_write i (\<lambda>_. armed_write_slot P s1 c kid hk hk rnd) s1"
proof -
  obtain r s1 where rnd: "port_random P FBSEC_AEAD_RAND_SIZE s = (r, s1)" by force
  note f = port_random_frame [OF assms(2) rnd]
  show ?thesis
  proof (cases st)
    case (SOD_OK b)
    then have "r = Some b" and
      "s' = upd_write i (\<lambda>_. armed_write_slot P s1 c kid hk hk b) s1"
      "port_access_allowed P SOD_OP_WRITE (ent_data_id e) s"
      "hk \<longrightarrow> FBSEC_AEAD_KEYID_IS_CYCLIC kid \<and> FBSEC_AEAD_KEYID_RESERVED kid = 0 \<and>
         (ent_key_id e = FBSEC_SOD_KEY_NONE \<or> FBSEC_AEAD_KEYID_BASE kid = ent_key_id e) \<and>
         get_key s (FBSEC_AEAD_KEYID_BASE kid) \<noteq> None \<and>
         port_role_allowed P SOD_OP_WRITE (FBSEC_AEAD_KEYID_BASE kid) (ent_data_id e) s"
      using assms(1) rnd
      by (auto simp: arm_write_challenge_def Let_def
          split: if_splits option.splits)
    then show ?thesis using armed SOD_OK rnd f port_random_length [OF assms(2)] by blast
  next
    case (SOD_ABORT ac)
    then have "s' = s \<or> s' = s1"
      using assms(1) rnd
      by (auto simp: arm_write_challenge_def Let_def split: if_splits option.splits)
    then show ?thesis using refused SOD_ABORT f by auto
  qed (use assms(1) rnd in \<open>auto simp: arm_write_challenge_def Let_def split: if_splits option.splits\<close>)
qed

lemma arm_write_wf:
  assumes "arm_write_challenge P i e c kid hk rm s = (st, s')" "port_ok P" "sod_wf s"
  shows "sod_wf s'"
  using assms(1,2)
proof (cases rule: arm_write_challenge_cases)
  case refused
  then show ?thesis using assms(3) same_slots_wf by blast
next
  case (armed rnd s1)
  then show ?thesis
    using assms(3) same_slots_wf
    by (auto intro!: upd_write_wf simp: armed_write_slot_def write_state_zero_def write_state_wf_def)
qed

text \<open>What a successful check of a single-shot write request establishes.\<close>

definition write_request_opens ::
  "gcm \<Rightarrow> 'h port \<Rightarrow> nat \<Rightarrow> sod_entry \<Rightarrow> bytes \<Rightarrow> 'h sod \<Rightarrow> bytes \<Rightarrow> bool" where
  "write_request_opens g P i e req s plaintext \<longleftrightarrow>
     (let slot = write_slot s ! i; n = unat (ent_data_len e); kid = req ! 0;
          kb = FBSEC_AEAD_KEYID_BASE kid; cr = slice req 1 FBSEC_AEAD_RAND_SIZE in
      ws_in_use slot \<and> slot_is_fresh P s (ws_armed_at slot) \<and>
      length req = 1 + FBSEC_AEAD_RAND_SIZE + n + FBSEC_AEAD_TAG_SIZE \<and>
      FBSEC_AEAD_KEYID_RESERVED kid = 0 \<and>
      (ent_key_id e = FBSEC_SOD_KEY_NONE \<or> kb = ent_key_id e) \<and>
      port_role_allowed P SOD_OP_WRITE kb (ent_data_id e) s \<and>
      (\<exists>key. get_key s kb = Some key \<and>
         fbsec_aead_open g key (fbsec_aead_xor_nonce cr (ws_server_random slot))
           FBSEC_AEAD_DIR_WRITE_REQUEST kid
           (port_get_device_id P (upd_write i (\<lambda>sl. sl\<lparr>ws_key_id := kid\<rparr>) s))
           (ws_client_dev slot) (ent_data_id e) (Some cr) (Some (ws_server_random slot))
           (slice req (1 + FBSEC_AEAD_RAND_SIZE) n)
           (slice req (1 + FBSEC_AEAD_RAND_SIZE + n) FBSEC_AEAD_TAG_SIZE) = Some plaintext))"

text \<open>The state in which the write hook runs.\<close>

definition write_hook_state :: "nat \<Rightarrow> bytes \<Rightarrow> 'h sod \<Rightarrow> 'h sod" where
  "write_hook_state i req s =
     (upd_write i (\<lambda>sl. sl\<lparr>ws_key_id := req ! 0\<rparr>) s)
       \<lparr>last_write_kid_base := FBSEC_AEAD_KEYID_BASE (req ! 0)\<rparr>"

definition release_write :: "nat \<Rightarrow> 'h sod \<Rightarrow> 'h sod" where
  "release_write i = upd_write i (\<lambda>sl. sl\<lparr>ws_in_use := False\<rparr>)"

definition start_write_session :: "'h port \<Rightarrow> nat \<Rightarrow> bytes \<Rightarrow> 'h sod \<Rightarrow> 'h sod" where
  "start_write_session P i req s =
     upd_write i (\<lambda>sl. sl\<lparr>ws_cyclic := True, ws_key_id := req ! 0,
         ws_nonce_base := fbsec_aead_xor_nonce (slice req 1 FBSEC_AEAD_RAND_SIZE) (ws_server_random sl),
         ws_counter := 0, ws_armed_at := port_get_time_ms P s\<rparr>) s"

lemma verify_and_apply_write_refused:
  assumes "\<nexists>plaintext. write_request_opens g P i e req s plaintext"
  shows "(\<exists>ac. verify_and_apply_write g P i e req s = (SOD_ABORT ac, s) \<and>
            \<not> ws_in_use (write_slot s ! i)) \<or>
    (\<exists>ac. verify_and_apply_write g P i e req s = (SOD_ABORT ac, release_write i s)) \<or>
    (\<exists>ac. verify_and_apply_write g P i e req s =
       (SOD_ABORT ac, release_write i (upd_write i (\<lambda>sl. sl\<lparr>ws_key_id := req ! 0\<rparr>) s)))"
proof -
  have "fbsec_aead_open g key (fbsec_aead_xor_nonce (slice req 1 FBSEC_AEAD_RAND_SIZE)
            (ws_server_random (write_slot s ! i))) FBSEC_AEAD_DIR_WRITE_REQUEST (req ! 0)
          (port_get_device_id P (upd_write i (\<lambda>sl. sl\<lparr>ws_key_id := req ! 0\<rparr>) s))
          (ws_client_dev (write_slot s ! i)) (ent_data_id e)
          (Some (slice req 1 FBSEC_AEAD_RAND_SIZE)) (Some (ws_server_random (write_slot s ! i)))
          (slice req (1 + FBSEC_AEAD_RAND_SIZE) (unat (ent_data_len e)))
          (slice req (1 + FBSEC_AEAD_RAND_SIZE + unat (ent_data_len e)) FBSEC_AEAD_TAG_SIZE) = None"
    if "ws_in_use (write_slot s ! i)" "slot_is_fresh P s (ws_armed_at (write_slot s ! i))"
      "length req = 1 + FBSEC_AEAD_RAND_SIZE + unat (ent_data_len e) + FBSEC_AEAD_TAG_SIZE"
      "FBSEC_AEAD_KEYID_RESERVED (req ! 0) = 0"
      "\<not> (ent_key_id e \<noteq> FBSEC_SOD_KEY_NONE \<and> FBSEC_AEAD_KEYID_BASE (req ! 0) \<noteq> ent_key_id e)"
      "port_role_allowed P SOD_OP_WRITE (FBSEC_AEAD_KEYID_BASE (req ! 0)) (ent_data_id e) s"
      "get_key s (FBSEC_AEAD_KEYID_BASE (req ! 0)) = Some key" for key
    using that assms unfolding write_request_opens_def Let_def by (metis not_Some_eq)
  then show ?thesis
    unfolding verify_and_apply_write_def Let_def release_write_def [symmetric]
    by (simp split: option.split)
qed

lemma verify_and_apply_write_opens:
  assumes "write_request_opens g P i e req s plaintext"
  shows "verify_and_apply_write g P i e req s =
    (case port_write_after P (ent_data_id e) plaintext (write_hook_state i req s) of
       (rc, s2) \<Rightarrow>
         if rc \<noteq> FBSEC_ABORT_NONE then (SOD_ABORT rc, release_write i s2)
         else if FBSEC_AEAD_KEYID_IS_CYCLIC (req ! 0)
           then (SOD_OK [], start_write_session P i req s2)
         else (SOD_OK [], release_write i s2))"
  using assms
  by (auto simp: verify_and_apply_write_def Let_def write_request_opens_def release_write_def
      write_hook_state_def start_write_session_def split: prod.splits)

lemma release_write_wf: "sod_wf s \<Longrightarrow> i < 8 \<Longrightarrow> sod_wf (release_write i s)"
  by (simp add: release_write_def upd_write_wf sod_wf_write_slot)

lemma start_write_session_wf: "sod_wf s \<Longrightarrow> i < 8 \<Longrightarrow> sod_wf (start_write_session P i req s)"
  unfolding start_write_session_def
  by (rule upd_write_wf) (use sod_wf_write_slot in \<open>auto simp: write_state_wf_def\<close>)

lemma write_hook_state_wf: "sod_wf s \<Longrightarrow> i < 8 \<Longrightarrow> sod_wf (write_hook_state i req s)"
proof -
  assume "sod_wf s" "i < 8"
  then have "sod_wf (upd_write i (\<lambda>sl. sl\<lparr>ws_key_id := req ! 0\<rparr>) s)"
    by (simp add: upd_write_wf sod_wf_write_slot)
  then show ?thesis by (simp add: write_hook_state_def sod_wf_def keys_wf_def)
qed

lemma verify_wf:
  assumes "verify_and_apply_write g P i e req s = (st, s')" "port_ok P" "sod_wf s" "i < 8"
  shows "sod_wf s'"
proof (cases "\<exists>plaintext. write_request_opens g P i e req s plaintext")
  case True
  then obtain plaintext where o: "write_request_opens g P i e req s plaintext" by blast
  obtain rc s2 where h:
    "port_write_after P (ent_data_id e) plaintext (write_hook_state i req s) = (rc, s2)" by force
  have "sod_wf s2"
    using port_write_after_frame [OF assms(2) h] write_hook_state_wf [OF assms(3,4)] same_slots_wf
    by blast
  then show ?thesis
    using assms(1) assms(4)
    by (auto simp: verify_and_apply_write_opens [OF o] h release_write_wf start_write_session_wf
        split: if_splits)
next
  case False
  from verify_and_apply_write_refused [OF this] show ?thesis
    using assms by (auto simp: release_write_wf upd_write_wf sod_wf_write_slot)
qed

text \<open>A served read poll: what must hold and what it leaves.\<close>

definition read_poll_served ::
  "gcm \<Rightarrow> 'h port \<Rightarrow> nat \<Rightarrow> sod_entry \<Rightarrow> u16 \<Rightarrow> bytes \<Rightarrow> 'h sod \<Rightarrow>
   bytes \<Rightarrow> u32 \<Rightarrow> bytes \<Rightarrow> bytes \<Rightarrow> 'h sod \<Rightarrow> 'h sod \<Rightarrow> bool" where
  "read_poll_served g P i e c req s plaintext ctr ct tag s1 s' \<longleftrightarrow>
     (let slot = read_slot s ! i; kb = FBSEC_AEAD_KEYID_BASE (rs_key_id slot) in
      rs_in_use slot \<and> rs_cyclic slot \<and> rs_client_dev slot = c \<and>
      session_is_fresh P s (rs_armed_at slot) \<and> length req = 1 \<and>
      poll_check_counter (rs_counter slot) (req ! 0) = Inr ctr \<and>
      port_role_allowed P SOD_OP_READ kb (ent_data_id e) s \<and>
      port_read_before P (ent_data_id e) (unat (ent_data_len e)) s
        = ((FBSEC_ABORT_NONE, plaintext), s1) \<and>
      length plaintext = unat (ent_data_len e) \<and>
      (\<exists>key. get_key s1 kb = Some key \<and>
         fbsec_aead_seal g key (build_session_nonce (rs_nonce_base slot) ctr)
           FBSEC_AEAD_DIR_READ_POLL_RESPONSE (rs_key_id slot) (port_get_device_id P s1) c
           (ent_data_id e) None None plaintext = Some (ct, tag)) \<and>
      s' = upd_read i (\<lambda>sl. sl\<lparr>rs_counter := ctr, rs_armed_at := port_get_time_ms P s1\<rparr>) s1)"

lemma handle_read_poll_cases:
  assumes "handle_read_poll g P i e c req rm s = (st, s')" "port_ok P"
  obtains (refused) ac where "st = SOD_ABORT ac" "same_slots s s'"
  | (released) ac where "st = SOD_ABORT ac" "s' = upd_read i (\<lambda>sl. sl\<lparr>rs_in_use := False\<rparr>) s"
  | (served) plaintext ctr ct tag s1 where "st = SOD_OK (ucast ctr # ct @ tag)"
      "read_poll_served g P i e c req s plaintext ctr ct tag s1 s'"
proof -
  let ?rb = "port_read_before P (ent_data_id e) (unat (ent_data_len e)) s"
  obtain rc pt s1 where rb: "?rb = ((rc, pt), s1)" by (metis surj_pair)
  have f1: "same_slots s s1" using port_read_before_frame [OF assms(2) rb] .
  show ?thesis
  proof (cases st)
    case (SOD_OK b)
    then have "\<exists>plaintext ctr ct tag s1. b = ucast ctr # ct @ tag \<and>
        read_poll_served g P i e c req s plaintext ctr ct tag s1 s'"
      using assms(1) rb
      by (auto simp: handle_read_poll_def Let_def read_poll_served_def
          split: if_splits option.splits sum.splits prod.splits)
    then show ?thesis using served SOD_OK by blast
  next
    case (SOD_ABORT ac)
    then have "s' = s \<or> s' = s1 \<or> s' = upd_read i (\<lambda>sl. sl\<lparr>rs_in_use := False\<rparr>) s"
      using assms(1) rb
      by (auto simp: handle_read_poll_def Let_def
          split: if_splits option.splits sum.splits prod.splits)
    then show ?thesis using refused [OF SOD_ABORT] released [OF SOD_ABORT] f1 by auto
  qed (use assms(1) rb in \<open>auto simp: handle_read_poll_def Let_def
          split: if_splits option.splits sum.splits prod.splits\<close>)
qed

lemma read_poll_served_wf:
  assumes "read_poll_served g P i e c req s plaintext ctr ct tag s1 s'" "port_ok P" "sod_wf s" "i < 8"
  shows "sod_wf s'"
proof -
  from assms(1) have
    rb: "port_read_before P (ent_data_id e) (unat (ent_data_len e)) s = ((0, plaintext), s1)" and
    ctr: "poll_check_counter (rs_counter (read_slot s ! i)) (req ! 0) = Inr ctr" and
    s': "s' = upd_read i (\<lambda>sl. sl\<lparr>rs_counter := ctr, rs_armed_at := port_get_time_ms P s1\<rparr>) s1"
    by (simp_all add: read_poll_served_def Let_def)
  have wf1: "sod_wf s1" using same_slots_wf [OF assms(3)] port_read_before_frame [OF assms(2) rb] .
  show ?thesis
    unfolding s' using sod_wf_read_slot [OF wf1 assms(4)] poll_check_counter_InrD(5) [OF ctr]
    by (intro upd_read_wf wf1) (simp add: read_state_wf_def)
qed

lemma handle_read_poll_wf:
  assumes "handle_read_poll g P i e c req rm s = (st, s')" "port_ok P" "sod_wf s" "i < 8"
  shows "sod_wf s'"
  using assms(1,2)
proof (cases rule: handle_read_poll_cases)
  case refused
  then show ?thesis using assms(3) same_slots_wf by blast
next
  case released
  then show ?thesis using assms(3,4) by (simp add: upd_read_wf sod_wf_read_slot)
next
  case served
  then show ?thesis using assms read_poll_served_wf by blast
qed

text \<open>A verified write poll, up to the host's hook.\<close>

definition write_poll_opens ::
  "gcm \<Rightarrow> 'h port \<Rightarrow> nat \<Rightarrow> sod_entry \<Rightarrow> u16 \<Rightarrow> bytes \<Rightarrow> 'h sod \<Rightarrow> bytes \<Rightarrow> u32 \<Rightarrow> bool" where
  "write_poll_opens g P i e c req s plaintext ctr \<longleftrightarrow>
     (let slot = write_slot s ! i; n = unat (ent_data_len e);
          kb = FBSEC_AEAD_KEYID_BASE (ws_key_id slot) in
      ws_in_use slot \<and> ws_cyclic slot \<and> ws_client_dev slot = c \<and>
      session_is_fresh P s (ws_armed_at slot) \<and> length req = 1 + n + FBSEC_AEAD_TAG_SIZE \<and>
      poll_check_counter (ws_counter slot) (req ! 0) = Inr ctr \<and>
      port_role_allowed P SOD_OP_WRITE kb (ent_data_id e) s \<and>
      (\<exists>key. get_key s kb = Some key \<and>
         fbsec_aead_open g key (build_session_nonce (ws_nonce_base slot) ctr)
           FBSEC_AEAD_DIR_WRITE_POLL_REQUEST (ws_key_id slot) (port_get_device_id P s) c
           (ent_data_id e) None None (slice req 1 n)
           (slice req (1 + n) FBSEC_AEAD_TAG_SIZE) = Some plaintext))"

definition advance_write :: "'h port \<Rightarrow> nat \<Rightarrow> u32 \<Rightarrow> 'h sod \<Rightarrow> 'h sod" where
  "advance_write P i ctr s =
     upd_write i (\<lambda>sl. sl\<lparr>ws_counter := ctr, ws_armed_at := port_get_time_ms P s\<rparr>) s"

lemma handle_write_poll_refused:
  assumes "\<nexists>plaintext ctr. write_poll_opens g P i e c req s plaintext ctr"
  shows "\<exists>ac s'. handle_write_poll g P i e c req s = (SOD_ABORT ac, s') \<and>
    (s' = s \<or> s' = release_write i s)"
proof -
  have "fbsec_aead_open g key (build_session_nonce (ws_nonce_base (write_slot s ! i)) ctr)
          FBSEC_AEAD_DIR_WRITE_POLL_REQUEST (ws_key_id (write_slot s ! i)) (port_get_device_id P s)
          c (ent_data_id e) None None (slice req 1 (unat (ent_data_len e)))
          (slice req (1 + unat (ent_data_len e)) FBSEC_AEAD_TAG_SIZE) = None"
    if "ws_in_use (write_slot s ! i)" "ws_cyclic (write_slot s ! i)"
      "ws_client_dev (write_slot s ! i) = c"
      "session_is_fresh P s (ws_armed_at (write_slot s ! i))"
      "length req = 1 + unat (ent_data_len e) + FBSEC_AEAD_TAG_SIZE"
      "poll_check_counter (ws_counter (write_slot s ! i)) (req ! 0) = Inr ctr"
      "port_role_allowed P SOD_OP_WRITE (FBSEC_AEAD_KEYID_BASE (ws_key_id (write_slot s ! i)))
         (ent_data_id e) s"
      "get_key s (FBSEC_AEAD_KEYID_BASE (ws_key_id (write_slot s ! i))) = Some key" for key ctr
    using that assms unfolding write_poll_opens_def Let_def by (metis not_Some_eq)
  then show ?thesis
    unfolding handle_write_poll_def Let_def release_write_def [symmetric]
    by (simp split: option.split sum.split)
qed

lemma handle_write_poll_opens:
  assumes "write_poll_opens g P i e c req s plaintext ctr"
  shows "handle_write_poll g P i e c req s =
    (case port_write_after P (ent_data_id e) plaintext s of
       (rc, s1) \<Rightarrow> if rc \<noteq> FBSEC_ABORT_NONE then (SOD_ABORT rc, s1)
                   else (SOD_OK [], advance_write P i ctr s1))"
  using assms
  by (auto simp: handle_write_poll_def Let_def write_poll_opens_def advance_write_def
      split: prod.splits)

lemma handle_write_poll_wf:
  assumes "handle_write_poll g P i e c req s = (st, s')" "port_ok P" "sod_wf s" "i < 8"
  shows "sod_wf s'"
proof (cases "\<exists>plaintext ctr. write_poll_opens g P i e c req s plaintext ctr")
  case True
  then obtain plaintext ctr where o: "write_poll_opens g P i e c req s plaintext ctr" by blast
  obtain rc s1 where h: "port_write_after P (ent_data_id e) plaintext s = (rc, s1)" by force
  have wf1: "sod_wf s1"
    using same_slots_wf [OF assms(3)] port_write_after_frame [OF assms(2) h] .
  have "ctr \<le> FBSEC_AEAD_KEY_USE_LIMIT"
    using o poll_check_counter_InrD(5) by (auto simp: write_poll_opens_def Let_def)
  then have "sod_wf (advance_write P i ctr s1)"
    unfolding advance_write_def using sod_wf_write_slot [OF wf1 assms(4)]
    by (intro upd_write_wf wf1) (simp add: write_state_wf_def)
  then show ?thesis
    using assms(1) wf1 by (auto simp: handle_write_poll_opens [OF o] h split: if_splits)
next
  case False
  from handle_write_poll_refused [OF this] show ?thesis
    using assms by (auto simp: release_write_wf)
qed

section \<open>Dispatch preserves the invariant\<close>

lemma deliver_prepared_wf:
  assumes "deliver_prepared P i rm s = (st, s')" "sod_wf s" "i < 8"
  shows "sod_wf s'"
proof -
  have "read_state_wf ((read_slot s ! i)\<lparr>rs_prepared := []\<rparr>)"
    using sod_wf_read_slot [OF assms(2,3)] by (simp add: read_state_wf_def)
  then show ?thesis
    using assms
    by (auto simp: deliver_prepared_def Let_def sod_wf_read_slot intro!: upd_read_wf split: if_splits)
qed

lemma dispatch_wf:
  assumes "fbsec_sod_dispatch g P c d req rm s = (st, s')" "port_ok P" "gcm_ok g" "sod_wf s"
  shows "sod_wf s'"
proof (cases "find_index s d")
  case None
  then show ?thesis using assms by (simp add: fbsec_sod_dispatch_def)
next
  case (Some i)
  have i: "i < 8" using sod_wf_find_index [OF assms(4) Some] .
  define e where "e = registry s ! i"
  consider "s' = s"
    | "handle_read_poll g P i e c req rm s = (st, s')"
    | "handle_write_poll g P i e c req s = (st, s')"
    | "arm_read_response g P i e c req s = (st, s')"
    | "deliver_prepared P i rm s = (st, s')"
    | "dispatch_write g P i e c req rm s = (st, s')"
    using assms(1) Some unfolding fbsec_sod_dispatch_def Let_def e_def
    by (auto split: if_splits)
  then show ?thesis
  proof cases
    case 6
    then show ?thesis
      using arm_write_wf [OF _ assms(2,4)] verify_wf [OF _ assms(2,4) i]
      by (auto simp: dispatch_write_def split: if_splits)
  qed (use assms i in \<open>auto dest: handle_read_poll_wf handle_write_poll_wf arm_read_wf
         deliver_prepared_wf\<close>)
qed

end
