(* ===== verification/Secure_Od_Props.thy ===== *)
theory Secure_Od_Props
  imports Secure_Od_Dispatch
begin

text \<open>
  What the secure object dictionary promises: no write reaches the host
  without a verified tag, a permitted role and the armed nonce; a single-shot
  request works once; the polls of a session are sealed under consecutive counters
  that stop at the key budget; the module invariant holds in every reachable state. Also the
  limits of the code: the 16-bit clock, the unbound second pass, the polls under
  a zero nonce base that an arming byte allows, and the replay of an accepted
  cyclic first frame.
\<close>

section \<open>Reachable states\<close>

text \<open>
  The module's life: initialisation, registration, key installs and wipes,
  requests from the bus, and any change of the host (time, values) in between.
\<close>

inductive sod_reachable :: "gcm \<Rightarrow> 'h port \<Rightarrow> 'h sod \<Rightarrow> bool" for g P where
  init: "sod_reachable g P (fbsec_sod_init h)"
| register: "sod_reachable g P s \<Longrightarrow> fbsec_sod_register_entry e s = (b, s') \<Longrightarrow> sod_reachable g P s'"
| set_key: "sod_reachable g P s \<Longrightarrow> length key = FBSEC_AEAD_KEY_SIZE \<Longrightarrow>
    fbsec_sod_set_key_ex k key v s = (b, s') \<Longrightarrow> sod_reachable g P s'"
| clear_keys: "sod_reachable g P s \<Longrightarrow> sod_reachable g P (fbsec_sod_clear_keys s)"
| expire: "sod_reachable g P s \<Longrightarrow> sod_reachable g P (fbsec_sod_test_expire_arming P s)"
| request: "sod_reachable g P s \<Longrightarrow> fbsec_sod_dispatch g P c d req rm s = (st, s') \<Longrightarrow>
    sod_reachable g P s'"
| host_change: "sod_reachable g P s \<Longrightarrow> sod_reachable g P (s\<lparr>host := h\<rparr>)"

lemma set_key_sod_wf:
  assumes "sod_wf s" "length key = FBSEC_AEAD_KEY_SIZE" "fbsec_sod_set_key_ex k key v s = (b, s')"
  shows "sod_wf s'"
proof -
  have "keys_wf s'" using set_key_ex_wf [OF _ assms(2,3)] assms(1) by (simp add: sod_wf_def)
  moreover have "registry s' = registry s \<and> read_slot s' = read_slot s \<and> write_slot s' = write_slot s"
    using assms(3) by (auto simp: fbsec_sod_set_key_ex_def split: if_splits)
  ultimately show ?thesis using assms(1) by (simp add: sod_wf_def)
qed

lemma clear_keys_sod_wf: "sod_wf s \<Longrightarrow> sod_wf (fbsec_sod_clear_keys s)"
  using clear_keys_wf [of s] by (simp add: sod_wf_def fbsec_sod_clear_keys_def)

lemma expire_sod_wf: "sod_wf s \<Longrightarrow> sod_wf (fbsec_sod_test_expire_arming P s)"
  by (auto simp: sod_wf_def fbsec_sod_test_expire_arming_def Let_def keys_wf_def)

lemma sod_reachable_wf:
  assumes "sod_reachable g P s" "port_ok P" "gcm_ok g"
  shows "sod_wf s"
  using assms(1)
proof induction
  case init
  show ?case by (rule init_wf)
next
  case register
  then show ?case using register_wf by blast
next
  case set_key
  then show ?case using set_key_sod_wf by blast
next
  case clear_keys
  then show ?case by (simp add: clear_keys_sod_wf)
next
  case expire
  then show ?case by (simp add: expire_sod_wf)
next
  case request
  then show ?case using dispatch_wf assms(2,3) by blast
next
  case host_change
  then show ?case by (simp add: sod_wf_def keys_wf_def)
qed

section \<open>No write without authentication\<close>

lemma port_write_after_irrelevant [simp]:
  "slot_is_fresh (P\<lparr>port_write_after := w\<rparr>) s t = slot_is_fresh P s t"
  "session_is_fresh (P\<lparr>port_write_after := w\<rparr>) s t = session_is_fresh P s t"
  "slot_held_by_other (P\<lparr>port_write_after := w\<rparr>) s a b c' t d = slot_held_by_other P s a b c' t d"
  "armed_read_slot (P\<lparr>port_write_after := w\<rparr>) s c kid cr sr ct tag
     = armed_read_slot P s c kid cr sr ct tag"
  "armed_write_slot (P\<lparr>port_write_after := w\<rparr>) s c kid hk cy sr
     = armed_write_slot P s c kid hk cy sr"
  by (simp_all add: slot_is_fresh_def session_is_fresh_def slot_is_fresh_for_def slot_held_by_other_def
      armed_read_slot_def armed_write_slot_def)

lemma read_handlers_irrelevant [simp]:
  "arm_write_challenge (P\<lparr>port_write_after := w\<rparr>) i e c kid hk rm s
     = arm_write_challenge P i e c kid hk rm s"
  "arm_read_response g (P\<lparr>port_write_after := w\<rparr>) i e c ch s = arm_read_response g P i e c ch s"
  "handle_read_poll g (P\<lparr>port_write_after := w\<rparr>) i e c req rm s = handle_read_poll g P i e c req rm s"
  "deliver_prepared (P\<lparr>port_write_after := w\<rparr>) i rm s = deliver_prepared P i rm s"
  by (simp_all add: arm_write_challenge_def arm_read_response_def handle_read_poll_def
      deliver_prepared_def Let_def cong: if_cong option.case_cong prod.case_cong sum.case_cong)

lemma opens_irrelevant [simp]:
  "write_request_opens g (P\<lparr>port_write_after := w\<rparr>) i e req s pt = write_request_opens g P i e req s pt"
  "write_poll_opens g (P\<lparr>port_write_after := w\<rparr>) i e c req s pt ctr
     = write_poll_opens g P i e c req s pt ctr"
  by (simp_all add: write_request_opens_def write_poll_opens_def)

lemma verify_refused_irrelevant:
  assumes "\<nexists>pt. write_request_opens g P i e req s pt"
  shows "verify_and_apply_write g (P\<lparr>port_write_after := w\<rparr>) i e req s
    = verify_and_apply_write g P i e req s"
proof (rule ccontr)
  assume ne: "\<not> ?thesis"
  have "\<exists>pt. write_request_opens g P i e req s pt"
    using ne unfolding verify_and_apply_write_def Let_def write_request_opens_def
    by (simp split: if_splits option.splits)
  then show False using assms by blast
qed

lemma write_poll_refused_irrelevant:
  assumes "\<nexists>pt ctr. write_poll_opens g P i e c req s pt ctr"
  shows "handle_write_poll g (P\<lparr>port_write_after := w\<rparr>) i e c req s = handle_write_poll g P i e c req s"
proof (rule ccontr)
  assume ne: "\<not> ?thesis"
  have "\<exists>pt ctr. write_poll_opens g P i e c req s pt ctr"
    using ne unfolding handle_write_poll_def Let_def write_poll_opens_def
    by (simp split: if_splits option.splits sum.splits)
  then show False using assms by blast
qed

lemma write_hook_needs_open:
  assumes "fbsec_sod_dispatch g (P\<lparr>port_write_after := w\<rparr>) c d req rm s \<noteq> fbsec_sod_dispatch g P c d req rm s"
  obtains i pt where "find_index s d = Some i"
    "ent_access_flags (registry s ! i) AND FBSEC_SOD_ACCESS_SECURE_WO \<noteq> 0"
    "write_request_opens g P i (registry s ! i) req s pt \<or>
     (\<exists>ctr. write_poll_opens g P i (registry s ! i) c req s pt ctr)"
proof (cases "find_index s d")
  case None
  then show ?thesis using assms by (simp add: fbsec_sod_dispatch_def)
next
  case (Some i)
  let ?e = "registry s ! i"
  have "(ent_access_flags ?e AND FBSEC_SOD_ACCESS_SECURE_WO \<noteq> 0) \<and>
    (verify_and_apply_write g (P\<lparr>port_write_after := w\<rparr>) i ?e req s
        \<noteq> verify_and_apply_write g P i ?e req s \<or>
     handle_write_poll g (P\<lparr>port_write_after := w\<rparr>) i ?e c req s
        \<noteq> handle_write_poll g P i ?e c req s)"
    using assms Some by (auto simp: fbsec_sod_dispatch_def Let_def dispatch_write_def split: if_splits)
  then show ?thesis
    using that [OF Some] verify_refused_irrelevant write_poll_refused_irrelevant by metis
qed

lemma slice_split3:
  assumes "length req = h + n + t"
  shows "req = take h req @ slice req h n @ slice req (h + n) t"
proof -
  have "slice req h n = take n (drop h req)" "slice req (h + n) t = drop n (drop h req)"
    using assms by (simp_all add: slice_def add.commute)
  then show ?thesis by (metis append_take_drop_id)
qed

lemma authenticated_write_evidence:
  assumes g: "gcm_ok g" and wf: "sod_wf s"
    and ne: "fbsec_sod_dispatch g (P\<lparr>port_write_after := w\<rparr>) c d req rm s
               \<noteq> fbsec_sod_dispatch g P c d req rm s"
  shows "\<exists>e i kb key kid nonce dir dev peer cr sr hdr ct tag pt.
    find_index s d = Some i \<and> e = registry s ! i \<and>
    ent_access_flags e AND FBSEC_SOD_ACCESS_SECURE_WO \<noteq> 0 \<and>
    ws_in_use (write_slot s ! i) \<and> ws_client_dev (write_slot s ! i) = peer \<and>
    kb = FBSEC_AEAD_KEYID_BASE kid \<and> get_key s kb = Some key \<and>
    port_role_allowed P SOD_OP_WRITE kb d s \<and>
    req = hdr @ ct @ tag \<and> length pt = unat (ent_data_len e) \<and>
    fbsec_aead_seal g key nonce dir kid dev peer d cr sr pt = Some (ct, tag) \<and>
    (dir = FBSEC_AEAD_DIR_WRITE_REQUEST \<and> sr = Some (ws_server_random (write_slot s ! i)) \<and>
       (ent_key_id e = FBSEC_SOD_KEY_NONE \<or> kb = ent_key_id e) \<and>
       (\<exists>r. cr = Some r \<and> nonce = fbsec_aead_xor_nonce r (ws_server_random (write_slot s ! i))) \<or>
     dir = FBSEC_AEAD_DIR_WRITE_POLL_REQUEST \<and> peer = c \<and> cr = None \<and> sr = None \<and>
       nonce = build_session_nonce (ws_nonce_base (write_slot s ! i))
                 (ws_counter (write_slot s ! i) + 1))"
proof -
  obtain i pt where i: "find_index s d = Some i"
    "ent_access_flags (registry s ! i) AND FBSEC_SOD_ACCESS_SECURE_WO \<noteq> 0" and
    opens: "write_request_opens g P i (registry s ! i) req s pt \<or>
      (\<exists>ctr. write_poll_opens g P i (registry s ! i) c req s pt ctr)"
    by (rule write_hook_needs_open [OF ne])
  let ?e = "registry s ! i" and ?slot = "write_slot s ! i"
  let ?n = "unat (ent_data_len ?e)"
  have d: "ent_data_id ?e = d" using find_index_SomeD(2) [OF i(1)] .
  have klen: "get_key s k = Some key \<Longrightarrow> length key = FBSEC_AEAD_KEY_SIZE" for k key
    using get_key_length wf by (auto simp: sod_wf_def)
  have nb: "length (ws_nonce_base ?slot) = FBSEC_AEAD_NONCE_SIZE"
    using sod_wf_write_slot [OF wf sod_wf_find_index [OF wf i(1)]] by (simp add: write_state_wf_def)
  from opens show ?thesis
  proof
    assume o: "write_request_opens g P i ?e req s pt"
    let ?kid = "req ! 0" and ?cr = "slice req 1 FBSEC_AEAD_RAND_SIZE"
    let ?ct = "slice req (1 + FBSEC_AEAD_RAND_SIZE) ?n"
    let ?tag = "slice req (1 + FBSEC_AEAD_RAND_SIZE + ?n) FBSEC_AEAD_TAG_SIZE"
    let ?nonce = "fbsec_aead_xor_nonce ?cr (ws_server_random ?slot)"
    from o obtain key dev where k: "get_key s (FBSEC_AEAD_KEYID_BASE ?kid) = Some key" and
      opn: "fbsec_aead_open g key ?nonce FBSEC_AEAD_DIR_WRITE_REQUEST ?kid dev (ws_client_dev ?slot)
        d (Some ?cr) (Some (ws_server_random ?slot)) ?ct ?tag = Some pt" and
      len: "length req = 1 + FBSEC_AEAD_RAND_SIZE + ?n + FBSEC_AEAD_TAG_SIZE" and
      rest: "ws_in_use ?slot" "port_role_allowed P SOD_OP_WRITE (FBSEC_AEAD_KEYID_BASE ?kid) d s"
        "ent_key_id ?e = FBSEC_SOD_KEY_NONE \<or> FBSEC_AEAD_KEYID_BASE ?kid = ent_key_id ?e"
      unfolding write_request_opens_def Let_def d by blast
    have tl: "length ?tag = FBSEC_AEAD_TAG_SIZE" and cl: "length ?ct = ?n" using len by simp_all
    have seal: "fbsec_aead_seal g key ?nonce FBSEC_AEAD_DIR_WRITE_REQUEST ?kid dev
        (ws_client_dev ?slot) d (Some ?cr) (Some (ws_server_random ?slot)) pt = Some (?ct, ?tag)"
      using opn open_iff_seal [OF g klen [OF k] length_xor_nonce tl] by blast
    have "length pt = ?n"
      using open_length [OF g klen [OF k] length_xor_nonce tl opn] cl by simp
    moreover have "req = take (1 + FBSEC_AEAD_RAND_SIZE) req @ ?ct @ ?tag"
      by (rule slice_split3 [OF len])
    ultimately show ?thesis using i rest k seal by blast
  next
    assume "\<exists>ctr. write_poll_opens g P i ?e c req s pt ctr"
    then obtain ctr where o: "write_poll_opens g P i ?e c req s pt ctr" by blast
    let ?kid = "ws_key_id ?slot" and ?ct = "slice req 1 ?n"
    let ?tag = "slice req (1 + ?n) FBSEC_AEAD_TAG_SIZE"
    from o obtain key dev where k: "get_key s (FBSEC_AEAD_KEYID_BASE ?kid) = Some key" and
      opn: "fbsec_aead_open g key (build_session_nonce (ws_nonce_base ?slot) ctr)
        FBSEC_AEAD_DIR_WRITE_POLL_REQUEST ?kid dev c d None None ?ct ?tag = Some pt" and
      len: "length req = 1 + ?n + FBSEC_AEAD_TAG_SIZE" and
      ctr: "poll_check_counter (ws_counter ?slot) (req ! 0) = Inr ctr" and
      rest: "ws_in_use ?slot" "ws_client_dev ?slot = c"
        "port_role_allowed P SOD_OP_WRITE (FBSEC_AEAD_KEYID_BASE ?kid) d s"
      unfolding write_poll_opens_def Let_def d by blast
    let ?nonce = "build_session_nonce (ws_nonce_base ?slot) ctr"
    have nl: "length ?nonce = FBSEC_AEAD_NONCE_SIZE" using nb by simp
    have tl: "length ?tag = FBSEC_AEAD_TAG_SIZE" and cl: "length ?ct = ?n" using len by simp_all
    have seal: "fbsec_aead_seal g key ?nonce FBSEC_AEAD_DIR_WRITE_POLL_REQUEST ?kid dev c d
        None None pt = Some (?ct, ?tag)"
      using opn open_iff_seal [OF g klen [OF k] nl tl] by blast
    have "length pt = ?n" using open_length [OF g klen [OF k] nl tl opn] cl by simp
    moreover have "req = take 1 req @ ?ct @ ?tag" by (rule slice_split3 [OF len])
    moreover have "ctr = ws_counter ?slot + 1" by (rule poll_check_counter_InrD(2) [OF ctr])
    ultimately show ?thesis using i rest k seal by blast
  qed
qed

section \<open>Single-shot requests work once\<close>

lemma release_write_slot:
  "i < length (write_slot s) \<Longrightarrow> \<not> ws_in_use (write_slot (release_write i s) ! i)"
  by (simp add: release_write_def)

lemma single_shot_write_consumed:
  assumes pok: "port_ok P" and wf: "sod_wf s" and idx: "find_index s d = Some i"
    and wo: "ent_access_flags (registry s ! i) AND FBSEC_SOD_ACCESS_SECURE_WO \<noteq> 0"
    and len: "length req = 1 + FBSEC_AEAD_RAND_SIZE + unat (ent_data_len (registry s ! i)) + FBSEC_AEAD_TAG_SIZE"
    and plain: "\<not> FBSEC_AEAD_KEYID_IS_CYCLIC (req ! 0)"
    and run: "fbsec_sod_dispatch g P c d req rm s = (st, s')"
  shows "fbsec_sod_dispatch g P c' d req rm' s' = (SOD_ABORT FBSEC_ABORT_NO_SESSION, s')"
proof -
  let ?e = "registry s ! i"
  have i: "i < 8" using sod_wf_find_index [OF wf idx] .
  have disp: "fbsec_sod_dispatch g P c' d req rm' s'' = verify_and_apply_write g P i ?e req s''"
    if "registry s'' = registry s" for c' rm' s''
    using that wo len find_index_cong [OF that] idx
    by (simp add: fbsec_sod_dispatch_def Let_def dispatch_write_def)
  have v: "verify_and_apply_write g P i ?e req s = (st, s')" using run disp by simp
  have "registry s' = registry s \<and> \<not> ws_in_use (write_slot s' ! i)"
  proof (cases "\<exists>pt. write_request_opens g P i ?e req s pt")
    case True
    then obtain pt where o: "write_request_opens g P i ?e req s pt" by blast
    obtain rc s2 where h: "port_write_after P (ent_data_id ?e) pt (write_hook_state i req s) = (rc, s2)"
      by force
    have ss: "same_slots (write_hook_state i req s) s2" using port_write_after_frame [OF pok h] .
    have "s' = release_write i s2"
      using v plain by (auto simp: verify_and_apply_write_opens [OF o] h split: if_splits)
    then show ?thesis
      using ss i wf release_write_slot [of i s2]
      by (simp add: same_slots_def write_hook_state_def sod_wf_def release_write_def)
  next
    case False
    from verify_and_apply_write_refused [OF this] show ?thesis
      using v i wf by (auto simp: release_write_def sod_wf_def)
  qed
  then show ?thesis by (simp add: disp verify_and_apply_write_def Let_def)
qed

text \<open>A delivered single-shot read response is gone.\<close>

lemma single_shot_read_consumed:
  assumes wf: "sod_wf s" and idx: "find_index s d = Some i"
    and ro: "ent_access_flags (registry s ! i) AND FBSEC_SOD_ACCESS_SECURE_RO \<noteq> 0"
      "ent_access_flags (registry s ! i) AND FBSEC_SOD_ACCESS_SECURE_WO = 0"
    and run: "fbsec_sod_dispatch g P c d [] rm s = (SOD_OK r, s')"
    and plain: "\<not> rs_cyclic (read_slot s ! i)"
  shows "r = rs_prepared (read_slot s ! i)"
    "fbsec_sod_dispatch g P c' d [] rm' s' = (SOD_ABORT FBSEC_ABORT_NO_SESSION, s')"
proof -
  have i: "i < 8" using sod_wf_find_index [OF wf idx] .
  have del: "deliver_prepared P i rm s = (SOD_OK r, s')"
    using run idx ro by (auto simp: fbsec_sod_dispatch_def Let_def split: if_splits)
  then show "r = rs_prepared (read_slot s ! i)"
    using plain by (auto simp: deliver_prepared_def Let_def split: if_splits)
  have s': "s' = upd_read i (\<lambda>sl. sl\<lparr>rs_in_use := False\<rparr>) s"
    using del plain by (auto simp: deliver_prepared_def Let_def split: if_splits)
  then have "find_index s' d = Some i" "registry s' = registry s" "\<not> rs_in_use (read_slot s' ! i)"
    using idx i wf by (simp_all add: sod_wf_def)
  then show "fbsec_sod_dispatch g P c' d [] rm' s' = (SOD_ABORT FBSEC_ABORT_NO_SESSION, s')"
    using ro by (simp add: fbsec_sod_dispatch_def Let_def)
qed

section \<open>Poll counters\<close>

text \<open>A sequence of requests from any clients to any objects.\<close>

fun sod_run ::
  "gcm \<Rightarrow> 'h port \<Rightarrow> nat \<Rightarrow> (u16 \<times> u32 \<times> bytes) list \<Rightarrow> 'h sod \<Rightarrow> sod_status list \<times> 'h sod" where
  "sod_run g P rm [] s = ([], s)"
| "sod_run g P rm ((c, d, req) # xs) s =
     (case fbsec_sod_dispatch g P c d req rm s of
        (st, s1) \<Rightarrow> (case sod_run g P rm xs s1 of (sts, s2) \<Rightarrow> (st # sts, s2)))"

fun sod_answers :: "sod_status \<Rightarrow> bool" where
  "sod_answers (SOD_OK r) \<longleftrightarrow> True"
| "sod_answers st \<longleftrightarrow> False"

lemma sod_answers_iff: "sod_answers st \<longleftrightarrow> (\<exists>r. st = SOD_OK r)"
  by (cases st) auto

text \<open>What the polls of a session share: key identifier, nonce base and client.\<close>

definition read_session_of :: "read_state \<Rightarrow> u8 \<times> bytes \<times> u16" where
  "read_session_of r = (rs_key_id r, rs_nonce_base r, rs_client_dev r)"

text \<open>
  A reply and the key of its slot: the counter byte, and the seal of a plaintext of
  the object's length under that key, the session's nonce for the counter and the
  session's header fields.
\<close>

definition poll_reply_seals ::
  "gcm \<Rightarrow> u32 \<Rightarrow> nat \<Rightarrow> u8 \<times> bytes \<times> u16 \<Rightarrow> u32 \<Rightarrow> bytes option \<times> bytes \<Rightarrow> bool" where
  "poll_reply_seals g d n ses ctr p \<longleftrightarrow>
     (case ses of (kid, base, c) \<Rightarrow>
        \<exists>key dev plain ct tag. fst p = Some key \<and> snd p = ucast ctr # ct @ tag \<and> length plain = n \<and>
          fbsec_aead_seal g key (build_session_nonce base ctr) FBSEC_AEAD_DIR_READ_POLL_RESPONSE
            kid dev c d None None plain = Some (ct, tag))"

text \<open>
  The replies to the read polls of object \<open>d\<close> that a run serves, each with the key
  its slot names afterwards: a one-byte request while the slot \<open>i\<close> of the object
  holds a cyclic session, answered.
\<close>

fun served_polls ::
  "gcm \<Rightarrow> 'h port \<Rightarrow> nat \<Rightarrow> u32 \<Rightarrow> nat \<Rightarrow> (u16 \<times> u32 \<times> bytes) list \<Rightarrow> 'h sod \<Rightarrow> (bytes option \<times> bytes) list" where
  "served_polls g P rm d i [] s = []"
| "served_polls g P rm d i ((c, d', req) # xs) s =
     (case fbsec_sod_dispatch g P c d' req rm s of
        (st, s1) \<Rightarrow>
          (case st of
             SOD_OK r \<Rightarrow>
               if d' = d \<and> length req = 1 \<and> rs_in_use (read_slot s ! i) \<and> rs_cyclic (read_slot s ! i)
               then [(get_key s1 (FBSEC_AEAD_KEYID_BASE (rs_key_id (read_slot s ! i))), r)] else []
           | _ \<Rightarrow> [])
          @ served_polls g P rm d i xs s1)"

lemma find_index_inject:
  "find_index s d = Some i \<Longrightarrow> find_index s d' = Some i \<Longrightarrow> d = d'"
  using find_index_SomeD(2) by metis

text \<open>What each handler leaves alone.\<close>

lemma handle_write_poll_frame:
  assumes "handle_write_poll g P j e c req s = (st, s')" "port_ok P"
  shows "registry s' = registry s \<and> read_slot s' = read_slot s"
proof (cases "\<exists>pt ctr. write_poll_opens g P j e c req s pt ctr")
  case True
  then obtain pt ctr where o: "write_poll_opens g P j e c req s pt ctr" by blast
  obtain rc s1 where h: "port_write_after P (ent_data_id e) pt s = (rc, s1)" by force
  have "same_slots s s1" using port_write_after_frame [OF assms(2) h] .
  then show ?thesis
    using assms(1)
    by (auto simp: handle_write_poll_opens [OF o] h advance_write_def same_slots_def split: if_splits)
next
  case False
  from handle_write_poll_refused [OF this] assms(1) show ?thesis by (auto simp: release_write_def)
qed

lemma verify_and_apply_write_frame:
  assumes "verify_and_apply_write g P j e req s = (st, s')" "port_ok P"
  shows "registry s' = registry s \<and> read_slot s' = read_slot s"
proof (cases "\<exists>pt. write_request_opens g P j e req s pt")
  case True
  then obtain pt where o: "write_request_opens g P j e req s pt" by blast
  obtain rc s2 where h: "port_write_after P (ent_data_id e) pt (write_hook_state j req s) = (rc, s2)"
    by force
  have "registry s2 = registry s \<and> read_slot s2 = read_slot s"
    using port_write_after_frame [OF assms(2) h] by (simp add: same_slots_def write_hook_state_def)
  then show ?thesis
    using assms(1)
    by (auto simp: verify_and_apply_write_opens [OF o] h release_write_def start_write_session_def
        split: if_splits)
next
  case False
  from verify_and_apply_write_refused [OF this] assms(1) show ?thesis by (auto simp: release_write_def)
qed

lemma dispatch_write_frame:
  assumes "dispatch_write g P j e c req rm s = (st, s')" "port_ok P"
  shows "registry s' = registry s \<and> read_slot s' = read_slot s"
proof -
  have arm: "registry s' = registry s \<and> read_slot s' = read_slot s"
    if "arm_write_challenge P j e c kid hk rm s = (st, s')" for kid hk
    using that assms(2) by (cases rule: arm_write_challenge_cases) (simp_all add: same_slots_def)
  show ?thesis
    using assms(1) arm verify_and_apply_write_frame [OF _ assms(2)]
    unfolding dispatch_write_def by (metis (full_types))
qed

lemma arm_read_response_frame:
  assumes "arm_read_response g P j e c ch s = (st, s')" "port_ok P"
  shows "registry s' = registry s \<and> (\<forall>k. k \<noteq> j \<longrightarrow> read_slot s' ! k = read_slot s ! k)"
  using assms
proof (cases rule: arm_read_response_cases)
  case (armed plaintext sr ct tag s3)
  then obtain s1 s2 where
    rb: "port_read_before P (ent_data_id e) (unat (ent_data_len e)) s = ((FBSEC_ABORT_NONE, plaintext), s1)"
    and rnd: "port_random P FBSEC_AEAD_RAND_SIZE s1 = (Some sr, s2)"
    and s3: "s3 = upd_read j (\<lambda>_. read_state_zero) s2"
    and s': "s' = upd_read j (\<lambda>_. armed_read_slot P s3 c (ch ! 0)
           (slice ch 1 FBSEC_AEAD_RAND_SIZE) sr ct tag) s3"
    unfolding arm_read_armed_def Let_def by blast
  have "same_slots s s2"
    using port_read_before_frame [OF assms(2) rb] port_random_frame [OF assms(2) rnd] same_slots_trans
    by blast
  then show ?thesis by (simp add: s' s3 same_slots_def)
qed (simp_all add: same_slots_def)

text \<open>A read poll: refused with the counter as it was, or sealed under the next one.\<close>

lemma handle_read_poll_session:
  assumes "handle_read_poll g P j e c req rm s = (st, s')" "port_ok P" "j < length (read_slot s)"
  shows "registry s' = registry s \<and> (\<forall>k. k \<noteq> j \<longrightarrow> read_slot s' ! k = read_slot s ! k) \<and>
    read_session_of (read_slot s' ! j) = read_session_of (read_slot s ! j) \<and>
    (case st of SOD_OK r \<Rightarrow>
        rs_counter (read_slot s ! j) < FBSEC_AEAD_KEY_USE_LIMIT \<and>
        rs_counter (read_slot s' ! j) = rs_counter (read_slot s ! j) + 1 \<and>
        poll_reply_seals g (ent_data_id e) (unat (ent_data_len e)) (read_session_of (read_slot s ! j))
          (rs_counter (read_slot s ! j) + 1)
          (get_key s' (FBSEC_AEAD_KEYID_BASE (rs_key_id (read_slot s ! j))), r)
     | _ \<Rightarrow> rs_counter (read_slot s' ! j) = rs_counter (read_slot s ! j))"
  using assms(1,2)
proof (cases rule: handle_read_poll_cases)
  case refused
  then show ?thesis by (simp add: same_slots_def)
next
  case released
  then show ?thesis using assms(3) by (simp add: read_session_of_def)
next
  case (served plaintext ctr ct tag s1)
  then have ctr: "poll_check_counter (rs_counter (read_slot s ! j)) (req ! 0) = Inr ctr"
    and rb: "same_slots s s1"
    and s': "s' = upd_read j (\<lambda>sl. sl\<lparr>rs_counter := ctr, rs_armed_at := port_get_time_ms P s1\<rparr>) s1"
    using port_read_before_frame [OF assms(2)] unfolding read_poll_served_def Let_def by blast+
  obtain key where key: "get_key s1 (FBSEC_AEAD_KEYID_BASE (rs_key_id (read_slot s ! j))) = Some key"
    and seal: "fbsec_aead_seal g key (build_session_nonce (rs_nonce_base (read_slot s ! j)) ctr)
      FBSEC_AEAD_DIR_READ_POLL_RESPONSE (rs_key_id (read_slot s ! j)) (port_get_device_id P s1)
      (rs_client_dev (read_slot s ! j)) (ent_data_id e) None None plaintext = Some (ct, tag)"
    and len: "length plaintext = unat (ent_data_len e)"
    using served(2) unfolding read_poll_served_def Let_def by blast
  have "poll_reply_seals g (ent_data_id e) (unat (ent_data_len e)) (read_session_of (read_slot s ! j))
      ctr (get_key s' (FBSEC_AEAD_KEYID_BASE (rs_key_id (read_slot s ! j))), ucast ctr # ct @ tag)"
    unfolding poll_reply_seals_def read_session_of_def prod.case fst_conv snd_conv
    using key seal len by (intro exI conjI) (simp_all add: s')
  then show ?thesis
    using served(1) assms(3) poll_check_counter_InrD(1,2) [OF ctr] rb s'
    by (auto simp: same_slots_def read_session_of_def)
qed

lemma deliver_prepared_session:
  assumes "deliver_prepared P j rm s = (st, s')"
  shows "registry s' = registry s \<and> rs_counter (read_slot s' ! k) = rs_counter (read_slot s ! k) \<and>
    read_session_of (read_slot s' ! k) = read_session_of (read_slot s ! k)"
  using assms
  by (cases "k = j"; cases "j < length (read_slot s)")
     (auto simp: deliver_prepared_def Let_def list_update_beyond read_session_of_def split: if_splits)

text \<open>One request: unless it re-arms the object, the counter stays or a poll moves it by one.\<close>

lemma dispatch_read_session:
  assumes pok: "port_ok P" and wf: "sod_wf s" and idx: "find_index s d = Some i"
    and ro: "ent_access_flags (registry s ! i) AND FBSEC_SOD_ACCESS_SECURE_RO \<noteq> 0"
    and no_arm: "\<not> (d' = d \<and> length req = READ_CHALLENGE_LEN)"
    and run: "fbsec_sod_dispatch g P c d' req rm s = (st, s')"
  shows "registry s' = registry s \<and>
    read_session_of (read_slot s' ! i) = read_session_of (read_slot s ! i) \<and>
    (if d' = d \<and> length req = 1 \<and> rs_in_use (read_slot s ! i) \<and> rs_cyclic (read_slot s ! i)
        \<and> sod_answers st
     then rs_counter (read_slot s ! i) < FBSEC_AEAD_KEY_USE_LIMIT \<and>
          rs_counter (read_slot s' ! i) = rs_counter (read_slot s ! i) + 1 \<and>
          (\<exists>r. st = SOD_OK r \<and>
            poll_reply_seals g d (unat (ent_data_len (registry s ! i))) (read_session_of (read_slot s ! i))
              (rs_counter (read_slot s ! i) + 1)
              (get_key s' (FBSEC_AEAD_KEYID_BASE (rs_key_id (read_slot s ! i))), r))
     else rs_counter (read_slot s' ! i) = rs_counter (read_slot s ! i))"
proof (cases "find_index s d'")
  case None
  then show ?thesis using run idx by (auto simp: fbsec_sod_dispatch_def)
next
  case (Some j)
  have j: "j < length (read_slot s)" using sod_wf_find_index [OF wf Some] wf by (simp add: sod_wf_def)
  have ji: "j = i \<longleftrightarrow> d' = d" using Some idx find_index_inject by auto
  have d': "ent_data_id (registry s ! j) = d'" using find_index_SomeD(2) [OF Some] .
  let ?e = "registry s ! j"
  let ?poll = "ent_access_flags ?e AND FBSEC_SOD_ACCESS_SECURE_RO \<noteq> 0 \<and> length req = 1 \<and>
    rs_in_use (read_slot s ! j) \<and> rs_cyclic (read_slot s ! j)"
  show ?thesis
  proof (cases ?poll)
    case True
    then have "handle_read_poll g P j ?e c req rm s = (st, s')"
      using run Some by (simp add: fbsec_sod_dispatch_def)
    from handle_read_poll_session [OF this pok j] show ?thesis
      using True ji d' by (cases st) (auto simp: sod_answers_iff)
  next
    case no_poll: False
    consider "s' = s"
      | "handle_write_poll g P j ?e c req s = (st, s')"
      | "d' \<noteq> d" "arm_read_response g P j ?e c req s = (st, s')"
      | "deliver_prepared P j rm s = (st, s')"
      | "dispatch_write g P j ?e c req rm s = (st, s')"
      using run Some no_poll no_arm unfolding fbsec_sod_dispatch_def Let_def
      by (auto split: if_splits)
    then have "registry s' = registry s \<and>
        read_session_of (read_slot s' ! i) = read_session_of (read_slot s ! i) \<and>
        rs_counter (read_slot s' ! i) = rs_counter (read_slot s ! i)"
      by cases (use pok ji in \<open>auto dest: handle_write_poll_frame arm_read_response_frame
          deliver_prepared_session dispatch_write_frame\<close>)
    then show ?thesis using no_poll ji ro by auto
  qed
qed

lemma word_counter_less:
  "(c :: u32) < FBSEC_AEAD_KEY_USE_LIMIT \<Longrightarrow> unat (c + 1) = Suc (unat c)"
proof -
  assume "c < FBSEC_AEAD_KEY_USE_LIMIT"
  then have "unat c < 1000000" by (simp add: word_less_nat_alt)
  then show ?thesis by (simp add: unat_word_ariths)
qed

text \<open>The polls of a whole run: sealed under consecutive counters from the slot's own, within the budget.\<close>

lemma served_polls_seals:
  assumes "port_ok P" "gcm_ok g" "sod_wf s" "find_index s d = Some i"
    "ent_access_flags (registry s ! i) AND FBSEC_SOD_ACCESS_SECURE_RO \<noteq> 0"
    "\<forall>(c, d', req)\<in>set xs. \<not> (d' = d \<and> length req = READ_CHALLENGE_LEN)"
    "n = unat (rs_counter (read_slot s ! i))"
  shows "n + length (served_polls g P rm d i xs s) \<le> 1000000 \<and>
    (\<forall>j < length (served_polls g P rm d i xs s).
       poll_reply_seals g d (unat (ent_data_len (registry s ! i))) (read_session_of (read_slot s ! i))
         (of_nat (Suc (n + j))) (served_polls g P rm d i xs s ! j))"
  using assms(3-7)
proof (induction xs arbitrary: s n)
  case Nil
  then show ?case
    using sod_wf_read_slot [OF Nil(1) sod_wf_find_index [OF Nil(1,2)]]
    by (simp add: read_state_wf_def word_le_nat_alt)
next
  case (Cons x xs)
  obtain c d' req where x: "x = (c, d', req)" using prod_cases3 by blast
  obtain st s1 where run: "fbsec_sod_dispatch g P c d' req rm s = (st, s1)" by force
  have no_arm: "\<not> (d' = d \<and> length req = READ_CHALLENGE_LEN)" using Cons.prems(4) x by auto
  note step = dispatch_read_session [OF assms(1) Cons.prems(1-3) no_arm run]
  have wf1: "sod_wf s1" using dispatch_wf [OF run assms(1,2) Cons.prems(1)] .
  have reg: "registry s1 = registry s" and ses: "read_session_of (read_slot s1 ! i) = read_session_of (read_slot s ! i)"
    using step by blast+
  have "find_index s1 d = Some i" using Cons.prems(2) find_index_cong [OF reg] by simp
  note IH = Cons.IH [OF wf1 this _ _ refl, unfolded reg ses]
  let ?served = "d' = d \<and> length req = 1 \<and> rs_in_use (read_slot s ! i) \<and> rs_cyclic (read_slot s ! i)
        \<and> sod_answers st"
  let ?tl = "served_polls g P rm d i xs s1"
  show ?case
  proof (cases ?served)
    case True
    then obtain r where st: "st = SOD_OK r" and
      sl: "poll_reply_seals g d (unat (ent_data_len (registry s ! i))) (read_session_of (read_slot s ! i))
        (rs_counter (read_slot s ! i) + 1)
        (get_key s1 (FBSEC_AEAD_KEYID_BASE (rs_key_id (read_slot s ! i))), r)" and
      c1: "rs_counter (read_slot s ! i) < FBSEC_AEAD_KEY_USE_LIMIT"
        "rs_counter (read_slot s1 ! i) = rs_counter (read_slot s ! i) + 1"
      using step by auto
    have n1: "unat (rs_counter (read_slot s1 ! i)) = Suc n"
      using word_counter_less c1 Cons.prems(5) by simp
    have w: "rs_counter (read_slot s ! i) + 1 = of_nat (Suc n)"
      using Cons.prems(5) by simp
    have eq: "served_polls g P rm d i (x # xs) s =
        (get_key s1 (FBSEC_AEAD_KEYID_BASE (rs_key_id (read_slot s ! i))), r) # ?tl"
      using True run x st by simp
    show ?thesis unfolding eq
      using IH Cons.prems(3,4) n1 sl [unfolded w] by (auto simp: nth_Cons split: nat.split)
  next
    case False
    then have "rs_counter (read_slot s1 ! i) = rs_counter (read_slot s ! i)" using step by auto
    moreover have "served_polls g P rm d i (x # xs) s = ?tl"
      using False run x by (cases st) (auto simp: sod_answers_iff)
    ultimately show ?thesis using IH Cons.prems(3-5) by auto
  qed
qed

text \<open>Two counters under the limit give two nonces.\<close>

lemma session_nonces_distinct:
  assumes "length base = FBSEC_AEAD_NONCE_SIZE" "n + m \<le> 1000000"
  shows "distinct (map (\<lambda>j. build_session_nonce base (of_nat (Suc (n + j)))) [0..<m])"
proof -
  have "j = k" if "j < m" "k < m" "build_session_nonce base (of_nat (Suc (n + j)))
      = build_session_nonce base (of_nat (Suc (n + k)))" for j k
  proof -
    have "(of_nat (Suc (n + j)) :: u32) = of_nat (Suc (n + k))"
      using that(3) session_nonce_inject [OF assms(1)] by blast
    then have "unat (of_nat (Suc (n + j)) :: u32) = unat (of_nat (Suc (n + k)) :: u32)" by simp
    then show ?thesis using that(1,2) assms(2) by (simp add: unat_of_nat del: of_nat_Suc)
  qed
  then show ?thesis by (auto simp: distinct_map inj_on_def)
qed

section \<open>Limits of the code\<close>

text \<open>
  The freshness test subtracts 16-bit clocks. For a slot armed \<open>t\<close> milliseconds
  ago it decides \<open>t mod 65536 \<le> 5000\<close>, not \<open>t \<le> 5000\<close>.
\<close>

lemma slot_is_fresh_modulo:
  assumes "port_get_time_ms P s = armed_at + of_nat t"
  shows "slot_is_fresh P s armed_at \<longleftrightarrow> t mod 65536 \<le> 5000"
    "session_is_fresh P s armed_at \<longleftrightarrow> t mod 65536 \<le> 60000"
  using assms
  by (simp_all add: slot_is_fresh_def session_is_fresh_def slot_is_fresh_for_def word_le_nat_alt
      unat_of_nat)

text \<open>The second pass of a single-shot write does not look at who sends it.\<close>

lemma second_pass_ignores_client:
  assumes "find_index s d = Some i"
    "ent_access_flags (registry s ! i) AND FBSEC_SOD_ACCESS_SECURE_WO \<noteq> 0"
    "length req = 1 + FBSEC_AEAD_RAND_SIZE + unat (ent_data_len (registry s ! i)) + FBSEC_AEAD_TAG_SIZE"
  shows "fbsec_sod_dispatch g P c d req rm s = fbsec_sod_dispatch g P c' d req rm s"
  using assms by (simp add: fbsec_sod_dispatch_def Let_def dispatch_write_def)

text \<open>
  The slot survives a cyclic first frame with its server random. The frame
  therefore opens again in any later state that keeps the slot fresh, and is
  applied again, with the counter back at zero.
\<close>

lemma write_request_opens_again:
  assumes o: "write_request_opens g P i e req s pt"
    and slot: "ws_in_use (write_slot s' ! i)" "slot_is_fresh P s' (ws_armed_at (write_slot s' ! i))"
      "ws_server_random (write_slot s' ! i) = ws_server_random (write_slot s ! i)"
      "ws_client_dev (write_slot s' ! i) = ws_client_dev (write_slot s ! i)"
    and key: "get_key s' (FBSEC_AEAD_KEYID_BASE (req ! 0)) = get_key s (FBSEC_AEAD_KEYID_BASE (req ! 0))"
    and role: "port_role_allowed P SOD_OP_WRITE (FBSEC_AEAD_KEYID_BASE (req ! 0)) (ent_data_id e) s'"
    and dev: "\<And>s. port_get_device_id P s = dev"
  shows "write_request_opens g P i e req s' pt"
  using o slot key role unfolding write_request_opens_def Let_def dev by simp

lemma cyclic_first_frame_replays:
  assumes pok: "port_ok P" and wf: "sod_wf s" and wf': "sod_wf s'" and idx: "find_index s d = Some i"
    and reg: "registry s' = registry s"
    and wo: "ent_access_flags (registry s ! i) AND FBSEC_SOD_ACCESS_SECURE_WO \<noteq> 0"
    and cyc: "FBSEC_AEAD_KEYID_IS_CYCLIC (req ! 0)"
    and o: "write_request_opens g P i (registry s ! i) req s pt"
    and slot: "ws_in_use (write_slot s' ! i)" "slot_is_fresh P s' (ws_armed_at (write_slot s' ! i))"
      "ws_server_random (write_slot s' ! i) = ws_server_random (write_slot s ! i)"
      "ws_client_dev (write_slot s' ! i) = ws_client_dev (write_slot s ! i)"
    and key: "get_key s' (FBSEC_AEAD_KEYID_BASE (req ! 0)) = get_key s (FBSEC_AEAD_KEYID_BASE (req ! 0))"
    and role: "port_role_allowed P SOD_OP_WRITE (FBSEC_AEAD_KEYID_BASE (req ! 0)) d s'"
    and dev: "\<And>s. port_get_device_id P s = dev"
    and hook: "port_write_after P d pt (write_hook_state i req s') = (FBSEC_ABORT_NONE, s2)"
  shows "fbsec_sod_dispatch g P c d req rm s' = (SOD_OK [], start_write_session P i req s2)"
    "ws_counter (write_slot (start_write_session P i req s2) ! i) = 0"
    "ws_nonce_base (write_slot (start_write_session P i req s2) ! i) =
       fbsec_aead_xor_nonce (slice req 1 FBSEC_AEAD_RAND_SIZE) (ws_server_random (write_slot s ! i))"
proof -
  have d: "ent_data_id (registry s ! i) = d" using find_index_SomeD(2) [OF idx] .
  have i: "i < 8" using sod_wf_find_index [OF wf idx] .
  have idx': "find_index s' d = Some i" using idx find_index_cong [OF reg] by simp
  have len: "length req = 1 + FBSEC_AEAD_RAND_SIZE + unat (ent_data_len (registry s ! i)) + FBSEC_AEAD_TAG_SIZE"
    using o by (simp add: write_request_opens_def Let_def)
  have "write_request_opens g P i (registry s ! i) req s' pt"
    using write_request_opens_again [OF o slot key _ dev] role d by simp
  note again = verify_and_apply_write_opens [OF this]
  have "fbsec_sod_dispatch g P c d req rm s' = verify_and_apply_write g P i (registry s ! i) req s'"
    using idx' reg wo len by (simp add: fbsec_sod_dispatch_def Let_def dispatch_write_def)
  then show "fbsec_sod_dispatch g P c d req rm s' = (SOD_OK [], start_write_session P i req s2)"
    using hook cyc by (simp add: again d)
  have "same_slots (write_hook_state i req s') s2" using port_write_after_frame [OF pok hook] .
  then have "ws_server_random (write_slot s2 ! i) = ws_server_random (write_slot s' ! i)"
      "i < length (write_slot s2)"
    using i wf' by (simp_all add: same_slots_def write_hook_state_def sod_wf_def)
  then show "ws_counter (write_slot (start_write_session P i req s2) ! i) = 0"
    "ws_nonce_base (write_slot (start_write_session P i req s2) ! i) =
       fbsec_aead_xor_nonce (slice req 1 FBSEC_AEAD_RAND_SIZE) (ws_server_random (write_slot s ! i))"
    using slot(3) by (simp_all add: start_write_session_def)
qed

text \<open>
  The one-byte arming makes the slot cyclic before any client random exists, so
  its nonce base is zero: a poll frame sealed under the nonce \<open>0..0 1\<close> opens
  whatever random the server drew.
\<close>

lemma one_byte_arm_zero_nonce:
  assumes g: "gcm_ok g" and pok: "port_ok P" and wf: "sod_wf s" and idx: "find_index s d = Some i"
    and wo: "ent_access_flags (registry s ! i) AND FBSEC_SOD_ACCESS_SECURE_WO \<noteq> 0"
    and no_poll: "\<not> (ent_access_flags (registry s ! i) AND FBSEC_SOD_ACCESS_SECURE_RO \<noteq> 0 \<and>
      rs_in_use (read_slot s ! i) \<and> rs_cyclic (read_slot s ! i))"
    and arm: "fbsec_sod_dispatch g P c d [kid] rm s = (SOD_OK r, s')"
  shows "ws_in_use (write_slot s' ! i)" "ws_cyclic (write_slot s' ! i)"
    "ws_nonce_base (write_slot s' ! i) = replicate FBSEC_AEAD_NONCE_SIZE 0"
    "ws_counter (write_slot s' ! i) = 0" "ws_key_id (write_slot s' ! i) = kid"
    "ws_client_dev (write_slot s' ! i) = c" "registry s' = registry s"
    "FBSEC_AEAD_KEYID_IS_CYCLIC kid"
proof -
  have i: "i < 8" using sod_wf_find_index [OF wf idx] .
  have "arm_write_challenge P i (registry s ! i) c kid True rm s = (SOD_OK r, s')"
    using arm idx wo no_poll by (auto simp: fbsec_sod_dispatch_def Let_def dispatch_write_def)
  then have "ws_in_use (write_slot s' ! i) \<and> ws_cyclic (write_slot s' ! i) \<and>
    ws_nonce_base (write_slot s' ! i) = replicate FBSEC_AEAD_NONCE_SIZE 0 \<and>
    ws_counter (write_slot s' ! i) = 0 \<and> ws_key_id (write_slot s' ! i) = kid \<and>
    ws_client_dev (write_slot s' ! i) = c \<and> registry s' = registry s \<and>
    FBSEC_AEAD_KEYID_IS_CYCLIC kid"
    using pok
  proof (cases rule: arm_write_challenge_cases)
    case refused
    then show ?thesis by simp
  next
    case (armed rnd s1)
    then have "i < length (write_slot s1)" using i wf by (simp add: same_slots_def sod_wf_def)
    then show ?thesis
      using armed by (simp add: armed_write_slot_def write_state_zero_def same_slots_def)
  qed
  then show "ws_in_use (write_slot s' ! i)" "ws_cyclic (write_slot s' ! i)"
    "ws_nonce_base (write_slot s' ! i) = replicate FBSEC_AEAD_NONCE_SIZE 0"
    "ws_counter (write_slot s' ! i) = 0" "ws_key_id (write_slot s' ! i) = kid"
    "ws_client_dev (write_slot s' ! i) = c" "registry s' = registry s"
    "FBSEC_AEAD_KEYID_IS_CYCLIC kid"
    by blast+
qed

text \<open>
  The random of a write slot outlives the first frame it was drawn for: between two
  write armings of the object no request changes it.
\<close>

text \<open>The random and the client a write slot was armed with.\<close>

definition write_arming_of :: "write_state \<Rightarrow> bytes \<times> u16" where
  "write_arming_of w = (ws_server_random w, ws_client_dev w)"

lemma list_update_arming:
  "write_arming_of w = write_arming_of (ws ! j) \<Longrightarrow>
   write_arming_of (ws[j := w] ! k) = write_arming_of (ws ! k)"
  by (cases "k = j"; cases "j < length ws") (auto simp: list_update_beyond)

lemma write_updates_arming [simp]:
  "write_arming_of (write_slot (release_write j s) ! k) = write_arming_of (write_slot s ! k)"
  "write_arming_of (write_slot (advance_write P j ctr s) ! k) = write_arming_of (write_slot s ! k)"
  "write_arming_of (write_slot (start_write_session P j req s) ! k) = write_arming_of (write_slot s ! k)"
  "write_arming_of (write_slot (write_hook_state j req s) ! k) = write_arming_of (write_slot s ! k)"
  by (simp_all add: release_write_def advance_write_def start_write_session_def write_hook_state_def)
     (rule list_update_arming, simp add: write_arming_of_def)+

lemma handle_write_poll_arming:
  assumes "handle_write_poll g P j e c req s = (st, s')" "port_ok P"
  shows "write_arming_of (write_slot s' ! k) = write_arming_of (write_slot s ! k)"
proof (cases "\<exists>pt ctr. write_poll_opens g P j e c req s pt ctr")
  case True
  then obtain pt ctr where o: "write_poll_opens g P j e c req s pt ctr" by blast
  obtain rc s1 where h: "port_write_after P (ent_data_id e) pt s = (rc, s1)" by force
  have "write_slot s1 = write_slot s"
    using port_write_after_frame [OF assms(2) h] by (simp add: same_slots_def)
  then show ?thesis
    using assms(1) by (auto simp: handle_write_poll_opens [OF o] h split: if_splits)
next
  case False
  from handle_write_poll_refused [OF this] assms(1) show ?thesis by auto
qed

lemma verify_and_apply_write_arming:
  assumes "verify_and_apply_write g P j e req s = (st, s')" "port_ok P"
  shows "write_arming_of (write_slot s' ! k) = write_arming_of (write_slot s ! k)"
proof (cases "\<exists>pt. write_request_opens g P j e req s pt")
  case True
  then obtain pt where o: "write_request_opens g P j e req s pt" by blast
  obtain rc s2 where h: "port_write_after P (ent_data_id e) pt (write_hook_state j req s) = (rc, s2)"
    by force
  have "write_slot s2 = write_slot (write_hook_state j req s)"
    using port_write_after_frame [OF assms(2) h] by (simp add: same_slots_def)
  then have "write_arming_of (write_slot s2 ! k) = write_arming_of (write_slot s ! k)" by simp
  then show ?thesis
    using assms(1) by (auto simp: verify_and_apply_write_opens [OF o] h split: if_splits)
next
  case False
  have "write_arming_of (write_slot (upd_write j (\<lambda>sl. sl\<lparr>ws_key_id := req ! 0\<rparr>) s) ! k)
      = write_arming_of (write_slot s ! k)"
    unfolding upd_write_simps by (rule list_update_arming) (simp add: write_arming_of_def)
  with verify_and_apply_write_refused [OF False] assms(1) show ?thesis by auto
qed

lemma handle_read_poll_write_slots:
  assumes "handle_read_poll g P j e c req rm s = (st, s')" "port_ok P"
  shows "registry s' = registry s \<and> write_slot s' = write_slot s"
  using assms
proof (cases rule: handle_read_poll_cases)
  case (served plaintext ctr ct tag s1)
  then have "same_slots s s1" "s' = upd_read j (\<lambda>sl. sl\<lparr>rs_counter := ctr, rs_armed_at := port_get_time_ms P s1\<rparr>) s1"
    using port_read_before_frame [OF assms(2)] unfolding read_poll_served_def Let_def by blast+
  then show ?thesis by (simp add: same_slots_def)
qed (simp_all add: same_slots_def)

lemma arm_read_response_write_slots:
  assumes "arm_read_response g P j e c ch s = (st, s')" "port_ok P"
  shows "registry s' = registry s \<and> write_slot s' = write_slot s"
  using assms
proof (cases rule: arm_read_response_cases)
  case (armed plaintext sr ct tag s3)
  then obtain s1 s2 where
    rb: "port_read_before P (ent_data_id e) (unat (ent_data_len e)) s = ((FBSEC_ABORT_NONE, plaintext), s1)"
    and rnd: "port_random P FBSEC_AEAD_RAND_SIZE s1 = (Some sr, s2)"
    and s3: "s3 = upd_read j (\<lambda>_. read_state_zero) s2"
    and s': "s' = upd_read j (\<lambda>_. armed_read_slot P s3 c (ch ! 0)
           (slice ch 1 FBSEC_AEAD_RAND_SIZE) sr ct tag) s3"
    unfolding arm_read_armed_def Let_def by blast
  have "same_slots s s2"
    using port_read_before_frame [OF assms(2) rb] port_random_frame [OF assms(2) rnd] same_slots_trans
    by blast
  then show ?thesis by (simp add: s' s3 same_slots_def)
qed (simp_all add: same_slots_def)

lemma arm_write_challenge_other:
  assumes "arm_write_challenge P j e c kid hk rm s = (st, s')" "port_ok P" "k \<noteq> j"
  shows "write_slot s' ! k = write_slot s ! k"
  using assms(1,2) by (cases rule: arm_write_challenge_cases) (use assms(3) in \<open>simp_all add: same_slots_def\<close>)

text \<open>Only a write arming of the object replaces the random and the client of its slot.\<close>

lemma dispatch_write_arming:
  assumes pok: "port_ok P" and idx: "find_index s d = Some i"
    and no_arm: "\<not> (d' = d \<and> length req \<le> 1)"
    and run: "fbsec_sod_dispatch g P c d' req rm s = (st, s')"
  shows "registry s' = registry s \<and>
    write_arming_of (write_slot s' ! i) = write_arming_of (write_slot s ! i)"
proof (cases "find_index s d'")
  case None
  then show ?thesis using run idx by (auto simp: fbsec_sod_dispatch_def)
next
  case (Some j)
  let ?e = "registry s ! j"
  have ji: "j = i \<longleftrightarrow> d' = d" using Some idx find_index_inject by auto
  consider "s' = s"
    | "handle_read_poll g P j ?e c req rm s = (st, s')"
    | "handle_write_poll g P j ?e c req s = (st, s')"
    | "arm_read_response g P j ?e c req s = (st, s')"
    | "deliver_prepared P j rm s = (st, s')"
    | kid hk where "i \<noteq> j" "arm_write_challenge P j ?e c kid hk rm s = (st, s')"
        "registry s' = registry s"
    | "verify_and_apply_write g P j ?e req s = (st, s')"
  proof -
    have arm: "registry s' = registry s" if "dispatch_write g P j ?e c req rm s = (st, s')"
      using dispatch_write_frame [OF that pok] by blast
    have len: "i \<noteq> j \<or> 1 < length req" using no_arm ji by auto
    have "s' = s \<or> handle_read_poll g P j ?e c req rm s = (st, s') \<or>
      handle_write_poll g P j ?e c req s = (st, s') \<or> arm_read_response g P j ?e c req s = (st, s') \<or>
      deliver_prepared P j rm s = (st, s') \<or> dispatch_write g P j ?e c req rm s = (st, s')"
      using run Some unfolding fbsec_sod_dispatch_def Let_def by (auto split: if_splits)
    then show thesis using that arm len unfolding dispatch_write_def by (metis not_one_less_zero less_irrefl)
  qed
  then show ?thesis
    by cases (use pok in \<open>auto dest: handle_read_poll_write_slots handle_write_poll_frame
        handle_write_poll_arming arm_read_response_write_slots arm_write_challenge_other
        verify_and_apply_write_arming verify_and_apply_write_frame simp: deliver_prepared_def Let_def
        split: if_splits\<close>)
qed

lemma sod_run_write_arming:
  assumes "port_ok P" "find_index s d = Some i" "sod_run g P rm xs s = (sts, s')"
    "\<forall>(c, d', req)\<in>set xs. \<not> (d' = d \<and> length req \<le> 1)"
  shows "registry s' = registry s \<and>
    write_arming_of (write_slot s' ! i) = write_arming_of (write_slot s ! i)"
  using assms(2-4)
proof (induction xs arbitrary: s sts)
  case Nil
  then show ?case by simp
next
  case (Cons x xs)
  obtain c d' req where x: "x = (c, d', req)" using prod_cases3 by blast
  obtain st s1 where run: "fbsec_sod_dispatch g P c d' req rm s = (st, s1)" by force
  obtain sts' where rest: "sod_run g P rm xs s1 = (sts', s')"
    using Cons.prems(2) x run by (auto split: prod.splits)
  have "registry s1 = registry s \<and> write_arming_of (write_slot s1 ! i) = write_arming_of (write_slot s ! i)"
    using dispatch_write_arming [OF assms(1) Cons.prems(1) _ run] Cons.prems(3) x by auto
  moreover have "find_index s1 d = Some i"
    using Cons.prems(1) find_index_cong calculation by metis
  ultimately show ?case using Cons.IH [OF _ rest] Cons.prems(3) by auto
qed

lemma sod_run_wf:
  assumes "sod_run g P rm xs s = (sts, s')" "port_ok P" "gcm_ok g" "sod_wf s"
  shows "sod_wf s'"
  using assms(1,4)
proof (induction xs arbitrary: s sts)
  case Nil
  then show ?case by simp
next
  case (Cons x xs)
  then show ?case using dispatch_wf [OF _ assms(2,3)] by (cases x) (force split: prod.splits)
qed

text \<open>An accepted single-shot write opened, and its hook accepted the value.\<close>

lemma accepted_single_shot:
  assumes "find_index s d = Some i"
    and "ent_access_flags (registry s ! i) AND FBSEC_SOD_ACCESS_SECURE_WO \<noteq> 0"
    and "length req = 1 + FBSEC_AEAD_RAND_SIZE + unat (ent_data_len (registry s ! i)) + FBSEC_AEAD_TAG_SIZE"
    and run: "fbsec_sod_dispatch g P c d req rm s = (SOD_OK r, s1)"
  obtains pt s2 where "write_request_opens g P i (registry s ! i) req s pt"
    "port_write_after P d pt (write_hook_state i req s) = (FBSEC_ABORT_NONE, s2)"
    "s1 = (if FBSEC_AEAD_KEYID_IS_CYCLIC (req ! 0) then start_write_session P i req s2
           else release_write i s2)"
proof -
  have v: "verify_and_apply_write g P i (registry s ! i) req s = (SOD_OK r, s1)"
    using run assms(1-3) by (simp add: fbsec_sod_dispatch_def Let_def dispatch_write_def)
  then obtain pt where o: "write_request_opens g P i (registry s ! i) req s pt"
    using verify_and_apply_write_refused [of g P i "registry s ! i" req s] by auto
  obtain rc s2 where h: "port_write_after P d pt (write_hook_state i req s) = (rc, s2)" by force
  have "rc = FBSEC_ABORT_NONE \<and> s1 = (if FBSEC_AEAD_KEYID_IS_CYCLIC (req ! 0)
      then start_write_session P i req s2 else release_write i s2)"
    using v h find_index_SomeD(2) [OF assms(1)]
    by (auto simp: verify_and_apply_write_opens [OF o] split: if_splits)
  then show thesis using that [OF o] h by blast
qed

text \<open>An accepted first frame is accepted again, with the same session under the same nonces.\<close>

lemma accepted_cyclic_replays:
  assumes pok: "port_ok P" and g: "gcm_ok g" and wf: "sod_wf s" and idx: "find_index s d = Some i"
    and wo: "ent_access_flags (registry s ! i) AND FBSEC_SOD_ACCESS_SECURE_WO \<noteq> 0"
    and len: "length req = 1 + FBSEC_AEAD_RAND_SIZE + unat (ent_data_len (registry s ! i)) + FBSEC_AEAD_TAG_SIZE"
    and cyc: "FBSEC_AEAD_KEYID_IS_CYCLIC (req ! 0)"
    and first: "fbsec_sod_dispatch g P c d req rm s = (SOD_OK r, s1)"
    and run: "sod_run g P rm xs s1 = (sts, s2)" "\<forall>(c, d', req)\<in>set xs. \<not> (d' = d \<and> length req \<le> 1)"
    and slot: "ws_in_use (write_slot s2 ! i)" "slot_is_fresh P s2 (ws_armed_at (write_slot s2 ! i))"
    and key: "get_key s2 (FBSEC_AEAD_KEYID_BASE (req ! 0)) = get_key s (FBSEC_AEAD_KEYID_BASE (req ! 0))"
    and role: "port_role_allowed P SOD_OP_WRITE (FBSEC_AEAD_KEYID_BASE (req ! 0)) d s2"
    and dev: "\<And>s. port_get_device_id P s = dev"
  shows "\<exists>pt. write_request_opens g P i (registry s ! i) req s pt \<and>
    fst (port_write_after P d pt (write_hook_state i req s)) = FBSEC_ABORT_NONE \<and>
    (\<forall>c' rm' s3. port_write_after P d pt (write_hook_state i req s2) = (FBSEC_ABORT_NONE, s3) \<longrightarrow>
       fbsec_sod_dispatch g P c' d req rm' s2 = (SOD_OK [], start_write_session P i req s3) \<and>
       ws_counter (write_slot (start_write_session P i req s3) ! i) = 0 \<and>
       ws_nonce_base (write_slot (start_write_session P i req s3) ! i) = ws_nonce_base (write_slot s1 ! i))"
proof -
  have i: "i < 8" using sod_wf_find_index [OF wf idx] .
  obtain pt s0 where o: "write_request_opens g P i (registry s ! i) req s pt"
    and h: "port_write_after P d pt (write_hook_state i req s) = (FBSEC_ABORT_NONE, s0)"
    and s1: "s1 = start_write_session P i req s0"
    using accepted_single_shot [OF idx wo len first] cyc by auto
  have wf1: "sod_wf s1" using dispatch_wf [OF first pok g wf] .
  have "\<not> (d = d \<and> length req \<le> 1)" using len by simp
  note a1 = dispatch_write_arming [OF pok idx this first]
  then have "find_index s1 d = Some i" using idx find_index_cong by metis
  note a2 = sod_run_write_arming [OF pok this run]
  have wf2: "sod_wf s2" using sod_run_wf [OF run(1) pok g wf1] .
  have reg: "registry s2 = registry s" using a1 a2 by simp
  have arm: "ws_server_random (write_slot s2 ! i) = ws_server_random (write_slot s ! i)"
    "ws_client_dev (write_slot s2 ! i) = ws_client_dev (write_slot s ! i)"
    using a1 a2 by (simp_all add: write_arming_of_def)
  have base: "ws_nonce_base (write_slot s1 ! i) =
      fbsec_aead_xor_nonce (slice req 1 FBSEC_AEAD_RAND_SIZE) (ws_server_random (write_slot s ! i))"
  proof -
    have "same_slots (write_hook_state i req s) s0" using port_write_after_frame [OF pok h] .
    then have "ws_server_random (write_slot s0 ! i) = ws_server_random (write_slot s ! i)"
        "i < length (write_slot s0)"
      using i wf by (simp_all add: same_slots_def write_hook_state_def sod_wf_def)
    then show ?thesis by (simp add: s1 start_write_session_def)
  qed
  show ?thesis
    using cyclic_first_frame_replays [OF pok wf wf2 idx reg wo cyc o slot arm key role dev] o h base
    by (intro exI [of _ pt]) simp
qed

text \<open>
  The first poll accepted directly after the one-byte arming. The second pass of the
  write, which the header documents, would replace the zero base.
\<close>

lemma one_byte_first_poll:
  assumes g: "gcm_ok g" and pok: "port_ok P" and wf: "sod_wf s" and idx: "find_index s d = Some i"
    and wo: "ent_access_flags (registry s ! i) AND FBSEC_SOD_ACCESS_SECURE_WO \<noteq> 0"
    and no_poll: "\<not> (ent_access_flags (registry s ! i) AND FBSEC_SOD_ACCESS_SECURE_RO \<noteq> 0 \<and>
      rs_in_use (read_slot s ! i) \<and> rs_cyclic (read_slot s ! i))"
    and arm: "fbsec_sod_dispatch g P c d [kid] rm s = (SOD_OK r, s1)"
    and len: "length req = 1 + unat (ent_data_len (registry s ! i)) + FBSEC_AEAD_TAG_SIZE"
  shows "fbsec_sod_dispatch g P c' d req rm' s1 = handle_write_poll g P i (registry s ! i) c' req s1"
    "write_poll_opens g P i (registry s ! i) c' req s1 pt ctr \<longleftrightarrow>
       c' = c \<and> session_is_fresh P s1 (ws_armed_at (write_slot s1 ! i)) \<and>
       ctr = 1 \<and> req ! 0 = 1 \<and> port_role_allowed P SOD_OP_WRITE (FBSEC_AEAD_KEYID_BASE kid) d s1 \<and>
       (\<exists>key. get_key s1 (FBSEC_AEAD_KEYID_BASE kid) = Some key \<and>
         fbsec_aead_open g key (replicate 11 0 @ [1]) FBSEC_AEAD_DIR_WRITE_POLL_REQUEST kid
           (port_get_device_id P s1) c d None None
           (slice req 1 (unat (ent_data_len (registry s ! i))))
           (slice req (1 + unat (ent_data_len (registry s ! i))) FBSEC_AEAD_TAG_SIZE) = Some pt)"
proof -
  note z = one_byte_arm_zero_nonce [OF g pok wf idx wo no_poll arm]
  have idx1: "find_index s1 d = Some i" using idx find_index_cong [OF z(7)] by simp
  have d: "ent_data_id (registry s ! i) = d" using find_index_SomeD(2) [OF idx] .
  show "fbsec_sod_dispatch g P c' d req rm' s1 = handle_write_poll g P i (registry s ! i) c' req s1"
    using idx1 z(1,2,7) wo len by (simp add: fbsec_sod_dispatch_def Let_def)
  have ctr: "poll_check_counter 0 b = Inr ctr \<longleftrightarrow> ctr = 1 \<and> b = 1" for b
    by (auto simp: poll_check_counter_def)
  have nonce: "build_session_nonce (replicate FBSEC_AEAD_NONCE_SIZE 0) 1 = replicate 11 0 @ [1]"
    by code_simp
  show "write_poll_opens g P i (registry s ! i) c' req s1 pt ctr \<longleftrightarrow>
       c' = c \<and> session_is_fresh P s1 (ws_armed_at (write_slot s1 ! i)) \<and>
       ctr = 1 \<and> req ! 0 = 1 \<and> port_role_allowed P SOD_OP_WRITE (FBSEC_AEAD_KEYID_BASE kid) d s1 \<and>
       (\<exists>key. get_key s1 (FBSEC_AEAD_KEYID_BASE kid) = Some key \<and>
         fbsec_aead_open g key (replicate 11 0 @ [1]) FBSEC_AEAD_DIR_WRITE_POLL_REQUEST kid
           (port_get_device_id P s1) c d None None
           (slice req 1 (unat (ent_data_len (registry s ! i))))
           (slice req (1 + unat (ent_data_len (registry s ! i))) FBSEC_AEAD_TAG_SIZE) = Some pt)"
    using z(1-6) d len nonce by (auto simp: write_poll_opens_def Let_def ctr)
qed

lemma one_byte_poll_replays:
  assumes g: "gcm_ok g" and pok: "port_ok P" and wf: "sod_wf s" and wf': "sod_wf t"
    and reg: "registry t = registry s" and idx: "find_index s d = Some i"
    and wo: "ent_access_flags (registry s ! i) AND FBSEC_SOD_ACCESS_SECURE_WO \<noteq> 0"
    and np: "\<not> (rs_in_use (read_slot s ! i) \<and> rs_cyclic (read_slot s ! i))"
      "\<not> (rs_in_use (read_slot t ! i) \<and> rs_cyclic (read_slot t ! i))"
    and arm: "fbsec_sod_dispatch g P c d [kid] rm s = (SOD_OK r, s1)"
      "fbsec_sod_dispatch g P c d [kid] rm t = (SOD_OK r', t1)"
    and len: "length req = 1 + unat (ent_data_len (registry s ! i)) + FBSEC_AEAD_TAG_SIZE"
    and poll: "fbsec_sod_dispatch g P c d req rm s1 = (SOD_OK q, s2)"
    and fresh: "session_is_fresh P t1 (ws_armed_at (write_slot t1 ! i))"
    and key: "get_key t1 (FBSEC_AEAD_KEYID_BASE kid) = get_key s1 (FBSEC_AEAD_KEYID_BASE kid)"
    and role: "port_role_allowed P SOD_OP_WRITE (FBSEC_AEAD_KEYID_BASE kid) d t1"
    and dev: "\<And>s. port_get_device_id P s = dev"
  shows "\<exists>key pt ct tag. get_key s1 (FBSEC_AEAD_KEYID_BASE kid) = Some key \<and> req = 1 # ct @ tag \<and>
    fbsec_aead_seal g key (replicate 11 0 @ [1]) FBSEC_AEAD_DIR_WRITE_POLL_REQUEST kid dev c d
      None None pt = Some (ct, tag) \<and>
    (\<forall>rm' t2. port_write_after P d pt t1 = (FBSEC_ABORT_NONE, t2) \<longrightarrow>
       fbsec_sod_dispatch g P c d req rm' t1 = (SOD_OK [], advance_write P i 1 t2))"
proof -
  let ?e = "registry s ! i" and ?n = "unat (ent_data_len (registry s ! i))"
  have idx': "find_index t d = Some i" using idx find_index_cong [OF reg] by simp
  note S = one_byte_first_poll [OF g pok wf idx wo _ arm(1) len]
  note T = one_byte_first_poll [OF g pok wf' idx' _ _ arm(2), unfolded reg, OF wo _ len]
  have "handle_write_poll g P i ?e c req s1 = (SOD_OK q, s2)" using poll S(1) np(1) by simp
  then obtain pt ctr where o: "write_poll_opens g P i ?e c req s1 pt ctr"
    using handle_write_poll_refused [of g P i ?e c req s1] by auto
  then obtain k where k: "get_key s1 (FBSEC_AEAD_KEYID_BASE kid) = Some k" and r0: "req ! 0 = 1" and
    opn: "fbsec_aead_open g k (replicate 11 0 @ [1]) FBSEC_AEAD_DIR_WRITE_POLL_REQUEST kid dev c d
      None None (slice req 1 ?n) (slice req (1 + ?n) FBSEC_AEAD_TAG_SIZE) = Some pt"
    using S(2) np(1) dev by auto
  have "sod_wf s1" using dispatch_wf [OF arm(1) pok g wf] .
  then have kl: "length k = FBSEC_AEAD_KEY_SIZE"
    using get_key_length [OF _ k] by (simp add: sod_wf_def)
  have "length (slice req (1 + ?n) FBSEC_AEAD_TAG_SIZE) = FBSEC_AEAD_TAG_SIZE" using len by simp
  then have seal: "fbsec_aead_seal g k (replicate 11 0 @ [1]) FBSEC_AEAD_DIR_WRITE_POLL_REQUEST kid dev c d
      None None pt = Some (slice req 1 ?n, slice req (1 + ?n) FBSEC_AEAD_TAG_SIZE)"
    using opn open_iff_seal [OF g kl] by simp
  have "take 1 req = [1]" using len r0 by (cases req) auto
  then have req: "req = 1 # slice req 1 ?n @ slice req (1 + ?n) FBSEC_AEAD_TAG_SIZE"
    using slice_split3 [OF len] by simp
  have "write_poll_opens g P i ?e c req t1 pt 1"
    using T(2) np(2) fresh role r0 k key opn dev by simp
  note again = handle_write_poll_opens [OF this]
  have "fbsec_sod_dispatch g P c d req rm' t1 = (SOD_OK [], advance_write P i 1 t2)"
    if "port_write_after P d pt t1 = (FBSEC_ABORT_NONE, t2)" for rm' t2
    using T(1) np(2) again that find_index_SomeD(2) [OF idx] by simp
  then show ?thesis using k req seal by blast
qed

end
