(* ===== verification/Secure_Proto.thy ===== *)
theory Secure_Proto
  imports Aead
begin

text \<open>
  Model of the client protocol engine, \<open>shared/fbsec_secure_proto.h\<close> and
  \<open>shared/fbsec_secure_proto.c\<close>: single-shot secure read and write, their
  cyclic-capable variants and the two polls. The transport vtable and the
  host hooks are records of functions over a world state \<open>'w\<close>, threaded in
  the order of the calls. An operation returns its status, the bytes it leaves
  in the caller's buffer, the abort code and the new world.
\<close>

section \<open>Types\<close>

datatype secp_status =
    SECP_OK | SECP_TIMEOUT | SECP_TX | SECP_PROTOCOL | SECP_BUFSIZE | SECP_ABORT | SECP_TAG | SECP_RANDOM

text \<open>
  \<open>tp_read dev id body buf_size timeout\<close> sends a request and returns the reply;
  \<open>tp_write dev id bytes timeout\<close> sends bytes and waits for the acknowledge.
\<close>

record 'w transport =
  tp_read :: "u16 \<Rightarrow> u32 \<Rightarrow> bytes \<Rightarrow> nat \<Rightarrow> u32 \<Rightarrow> 'w \<Rightarrow> (secp_status \<times> bytes \<times> abort) \<times> 'w"
  tp_write :: "u16 \<Rightarrow> u32 \<Rightarrow> bytes \<Rightarrow> u32 \<Rightarrow> 'w \<Rightarrow> (secp_status \<times> abort) \<times> 'w"

text \<open>\<open>fbsec_secure_port_random\<close>, \<open>fbsec_secure_port_get_client_id\<close>, the salt callback.\<close>

record 'w client_port =
  secure_port_random :: "nat \<Rightarrow> 'w \<Rightarrow> bytes option \<times> 'w"
  secure_port_get_client_id :: "'w \<Rightarrow> u16"
  salt_cb :: "(bytes \<Rightarrow> 'w \<Rightarrow> 'w) option"

record session =
  se_in_use :: bool
  se_data_id :: u32
  se_key_id :: u8
  se_nonce_base :: bytes
  se_counter :: u32

abbreviation (input) CHALLENGE_LEN_WR :: nat where
  "CHALLENGE_LEN_WR \<equiv> FBSEC_AEAD_RAND_SIZE"

abbreviation (input) RESPONSE_BUF_LEN :: nat where
  "RESPONSE_BUF_LEN \<equiv> FBSEC_AEAD_RAND_SIZE + FBSEC_AEAD_MAX_PROTECTED + FBSEC_AEAD_TAG_SIZE"

abbreviation (input) POLL_BUF_LEN :: nat where
  "POLL_BUF_LEN \<equiv> 1 + FBSEC_AEAD_MAX_PROTECTED + FBSEC_AEAD_TAG_SIZE"

definition fbsec_secure_set_salt_callback ::
  "(bytes \<Rightarrow> 'w \<Rightarrow> 'w) option \<Rightarrow> 'w client_port \<Rightarrow> 'w client_port" where
  "fbsec_secure_set_salt_callback cb C = C\<lparr>salt_cb := cb\<rparr>"

definition notify_salt :: "'w client_port \<Rightarrow> bytes \<Rightarrow> 'w \<Rightarrow> 'w" where
  "notify_salt C salt w = (case salt_cb C of None \<Rightarrow> w | Some cb \<Rightarrow> cb salt w)"

text \<open>The key-id check that opens every operation (the base is at most 15 by construction).\<close>

definition key_id_invalid :: "u8 \<Rightarrow> bool" where
  "key_id_invalid key_id \<longleftrightarrow> FBSEC_AEAD_KEYID_RESERVED key_id \<noteq> 0 \<or>
     FBSEC_AEAD_KEYID_BASE key_id = 0 \<or> FBSEC_AEAD_KEYID_BASE key_id > 15"

section \<open>Secure read\<close>

definition fbsec_secure_read ::
  "gcm \<Rightarrow> 'w client_port \<Rightarrow> 'w transport \<Rightarrow> u16 \<Rightarrow> u32 \<Rightarrow> bytes \<Rightarrow> u8 \<Rightarrow> nat \<Rightarrow> u32 \<Rightarrow> 'w \<Rightarrow>
   (secp_status \<times> bytes \<times> abort) \<times> 'w" where
  "fbsec_secure_read g C T device_id data_id key key_id buf_size timeout_ms w =
     (if key_id_invalid key_id then ((SECP_PROTOCOL, [], 0), w)
      else
        (case secure_port_random C FBSEC_AEAD_RAND_SIZE w of
          (None, w1) \<Rightarrow> ((SECP_RANDOM, [], 0), w1)
        | (Some client_random, w1) \<Rightarrow>
            let w2 = notify_salt C client_random w1
            in (case tp_write T device_id data_id (key_id # client_random) timeout_ms w2 of
              ((rc, ac), w3) \<Rightarrow>
                if rc \<noteq> SECP_OK then ((rc, [], ac), w3)
                else
                  (case tp_read T device_id data_id [] RESPONSE_BUF_LEN timeout_ms w3 of
                    ((rc, response, ac), w4) \<Rightarrow>
                      if rc \<noteq> SECP_OK then ((rc, [], ac), w4)
                      else if length response < FBSEC_AEAD_RAND_SIZE + FBSEC_AEAD_TAG_SIZE then
                        ((SECP_PROTOCOL, [], ac), w4)
                      else
                        let server_random = slice response 0 FBSEC_AEAD_RAND_SIZE;
                            data_len = length response - FBSEC_AEAD_RAND_SIZE - FBSEC_AEAD_TAG_SIZE
                        in if data_len > FBSEC_AEAD_MAX_PROTECTED then ((SECP_PROTOCOL, [], ac), w4)
                           else if data_len > buf_size then ((SECP_BUFSIZE, [], ac), w4)
                           else
                             (case fbsec_aead_open g key
                                     (fbsec_aead_xor_nonce client_random server_random)
                                     FBSEC_AEAD_DIR_READ_RESPONSE key_id device_id
                                     (secure_port_get_client_id C w4) data_id
                                     (Some client_random) (Some server_random)
                                     (slice response FBSEC_AEAD_RAND_SIZE data_len)
                                     (slice response (FBSEC_AEAD_RAND_SIZE + data_len)
                                        FBSEC_AEAD_TAG_SIZE) of
                                None \<Rightarrow> ((SECP_TAG, [], ac), w4)
                              | Some plaintext \<Rightarrow> ((SECP_OK, plaintext, ac), w4))))))"

section \<open>Secure write\<close>

definition fbsec_secure_write ::
  "gcm \<Rightarrow> 'w client_port \<Rightarrow> 'w transport \<Rightarrow> u16 \<Rightarrow> u32 \<Rightarrow> bytes \<Rightarrow> u8 \<Rightarrow> bytes \<Rightarrow> u32 \<Rightarrow> 'w \<Rightarrow>
   (secp_status \<times> abort) \<times> 'w" where
  "fbsec_secure_write g C T device_id data_id key key_id buf timeout_ms w =
     (if key_id_invalid key_id then ((SECP_PROTOCOL, 0), w)
      else if length buf = 0 \<or> length buf > FBSEC_AEAD_MAX_PROTECTED then ((SECP_BUFSIZE, 0), w)
      else
        (case tp_read T device_id data_id [] FBSEC_AEAD_RAND_SIZE timeout_ms w of
          ((rc, server_random, ac), w1) \<Rightarrow>
            if rc \<noteq> SECP_OK then ((rc, ac), w1)
            else if length server_random \<noteq> CHALLENGE_LEN_WR then ((SECP_PROTOCOL, ac), w1)
            else
              let w2 = notify_salt C server_random w1
              in (case secure_port_random C FBSEC_AEAD_RAND_SIZE w2 of
                (None, w3) \<Rightarrow> ((SECP_RANDOM, ac), w3)
              | (Some client_random, w3) \<Rightarrow>
                  (case fbsec_aead_seal g key (fbsec_aead_xor_nonce client_random server_random)
                          FBSEC_AEAD_DIR_WRITE_REQUEST key_id device_id
                          (secure_port_get_client_id C w3) data_id
                          (Some client_random) (Some server_random) buf of
                     None \<Rightarrow> ((SECP_TAG, ac), w3)
                   | Some (ct, tag) \<Rightarrow>
                       tp_write T device_id data_id (key_id # client_random @ ct @ tag)
                         timeout_ms w3))))"

section \<open>Cyclic-capable read and write\<close>

definition session_build_nonce :: "session \<Rightarrow> u32 \<Rightarrow> bytes" where
  "session_build_nonce sess counter_for_frame =
     (let n0 = se_nonce_base sess;
          n1 = n0[8 := n0 ! 8 XOR ucast (drop_bit 24 counter_for_frame)];
          n2 = n1[9 := n1 ! 9 XOR ucast (drop_bit 16 counter_for_frame)];
          n3 = n2[10 := n2 ! 10 XOR ucast (drop_bit 8 counter_for_frame)]
      in n3[11 := n3 ! 11 XOR ucast counter_for_frame])"

text \<open>The session a successful arming leaves in \<open>*out_sess\<close>.\<close>

definition armed_session :: "u32 \<Rightarrow> u8 \<Rightarrow> bytes \<Rightarrow> bytes \<Rightarrow> session" where
  "armed_session data_id arm_kid client_random server_random =
     \<lparr>se_in_use = True, se_data_id = data_id, se_key_id = arm_kid,
      se_nonce_base = fbsec_aead_xor_nonce client_random server_random, se_counter = 0\<rparr>"

definition fbsec_secure_read_armed ::
  "gcm \<Rightarrow> 'w client_port \<Rightarrow> 'w transport \<Rightarrow> u16 \<Rightarrow> u32 \<Rightarrow> bytes \<Rightarrow> u8 \<Rightarrow> nat \<Rightarrow> u32 \<Rightarrow>
   session \<Rightarrow> 'w \<Rightarrow> (secp_status \<times> bytes \<times> abort \<times> session) \<times> 'w" where
  "fbsec_secure_read_armed g C T device_id data_id key key_id buf_size timeout_ms sess w =
     (if key_id_invalid key_id then ((SECP_PROTOCOL, [], 0, sess), w)
      else
        let arm_kid = key_id OR 0x40
        in (case secure_port_random C FBSEC_AEAD_RAND_SIZE w of
          (None, w1) \<Rightarrow> ((SECP_RANDOM, [], 0, sess), w1)
        | (Some client_random, w1) \<Rightarrow>
            let w2 = notify_salt C client_random w1
            in (case tp_write T device_id data_id (arm_kid # client_random) timeout_ms w2 of
              ((rc, ac), w3) \<Rightarrow>
                if rc \<noteq> SECP_OK then ((rc, [], ac, sess), w3)
                else
                  (case tp_read T device_id data_id [] RESPONSE_BUF_LEN timeout_ms w3 of
                    ((rc, response, ac), w4) \<Rightarrow>
                      if rc \<noteq> SECP_OK then ((rc, [], ac, sess), w4)
                      else if length response < FBSEC_AEAD_RAND_SIZE + FBSEC_AEAD_TAG_SIZE then
                        ((SECP_PROTOCOL, [], ac, sess), w4)
                      else
                        let server_random = slice response 0 FBSEC_AEAD_RAND_SIZE;
                            data_len = length response - FBSEC_AEAD_RAND_SIZE - FBSEC_AEAD_TAG_SIZE
                        in if data_len > FBSEC_AEAD_MAX_PROTECTED then
                             ((SECP_PROTOCOL, [], ac, sess), w4)
                           else if data_len > buf_size then ((SECP_BUFSIZE, [], ac, sess), w4)
                           else
                             (case fbsec_aead_open g key
                                     (fbsec_aead_xor_nonce client_random server_random)
                                     FBSEC_AEAD_DIR_READ_RESPONSE arm_kid device_id
                                     (secure_port_get_client_id C w4) data_id
                                     (Some client_random) (Some server_random)
                                     (slice response FBSEC_AEAD_RAND_SIZE data_len)
                                     (slice response (FBSEC_AEAD_RAND_SIZE + data_len)
                                        FBSEC_AEAD_TAG_SIZE) of
                                None \<Rightarrow> ((SECP_TAG, [], ac, sess), w4)
                              | Some plaintext \<Rightarrow>
                                  ((SECP_OK, plaintext, ac,
                                    armed_session data_id arm_kid client_random server_random),
                                   w4))))))"

definition fbsec_secure_write_armed ::
  "gcm \<Rightarrow> 'w client_port \<Rightarrow> 'w transport \<Rightarrow> u16 \<Rightarrow> u32 \<Rightarrow> bytes \<Rightarrow> u8 \<Rightarrow> bytes \<Rightarrow> u32 \<Rightarrow>
   session \<Rightarrow> 'w \<Rightarrow> (secp_status \<times> abort \<times> session) \<times> 'w" where
  "fbsec_secure_write_armed g C T device_id data_id key key_id buf timeout_ms sess w =
     (if key_id_invalid key_id then ((SECP_PROTOCOL, 0, sess), w)
      else if length buf = 0 \<or> length buf > FBSEC_AEAD_MAX_PROTECTED then
        ((SECP_BUFSIZE, 0, sess), w)
      else
        let arm_kid = key_id OR 0x40
        in (case tp_read T device_id data_id [] FBSEC_AEAD_RAND_SIZE timeout_ms w of
          ((rc, server_random, ac), w1) \<Rightarrow>
            if rc \<noteq> SECP_OK then ((rc, ac, sess), w1)
            else if length server_random \<noteq> CHALLENGE_LEN_WR then ((SECP_PROTOCOL, ac, sess), w1)
            else
              let w2 = notify_salt C server_random w1
              in (case secure_port_random C FBSEC_AEAD_RAND_SIZE w2 of
                (None, w3) \<Rightarrow> ((SECP_RANDOM, ac, sess), w3)
              | (Some client_random, w3) \<Rightarrow>
                  (case fbsec_aead_seal g key (fbsec_aead_xor_nonce client_random server_random)
                          FBSEC_AEAD_DIR_WRITE_REQUEST arm_kid device_id
                          (secure_port_get_client_id C w3) data_id
                          (Some client_random) (Some server_random) buf of
                     None \<Rightarrow> ((SECP_TAG, ac, sess), w3)
                   | Some (ct, tag) \<Rightarrow>
                       (case tp_write T device_id data_id (arm_kid # client_random @ ct @ tag)
                               timeout_ms w3 of
                         ((rc, ac), w4) \<Rightarrow>
                           if rc \<noteq> SECP_OK then ((rc, ac, sess), w4)
                           else ((SECP_OK, ac,
                                  armed_session data_id arm_kid client_random server_random),
                                 w4))))))"

section \<open>Polls\<close>

text \<open>The result of a read poll: status, plaintext, tag, abort code, session.\<close>

definition fbsec_secure_poll_read ::
  "gcm \<Rightarrow> 'w client_port \<Rightarrow> 'w transport \<Rightarrow> u16 \<Rightarrow> bytes \<Rightarrow> u32 \<Rightarrow> session \<Rightarrow> nat \<Rightarrow> 'w \<Rightarrow>
   (secp_status \<times> bytes \<times> bytes \<times> abort \<times> session) \<times> 'w" where
  "fbsec_secure_poll_read g C T device_id key timeout_ms sess plain_max w =
     (if \<not> se_in_use sess then ((SECP_PROTOCOL, [], [], 0, sess), w)
      else if se_counter sess \<ge> FBSEC_AEAD_KEY_USE_LIMIT then ((SECP_PROTOCOL, [], [], 0, sess), w)
      else
        let next_counter = se_counter sess + 1;
            body = ucast next_counter :: u8
        in (case tp_read T device_id (se_data_id sess) [body] POLL_BUF_LEN timeout_ms w of
          ((rc, reply, ac), w1) \<Rightarrow>
            if rc \<noteq> SECP_OK then ((rc, [], [], ac, sess), w1)
            else if length reply < 1 + FBSEC_AEAD_TAG_SIZE then ((SECP_PROTOCOL, [], [], ac, sess), w1)
            else if reply ! 0 \<noteq> body then ((SECP_PROTOCOL, [], [], ac, sess), w1)
            else
              let cipher_len = length reply - 1 - FBSEC_AEAD_TAG_SIZE
              in if cipher_len > FBSEC_AEAD_MAX_PROTECTED then
                   ((SECP_PROTOCOL, [], [], ac, sess), w1)
                 else if cipher_len > plain_max then ((SECP_BUFSIZE, [], [], ac, sess), w1)
                 else
                   (case fbsec_aead_open g key (session_build_nonce sess next_counter)
                           FBSEC_AEAD_DIR_READ_POLL_RESPONSE (se_key_id sess) device_id
                           (secure_port_get_client_id C w1) (se_data_id sess) None None
                           (slice reply 1 cipher_len)
                           (slice reply (1 + cipher_len) FBSEC_AEAD_TAG_SIZE) of
                      None \<Rightarrow> ((SECP_TAG, [], [], ac, sess), w1)
                    | Some plaintext \<Rightarrow>
                        ((SECP_OK, plaintext, slice reply (1 + cipher_len) FBSEC_AEAD_TAG_SIZE, ac,
                          sess\<lparr>se_counter := next_counter\<rparr>), w1))))"

definition fbsec_secure_poll_write ::
  "gcm \<Rightarrow> 'w client_port \<Rightarrow> 'w transport \<Rightarrow> u16 \<Rightarrow> bytes \<Rightarrow> u32 \<Rightarrow> session \<Rightarrow> bytes \<Rightarrow> 'w \<Rightarrow>
   (secp_status \<times> bytes \<times> abort \<times> session) \<times> 'w" where
  "fbsec_secure_poll_write g C T device_id key timeout_ms sess plain w =
     (if \<not> se_in_use sess then ((SECP_PROTOCOL, [], 0, sess), w)
      else if length plain = 0 \<or> length plain > FBSEC_AEAD_MAX_PROTECTED then
        ((SECP_BUFSIZE, [], 0, sess), w)
      else if se_counter sess \<ge> FBSEC_AEAD_KEY_USE_LIMIT then ((SECP_PROTOCOL, [], 0, sess), w)
      else
        let next_counter = se_counter sess + 1
        in (case fbsec_aead_seal g key (session_build_nonce sess next_counter)
                   FBSEC_AEAD_DIR_WRITE_POLL_REQUEST (se_key_id sess) device_id
                   (secure_port_get_client_id C w) (se_data_id sess) None None plain of
              None \<Rightarrow> ((SECP_TAG, [], 0, sess), w)
            | Some (ct, tag) \<Rightarrow>
                (case tp_write T device_id (se_data_id sess) (ucast next_counter # ct @ tag)
                        timeout_ms w of
                  ((rc, ac), w1) \<Rightarrow>
                    if rc \<noteq> SECP_OK then ((rc, [], ac, sess), w1)
                    else ((SECP_OK, tag, ac, sess\<lparr>se_counter := next_counter\<rparr>), w1))))"

section \<open>Lemmas\<close>

lemma key_id_valid_base: "\<not> key_id_invalid kid \<Longrightarrow> FBSEC_AEAD_KEYID_BASE kid \<noteq> 0"
  by (simp add: key_id_invalid_def)

lemma key_id_valid_reserved: "\<not> key_id_invalid kid \<Longrightarrow> FBSEC_AEAD_KEYID_RESERVED kid = 0"
  by (simp add: key_id_invalid_def)

lemma arm_kid_simps [simp]:
  "FBSEC_AEAD_KEYID_BASE (kid OR 0x40) = FBSEC_AEAD_KEYID_BASE kid"
  "FBSEC_AEAD_KEYID_RESERVED (kid OR 0x40) = FBSEC_AEAD_KEYID_RESERVED kid"
  "FBSEC_AEAD_KEYID_IS_CYCLIC (kid OR 0x40)"
  "FBSEC_AEAD_KEYID_ENCRYPT (kid OR 0x40) = FBSEC_AEAD_KEYID_ENCRYPT kid"
proof -
  have "(kid OR 0x40) AND 0x0F = kid AND 0x0F" "(kid OR 0x40) AND 0x40 = 0x40"
    "(kid OR 0x40) AND 0x80 = kid AND 0x80" "drop_bit 4 (kid OR 0x40) AND 3 = drop_bit 4 kid AND 3"
    by (simp_all add: bit.conj_disj_distrib2 drop_bit_or)
  then show "FBSEC_AEAD_KEYID_BASE (kid OR 0x40) = FBSEC_AEAD_KEYID_BASE kid"
    "FBSEC_AEAD_KEYID_RESERVED (kid OR 0x40) = FBSEC_AEAD_KEYID_RESERVED kid"
    "FBSEC_AEAD_KEYID_IS_CYCLIC (kid OR 0x40)"
    "FBSEC_AEAD_KEYID_ENCRYPT (kid OR 0x40) = FBSEC_AEAD_KEYID_ENCRYPT kid"
    by (simp_all add: FBSEC_AEAD_KEYID_BASE_def FBSEC_AEAD_KEYID_RESERVED_def
        FBSEC_AEAD_KEYID_IS_CYCLIC_def FBSEC_AEAD_KEYID_ENCRYPT_def)
qed

end
