(* ===== verification/Secure_Link.thy ===== *)
theory Secure_Link
  imports Secure_Od_Dispatch Secure_Proto
begin

text \<open>
  The client engine of \<open>Secure_Proto\<close> against the server of
  \<open>Secure_Od_Dispatch\<close>. \<open>sod_link\<close> is the contract of the carrier: every
  request reaches \<open>fbsec_sod_dispatch\<close> once, unchanged, and the status comes
  back; the world is the pair of the server state and the client's own state.
  Over it, a secure read returns the plaintext the server's hook produced, a
  secure write hands the hook exactly the client's bytes, and polls keep both
  session records in step.
\<close>

section \<open>The carrier contract\<close>

type_synonym ('h, 'c) link_world = "'h sod \<times> 'c"

definition link_reply :: "nat \<Rightarrow> sod_status \<Rightarrow> secp_status \<times> bytes \<times> abort" where
  "link_reply buf_size st =
     (case st of
        SOD_OK r \<Rightarrow> if length r > buf_size then (SECP_BUFSIZE, [], 0) else (SECP_OK, r, 0)
      | SOD_DEFER \<Rightarrow> (SECP_OK, [], 0)
      | SOD_ABORT ac \<Rightarrow> (SECP_ABORT, [], ac)
      | SOD_NOT_HANDLED \<Rightarrow> (SECP_ABORT, [], FBSEC_ABORT_NO_OBJECT))"

definition sod_link :: "gcm \<Rightarrow> 'h port \<Rightarrow> u16 \<Rightarrow> nat \<Rightarrow> ('h, 'c) link_world transport" where
  "sod_link g P client_dev reply_max = \<lparr>
     tp_read = (\<lambda>dev d body buf_size t (s, x).
       case fbsec_sod_dispatch g P client_dev d body reply_max s of
         (st, s') \<Rightarrow> (link_reply buf_size st, (s', x))),
     tp_write = (\<lambda>dev d b t (s, x).
       case fbsec_sod_dispatch g P client_dev d b reply_max s of
         (st, s') \<Rightarrow>
           ((case link_reply (length b) st of (rc, _, ac) \<Rightarrow> (rc, ac)), (s', x)))\<rparr>"

text \<open>The client's hooks touch only the client's part of the world and fill the buffer.\<close>

definition client_ok :: "('h, 'c) link_world client_port \<Rightarrow> u16 \<Rightarrow> bool" where
  "client_ok C c \<longleftrightarrow>
     (\<forall>n s x. fst (snd (secure_port_random C n (s, x))) = s \<and>
        (\<forall>b. fst (secure_port_random C n (s, x)) = Some b \<longrightarrow> length b = n)) \<and>
     (\<forall>w. secure_port_get_client_id C w = c) \<and>
     (\<forall>cb b s x. salt_cb C = Some cb \<longrightarrow> fst (cb b (s, x)) = s)"

text \<open>
  The server's host: a fixed identifier, a clock that only the host moves, and
  hooks for reads and randomness that leave the key store alone.
\<close>

definition host_ok :: "'h port \<Rightarrow> u16 \<Rightarrow> bool" where
  "host_ok P dev \<longleftrightarrow> port_ok P \<and>
     (\<forall>s. port_get_device_id P s = dev) \<and>
     (\<forall>s s'. host s = host s' \<longrightarrow> port_get_time_ms P s = port_get_time_ms P s') \<and>
     (\<forall>d n s. sod_keys (snd (port_read_before P d n s)) = sod_keys s \<and>
              key_present (snd (port_read_before P d n s)) = key_present s) \<and>
     (\<forall>n s. sod_keys (snd (port_random P n s)) = sod_keys s \<and>
            key_present (snd (port_random P n s)) = key_present s)"

lemma host_ok_port_ok: "host_ok P dev \<Longrightarrow> port_ok P"
  by (simp add: host_ok_def)

lemma host_ok_device [simp]: "host_ok P dev \<Longrightarrow> port_get_device_id P s = dev"
  by (simp add: host_ok_def)

lemma host_ok_time: "host_ok P dev \<Longrightarrow> host s = host s' \<Longrightarrow> port_get_time_ms P s = port_get_time_ms P s'"
  unfolding host_ok_def by blast

lemma host_ok_get_key_read:
  "host_ok P dev \<Longrightarrow> port_read_before P d n s = (r, s') \<Longrightarrow> get_key s' k = get_key s k"
proof -
  assume "host_ok P dev" and r: "port_read_before P d n s = (r, s')"
  then have "sod_keys (snd (port_read_before P d n s)) = sod_keys s \<and>
      key_present (snd (port_read_before P d n s)) = key_present s"
    unfolding host_ok_def by blast
  then show ?thesis by (simp add: r get_key_def fbsec_sod_has_key_def)
qed

lemma host_ok_get_key_random:
  "host_ok P dev \<Longrightarrow> port_random P n s = (r, s') \<Longrightarrow> get_key s' k = get_key s k"
proof -
  assume "host_ok P dev" and r: "port_random P n s = (r, s')"
  then have "sod_keys (snd (port_random P n s)) = sod_keys s \<and>
      key_present (snd (port_random P n s)) = key_present s"
    unfolding host_ok_def by blast
  then show ?thesis by (simp add: r get_key_def fbsec_sod_has_key_def)
qed

lemma client_ok_random:
  "client_ok C c \<Longrightarrow> secure_port_random C n (s, x) = (r, w) \<Longrightarrow> fst w = s"
  unfolding client_ok_def by (metis snd_conv)

lemma client_ok_random_length:
  "client_ok C c \<Longrightarrow> secure_port_random C n (s, x) = (Some b, w) \<Longrightarrow> length b = n"
  unfolding client_ok_def by (metis fst_conv)

lemma client_ok_id [simp]: "client_ok C c \<Longrightarrow> secure_port_get_client_id C w = c"
  unfolding client_ok_def by blast

lemma client_ok_salt:
  assumes "client_ok C c"
  shows "fst (notify_salt C b w) = fst w"
proof (cases "salt_cb C")
  case (Some cb)
  then have "fst (cb b (fst w, snd w)) = fst w"
    using assms unfolding client_ok_def by blast
  then show ?thesis by (simp add: notify_salt_def Some)
qed (simp add: notify_salt_def)

lemma tp_write_link [simp]:
  "tp_write (sod_link g P c rm) dev d b t w =
     (case fbsec_sod_dispatch g P c d b rm (fst w) of
        (st, s') \<Rightarrow> ((fst (link_reply (length b) st), snd (snd (link_reply (length b) st))), (s', snd w)))"
  by (cases w) (auto simp: sod_link_def split: prod.splits)

lemma tp_read_link [simp]:
  "tp_read (sod_link g P c rm) dev d b n t w =
     (case fbsec_sod_dispatch g P c d b rm (fst w) of
        (st, s') \<Rightarrow> (link_reply n st, (s', snd w)))"
  by (cases w) (auto simp: sod_link_def split: prod.splits)

lemma fresh_same_host:
  assumes "host_ok P dev" "host s' = host s"
  shows "slot_is_fresh P s' (port_get_time_ms P s)" "session_is_fresh P s' (port_get_time_ms P s)"
  using host_ok_time [OF assms]
  by (simp_all add: slot_is_fresh_def session_is_fresh_def slot_is_fresh_for_def)

section \<open>Read: what the server must allow\<close>

text \<open>The conditions under which the server serves a read of \<open>d\<close> under \<open>kid\<close> with data \<open>pt\<close>.\<close>

definition read_allowed ::
  "'h port \<Rightarrow> u16 \<Rightarrow> u32 \<Rightarrow> u8 \<Rightarrow> bytes \<Rightarrow> bytes \<Rightarrow> 'h sod \<Rightarrow> nat \<Rightarrow> bytes \<Rightarrow> 'h sod \<Rightarrow> bool" where
  "read_allowed P c d kid key pt s i sr s2 \<longleftrightarrow>
     (let e = registry s ! i; kb = FBSEC_AEAD_KEYID_BASE kid; slot = read_slot s ! i in
      find_index s d = Some i \<and>
      ent_access_flags e AND FBSEC_SOD_ACCESS_SECURE_RO \<noteq> 0 \<and>
      (ent_key_id e = FBSEC_SOD_KEY_NONE \<or> kb = ent_key_id e) \<and>
      get_key s kb = Some key \<and>
      port_access_allowed P SOD_OP_READ d s \<and> port_role_allowed P SOD_OP_READ kb d s \<and>
      \<not> slot_held_by_other P s (rs_in_use slot) (rs_cyclic slot) (rs_client_dev slot)
          (rs_armed_at slot) c \<and>
      length pt = unat (ent_data_len e) \<and>
      (\<exists>s1. port_read_before P d (unat (ent_data_len e)) s = ((FBSEC_ABORT_NONE, pt), s1) \<and>
            port_random P FBSEC_AEAD_RAND_SIZE s1 = (Some sr, s2)))"

lemma arm_read_succeeds:
  assumes g: "gcm_ok g" and h: "host_ok P dev" and wf: "sod_wf s"
    and al: "read_allowed P c d kid key pt s i sr s2"
    and kid: "FBSEC_AEAD_KEYID_RESERVED kid = 0" and cr: "length cr = FBSEC_AEAD_RAND_SIZE"
  obtains ct tag where
    "fbsec_aead_seal g key (fbsec_aead_xor_nonce cr sr) FBSEC_AEAD_DIR_READ_RESPONSE kid dev c d
       (Some cr) (Some sr) pt = Some (ct, tag)"
    "length sr = FBSEC_AEAD_RAND_SIZE" "length ct = length pt" "length tag = FBSEC_AEAD_TAG_SIZE"
    "fbsec_sod_dispatch g P c d (kid # cr) rm s =
       (SOD_DEFER, upd_read i (\<lambda>_. armed_read_slot P s2 c kid cr sr ct tag) s2)"
    "i < 8" "sod_wf s2" "registry s2 = registry s" "host_ok P dev"
proof -
  let ?e = "registry s ! i"
  let ?kb = "FBSEC_AEAD_KEYID_BASE kid"
  have al': "find_index s d = Some i" "ent_access_flags ?e AND FBSEC_SOD_ACCESS_SECURE_RO \<noteq> 0"
    "\<not> (ent_key_id ?e \<noteq> FBSEC_SOD_KEY_NONE \<and> ?kb \<noteq> ent_key_id ?e)" "get_key s ?kb = Some key"
    "port_access_allowed P SOD_OP_READ d s" "port_role_allowed P SOD_OP_READ ?kb d s"
    "\<not> slot_held_by_other P s (rs_in_use (read_slot s ! i)) (rs_cyclic (read_slot s ! i))
        (rs_client_dev (read_slot s ! i)) (rs_armed_at (read_slot s ! i)) c"
    "length pt = unat (ent_data_len ?e)"
    using al by (auto simp: read_allowed_def Let_def)
  obtain s1 where rb: "port_read_before P d (unat (ent_data_len ?e)) s = ((0, pt), s1)"
    and rnd: "port_random P FBSEC_AEAD_RAND_SIZE s1 = (Some sr, s2)"
    using al by (auto simp: read_allowed_def Let_def)
  have d: "ent_data_id ?e = d" using find_index_SomeD(2) [OF al'(1)] .
  have i: "i < 8" using sod_wf_find_index [OF wf al'(1)] .
  note pok = host_ok_port_ok [OF h]
  have ss: "same_slots s s2"
    using port_read_before_frame [OF pok rb] port_random_frame [OF pok rnd] same_slots_trans by blast
  have wf2: "sod_wf s2" using same_slots_wf [OF wf ss] .
  have sr: "length sr = FBSEC_AEAD_RAND_SIZE" using port_random_length [OF pok rnd] .
  define s3 where "s3 = upd_read i (\<lambda>_. read_state_zero) s2"
  have key2: "get_key s2 ?kb = Some key"
    using al'(4) host_ok_get_key_read [OF h rb] host_ok_get_key_random [OF h rnd] by simp
  then have k: "sod_keys s3 ! unat ?kb = key" "length key = FBSEC_AEAD_KEY_SIZE"
    using get_key_length [of s2 ?kb key] wf2
    by (auto simp: s3_def get_key_def sod_wf_def split: if_splits)
  have "length pt \<le> FBSEC_AEAD_MAX_PROTECTED"
    using sod_wf_data_len [OF wf al'(1)] al'(8) by simp
  then obtain ct tag where seal: "fbsec_aead_seal g key (fbsec_aead_xor_nonce cr sr)
      FBSEC_AEAD_DIR_READ_RESPONSE kid dev c d (Some cr) (Some sr) pt = Some (ct, tag)"
    "length ct = length pt" "length tag = FBSEC_AEAD_TAG_SIZE"
    using seal_succeeds [OF g k(2) length_xor_nonce] by metis
  have t: "port_get_time_ms P s3 = port_get_time_ms P s2"
    by (rule host_ok_time [OF h]) (simp add: s3_def)
  have slot: "armed_read_slot P s3 c kid cr sr ct tag = armed_read_slot P s2 c kid cr sr ct tag"
    by (simp add: armed_read_slot_def t)
  have len: "length (kid # cr) = READ_CHALLENGE_LEN" using cr by simp
  have sl: "slice (kid # cr) 1 FBSEC_AEAD_RAND_SIZE = cr" using cr by (simp add: slice_def)
  have arm: "arm_read_response g P i ?e c (kid # cr) s =
      (SOD_DEFER, upd_read i (\<lambda>_. armed_read_slot P s3 c kid cr sr ct tag) s3)"
    unfolding arm_read_response_def Let_def
    using kid al' rb rnd k seal(1) h sl
    by (simp add: d s3_def)
  have "upd_read i f s3 = upd_read i f s2" if "\<And>x y. f x = f y" for f
    using that [of "read_state_zero" "read_slot s2 ! i"] i wf2
    by (simp add: s3_def upd_read_def sod_wf_def)
  then have upd: "upd_read i (\<lambda>_. armed_read_slot P s3 c kid cr sr ct tag) s3 =
      upd_read i (\<lambda>_. armed_read_slot P s2 c kid cr sr ct tag) s2"
    by (simp add: slot)
  have "fbsec_sod_dispatch g P c d (kid # cr) rm s =
      (SOD_DEFER, upd_read i (\<lambda>_. armed_read_slot P s2 c kid cr sr ct tag) s2)"
    unfolding fbsec_sod_dispatch_def Let_def
    using al'(1,2) arm upd cr by simp
  then show ?thesis
    using that seal sr i wf2 ss h by (simp add: same_slots_def)
qed

lemma armed_read_slot_simps [simp]:
  "rs_in_use (armed_read_slot P s c kid cr sr ct tag)"
  "rs_cyclic (armed_read_slot P s c kid cr sr ct tag) = FBSEC_AEAD_KEYID_IS_CYCLIC kid"
  "rs_client_dev (armed_read_slot P s c kid cr sr ct tag) = c"
  "rs_armed_at (armed_read_slot P s c kid cr sr ct tag) = port_get_time_ms P s"
  "rs_prepared (armed_read_slot P s c kid cr sr ct tag) = sr @ ct @ tag"
  "rs_counter (armed_read_slot P s c kid cr sr ct tag) = 0"
  "FBSEC_AEAD_KEYID_IS_CYCLIC kid \<Longrightarrow> rs_key_id (armed_read_slot P s c kid cr sr ct tag) = kid"
  "FBSEC_AEAD_KEYID_IS_CYCLIC kid \<Longrightarrow>
     rs_nonce_base (armed_read_slot P s c kid cr sr ct tag) = fbsec_aead_xor_nonce cr sr"
  by (simp_all add: armed_read_slot_def Let_def)

text \<open>What Pass 2 leaves: the session, or nothing.\<close>

definition after_delivery :: "'h port \<Rightarrow> nat \<Rightarrow> 'h sod \<Rightarrow> 'h sod" where
  "after_delivery P i s =
     (if rs_cyclic (read_slot s ! i)
      then upd_read i (\<lambda>sl. sl\<lparr>rs_prepared := [], rs_armed_at := port_get_time_ms P s\<rparr>) s
      else upd_read i (\<lambda>sl. sl\<lparr>rs_in_use := False\<rparr>) s)"

lemma deliver_dispatch:
  assumes "find_index s d = Some i" "ent_access_flags (registry s ! i) AND FBSEC_SOD_ACCESS_SECURE_RO \<noteq> 0"
    "rs_in_use (read_slot s ! i)" "rs_prepared (read_slot s ! i) = resp" "resp \<noteq> []"
    "length resp \<le> rm" "slot_is_fresh P s (rs_armed_at (read_slot s ! i))"
  shows "fbsec_sod_dispatch g P c d [] rm s = (SOD_OK resp, after_delivery P i s)"
  using assms
  by (simp add: fbsec_sod_dispatch_def Let_def deliver_prepared_def after_delivery_def)

lemma slice_response:
  assumes "length sr = FBSEC_AEAD_RAND_SIZE" "length tag = FBSEC_AEAD_TAG_SIZE"
  shows "slice (sr @ ct @ tag) 0 FBSEC_AEAD_RAND_SIZE = sr"
    "slice (sr @ ct @ tag) FBSEC_AEAD_RAND_SIZE (length ct) = ct"
    "slice (sr @ ct @ tag) (FBSEC_AEAD_RAND_SIZE + length ct) FBSEC_AEAD_TAG_SIZE = tag"
  using assms by (simp_all add: slice_def)

text \<open>Both passes of a read, from the server's side.\<close>

lemma read_exchange:
  assumes g: "gcm_ok g" and h: "host_ok P dev" and wf: "sod_wf s"
    and al: "read_allowed P c d kid key pt s i sr s2"
    and kid: "FBSEC_AEAD_KEYID_RESERVED kid = 0" and cr: "length cr = FBSEC_AEAD_RAND_SIZE"
    and rm: "READ_RESPONSE_MAX \<le> rm"
  obtains ct tag sA where
    "fbsec_aead_open g key (fbsec_aead_xor_nonce cr sr) FBSEC_AEAD_DIR_READ_RESPONSE kid dev c d
       (Some cr) (Some sr) ct tag = Some pt"
    "length sr = FBSEC_AEAD_RAND_SIZE" "length ct = length pt" "length tag = FBSEC_AEAD_TAG_SIZE"
    "length pt \<le> FBSEC_AEAD_MAX_PROTECTED"
    "sA = upd_read i (\<lambda>_. armed_read_slot P s2 c kid cr sr ct tag) s2"
    "fbsec_sod_dispatch g P c d (kid # cr) rm s = (SOD_DEFER, sA)"
    "fbsec_sod_dispatch g P c d [] rm sA = (SOD_OK (sr @ ct @ tag), after_delivery P i sA)"
    "i < 8" "sod_wf s2" "registry s2 = registry s"
proof -
  obtain ct tag where
    seal: "fbsec_aead_seal g key (fbsec_aead_xor_nonce cr sr) FBSEC_AEAD_DIR_READ_RESPONSE kid dev c d
       (Some cr) (Some sr) pt = Some (ct, tag)" and
    len: "length sr = FBSEC_AEAD_RAND_SIZE" "length ct = length pt" "length tag = FBSEC_AEAD_TAG_SIZE" and
    p1: "fbsec_sod_dispatch g P c d (kid # cr) rm s =
       (SOD_DEFER, upd_read i (\<lambda>_. armed_read_slot P s2 c kid cr sr ct tag) s2)" and
    i: "i < 8" and wf2: "sod_wf s2" and reg: "registry s2 = registry s"
    by (rule arm_read_succeeds [OF g h wf al kid cr])
  define sA where "sA = upd_read i (\<lambda>_. armed_read_slot P s2 c kid cr sr ct tag) s2"
  have al': "find_index s d = Some i" "ent_access_flags (registry s ! i) AND FBSEC_SOD_ACCESS_SECURE_RO \<noteq> 0"
    "get_key s (FBSEC_AEAD_KEYID_BASE kid) = Some key" "length pt = unat (ent_data_len (registry s ! i))"
    using al by (auto simp: read_allowed_def Let_def)
  have pt: "length pt \<le> FBSEC_AEAD_MAX_PROTECTED" using sod_wf_data_len [OF wf al'(1)] al'(4) by simp
  have slot: "read_slot sA ! i = armed_read_slot P s2 c kid cr sr ct tag"
    using i wf2 by (simp add: sA_def sod_wf_def)
  have regA: "registry sA = registry s" by (simp add: sA_def reg)
  have "fbsec_sod_dispatch g P c d [] rm sA = (SOD_OK (sr @ ct @ tag), after_delivery P i sA)"
  proof (rule deliver_dispatch)
    show "find_index sA d = Some i" using al'(1) find_index_cong [OF regA] by simp
    show "slot_is_fresh P sA (rs_armed_at (read_slot sA ! i))"
      using fresh_same_host(1) [OF h, of sA s2] by (simp add: slot) (simp add: sA_def)
  qed (use al' len pt rm regA slot in auto)
  moreover have "fbsec_aead_open g key (fbsec_aead_xor_nonce cr sr) FBSEC_AEAD_DIR_READ_RESPONSE kid
      dev c d (Some cr) (Some sr) ct tag = Some pt"
  proof -
    have "keys_wf s" using wf by (simp add: sod_wf_def)
    then have "length key = FBSEC_AEAD_KEY_SIZE" using get_key_length al'(3) by blast
    then show ?thesis using seal open_iff_seal [OF g _ length_xor_nonce len(3)] by blast
  qed
  ultimately show ?thesis using that [of ct tag sA] len pt p1 i wf2 reg sA_def by blast
qed

section \<open>Secure read, end to end\<close>

lemma secure_read_end_to_end:
  assumes g: "gcm_ok g" and h: "host_ok P dev" and cl: "client_ok C c" and wf: "sod_wf s"
    and al: "read_allowed P c d kid key pt s i sr s2"
    and kid: "\<not> key_id_invalid kid"
    and rnd: "secure_port_random C FBSEC_AEAD_RAND_SIZE (s, x) = (Some cr, w1)"
    and rm: "READ_RESPONSE_MAX \<le> rm" and buf: "length pt \<le> buf_size"
  shows "\<exists>s' x'. fbsec_secure_read g C (sod_link g P c rm) dev d key kid buf_size t (s, x)
      = ((SECP_OK, pt, 0), (s', x'))
    \<and> rs_prepared (read_slot s' ! i) = (if FBSEC_AEAD_KEYID_IS_CYCLIC kid then []
         else rs_prepared (read_slot s' ! i))
    \<and> rs_in_use (read_slot s' ! i) = FBSEC_AEAD_KEYID_IS_CYCLIC kid"
proof -
  have cr: "length cr = FBSEC_AEAD_RAND_SIZE" using client_ok_random_length [OF cl rnd] .
  have w1: "fst w1 = s" using client_ok_random [OF cl rnd] .
  obtain ct tag sA where
    opn: "fbsec_aead_open g key (fbsec_aead_xor_nonce cr sr) FBSEC_AEAD_DIR_READ_RESPONSE kid dev c d
       (Some cr) (Some sr) ct tag = Some pt" and
    len: "length sr = FBSEC_AEAD_RAND_SIZE" "length ct = length pt" "length tag = FBSEC_AEAD_TAG_SIZE"
      "length pt \<le> FBSEC_AEAD_MAX_PROTECTED" and
    sA: "sA = upd_read i (\<lambda>_. armed_read_slot P s2 c kid cr sr ct tag) s2" and
    p1: "fbsec_sod_dispatch g P c d (kid # cr) rm s = (SOD_DEFER, sA)" and
    p2: "fbsec_sod_dispatch g P c d [] rm sA = (SOD_OK (sr @ ct @ tag), after_delivery P i sA)" and
    i: "i < 8" and wf2: "sod_wf s2"
    by (rule read_exchange [OF g h wf al key_id_valid_reserved [OF kid] cr rm])
  have sl: "slice (sr @ ct @ tag) 0 FBSEC_AEAD_RAND_SIZE = sr"
    "slice (sr @ ct @ tag) FBSEC_AEAD_RAND_SIZE (length pt) = ct"
    "slice (sr @ ct @ tag) (FBSEC_AEAD_RAND_SIZE + length pt) FBSEC_AEAD_TAG_SIZE = tag"
    using slice_response [OF len(1,3), of ct] len(2) by simp_all
  have slot: "read_slot sA ! i = armed_read_slot P s2 c kid cr sr ct tag" "i < length (read_slot sA)"
    using i wf2 by (simp_all add: sA sod_wf_def)
  have "fbsec_secure_read g C (sod_link g P c rm) dev d key kid buf_size t (s, x)
      = ((SECP_OK, pt, 0), (after_delivery P i sA, snd (notify_salt C cr w1)))"
    using kid rnd p1 p2 sl opn len buf w1
    by (simp add: fbsec_secure_read_def Let_def client_ok_salt [OF cl] client_ok_id [OF cl]
        link_reply_def)
  then show ?thesis using slot by (auto simp: after_delivery_def)
qed

section \<open>Secure write, end to end\<close>

text \<open>The state after Pass 1 of a single-shot write that drew \<open>sr\<close>.\<close>

definition write_armed_state :: "'h port \<Rightarrow> nat \<Rightarrow> u16 \<Rightarrow> bytes \<Rightarrow> 'h sod \<Rightarrow> 'h sod" where
  "write_armed_state P i c sr s1 = upd_write i (\<lambda>_. armed_write_slot P s1 c 0 False False sr) s1"

definition write_allowed ::
  "'h port \<Rightarrow> u16 \<Rightarrow> u32 \<Rightarrow> u8 \<Rightarrow> bytes \<Rightarrow> bytes \<Rightarrow> 'h sod \<Rightarrow> nat \<Rightarrow> bytes \<Rightarrow> 'h sod \<Rightarrow> bool" where
  "write_allowed P c d kid key buf s i sr s1 \<longleftrightarrow>
     (let e = registry s ! i; kb = FBSEC_AEAD_KEYID_BASE kid;
          slot = write_slot s1 ! i; rslot = read_slot s ! i in
      find_index s d = Some i \<and>
      ent_access_flags e AND FBSEC_SOD_ACCESS_SECURE_WO \<noteq> 0 \<and>
      \<not> (ent_access_flags e AND FBSEC_SOD_ACCESS_SECURE_RO \<noteq> 0 \<and> rs_in_use rslot \<and>
         rs_prepared rslot \<noteq> [] \<and> slot_is_fresh P s (rs_armed_at rslot)) \<and>
      (ent_key_id e = FBSEC_SOD_KEY_NONE \<or> kb = ent_key_id e) \<and>
      get_key s kb = Some key \<and>
      port_access_allowed P SOD_OP_WRITE d s \<and>
      port_role_allowed P SOD_OP_WRITE kb d (write_armed_state P i c sr s1) \<and>
      port_random P FBSEC_AEAD_RAND_SIZE s = (Some sr, s1) \<and>
      \<not> slot_held_by_other P s1 (ws_in_use slot) (ws_cyclic slot) (ws_client_dev slot)
          (ws_armed_at slot) c \<and>
      length buf = unat (ent_data_len e))"

lemma armed_write_slot_simps [simp]:
  "ws_in_use (armed_write_slot P s c kid hk cy sr)"
  "ws_cyclic (armed_write_slot P s c kid hk cy sr) = cy"
  "ws_client_dev (armed_write_slot P s c kid hk cy sr) = c"
  "ws_armed_at (armed_write_slot P s c kid hk cy sr) = port_get_time_ms P s"
  "ws_server_random (armed_write_slot P s c kid hk cy sr) = sr"
  "ws_counter (armed_write_slot P s c kid hk cy sr) = 0"
  by (simp_all add: armed_write_slot_def)

lemma write_arm_dispatch:
  assumes "write_allowed P c d kid key buf s i sr s1" "FBSEC_AEAD_RAND_SIZE \<le> rm"
  shows "fbsec_sod_dispatch g P c d [] rm s = (SOD_OK sr, write_armed_state P i c sr s1)"
proof -
  have "find_index s d = Some i" using assms by (simp add: write_allowed_def Let_def)
  from find_index_SomeD(2) [OF this] have d: "ent_data_id (registry s ! i) = d" .
  show ?thesis
    using assms
    by (auto simp: write_allowed_def Let_def fbsec_sod_dispatch_def dispatch_write_def d
        arm_write_challenge_def write_armed_state_def)
qed

lemma write_dispatch_pass2:
  assumes "find_index s d = Some i" "ent_access_flags (registry s ! i) AND FBSEC_SOD_ACCESS_SECURE_WO \<noteq> 0"
    "length req = 1 + FBSEC_AEAD_RAND_SIZE + unat (ent_data_len (registry s ! i)) + FBSEC_AEAD_TAG_SIZE"
  shows "fbsec_sod_dispatch g P c d req rm s = verify_and_apply_write g P i (registry s ! i) req s"
proof -
  have "length req \<noteq> 0" "length req \<noteq> 1" "length req \<noteq> READ_CHALLENGE_LEN"
    "length req \<noteq> 1 + unat (ent_data_len (registry s ! i)) + FBSEC_AEAD_TAG_SIZE"
    using assms(3) by simp_all
  with assms(1,2) show ?thesis
    by (simp add: fbsec_sod_dispatch_def Let_def dispatch_write_def)
qed

lemma slice_write_frame:
  assumes "length cr = FBSEC_AEAD_RAND_SIZE" "length tag = FBSEC_AEAD_TAG_SIZE"
  shows "slice (kid # cr @ ct @ tag) 1 FBSEC_AEAD_RAND_SIZE = cr"
    "slice (kid # cr @ ct @ tag) (1 + FBSEC_AEAD_RAND_SIZE) (length ct) = ct"
    "slice (kid # cr @ ct @ tag) (1 + FBSEC_AEAD_RAND_SIZE + length ct) FBSEC_AEAD_TAG_SIZE = tag"
  using assms by (simp_all add: slice_def drop_Cons')

text \<open>
  The frame the client seals for an armed write opens at the server: whatever the
  clock and the key store did in between left them as they were.
\<close>

lemma write_frame_opens:
  assumes g: "gcm_ok g" and pok: "port_ok P" and wf: "sod_wf s"
    and al: "write_allowed P c d kid key buf s i sr s1"
    and kid: "\<not> key_id_invalid kid" and cr: "length cr = FBSEC_AEAD_RAND_SIZE"
    and sA: "sA = write_armed_state P i c sr s1"
    and same: "\<And>f. port_get_device_id P (upd_write i f sA) = dev" "port_get_time_ms P sA = port_get_time_ms P s1"
      "get_key s1 (FBSEC_AEAD_KEYID_BASE kid) = get_key s (FBSEC_AEAD_KEYID_BASE kid)"
  shows "\<exists>ct tag. fbsec_aead_seal g key (fbsec_aead_xor_nonce cr sr) FBSEC_AEAD_DIR_WRITE_REQUEST
      kid dev c d (Some cr) (Some sr) buf = Some (ct, tag) \<and>
    length ct = length buf \<and> length tag = FBSEC_AEAD_TAG_SIZE \<and>
    (\<forall>rm. fbsec_sod_dispatch g P c d (kid # cr @ ct @ tag) rm sA =
      (case port_write_after P d buf (write_hook_state i (kid # cr @ ct @ tag) sA) of
         (rc, s3) \<Rightarrow>
           if rc \<noteq> FBSEC_ABORT_NONE then (SOD_ABORT rc, release_write i s3)
           else if FBSEC_AEAD_KEYID_IS_CYCLIC kid
                then (SOD_OK [], start_write_session P i (kid # cr @ ct @ tag) s3)
           else (SOD_OK [], release_write i s3)))"
proof -
  let ?e = "registry s ! i"
  let ?kb = "FBSEC_AEAD_KEYID_BASE kid"
  have al': "find_index s d = Some i" "ent_access_flags ?e AND FBSEC_SOD_ACCESS_SECURE_WO \<noteq> 0"
    "ent_key_id ?e = FBSEC_SOD_KEY_NONE \<or> ?kb = ent_key_id ?e" "get_key s ?kb = Some key"
    "port_role_allowed P SOD_OP_WRITE ?kb d sA" "port_random P FBSEC_AEAD_RAND_SIZE s = (Some sr, s1)"
    "length buf = unat (ent_data_len ?e)"
    using al by (auto simp: write_allowed_def Let_def sA)
  have i: "i < 8" using sod_wf_find_index [OF wf al'(1)] .
  have d: "ent_data_id ?e = d" using find_index_SomeD(2) [OF al'(1)] .
  have ss: "same_slots s s1" using port_random_frame [OF pok al'(6)] .
  have wf1: "sod_wf s1" using same_slots_wf [OF wf ss] .
  have regA: "registry sA = registry s" using ss by (simp add: sA write_armed_state_def same_slots_def)
  have slot: "write_slot sA ! i = armed_write_slot P s1 c 0 False False sr"
    using i wf1 by (simp add: sA write_armed_state_def sod_wf_def)
  have keyA: "get_key sA ?kb = Some key"
    using al'(4) same(3) by (simp add: sA write_armed_state_def)
  have key: "length key = FBSEC_AEAD_KEY_SIZE"
    using get_key_length [of s ?kb key] wf al'(4) by (simp add: sod_wf_def)
  have buflen: "length buf \<le> FBSEC_AEAD_MAX_PROTECTED" using sod_wf_data_len [OF wf al'(1)] al'(7) by simp
  obtain ct tag where seal: "fbsec_aead_seal g key (fbsec_aead_xor_nonce cr sr)
      FBSEC_AEAD_DIR_WRITE_REQUEST kid dev c d (Some cr) (Some sr) buf = Some (ct, tag)"
    "length ct = length buf" "length tag = FBSEC_AEAD_TAG_SIZE"
    by (rule seal_succeeds [OF g key length_xor_nonce buflen])
  define frame where "frame = kid # cr @ ct @ tag"
  have opn: "fbsec_aead_open g key (fbsec_aead_xor_nonce cr sr) FBSEC_AEAD_DIR_WRITE_REQUEST kid
      dev c d (Some cr) (Some sr) ct tag = Some buf"
    using seal(1) open_iff_seal [OF g key length_xor_nonce seal(3)] by blast
  have flen: "length frame = 1 + FBSEC_AEAD_RAND_SIZE + unat (ent_data_len ?e) + FBSEC_AEAD_TAG_SIZE"
    using cr seal(2,3) al'(7) by (simp add: frame_def)
  have sl: "frame ! 0 = kid" "slice frame 1 FBSEC_AEAD_RAND_SIZE = cr"
    "slice frame (1 + FBSEC_AEAD_RAND_SIZE) (unat (ent_data_len ?e)) = ct"
    "slice frame (1 + FBSEC_AEAD_RAND_SIZE + unat (ent_data_len ?e)) FBSEC_AEAD_TAG_SIZE = tag"
    using slice_write_frame [OF cr seal(3), of kid ct] seal(2) al'(7) by (simp_all add: frame_def)
  have "slot_is_fresh P sA (ws_armed_at (write_slot sA ! i))"
    by (simp add: slot same(2) slot_is_fresh_def slot_is_fresh_for_def)
  then have opens: "write_request_opens g P i ?e frame sA buf"
    unfolding write_request_opens_def Let_def
    using slot flen sl key_id_valid_reserved [OF kid] al'(3,5) keyA opn same(1) d by simp
  have "fbsec_sod_dispatch g P c d frame rm sA =
      (case port_write_after P d buf (write_hook_state i frame sA) of
         (rc, s3) \<Rightarrow>
           if rc \<noteq> FBSEC_ABORT_NONE then (SOD_ABORT rc, release_write i s3)
           else if FBSEC_AEAD_KEYID_IS_CYCLIC kid then (SOD_OK [], start_write_session P i frame s3)
           else (SOD_OK [], release_write i s3))" for rm
    using write_dispatch_pass2 [of sA d i frame g P c rm] al'(1,2) flen regA
      find_index_cong [OF regA] by (simp add: verify_and_apply_write_opens [OF opens] d sl split: prod.split)
  then show ?thesis using seal frame_def by blast
qed

lemma secure_write_end_to_end:
  assumes g: "gcm_ok g" and h: "host_ok P dev" and cl: "client_ok C c" and wf: "sod_wf s"
    and al: "write_allowed P c d kid key buf s i sr s1"
    and kid: "\<not> key_id_invalid kid" and buf: "buf \<noteq> []"
    and rnd: "secure_port_random C FBSEC_AEAD_RAND_SIZE
               (notify_salt C sr (write_armed_state P i c sr s1, x)) = (Some cr, w3)"
    and rm: "FBSEC_AEAD_RAND_SIZE \<le> rm"
  shows "\<exists>frame rc s3 x'.
    port_write_after P d buf (write_hook_state i frame (write_armed_state P i c sr s1)) = (rc, s3)
    \<and> frame ! 0 = kid \<and> slice frame 1 FBSEC_AEAD_RAND_SIZE = cr
    \<and> fbsec_secure_write g C (sod_link g P c rm) dev d key kid buf t (s, x) =
        ((if rc = FBSEC_ABORT_NONE then SECP_OK else SECP_ABORT, rc),
         (if rc = FBSEC_ABORT_NONE \<and> FBSEC_AEAD_KEYID_IS_CYCLIC kid
          then start_write_session P i frame s3 else release_write i s3, x'))"
proof -
  define sA where "sA = write_armed_state P i c sr s1"
  note pok = host_ok_port_ok [OF h]
  have al': "find_index s d = Some i" "length buf = unat (ent_data_len (registry s ! i))"
    "port_random P FBSEC_AEAD_RAND_SIZE s = (Some sr, s1)"
    using al by (auto simp: write_allowed_def Let_def)
  have buflen: "length buf \<le> FBSEC_AEAD_MAX_PROTECTED" using sod_wf_data_len [OF wf al'(1)] al'(2) by simp
  have sr: "length sr = FBSEC_AEAD_RAND_SIZE" using port_random_length [OF pok al'(3)] .
  obtain y where ns: "notify_salt C sr (sA, x) = (sA, y)"
    using client_ok_salt [OF cl, of sr "(sA, x)"] by (cases "notify_salt C sr (sA, x)") auto
  have rnd': "secure_port_random C FBSEC_AEAD_RAND_SIZE (sA, y) = (Some cr, w3)"
    using rnd ns by (simp add: sA_def)
  note cr = client_ok_random_length [OF cl rnd'] and w3 = client_ok_random [OF cl rnd']
  have "port_get_time_ms P sA = port_get_time_ms P s1"
    by (rule host_ok_time [OF h]) (simp add: sA_def write_armed_state_def)
  then obtain ct tag where seal: "fbsec_aead_seal g key (fbsec_aead_xor_nonce cr sr)
      FBSEC_AEAD_DIR_WRITE_REQUEST kid dev c d (Some cr) (Some sr) buf = Some (ct, tag)"
    "length ct = length buf" "length tag = FBSEC_AEAD_TAG_SIZE"
    and p2: "\<forall>rm. fbsec_sod_dispatch g P c d (kid # cr @ ct @ tag) rm sA =
      (case port_write_after P d buf (write_hook_state i (kid # cr @ ct @ tag) sA) of
         (rc, s3) \<Rightarrow>
           if rc \<noteq> FBSEC_ABORT_NONE then (SOD_ABORT rc, release_write i s3)
           else if FBSEC_AEAD_KEYID_IS_CYCLIC kid
                then (SOD_OK [], start_write_session P i (kid # cr @ ct @ tag) s3)
           else (SOD_OK [], release_write i s3))"
    using write_frame_opens [OF g pok wf al kid cr sA_def] h host_ok_get_key_random [OF h al'(3)]
    by auto
  let ?frame = "kid # cr @ ct @ tag"
  obtain rc s3 where hook: "port_write_after P d buf (write_hook_state i ?frame sA) = (rc, s3)" by force
  have p1: "fbsec_sod_dispatch g P c d [] rm s = (SOD_OK sr, sA)"
    unfolding sA_def by (rule write_arm_dispatch [OF al rm])
  have "fbsec_secure_write g C (sod_link g P c rm) dev d key kid buf t (s, x) =
        ((if rc = FBSEC_ABORT_NONE then SECP_OK else SECP_ABORT, rc),
         (if rc = FBSEC_ABORT_NONE \<and> FBSEC_AEAD_KEYID_IS_CYCLIC kid
          then start_write_session P i ?frame s3 else release_write i s3, snd w3))"
    using kid buf buflen p1 sr ns rnd' seal p2 w3 cl hook
    by (simp add: fbsec_secure_write_def Let_def link_reply_def)
  then show ?thesis
    using hook slice_write_frame(1) [OF cr seal(3)] unfolding sA_def
    by (metis nth_Cons_0)
qed

lemma session_build_nonce_eq: "session_build_nonce sess n = build_session_nonce (se_nonce_base sess) n"
  by (simp add: session_build_nonce_def build_session_nonce_def)

definition read_in_sync :: "session \<Rightarrow> u16 \<Rightarrow> u32 \<Rightarrow> nat \<Rightarrow> 'h sod \<Rightarrow> bool" where
  "read_in_sync sess c d i s \<longleftrightarrow>
     (let slot = read_slot s ! i in
      se_in_use sess \<and> se_data_id sess = d \<and> find_index s d = Some i \<and>
      rs_in_use slot \<and> rs_cyclic slot \<and> rs_client_dev slot = c \<and>
      rs_key_id slot = se_key_id sess \<and> rs_nonce_base slot = se_nonce_base sess \<and>
      rs_counter slot = se_counter sess)"

definition write_in_sync :: "session \<Rightarrow> u16 \<Rightarrow> u32 \<Rightarrow> nat \<Rightarrow> 'h sod \<Rightarrow> bool" where
  "write_in_sync sess c d i s \<longleftrightarrow>
     (let slot = write_slot s ! i in
      se_in_use sess \<and> se_data_id sess = d \<and> find_index s d = Some i \<and>
      ws_in_use slot \<and> ws_cyclic slot \<and> ws_client_dev slot = c \<and>
      ws_key_id slot = se_key_id sess \<and> ws_nonce_base slot = se_nonce_base sess \<and>
      ws_counter slot = se_counter sess)"

lemma poll_check_counter_next:
  "c < FBSEC_AEAD_KEY_USE_LIMIT \<Longrightarrow> poll_check_counter c (ucast (c + 1)) = Inr (c + 1)"
  by (simp add: poll_check_counter_def not_le)

lemma slice_poll_reply:
  assumes "length tag = FBSEC_AEAD_TAG_SIZE"
  shows "slice (b # ct @ tag) 1 (length ct) = ct"
    "slice (b # ct @ tag) (1 + length ct) FBSEC_AEAD_TAG_SIZE = tag"
  using assms by (simp_all add: slice_def drop_Cons')

lemma poll_read_end_to_end:
  assumes g: "gcm_ok g" and h: "host_ok P dev" and cl: "client_ok C c" and wf: "sod_wf s"
    and sync: "read_in_sync sess c d i s"
    and ro: "ent_access_flags (registry s ! i) AND FBSEC_SOD_ACCESS_SECURE_RO \<noteq> 0"
    and fresh: "session_is_fresh P s (rs_armed_at (read_slot s ! i))"
    and budget: "se_counter sess < FBSEC_AEAD_KEY_USE_LIMIT"
    and key: "get_key s (FBSEC_AEAD_KEYID_BASE (se_key_id sess)) = Some key"
    and access: "port_access_allowed P SOD_OP_READ d s"
      "port_role_allowed P SOD_OP_READ (FBSEC_AEAD_KEYID_BASE (se_key_id sess)) d s"
    and rb: "port_read_before P d (unat (ent_data_len (registry s ! i))) s = ((FBSEC_ABORT_NONE, pt), s1)"
    and pt: "length pt = unat (ent_data_len (registry s ! i))" "length pt \<le> plain_max"
    and rm: "POLL_BUF_LEN \<le> rm"
  shows "\<exists>tag sess' s'. fbsec_secure_poll_read g C (sod_link g P c rm) dev key t sess plain_max (s, x)
      = ((SECP_OK, pt, tag, 0, sess'), (s', x))
    \<and> read_in_sync sess' c d i s' \<and> se_counter sess' = se_counter sess + 1 \<and> sod_wf s'"
proof -
  let ?e = "registry s ! i"
  let ?slot = "read_slot s ! i"
  let ?n = "se_counter sess + 1"
  have sy: "se_in_use sess" "se_data_id sess = d" "find_index s d = Some i" "rs_in_use ?slot"
    "rs_cyclic ?slot" "rs_client_dev ?slot = c" "rs_key_id ?slot = se_key_id sess"
    "rs_nonce_base ?slot = se_nonce_base sess" "rs_counter ?slot = se_counter sess"
    using sync by (auto simp: read_in_sync_def Let_def)
  have i: "i < 8" using sod_wf_find_index [OF wf sy(3)] .
  have d: "ent_data_id ?e = d" using find_index_SomeD(2) [OF sy(3)] .
  have f1: "same_slots s s1" using port_read_before_frame [OF host_ok_port_ok [OF h] rb] .
  have wf1: "sod_wf s1" using same_slots_wf [OF wf f1] .
  have key1: "get_key s1 (FBSEC_AEAD_KEYID_BASE (se_key_id sess)) = Some key"
    using key host_ok_get_key_read [OF h rb] by simp
  have klen: "length key = FBSEC_AEAD_KEY_SIZE"
    using get_key_length [OF _ key] wf by (simp add: sod_wf_def)
  have nlen: "length (build_session_nonce (se_nonce_base sess) ?n) = FBSEC_AEAD_NONCE_SIZE"
    using sod_wf_read_slot [OF wf i] sy(8) by (simp add: read_state_wf_def)
  have ptlen: "length pt \<le> FBSEC_AEAD_MAX_PROTECTED" using sod_wf_data_len [OF wf sy(3)] pt(1) by simp
  obtain ct tag where seal: "fbsec_aead_seal g key (build_session_nonce (se_nonce_base sess) ?n)
      FBSEC_AEAD_DIR_READ_POLL_RESPONSE (se_key_id sess) dev c d None None pt = Some (ct, tag)"
    "length ct = length pt" "length tag = FBSEC_AEAD_TAG_SIZE"
    by (rule seal_succeeds [OF g klen nlen ptlen])
  have opn: "fbsec_aead_open g key (build_session_nonce (se_nonce_base sess) ?n)
      FBSEC_AEAD_DIR_READ_POLL_RESPONSE (se_key_id sess) dev c d None None ct tag = Some pt"
    using seal(1) open_iff_seal [OF g klen nlen seal(3)] by blast
  define s' where "s' = upd_read i (\<lambda>sl. sl\<lparr>rs_counter := ?n, rs_armed_at := port_get_time_ms P s1\<rparr>) s1"
  have srv: "fbsec_sod_dispatch g P c d [ucast ?n] rm s = (SOD_OK (ucast ?n # ct @ tag), s')"
    unfolding fbsec_sod_dispatch_def handle_read_poll_def Let_def
    using sy ro fresh d rm ptlen pt access rb key1 seal poll_check_counter_next [OF budget] h
    by (simp add: s'_def)
  have sl: "slice (ucast ?n # ct @ tag) 1 (length pt) = ct"
    "slice (ucast ?n # ct @ tag) (1 + length pt) FBSEC_AEAD_TAG_SIZE = tag"
    using slice_poll_reply [OF seal(3), of "ucast ?n" ct] seal(2) by simp_all
  have "fbsec_secure_poll_read g C (sod_link g P c rm) dev key t sess plain_max (s, x)
      = ((SECP_OK, pt, tag, 0, sess\<lparr>se_counter := ?n\<rparr>), (s', x))"
    unfolding fbsec_secure_poll_read_def Let_def
    using sy budget srv sl opn seal(2,3) ptlen pt(2) client_ok_id [OF cl]
    by (simp add: link_reply_def session_build_nonce_eq not_le)
  moreover have "read_in_sync (sess\<lparr>se_counter := ?n\<rparr>) c d i s'"
    using sy f1 i wf find_index_cong [of s1 s]
    by (simp add: read_in_sync_def Let_def s'_def same_slots_def sod_wf_def)
  moreover have "sod_wf s'"
    using dispatch_wf [OF srv host_ok_port_ok [OF h] g wf] .
  ultimately show ?thesis by auto
qed

lemma poll_write_end_to_end:
  assumes g: "gcm_ok g" and h: "host_ok P dev" and cl: "client_ok C c" and wf: "sod_wf s"
    and sync: "write_in_sync sess c d i s"
    and wo: "ent_access_flags (registry s ! i) AND FBSEC_SOD_ACCESS_SECURE_WO \<noteq> 0"
    and fresh: "session_is_fresh P s (ws_armed_at (write_slot s ! i))"
    and budget: "se_counter sess < FBSEC_AEAD_KEY_USE_LIMIT"
    and key: "get_key s (FBSEC_AEAD_KEYID_BASE (se_key_id sess)) = Some key"
    and role: "port_role_allowed P SOD_OP_WRITE (FBSEC_AEAD_KEYID_BASE (se_key_id sess)) d s"
    and plain: "length plain = unat (ent_data_len (registry s ! i))" "plain \<noteq> []"
    and hook: "port_write_after P d plain s = (FBSEC_ABORT_NONE, s1)"
  shows "\<exists>tag sess'. fbsec_secure_poll_write g C (sod_link g P c rm) dev key t sess plain (s, x)
      = ((SECP_OK, tag, 0, sess'), (advance_write P i (se_counter sess + 1) s1, x))
    \<and> write_in_sync sess' c d i (advance_write P i (se_counter sess + 1) s1)
    \<and> se_counter sess' = se_counter sess + 1"
proof -
  let ?e = "registry s ! i"
  let ?slot = "write_slot s ! i"
  let ?n = "se_counter sess + 1"
  have sy: "se_in_use sess" "se_data_id sess = d" "find_index s d = Some i" "ws_in_use ?slot"
    "ws_cyclic ?slot" "ws_client_dev ?slot = c" "ws_key_id ?slot = se_key_id sess"
    "ws_nonce_base ?slot = se_nonce_base sess" "ws_counter ?slot = se_counter sess"
    using sync by (auto simp: write_in_sync_def Let_def)
  have i: "i < 8" using sod_wf_find_index [OF wf sy(3)] .
  have d: "ent_data_id ?e = d" using find_index_SomeD(2) [OF sy(3)] .
  have f1: "same_slots s s1" using port_write_after_frame [OF host_ok_port_ok [OF h] hook] .
  have klen: "length key = FBSEC_AEAD_KEY_SIZE"
    using get_key_length [OF _ key] wf by (simp add: sod_wf_def)
  have nlen: "length (build_session_nonce (se_nonce_base sess) ?n) = FBSEC_AEAD_NONCE_SIZE"
    using sod_wf_write_slot [OF wf i] sy(8) by (simp add: write_state_wf_def)
  have ptlen: "length plain \<le> FBSEC_AEAD_MAX_PROTECTED"
    using sod_wf_data_len [OF wf sy(3)] plain(1) by simp
  obtain ct tag where seal: "fbsec_aead_seal g key (build_session_nonce (se_nonce_base sess) ?n)
      FBSEC_AEAD_DIR_WRITE_POLL_REQUEST (se_key_id sess) dev c d None None plain = Some (ct, tag)"
    "length ct = length plain" "length tag = FBSEC_AEAD_TAG_SIZE"
    by (rule seal_succeeds [OF g klen nlen ptlen])
  have opn: "fbsec_aead_open g key (build_session_nonce (se_nonce_base sess) ?n)
      FBSEC_AEAD_DIR_WRITE_POLL_REQUEST (se_key_id sess) dev c d None None ct tag = Some plain"
    using seal(1) open_iff_seal [OF g klen nlen seal(3)] by blast
  define req where "req = ucast ?n # ct @ tag"
  have rlen: "length req = 1 + unat (ent_data_len ?e) + FBSEC_AEAD_TAG_SIZE" "length req \<noteq> 1"
    using seal(2,3) plain(1) by (simp_all add: req_def)
  have sl: "slice req 1 (unat (ent_data_len ?e)) = ct"
    "slice req (1 + unat (ent_data_len ?e)) FBSEC_AEAD_TAG_SIZE = tag" "req ! 0 = ucast ?n"
    using slice_poll_reply [OF seal(3), of "ucast ?n" ct] seal(2) plain(1) by (simp_all add: req_def)
  have opens: "write_poll_opens g P i ?e c req s plain ?n"
    unfolding write_poll_opens_def Let_def
    using sy fresh rlen sl role key opn h d poll_check_counter_next [OF budget] by simp
  have srv: "fbsec_sod_dispatch g P c d req rm s = (SOD_OK [], advance_write P i ?n s1)"
    using sy wo rlen hook
    by (simp add: fbsec_sod_dispatch_def Let_def handle_write_poll_opens [OF opens] d)
  have "fbsec_secure_poll_write g C (sod_link g P c rm) dev key t sess plain (s, x)
      = ((SECP_OK, tag, 0, sess\<lparr>se_counter := ?n\<rparr>), (advance_write P i ?n s1, x))"
    unfolding fbsec_secure_poll_write_def Let_def
    using sy budget srv seal(1) ptlen plain(2) client_ok_id [OF cl]
    by (simp add: link_reply_def session_build_nonce_eq not_le req_def)
  moreover have "write_in_sync (sess\<lparr>se_counter := ?n\<rparr>) c d i (advance_write P i ?n s1)"
    using sy f1 i wf find_index_cong [of s1 s]
    by (simp add: write_in_sync_def Let_def advance_write_def same_slots_def sod_wf_def)
  ultimately show ?thesis by auto
qed

section \<open>Arming puts the two ends in step\<close>

lemma secure_read_armed_end_to_end:
  assumes g: "gcm_ok g" and h: "host_ok P dev" and cl: "client_ok C c" and wf: "sod_wf s"
    and al: "read_allowed P c d kid key pt s i sr s2"
    and kid: "\<not> key_id_invalid kid"
    and rnd: "secure_port_random C FBSEC_AEAD_RAND_SIZE (s, x) = (Some cr, w1)"
    and rm: "READ_RESPONSE_MAX \<le> rm" and buf: "length pt \<le> buf_size"
  shows "\<exists>sess' s' x'. fbsec_secure_read_armed g C (sod_link g P c rm) dev d key kid buf_size t sess (s, x)
      = ((SECP_OK, pt, 0, sess'), (s', x'))
    \<and> read_in_sync sess' c d i s' \<and> se_counter sess' = 0 \<and> sod_wf s'
    \<and> session_is_fresh P s' (rs_armed_at (read_slot s' ! i))"
proof -
  let ?kid = "kid OR 0x40"
  have al': "read_allowed P c d ?kid key pt s i sr s2" using al by (simp add: read_allowed_def)
  have idx: "find_index s d = Some i" using al by (simp add: read_allowed_def Let_def)
  have res: "FBSEC_AEAD_KEYID_RESERVED ?kid = 0" using key_id_valid_reserved [OF kid] by simp
  have cr: "length cr = FBSEC_AEAD_RAND_SIZE" using client_ok_random_length [OF cl rnd] .
  have w1: "fst w1 = s" using client_ok_random [OF cl rnd] .
  obtain ct tag sA where
    opn: "fbsec_aead_open g key (fbsec_aead_xor_nonce cr sr) FBSEC_AEAD_DIR_READ_RESPONSE ?kid dev c d
       (Some cr) (Some sr) ct tag = Some pt" and
    len: "length sr = FBSEC_AEAD_RAND_SIZE" "length ct = length pt" "length tag = FBSEC_AEAD_TAG_SIZE"
      "length pt \<le> FBSEC_AEAD_MAX_PROTECTED" and
    sA: "sA = upd_read i (\<lambda>_. armed_read_slot P s2 c ?kid cr sr ct tag) s2" and
    p1: "fbsec_sod_dispatch g P c d (?kid # cr) rm s = (SOD_DEFER, sA)" and
    p2: "fbsec_sod_dispatch g P c d [] rm sA = (SOD_OK (sr @ ct @ tag), after_delivery P i sA)" and
    i: "i < 8" and wf2: "sod_wf s2" and reg: "registry s2 = registry s"
    by (rule read_exchange [OF g h wf al' res cr rm])
  have sl: "slice (sr @ ct @ tag) 0 FBSEC_AEAD_RAND_SIZE = sr"
    "slice (sr @ ct @ tag) FBSEC_AEAD_RAND_SIZE (length pt) = ct"
    "slice (sr @ ct @ tag) (FBSEC_AEAD_RAND_SIZE + length pt) FBSEC_AEAD_TAG_SIZE = tag"
    using slice_response [OF len(1,3), of ct] len(2) by simp_all
  have slot: "read_slot sA ! i = armed_read_slot P s2 c ?kid cr sr ct tag" "i < length (read_slot sA)"
    using i wf2 by (simp_all add: sA sod_wf_def)
  have run: "fbsec_secure_read_armed g C (sod_link g P c rm) dev d key kid buf_size t sess (s, x)
      = ((SECP_OK, pt, 0, armed_session d ?kid cr sr),
         (after_delivery P i sA, snd (notify_salt C cr w1)))"
    using kid rnd p1 p2 sl opn len buf w1
    by (simp add: fbsec_secure_read_armed_def Let_def client_ok_salt [OF cl] client_ok_id [OF cl]
        link_reply_def)
  have idx': "find_index (after_delivery P i sA) d = Some i"
    using idx reg find_index_cong [of "after_delivery P i sA" s]
    by (simp add: after_delivery_def sA)
  have wf': "sod_wf (after_delivery P i sA)"
    using dispatch_wf [OF p2 host_ok_port_ok [OF h] g]
      dispatch_wf [OF p1 host_ok_port_ok [OF h] g wf] by blast
  have "read_in_sync (armed_session d ?kid cr sr) c d i (after_delivery P i sA)"
    unfolding read_in_sync_def Let_def using idx' slot
    by (simp add: after_delivery_def armed_session_def)
  moreover have "session_is_fresh P (after_delivery P i sA)
      (rs_armed_at (read_slot (after_delivery P i sA) ! i))"
    using slot fresh_same_host(2) [OF h, of "after_delivery P i sA" sA]
    by (simp add: after_delivery_def)
  ultimately show ?thesis
    using run wf' by (auto simp: armed_session_def)
qed

end
