(* ===== verification/Sod_Demo.thy ===== *)
theory Sod_Demo
  imports Secure_Link Secure_Od_Props
begin

text \<open>
  A concrete host and a concrete server on which the witnesses of the secure
  object dictionary's properties evaluate: node 5, one read-write entry of four
  bytes bound to no particular key, keys in the integrator and operator slots,
  a role policy that refuses writes to the operator key, and a host that keeps
  the last written value, a clock and a counter it draws its random bytes from.
\<close>

record demo_host =
  dh_time :: u16
  dh_seed :: u8
  dh_value :: bytes
  dh_writes :: nat

definition demo_port :: "demo_host port" where
  "demo_port = \<lparr>
     port_get_device_id = (\<lambda>s. 5),
     port_get_time_ms = (\<lambda>s. dh_time (host s)),
     port_random = (\<lambda>n s. (Some (replicate n (dh_seed (host s))),
                            s\<lparr>host := (host s)\<lparr>dh_seed := dh_seed (host s) + 1\<rparr>\<rparr>)),
     port_access_allowed = (\<lambda>op d s. True),
     port_role_allowed = (\<lambda>op k d s. op = SOD_OP_READ \<or> k \<noteq> 3),
     port_read_before = (\<lambda>d n s. ((FBSEC_ABORT_NONE, dh_value (host s)), s)),
     port_write_after = (\<lambda>d v s. (FBSEC_ABORT_NONE,
        s\<lparr>host := (host s)\<lparr>dh_value := v, dh_writes := dh_writes (host s) + 1\<rparr>\<rparr>))\<rparr>"

definition demo_key :: bytes where
  "demo_key = [7, 1, 2, 3, 4, 5, 6, 7, 8, 9, 10, 11, 12, 13, 14, 15]"

definition demo_entry :: sod_entry where
  "demo_entry = \<lparr>ent_data_id = 0x20160000, ent_key_id = 0, ent_access_flags = 3,
     ent_value_type = 0, ent_data_len = 4\<rparr>"

definition demo_srv :: "demo_host sod" where
  "demo_srv =
     (let s0 = fbsec_sod_init \<lparr>dh_time = 100, dh_seed = 0x5A, dh_value = [1, 2, 3, 4], dh_writes = 0\<rparr>;
          s1 = snd (fbsec_sod_register_entry demo_entry s0);
          s2 = snd (fbsec_sod_set_key 2 demo_key s1)
      in snd (fbsec_sod_set_key 3 demo_key s2))"

lemma demo_host_ok: "host_ok demo_port 5"
  by (simp add: host_ok_def port_ok_def demo_port_def same_slots_def keys_wf_def)

lemma demo_port_ok: "port_ok demo_port"
  using demo_host_ok by (rule host_ok_port_ok)

lemma demo_srv_eq:
  "demo_srv = \<lparr>
     registry = [demo_entry],
     read_slot = replicate 8 read_state_zero,
     write_slot = replicate 8 write_state_zero,
     sod_keys = [replicate 16 0, replicate 16 0, demo_key, demo_key, replicate 16 0],
     key_present = [False, False, True, True, False],
     key_id_val = [0, 0, 2, 3, 0],
     last_write_kid_base = 0,
     host = \<lparr>dh_time = 100, dh_seed = 0x5A, dh_value = [1, 2, 3, 4], dh_writes = 0\<rparr>\<rparr>"
  by code_simp

lemma demo_srv_wf: "sod_wf demo_srv"
  by (simp add: demo_srv_eq sod_wf_def registry_wf_def keys_wf_def demo_entry_def demo_key_def)

definition demo_client :: "(demo_host, nat) link_world client_port" where
  "demo_client = \<lparr>secure_port_random = (\<lambda>n (s, x). (Some (replicate n (of_nat x)), (s, x + 1))),
     secure_port_get_client_id = (\<lambda>w. 9), salt_cb = None\<rparr>"

lemma demo_client_ok: "client_ok demo_client 9"
  by (simp add: client_ok_def demo_client_def)

end
