(* ===== verification/Asym.thy ===== *)
theory Asym
  imports Sofa_Config
begin

text \<open>
  The Ed25519 wrappers and the signature transcript of
  \<open>shared/fbsec_asym.[ch]\<close>. Monocypher's primitives are not part of the
  sources: they are the record \<open>ed25519\<close>, a parameter of every definition that
  signs or verifies, and \<open>ed_ok\<close> states what its documentation promises: key
  and signature sizes, and that a signature made with the private half of a
  key pair checks against the public half.
\<close>

section \<open>Sizes, roles and object identifiers\<close>

abbreviation (input) FBSEC_ASYM_PUBKEY_SIZE :: nat where "FBSEC_ASYM_PUBKEY_SIZE \<equiv> 32"
abbreviation (input) FBSEC_ASYM_PRIVKEY_SIZE :: nat where "FBSEC_ASYM_PRIVKEY_SIZE \<equiv> 64"
abbreviation (input) FBSEC_ASYM_SIG_SIZE :: nat where "FBSEC_ASYM_SIG_SIZE \<equiv> 64"
abbreviation (input) FBSEC_ASYM_SEED_SIZE :: nat where "FBSEC_ASYM_SEED_SIZE \<equiv> 32"
abbreviation (input) FBSEC_ASYM_ALG_ED25519 :: u32 where "FBSEC_ASYM_ALG_ED25519 \<equiv> 0x01"

abbreviation (input) FBSEC_ASYM_DOMAIN :: bytes where
  "FBSEC_ASYM_DOMAIN \<equiv>
     [0x43, 0x69, 0x41, 0x2D, 0x37, 0x32, 0x30, 0x2D, 0x56, 0x30, 0x2E, 0x30]"

abbreviation (input) FBSEC_ASYM_DOMAIN_LEN :: nat where "FBSEC_ASYM_DOMAIN_LEN \<equiv> 12"
abbreviation (input) FBSEC_ASYM_SIG_ALG_ED25519 :: u8 where "FBSEC_ASYM_SIG_ALG_ED25519 \<equiv> 0x30"
abbreviation (input) FBSEC_ASYM_RD_IDENTITY_READ :: u8 where "FBSEC_ASYM_RD_IDENTITY_READ \<equiv> 0x01"
abbreviation (input) FBSEC_ASYM_RD_PKINSTALL_ACK :: u8 where "FBSEC_ASYM_RD_PKINSTALL_ACK \<equiv> 0x02"
abbreviation (input) FBSEC_ASYM_RD_LDEVID_EXPORT :: u8 where "FBSEC_ASYM_RD_LDEVID_EXPORT \<equiv> 0x03"
abbreviation (input) FBSEC_ASYM_RD_GENERIC_WRITE :: u8 where "FBSEC_ASYM_RD_GENERIC_WRITE \<equiv> 0x04"
abbreviation (input) FBSEC_ASYM_RD_GENERIC_READ :: u8 where "FBSEC_ASYM_RD_GENERIC_READ \<equiv> 0x05"
abbreviation (input) FBSEC_ASYM_RD_VOUCHER :: u8 where "FBSEC_ASYM_RD_VOUCHER \<equiv> 0x06"
abbreviation (input) FBSEC_ASYM_RD_IDEVID_CERT :: u8 where "FBSEC_ASYM_RD_IDEVID_CERT \<equiv> 0x07"
abbreviation (input) FBSEC_ASYM_RD_FUNCTION_CMD :: u8 where "FBSEC_ASYM_RD_FUNCTION_CMD \<equiv> 0x09"
abbreviation (input) FBSEC_ASYM_TRANSCRIPT_OVERHEAD :: nat where
  "FBSEC_ASYM_TRANSCRIPT_OVERHEAD \<equiv> 15"
abbreviation (input) FBSEC_ASYM_SERIAL_LEN :: nat where "FBSEC_ASYM_SERIAL_LEN \<equiv> 8"
abbreviation (input) FBSEC_ASYM_IDENTITY_BLOB_LEN :: nat where "FBSEC_ASYM_IDENTITY_BLOB_LEN \<equiv> 40"

abbreviation (input) FBSEC_HO_IDENTITY_ID :: u32 where "FBSEC_HO_IDENTITY_ID \<equiv> 0xC0280000"
abbreviation (input) FBSEC_HO_EPOCH_ID :: u32 where "FBSEC_HO_EPOCH_ID \<equiv> 0xC0200100"
abbreviation (input) FBSEC_HO_VOUCHER_ID :: u32 where "FBSEC_HO_VOUCHER_ID \<equiv> 0xC0200200"
abbreviation (input) FBSEC_HO_PROVISION_ID :: u32 where "FBSEC_HO_PROVISION_ID \<equiv> 0xC02F0000"
abbreviation (input) FBSEC_HO_LDEVID_ID :: u32 where "FBSEC_HO_LDEVID_ID \<equiv> 0xC0200300"
abbreviation (input) FBSEC_HO_RT_LEN :: nat where "FBSEC_HO_RT_LEN \<equiv> 16"
abbreviation (input) FBSEC_HO_IDENTITY_REPLY_LEN :: nat where
  "FBSEC_HO_IDENTITY_REPLY_LEN \<equiv>
     FBSEC_ASYM_IDENTITY_BLOB_LEN + FBSEC_ASYM_SIG_SIZE + FBSEC_ASYM_SIG_SIZE"
abbreviation (input) FBSEC_HO_VOUCHER_LEN :: nat where
  "FBSEC_HO_VOUCHER_LEN \<equiv>
     FBSEC_ASYM_SERIAL_LEN + FBSEC_ASYM_PUBKEY_SIZE + 4 + FBSEC_ASYM_SIG_SIZE"
abbreviation (input) FBSEC_HO_PROVISION_LEN :: nat where
  "FBSEC_HO_PROVISION_LEN \<equiv> FBSEC_AEAD_KEY_SIZE + FBSEC_ASYM_SIG_SIZE"
abbreviation (input) FBSEC_HO_CMD_FACTORY_RESTORE :: u32 where
  "FBSEC_HO_CMD_FACTORY_RESTORE \<equiv> 0x10"

abbreviation (input) FBSEC_RPK_PUBKEYS_INDEX :: u16 where "FBSEC_RPK_PUBKEYS_INDEX \<equiv> 0xC021"
abbreviation (input) FBSEC_RPK_PKTYPES_INDEX :: u16 where "FBSEC_RPK_PKTYPES_INDEX \<equiv> 0xC022"
abbreviation (input) FBSEC_RPK_PUBKEY_HIGHEST_SUB :: u8 where "FBSEC_RPK_PUBKEY_HIGHEST_SUB \<equiv> 0x02"
abbreviation (input) FBSEC_RPK_GENERIC_READ_ID :: u32 where
  "FBSEC_RPK_GENERIC_READ_ID \<equiv> 0xC0420100"
abbreviation (input) FBSEC_RPK_GENERIC_WRITE_ID :: u32 where
  "FBSEC_RPK_GENERIC_WRITE_ID \<equiv> 0xC0420200"
abbreviation (input) FBSEC_RPK_FUNCCMD_ID :: u32 where "FBSEC_RPK_FUNCCMD_ID \<equiv> 0xC0490000"
abbreviation (input) FBSEC_RPK_NONCE_LEN :: nat where "FBSEC_RPK_NONCE_LEN \<equiv> 16"
abbreviation (input) FBSEC_RPK_VALUE_MAX :: nat where "FBSEC_RPK_VALUE_MAX \<equiv> 16"
abbreviation (input) FBSEC_RPK_WRITE_HDR_LEN :: nat where "FBSEC_RPK_WRITE_HDR_LEN \<equiv> 19"
abbreviation (input) FBSEC_RPK_CMD_LEN :: nat where "FBSEC_RPK_CMD_LEN \<equiv> 4"

section \<open>The primitive\<close>

record ed25519 =
  crypto_ed25519_key_pair :: "bytes \<Rightarrow> bytes \<times> bytes"
  crypto_ed25519_sign :: "bytes \<Rightarrow> bytes \<Rightarrow> bytes"
  crypto_ed25519_check :: "bytes \<Rightarrow> bytes \<Rightarrow> bytes \<Rightarrow> bool"

text \<open>\<open>key_pair seed\<close> is (private, public); \<open>sign priv msg\<close>; \<open>check sig pub msg\<close>.\<close>

definition ed_ok :: "ed25519 \<Rightarrow> bool" where
  "ed_ok E \<longleftrightarrow>
     (\<forall>seed. length seed = FBSEC_ASYM_SEED_SIZE \<longrightarrow>
        length (fst (crypto_ed25519_key_pair E seed)) = FBSEC_ASYM_PRIVKEY_SIZE \<and>
        length (snd (crypto_ed25519_key_pair E seed)) = FBSEC_ASYM_PUBKEY_SIZE) \<and>
     (\<forall>priv m. length (crypto_ed25519_sign E priv m) = FBSEC_ASYM_SIG_SIZE) \<and>
     (\<forall>seed m. length seed = FBSEC_ASYM_SEED_SIZE \<longrightarrow>
        crypto_ed25519_check E
          (crypto_ed25519_sign E (fst (crypto_ed25519_key_pair E seed)) m)
          (snd (crypto_ed25519_key_pair E seed)) m)"

section \<open>The wrappers\<close>

record keypair =
  kp_priv :: bytes
  kp_pub :: bytes

definition fbsec_asym_keygen :: "ed25519 \<Rightarrow> bytes \<Rightarrow> keypair" where
  "fbsec_asym_keygen E seed =
     (case crypto_ed25519_key_pair E seed of (priv, pub) \<Rightarrow> \<lparr>kp_priv = priv, kp_pub = pub\<rparr>)"

definition fbsec_asym_sign :: "ed25519 \<Rightarrow> keypair \<Rightarrow> bytes \<Rightarrow> bytes" where
  "fbsec_asym_sign E kp msg = crypto_ed25519_sign E (kp_priv kp) msg"

definition fbsec_asym_verify :: "ed25519 \<Rightarrow> bytes \<Rightarrow> bytes \<Rightarrow> bytes \<Rightarrow> bool" where
  "fbsec_asym_verify E pk msg sig = crypto_ed25519_check E sig pk msg"

text \<open>
  The transcript. \<open>total\<close> is a 16-bit sum in the C code and wraps for a body of
  more than 65520 bytes. The result is the first \<open>total\<close> bytes of the output
  buffer, which is the message the callers sign or verify; \<open>None\<close> is the return
  value 0. (For a wrapped sum the C code also writes past the buffer; every
  body in the sources is at most 64 bytes.)
\<close>

definition transcript_total :: "bytes \<Rightarrow> u16" where
  "transcript_total body = of_nat FBSEC_ASYM_TRANSCRIPT_OVERHEAD + of_nat (length body)"

definition fbsec_asym_transcript :: "u8 \<Rightarrow> bytes \<Rightarrow> nat \<Rightarrow> bytes option" where
  "fbsec_asym_transcript role_dir body out_max =
     (let total = transcript_total body in
      if out_max < unat total then None
      else if total = 0 then None
      else Some (take (unat total)
             (FBSEC_ASYM_DOMAIN @ [0x00, FBSEC_ASYM_SIG_ALG_ED25519, role_dir] @ body)))"

section \<open>Lemmas\<close>

lemma ed_ok_sign_length [sofa_len]:
  "ed_ok E \<Longrightarrow> length (fbsec_asym_sign E kp m) = FBSEC_ASYM_SIG_SIZE"
  by (simp add: ed_ok_def fbsec_asym_sign_def)

lemma ed_ok_pub_length [sofa_len]:
  "ed_ok E \<Longrightarrow> length seed = FBSEC_ASYM_SEED_SIZE \<Longrightarrow>
     length (kp_pub (fbsec_asym_keygen E seed)) = FBSEC_ASYM_PUBKEY_SIZE"
  by (simp add: ed_ok_def fbsec_asym_keygen_def split: prod.split) (metis snd_conv)

lemma ed_ok_verify:
  "ed_ok E \<Longrightarrow> length seed = FBSEC_ASYM_SEED_SIZE \<Longrightarrow> kp = fbsec_asym_keygen E seed \<Longrightarrow>
     fbsec_asym_verify E (kp_pub kp) m (fbsec_asym_sign E kp m)"
  by (simp add: ed_ok_def fbsec_asym_keygen_def fbsec_asym_verify_def fbsec_asym_sign_def
      split: prod.split) (metis fst_conv snd_conv)

lemma transcript_total_small:
  "length body \<le> 65520 \<Longrightarrow> unat (transcript_total body) = 15 + length body"
proof -
  assume "length body \<le> 65520"
  then have "unat (of_nat (15 + length body) :: u16) = 15 + length body"
    by (intro unat_of_nat_u16) simp
  then show ?thesis by (simp add: transcript_total_def)
qed

text \<open>The transcript of a body that the 16-bit sum can hold.\<close>

definition transcript_of :: "u8 \<Rightarrow> bytes \<Rightarrow> bytes" where
  "transcript_of r body = FBSEC_ASYM_DOMAIN @ [0x00, FBSEC_ASYM_SIG_ALG_ED25519, r] @ body"

lemma transcript_eq:
  assumes "length body \<le> 65520"
  shows "fbsec_asym_transcript r body out_max =
    (if out_max < 15 + length body then None else Some (transcript_of r body))"
proof -
  have "transcript_total body \<noteq> 0"
    using transcript_total_small [OF assms] by (metis add_is_0 numeral_eq_iff unat_0 zero_neq_numeral)
  then show ?thesis
    by (simp add: fbsec_asym_transcript_def transcript_total_small [OF assms] transcript_of_def)
qed

text \<open>
  Role separation: equal transcripts have the same role and the same body, so
  a signature made for one exchange is never one of another.
\<close>

lemma transcript_of_inject [simp]: "transcript_of r b = transcript_of r' b' \<longleftrightarrow> r = r' \<and> b = b'"
  by (simp add: transcript_of_def)

text \<open>For 65521 bytes the sum is 0, so the length check passes for every buffer.\<close>

lemma transcript_total_wraps: "length body = 65521 \<Longrightarrow> transcript_total body = 0"
  by (simp add: transcript_total_def)

end
