(* ===== verification/Host_Relation.thy ===== *)
theory Host_Relation
  imports Secure_Od_Props
begin

text \<open>
  What the application behind the hooks can rely on: a relation between states
  that the hooks respect and that slot bookkeeping cannot break is respected by
  every request. The reference server uses it for its keys, its ownership data
  and its configuration.
\<close>

section \<open>Where a request calls the write hook\<close>

text \<open>
  \<open>write_reaches\<close> says that a request passed every check and reached the host's
  write hook with \<open>v\<close> in state \<open>a\<close>: a single-shot frame under the key it names,
  or a poll of an armed session. \<open>same_core\<close> relates states that differ in slot
  bookkeeping only.
\<close>

definition write_reaches ::
  "gcm \<Rightarrow> 'h port \<Rightarrow> u16 \<Rightarrow> u32 \<Rightarrow> bytes \<Rightarrow> 'h sod \<Rightarrow> bytes \<Rightarrow> 'h sod \<Rightarrow> bool" where
  "write_reaches g P c d req s v a \<longleftrightarrow>
     (\<exists>i. find_index s d = Some i \<and>
        ent_access_flags (registry s ! i) AND FBSEC_SOD_ACCESS_SECURE_WO \<noteq> 0 \<and>
        (write_request_opens g P i (registry s ! i) req s v \<and> a = write_hook_state i req s \<or>
         (\<exists>ctr. write_poll_opens g P i (registry s ! i) c req s v ctr) \<and> a = s))"

definition same_core :: "'h sod \<Rightarrow> 'h sod \<Rightarrow> bool" where
  "same_core s s' \<longleftrightarrow> registry s' = registry s \<and> sod_keys s' = sod_keys s \<and>
     key_present s' = key_present s \<and> key_id_val s' = key_id_val s \<and> host s' = host s"

lemma same_core_upd [simp]:
  "same_core s (upd_read i f a) = same_core s a" "same_core s (upd_write i h a) = same_core s a"
  "same_core s (a\<lparr>last_write_kid_base := k\<rparr>) = same_core s a"
  "same_core s (release_write i a) = same_core s a"
  "same_core s (start_write_session P i req a) = same_core s a"
  "same_core s (advance_write P i ctr a) = same_core s a"
  "same_core s (write_hook_state i req a) = same_core s a"
  "same_core s s"
  by (simp_all add: same_core_def release_write_def start_write_session_def advance_write_def
      write_hook_state_def)

lemma same_core_trans: "same_core s t \<Longrightarrow> same_core t u \<Longrightarrow> same_core s u"
  by (simp add: same_core_def)

lemma same_core_get_key: "same_core s s' \<Longrightarrow> get_key s' k = get_key s k"
  by (simp add: same_core_def get_key_def fbsec_sod_has_key_def)

lemma write_reaches_core: "write_reaches g P c d req s v a \<Longrightarrow> same_core s a"
  by (auto simp: write_reaches_def)

text \<open>What the write hook left is what the request leaves, up to the slots.\<close>

definition hook_result :: "'h port \<Rightarrow> u32 \<Rightarrow> bytes \<Rightarrow> 'h sod \<Rightarrow> 'h sod \<Rightarrow> bool" where
  "hook_result P d v a s' \<longleftrightarrow>
     (\<exists>rc b. port_write_after P d v a = (rc, b) \<and> same_core b s' \<and>
        last_write_kid_base s' = last_write_kid_base b)"

lemma verify_and_apply_write_hook:
  assumes "verify_and_apply_write g P i e req s = (st, s')" "write_request_opens g P i e req s v"
  shows "hook_result P (ent_data_id e) v (write_hook_state i req s) s'"
  using assms(1) unfolding verify_and_apply_write_opens [OF assms(2)]
  by (auto simp: hook_result_def release_write_def start_write_session_def split: if_splits prod.splits)

lemma handle_write_poll_hook:
  assumes "handle_write_poll g P i e c req s = (st, s')" "write_poll_opens g P i e c req s v ctr"
  shows "hook_result P (ent_data_id e) v s s'"
  using assms(1) unfolding handle_write_poll_opens [OF assms(2)]
  by (auto simp: hook_result_def advance_write_def split: if_splits prod.splits)

section \<open>Relations the hooks respect\<close>

locale host_relation =
  fixes P :: "'h port" and R :: "'h sod \<Rightarrow> 'h sod \<Rightarrow> bool"
  assumes R_refl: "R s s"
    and R_trans: "R s t \<Longrightarrow> R t u \<Longrightarrow> R s u"
    and R_read_slot: "R s (upd_read i f s)"
    and R_write_slot: "R s (upd_write i h s)"
    and R_last_write: "R s (s\<lparr>last_write_kid_base := k\<rparr>)"
    and R_read_hook: "port_read_before P d n s = (x, s') \<Longrightarrow> R s s'"
    and R_random_hook: "port_random P n s = (b, s') \<Longrightarrow> R s s'"
    and R_write_hook: "port_write_after P d v s = (rc, s') \<Longrightarrow> R s s'"
begin

lemma R_upd_read: "R s a \<Longrightarrow> R s (upd_read i f a)"
  using R_trans R_read_slot by blast

lemma R_upd_write: "R s a \<Longrightarrow> R s (upd_write i h a)"
  using R_trans R_write_slot by blast

lemma R_upd_last: "R s a \<Longrightarrow> R s (a\<lparr>last_write_kid_base := k\<rparr>)"
  using R_trans R_last_write by blast

lemma R_read_before: "port_read_before P d n a = (x, b) \<Longrightarrow> R s a \<Longrightarrow> R s b"
  using R_trans R_read_hook by blast

lemma R_random: "port_random P n a = (x, b) \<Longrightarrow> R s a \<Longrightarrow> R s b"
  using R_trans R_random_hook by blast

lemma R_write_after: "port_write_after P d v a = (x, b) \<Longrightarrow> R s a \<Longrightarrow> R s b"
  using R_trans R_write_hook by blast

lemmas R_steps = R_refl R_upd_read R_upd_write R_upd_last
lemmas R_hooks = R_read_before R_random R_write_after

lemma arm_read_response_R: "R s (snd (arm_read_response g P i e c ch s))"
proof -
  obtain x pt s1 where a: "port_read_before P (ent_data_id e) (unat (ent_data_len e)) s = ((x, pt), s1)"
    by (metis prod.exhaust)
  obtain b s2 where b: "port_random P FBSEC_AEAD_RAND_SIZE s1 = (b, s2)" by (metis prod.exhaust)
  have r1: "R s s1" using R_read_hook [OF a] .
  have r2: "R s s2" using R_random [OF b r1] .
  show ?thesis
    using r1 r2 by (simp add: arm_read_response_def Let_def a b R_steps split: option.split)
qed

lemma arm_write_challenge_R: "R s (snd (arm_write_challenge P i e c kid hk rm s))"
proof -
  obtain b s1 where b: "port_random P FBSEC_AEAD_RAND_SIZE s = (b, s1)" by (metis prod.exhaust)
  have r1: "R s s1" using R_random_hook [OF b] .
  show ?thesis
    using r1 by (simp add: arm_write_challenge_def Let_def b R_steps split: option.split)
qed

lemma verify_and_apply_write_R: "R s (snd (verify_and_apply_write g P i e req s))"
proof (cases "\<exists>plaintext. write_request_opens g P i e req s plaintext")
  case True
  then obtain v where v: "write_request_opens g P i e req s v" ..
  obtain rc s2 where w: "port_write_after P (ent_data_id e) v (write_hook_state i req s) = (rc, s2)"
    by (metis prod.exhaust)
  have "R s (write_hook_state i req s)" unfolding write_hook_state_def by (intro R_steps)
  then have "R s s2" using R_write_after [OF w] by blast
  then show ?thesis
    by (simp add: verify_and_apply_write_opens [OF v] w release_write_def start_write_session_def
        R_steps)
next
  case False
  then show ?thesis
    using verify_and_apply_write_refused [of g P i e req s]
    by (auto simp: release_write_def R_steps)
qed

lemma handle_read_poll_R: "R s (snd (handle_read_poll g P i e c req rm s))"
proof -
  obtain x pt s1 where a: "port_read_before P (ent_data_id e) (unat (ent_data_len e)) s = ((x, pt), s1)"
    by (metis prod.exhaust)
  have r1: "R s s1" using R_read_hook [OF a] .
  show ?thesis
    using r1
    by (simp add: handle_read_poll_def Let_def a R_steps split: option.split sum.split)
qed

lemma handle_write_poll_R: "R s (snd (handle_write_poll g P i e c req s))"
proof -
  have w: "R s (snd (port_write_after P d v s))" for d v
    using R_write_hook [of d v s] by (metis prod.collapse)
  show ?thesis
    by (simp add: handle_write_poll_def Let_def case_prod_unfold w R_steps
        split: option.split sum.split)
qed

lemma deliver_prepared_R: "R s (snd (deliver_prepared P i rm s))"
  by (simp add: deliver_prepared_def Let_def R_steps)

lemma dispatch_R: "R s (snd (fbsec_sod_dispatch g P c d req rm s))"
  by (simp add: fbsec_sod_dispatch_def dispatch_write_def Let_def R_refl arm_read_response_R
      arm_write_challenge_R verify_and_apply_write_R handle_read_poll_R handle_write_poll_R
      deliver_prepared_R split: option.split)

lemma dispatch_related: "fbsec_sod_dispatch g P c d req rm s = (st, s') \<Longrightarrow> R s s'"
  using dispatch_R [of s g c d req rm] by simp

text \<open>
  With a write hook \<open>w\<close> that respects the relation in place of the host's own,
  the relation says what every request does that does not reach the host's
  write hook.
\<close>

lemma dispatch_reaches:
  assumes P: "P = Q\<lparr>port_write_after := w\<rparr>"
    and run: "fbsec_sod_dispatch g Q c d req rm s = (st, s')"
  shows "R s s' \<or> (\<exists>v a. write_reaches g Q c d req s v a \<and> hook_result Q d v a s')"
proof (cases "find_index s d")
  case None
  then show ?thesis using run by (simp add: fbsec_sod_dispatch_def R_refl)
next
  case (Some i)
  define e where "e = registry s ! i"
  have d: "ent_data_id e = d" using find_index_SomeD(2) [OF Some] by (simp add: e_def)
  consider "s' = s"
    | "handle_read_poll g Q i e c req rm s = (st, s')"
    | "handle_write_poll g Q i e c req s = (st, s')"
      "ent_access_flags e AND FBSEC_SOD_ACCESS_SECURE_WO \<noteq> 0"
    | "arm_read_response g Q i e c req s = (st, s')"
    | "deliver_prepared Q i rm s = (st, s')"
    | kid hk where "arm_write_challenge Q i e c kid hk rm s = (st, s')"
    | "verify_and_apply_write g Q i e req s = (st, s')"
      "ent_access_flags e AND FBSEC_SOD_ACCESS_SECURE_WO \<noteq> 0"
    using run Some unfolding fbsec_sod_dispatch_def Let_def e_def dispatch_write_def
    by (auto split: if_splits)
  then show ?thesis
  proof cases
    case 1
    then show ?thesis by (simp add: R_refl)
  next
    case 2
    then show ?thesis using handle_read_poll_R [of s g i e c req rm] by (simp add: P)
  next
    case 3
    show ?thesis
    proof (cases "\<exists>v ctr. write_poll_opens g Q i e c req s v ctr")
      case True
      then obtain v ctr where o: "write_poll_opens g Q i e c req s v ctr" by blast
      have "write_reaches g Q c d req s v s"
        using Some 3(2) o by (auto simp: write_reaches_def e_def)
      then show ?thesis using handle_write_poll_hook [OF 3(1) o] d by blast
    next
      case False
      from handle_write_poll_refused [OF this] 3(1) show ?thesis
        by (auto simp: release_write_def R_steps)
    qed
  next
    case 4
    then show ?thesis using arm_read_response_R [of s g i e c req] by (simp add: P)
  next
    case 5
    then show ?thesis using deliver_prepared_R [of s i rm] by (simp add: P)
  next
    case 6
    then show ?thesis using arm_write_challenge_R [of s i e c kid hk rm] by (simp add: P)
  next
    case 7
    show ?thesis
    proof (cases "\<exists>v. write_request_opens g Q i e req s v")
      case True
      then obtain v where o: "write_request_opens g Q i e req s v" by blast
      have "write_reaches g Q c d req s v (write_hook_state i req s)"
        using Some 7(2) o by (auto simp: write_reaches_def e_def)
      then show ?thesis using verify_and_apply_write_hook [OF 7(1) o] d by blast
    next
      case False
      from verify_and_apply_write_refused [OF this] 7(1) show ?thesis
        by (auto simp: release_write_def R_steps)
    qed
  qed
qed

end

end
