(* ===== verification/Server_State.thy ===== *)
theory Server_State
  imports Secure_Od_Dispatch Asym Descriptor
begin

text \<open>
  The state of the reference server behind the secure object dictionary
  (\<open>server_common/\<close>): the file-static variables of the hooks, the lifecycle,
  the constant object dictionary, the asymmetric identity store and the signed
  access challenge are the fields of one record \<open>server\<close>, which is the \<open>host\<close>
  field of the dictionary's state. The clock and the random source of the
  platform (\<open>GetTickCount\<close>, \<open>CryptGenRandom\<close>) are the record \<open>platform\<close>, whose
  own state is the field \<open>sv_env\<close>.

  This theory holds the lifecycle (\<open>server_common_lifecycle.c\<close>), the constant
  dictionary (\<open>server_common_const_od.c\<close>), the key installation
  (\<open>server_common_keys.c\<close>) and the port hooks (\<open>server_common_hooks.c\<close>); the
  parsers of the two files are in \<open>Server_Files\<close>.
\<close>

section \<open>Identifiers\<close>

abbreviation (input) FBSEC_SERVER_ENTRY_RD_DATA_ID :: u32 where
  "FBSEC_SERVER_ENTRY_RD_DATA_ID \<equiv> 0x20200000"
abbreviation (input) FBSEC_SERVER_ENTRY_WR_DATA_ID :: u32 where
  "FBSEC_SERVER_ENTRY_WR_DATA_ID \<equiv> 0x20100000"
abbreviation (input) FBSEC_SERVER_ENTRY_SRD_DATA_ID :: u32 where
  "FBSEC_SERVER_ENTRY_SRD_DATA_ID \<equiv> 0xC0180000"
abbreviation (input) FBSEC_SERVER_ENTRY_SWR_DATA_ID :: u32 where
  "FBSEC_SERVER_ENTRY_SWR_DATA_ID \<equiv> 0x20160000"
abbreviation (input) FBSEC_SERVER_ENTRY_RPK_RD_DATA_ID :: u32 where
  "FBSEC_SERVER_ENTRY_RPK_RD_DATA_ID \<equiv> 0x20210000"
abbreviation (input) FBSEC_SERVER_ENTRY_RPK_WR_DATA_ID :: u32 where
  "FBSEC_SERVER_ENTRY_RPK_WR_DATA_ID \<equiv> 0x20170000"
abbreviation (input) FBSEC_SEC_KEY_SET_DATA_ID :: u32 where
  "FBSEC_SEC_KEY_SET_DATA_ID \<equiv> 0xC01F0000"
abbreviation (input) FBSEC_SERVER_ENTRY_VALUE_LEN :: nat where "FBSEC_SERVER_ENTRY_VALUE_LEN \<equiv> 4"
abbreviation (input) FBSEC_SERVER_ENTRY_SECURE_LEN :: nat where "FBSEC_SERVER_ENTRY_SECURE_LEN \<equiv> 16"

abbreviation (input) FBSEC_DEMO_KEYID_PROVISIONING :: u8 where "FBSEC_DEMO_KEYID_PROVISIONING \<equiv> 1"
abbreviation (input) FBSEC_DEMO_KEYID_INTEGRATOR :: u8 where "FBSEC_DEMO_KEYID_INTEGRATOR \<equiv> 2"
abbreviation (input) FBSEC_DEMO_KEYID_OPERATOR :: u8 where "FBSEC_DEMO_KEYID_OPERATOR \<equiv> 3"
abbreviation (input) FBSEC_DEMO_KEYID_CLAIM_TOKEN :: u8 where "FBSEC_DEMO_KEYID_CLAIM_TOKEN \<equiv> 4"
abbreviation (input) FBSEC_DEMO_KEYID_VALUE_PROVISIONING :: u32 where
  "FBSEC_DEMO_KEYID_VALUE_PROVISIONING \<equiv> 0x1001"
abbreviation (input) FBSEC_DEMO_KEYID_VALUE_INTEGRATOR :: u32 where
  "FBSEC_DEMO_KEYID_VALUE_INTEGRATOR \<equiv> 0x1002"
abbreviation (input) FBSEC_DEMO_KEYID_VALUE_OPERATOR :: u32 where
  "FBSEC_DEMO_KEYID_VALUE_OPERATOR \<equiv> 0x1003"
abbreviation (input) FBSEC_DEMO_KEYID_VALUE_CLAIM_TOKEN :: u32 where
  "FBSEC_DEMO_KEYID_VALUE_CLAIM_TOKEN \<equiv> 0x1000"
abbreviation (input) FBSEC_KEY_SET_BODY_LEN :: nat where
  "FBSEC_KEY_SET_BODY_LEN \<equiv> 1 + 4 + FBSEC_AEAD_KEY_SIZE"
abbreviation (input) FBSEC_SERVER_ASYM_PEER_SLOTS :: u8 where "FBSEC_SERVER_ASYM_PEER_SLOTS \<equiv> 4"
abbreviation (input) FBSEC_CONST_OD_MAX_ENTRIES :: nat where "FBSEC_CONST_OD_MAX_ENTRIES \<equiv> 32"
abbreviation (input) FBSEC_CONST_OD_MAX_DATA :: nat where "FBSEC_CONST_OD_MAX_DATA \<equiv> 8"
abbreviation (input) FBSEC_OD_IDENTITY_INDEX :: u16 where "FBSEC_OD_IDENTITY_INDEX \<equiv> 0x1018"

section \<open>State\<close>

datatype lifecycle_stage =
    FBSEC_STAGE_FACTORY
  | FBSEC_STAGE_UNCOMMISSIONED
  | FBSEC_STAGE_OWNED
  | FBSEC_STAGE_OPERATIONAL
  | FBSEC_STAGE_DECOMMISSIONED

record const_od_entry =
  ce_index :: u16
  ce_sub :: u8
  ce_len :: u8
  ce_data :: bytes

record asym_store =
  as_idevid :: keypair
  as_idevid_cert :: bytes
  as_ldevid :: keypair
  as_ldevid_present :: bool
  as_anchor :: bytes
  as_owner :: bytes
  as_owner_set :: bool
  as_owner_epoch :: u32
  as_uncommissioned :: bool
  as_serial :: bytes
  as_provisioning_key :: bytes
  as_provisioning_set :: bool
  as_peer :: "bytes list"
  as_peer_set :: "bool list"
  as_ready :: bool

record challenge =
  ch_armed :: bool
  ch_client_dev :: u16
  ch_data_id :: u32
  ch_server_nonce :: bytes

record 'e server =
  sv_my_dev :: u16
  sv_value :: bytes
  sv_secure_ro :: bytes
  sv_secure_wo :: bytes
  sv_rpk_ro :: bytes
  sv_rpk_wo :: bytes
  sv_stage :: lifecycle_stage
  sv_const_od :: "const_od_entry list"
  sv_asym :: asym_store
  sv_challenge :: challenge
  sv_env :: 'e

type_synonym 'e srv = "'e server sod"

record 'e platform =
  GetTickCount :: "'e \<Rightarrow> u32"
  CryptGenRandom :: "nat \<Rightarrow> 'e \<Rightarrow> bytes option \<times> 'e"

definition platform_ok :: "'e platform \<Rightarrow> bool" where
  "platform_ok F \<longleftrightarrow> (\<forall>n e b. fst (CryptGenRandom F n e) = Some b \<longrightarrow> length b = n)"

definition upd_host :: "('h \<Rightarrow> 'h) \<Rightarrow> 'h sod \<Rightarrow> 'h sod" where
  "upd_host f s = s\<lparr>host := f (host s)\<rparr>"

section \<open>Lifecycle\<close>

definition fbsec_server_lifecycle_init :: "'e srv \<Rightarrow> 'e srv" where
  "fbsec_server_lifecycle_init = upd_host (\<lambda>h. h\<lparr>sv_stage := FBSEC_STAGE_FACTORY\<rparr>)"

definition fbsec_server_lifecycle_set :: "lifecycle_stage \<Rightarrow> 'e srv \<Rightarrow> 'e srv" where
  "fbsec_server_lifecycle_set stage = upd_host (\<lambda>h. h\<lparr>sv_stage := stage\<rparr>)"

definition fbsec_server_lifecycle_get :: "'e srv \<Rightarrow> lifecycle_stage" where
  "fbsec_server_lifecycle_get s = sv_stage (host s)"

fun commissioning_byte :: "lifecycle_stage \<Rightarrow> u8" where
  "commissioning_byte FBSEC_STAGE_OWNED = FBSEC_STAT_COMMISSIONED"
| "commissioning_byte FBSEC_STAGE_OPERATIONAL = FBSEC_STAT_COMMISSIONED"
| "commissioning_byte FBSEC_STAGE_FACTORY = FBSEC_STAT_UNCOMMISSIONED"
| "commissioning_byte FBSEC_STAGE_UNCOMMISSIONED = FBSEC_STAT_UNCOMMISSIONED"
| "commissioning_byte FBSEC_STAGE_DECOMMISSIONED = FBSEC_STAT_UNCOMMISSIONED"

definition fbsec_server_lifecycle_commissioning :: "'e srv \<Rightarrow> u8" where
  "fbsec_server_lifecycle_commissioning s = commissioning_byte (sv_stage (host s))"

section \<open>Constant object dictionary\<close>

text \<open>The scan of the table; the value is the first \<open>len\<close> bytes of the entry's data.\<close>

fun const_od_lookup :: "const_od_entry list \<Rightarrow> u16 \<Rightarrow> u8 \<Rightarrow> bytes option" where
  "const_od_lookup [] idx sub = None"
| "const_od_lookup (e # es) idx sub =
     (if ce_index e = idx \<and> ce_sub e = sub then Some (take (unat (ce_len e)) (ce_data e))
      else const_od_lookup es idx sub)"

definition fbsec_const_od_init :: "'e srv \<Rightarrow> 'e srv" where
  "fbsec_const_od_init = upd_host (\<lambda>h. h\<lparr>sv_const_od := []\<rparr>)"

definition fbsec_const_od_get :: "'e srv \<Rightarrow> u16 \<Rightarrow> u8 \<Rightarrow> bytes option" where
  "fbsec_const_od_get s idx sub = const_od_lookup (sv_const_od (host s)) idx sub"

definition fbsec_const_od_count :: "'e srv \<Rightarrow> u8" where
  "fbsec_const_od_count s = of_nat (length (sv_const_od (host s)))"

definition fbsec_const_od_at :: "'e srv \<Rightarrow> u8 \<Rightarrow> (u16 \<times> u8 \<times> bytes) option" where
  "fbsec_const_od_at s pos =
     (if pos \<ge> fbsec_const_od_count s then None
      else let e = sv_const_od (host s) ! unat pos
           in Some (ce_index e, ce_sub e, take (unat (ce_len e)) (ce_data e)))"

text \<open>
  The loop over the sub-indices; \<open>acc\<close> is what has been copied to \<open>out16\<close>, which
  is part of the result because the copies made before a failure stay there.
\<close>

fun identity_subs :: "(u8 \<Rightarrow> bytes option) \<Rightarrow> u8 list \<Rightarrow> bytes \<Rightarrow> bool \<times> bytes" where
  "identity_subs get [] acc = (length acc = 16, acc)"
| "identity_subs get (s # ss) acc =
     (case get s of
        None \<Rightarrow> (False, acc)
      | Some p \<Rightarrow>
          if length acc + length p > 16 then (False, acc) else identity_subs get ss (acc @ p))"

definition fbsec_const_od_get_identity :: "'e srv \<Rightarrow> bytes \<Rightarrow> bool \<times> bytes" where
  "fbsec_const_od_get_identity s out16 =
     (case identity_subs (fbsec_const_od_get s FBSEC_OD_IDENTITY_INDEX) [1, 2, 3, 4] [] of
        (ok, acc) \<Rightarrow> (ok, acc @ drop (length acc) out16))"

section \<open>Keys\<close>

definition FBSEC_DEMO_KEY_PROVISIONING :: bytes where
  "FBSEC_DEMO_KEY_PROVISIONING =
     [0x00, 0x11, 0x22, 0x33, 0x44, 0x55, 0x66, 0x77, 0x88, 0x99, 0xAA, 0xBB, 0xCC, 0xDD, 0xEE, 0xFF,
      0x00, 0x11, 0x22, 0x33, 0x44, 0x55, 0x66, 0x77, 0x88, 0x99, 0xAA, 0xBB, 0xCC, 0xDD, 0xEE, 0xFF]"

definition FBSEC_DEMO_KEY_INTEGRATOR :: bytes where
  "FBSEC_DEMO_KEY_INTEGRATOR =
     [0xAA, 0xBB, 0xCC, 0xDD, 0xEE, 0xFF, 0x00, 0x11, 0x22, 0x33, 0x44, 0x55, 0x66, 0x77, 0x88, 0x99,
      0xAA, 0xBB, 0xCC, 0xDD, 0xEE, 0xFF, 0x00, 0x11, 0x22, 0x33, 0x44, 0x55, 0x66, 0x77, 0x88, 0x99]"

definition FBSEC_DEMO_KEY_OPERATOR :: bytes where
  "FBSEC_DEMO_KEY_OPERATOR =
     [0xFF, 0xEE, 0xDD, 0xCC, 0xBB, 0xAA, 0x99, 0x88, 0x77, 0x66, 0x55, 0x44, 0x33, 0x22, 0x11, 0x00,
      0xFF, 0xEE, 0xDD, 0xCC, 0xBB, 0xAA, 0x99, 0x88, 0x77, 0x66, 0x55, 0x44, 0x33, 0x22, 0x11, 0x00]"

definition FBSEC_DEMO_CLAIM_TOKEN :: bytes where
  "FBSEC_DEMO_CLAIM_TOKEN =
     [0x01, 0x23, 0x45, 0x67, 0x89, 0xAB, 0xCD, 0xEF, 0xFE, 0xDC, 0xBA, 0x98, 0x76, 0x54, 0x32, 0x10,
      0x01, 0x23, 0x45, 0x67, 0x89, 0xAB, 0xCD, 0xEF, 0xFE, 0xDC, 0xBA, 0x98, 0x76, 0x54, 0x32, 0x10]"

text \<open>\<open>set_key_ex\<close> copies the first \<open>FBSEC_AEAD_KEY_SIZE\<close> bytes at the pointer.\<close>

definition set_key_from :: "u8 \<Rightarrow> bytes \<Rightarrow> u32 \<Rightarrow> 'h sod \<Rightarrow> bool \<times> 'h sod" where
  "set_key_from k p v s = fbsec_sod_set_key_ex k (take FBSEC_AEAD_KEY_SIZE p) v s"

definition install_if_unset :: "u8 \<Rightarrow> bytes \<Rightarrow> u32 \<Rightarrow> 'h sod \<Rightarrow> 'h sod" where
  "install_if_unset k p v s =
     (if \<not> fbsec_sod_has_key s k then snd (set_key_from k p v s) else s)"

definition fbsec_server_install_demo_keys_if_unset :: "'h sod \<Rightarrow> 'h sod" where
  "fbsec_server_install_demo_keys_if_unset s =
     install_if_unset FBSEC_DEMO_KEYID_OPERATOR FBSEC_DEMO_KEY_OPERATOR
       FBSEC_DEMO_KEYID_VALUE_OPERATOR
      (install_if_unset FBSEC_DEMO_KEYID_INTEGRATOR FBSEC_DEMO_KEY_INTEGRATOR
         FBSEC_DEMO_KEYID_VALUE_INTEGRATOR
        (install_if_unset FBSEC_DEMO_KEYID_PROVISIONING FBSEC_DEMO_KEY_PROVISIONING
           FBSEC_DEMO_KEYID_VALUE_PROVISIONING s))"

definition fbsec_server_install_claim_token :: "'h sod \<Rightarrow> 'h sod" where
  "fbsec_server_install_claim_token s =
     install_if_unset FBSEC_DEMO_KEYID_CLAIM_TOKEN FBSEC_DEMO_CLAIM_TOKEN
       FBSEC_DEMO_KEYID_VALUE_CLAIM_TOKEN s"

text \<open>The tier that must authorize the installation of a tier.\<close>

definition ladder_need :: "u8 \<Rightarrow> u8 option" where
  "ladder_need selector =
     (if selector = FBSEC_DEMO_KEYID_PROVISIONING then Some FBSEC_DEMO_KEYID_CLAIM_TOKEN
      else if selector = FBSEC_DEMO_KEYID_INTEGRATOR then Some FBSEC_DEMO_KEYID_PROVISIONING
      else if selector = FBSEC_DEMO_KEYID_OPERATOR then Some FBSEC_DEMO_KEYID_INTEGRATOR
      else None)"

definition fbsec_server_apply_key_set :: "bytes \<Rightarrow> 'e srv \<Rightarrow> abort \<times> 'e srv" where
  "fbsec_server_apply_key_set body s =
     (if length body \<noteq> FBSEC_KEY_SET_BODY_LEN then (FBSEC_ABORT_TYPE_MISMATCH, s)
      else let selector = body ! 0; keyid_val = get32 body 1 in
        case ladder_need selector of
          None \<Rightarrow> (FBSEC_ABORT_TYPE_MISMATCH, s)
        | Some need \<Rightarrow>
            if fbsec_sod_last_write_key_id s \<noteq> need then (FBSEC_ABORT_ROLE_DENIED, s)
            else if fbsec_sod_has_key s selector then (FBSEC_ABORT_DEVICE_STATE, s)
            else
              (case set_key_from selector (drop 5 body) keyid_val s of
                 (ok, s1) \<Rightarrow>
                   if \<not> ok then (FBSEC_ABORT_DEVICE_STATE, s1)
                   else if fbsec_sod_has_key s1 FBSEC_DEMO_KEYID_OPERATOR then
                     (FBSEC_ABORT_NONE, fbsec_server_lifecycle_set FBSEC_STAGE_OPERATIONAL s1)
                   else if fbsec_sod_has_key s1 FBSEC_DEMO_KEYID_PROVISIONING then
                     (FBSEC_ABORT_NONE, fbsec_server_lifecycle_set FBSEC_STAGE_OWNED s1)
                   else (FBSEC_ABORT_NONE, s1)))"

section \<open>Port hooks\<close>

definition fbsec_server_hooks_set_my_dev :: "u16 \<Rightarrow> 'e srv \<Rightarrow> 'e srv" where
  "fbsec_server_hooks_set_my_dev d = upd_host (\<lambda>h. h\<lparr>sv_my_dev := d\<rparr>)"

definition fbsec_server_hooks_load_identity :: "'e srv \<Rightarrow> bool \<times> 'e srv" where
  "fbsec_server_hooks_load_identity s =
     (case fbsec_const_od_get_identity s (sv_secure_ro (host s)) of
        (ok, i) \<Rightarrow> (ok, upd_host (\<lambda>h. h\<lparr>sv_secure_ro := i\<rparr>) s))"

definition fbsec_sod_port_get_device_id :: "'e srv \<Rightarrow> u16" where
  "fbsec_sod_port_get_device_id s = sv_my_dev (host s)"

definition fbsec_sod_port_get_time_ms :: "'e platform \<Rightarrow> 'e srv \<Rightarrow> u16" where
  "fbsec_sod_port_get_time_ms F s = ucast (GetTickCount F (sv_env (host s)))"

definition fbsec_sod_port_random :: "'e platform \<Rightarrow> nat \<Rightarrow> 'e srv \<Rightarrow> bytes option \<times> 'e srv" where
  "fbsec_sod_port_random F len s =
     (if len = 0 then (None, s)
      else case CryptGenRandom F len (sv_env (host s)) of
        (b, e) \<Rightarrow> (b, upd_host (\<lambda>h. h\<lparr>sv_env := e\<rparr>) s))"

definition fbsec_sod_port_access_allowed :: "sod_op \<Rightarrow> u32 \<Rightarrow> 'e srv \<Rightarrow> bool" where
  "fbsec_sod_port_access_allowed op data_id s = True"

definition fbsec_sod_port_role_allowed :: "sod_op \<Rightarrow> u8 \<Rightarrow> u32 \<Rightarrow> 'e srv \<Rightarrow> bool" where
  "fbsec_sod_port_role_allowed op key_id_base data_id s =
     (if op = SOD_OP_READ then True
      else if data_id = FBSEC_SEC_KEY_SET_DATA_ID then
        key_id_base = FBSEC_DEMO_KEYID_CLAIM_TOKEN \<or>
        key_id_base = FBSEC_DEMO_KEYID_PROVISIONING \<or>
        key_id_base = FBSEC_DEMO_KEYID_INTEGRATOR
      else key_id_base = FBSEC_DEMO_KEYID_PROVISIONING \<or>
           key_id_base = FBSEC_DEMO_KEYID_INTEGRATOR)"

text \<open>The big-endian increment of a four-byte value.\<close>

definition bump_be :: "bytes \<Rightarrow> bytes" where
  "bump_be p = rev (le32 (rd32 (p ! 3) (p ! 2) (p ! 1) (p ! 0) + 1))"

definition fbsec_sod_port_read_before :: "u32 \<Rightarrow> nat \<Rightarrow> 'e srv \<Rightarrow> (abort \<times> bytes) \<times> 'e srv" where
  "fbsec_sod_port_read_before data_id len s =
     (if data_id = FBSEC_SERVER_ENTRY_SRD_DATA_ID then
        ((FBSEC_ABORT_NONE, sv_secure_ro (host s)), s)
      else if data_id = FBSEC_SERVER_ENTRY_RD_DATA_ID then
        ((FBSEC_ABORT_NONE, sv_value (host s)), upd_host (\<lambda>h. h\<lparr>sv_value := bump_be (sv_value h)\<rparr>) s)
      else if data_id = FBSEC_SERVER_ENTRY_RPK_RD_DATA_ID then
        ((FBSEC_ABORT_NONE, sv_rpk_ro (host s)),
         upd_host (\<lambda>h. h\<lparr>sv_rpk_ro := bump_be (sv_rpk_ro h)\<rparr>) s)
      else ((FBSEC_ABORT_NO_OBJECT, []), s))"

definition fbsec_sod_port_write_after :: "u32 \<Rightarrow> bytes \<Rightarrow> 'e srv \<Rightarrow> abort \<times> 'e srv" where
  "fbsec_sod_port_write_after data_id src s =
     (if data_id = FBSEC_SERVER_ENTRY_SWR_DATA_ID then
        (if length src \<noteq> FBSEC_SERVER_ENTRY_SECURE_LEN then (FBSEC_ABORT_TYPE_MISMATCH, s)
         else (FBSEC_ABORT_NONE, upd_host (\<lambda>h. h\<lparr>sv_secure_wo := src\<rparr>) s))
      else if data_id = FBSEC_SERVER_ENTRY_WR_DATA_ID then
        (if length src \<noteq> FBSEC_SERVER_ENTRY_VALUE_LEN then (FBSEC_ABORT_TYPE_MISMATCH, s)
         else (FBSEC_ABORT_NONE, upd_host (\<lambda>h. h\<lparr>sv_value := src\<rparr>) s))
      else if data_id = FBSEC_SEC_KEY_SET_DATA_ID then fbsec_server_apply_key_set src s
      else if data_id = FBSEC_SERVER_ENTRY_RPK_WR_DATA_ID then
        (if length src \<noteq> FBSEC_SERVER_ENTRY_SECURE_LEN then (FBSEC_ABORT_TYPE_MISMATCH, s)
         else (FBSEC_ABORT_NONE, upd_host (\<lambda>h. h\<lparr>sv_rpk_wo := src\<rparr>) s))
      else (FBSEC_ABORT_NO_OBJECT, s))"

definition server_port :: "'e platform \<Rightarrow> 'e server port" where
  "server_port F = \<lparr>
     port_get_device_id = fbsec_sod_port_get_device_id,
     port_get_time_ms = fbsec_sod_port_get_time_ms F,
     port_random = fbsec_sod_port_random F,
     port_access_allowed = fbsec_sod_port_access_allowed,
     port_role_allowed = fbsec_sod_port_role_allowed,
     port_read_before = fbsec_sod_port_read_before,
     port_write_after = fbsec_sod_port_write_after\<rparr>"

end
