(* ===== verification/Server_Handover.thy ===== *)
theory Server_Handover
  imports Server_State
begin

text \<open>
  The asymmetric identity store and the handover objects of the reference
  server (\<open>server_common_asym.c\<close>, \<open>server_common_handover.c\<close>): identity read,
  ownership voucher, owner epoch, provisioning-key install, operational
  identity export and the manufacturer reset. Every handler sends exactly one
  reply, so it returns the reply (status and data) and the new state; the
  request trace is output only and has no state.
\<close>

section \<open>Demo material\<close>

definition FBSEC_DEMO_MFG_SEED :: bytes where
  "FBSEC_DEMO_MFG_SEED =
     [0x10, 0x11, 0x12, 0x13, 0x14, 0x15, 0x16, 0x17, 0x18, 0x19, 0x1A, 0x1B, 0x1C, 0x1D, 0x1E, 0x1F,
      0x20, 0x21, 0x22, 0x23, 0x24, 0x25, 0x26, 0x27, 0x28, 0x29, 0x2A, 0x2B, 0x2C, 0x2D, 0x2E, 0x2F]"

definition FBSEC_DEMO_IDEVID_SEED :: bytes where
  "FBSEC_DEMO_IDEVID_SEED =
     [0x30, 0x31, 0x32, 0x33, 0x34, 0x35, 0x36, 0x37, 0x38, 0x39, 0x3A, 0x3B, 0x3C, 0x3D, 0x3E, 0x3F,
      0x40, 0x41, 0x42, 0x43, 0x44, 0x45, 0x46, 0x47, 0x48, 0x49, 0x4A, 0x4B, 0x4C, 0x4D, 0x4E, 0x4F]"

definition FBSEC_DEMO_INTEGRATOR_SEED :: bytes where
  "FBSEC_DEMO_INTEGRATOR_SEED =
     [0x50, 0x51, 0x52, 0x53, 0x54, 0x55, 0x56, 0x57, 0x58, 0x59, 0x5A, 0x5B, 0x5C, 0x5D, 0x5E, 0x5F,
      0x60, 0x61, 0x62, 0x63, 0x64, 0x65, 0x66, 0x67, 0x68, 0x69, 0x6A, 0x6B, 0x6C, 0x6D, 0x6E, 0x6F]"

definition FBSEC_DEMO_LDEVID_SEED :: bytes where
  "FBSEC_DEMO_LDEVID_SEED =
     [0x70, 0x71, 0x72, 0x73, 0x74, 0x75, 0x76, 0x77, 0x78, 0x79, 0x7A, 0x7B, 0x7C, 0x7D, 0x7E, 0x7F,
      0x80, 0x81, 0x82, 0x83, 0x84, 0x85, 0x86, 0x87, 0x88, 0x89, 0x8A, 0x8B, 0x8C, 0x8D, 0x8E, 0x8F]"

definition FBSEC_DEMO_DEVICE_SERIAL :: bytes where
  "FBSEC_DEMO_DEVICE_SERIAL = [0x53, 0x4F, 0x46, 0x41, 0x00, 0x00, 0x00, 0x01]"

abbreviation (input) FBSEC_DEMO_OWNER_EPOCH_START :: u32 where "FBSEC_DEMO_OWNER_EPOCH_START \<equiv> 1"

section \<open>The identity store\<close>

abbreviation astore :: "'e srv \<Rightarrow> asym_store" where "astore s \<equiv> sv_asym (host s)"

definition upd_asym :: "(asym_store \<Rightarrow> asym_store) \<Rightarrow> 'e srv \<Rightarrow> 'e srv" where
  "upd_asym f = upd_host (\<lambda>h. h\<lparr>sv_asym := f (sv_asym h)\<rparr>)"

definition zero_keypair :: keypair where
  "zero_keypair = \<lparr>kp_priv = replicate FBSEC_ASYM_PRIVKEY_SIZE 0,
     kp_pub = replicate FBSEC_ASYM_PUBKEY_SIZE 0\<rparr>"

definition build_identity_blob :: "asym_store \<Rightarrow> bytes" where
  "build_identity_blob st = as_serial st @ kp_pub (as_idevid st)"

definition fbsec_server_asym_init :: "ed25519 \<Rightarrow> 'e srv \<Rightarrow> 'e srv" where
  "fbsec_server_asym_init E s =
     (let idevid = fbsec_asym_keygen E FBSEC_DEMO_IDEVID_SEED;
          mfg = fbsec_asym_keygen E FBSEC_DEMO_MFG_SEED;
          blob = FBSEC_DEMO_DEVICE_SERIAL @ kp_pub idevid;
          cert = (case fbsec_asym_transcript FBSEC_ASYM_RD_IDEVID_CERT blob
                         (FBSEC_ASYM_TRANSCRIPT_OVERHEAD + FBSEC_ASYM_IDENTITY_BLOB_LEN) of
                    None \<Rightarrow> fbsec_asym_sign E mfg []
                  | Some t \<Rightarrow> fbsec_asym_sign E mfg t)
      in upd_asym (\<lambda>_. \<lparr>
           as_idevid = idevid, as_idevid_cert = cert,
           as_ldevid = zero_keypair, as_ldevid_present = False,
           as_anchor = kp_pub mfg,
           as_owner = replicate FBSEC_ASYM_PUBKEY_SIZE 0, as_owner_set = False,
           as_owner_epoch = FBSEC_DEMO_OWNER_EPOCH_START,
           as_uncommissioned = True, as_serial = FBSEC_DEMO_DEVICE_SERIAL,
           as_provisioning_key = replicate FBSEC_AEAD_KEY_SIZE 0, as_provisioning_set = False,
           as_peer = replicate 5 (replicate FBSEC_ASYM_PUBKEY_SIZE 0),
           as_peer_set = replicate 5 False, as_ready = True\<rparr>) s)"

definition fbsec_server_asym_idevid_present :: "'e srv \<Rightarrow> bool" where
  "fbsec_server_asym_idevid_present s = as_ready (astore s)"

definition fbsec_server_asym_ldevid_present :: "'e srv \<Rightarrow> bool" where
  "fbsec_server_asym_ldevid_present s = as_ldevid_present (astore s)"

definition fbsec_server_asym_is_uncommissioned :: "'e srv \<Rightarrow> bool" where
  "fbsec_server_asym_is_uncommissioned s = as_uncommissioned (astore s)"

definition fbsec_server_asym_owner_epoch :: "'e srv \<Rightarrow> u32" where
  "fbsec_server_asym_owner_epoch s = as_owner_epoch (astore s)"

definition fbsec_server_asym_owner :: "'e srv \<Rightarrow> bytes option" where
  "fbsec_server_asym_owner s = (if as_owner_set (astore s) then Some (as_owner (astore s)) else None)"

definition fbsec_server_asym_generate_ldevid :: "ed25519 \<Rightarrow> 'e srv \<Rightarrow> bytes option \<times> 'e srv" where
  "fbsec_server_asym_generate_ldevid E s =
     (if \<not> as_ready (astore s) then (None, s)
      else let kp = fbsec_asym_keygen E FBSEC_DEMO_LDEVID_SEED
        in (Some (kp_pub kp), upd_asym (\<lambda>a. a\<lparr>as_ldevid := kp, as_ldevid_present := True\<rparr>) s))"

definition fbsec_server_asym_claim :: "ed25519 \<Rightarrow> bytes \<Rightarrow> 'e srv \<Rightarrow> bool \<times> 'e srv" where
  "fbsec_server_asym_claim E voucher s =
     (if length voucher \<noteq> FBSEC_HO_VOUCHER_LEN \<or> \<not> as_ready (astore s) then (False, s)
      else
        let body_len = FBSEC_ASYM_SERIAL_LEN + FBSEC_ASYM_PUBKEY_SIZE + 4;
            serial = take FBSEC_ASYM_SERIAL_LEN voucher;
            integ_pub = slice voucher FBSEC_ASYM_SERIAL_LEN FBSEC_ASYM_PUBKEY_SIZE;
            epoch = get32 voucher (FBSEC_ASYM_SERIAL_LEN + FBSEC_ASYM_PUBKEY_SIZE);
            sig = drop body_len voucher
        in (case fbsec_asym_transcript FBSEC_ASYM_RD_VOUCHER (take body_len voucher)
                   (FBSEC_ASYM_TRANSCRIPT_OVERHEAD + body_len) of
              None \<Rightarrow> (False, s)
            | Some t \<Rightarrow>
                if \<not> fbsec_asym_verify E (as_anchor (astore s)) t sig then (False, s)
                else if serial \<noteq> as_serial (astore s) \<or> \<not> as_uncommissioned (astore s) \<or>
                        epoch \<le> as_owner_epoch (astore s) then (False, s)
                else (True, upd_asym (\<lambda>a. a\<lparr>as_owner := integ_pub, as_owner_set := True,
                        as_owner_epoch := epoch, as_uncommissioned := False\<rparr>) s)))"

definition fbsec_server_asym_install_provisioning ::
  "ed25519 \<Rightarrow> bytes \<Rightarrow> 'e srv \<Rightarrow> bool \<times> 'e srv" where
  "fbsec_server_asym_install_provisioning E payload s =
     (if length payload \<noteq> FBSEC_HO_PROVISION_LEN \<or> \<not> as_ready (astore s) then (False, s)
      else
        let key = take FBSEC_AEAD_KEY_SIZE payload; sig = drop FBSEC_AEAD_KEY_SIZE payload;
            tr = fbsec_asym_transcript FBSEC_ASYM_RD_PKINSTALL_ACK key
                   (FBSEC_ASYM_TRANSCRIPT_OVERHEAD + FBSEC_AEAD_KEY_SIZE)
        in if \<not> as_owner_set (astore s) then (False, s)
           else (case tr of
              None \<Rightarrow> (False, s)
            | Some t \<Rightarrow>
                if \<not> fbsec_asym_verify E (as_owner (astore s)) t sig then (False, s)
                else (True, upd_asym (\<lambda>a. a\<lparr>as_provisioning_key := key,
                                           as_provisioning_set := True\<rparr>) s)))"

definition fbsec_server_asym_provisioning_key :: "'e srv \<Rightarrow> bytes option" where
  "fbsec_server_asym_provisioning_key s =
     (if as_provisioning_set (astore s) then Some (as_provisioning_key (astore s)) else None)"

definition fbsec_server_asym_decommission :: "'e srv \<Rightarrow> 'e srv" where
  "fbsec_server_asym_decommission = upd_asym (\<lambda>a. a\<lparr>
     as_owner := replicate FBSEC_ASYM_PUBKEY_SIZE 0, as_owner_set := False,
     as_provisioning_key := replicate FBSEC_AEAD_KEY_SIZE 0, as_provisioning_set := False,
     as_ldevid := zero_keypair, as_ldevid_present := False,
     as_uncommissioned := True\<rparr>)"

definition fbsec_server_asym_set_peer :: "u8 \<Rightarrow> bytes \<Rightarrow> 'e srv \<Rightarrow> bool \<times> 'e srv" where
  "fbsec_server_asym_set_peer slot pk s =
     (if slot = 0 \<or> slot > FBSEC_SERVER_ASYM_PEER_SLOTS then (False, s)
      else (True, upd_asym (\<lambda>a. a\<lparr>as_peer := (as_peer a)[unat slot := pk],
                                 as_peer_set := (as_peer_set a)[unat slot := True]\<rparr>) s))"

definition fbsec_server_asym_get_peer :: "'e srv \<Rightarrow> u8 \<Rightarrow> bytes option" where
  "fbsec_server_asym_get_peer s slot =
     (if slot = 0 \<or> slot > FBSEC_SERVER_ASYM_PEER_SLOTS then None
      else if as_peer_set (astore s) ! unat slot then Some (as_peer (astore s) ! unat slot)
      else None)"

section \<open>The handover objects\<close>

type_synonym reply = "abort \<times> bytes"

definition sign_idevid :: "ed25519 \<Rightarrow> u8 \<Rightarrow> bytes \<Rightarrow> 'e srv \<Rightarrow> bytes option" where
  "sign_idevid E role body s =
     (case fbsec_asym_transcript role body
             (FBSEC_ASYM_TRANSCRIPT_OVERHEAD + FBSEC_HO_IDENTITY_REPLY_LEN) of
        None \<Rightarrow> None
      | Some t \<Rightarrow> Some (fbsec_asym_sign E (as_idevid (astore s)) t))"

definition handle_identity :: "ed25519 \<Rightarrow> bytes \<Rightarrow> 'e srv \<Rightarrow> reply \<times> 'e srv" where
  "handle_identity E req s =
     (if length req \<noteq> FBSEC_HO_RT_LEN then
        ((if length req > FBSEC_HO_RT_LEN then FBSEC_ABORT_LEN_TOO_HIGH
          else FBSEC_ABORT_LEN_TOO_LOW, []), s)
      else
        let blob = as_serial (astore s) @ kp_pub (as_idevid (astore s)) in
          (case sign_idevid E FBSEC_ASYM_RD_IDENTITY_READ (blob @ req) s of
             None \<Rightarrow> ((FBSEC_ABORT_INTERNAL, []), s)
           | Some sig \<Rightarrow> ((FBSEC_ABORT_NONE, blob @ as_idevid_cert (astore s) @ sig), s)))"

definition handle_ldevid :: "ed25519 \<Rightarrow> bytes \<Rightarrow> 'e srv \<Rightarrow> reply \<times> 'e srv" where
  "handle_ldevid E req s =
     (if length req < 1 then ((FBSEC_ABORT_LEN_TOO_LOW, []), s)
      else (case fbsec_server_asym_generate_ldevid E s of
          (None, s1) \<Rightarrow> ((FBSEC_ABORT_INTERNAL, []), s1)
        | (Some pub, s1) \<Rightarrow>
            (case sign_idevid E FBSEC_ASYM_RD_LDEVID_EXPORT pub s1 of
               None \<Rightarrow> ((FBSEC_ABORT_INTERNAL, []), s1)
             | Some sig \<Rightarrow> ((FBSEC_ABORT_NONE, pub @ sig), s1))))"

definition handle_provision :: "ed25519 \<Rightarrow> bytes \<Rightarrow> 'e srv \<Rightarrow> reply \<times> 'e srv" where
  "handle_provision E req s =
     (case fbsec_server_asym_install_provisioning E req s of
        (ok, s1) \<Rightarrow>
          if ok then
            (let s2 = (case fbsec_server_asym_provisioning_key s1 of
                         None \<Rightarrow> s1
                       | Some pk \<Rightarrow> snd (set_key_from FBSEC_DEMO_KEYID_PROVISIONING pk
                                          FBSEC_DEMO_KEYID_VALUE_PROVISIONING s1))
             in ((FBSEC_ABORT_NONE, []), fbsec_server_lifecycle_set FBSEC_STAGE_OWNED s2))
          else ((FBSEC_ABORT_SIG_VERIFY, []), s1))"

definition handle_voucher :: "ed25519 \<Rightarrow> bytes \<Rightarrow> 'e srv \<Rightarrow> reply \<times> 'e srv" where
  "handle_voucher E req s =
     (case fbsec_server_asym_claim E req s of
        (ok, s1) \<Rightarrow>
          if ok then ((FBSEC_ABORT_NONE, []), fbsec_server_lifecycle_set FBSEC_STAGE_OWNED s1)
          else ((FBSEC_ABORT_VOUCHER, []), s1))"

definition handle_epoch :: "'e srv \<Rightarrow> reply \<times> 'e srv" where
  "handle_epoch s = ((FBSEC_ABORT_NONE, le32 (fbsec_server_asym_owner_epoch s)), s)"

definition fbsec_server_handover_decommission :: "'e srv \<Rightarrow> 'e srv" where
  "fbsec_server_handover_decommission s =
     fbsec_server_lifecycle_set FBSEC_STAGE_UNCOMMISSIONED
       (fbsec_server_asym_decommission
         (fbsec_server_install_claim_token (fbsec_sod_clear_keys s)))"

text \<open>\<open>None\<close>: the data id is not a handover object and nothing was sent.\<close>

definition fbsec_server_handover_try ::
  "ed25519 \<Rightarrow> u32 \<Rightarrow> bytes \<Rightarrow> 'e srv \<Rightarrow> (reply \<times> 'e srv) option" where
  "fbsec_server_handover_try E data_id req s =
     (if data_id = FBSEC_HO_IDENTITY_ID then Some (handle_identity E req s)
      else if data_id = FBSEC_HO_LDEVID_ID then Some (handle_ldevid E req s)
      else if data_id = FBSEC_HO_PROVISION_ID then Some (handle_provision E req s)
      else if data_id = FBSEC_HO_VOUCHER_ID then Some (handle_voucher E req s)
      else if data_id = FBSEC_HO_EPOCH_ID then Some (handle_epoch s)
      else None)"

end
