(* ===== verification/Server_Rpk.thy ===== *)
theory Server_Rpk
  imports Server_Handover
begin

text \<open>
  The signed objects of the reference server (\<open>server_common_rpk.c\<close>): public
  keys (C021h, C022h), signed generic read and write (C042h) and the signed
  function command (C049h), with their one outstanding challenge.
\<close>

section \<open>Constants and the challenge\<close>

abbreviation (input) RPK_WRITE_PEER_SLOT :: u8 where "RPK_WRITE_PEER_SLOT \<equiv> 1"
abbreviation (input) RPK_BODY_MAX :: nat where "RPK_BODY_MAX \<equiv> 64"
abbreviation (input) RPK_TRANSCRIPT_MAX :: nat where
  "RPK_TRANSCRIPT_MAX \<equiv> RPK_BODY_MAX + FBSEC_ASYM_TRANSCRIPT_OVERHEAD"

abbreviation chall :: "'e srv \<Rightarrow> challenge" where "chall s \<equiv> sv_challenge (host s)"

definition upd_chall :: "(challenge \<Rightarrow> challenge) \<Rightarrow> 'e srv \<Rightarrow> 'e srv" where
  "upd_chall f = upd_host (\<lambda>h. h\<lparr>sv_challenge := f (sv_challenge h)\<rparr>)"

definition disarm :: "'e srv \<Rightarrow> 'e srv" where
  "disarm = upd_chall (\<lambda>c. c\<lparr>ch_armed := False\<rparr>)"

definition build_signed_body ::
  "u16 \<Rightarrow> u16 \<Rightarrow> u32 \<Rightarrow> bytes \<Rightarrow> bytes \<Rightarrow> bytes \<Rightarrow> bytes" where
  "build_signed_body server_id client_id obj_mux client_nonce server_nonce v =
     le16 server_id @ le16 client_id @ le32 obj_mux @ le16 (of_nat (length v)) @
     take FBSEC_RPK_NONCE_LEN client_nonce @ take FBSEC_RPK_NONCE_LEN server_nonce @ v"

section \<open>Public keys\<close>

definition handle_pubkeys :: "u8 \<Rightarrow> bytes \<Rightarrow> 'e srv \<Rightarrow> reply" where
  "handle_pubkeys sub req s =
     (if length req \<noteq> 0 then (FBSEC_ABORT_READ_ONLY, [])
      else if sub = 0x00 then (FBSEC_ABORT_NONE, [FBSEC_RPK_PUBKEY_HIGHEST_SUB])
      else if sub = 0x01 then (FBSEC_ABORT_NONE, as_anchor (astore s))
      else if sub = 0x02 then
        (FBSEC_ABORT_NONE,
         (case fbsec_server_asym_owner s of
            None \<Rightarrow> replicate FBSEC_ASYM_PUBKEY_SIZE 0
          | Some owner \<Rightarrow> owner))
      else (FBSEC_ABORT_NO_SUBINDEX, []))"

definition handle_pktypes :: "u8 \<Rightarrow> bytes \<Rightarrow> reply" where
  "handle_pktypes sub req =
     (if length req \<noteq> 0 then (FBSEC_ABORT_READ_ONLY, [])
      else if sub = 0x00 then (FBSEC_ABORT_NONE, [FBSEC_RPK_PUBKEY_HIGHEST_SUB])
      else if sub = 0x01 \<or> sub = 0x02 then
        (FBSEC_ABORT_NONE,
         le32 (FBSEC_ASYM_ALG_ED25519 OR push_bit 8 (of_nat FBSEC_ASYM_PUBKEY_SIZE)))
      else (FBSEC_ABORT_NO_SUBINDEX, []))"

section \<open>Challenge and verification\<close>

text \<open>
  When the random source fails the nonce buffer holds whatever it left there;
  the model keeps the old nonce, and the armed flag is left as it was.
\<close>

definition arm_challenge :: "'e platform \<Rightarrow> u16 \<Rightarrow> u32 \<Rightarrow> 'e srv \<Rightarrow> reply \<times> 'e srv" where
  "arm_challenge F client_dev data_id s =
     (case fbsec_sod_port_random F FBSEC_RPK_NONCE_LEN s of
        (None, s1) \<Rightarrow> ((FBSEC_ABORT_INTERNAL, []), s1)
      | (Some nonce, s1) \<Rightarrow>
          ((FBSEC_ABORT_NONE, nonce),
           upd_chall (\<lambda>_. \<lparr>ch_armed = True, ch_client_dev = client_dev, ch_data_id = data_id,
                          ch_server_nonce = nonce\<rparr>) s1))"

definition verify_signed ::
  "ed25519 \<Rightarrow> u16 \<Rightarrow> u32 \<Rightarrow> u32 \<Rightarrow> u8 \<Rightarrow> bytes \<Rightarrow> bytes \<Rightarrow> bytes \<Rightarrow> 'e srv \<Rightarrow> abort \<times> 'e srv" where
  "verify_signed E client_dev challenge_id bind_id role client_nonce v sig s =
     (if \<not> ch_armed (chall s) \<or> ch_client_dev (chall s) \<noteq> client_dev \<or>
         ch_data_id (chall s) \<noteq> challenge_id then (FBSEC_ABORT_NO_SESSION, s)
      else (case fbsec_server_asym_get_peer s RPK_WRITE_PEER_SLOT of
          None \<Rightarrow> (FBSEC_ABORT_SIG_VERIFY, disarm s)
        | Some peer \<Rightarrow>
            let body = build_signed_body (fbsec_sod_port_get_device_id s) client_dev bind_id
                         client_nonce (ch_server_nonce (chall s)) v
            in (case fbsec_asym_transcript role body RPK_TRANSCRIPT_MAX of
                  None \<Rightarrow> (FBSEC_ABORT_SIG_VERIFY, disarm s)
                | Some t \<Rightarrow>
                    if \<not> fbsec_asym_verify E peer t sig then (FBSEC_ABORT_SIG_VERIFY, disarm s)
                    else (FBSEC_ABORT_NONE, disarm s))))"

section \<open>Signed read\<close>

definition target_of :: "bytes \<Rightarrow> u32" where
  "target_of req = push_bit 16 (ucast (get16 req 0)) OR push_bit 8 (ucast (req ! 2))"

definition handle_generic_read ::
  "ed25519 \<Rightarrow> 'e platform \<Rightarrow> u16 \<Rightarrow> bytes \<Rightarrow> 'e srv \<Rightarrow> reply \<times> 'e srv" where
  "handle_generic_read E F client_dev req s =
     (let hdr_len = 3; p2_len = hdr_len + FBSEC_RPK_NONCE_LEN in
      if length req = hdr_len then arm_challenge F client_dev FBSEC_RPK_GENERIC_READ_ID s
      else if length req \<noteq> p2_len then
        ((if length req > p2_len then FBSEC_ABORT_LEN_TOO_HIGH else FBSEC_ABORT_LEN_TOO_LOW, []), s)
      else if \<not> ch_armed (chall s) \<or> ch_client_dev (chall s) \<noteq> client_dev \<or>
              ch_data_id (chall s) \<noteq> FBSEC_RPK_GENERIC_READ_ID then
        ((FBSEC_ABORT_NO_SESSION, []), s)
      else
        let target_id = target_of req; client_nonce = drop hdr_len req in
          (case fbsec_sod_port_read_before target_id FBSEC_RPK_VALUE_MAX s of
            ((rd, val), s1) \<Rightarrow>
              if rd \<noteq> FBSEC_ABORT_NONE then ((rd, []), disarm s1)
              else if length val > FBSEC_RPK_VALUE_MAX then ((FBSEC_ABORT_INTERNAL, []), disarm s1)
              else
                let body = build_signed_body (fbsec_sod_port_get_device_id s1) client_dev target_id
                             client_nonce (ch_server_nonce (chall s1)) val
                in (case fbsec_asym_transcript FBSEC_ASYM_RD_GENERIC_READ body RPK_TRANSCRIPT_MAX of
                      None \<Rightarrow> ((FBSEC_ABORT_INTERNAL, []), disarm s1)
                    | Some t \<Rightarrow>
                        ((FBSEC_ABORT_NONE, val @ fbsec_asym_sign E (as_idevid (astore s1)) t),
                         disarm s1))))"

section \<open>Signed write\<close>

definition handle_generic_write ::
  "ed25519 \<Rightarrow> 'e platform \<Rightarrow> u16 \<Rightarrow> bytes \<Rightarrow> 'e srv \<Rightarrow> reply \<times> 'e srv" where
  "handle_generic_write E F client_dev req s =
     (let min_p2 = FBSEC_RPK_WRITE_HDR_LEN + FBSEC_ASYM_SIG_SIZE in
      if length req = FBSEC_RPK_WRITE_HDR_LEN - FBSEC_RPK_NONCE_LEN then
        arm_challenge F client_dev FBSEC_RPK_GENERIC_WRITE_ID s
      else if length req < min_p2 then ((FBSEC_ABORT_LEN_TOO_LOW, []), s)
      else let value_len = length req - min_p2 in
        if value_len > FBSEC_RPK_VALUE_MAX then ((FBSEC_ABORT_LEN_TOO_HIGH, []), s)
        else
          let target_id = target_of req;
              client_nonce = slice req (FBSEC_RPK_WRITE_HDR_LEN - FBSEC_RPK_NONCE_LEN)
                               FBSEC_RPK_NONCE_LEN;
              v = slice req FBSEC_RPK_WRITE_HDR_LEN value_len;
              sig = drop (FBSEC_RPK_WRITE_HDR_LEN + value_len) req
          in (case verify_signed E client_dev FBSEC_RPK_GENERIC_WRITE_ID target_id
                     FBSEC_ASYM_RD_GENERIC_WRITE client_nonce v sig s of
                (st, s1) \<Rightarrow>
                  if st \<noteq> FBSEC_ABORT_NONE then ((st, []), s1)
                  else (case fbsec_sod_port_write_after target_id v s1 of
                      (st', s2) \<Rightarrow> ((st', []), s2))))"

section \<open>Signed function command\<close>

definition handle_command ::
  "ed25519 \<Rightarrow> 'e platform \<Rightarrow> u16 \<Rightarrow> bytes \<Rightarrow> 'e srv \<Rightarrow> reply \<times> 'e srv" where
  "handle_command E F client_dev req s =
     (let p2_len = FBSEC_RPK_NONCE_LEN + FBSEC_RPK_CMD_LEN + FBSEC_ASYM_SIG_SIZE in
      if length req = 0 then arm_challenge F client_dev FBSEC_RPK_FUNCCMD_ID s
      else if length req \<noteq> p2_len then
        ((if length req < p2_len then FBSEC_ABORT_LEN_TOO_LOW else FBSEC_ABORT_LEN_TOO_HIGH, []), s)
      else
        let client_nonce = take FBSEC_RPK_NONCE_LEN req;
            code_bytes = slice req FBSEC_RPK_NONCE_LEN FBSEC_RPK_CMD_LEN;
            sig = drop (FBSEC_RPK_NONCE_LEN + FBSEC_RPK_CMD_LEN) req
        in (case verify_signed E client_dev FBSEC_RPK_FUNCCMD_ID FBSEC_RPK_FUNCCMD_ID
                   FBSEC_ASYM_RD_FUNCTION_CMD client_nonce code_bytes sig s of
              (st, s1) \<Rightarrow>
                if st \<noteq> FBSEC_ABORT_NONE then ((st, []), s1)
                else if get32 code_bytes 0 = FBSEC_HO_CMD_FACTORY_RESTORE then
                  ((FBSEC_ABORT_NONE, []), fbsec_server_handover_decommission s1)
                else ((FBSEC_ABORT_NONE, []), s1)))"

definition fbsec_server_rpk_try ::
  "ed25519 \<Rightarrow> 'e platform \<Rightarrow> u16 \<Rightarrow> u32 \<Rightarrow> bytes \<Rightarrow> 'e srv \<Rightarrow> (reply \<times> 'e srv) option" where
  "fbsec_server_rpk_try E F src_dev data_id payload s =
     (let idx = ucast (drop_bit 16 data_id) :: u16;
          sub = ucast (drop_bit 8 data_id AND 0xFF) :: u8
      in if idx = FBSEC_RPK_PUBKEYS_INDEX then Some (handle_pubkeys sub payload s, s)
         else if idx = FBSEC_RPK_PKTYPES_INDEX then Some (handle_pktypes sub payload, s)
         else if data_id = FBSEC_RPK_GENERIC_READ_ID then
           Some (handle_generic_read E F src_dev payload s)
         else if data_id = FBSEC_RPK_GENERIC_WRITE_ID then
           Some (handle_generic_write E F src_dev payload s)
         else if data_id = FBSEC_RPK_FUNCCMD_ID then Some (handle_command E F src_dev payload s)
         else None)"

end
