(* ===== verification/Server_Dispatch.thy ===== *)
theory Server_Dispatch
  imports Server_Rpk
begin

text \<open>
  The reference server as a whole: the unsecured descriptors and constants, the
  key-identifier and session-salt objects (\<open>server_common_security.c\<close>), the
  dispatch order of \<open>server_common_dispatch.c\<close> and the start-up of
  \<open>server_common_od.c\<close>. A request produces one reply. Request tracing has no
  effect on the state and is in \<open>Server_Trace\<close>. The rows of the key file and of the
  constant-entry file reach the start-up as lists: reading the files is in
  \<open>Server_Files\<close>.
\<close>

section \<open>Constants\<close>

abbreviation (input) FBSEC_SERVER_DISPATCH_REPLY_MAX :: nat where
  "FBSEC_SERVER_DISPATCH_REPLY_MAX \<equiv> 64"
abbreviation (input) FBSEC_SEC_INDEX_SESSION_SALT :: u16 where
  "FBSEC_SEC_INDEX_SESSION_SALT \<equiv> 0xC010"
abbreviation (input) FBSEC_SEC_INDEX_KEY_IDS :: u16 where "FBSEC_SEC_INDEX_KEY_IDS \<equiv> 0xC011"

text \<open>The index and sub-index of a data id (\<open>(uint16_t)(data_id >> 16)\<close>, ...).\<close>

definition id_index :: "u32 \<Rightarrow> u16" where
  "id_index data_id = ucast (drop_bit 16 data_id)"

definition id_sub :: "u32 \<Rightarrow> u8" where
  "id_sub data_id = ucast (drop_bit 8 data_id AND 0xFF)"

section \<open>Descriptors\<close>

definition live_id_flags :: "'e srv \<Rightarrow> u8" where
  "live_id_flags s =
     (if fbsec_server_asym_idevid_present s then FBSEC_DESC_ID_IDEVID else 0) OR
     (if fbsec_server_asym_ldevid_present s then FBSEC_DESC_ID_LDEVID else 0)"

definition live_key_flags :: "'e srv \<Rightarrow> u8" where
  "live_key_flags s =
     (if fbsec_sod_has_key s FBSEC_DEMO_KEYID_PROVISIONING then FBSEC_STAT_KEY_PROVISIONING else 0) OR
     (if fbsec_sod_has_key s FBSEC_DEMO_KEYID_INTEGRATOR then FBSEC_STAT_KEY_INTEGRATOR else 0) OR
     (if fbsec_sod_has_key s FBSEC_DEMO_KEYID_OPERATOR then FBSEC_STAT_KEY_OPERATOR else 0)"

definition server_status :: "'e srv \<Rightarrow> status_rec" where
  "server_status s = fbsec_descriptor_build_status (fbsec_server_lifecycle_commissioning s)
     (live_key_flags s) (live_id_flags s)"

definition server_caps :: "'e srv \<Rightarrow> caps" where
  "server_caps s = fbsec_descriptor_build_caps (live_id_flags s)"

definition try_serve_descriptor :: "u32 \<Rightarrow> bytes \<Rightarrow> 'e srv \<Rightarrow> reply option" where
  "try_serve_descriptor data_id payload s =
     (let idx = id_index data_id; sub = id_sub data_id in
      if idx \<noteq> FBSEC_DESC_CAP_INDEX \<and> idx \<noteq> FBSEC_DESC_STAT_INDEX then None
      else
        let is_status = (idx = FBSEC_DESC_STAT_INDEX);
            highest = (if is_status then st_highest_sub (server_status s)
                       else caps_highest_sub (server_caps s));
            sub_exists = (data_id AND 0xFF = 0 \<and> sub \<le> highest);
            buf = (if sub_exists \<and> length payload = 0 then
                     (if is_status then fbsec_status_serialize_sub (server_status s) sub 4
                      else fbsec_caps_serialize_sub (server_caps s) sub 4)
                   else [])
        in if buf \<noteq> [] then Some (FBSEC_ABORT_NONE, buf)
           else Some (if sub_exists then FBSEC_ABORT_READ_ONLY else FBSEC_ABORT_NO_SUBINDEX, []))"

section \<open>Constant entries\<close>

definition try_serve_const_od :: "u32 \<Rightarrow> bytes \<Rightarrow> 'e srv \<Rightarrow> reply option" where
  "try_serve_const_od data_id payload s =
     (if data_id AND 0xFF \<noteq> 0 then None
      else case fbsec_const_od_get s (id_index data_id) (id_sub data_id) of
          None \<Rightarrow> None
        | Some val \<Rightarrow>
            if length payload \<noteq> 0 then Some (FBSEC_ABORT_READ_ONLY, [])
            else Some (FBSEC_ABORT_NONE, val))"

section \<open>Key identifiers and session salt\<close>

definition serve_key_ids :: "u8 \<Rightarrow> bytes \<Rightarrow> 'e srv \<Rightarrow> reply" where
  "serve_key_ids sub payload s =
     (if length payload \<noteq> 0 then (FBSEC_ABORT_READ_ONLY, [])
      else if sub = 0x00 then (FBSEC_ABORT_NONE, [FBSEC_SOD_KEY_SLOTS])
      else if sub \<le> FBSEC_SOD_KEY_SLOTS then
        (FBSEC_ABORT_NONE, le32 (fbsec_sod_get_key_id_value s sub))
      else (FBSEC_ABORT_NO_SUBINDEX, []))"

definition serve_session_salt :: "u8 \<Rightarrow> bytes \<Rightarrow> reply" where
  "serve_session_salt sub payload =
     (if sub = 0x00 then
        (if length payload \<noteq> 0 then (FBSEC_ABORT_READ_ONLY, []) else (FBSEC_ABORT_NONE, [0x01]))
      else if sub = 0x01 then
        (if length payload \<noteq> 0 then (FBSEC_ABORT_NOT_IMPLEMENTED, [])
         else (FBSEC_ABORT_NONE, replicate 16 0))
      else (FBSEC_ABORT_NO_SUBINDEX, []))"

definition fbsec_server_security_try :: "u32 \<Rightarrow> bytes \<Rightarrow> 'e srv \<Rightarrow> reply option" where
  "fbsec_server_security_try data_id payload s =
     (if data_id AND 0xFF \<noteq> 0 then None
      else if id_index data_id = FBSEC_SEC_INDEX_KEY_IDS then
        Some (serve_key_ids (id_sub data_id) payload s)
      else if id_index data_id = FBSEC_SEC_INDEX_SESSION_SALT then
        Some (serve_session_salt (id_sub data_id) payload)
      else None)"

section \<open>Dispatch\<close>

definition secure_reply :: "sod_status \<Rightarrow> reply" where
  "secure_reply st =
     (case st of
        SOD_OK data \<Rightarrow> (FBSEC_ABORT_NONE, data)
      | SOD_DEFER \<Rightarrow> (FBSEC_ABORT_NONE, [])
      | SOD_ABORT ac \<Rightarrow> (ac, [])
      | SOD_NOT_HANDLED \<Rightarrow> (FBSEC_ABORT_NO_OBJECT, []))"

definition fbsec_server_dispatch_request ::
  "ed25519 \<Rightarrow> gcm \<Rightarrow> 'e platform \<Rightarrow> u16 \<Rightarrow> u32 \<Rightarrow> bytes \<Rightarrow> 'e srv \<Rightarrow> reply \<times> 'e srv" where
  "fbsec_server_dispatch_request E g F src_dev data_id payload s =
     (case try_serve_descriptor data_id payload s of
        Some r \<Rightarrow> (r, s)
      | None \<Rightarrow>
     (case try_serve_const_od data_id payload s of
        Some r \<Rightarrow> (r, s)
      | None \<Rightarrow>
     (case fbsec_server_security_try data_id payload s of
        Some r \<Rightarrow> (r, s)
      | None \<Rightarrow>
     (case fbsec_server_handover_try E data_id payload s of
        Some rs \<Rightarrow> rs
      | None \<Rightarrow>
     (case fbsec_server_rpk_try E F src_dev data_id payload s of
        Some rs \<Rightarrow> rs
      | None \<Rightarrow>
     (case fbsec_sod_dispatch g (server_port F) src_dev data_id payload
             FBSEC_SERVER_DISPATCH_REPLY_MAX s of
        (st, s1) \<Rightarrow> (secure_reply st, s1)))))))"

section \<open>Start-up\<close>

text \<open>The file-static variables before start-up, for a given platform state.\<close>

definition zero_asym :: asym_store where
  "zero_asym = \<lparr>
     as_idevid = zero_keypair, as_idevid_cert = replicate FBSEC_ASYM_SIG_SIZE 0,
     as_ldevid = zero_keypair, as_ldevid_present = False,
     as_anchor = replicate FBSEC_ASYM_PUBKEY_SIZE 0,
     as_owner = replicate FBSEC_ASYM_PUBKEY_SIZE 0, as_owner_set = False,
     as_owner_epoch = 0, as_uncommissioned = False,
     as_serial = replicate FBSEC_ASYM_SERIAL_LEN 0,
     as_provisioning_key = replicate FBSEC_AEAD_KEY_SIZE 0, as_provisioning_set = False,
     as_peer = replicate 5 (replicate FBSEC_ASYM_PUBKEY_SIZE 0),
     as_peer_set = replicate 5 False, as_ready = False\<rparr>"

definition server_statics :: "'e \<Rightarrow> 'e server" where
  "server_statics e = \<lparr>
     sv_my_dev = 0,
     sv_value = [0x00, 0x11, 0x22, 0x33],
     sv_secure_ro = replicate 16 0, sv_secure_wo = replicate 16 0,
     sv_rpk_ro = [0xA0, 0xA1, 0xA2, 0xA3], sv_rpk_wo = replicate 16 0,
     sv_stage = FBSEC_STAGE_FACTORY, sv_const_od = [],
     sv_asym = zero_asym,
     sv_challenge = \<lparr>ch_armed = False, ch_client_dev = 0, ch_data_id = 0,
                     ch_server_nonce = replicate FBSEC_RPK_NONCE_LEN 0\<rparr>,
     sv_env = e\<rparr>"

text \<open>The rows of the constant-entry file, until the table is full.\<close>

fun const_od_load :: "const_od_entry list \<Rightarrow> 'e srv \<Rightarrow> 'e srv option" where
  "const_od_load [] s = Some s"
| "const_od_load (e # es) s =
     (if length (sv_const_od (host s)) \<ge> FBSEC_CONST_OD_MAX_ENTRIES then None
      else const_od_load es (upd_host (\<lambda>h. h\<lparr>sv_const_od := sv_const_od h @ [e]\<rparr>) s))"

text \<open>The rows of the key file: slot, key and non-secret key identifier.\<close>

fun load_key_rows :: "(u8 \<times> bytes \<times> u32) list \<Rightarrow> 'e srv \<Rightarrow> 'e srv option" where
  "load_key_rows [] s = Some s"
| "load_key_rows ((kid, key, idv) # rows) s =
     (case set_key_from kid key idv s of
        (ok, s1) \<Rightarrow> if ok then load_key_rows rows s1 else None)"

definition fbsec_server_load_key_file :: "(u8 \<times> bytes \<times> u32) list \<Rightarrow> 'e srv \<Rightarrow> 'e srv option" where
  "fbsec_server_load_key_file rows s = (if rows = [] then None else load_key_rows rows s)"

definition server_entry :: "u32 \<Rightarrow> u8 \<Rightarrow> nat \<Rightarrow> sod_entry" where
  "server_entry data_id access data_len = \<lparr>ent_data_id = data_id, ent_key_id = FBSEC_SOD_KEY_NONE,
     ent_access_flags = access, ent_value_type = FBSEC_SOD_TYPE_BIN,
     ent_data_len = of_nat data_len\<rparr>"

fun register_server_entries :: "sod_entry list \<Rightarrow> 'e srv \<Rightarrow> 'e srv option" where
  "register_server_entries [] s = Some s"
| "register_server_entries (e # es) s =
     (case fbsec_sod_register_entry e s of
        (ok, s1) \<Rightarrow> if ok then register_server_entries es s1 else None)"

definition server_entries :: "bool \<Rightarrow> sod_entry list" where
  "server_entries identity_ok =
     (if identity_ok then
        [server_entry FBSEC_SERVER_ENTRY_SRD_DATA_ID FBSEC_SOD_ACCESS_SECURE_RO
           FBSEC_SERVER_ENTRY_SECURE_LEN] else []) @
     [server_entry FBSEC_SERVER_ENTRY_SWR_DATA_ID FBSEC_SOD_ACCESS_SECURE_WO
        FBSEC_SERVER_ENTRY_SECURE_LEN,
      server_entry FBSEC_SERVER_ENTRY_RD_DATA_ID FBSEC_SOD_ACCESS_SECURE_RO
        FBSEC_SERVER_ENTRY_VALUE_LEN,
      server_entry FBSEC_SERVER_ENTRY_WR_DATA_ID FBSEC_SOD_ACCESS_SECURE_WO
        FBSEC_SERVER_ENTRY_VALUE_LEN,
      server_entry FBSEC_SEC_KEY_SET_DATA_ID FBSEC_SOD_ACCESS_SECURE_WO FBSEC_KEY_SET_BODY_LEN]"

definition has_session_keys :: "'h sod \<Rightarrow> bool" where
  "has_session_keys s \<longleftrightarrow>
     fbsec_sod_has_key s FBSEC_DEMO_KEYID_PROVISIONING \<or>
     fbsec_sod_has_key s FBSEC_DEMO_KEYID_INTEGRATOR \<or>
     fbsec_sod_has_key s FBSEC_DEMO_KEYID_OPERATOR"

definition fbsec_server_od_init ::
  "ed25519 \<Rightarrow> u16 \<Rightarrow> (u8 \<times> bytes \<times> u32) list option \<Rightarrow> const_od_entry list option \<Rightarrow> bool \<Rightarrow>
   'e server \<Rightarrow> 'e srv option" where
  "fbsec_server_od_init E my_dev key_file od_file install_demo_keys h =
     (let s = fbsec_server_hooks_set_my_dev my_dev
                (fbsec_server_lifecycle_init (fbsec_sod_init h));
          s = fbsec_server_asym_init E s;
          s = snd (fbsec_server_asym_set_peer 1
                     (kp_pub (fbsec_asym_keygen E FBSEC_DEMO_INTEGRATOR_SEED)) s);
          s = fbsec_const_od_init s
      in (case (case od_file of None \<Rightarrow> Some s | Some rows \<Rightarrow> const_od_load rows s) of
            None \<Rightarrow> None
          | Some s \<Rightarrow>
              (case fbsec_server_hooks_load_identity s of (identity_ok, s) \<Rightarrow>
                 (case register_server_entries (server_entries identity_ok) s of
                    None \<Rightarrow> None
                  | Some s \<Rightarrow>
                      (case (case key_file of None \<Rightarrow> Some s
                             | Some rows \<Rightarrow> fbsec_server_load_key_file rows s) of
                         None \<Rightarrow> None
                       | Some s \<Rightarrow>
                           let s = (if install_demo_keys
                                    then fbsec_server_install_demo_keys_if_unset s else s);
                               s = fbsec_server_install_claim_token s
                           in Some (fbsec_server_lifecycle_set
                                (if has_session_keys s then FBSEC_STAGE_OPERATIONAL
                                 else FBSEC_STAGE_UNCOMMISSIONED) s))))))"

end
