(* ===== verification/Server_Props.thy ===== *)
theory Server_Props
  imports Server_Dispatch Host_Relation
begin

text \<open>
  What holds of the reference server: the well-formedness of its state is kept
  by every request; requests never change the identity of the device, its
  configuration or its registry, never lower the owner epoch, and change keys,
  ownership and application data only on the authority the protocol demands.
\<close>

section \<open>Well-formed server states\<close>

definition asym_wf :: "asym_store \<Rightarrow> bool" where
  "asym_wf a \<longleftrightarrow> length (kp_pub (as_idevid a)) = FBSEC_ASYM_PUBKEY_SIZE \<and>
     length (as_idevid_cert a) = FBSEC_ASYM_SIG_SIZE \<and>
     length (as_anchor a) = FBSEC_ASYM_PUBKEY_SIZE \<and>
     length (as_owner a) = FBSEC_ASYM_PUBKEY_SIZE \<and>
     length (as_serial a) = FBSEC_ASYM_SERIAL_LEN \<and>
     length (as_provisioning_key a) = FBSEC_AEAD_KEY_SIZE \<and>
     length (as_peer a) = 5 \<and> length (as_peer_set a) = 5 \<and>
     (as_owner_set a \<longleftrightarrow> \<not> as_uncommissioned a) \<and> as_ready a"

definition const_od_wf :: "const_od_entry list \<Rightarrow> bool" where
  "const_od_wf es \<longleftrightarrow> length es \<le> FBSEC_CONST_OD_MAX_ENTRIES \<and>
     (\<forall>e\<in>set es. unat (ce_len e) \<le> FBSEC_CONST_OD_MAX_DATA \<and>
        length (ce_data e) = FBSEC_CONST_OD_MAX_DATA)"

definition host_wf :: "'e server \<Rightarrow> bool" where
  "host_wf h \<longleftrightarrow> length (sv_value h) = 4 \<and> length (sv_rpk_ro h) = 4 \<and>
     length (sv_secure_ro h) = 16 \<and> length (sv_secure_wo h) = 16 \<and> length (sv_rpk_wo h) = 16 \<and>
     length (ch_server_nonce (sv_challenge h)) = FBSEC_RPK_NONCE_LEN \<and>
     const_od_wf (sv_const_od h) \<and> asym_wf (sv_asym h)"

definition srv_wf :: "'e srv \<Rightarrow> bool" where
  "srv_wf s \<longleftrightarrow> sod_wf s \<and> host_wf (host s)"

lemma upd_host_simps [simp]:
  "registry (upd_host f s) = registry s" "read_slot (upd_host f s) = read_slot s"
  "write_slot (upd_host f s) = write_slot s" "sod_keys (upd_host f s) = sod_keys s"
  "key_present (upd_host f s) = key_present s" "key_id_val (upd_host f s) = key_id_val s"
  "last_write_kid_base (upd_host f s) = last_write_kid_base s" "host (upd_host f s) = f (host s)"
  by (simp_all add: upd_host_def)

lemma upd_host_keys [simp]:
  "keys_wf (upd_host f s) = keys_wf s" "get_key (upd_host f s) k = get_key s k"
  "fbsec_sod_has_key (upd_host f s) k = fbsec_sod_has_key s k"
  "sod_wf (upd_host f s) = sod_wf s"
  by (simp_all add: keys_wf_def get_key_def fbsec_sod_has_key_def sod_wf_def)

lemma has_key_get: "fbsec_sod_has_key s k \<longleftrightarrow> get_key s k \<noteq> None"
  by (simp add: get_key_def)

lemma lifecycle_set_simps [simp]:
  "host (fbsec_server_lifecycle_set st s) = (host s)\<lparr>sv_stage := st\<rparr>"
  "registry (fbsec_server_lifecycle_set st s) = registry s"
  "get_key (fbsec_server_lifecycle_set st s) k = get_key s k"
  "last_write_kid_base (fbsec_server_lifecycle_set st s) = last_write_kid_base s"
  by (simp_all add: fbsec_server_lifecycle_set_def)

section \<open>The key set object\<close>

lemma set_key_from_host [simp]:
  "host (snd (set_key_from k p v s)) = host s"
  "registry (snd (set_key_from k p v s)) = registry s"
  "read_slot (snd (set_key_from k p v s)) = read_slot s"
  "write_slot (snd (set_key_from k p v s)) = write_slot s"
  "last_write_kid_base (snd (set_key_from k p v s)) = last_write_kid_base s"
  by (simp_all add: set_key_from_def fbsec_sod_set_key_ex_def)

lemma set_key_from_wf:
  "keys_wf s \<Longrightarrow> FBSEC_AEAD_KEY_SIZE \<le> length p \<Longrightarrow> keys_wf (snd (set_key_from k p v s))"
  using set_key_ex_wf [of s "take FBSEC_AEAD_KEY_SIZE p" k v]
  by (simp add: set_key_from_def) (metis prod.collapse)

lemma set_key_from_get:
  assumes "keys_wf s"
  shows "get_key (snd (set_key_from k p v s)) j =
    (if j = k \<and> k \<noteq> 0 \<and> k \<le> FBSEC_SOD_KEY_SLOTS \<and> get_key s k = None
     then Some (take FBSEC_AEAD_KEY_SIZE p) else get_key s j)"
proof (cases "fst (set_key_from k p v s)")
  case True
  then have "k \<noteq> 0 \<and> k \<le> FBSEC_SOD_KEY_SLOTS \<and> get_key s k = None"
    by (simp add: set_key_from_def set_key_ex_result has_key_get)
  moreover have "get_key (snd (set_key_from k p v s)) j =
      (if j = k then Some (take FBSEC_AEAD_KEY_SIZE p) else get_key s j)"
    using True set_key_ex_get(1) [OF assms, of k "take FBSEC_AEAD_KEY_SIZE p" v
        "snd (set_key_from k p v s)"]
    unfolding set_key_from_def by (metis prod.collapse)
  ultimately show ?thesis by simp
next
  case False
  then have "snd (set_key_from k p v s) = s"
    unfolding set_key_from_def by (metis set_key_ex_refused prod.collapse)
  moreover have "\<not> (k \<noteq> 0 \<and> k \<le> FBSEC_SOD_KEY_SLOTS \<and> get_key s k = None)"
    using False by (simp add: set_key_from_def set_key_ex_result has_key_get)
  ultimately show ?thesis by auto
qed

text \<open>The branches of the key ladder.\<close>

lemma apply_key_set_cases:
  assumes "fbsec_server_apply_key_set body s = (rc, s')"
  obtains (refused) "rc \<noteq> FBSEC_ABORT_NONE" "s' = s"
  | (installed) need stage where "rc = FBSEC_ABORT_NONE"
      "length body = FBSEC_KEY_SET_BODY_LEN" "ladder_need (body ! 0) = Some need"
      "last_write_kid_base s = need" "get_key s (body ! 0) = None"
      "s' = fbsec_server_lifecycle_set stage
              (snd (set_key_from (body ! 0) (drop 5 body) (get32 body 1) s)) \<or>
       s' = snd (set_key_from (body ! 0) (drop 5 body) (get32 body 1) s)"
proof (cases "rc = FBSEC_ABORT_NONE")
  case True
  then show ?thesis
    using assms installed
    by (auto simp: fbsec_server_apply_key_set_def Let_def fbsec_sod_last_write_key_id_def
        has_key_get case_prod_unfold split: if_splits option.splits)
next
  case False
  have "fst (set_key_from (body ! 0) p v s) \<or> snd (set_key_from (body ! 0) p v s) = s" for p v
    unfolding set_key_from_def by (metis set_key_ex_refused prod.collapse)
  then have "s' = s"
    using assms False
    by (auto simp: fbsec_server_apply_key_set_def Let_def case_prod_unfold
        split: if_splits option.splits)
  then show ?thesis using refused False by blast
qed

section \<open>What the hooks keep\<close>

text \<open>
  The part of the server no secure read or write changes, the well-formedness
  both keep, and the write-once discipline of the key store.
\<close>

definition srv_frame :: "'e srv \<Rightarrow> 'e srv \<Rightarrow> bool" where
  "srv_frame s s' \<longleftrightarrow> registry s' = registry s \<and> sv_my_dev (host s') = sv_my_dev (host s) \<and>
     sv_const_od (host s') = sv_const_od (host s) \<and>
     sv_secure_ro (host s') = sv_secure_ro (host s) \<and>
     sv_rpk_wo (host s') = sv_rpk_wo (host s) \<and>
     sv_asym (host s') = sv_asym (host s) \<and> sv_challenge (host s') = sv_challenge (host s) \<and>
     (host_wf (host s) \<longrightarrow> host_wf (host s')) \<and>
     (keys_wf s \<longrightarrow> keys_wf s' \<and> (\<forall>k key. get_key s k = Some key \<longrightarrow> get_key s' k = Some key))"

lemma length_bump_be [simp]: "length (bump_be p) = 4"
  by (simp add: bump_be_def)

lemma apply_key_set_frame:
  assumes "fbsec_server_apply_key_set body s = (rc, s')"
  shows "srv_frame s s'" "same_slots s s'"
  using assms
  by (cases rule: apply_key_set_cases,
      auto simp: srv_frame_def same_slots_def host_wf_def set_key_from_wf set_key_from_get
        fbsec_server_lifecycle_set_def)+

lemma read_hook_frame:
  "fbsec_sod_port_read_before d n s = (x, s') \<Longrightarrow> srv_frame s s' \<and> same_slots s s'"
  by (auto simp: fbsec_sod_port_read_before_def srv_frame_def same_slots_def host_wf_def
      split: if_splits)

lemma random_hook_frame:
  "fbsec_sod_port_random F n s = (b, s') \<Longrightarrow> srv_frame s s' \<and> same_slots s s'"
  by (auto simp: fbsec_sod_port_random_def srv_frame_def same_slots_def host_wf_def
      split: if_splits prod.splits)

text \<open>The signed write may reach the twin object as well, so its frame is a little weaker.\<close>

definition write_frame :: "'e srv \<Rightarrow> 'e srv \<Rightarrow> bool" where
  "write_frame s s' \<longleftrightarrow> registry s' = registry s \<and> sv_my_dev (host s') = sv_my_dev (host s) \<and>
     sv_const_od (host s') = sv_const_od (host s) \<and>
     sv_secure_ro (host s') = sv_secure_ro (host s) \<and>
     sv_asym (host s') = sv_asym (host s) \<and> sv_challenge (host s') = sv_challenge (host s) \<and>
     (host_wf (host s) \<longrightarrow> host_wf (host s')) \<and>
     (keys_wf s \<longrightarrow> keys_wf s' \<and> (\<forall>k key. get_key s k = Some key \<longrightarrow> get_key s' k = Some key))"

lemma srv_frame_write_frame: "srv_frame s s' \<Longrightarrow> write_frame s s'"
  by (simp add: srv_frame_def write_frame_def)

lemma write_hook_frame:
  assumes "fbsec_sod_port_write_after d v s = (rc, s')"
  shows "write_frame s s' \<and> same_slots s s'"
proof (cases "d = FBSEC_SEC_KEY_SET_DATA_ID")
  case True
  then have "fbsec_server_apply_key_set v s = (rc, s')"
    using assms by (simp add: fbsec_sod_port_write_after_def)
  from apply_key_set_frame [OF this] show ?thesis by (simp add: srv_frame_write_frame)
next
  case False
  then show ?thesis
    using assms
    by (auto simp: fbsec_sod_port_write_after_def write_frame_def same_slots_def host_wf_def
        split: if_splits)
qed

lemma server_port_simps [simp]:
  "port_get_device_id (server_port F) = fbsec_sod_port_get_device_id"
  "port_get_time_ms (server_port F) = fbsec_sod_port_get_time_ms F"
  "port_random (server_port F) = fbsec_sod_port_random F"
  "port_access_allowed (server_port F) = fbsec_sod_port_access_allowed"
  "port_role_allowed (server_port F) = fbsec_sod_port_role_allowed"
  "port_read_before (server_port F) = fbsec_sod_port_read_before"
  "port_write_after (server_port F) = fbsec_sod_port_write_after"
  by (simp_all add: server_port_def)

lemma server_port_ok: "platform_ok F \<Longrightarrow> port_ok (server_port F)"
  unfolding port_ok_def
proof (intro conjI allI impI)
  fix d n and s :: "'a srv"
  show "same_slots s (snd (port_read_before (server_port F) d n s))"
    using read_hook_frame [of d n s] by (metis prod.collapse server_port_simps(6))
next
  fix n and s :: "'a srv"
  show "same_slots s (snd (port_random (server_port F) n s))"
    using random_hook_frame [of F n s] by (metis prod.collapse server_port_simps(3))
next
  fix n b and s :: "'a srv"
  assume "platform_ok F" "fst (port_random (server_port F) n s) = Some b"
  then show "length b = n"
    by (auto simp: fbsec_sod_port_random_def platform_ok_def split: if_splits prod.splits)
       (metis fst_conv)
next
  fix d v and s :: "'a srv"
  show "same_slots s (snd (port_write_after (server_port F) d v s))"
    using write_hook_frame [of d v s] by (metis prod.collapse server_port_simps(7))
qed

lemma write_frame_refl [simp]: "write_frame s s"
  by (simp add: write_frame_def)

lemma write_frame_trans: "write_frame s t \<Longrightarrow> write_frame t u \<Longrightarrow> write_frame s u"
  by (simp add: write_frame_def)

lemma write_frame_upd:
  "write_frame s (upd_read i f s)" "write_frame s (upd_write i h s)"
  "write_frame s (s\<lparr>last_write_kid_base := k\<rparr>)"
  by (simp_all add: write_frame_def keys_wf_def get_key_def fbsec_sod_has_key_def)

interpretation srv_requests: host_relation "server_port F" write_frame for F :: "'e platform"
proof
  show "write_frame s s'" if "port_read_before (server_port F) d n s = (x, s')"
    for d n x and s s' :: "'e srv"
    using that read_hook_frame [of d n s x s'] srv_frame_write_frame by auto
  show "write_frame s s'" if "port_random (server_port F) n s = (b, s')"
    for n b and s s' :: "'e srv"
    using that random_hook_frame [of F n s b s'] srv_frame_write_frame by auto
  show "write_frame s s'" if "port_write_after (server_port F) d v s = (rc, s')"
    for d v rc and s s' :: "'e srv"
    using that write_hook_frame [of d v s rc s'] by auto
qed (auto intro: write_frame_trans simp: write_frame_upd)

section \<open>Requests that do not reach the write hook\<close>

definition quiet :: "'e srv \<Rightarrow> 'e srv \<Rightarrow> bool" where
  "quiet s s' \<longleftrightarrow> registry s' = registry s \<and> sod_keys s' = sod_keys s \<and>
     key_present s' = key_present s \<and> key_id_val s' = key_id_val s \<and>
     (\<exists>v r e. host s' = (host s)\<lparr>sv_value := v, sv_rpk_ro := r, sv_env := e\<rparr>)"

lemma host_same [simp]: "\<exists>v r e. (h :: 'e server) = h\<lparr>sv_value := v, sv_rpk_ro := r, sv_env := e\<rparr>"
proof -
  have "h = h\<lparr>sv_value := sv_value h, sv_rpk_ro := sv_rpk_ro h, sv_env := sv_env h\<rparr>" by simp
  then show ?thesis by blast
qed

lemma quiet_refl [simp]: "quiet s s"
  by (simp add: quiet_def)

lemma quiet_trans: "quiet s t \<Longrightarrow> quiet t u \<Longrightarrow> quiet s u"
  by (auto simp: quiet_def) metis

lemma quiet_upd [simp]:
  "quiet s (upd_read i f s)" "quiet s (upd_write i h s)" "quiet s (s\<lparr>last_write_kid_base := k\<rparr>)"
  by (simp_all add: quiet_def)

lemma quiet_value: "quiet s (upd_host (\<lambda>h. h\<lparr>sv_value := v\<rparr>) s)"
proof -
  have "(host s)\<lparr>sv_value := v\<rparr> = (host s)\<lparr>sv_value := v, sv_rpk_ro := sv_rpk_ro (host s),
      sv_env := sv_env (host s)\<rparr>" by simp
  then show ?thesis unfolding quiet_def upd_host_simps by blast
qed

lemma quiet_rpk: "quiet s (upd_host (\<lambda>h. h\<lparr>sv_rpk_ro := v\<rparr>) s)"
proof -
  have "(host s)\<lparr>sv_rpk_ro := v\<rparr> = (host s)\<lparr>sv_value := sv_value (host s), sv_rpk_ro := v,
      sv_env := sv_env (host s)\<rparr>" by simp
  then show ?thesis unfolding quiet_def upd_host_simps by blast
qed

lemma quiet_env: "quiet s (upd_host (\<lambda>h. h\<lparr>sv_env := e\<rparr>) s)"
proof -
  have "(host s)\<lparr>sv_env := e\<rparr> = (host s)\<lparr>sv_value := sv_value (host s),
      sv_rpk_ro := sv_rpk_ro (host s), sv_env := e\<rparr>" by simp
  then show ?thesis unfolding quiet_def upd_host_simps by blast
qed

lemma read_hook_quiet:
  assumes "fbsec_sod_port_read_before d n s = (x, s')"
  shows "quiet s s'"
proof -
  have "s' = s \<or> (\<exists>v. s' = upd_host (\<lambda>h. h\<lparr>sv_value := v (sv_value h)\<rparr>) s) \<or>
      (\<exists>v. s' = upd_host (\<lambda>h. h\<lparr>sv_rpk_ro := v (sv_rpk_ro h)\<rparr>) s)"
    using assms unfolding fbsec_sod_port_read_before_def by (simp split: if_splits) blast+
  then show ?thesis
    using quiet_value [of s] quiet_rpk [of s] by (auto simp: upd_host_def)
qed

lemma random_hook_quiet: "fbsec_sod_port_random F n s = (b, s') \<Longrightarrow> quiet s s'"
  by (auto simp: fbsec_sod_port_random_def quiet_env split: if_splits prod.splits)

interpretation quiet_requests:
  host_relation "(server_port F)\<lparr>port_write_after := \<lambda>d v s. (1, s)\<rparr>" quiet for F :: "'e platform"
proof
  show "quiet s s'"
    if "port_read_before ((server_port F)\<lparr>port_write_after := \<lambda>d v s. (1, s)\<rparr>) d n s = (x, s')"
    for d n x and s s' :: "'e srv"
    using that read_hook_quiet [of d n s x s'] by simp
  show "quiet s s'"
    if "port_random ((server_port F)\<lparr>port_write_after := \<lambda>d v s. (1, s)\<rparr>) n s = (b, s')"
    for n b and s s' :: "'e srv"
    using that random_hook_quiet [of F n s b s'] by simp
  show "quiet s s'"
    if "port_write_after ((server_port F)\<lparr>port_write_after := \<lambda>d v s. (1, s)\<rparr>) d v s = (rc, s')"
    for d v rc and s s' :: "'e srv"
    using that by simp
qed (auto intro: quiet_trans)

lemma secure_request_cases:
  assumes "fbsec_sod_dispatch g (server_port F) c d req rm s = (st, s')"
  shows "quiet s s' \<or> (\<exists>v a rc b. write_reaches g (server_port F) c d req s v a \<and>
     fbsec_sod_port_write_after d v a = (rc, b) \<and> same_core b s' \<and>
     last_write_kid_base s' = last_write_kid_base b)"
  using quiet_requests.dispatch_reaches [OF refl assms] by (auto simp: hook_result_def)

lemma quiet_get_key: "quiet s s' \<Longrightarrow> get_key s' k = get_key s k"
  by (simp add: quiet_def get_key_def fbsec_sod_has_key_def)

lemma quiet_host:
  assumes "quiet s s'"
  shows "sv_asym (host s') = sv_asym (host s)" "sv_challenge (host s') = sv_challenge (host s)"
    "sv_secure_wo (host s') = sv_secure_wo (host s)" "sv_rpk_wo (host s') = sv_rpk_wo (host s)"
    "sv_stage (host s') = sv_stage (host s)" "sv_const_od (host s') = sv_const_od (host s)"
    "sv_my_dev (host s') = sv_my_dev (host s)" "sv_secure_ro (host s') = sv_secure_ro (host s)"
  using assms by (auto simp: quiet_def)

section \<open>Signed accesses\<close>

text \<open>
  The challenge is outstanding for this client and object, and the signature
  over the transcript that binds device, client, object, both nonces and the
  value checks under the authorizing peer key.
\<close>

definition signed_ok ::
  "ed25519 \<Rightarrow> u16 \<Rightarrow> u32 \<Rightarrow> u32 \<Rightarrow> u8 \<Rightarrow> bytes \<Rightarrow> bytes \<Rightarrow> bytes \<Rightarrow> 'e srv \<Rightarrow> bool" where
  "signed_ok E c cid bind role nonce v sig s \<longleftrightarrow>
     ch_armed (chall s) \<and> ch_client_dev (chall s) = c \<and> ch_data_id (chall s) = cid \<and>
     (\<exists>peer. fbsec_server_asym_get_peer s RPK_WRITE_PEER_SLOT = Some peer \<and>
        fbsec_asym_verify E peer
          (transcript_of role (build_signed_body (sv_my_dev (host s)) c bind nonce
             (ch_server_nonce (chall s)) v)) sig)"

lemma length_signed_body:
  "length (build_signed_body a c m cn sn v) \<le> 42 + length v"
  by (simp add: build_signed_body_def)

lemma verify_signed_result:
  assumes "length v \<le> FBSEC_RPK_VALUE_MAX"
  shows "verify_signed E c cid bind role cn v sig s =
    (if signed_ok E c cid bind role cn v sig s then (FBSEC_ABORT_NONE, disarm s)
     else if ch_armed (chall s) \<and> ch_client_dev (chall s) = c \<and> ch_data_id (chall s) = cid
     then (FBSEC_ABORT_SIG_VERIFY, disarm s) else (FBSEC_ABORT_NO_SESSION, s))"
proof -
  have "fbsec_asym_transcript role (build_signed_body a c' m cn sn v) 79 =
      Some (transcript_of role (build_signed_body a c' m cn sn v))" for a c' m sn
  proof -
    have l: "length (build_signed_body a c' m cn sn v) \<le> 64"
      using length_signed_body [of a c' m cn sn v] assms by simp
    then have "length (build_signed_body a c' m cn sn v) \<le> 65520" by (rule order_trans) simp
    from transcript_eq [OF this] show ?thesis using l by simp
  qed
  then show ?thesis
    by (auto simp: verify_signed_def signed_ok_def Let_def fbsec_sod_port_get_device_id_def
        split: option.split)
qed

lemma disarm_simps [simp]:
  "host (disarm s) = (host s)\<lparr>sv_challenge := (sv_challenge (host s))\<lparr>ch_armed := False\<rparr>\<rparr>"
  "get_key (disarm s) k = get_key s k" "registry (disarm s) = registry s"
  "keys_wf (disarm s) = keys_wf s" "sod_wf (disarm s) = sod_wf s"
  "last_write_kid_base (disarm s) = last_write_kid_base s"
  by (simp_all add: disarm_def upd_chall_def)

text \<open>The parts of a signed write and of a signed command.\<close>

definition gw_value :: "bytes \<Rightarrow> bytes" where
  "gw_value req = slice req 19 (length req - 83)"

definition gw_signed :: "ed25519 \<Rightarrow> u16 \<Rightarrow> bytes \<Rightarrow> 'e srv \<Rightarrow> bool" where
  "gw_signed E c req s \<longleftrightarrow> 83 \<le> length req \<and> length req \<le> 99 \<and>
     signed_ok E c FBSEC_RPK_GENERIC_WRITE_ID (target_of req) FBSEC_ASYM_RD_GENERIC_WRITE
       (slice req 3 16) (gw_value req) (drop (length req - 64) req) s"

definition cmd_signed :: "ed25519 \<Rightarrow> u16 \<Rightarrow> bytes \<Rightarrow> 'e srv \<Rightarrow> bool" where
  "cmd_signed E c req s \<longleftrightarrow> length req = 84 \<and>
     signed_ok E c FBSEC_RPK_FUNCCMD_ID FBSEC_RPK_FUNCCMD_ID FBSEC_ASYM_RD_FUNCTION_CMD
       (take 16 req) (slice req 16 4) (drop 20 req) s"

definition reset_signed :: "ed25519 \<Rightarrow> u16 \<Rightarrow> bytes \<Rightarrow> 'e srv \<Rightarrow> bool" where
  "reset_signed E c req s \<longleftrightarrow> cmd_signed E c req s \<and>
     get32 (slice req 16 4) 0 = FBSEC_HO_CMD_FACTORY_RESTORE"

text \<open>What each signed object can do to the state.\<close>

lemma arm_challenge_state:
  "snd (arm_challenge F c d s) = snd (fbsec_sod_port_random F 16 s) \<or>
   (\<exists>n. fst (fbsec_sod_port_random F 16 s) = Some n \<and>
      snd (arm_challenge F c d s) = upd_chall (\<lambda>_. \<lparr>ch_armed = True, ch_client_dev = c,
        ch_data_id = d, ch_server_nonce = n\<rparr>) (snd (fbsec_sod_port_random F 16 s)))"
  by (cases "fbsec_sod_port_random F 16 s") (auto simp: arm_challenge_def split: option.split)

lemma generic_write_cases:
  assumes "handle_generic_write E F c req s = (r, s')"
  obtains (arm) "s' = snd (arm_challenge F c FBSEC_RPK_GENERIC_WRITE_ID s)"
  | (quiet) "s' = s \<or> s' = disarm s"
  | (signed) rc where "gw_signed E c req s"
      "fbsec_sod_port_write_after (target_of req) (gw_value req) (disarm s) = (rc, s')"
proof -
  consider "length req = 3" | "length req < 83" "length req \<noteq> 3" | "99 < length req"
    | "83 \<le> length req" "length req \<le> 99" by linarith
  then show ?thesis
  proof cases
    case 4
    have l: "length (gw_value req) \<le> 16" using 4 by (simp add: gw_value_def slice_def)
    have e: "19 + (length req - 83) = length req - 64" using 4 by simp
    show ?thesis
      using assms 4 quiet signed
      unfolding handle_generic_write_def Let_def
      by (simp add: gw_value_def [symmetric] e verify_signed_result [OF l] gw_signed_def case_prod_unfold
          split: if_splits) (metis prod.collapse)
  qed (use assms arm quiet in \<open>auto simp: handle_generic_write_def Let_def split: if_splits\<close>)
qed

lemma command_cases:
  assumes "handle_command E F c req s = (r, s')"
  obtains (arm) "s' = snd (arm_challenge F c FBSEC_RPK_FUNCCMD_ID s)"
  | (quiet) "s' = s \<or> s' = disarm s"
  | (reset) "reset_signed E c req s" "s' = fbsec_server_handover_decommission (disarm s)"
proof -
  have l: "length (slice req 16 4) \<le> 16" by (simp add: slice_def)
  show ?thesis
    using assms arm quiet reset
    by (auto simp: handle_command_def Let_def verify_signed_result [OF l] reset_signed_def
        cmd_signed_def split: if_splits)
qed

lemma generic_read_cases:
  assumes "handle_generic_read E F c req s = (r, s')"
  obtains (arm) "s' = snd (arm_challenge F c FBSEC_RPK_GENERIC_READ_ID s)"
  | (quiet) t where "quiet s t" "s' = t \<or> s' = disarm t"
proof -
  have q: "quiet s (snd (fbsec_sod_port_read_before d n s))" for d n
    using read_hook_quiet [of d n s] by (metis prod.collapse)
  show ?thesis
    using assms arm quiet [OF q [of "target_of req" 16]] quiet [OF quiet_refl]
    unfolding handle_generic_read_def Let_def
    by (auto simp: case_prod_unfold split: if_splits option.splits)
qed

section \<open>Ownership\<close>

definition voucher_epoch :: "bytes \<Rightarrow> u32" where
  "voucher_epoch v = get32 v 40"

definition voucher_ok :: "ed25519 \<Rightarrow> bytes \<Rightarrow> 'e srv \<Rightarrow> bool" where
  "voucher_ok E v s \<longleftrightarrow> length v = FBSEC_HO_VOUCHER_LEN \<and> as_ready (astore s) \<and>
     fbsec_asym_verify E (as_anchor (astore s)) (transcript_of FBSEC_ASYM_RD_VOUCHER (take 44 v))
       (drop 44 v) \<and>
     take 8 v = as_serial (astore s) \<and> as_uncommissioned (astore s) \<and>
     as_owner_epoch (astore s) < voucher_epoch v"

definition provision_ok :: "ed25519 \<Rightarrow> bytes \<Rightarrow> 'e srv \<Rightarrow> bool" where
  "provision_ok E p s \<longleftrightarrow> length p = FBSEC_HO_PROVISION_LEN \<and> as_ready (astore s) \<and>
     as_owner_set (astore s) \<and>
     fbsec_asym_verify E (as_owner (astore s)) (transcript_of FBSEC_ASYM_RD_PKINSTALL_ACK (take 16 p))
       (drop 16 p)"

lemma transcript_take:
  "n \<le> 64 \<Longrightarrow> length v = n + m \<Longrightarrow>
     fbsec_asym_transcript r (take n v) (15 + n) = Some (transcript_of r (take n v))"
  by (subst transcript_eq) simp_all

lemma claim_result:
  "fbsec_server_asym_claim E v s =
    (if voucher_ok E v s
     then (True, upd_asym (\<lambda>a. a\<lparr>as_owner := slice v 8 32, as_owner_set := True,
             as_owner_epoch := voucher_epoch v, as_uncommissioned := False\<rparr>) s)
     else (False, s))"
proof (cases "length v = 108")
  case True
  then have "length v = 44 + 64" by simp
  from transcript_take [OF _ this, of FBSEC_ASYM_RD_VOUCHER] show ?thesis
    using True
    by (auto simp: fbsec_server_asym_claim_def voucher_ok_def voucher_epoch_def Let_def not_le)
next
  case False
  then show ?thesis by (simp add: fbsec_server_asym_claim_def voucher_ok_def)
qed

lemma provisioning_result:
  "fbsec_server_asym_install_provisioning E p s =
    (if provision_ok E p s
     then (True, upd_asym (\<lambda>a. a\<lparr>as_provisioning_key := take 16 p, as_provisioning_set := True\<rparr>) s)
     else (False, s))"
proof (cases "length p = 80")
  case True
  then have "length p = 16 + 64" by simp
  from transcript_take [OF _ this, of FBSEC_ASYM_RD_PKINSTALL_ACK] show ?thesis
    by (simp add: fbsec_server_asym_install_provisioning_def provision_ok_def Let_def)
next
  case False
  then show ?thesis by (simp add: fbsec_server_asym_install_provisioning_def provision_ok_def)
qed

lemma upd_asym_simps [simp]:
  "host (upd_asym f s) = (host s)\<lparr>sv_asym := f (astore s)\<rparr>" "registry (upd_asym f s) = registry s"
  "get_key (upd_asym f s) k = get_key s k" "keys_wf (upd_asym f s) = keys_wf s"
  "sod_wf (upd_asym f s) = sod_wf s" "read_slot (upd_asym f s) = read_slot s"
  "write_slot (upd_asym f s) = write_slot s" "last_write_kid_base (upd_asym f s) = last_write_kid_base s"
  by (simp_all add: upd_asym_def)

definition provisioned :: "bytes \<Rightarrow> 'e srv \<Rightarrow> 'e srv" where
  "provisioned p s =
     fbsec_server_lifecycle_set FBSEC_STAGE_OWNED
       (snd (set_key_from FBSEC_DEMO_KEYID_PROVISIONING (take 16 p)
          FBSEC_DEMO_KEYID_VALUE_PROVISIONING
          (upd_asym (\<lambda>a. a\<lparr>as_provisioning_key := take 16 p, as_provisioning_set := True\<rparr>) s)))"

definition claimed :: "bytes \<Rightarrow> 'e srv \<Rightarrow> 'e srv" where
  "claimed v s =
     fbsec_server_lifecycle_set FBSEC_STAGE_OWNED
       (upd_asym (\<lambda>a. a\<lparr>as_owner := slice v 8 32, as_owner_set := True,
          as_owner_epoch := voucher_epoch v, as_uncommissioned := False\<rparr>) s)"

lemma handle_provision_result:
  "handle_provision E p s =
    (if provision_ok E p s then ((FBSEC_ABORT_NONE, []), provisioned p s)
     else ((FBSEC_ABORT_SIG_VERIFY, []), s))"
  by (simp add: handle_provision_def provisioning_result provisioned_def
      fbsec_server_asym_provisioning_key_def)

lemma handle_voucher_result:
  "handle_voucher E v s =
    (if voucher_ok E v s then ((FBSEC_ABORT_NONE, []), claimed v s)
     else ((FBSEC_ABORT_VOUCHER, []), s))"
  by (simp add: handle_voucher_def claim_result claimed_def)

section \<open>Everything a request can do\<close>

definition new_ldevid :: "ed25519 \<Rightarrow> 'e srv \<Rightarrow> 'e srv" where
  "new_ldevid E s = upd_asym (\<lambda>a. a\<lparr>as_ldevid := fbsec_asym_keygen E FBSEC_DEMO_LDEVID_SEED,
     as_ldevid_present := True\<rparr>) s"

lemma upd_chall_id: "upd_chall (\<lambda>c. c) s = s"
  by (simp add: upd_chall_def upd_host_def)

lemma handle_ldevid_state: "snd (handle_ldevid E p s) = s \<or> snd (handle_ldevid E p s) = new_ldevid E s"
  by (auto simp: handle_ldevid_def fbsec_server_asym_generate_ldevid_def new_ldevid_def Let_def
      split: option.split)

lemma arm_challenge_quiet: "\<exists>f t. quiet s t \<and> snd (arm_challenge F c d s) = upd_chall f t"
  using arm_challenge_state [of F c d s] random_hook_quiet [of F 16 s] upd_chall_id
  by (metis prod.collapse)

lemma request_cases:
  assumes "fbsec_server_dispatch_request E g F c d req s = (r, s')"
  obtains (quiet) f t where "quiet s t" "s' = upd_chall f t"
  | (ldevid) "d = FBSEC_HO_LDEVID_ID" "s' = new_ldevid E s"
  | (provision) "d = FBSEC_HO_PROVISION_ID" "provision_ok E req s" "s' = provisioned req s"
  | (voucher) "d = FBSEC_HO_VOUCHER_ID" "voucher_ok E req s" "s' = claimed req s"
  | (signed_write) rc where "d = FBSEC_RPK_GENERIC_WRITE_ID" "gw_signed E c req s"
      "fbsec_sod_port_write_after (target_of req) (gw_value req) (disarm s) = (rc, s')"
  | (reset) "d = FBSEC_RPK_FUNCCMD_ID" "reset_signed E c req s"
      "s' = fbsec_server_handover_decommission (disarm s)"
  | (secure_write) v a rc b where "write_reaches g (server_port F) c d req s v a"
      "fbsec_sod_port_write_after d v a = (rc, b)" "same_core b s'"
      "last_write_kid_base s' = last_write_kid_base b"
proof -
  have same: ?thesis if "s' = s"
    using quiet [OF quiet_refl [of s]] upd_chall_id [of s] that by metis
  have quiet_only: ?thesis if "quiet s s'"
    using quiet [OF that] upd_chall_id [of s'] by metis
  consider "s' = s"
    | "fbsec_server_handover_try E d req s = Some (r, s')"
    | "fbsec_server_rpk_try E F c d req s = Some (r, s')"
    | st where "fbsec_sod_dispatch g (server_port F) c d req FBSEC_SERVER_DISPATCH_REPLY_MAX s = (st, s')"
    using assms unfolding fbsec_server_dispatch_request_def
    by (auto split: option.splits prod.splits)
  then show ?thesis
  proof cases
    case 1
    then show ?thesis by (rule same)
  next
    case 2
    then consider "s' = s" | "d = FBSEC_HO_LDEVID_ID" "snd (handle_ldevid E req s) = s'"
      | "d = FBSEC_HO_PROVISION_ID" "snd (handle_provision E req s) = s'"
      | "d = FBSEC_HO_VOUCHER_ID" "snd (handle_voucher E req s) = s'"
      by (auto simp: fbsec_server_handover_try_def handle_identity_def handle_epoch_def Let_def
          split: if_splits option.splits)
    then show ?thesis
    proof cases
      case 2
      then show ?thesis using same ldevid handle_ldevid_state [of E req s] by auto
    qed (use same provision voucher in
        \<open>auto simp: handle_provision_result handle_voucher_result split: if_splits\<close>)
  next
    case 3
    then consider "s' = s"
      | "handle_generic_read E F c req s = (r, s')"
      | "d = FBSEC_RPK_GENERIC_WRITE_ID" "handle_generic_write E F c req s = (r, s')"
      | "d = FBSEC_RPK_FUNCCMD_ID" "handle_command E F c req s = (r, s')"
      by (auto simp: fbsec_server_rpk_try_def Let_def split: if_splits)
    then show ?thesis
    proof cases
      case 1
      then show ?thesis by (rule same)
    next
      case 2
      then show ?thesis
      proof (cases rule: generic_read_cases)
        case arm
        then show ?thesis using arm_challenge_quiet quiet by metis
      next
        case (quiet t)
        then show ?thesis using that(1) [OF quiet(1)] upd_chall_id [of t] unfolding disarm_def by metis
      qed
    next
      case 3
      from 3(2) show ?thesis
      proof (cases rule: generic_write_cases)
        case arm
        then show ?thesis using arm_challenge_quiet quiet by metis
      next
        case quiet
        then show ?thesis using that(1) [OF quiet_refl] upd_chall_id [of s] unfolding disarm_def by metis
      next
        case signed
        then show ?thesis using signed_write 3(1) by blast
      qed
    next
      case 4
      from 4(2) show ?thesis
      proof (cases rule: command_cases)
        case arm
        then show ?thesis using arm_challenge_quiet quiet by metis
      next
        case quiet
        then show ?thesis using that(1) [OF quiet_refl] upd_chall_id [of s] unfolding disarm_def by metis
      next
        case reset
        then show ?thesis using that(6) 4(1) by blast
      qed
    qed
  next
    case 4
    from secure_request_cases [OF this] show ?thesis using quiet_only secure_write by blast
  qed
qed

section \<open>The invariant\<close>

lemma srv_wf_upd_chall:
  "srv_wf s \<Longrightarrow> length (ch_server_nonce (f (chall s))) = FBSEC_RPK_NONCE_LEN \<Longrightarrow> srv_wf (upd_chall f s)"
  by (simp add: srv_wf_def upd_chall_def host_wf_def)

lemma same_slots_write_frame_wf: "srv_wf s \<Longrightarrow> write_frame s s' \<Longrightarrow> same_slots s s' \<Longrightarrow> srv_wf s'"
  by (auto simp: srv_wf_def write_frame_def dest: same_slots_wf)

lemma same_core_same_slots_host: "same_core s s' \<Longrightarrow> host s' = host s"
  by (simp add: same_core_def)

lemma decommission_host:
  "host (fbsec_server_handover_decommission s) = (host s)\<lparr>
     sv_asym := (astore s)\<lparr>as_owner := replicate 32 0, as_owner_set := False,
       as_provisioning_key := replicate 16 0, as_provisioning_set := False,
       as_ldevid := zero_keypair, as_ldevid_present := False, as_uncommissioned := True\<rparr>,
     sv_stage := FBSEC_STAGE_UNCOMMISSIONED\<rparr>"
  "registry (fbsec_server_handover_decommission s) = registry s"
  "read_slot (fbsec_server_handover_decommission s) = read_slot s"
  "write_slot (fbsec_server_handover_decommission s) = write_slot s"
  "last_write_kid_base (fbsec_server_handover_decommission s) = last_write_kid_base s"
  by (simp_all add: fbsec_server_handover_decommission_def fbsec_server_asym_decommission_def
      fbsec_server_install_claim_token_def install_if_unset_def fbsec_server_lifecycle_set_def
      upd_asym_def upd_host_def fbsec_sod_clear_keys_def)

lemma decommission_keys:
  "get_key (fbsec_server_handover_decommission s) k =
     (if k = FBSEC_DEMO_KEYID_CLAIM_TOKEN then Some (take 16 FBSEC_DEMO_CLAIM_TOKEN) else None)"
  "keys_wf (fbsec_server_handover_decommission s)"
proof -
  have l: "FBSEC_AEAD_KEY_SIZE \<le> length FBSEC_DEMO_CLAIM_TOKEN"
    by (simp add: FBSEC_DEMO_CLAIM_TOKEN_def)
  have t: "fbsec_server_install_claim_token (fbsec_sod_clear_keys s) =
      snd (set_key_from 4 FBSEC_DEMO_CLAIM_TOKEN 0x1000 (fbsec_sod_clear_keys s))"
    by (simp add: fbsec_server_install_claim_token_def install_if_unset_def has_key_get)
  show "get_key (fbsec_server_handover_decommission s) k =
     (if k = FBSEC_DEMO_KEYID_CLAIM_TOKEN then Some (take 16 FBSEC_DEMO_CLAIM_TOKEN) else None)"
    by (simp add: fbsec_server_handover_decommission_def fbsec_server_asym_decommission_def t
        set_key_from_get [OF clear_keys_wf])
  show "keys_wf (fbsec_server_handover_decommission s)"
    by (simp add: fbsec_server_handover_decommission_def fbsec_server_asym_decommission_def t
        set_key_from_wf [OF clear_keys_wf l] fbsec_server_lifecycle_set_def)
qed

lemma decommission_wf: "srv_wf s \<Longrightarrow> srv_wf (fbsec_server_handover_decommission s)"
  using decommission_keys(2) [of s]
  by (simp add: srv_wf_def sod_wf_def decommission_host host_wf_def asym_wf_def)

lemma claimed_wf:
  assumes "srv_wf s" "voucher_ok E v s"
  shows "srv_wf (claimed v s)"
  using assms
  by (simp add: claimed_def srv_wf_def host_wf_def asym_wf_def voucher_ok_def
      fbsec_server_lifecycle_set_def)

lemma provisioned_wf:
  assumes "srv_wf s" "provision_ok E p s"
  shows "srv_wf (provisioned p s)"
proof -
  let ?u = "upd_asym (\<lambda>a. a\<lparr>as_provisioning_key := take 16 p, as_provisioning_set := True\<rparr>) s"
  have l: "length (take 16 p) = 16" using assms(2) by (simp add: provision_ok_def)
  have k: "keys_wf ?u" and w: "sod_wf ?u" using assms(1) by (simp_all add: srv_wf_def sod_wf_def)
  have "sod_wf (snd (set_key_from 1 (take 16 p) 0x1001 ?u))"
    using w set_key_from_wf [OF k, of "take 16 p" 1 "0x1001"] l by (simp add: sod_wf_def)
  then show ?thesis
    using assms(1) l
    by (simp add: provisioned_def srv_wf_def host_wf_def asym_wf_def fbsec_server_lifecycle_set_def)
qed

lemma write_after_wf:
  "fbsec_sod_port_write_after d v s = (rc, s') \<Longrightarrow> srv_wf s \<Longrightarrow> srv_wf s'"
  using write_hook_frame [of d v s rc s'] same_slots_write_frame_wf by blast

lemma arm_challenge_wf:
  assumes "srv_wf s" "platform_ok F"
  shows "srv_wf (snd (arm_challenge F c d s))"
proof -
  have f: "srv_wf (snd (fbsec_sod_port_random F 16 s))"
    using random_hook_frame [of F 16 s] same_slots_write_frame_wf [OF assms(1)] srv_frame_write_frame
    by (metis prod.collapse)
  have "length n = 16" if "fst (fbsec_sod_port_random F 16 s) = Some n" for n
    using port_random_length [OF server_port_ok [OF assms(2)], of 16 s n] that
    by (metis prod.collapse server_port_simps(3))
  then show ?thesis
    using arm_challenge_state [of F c d s] f by (auto intro!: srv_wf_upd_chall)
qed

lemma disarm_wf: "srv_wf s \<Longrightarrow> srv_wf (disarm s)"
  unfolding disarm_def by (rule srv_wf_upd_chall) (auto simp: srv_wf_def host_wf_def)

lemma handle_generic_read_wf:
  assumes "srv_wf s" "platform_ok F"
  shows "srv_wf (snd (handle_generic_read E F c req s))"
proof -
  have q: "srv_wf (snd (fbsec_sod_port_read_before d n s))" for d n
    using read_hook_frame [of d n s] same_slots_write_frame_wf [OF assms(1)] srv_frame_write_frame
    by (metis prod.collapse)
  have "snd (handle_generic_read E F c req s) \<in> {snd (arm_challenge F c FBSEC_RPK_GENERIC_READ_ID s), s,
      disarm (snd (fbsec_sod_port_read_before (target_of req) 16 s))}"
    by (simp add: handle_generic_read_def Let_def case_prod_unfold split: option.split)
  then show ?thesis
    using arm_challenge_wf [OF assms] assms(1) disarm_wf [OF q] by auto
qed

lemma handover_wf:
  assumes "fbsec_server_handover_try E d req s = Some (r, s')" "srv_wf s"
  shows "srv_wf s'"
proof -
  have "srv_wf (new_ldevid E s)"
    using assms(2) by (simp add: new_ldevid_def srv_wf_def host_wf_def asym_wf_def)
  then show ?thesis
    using assms claimed_wf provisioned_wf handle_ldevid_state [of E req s]
    by (auto simp: fbsec_server_handover_try_def handle_identity_def handle_epoch_def Let_def
        handle_provision_result handle_voucher_result split: if_splits option.splits)
qed

lemma rpk_wf:
  assumes "fbsec_server_rpk_try E F c d req s = Some (r, s')" "srv_wf s" "platform_ok F"
  shows "srv_wf s'"
proof -
  consider "s' = s"
    | "handle_generic_read E F c req s = (r, s')"
    | "handle_generic_write E F c req s = (r, s')"
    | "handle_command E F c req s = (r, s')"
    using assms(1) by (auto simp: fbsec_server_rpk_try_def Let_def split: if_splits)
  then show ?thesis
  proof cases
    case 1
    then show ?thesis using assms(2) by simp
  next
    case 2
    then show ?thesis using handle_generic_read_wf [OF assms(2,3), of E c req] by simp
  next
    case 3
    then show ?thesis
    proof (cases rule: generic_write_cases)
      case arm
      then show ?thesis using arm_challenge_wf [OF assms(2,3)] by simp
    next
      case quiet
      then show ?thesis using assms(2) disarm_wf by blast
    next
      case (signed rc)
      then show ?thesis using write_after_wf disarm_wf [OF assms(2)] by blast
    qed
  next
    case 4
    then show ?thesis
    proof (cases rule: command_cases)
      case arm
      then show ?thesis using arm_challenge_wf [OF assms(2,3)] by simp
    next
      case quiet
      then show ?thesis using assms(2) disarm_wf by blast
    next
      case reset
      then show ?thesis using decommission_wf disarm_wf [OF assms(2)] by blast
    qed
  qed
qed

lemma request_wf:
  assumes "fbsec_server_dispatch_request E g F c d req s = (r, s')" "srv_wf s" "platform_ok F" "gcm_ok g"
  shows "srv_wf s'"
proof -
  consider "s' = s"
    | "fbsec_server_handover_try E d req s = Some (r, s')"
    | "fbsec_server_rpk_try E F c d req s = Some (r, s')"
    | st where "fbsec_sod_dispatch g (server_port F) c d req FBSEC_SERVER_DISPATCH_REPLY_MAX s = (st, s')"
    using assms(1) unfolding fbsec_server_dispatch_request_def
    by (auto split: option.splits prod.splits)
  then show ?thesis
  proof cases
    case 4
    have "sod_wf s'" using dispatch_wf [OF 4 server_port_ok [OF assms(3)] assms(4)] assms(2)
      by (simp add: srv_wf_def)
    moreover have "host_wf (host s')"
      using srv_requests.dispatch_related [OF 4] assms(2) by (simp add: write_frame_def srv_wf_def)
    ultimately show ?thesis by (simp add: srv_wf_def)
  next
    case 2
    then show ?thesis using handover_wf assms(2) by blast
  next
    case 3
    then show ?thesis using rpk_wf assms(2,3) by blast
  qed (use assms in simp)
qed

section \<open>Identity, configuration and owner epoch\<close>

definition same_identity :: "'e srv \<Rightarrow> 'e srv \<Rightarrow> bool" where
  "same_identity s s' \<longleftrightarrow> registry s' = registry s \<and> sv_my_dev (host s') = sv_my_dev (host s) \<and>
     sv_const_od (host s') = sv_const_od (host s) \<and>
     sv_secure_ro (host s') = sv_secure_ro (host s) \<and>
     as_idevid (astore s') = as_idevid (astore s) \<and>
     as_idevid_cert (astore s') = as_idevid_cert (astore s) \<and>
     as_anchor (astore s') = as_anchor (astore s) \<and> as_serial (astore s') = as_serial (astore s) \<and>
     as_peer (astore s') = as_peer (astore s) \<and> as_peer_set (astore s') = as_peer_set (astore s) \<and>
     as_ready (astore s') = as_ready (astore s) \<and>
     as_owner_epoch (astore s) \<le> as_owner_epoch (astore s')"

lemma write_frame_identity: "write_frame s s' \<Longrightarrow> same_identity s s'"
  by (simp add: write_frame_def same_identity_def)

lemma quiet_identity: "quiet s s' \<Longrightarrow> same_identity s s'"
  using quiet_host [of s s'] by (simp add: same_identity_def quiet_def)

lemma request_identity:
  assumes "fbsec_server_dispatch_request E g F c d req s = (r, s')"
  shows "same_identity s s'"
  using assms
proof (cases rule: request_cases)
  case (quiet f t)
  then show ?thesis using quiet_identity [of s t] by (simp add: same_identity_def upd_chall_def)
next
  case (signed_write rc)
  from write_hook_frame [OF signed_write(3)] have "same_identity (disarm s) s'"
    using write_frame_identity by blast
  then show ?thesis by (simp add: same_identity_def)
next
  case (secure_write v a rc b)
  have "same_identity a b" using write_hook_frame [OF secure_write(2)] write_frame_identity by blast
  then show ?thesis
    using write_reaches_core [OF secure_write(1)] secure_write(3)
    by (simp add: same_identity_def same_core_def)
qed (auto simp: same_identity_def new_ldevid_def provisioned_def claimed_def decommission_host
    voucher_ok_def)

section \<open>Who can change the keys\<close>

text \<open>
  A key set write that reached the hook in state \<open>a\<close> and was applied: the ladder
  is checked against the last verified single-shot write of \<open>a\<close>.
\<close>

lemma write_after_keys:
  assumes "fbsec_sod_port_write_after d v a = (rc, b)" "keys_wf a" "get_key b k \<noteq> get_key a k"
  shows "d = FBSEC_SEC_KEY_SET_DATA_ID \<and> length v = FBSEC_KEY_SET_BODY_LEN \<and> v ! 0 = k \<and>
    ladder_need k = Some (last_write_kid_base a) \<and> last_write_kid_base b = last_write_kid_base a \<and>
    get_key a k = None \<and> get_key b k = Some (drop 5 v)"
proof (cases "d = FBSEC_SEC_KEY_SET_DATA_ID")
  case True
  then have "fbsec_server_apply_key_set v a = (rc, b)"
    using assms(1) by (simp add: fbsec_sod_port_write_after_def)
  then show ?thesis
  proof (cases rule: apply_key_set_cases)
    case refused
    then show ?thesis using assms(3) by simp
  next
    case (installed need stage)
    then show ?thesis
      using assms(2,3) True by (auto simp: set_key_from_get split: if_splits)
  qed
next
  case False
  then show ?thesis
    using assms(1,3) by (auto simp: fbsec_sod_port_write_after_def split: if_splits)
qed

text \<open>
  The ladder: who may install which key. A single-shot write is judged by its own
  key, a poll by the key that the last single-shot write of any object was verified
  with.
\<close>

lemma ladder_need_rungs:
  "ladder_need k = Some a \<longleftrightarrow> (a, k) \<in> {(FBSEC_DEMO_KEYID_CLAIM_TOKEN, FBSEC_DEMO_KEYID_PROVISIONING),
     (FBSEC_DEMO_KEYID_PROVISIONING, FBSEC_DEMO_KEYID_INTEGRATOR),
     (FBSEC_DEMO_KEYID_INTEGRATOR, FBSEC_DEMO_KEYID_OPERATOR)}"
  by (auto simp: ladder_need_def)

lemma key_change_authority:
  assumes "fbsec_server_dispatch_request E g F c d req s = (r, s')" "srv_wf s"
    and "get_key s' k \<noteq> get_key s k"
  shows "d = FBSEC_SEC_KEY_SET_DATA_ID \<and> get_key s k = None \<and>
      (\<exists>i v. find_index s d = Some i \<and> v ! 0 = k \<and> get_key s' k = Some (drop 5 v) \<and>
        (write_request_opens g (server_port F) i (registry s ! i) req s v \<and>
           ladder_need k = Some (FBSEC_AEAD_KEYID_BASE (req ! 0)) \<or>
         (\<exists>ctr. write_poll_opens g (server_port F) i (registry s ! i) c req s v ctr) \<and>
           ladder_need k = Some (last_write_kid_base s)))
    \<or> d = FBSEC_HO_PROVISION_ID \<and> k = FBSEC_DEMO_KEYID_PROVISIONING \<and> get_key s k = None \<and>
      provision_ok E req s \<and> get_key s' k = Some (take 16 req)
    \<or> d = FBSEC_RPK_FUNCCMD_ID \<and> reset_signed E c req s \<and>
      get_key s' k = (if k = FBSEC_DEMO_KEYID_CLAIM_TOKEN
                      then Some (take 16 FBSEC_DEMO_CLAIM_TOKEN) else None)"
proof -
  have kw: "keys_wf s" using assms(2) by (simp add: srv_wf_def sod_wf_def)
  from assms(1) show ?thesis
  proof (cases rule: request_cases)
    case (quiet f t)
    then show ?thesis using assms(3) quiet_get_key [of s t k] by (simp add: upd_chall_def)
  next
    case ldevid
    then show ?thesis using assms(3) by (simp add: new_ldevid_def)
  next
    case provision
    have "get_key s' k = (if k = 1 \<and> get_key s 1 = None then Some (take 16 req) else get_key s k)"
      using kw unfolding provision(3) provisioned_def by (simp add: set_key_from_get)
    then show ?thesis using provision assms(3) by (auto split: if_splits)
  next
    case voucher
    then show ?thesis using assms(3) by (simp add: claimed_def)
  next
    case (signed_write rc)
    have "length req \<le> 99" using signed_write(2) by (simp add: gw_signed_def)
    then have "length req - 83 \<le> 16" by linarith
    then have "length (gw_value req) \<le> 16" by (simp add: gw_value_def slice_def)
    moreover have "get_key s' k \<noteq> get_key (disarm s) k" using assms(3) by simp
    ultimately have False using write_after_keys [OF signed_write(3)] kw by auto
    then show ?thesis ..
  next
    case reset
    then show ?thesis using decommission_keys(1) by blast
  next
    case (secure_write v a rc b)
    have ak: "get_key a j = get_key s j" for j
      using same_core_get_key [OF write_reaches_core [OF secure_write(1)]] .
    have "keys_wf a"
      using kw write_reaches_core [OF secure_write(1)] by (simp add: same_core_def keys_wf_def)
    moreover have bk: "get_key s' j = get_key b j" for j
      using same_core_get_key [OF secure_write(3)] .
    ultimately have w: "d = FBSEC_SEC_KEY_SET_DATA_ID" "v ! 0 = k" "get_key s k = None"
      "ladder_need k = Some (last_write_kid_base a)" "get_key s' k = Some (drop 5 v)"
      using write_after_keys [OF secure_write(2)] assms(3) ak by auto
    have "\<exists>i. find_index s d = Some i \<and>
        (write_request_opens g (server_port F) i (registry s ! i) req s v \<and>
           ladder_need k = Some (FBSEC_AEAD_KEYID_BASE (req ! 0)) \<or>
         (\<exists>ctr. write_poll_opens g (server_port F) i (registry s ! i) c req s v ctr) \<and>
           ladder_need k = Some (last_write_kid_base s))"
      using secure_write(1) w(4) unfolding write_reaches_def by (auto simp: write_hook_state_def)
    then show ?thesis using w(1-3,5) by blast
  qed
qed

text \<open>
  A poll does not set the key of the last write, so an accepted poll of the key
  set object is judged by whoever wrote last, whatever key its session is under.
\<close>

lemma poll_key_set_installs:
  assumes "keys_wf s" "find_index s FBSEC_SEC_KEY_SET_DATA_ID = Some i"
    and wo: "ent_access_flags (registry s ! i) AND FBSEC_SOD_ACCESS_SECURE_WO \<noteq> 0"
    and o: "write_poll_opens g (server_port F) i (registry s ! i) c req s v ctr"
    and v: "length v = FBSEC_KEY_SET_BODY_LEN" "ladder_need (v ! 0) = Some (last_write_kid_base s)"
      "get_key s (v ! 0) = None"
  shows "get_key (snd (fbsec_sod_dispatch g (server_port F) c FBSEC_SEC_KEY_SET_DATA_ID req rm s)) (v ! 0)
    = Some (drop 5 v)"
proof -
  let ?P = "server_port F" and ?e = "registry s ! i"
  have disp: "fbsec_sod_dispatch g ?P c FBSEC_SEC_KEY_SET_DATA_ID req rm s = handle_write_poll g ?P i ?e c req s"
    using assms(2) wo o by (auto simp: fbsec_sod_dispatch_def Let_def write_poll_opens_def)
  have d: "ent_data_id ?e = FBSEC_SEC_KEY_SET_DATA_ID" using find_index_SomeD(2) [OF assms(2)] .
  have k: "v ! 0 \<noteq> 0" "v ! 0 \<le> FBSEC_SOD_KEY_SLOTS"
    using v(2) by (auto simp: ladder_need_def split: if_splits)
  have "fst (set_key_from (v ! 0) (drop 5 v) (get32 v 1) s)"
    using k v(3) by (simp add: set_key_from_def set_key_ex_result has_key_get)
  then have "fst (fbsec_server_apply_key_set v s) = FBSEC_ABORT_NONE"
    using v has_key_get [of s "v ! 0"]
    by (simp add: fbsec_server_apply_key_set_def Let_def fbsec_sod_last_write_key_id_def case_prod_unfold)
  then obtain b where b: "fbsec_server_apply_key_set v s = (FBSEC_ABORT_NONE, b)"
    by (metis prod.collapse)
  have "get_key b (v ! 0) = Some (drop 5 v)"
    using b
  proof (cases rule: apply_key_set_cases)
    case refused
    then show ?thesis by simp
  next
    case installed
    then show ?thesis using k v assms(1) by (auto simp: set_key_from_get)
  qed
  moreover have "port_write_after ?P FBSEC_SEC_KEY_SET_DATA_ID v s = (FBSEC_ABORT_NONE, b)"
    using b by (simp add: fbsec_sod_port_write_after_def)
  ultimately show ?thesis
    by (simp add: disp handle_write_poll_opens [OF o] d advance_write_def)
qed

end
