(* ===== verification/Server_Run.thy ===== *)
theory Server_Run
  imports Server_Props
begin

text \<open>
  Sequences of requests on the reference server, interleaved with changes of
  the platform (time passing, random numbers drawn elsewhere): reachable
  states, ownership over time and the objects only a verified write changes.
\<close>

section \<open>Events\<close>

datatype 'e event = Request u16 u32 bytes | Platform 'e

fun srv_step :: "ed25519 \<Rightarrow> gcm \<Rightarrow> 'e platform \<Rightarrow> 'e event \<Rightarrow> 'e srv \<Rightarrow> 'e srv" where
  "srv_step E g F (Request c d req) s = snd (fbsec_server_dispatch_request E g F c d req s)"
| "srv_step E g F (Platform e) s = upd_host (\<lambda>h. h\<lparr>sv_env := e\<rparr>) s"

fun srv_run :: "ed25519 \<Rightarrow> gcm \<Rightarrow> 'e platform \<Rightarrow> 'e event list \<Rightarrow> 'e srv \<Rightarrow> 'e srv" where
  "srv_run E g F [] s = s"
| "srv_run E g F (x # xs) s = srv_run E g F xs (srv_step E g F x s)"

inductive srv_reachable :: "ed25519 \<Rightarrow> gcm \<Rightarrow> 'e platform \<Rightarrow> 'e srv \<Rightarrow> bool" for E g F where
  booted: "fbsec_server_od_init E dev kf od demo (server_statics e) = Some s \<Longrightarrow>
     (case od of None \<Rightarrow> True | Some rows \<Rightarrow> const_od_wf rows) \<Longrightarrow>
     (case kf of None \<Rightarrow> True | Some rows \<Rightarrow> \<forall>(k, key, v)\<in>set rows. length key = 16) \<Longrightarrow>
     srv_reachable E g F s"
| stepped: "srv_reachable E g F s \<Longrightarrow> srv_reachable E g F (srv_step E g F x s)"

lemma srv_run_append: "srv_run E g F (xs @ ys) s = srv_run E g F ys (srv_run E g F xs s)"
  by (induction xs arbitrary: s) simp_all

section \<open>Start-up reaches a well-formed state\<close>

lemma asym_init_wf:
  assumes "ed_ok E"
  shows "asym_wf (astore (fbsec_server_asym_init E s))"
  using assms
  by (simp add: fbsec_server_asym_init_def asym_wf_def Let_def ed_ok_pub_length ed_ok_sign_length
      FBSEC_DEMO_IDEVID_SEED_def FBSEC_DEMO_MFG_SEED_def FBSEC_DEMO_DEVICE_SERIAL_def
      upd_asym_def split: option.split)

lemma const_od_load_wf:
  assumes "const_od_load rows s = Some s'" "srv_wf s"
    "\<forall>e\<in>set rows. unat (ce_len e) \<le> FBSEC_CONST_OD_MAX_DATA \<and>
       length (ce_data e) = FBSEC_CONST_OD_MAX_DATA"
  shows "srv_wf s' \<and> registry s' = registry s"
  using assms
proof (induction rows arbitrary: s)
  case Nil
  then show ?case by simp
next
  case (Cons e es)
  let ?t = "upd_host (\<lambda>h. h\<lparr>sv_const_od := sv_const_od h @ [e]\<rparr>) s"
  have "const_od_load es ?t = Some s'" and small: "length (sv_const_od (host s)) < 32"
    using Cons.prems(1) by (auto split: if_splits)
  moreover have "srv_wf ?t"
    using Cons.prems(2,3) small by (simp add: srv_wf_def host_wf_def const_od_wf_def)
  ultimately show ?case using Cons.IH [of ?t] Cons.prems(3) by simp
qed

lemma identity_subs_length:
  "identity_subs get ss acc = (b, i) \<Longrightarrow> length acc \<le> 16 \<Longrightarrow> length i \<le> 16"
  by (induction ss arbitrary: acc) (auto split: if_splits option.splits)

lemma load_identity_wf:
  assumes "fbsec_server_hooks_load_identity s = (b, s')" "srv_wf s"
  shows "srv_wf s' \<and> registry s' = registry s"
proof -
  obtain ok acc where i: "identity_subs (fbsec_const_od_get s FBSEC_OD_IDENTITY_INDEX) [1, 2, 3, 4] []
      = (ok, acc)" by fastforce
  have "length acc \<le> 16" using identity_subs_length [OF i] by simp
  then show ?thesis
    using assms
    by (auto simp: fbsec_server_hooks_load_identity_def fbsec_const_od_get_identity_def srv_wf_def
        host_wf_def i simp del: identity_subs.simps)
qed

lemma register_entry_host:
  "host (snd (fbsec_sod_register_entry e s)) = host s"
  "keys_wf (snd (fbsec_sod_register_entry e s)) = keys_wf s"
  "read_slot (snd (fbsec_sod_register_entry e s)) = read_slot s"
  "write_slot (snd (fbsec_sod_register_entry e s)) = write_slot s"
  by (simp_all add: fbsec_sod_register_entry_def keys_wf_def split: option.split)

lemma register_entry_wf:
  assumes "fbsec_sod_register_entry e s = (True, s')" "srv_wf s"
  shows "srv_wf s'"
  using assms register_registry(1) [OF _ assms(1)] register_entry_host [of e s]
  by (simp add: srv_wf_def sod_wf_def)

lemma register_all_wf: "register_server_entries es s = Some s' \<Longrightarrow> srv_wf s \<Longrightarrow> srv_wf s'"
  by (induction es arbitrary: s) (auto split: if_splits prod.splits intro: register_entry_wf)

lemma set_key_from_srv_wf:
  assumes "srv_wf s" "16 \<le> length p"
  shows "srv_wf (snd (set_key_from k p v s))"
  using assms set_key_from_wf [of s p k v] by (simp add: srv_wf_def sod_wf_def)

lemma install_if_unset_srv_wf:
  "srv_wf s \<Longrightarrow> 16 \<le> length p \<Longrightarrow> srv_wf (install_if_unset k p v s)"
  by (simp add: install_if_unset_def set_key_from_srv_wf)

lemma install_if_unset_registry [simp]: "registry (install_if_unset k p v s) = registry s"
  by (simp add: install_if_unset_def)

lemma load_key_rows_wf:
  "load_key_rows rows s = Some s' \<Longrightarrow> srv_wf s \<Longrightarrow> \<forall>(k, key, v)\<in>set rows. length key = 16 \<Longrightarrow>
     srv_wf s' \<and> registry s' = registry s"
proof (induction rows arbitrary: s)
  case Nil
  then show ?case by simp
next
  case (Cons r rows)
  obtain k key v where r: "r = (k, key, v)" by (metis prod_cases3)
  let ?t = "snd (set_key_from k key v s)"
  have "load_key_rows rows ?t = Some s'" using Cons.prems(1) r by (auto split: if_splits prod.splits)
  moreover have "srv_wf ?t" using Cons.prems(2,3) r by (intro set_key_from_srv_wf) auto
  ultimately show ?case using Cons.IH [of ?t] Cons.prems(3) by simp
qed

lemma register_entries_registry:
  assumes "register_server_entries (server_entries i) s = Some s'" "registry s = []"
  shows "registry s' = server_entries i"
  using assms
  by (cases i) (auto simp: server_entries_def server_entry_def fbsec_sod_register_entry_def find_index_def
      split: if_splits option.splits)

lemma od_init_wf:
  assumes init: "fbsec_server_od_init E dev kf od demo (server_statics e) = Some s" and E: "ed_ok E"
    and od: "case od of None \<Rightarrow> True | Some rows \<Rightarrow> const_od_wf rows"
    and kf: "case kf of None \<Rightarrow> True | Some rows \<Rightarrow> \<forall>(k, key, v)\<in>set rows. length key = 16"
  shows "srv_wf s" and "\<exists>i. registry s = server_entries i"
proof -
  define a where "a = fbsec_server_asym_init E (fbsec_server_hooks_set_my_dev dev
     (fbsec_server_lifecycle_init (fbsec_sod_init (server_statics e))))"
  define p where "p = fbsec_const_od_init (snd (fbsec_server_asym_set_peer 1
     (kp_pub (fbsec_asym_keygen E FBSEC_DEMO_INTEGRATOR_SEED)) a))"
  have aw: "asym_wf (astore a)" unfolding a_def by (rule asym_init_wf [OF E])
  have "\<exists>st. host a = (server_statics e)\<lparr>sv_my_dev := dev, sv_asym := st\<rparr>"
    and as: "sod_wf a" and ar: "registry a = []"
    using init_wf [of "server_statics e"]
    by (simp_all add: a_def fbsec_server_asym_init_def Let_def fbsec_server_hooks_set_my_dev_def
        fbsec_server_lifecycle_init_def fbsec_sod_init_def server_statics_def)
  then obtain st where ah: "host a = (server_statics e)\<lparr>sv_my_dev := dev, sv_asym := st\<rparr>"
    by blast
  have "asym_wf st" using aw ah by simp
  then have pw: "srv_wf p"
    using as ah
    by (simp add: p_def srv_wf_def fbsec_const_od_init_def host_wf_def const_od_wf_def
        fbsec_server_asym_set_peer_def server_statics_def asym_wf_def)
  have pr: "registry p = []"
    using ar by (simp add: p_def fbsec_const_od_init_def fbsec_server_asym_set_peer_def)
  obtain q b t u v where
    q: "(case od of None \<Rightarrow> Some p | Some rows \<Rightarrow> const_od_load rows p) = Some q" and
    t: "fbsec_server_hooks_load_identity q = (b, t)" and
    u: "register_server_entries (server_entries b) t = Some u" and
    v: "(case kf of None \<Rightarrow> Some u | Some rows \<Rightarrow> fbsec_server_load_key_file rows u) = Some v" and
    s: "s = (let w = fbsec_server_install_claim_token
               (if demo then fbsec_server_install_demo_keys_if_unset v else v)
             in fbsec_server_lifecycle_set (if has_session_keys w then FBSEC_STAGE_OPERATIONAL
                  else FBSEC_STAGE_UNCOMMISSIONED) w)"
    using init unfolding fbsec_server_od_init_def Let_def a_def p_def
    by (auto split: option.splits prod.splits)
  have qw: "srv_wf q \<and> registry q = []"
    using q pw pr od const_od_load_wf [of _ p q]
    by (auto simp: const_od_wf_def split: option.splits)
  have tw: "srv_wf t \<and> registry t = []" using load_identity_wf [OF t] qw by simp
  have uw: "srv_wf u" "registry u = server_entries b"
    using register_all_wf [OF u] register_entries_registry [OF u] tw by auto
  have vw: "srv_wf v \<and> registry v = server_entries b"
    using v uw kf load_key_rows_wf [of _ u v]
    by (auto simp: fbsec_server_load_key_file_def split: option.splits if_splits)
  have l: "16 \<le> length FBSEC_DEMO_CLAIM_TOKEN" "16 \<le> length FBSEC_DEMO_KEY_OPERATOR"
    "16 \<le> length FBSEC_DEMO_KEY_INTEGRATOR" "16 \<le> length FBSEC_DEMO_KEY_PROVISIONING"
    by (simp_all add: FBSEC_DEMO_CLAIM_TOKEN_def FBSEC_DEMO_KEY_OPERATOR_def
        FBSEC_DEMO_KEY_INTEGRATOR_def FBSEC_DEMO_KEY_PROVISIONING_def)
  have lw: "srv_wf x \<Longrightarrow> srv_wf (fbsec_server_lifecycle_set st x)" for x :: "'a srv" and st
    by (simp add: srv_wf_def host_wf_def fbsec_server_lifecycle_set_def)
  show "srv_wf s"
    unfolding s Let_def fbsec_server_install_claim_token_def fbsec_server_install_demo_keys_if_unset_def
    using vw l by (intro lw install_if_unset_srv_wf) (auto intro!: install_if_unset_srv_wf)
  show "\<exists>i. registry s = server_entries i"
    unfolding s Let_def fbsec_server_install_claim_token_def fbsec_server_install_demo_keys_if_unset_def
    using vw by auto
qed

section \<open>Reachable states\<close>

lemma step_wf:
  assumes "srv_wf s" "platform_ok F" "gcm_ok g"
  shows "srv_wf (srv_step E g F x s)"
proof (cases x)
  case (Request c d req)
  then show ?thesis
    using request_wf [of E g F c d req s] assms by (metis prod.collapse srv_step.simps(1))
qed (use assms in \<open>simp add: srv_wf_def host_wf_def\<close>)

lemma step_identity: "same_identity s (srv_step E g F x s)"
proof (cases x)
  case (Request c d req)
  then show ?thesis
    using request_identity [of E g F c d req s] by (metis prod.collapse srv_step.simps(1))
qed (simp add: same_identity_def)

lemma reachable_wf:
  assumes "srv_reachable E g F s" "ed_ok E" "platform_ok F" "gcm_ok g"
  shows "srv_wf s \<and> (\<exists>i. registry s = server_entries i)"
  using assms(1)
proof induction
  case (booted dev kf od demo e s)
  then show ?case using od_init_wf [OF booted(1) assms(2)] by blast
next
  case (stepped s x)
  then show ?case
    using step_wf [OF _ assms(3,4), of s E x] step_identity [of s E g F x]
    by (auto simp: same_identity_def)
qed

lemma same_identity_refl: "same_identity s s"
  by (simp add: same_identity_def)

lemma same_identity_trans: "same_identity s t \<Longrightarrow> same_identity t u \<Longrightarrow> same_identity s u"
  by (auto simp: same_identity_def)

lemma run_identity: "same_identity s (srv_run E g F xs s)"
  by (induction xs arbitrary: s)
     (auto intro: same_identity_refl same_identity_trans step_identity)

lemma run_wf:
  "srv_wf s \<Longrightarrow> platform_ok F \<Longrightarrow> gcm_ok g \<Longrightarrow> srv_wf (srv_run E g F xs s)"
  by (induction xs arbitrary: s) (auto intro: step_wf)

section \<open>Ownership over time\<close>

definition owner_data :: "'e srv \<Rightarrow> bytes \<times> bool \<times> u32 \<times> bool" where
  "owner_data s = (as_owner (astore s), as_owner_set (astore s), as_owner_epoch (astore s),
     as_uncommissioned (astore s))"

lemma write_after_asym: "fbsec_sod_port_write_after d v s = (rc, s') \<Longrightarrow> astore s' = astore s"
  using write_hook_frame [of d v s rc s'] by (simp add: write_frame_def)

lemma owner_change_authority:
  assumes "fbsec_server_dispatch_request E g F c d req s = (r, s')" "owner_data s' \<noteq> owner_data s"
  shows "d = FBSEC_HO_VOUCHER_ID \<and> voucher_ok E req s \<and>
      owner_data s' = (slice req 8 32, True, voucher_epoch req, False)
    \<or> d = FBSEC_RPK_FUNCCMD_ID \<and> reset_signed E c req s \<and>
      owner_data s' = (replicate 32 0, False, as_owner_epoch (astore s), True)"
  using assms(1)
proof (cases rule: request_cases)
  case (quiet f t)
  then have "owner_data s' = owner_data s"
    using quiet_host(1) [OF quiet(1)] by (simp add: owner_data_def upd_chall_def)
  then show ?thesis using assms(2) by simp
next
  case ldevid
  then have "owner_data s' = owner_data s" by (simp add: owner_data_def new_ldevid_def)
  then show ?thesis using assms(2) by simp
next
  case provision
  then have "owner_data s' = owner_data s" by (simp add: owner_data_def provisioned_def)
  then show ?thesis using assms(2) by simp
next
  case voucher
  then show ?thesis by (simp add: owner_data_def claimed_def)
next
  case (signed_write rc)
  then have "owner_data s' = owner_data s"
    using write_after_asym [OF signed_write(3)] by (simp add: owner_data_def)
  then show ?thesis using assms(2) by simp
next
  case reset
  then show ?thesis by (simp add: owner_data_def decommission_host)
next
  case (secure_write v a rc b)
  have "owner_data s' = owner_data s"
    using write_after_asym [OF secure_write(2)] write_reaches_core [OF secure_write(1)] secure_write(3)
    by (simp add: owner_data_def same_core_def)
  then show ?thesis using assms(2) by simp
qed

text \<open>
  The route of a voucher: only a constant entry at the same place stands in
  front of it.
\<close>

lemma dispatch_voucher:
  "fbsec_server_dispatch_request E g F c FBSEC_HO_VOUCHER_ID v s =
    (case fbsec_const_od_get s 0xC020 2 of
       None \<Rightarrow> handle_voucher E v s
     | Some val \<Rightarrow> (if v \<noteq> [] then ((FBSEC_ABORT_READ_ONLY, []), s)
                   else ((FBSEC_ABORT_NONE, val), s)))"
proof -
  have i: "id_index FBSEC_HO_VOUCHER_ID = 0xC020" "id_sub FBSEC_HO_VOUCHER_ID = 2"
    by (simp_all add: id_index_def id_sub_def)
  show ?thesis
    by (simp add: fbsec_server_dispatch_request_def try_serve_descriptor_def try_serve_const_od_def
        fbsec_server_security_try_def fbsec_server_handover_try_def Let_def i split: option.split)
qed

lemma voucher_single_use:
  assumes "fbsec_server_dispatch_request E g F c FBSEC_HO_VOUCHER_ID v s = ((FBSEC_ABORT_NONE, []), s1)"
    and "voucher_ok E v s"
  shows "fst (fbsec_server_dispatch_request E g F c' FBSEC_HO_VOUCHER_ID v (srv_run E g F xs s1))
    = (FBSEC_ABORT_VOUCHER, [])"
proof -
  let ?t = "srv_run E g F xs s1"
  have "v \<noteq> []" using assms(2) by (auto simp: voucher_ok_def)
  then have n: "fbsec_const_od_get s 0xC020 2 = None" and s1: "s1 = claimed v s"
    using assms by (auto simp: dispatch_voucher handle_voucher_result split: option.splits)
  have id: "same_identity s1 ?t" by (rule run_identity)
  have "fbsec_const_od_get ?t 0xC020 2 = None"
    using n id s1 by (simp add: fbsec_const_od_get_def same_identity_def claimed_def)
  moreover have "as_owner_epoch (astore s1) = voucher_epoch v" by (simp add: s1 claimed_def)
  then have "\<not> voucher_ok E v ?t"
    using id by (auto simp: voucher_ok_def same_identity_def)
  ultimately show ?thesis by (simp add: dispatch_voucher handle_voucher_result)
qed

section \<open>Objects that change only by verified writes\<close>

lemma secure_wo_authority:
  assumes "fbsec_server_dispatch_request E g F c d req s = (r, s')"
    and "sv_secure_wo (host s') \<noteq> sv_secure_wo (host s)"
  shows "d = FBSEC_SERVER_ENTRY_SWR_DATA_ID \<and>
      (\<exists>a. write_reaches g (server_port F) c d req s (sv_secure_wo (host s')) a)
    \<or> d = FBSEC_RPK_GENERIC_WRITE_ID \<and> gw_signed E c req s \<and>
      target_of req = FBSEC_SERVER_ENTRY_SWR_DATA_ID \<and> gw_value req = sv_secure_wo (host s')"
proof -
  have w: "x = FBSEC_SERVER_ENTRY_SWR_DATA_ID \<and> v = sv_secure_wo (host b)"
    if "fbsec_sod_port_write_after x v a = (rc, b)"
      "sv_secure_wo (host b) \<noteq> sv_secure_wo (host a)" for x v rc and a b :: "'a srv"
  proof (cases "x = FBSEC_SEC_KEY_SET_DATA_ID")
    case True
    then have "fbsec_server_apply_key_set v a = (rc, b)"
      using that(1) by (simp add: fbsec_sod_port_write_after_def)
    then show ?thesis using that(2) by (cases rule: apply_key_set_cases) auto
  next
    case False
    then show ?thesis using that by (auto simp: fbsec_sod_port_write_after_def split: if_splits)
  qed
  from assms(1) show ?thesis
  proof (cases rule: request_cases)
    case (quiet f t)
    then show ?thesis using assms(2) quiet_host(3) [OF quiet(1)] by (simp add: upd_chall_def)
  next
    case (signed_write rc)
    then show ?thesis using w [OF signed_write(3)] assms(2) by simp
  next
    case (secure_write v a rc b)
    have "host a = host s" "host s' = host b"
      using write_reaches_core [OF secure_write(1)] secure_write(3) by (simp_all add: same_core_def)
    then show ?thesis using w [OF secure_write(2)] assms(2) secure_write(1) by auto
  qed (use assms(2) in \<open>simp_all add: new_ldevid_def provisioned_def claimed_def decommission_host\<close>)
qed

text \<open>
  The signed write-only twin: in the registry of the server its identifier is
  not an entry, so no AEAD write reaches it.
\<close>

lemma server_entries_ids:
  "ent_data_id ` set (server_entries i) \<subseteq>
     {FBSEC_SERVER_ENTRY_SRD_DATA_ID, FBSEC_SERVER_ENTRY_SWR_DATA_ID, FBSEC_SERVER_ENTRY_RD_DATA_ID,
      FBSEC_SERVER_ENTRY_WR_DATA_ID, FBSEC_SEC_KEY_SET_DATA_ID}"
  by (auto simp: server_entries_def server_entry_def)

lemma rpk_wo_authority:
  assumes "fbsec_server_dispatch_request E g F c d req s = (r, s')"
    and "sv_rpk_wo (host s') \<noteq> sv_rpk_wo (host s)" and "registry s = server_entries i"
  shows "d = FBSEC_RPK_GENERIC_WRITE_ID \<and> gw_signed E c req s \<and>
    target_of req = FBSEC_SERVER_ENTRY_RPK_WR_DATA_ID \<and> gw_value req = sv_rpk_wo (host s')"
proof -
  have w: "x = FBSEC_SERVER_ENTRY_RPK_WR_DATA_ID \<and> v = sv_rpk_wo (host b)"
    if "fbsec_sod_port_write_after x v a = (rc, b)"
      "sv_rpk_wo (host b) \<noteq> sv_rpk_wo (host a)" for x v rc and a b :: "'a srv"
  proof (cases "x = FBSEC_SEC_KEY_SET_DATA_ID")
    case True
    then have "fbsec_server_apply_key_set v a = (rc, b)"
      using that(1) by (simp add: fbsec_sod_port_write_after_def)
    then show ?thesis using that(2) by (cases rule: apply_key_set_cases) auto
  next
    case False
    then show ?thesis using that by (auto simp: fbsec_sod_port_write_after_def split: if_splits)
  qed
  from assms(1) show ?thesis
  proof (cases rule: request_cases)
    case (quiet f t)
    then show ?thesis using assms(2) quiet_host(4) [OF quiet(1)] by (simp add: upd_chall_def)
  next
    case (signed_write rc)
    then show ?thesis using w [OF signed_write(3)] assms(2) by simp
  next
    case (secure_write v a rc b)
    have "host a = host s" "host s' = host b"
      using write_reaches_core [OF secure_write(1)] secure_write(3) by (simp_all add: same_core_def)
    then have d: "d = FBSEC_SERVER_ENTRY_RPK_WR_DATA_ID" using w [OF secure_write(2)] assms(2) by auto
    obtain j where "find_index s d = Some j" using secure_write(1) by (auto simp: write_reaches_def)
    then have "d \<in> ent_data_id ` set (server_entries i)"
      using find_index_None [of s d] assms(3) by simp
    then have "d \<in> {FBSEC_SERVER_ENTRY_SRD_DATA_ID, FBSEC_SERVER_ENTRY_SWR_DATA_ID,
        FBSEC_SERVER_ENTRY_RD_DATA_ID, FBSEC_SERVER_ENTRY_WR_DATA_ID, FBSEC_SEC_KEY_SET_DATA_ID}"
      using server_entries_ids by blast
    then show ?thesis using d by simp
  qed (use assms(2) in \<open>simp_all add: new_ldevid_def provisioned_def claimed_def decommission_host\<close>)
qed

section \<open>What a reset leaves and what a replayed installation does\<close>

lemma provision_ok_cong:
  assumes "provision_ok E p s" "as_owner (astore t) = as_owner (astore s)"
    "as_owner_set (astore t)" "as_ready (astore t)"
  shows "provision_ok E p t"
  using assms by (simp add: provision_ok_def)

text \<open>
  The signature of a provisioning-key installation covers the key alone: after
  a reset and a new claim by the same owner, the recorded message is accepted
  again and reinstalls the old key.
\<close>

lemma provision_replays:
  assumes "provision_ok E p s" "slice v 8 32 = as_owner (astore s)"
    and "voucher_ok E v (fbsec_server_handover_decommission (disarm t))"
    and "as_ready (astore t)"
  shows "handle_provision E p (claimed v (fbsec_server_handover_decommission (disarm t))) =
    ((FBSEC_ABORT_NONE, []), provisioned p (claimed v (fbsec_server_handover_decommission (disarm t))))"
proof -
  have "provision_ok E p (claimed v (fbsec_server_handover_decommission (disarm t)))"
    using assms by (intro provision_ok_cong [OF assms(1)])
      (simp_all add: claimed_def decommission_host)
  then show ?thesis by (simp add: handle_provision_result)
qed

text \<open>
  An accepted installation on a server that already has a provisioning key
  answers success, keeps the old key in the key store, and takes an operational
  server back to the owned stage.
\<close>

lemma provision_over_existing:
  assumes "provision_ok E p s" "keys_wf s" "get_key s FBSEC_DEMO_KEYID_PROVISIONING = Some k"
  shows "handle_provision E p s = ((FBSEC_ABORT_NONE, []), provisioned p s)"
    and "get_key (provisioned p s) FBSEC_DEMO_KEYID_PROVISIONING = Some k"
    and "as_provisioning_key (astore (provisioned p s)) = take 16 p"
    and "fbsec_server_lifecycle_get (provisioned p s) = FBSEC_STAGE_OWNED"
  using assms
  by (simp_all add: handle_provision_result provisioned_def set_key_from_get
      fbsec_server_lifecycle_get_def)

end
