(* ===== verification/Server_Replies.thy ===== *)
theory Server_Replies
  imports Server_Run
begin

text \<open>
  How long the replies of the reference server can be. The variant's transport
  copies a reply into fixed buffers, so its safety rests on these bounds: a
  secure object answers with at most 52 bytes, and the longest reply of all is
  the signed identity read.
\<close>


section \<open>Secure objects\<close>

lemma arm_write_reply:
  assumes "arm_write_challenge P i e c k h rm s = (SOD_OK r, s')" "port_ok P"
  shows "length r \<le> READ_RESPONSE_MAX"
proof -
  obtain b t where b: "port_random P FBSEC_AEAD_RAND_SIZE s = (b, t)" by fastforce
  have "b = Some r" using assms(1) b
    by (auto simp: arm_write_challenge_def Let_def split: if_split_asm option.split_asm)
  moreover have "fst (port_random P 12 s) = Some r \<Longrightarrow> length r = 12"
    using assms(2) by (simp add: port_ok_def)
  ultimately show ?thesis using b by simp
qed

lemma read_poll_reply:
  assumes "handle_read_poll g P i e c req rm s = (SOD_OK r, s')" "port_ok P" "gcm_ok g" "sod_wf s"
    "i < 8"
  shows "length r \<le> READ_RESPONSE_MAX"
  using assms(1,2)
proof (cases rule: handle_read_poll_cases)
  case (served plaintext ctr ct tag s1)
  obtain key where rb: "port_read_before P (ent_data_id e) (unat (ent_data_len e)) s = ((0, plaintext), s1)"
    and key: "get_key s1 (FBSEC_AEAD_KEYID_BASE (rs_key_id (read_slot s ! i))) = Some key"
    and seal: "fbsec_aead_seal g key (build_session_nonce (rs_nonce_base (read_slot s ! i)) ctr)
        FBSEC_AEAD_DIR_READ_POLL_RESPONSE (rs_key_id (read_slot s ! i)) (port_get_device_id P s1) c
        (ent_data_id e) None None plaintext = Some (ct, tag)"
    using served(2) by (auto simp: read_poll_served_def Let_def)
  have "sod_wf s1" using same_slots_wf [OF assms(4)] port_read_before_frame [OF assms(2) rb] .
  then have "length key = FBSEC_AEAD_KEY_SIZE" using key get_key_length by (auto simp: sod_wf_def)
  moreover have "length (build_session_nonce (rs_nonce_base (read_slot s ! i)) ctr) = FBSEC_AEAD_NONCE_SIZE"
    using sod_wf_read_slot [OF assms(4,5)] by (simp add: read_state_wf_def)
  ultimately show ?thesis using seal_lengths [OF assms(3) _ _ seal] served(1) by simp
qed auto

lemma apply_write_reply: 
  assumes "verify_and_apply_write g P i e req s = (SOD_OK r, s')" shows "r = []"
  using assms unfolding verify_and_apply_write_def Let_def
  by (auto split: if_split_asm prod.split_asm option.split_asm)

lemma write_poll_reply:
  assumes "handle_write_poll g P i e c req s = (SOD_OK r, s')" shows "r = []"
  using assms unfolding handle_write_poll_def Let_def
  by (auto split: if_split_asm prod.split_asm option.split_asm sum.split_asm)

lemma arm_read_reply: 
  assumes "arm_read_response g P i e c req s = (SOD_OK r, s')" shows "r = []"
  using assms unfolding arm_read_response_def Let_def
  by (auto split: if_split_asm prod.split_asm option.split_asm)

lemma deliver_reply:
  "deliver_prepared P i rm s = (SOD_OK r, s') \<Longrightarrow> sod_wf s \<Longrightarrow> i < 8 \<Longrightarrow> length r \<le> READ_RESPONSE_MAX"
  using sod_wf_read_slot [of s i]
  by (auto simp: deliver_prepared_def Let_def read_state_wf_def split: if_split_asm)
lemma sod_dispatch_reply:
  assumes "fbsec_sod_dispatch g P c d req rm s = (SOD_OK r, s')" "port_ok P" "gcm_ok g" "sod_wf s"
  shows "length r \<le> READ_RESPONSE_MAX"
proof (cases "find_index s d")
  case None
  then show ?thesis using assms by (simp add: fbsec_sod_dispatch_def)
next
  case (Some i)
  have i: "i < 8" using sod_wf_find_index [OF assms(4) Some] .
  define e where "e = registry s ! i"
  consider "handle_read_poll g P i e c req rm s = (SOD_OK r, s')"
    | "handle_write_poll g P i e c req s = (SOD_OK r, s')"
    | "arm_read_response g P i e c req s = (SOD_OK r, s')"
    | "deliver_prepared P i rm s = (SOD_OK r, s')"
    | "dispatch_write g P i e c req rm s = (SOD_OK r, s')"
    using assms(1) Some unfolding fbsec_sod_dispatch_def Let_def e_def
    by (auto split: if_splits)
  then show ?thesis
  proof cases
    case 5
    then show ?thesis
      using arm_write_reply [OF _ assms(2)]
      by (auto simp: dispatch_write_def dest: apply_write_reply split: if_splits)
  qed (use assms i in \<open>auto dest: read_poll_reply write_poll_reply arm_read_reply deliver_reply\<close>)
qed

section \<open>The other objects\<close>

lemma caps_sub_length: "length (fbsec_caps_serialize_sub x sub n) \<le> 4"
  by (auto simp: fbsec_caps_serialize_sub_def Let_def)

lemma status_sub_length: "length (fbsec_status_serialize_sub x sub n) \<le> 4"
  by (auto simp: fbsec_status_serialize_sub_def Let_def)

lemma descriptor_reply:
  "try_serve_descriptor d req s = Some (st, data) \<Longrightarrow> length data \<le> 4"
  using caps_sub_length [of "server_caps s" "id_sub d" 4]
    status_sub_length [of "server_status s" "id_sub d" 4]
  by (auto simp: try_serve_descriptor_def Let_def split: if_split_asm)

lemma const_od_lookup_length:
  "const_od_lookup es i j = Some v \<Longrightarrow> const_od_wf es \<Longrightarrow> length v \<le> 8"
  by (induction es) (auto simp: const_od_wf_def split: if_split_asm)

lemma const_od_reply:
  "try_serve_const_od d req s = Some (st, data) \<Longrightarrow> const_od_wf (sv_const_od (host s)) \<Longrightarrow>
   length data \<le> 8"
  by (auto simp: try_serve_const_od_def fbsec_const_od_get_def dest: const_od_lookup_length
      split: if_split_asm option.split_asm)

lemma security_reply: "fbsec_server_security_try d req s = Some (st, data) \<Longrightarrow> length data \<le> 16"
  by (auto simp: fbsec_server_security_try_def serve_key_ids_def serve_session_salt_def
      split: if_split_asm)

lemma handover_reply:
  assumes "fbsec_server_handover_try E d req s = Some ((st, data), s')" "asym_wf (astore s)" "ed_ok E"
  shows "length data \<le> FBSEC_HO_IDENTITY_REPLY_LEN"
  using assms
  by (auto simp: fbsec_server_handover_try_def handle_identity_def handle_ldevid_def
      handle_provision_def handle_voucher_def handle_epoch_def sign_idevid_def asym_wf_def
      fbsec_server_asym_generate_ldevid_def ed_ok_sign_length ed_ok_pub_length Let_def
      FBSEC_DEMO_LDEVID_SEED_def
      split: if_split_asm option.split_asm prod.split_asm)

lemma server_random_length:
  "fbsec_sod_port_random F n s = (Some b, s') \<Longrightarrow> platform_ok F \<Longrightarrow> length b = n"
  by (auto simp: fbsec_sod_port_random_def platform_ok_def split: if_split_asm prod.split_asm)
     (metis fst_conv)

lemma arm_challenge_reply:
  "arm_challenge F c d s = ((st, data), s') \<Longrightarrow> platform_ok F \<Longrightarrow> length data \<le> FBSEC_RPK_NONCE_LEN"
  by (auto simp: arm_challenge_def dest: server_random_length split: option.split_asm prod.split_asm)

lemma generic_read_reply:
  assumes "handle_generic_read E F c req s = ((st, data), s')" "ed_ok E" "platform_ok F"
  shows "length data \<le> FBSEC_RPK_VALUE_MAX + FBSEC_ASYM_SIG_SIZE"
  using assms arm_challenge_reply [of F c FBSEC_RPK_GENERIC_READ_ID s st data s']
  by (auto simp: handle_generic_read_def ed_ok_sign_length Let_def
      split: if_split_asm option.split_asm prod.split_asm)

lemma generic_write_reply:
  assumes "handle_generic_write E F c req s = ((st, data), s')" "platform_ok F"
  shows "length data \<le> FBSEC_RPK_NONCE_LEN"
  using assms arm_challenge_reply [of F c FBSEC_RPK_GENERIC_WRITE_ID s st data s']
  by (auto simp: handle_generic_write_def Let_def split: if_split_asm prod.split_asm)

lemma command_reply:
  assumes "handle_command E F c req s = ((st, data), s')" "platform_ok F"
  shows "length data \<le> FBSEC_RPK_NONCE_LEN"
  using assms arm_challenge_reply [of F c FBSEC_RPK_FUNCCMD_ID s st data s']
  by (auto simp: handle_command_def Let_def split: if_split_asm prod.split_asm)

lemma pubkeys_reply:
  "handle_pubkeys j req s = (st, data) \<Longrightarrow> asym_wf (astore s) \<Longrightarrow> length data \<le> FBSEC_ASYM_PUBKEY_SIZE"
  "handle_pktypes j req = (st, data) \<Longrightarrow> length data \<le> 4"
  by (auto simp: handle_pubkeys_def handle_pktypes_def asym_wf_def fbsec_server_asym_owner_def
      split: if_split_asm)

lemma rpk_reply:
  assumes "fbsec_server_rpk_try E F c d req s = Some ((st, data), s')" "asym_wf (astore s)"
    "ed_ok E" "platform_ok F"
  shows "length data \<le> FBSEC_RPK_VALUE_MAX + FBSEC_ASYM_SIG_SIZE"
  using assms
  by (auto simp: fbsec_server_rpk_try_def Let_def split: if_split_asm
      dest: generic_read_reply generic_write_reply command_reply pubkeys_reply)

section \<open>Every reply\<close>

lemma request_reply_length:
  assumes "fbsec_server_dispatch_request E g F c d req s = ((st, data), s')" "srv_wf s"
    "ed_ok E" "platform_ok F" "gcm_ok g"
  shows "length data \<le> FBSEC_HO_IDENTITY_REPLY_LEN"
proof -
  have wf: "sod_wf s" "asym_wf (astore s)" "const_od_wf (sv_const_od (host s))"
    using assms(2) by (auto simp: srv_wf_def host_wf_def)
  consider "try_serve_descriptor d req s = Some (st, data)"
    | "try_serve_const_od d req s = Some (st, data)"
    | "fbsec_server_security_try d req s = Some (st, data)"
    | "fbsec_server_handover_try E d req s = Some ((st, data), s')"
    | "fbsec_server_rpk_try E F c d req s = Some ((st, data), s')"
    | st' where "fbsec_sod_dispatch g (server_port F) c d req FBSEC_SERVER_DISPATCH_REPLY_MAX s = (st', s')"
        "secure_reply st' = (st, data)"
    using assms(1) unfolding fbsec_server_dispatch_request_def
    by (auto split: option.split_asm prod.split_asm)
  then show ?thesis
  proof cases
    case 6
    then show ?thesis
      using sod_dispatch_reply [OF _ server_port_ok [OF assms(4)] assms(5) wf(1)]
      by (cases st') (fastforce simp: secure_reply_def)+
  qed (use wf assms(3,4) in \<open>fastforce dest: descriptor_reply const_od_reply security_reply
         handover_reply rpk_reply\<close>)+
qed

end
