(* ===== verification/Server_Demo.thy ===== *)
theory Server_Demo
  imports Sod_Demo Server_Run
begin

text \<open>
  Concrete values on which the witnesses of the server's properties evaluate:
  an executable stand-in for Ed25519 that meets its contract, a platform with a
  clock and a random source, the reference server booted with its demo keys or
  without, and the messages of a handover.
\<close>

definition demo_ed :: ed25519 where
  "demo_ed = \<lparr>
     crypto_ed25519_key_pair = (\<lambda>seed. (seed @ seed, seed)),
     crypto_ed25519_sign = (\<lambda>priv m. replicate 62 0 @ [xsum (take 32 priv), xsum m]),
     crypto_ed25519_check = (\<lambda>sig pub m. sig = replicate 62 0 @ [xsum pub, xsum m])\<rparr>"

lemma demo_ed_ok: "ed_ok demo_ed"
  by (simp add: ed_ok_def demo_ed_def)

text \<open>The platform's state is the clock and the last random byte.\<close>

definition demo_platform :: "(u32 \<times> u8) platform" where
  "demo_platform = \<lparr>GetTickCount = fst,
     CryptGenRandom = (\<lambda>n (t, r). (Some (replicate n (r + 1)), (t, r + 1)))\<rparr>"

lemma demo_platform_ok: "platform_ok demo_platform"
  by (simp add: platform_ok_def demo_platform_def)

definition demo_identity_od :: "const_od_entry list" where
  "demo_identity_od = map (\<lambda>j. \<lparr>ce_index = 0x1018, ce_sub = j, ce_len = 4,
      ce_data = [j, 0, 0, 0, 0, 0, 0, 0]\<rparr>) [1, 2, 3, 4]"

text \<open>Node 5, booted with demo keys and an identity, or fresh from the factory.\<close>

definition demo_boot :: "bool \<Rightarrow> (u32 \<times> u8) srv" where
  "demo_boot keys =
     (case fbsec_server_od_init demo_ed 5 None (Some demo_identity_od) keys (server_statics (100, 0)) of
        Some s \<Rightarrow> s | None \<Rightarrow> fbsec_sod_init (server_statics (100, 0)))"

lemma demo_boot_Some:
  "fbsec_server_od_init demo_ed 5 None (Some demo_identity_od) keys (server_statics (100, 0))
     = Some (demo_boot keys)"
  by (cases keys) (simp_all only:, code_simp+)

lemma demo_od_wf: "const_od_wf demo_identity_od"
  by (simp add: const_od_wf_def demo_identity_od_def)

lemma demo_boot_reachable: "srv_reachable demo_ed demo_gcm demo_platform (demo_boot keys)"
  by (rule booted [OF demo_boot_Some]) (simp_all add: demo_od_wf)

lemma demo_boot_wf: "srv_wf (demo_boot keys)"
  using reachable_wf [OF demo_boot_reachable demo_ed_ok demo_platform_ok demo_gcm_ok] by simp

text \<open>A voucher of the manufacturer for the demo integrator, and its provisioning message.\<close>

definition demo_voucher :: "u32 \<Rightarrow> bytes" where
  "demo_voucher epoch =
     (let body = FBSEC_DEMO_DEVICE_SERIAL @ FBSEC_DEMO_INTEGRATOR_SEED @ le32 epoch in
      body @ fbsec_asym_sign demo_ed (fbsec_asym_keygen demo_ed FBSEC_DEMO_MFG_SEED)
               (transcript_of FBSEC_ASYM_RD_VOUCHER body))"

definition demo_provision :: "bytes \<Rightarrow> bytes" where
  "demo_provision key =
     key @ fbsec_asym_sign demo_ed (fbsec_asym_keygen demo_ed FBSEC_DEMO_INTEGRATOR_SEED)
             (transcript_of FBSEC_ASYM_RD_PKINSTALL_ACK key)"

definition demo_request :: "u16 \<Rightarrow> u32 \<Rightarrow> bytes \<Rightarrow> (u32 \<times> u8) srv \<Rightarrow> reply \<times> (u32 \<times> u8) srv" where
  "demo_request = fbsec_server_dispatch_request demo_ed demo_gcm demo_platform"

text \<open>The device claimed with epoch 2.\<close>

definition demo_claimed :: "(u32 \<times> u8) srv" where
  "demo_claimed = snd (demo_request 9 FBSEC_HO_VOUCHER_ID (demo_voucher 2) (demo_boot False))"

definition demo_provisioned :: "(u32 \<times> u8) srv" where
  "demo_provisioned = snd (demo_request 9 FBSEC_HO_PROVISION_ID (demo_provision demo_key) demo_claimed)"

text \<open>The two frames of a secure write of \<open>v\<close> to an object by node 9 under key \<open>kid\<close>.\<close>

definition demo_swr :: "bytes \<Rightarrow> u8 \<Rightarrow> u32 \<Rightarrow> bytes \<Rightarrow> (u32 \<times> u8) srv \<Rightarrow> (u32 \<times> u8) srv \<times> bytes" where
  "demo_swr key kid d v s =
     (case demo_request 9 d [] s of ((st, sr), s1) \<Rightarrow>
        let cr = replicate 12 3 in
        (case fbsec_aead_seal demo_gcm key (fbsec_aead_xor_nonce cr sr) FBSEC_AEAD_DIR_WRITE_REQUEST
                kid 5 9 d (Some cr) (Some sr) v of
           Some (ct, tag) \<Rightarrow> (s1, kid # cr @ ct @ tag) | None \<Rightarrow> (s1, [])))"

end
