(* ===== verification/Co_Fd_Frame.thy ===== *)
theory Co_Fd_Frame
  imports Prelude
begin

text \<open>
  The CAN FD frame of the CANopen FD variant
  (\<open>variants/canopen_fd/common/fbsec_co_fd_frame.[ch]\<close>) and the mapping between
  32-bit data identifiers and CANopen (index, sub-index) pairs
  (\<open>fbsec_co_fd_addr.[ch]\<close>). The payload array of the C struct is a list of
  64 bytes; \<open>len\<close> says how many of them are on the wire. The parser returns
  \<open>Inl\<close> an error or \<open>Inr\<close> the frame it filled in and the payload count that
  is still to be read.
\<close>

section \<open>The frame\<close>

abbreviation (input) FBSEC_CO_FD_PAYLOAD_MAX :: nat where
  "FBSEC_CO_FD_PAYLOAD_MAX \<equiv> 64"

abbreviation (input) FBSEC_CO_FD_HEADER_SIZE :: nat where
  "FBSEC_CO_FD_HEADER_SIZE \<equiv> 6"

abbreviation (input) FBSEC_CO_FD_WIRE_MAX :: nat where
  "FBSEC_CO_FD_WIRE_MAX \<equiv> 70"

abbreviation (input) FBSEC_CO_FD_CAN_ID_FLAG_IDE :: u32 where
  "FBSEC_CO_FD_CAN_ID_FLAG_IDE \<equiv> 0x80000000"

abbreviation (input) FBSEC_CO_FD_CAN_ID_FLAG_RTR :: u32 where
  "FBSEC_CO_FD_CAN_ID_FLAG_RTR \<equiv> 0x40000000"

abbreviation (input) FBSEC_CO_FD_CAN_ID_FLAG_ERR :: u32 where
  "FBSEC_CO_FD_CAN_ID_FLAG_ERR \<equiv> 0x20000000"

abbreviation (input) FBSEC_CO_FD_CAN_ID_VALUE :: u32 where
  "FBSEC_CO_FD_CAN_ID_VALUE \<equiv> 0x1FFFFFFF"

abbreviation (input) FBSEC_CO_FD_STD_ID_MAX :: u32 where
  "FBSEC_CO_FD_STD_ID_MAX \<equiv> 0x7FF"

abbreviation (input) FBSEC_CO_FD_FLAG_BRS :: u8 where
  "FBSEC_CO_FD_FLAG_BRS \<equiv> 0x01"

abbreviation (input) FBSEC_CO_FD_FLAG_ALL :: u8 where
  "FBSEC_CO_FD_FLAG_ALL \<equiv> 0x03"

record frame =
  fr_can_id :: u32
  fr_flags :: u8
  fr_len :: u8
  fr_payload :: bytes

text \<open>The array of the struct has 64 elements.\<close>

definition frame_ok :: "frame \<Rightarrow> bool" where
  "frame_ok f \<longleftrightarrow> length (fr_payload f) = FBSEC_CO_FD_PAYLOAD_MAX"

datatype frame_validity =
    VALID_OK
  | VALID_RESERVED_CANID
  | VALID_RESERVED_FLAGS
  | VALID_LEN_TOO_BIG

datatype frame_parse_error =
    PARSE_NEED_MORE
  | PARSE_LEN_TOO_BIG
  | PARSE_RESERVED_CANID
  | PARSE_RESERVED_FLAGS

definition fbsec_co_fd_frame_init :: "u32 \<Rightarrow> bool \<Rightarrow> frame" where
  "fbsec_co_fd_frame_init can_id extended =
     \<lparr>fr_can_id = (can_id AND FBSEC_CO_FD_CAN_ID_VALUE)
                  OR (if extended then FBSEC_CO_FD_CAN_ID_FLAG_IDE else 0),
      fr_flags = 0, fr_len = 0,
      fr_payload = replicate FBSEC_CO_FD_PAYLOAD_MAX 0\<rparr>"

definition fbsec_co_fd_frame_validate :: "frame \<Rightarrow> frame_validity" where
  "fbsec_co_fd_frame_validate f =
     (if fr_can_id f AND FBSEC_CO_FD_CAN_ID_FLAG_RTR \<noteq> 0 then VALID_RESERVED_CANID
      else if fr_can_id f AND FBSEC_CO_FD_CAN_ID_FLAG_ERR \<noteq> 0 then VALID_RESERVED_CANID
      else if fr_can_id f AND FBSEC_CO_FD_CAN_ID_FLAG_IDE = 0 \<and>
              fr_can_id f AND FBSEC_CO_FD_CAN_ID_VALUE > FBSEC_CO_FD_STD_ID_MAX
           then VALID_RESERVED_CANID
      else if fr_flags f AND NOT FBSEC_CO_FD_FLAG_ALL \<noteq> 0 then VALID_RESERVED_FLAGS
      else if unat (fr_len f) > FBSEC_CO_FD_PAYLOAD_MAX then VALID_LEN_TOO_BIG
      else VALID_OK)"

text \<open>
  The bytes written to the caller's buffer, or nothing when the buffer is too
  small. The C code copies \<open>len\<close> bytes of the payload array without looking at
  the array's size, so its callers validate first.
\<close>

definition fbsec_co_fd_frame_serialize :: "frame \<Rightarrow> nat \<Rightarrow> bytes option" where
  "fbsec_co_fd_frame_serialize f buf_size =
     (let total = FBSEC_CO_FD_HEADER_SIZE + unat (fr_len f) in
      if buf_size < total then None
      else Some (le32 (fr_can_id f) @ [fr_flags f, fr_len f]
                 @ take (unat (fr_len f)) (fr_payload f)))"

definition fbsec_co_fd_frame_parse_header ::
  "bytes \<Rightarrow> frame \<Rightarrow> (frame_parse_error, frame \<times> nat) result" where
  "fbsec_co_fd_frame_parse_header buf f =
     (if length buf < FBSEC_CO_FD_HEADER_SIZE then Inl PARSE_NEED_MORE
      else let can_id = get32 buf 0; flags = buf ! 4; len = buf ! 5 in
        if can_id AND FBSEC_CO_FD_CAN_ID_FLAG_RTR \<noteq> 0 \<or>
           can_id AND FBSEC_CO_FD_CAN_ID_FLAG_ERR \<noteq> 0 then Inl PARSE_RESERVED_CANID
        else if can_id AND FBSEC_CO_FD_CAN_ID_FLAG_IDE = 0 \<and>
                can_id AND FBSEC_CO_FD_CAN_ID_VALUE > FBSEC_CO_FD_STD_ID_MAX
             then Inl PARSE_RESERVED_CANID
        else if flags AND NOT FBSEC_CO_FD_FLAG_ALL \<noteq> 0 then Inl PARSE_RESERVED_FLAGS
        else if unat len > FBSEC_CO_FD_PAYLOAD_MAX then Inl PARSE_LEN_TOO_BIG
        else Inr (f\<lparr>fr_can_id := can_id, fr_flags := flags, fr_len := len\<rparr>, unat len))"

definition fbsec_co_fd_frame_id_value :: "frame \<Rightarrow> u32" where
  "fbsec_co_fd_frame_id_value f = fr_can_id f AND FBSEC_CO_FD_CAN_ID_VALUE"

definition fbsec_co_fd_frame_is_extended :: "frame \<Rightarrow> bool" where
  "fbsec_co_fd_frame_is_extended f \<longleftrightarrow> fr_can_id f AND FBSEC_CO_FD_CAN_ID_FLAG_IDE \<noteq> 0"

section \<open>Data identifiers\<close>

definition fbsec_co_fd_data_id_from_index_sub :: "u16 \<Rightarrow> u8 \<Rightarrow> u32" where
  "fbsec_co_fd_data_id_from_index_sub idx subindex =
     push_bit 16 (ucast idx) OR push_bit 8 (ucast subindex)"

definition fbsec_co_fd_index_sub_from_data_id :: "u32 \<Rightarrow> u16 \<times> u8" where
  "fbsec_co_fd_index_sub_from_data_id data_id =
     (ucast (drop_bit 16 data_id AND 0xFFFF), ucast (drop_bit 8 data_id AND 0xFF))"

definition fbsec_co_fd_data_id_is_canopen_form :: "u32 \<Rightarrow> bool" where
  "fbsec_co_fd_data_id_is_canopen_form data_id \<longleftrightarrow>
     data_id AND 0xFF = 0 \<and> \<not> drop_bit 16 data_id AND 0xFFFF < (0x1000 :: u32)"

section \<open>Frames: what the parser accepts is what validation accepts\<close>

text \<open>The parser's rejections, read as validation results.\<close>

fun parse_error_of :: "frame_validity \<Rightarrow> frame_parse_error option" where
  "parse_error_of VALID_OK = None"
| "parse_error_of VALID_RESERVED_CANID = Some PARSE_RESERVED_CANID"
| "parse_error_of VALID_RESERVED_FLAGS = Some PARSE_RESERVED_FLAGS"
| "parse_error_of VALID_LEN_TOO_BIG = Some PARSE_LEN_TOO_BIG"

lemma parse_header_by_validate:
  fixes f :: frame
  assumes "6 \<le> length buf"
  defines "h \<equiv> f\<lparr>fr_can_id := get32 buf 0, fr_flags := buf ! 4, fr_len := buf ! 5\<rparr>"
  shows "fbsec_co_fd_frame_parse_header buf f =
    (case parse_error_of (fbsec_co_fd_frame_validate h) of
       None \<Rightarrow> Inr (h, unat (buf ! 5)) | Some e \<Rightarrow> Inl e)"
  using assms(1)
  by (simp add: h_def fbsec_co_fd_frame_parse_header_def fbsec_co_fd_frame_validate_def Let_def)

lemma validate_ok_len: "fbsec_co_fd_frame_validate f = VALID_OK \<Longrightarrow> unat (fr_len f) \<le> 64"
  by (simp add: fbsec_co_fd_frame_validate_def split: if_splits)

lemma serialize_header:
  assumes "fbsec_co_fd_frame_serialize f n = Some buf"
  shows "6 \<le> length (buf @ rest)" "get32 (buf @ rest) 0 = fr_can_id f"
    "(buf @ rest) ! 4 = fr_flags f" "(buf @ rest) ! 5 = fr_len f"
  using assms
  by (auto simp: fbsec_co_fd_frame_serialize_def Let_def nth_append split: if_splits)

lemma serialize_payload:
  assumes "fbsec_co_fd_frame_serialize f n = Some buf" "frame_ok f"
    "fbsec_co_fd_frame_validate f = VALID_OK"
  shows "length buf = 6 + unat (fr_len f)" "length buf \<le> n" "length buf \<le> 70"
    "drop 6 buf = take (unat (fr_len f)) (fr_payload f)"
  using assms validate_ok_len [OF assms(3)]
  by (auto simp: fbsec_co_fd_frame_serialize_def frame_ok_def Let_def split: if_splits)

lemma validate_payload_indep [simp]:
  "fbsec_co_fd_frame_validate (f\<lparr>fr_payload := p\<rparr>) = fbsec_co_fd_frame_validate f"
  by (simp add: fbsec_co_fd_frame_validate_def)

lemma frame_serialize_parse:
  assumes "fbsec_co_fd_frame_validate f = VALID_OK" "frame_ok f"
    and "fbsec_co_fd_frame_serialize f n = Some buf"
  shows "fbsec_co_fd_frame_parse_header (buf @ rest) f0 =
           Inr (f\<lparr>fr_payload := fr_payload f0\<rparr>, unat (fr_len f))"
    and "slice (buf @ rest) 6 (unat (fr_len f)) = take (unat (fr_len f)) (fr_payload f)"
proof -
  note h = serialize_header [OF assms(3), of rest]
  have e: "f0\<lparr>fr_can_id := get32 (buf @ rest) 0, fr_flags := (buf @ rest) ! 4,
              fr_len := (buf @ rest) ! 5\<rparr> = f\<lparr>fr_payload := fr_payload f0\<rparr>"
    by (simp add: h(2-4))
  show "fbsec_co_fd_frame_parse_header (buf @ rest) f0 =
           Inr (f\<lparr>fr_payload := fr_payload f0\<rparr>, unat (fr_len f))"
    unfolding parse_header_by_validate [OF h(1)] e
    by (simp add: assms(1) h(4))
  show "slice (buf @ rest) 6 (unat (fr_len f)) = take (unat (fr_len f)) (fr_payload f)"
    using serialize_payload [OF assms(3,2,1)] by (auto simp: slice_def assms(2) [unfolded frame_ok_def])
qed

lemma get32_le32_bytes: "4 \<le> length buf \<Longrightarrow> le32 (get32 buf 0) = take 4 buf"
  by (cases buf; cases "tl buf"; cases "tl (tl buf)"; cases "tl (tl (tl buf))")
     (auto simp: get32_def numeral_eq_Suc)

lemma take_6_split: "6 \<le> length buf \<Longrightarrow> take 6 buf = take 4 buf @ [buf ! 4, buf ! 5]"
  by (simp add: numeral_eq_Suc take_Suc_conv_app_nth)

lemma frame_parse_serialize:
  assumes "fbsec_co_fd_frame_parse_header buf f0 = Inr (f, n)" "6 + n \<le> buf_size"
  shows "fbsec_co_fd_frame_serialize f buf_size = Some (take 6 buf @ take n (fr_payload f))"
    and "fbsec_co_fd_frame_validate f = VALID_OK" and "n = unat (fr_len f)" and "n \<le> 64"
proof -
  have l: "6 \<le> length buf"
    using assms(1) by (simp add: fbsec_co_fd_frame_parse_header_def split: if_splits)
  let ?h = "f0\<lparr>fr_can_id := get32 buf 0, fr_flags := buf ! 4, fr_len := buf ! 5\<rparr>"
  have "fbsec_co_fd_frame_validate ?h = VALID_OK \<and> f = ?h \<and> n = unat (buf ! 5)"
    using assms(1) unfolding parse_header_by_validate [OF l]
    by (cases "fbsec_co_fd_frame_validate ?h") auto
  then show "fbsec_co_fd_frame_serialize f buf_size = Some (take 6 buf @ take n (fr_payload f))"
    and v: "fbsec_co_fd_frame_validate f = VALID_OK" and n: "n = unat (fr_len f)"
    using assms(2) l
    by (auto simp: fbsec_co_fd_frame_serialize_def Let_def get32_le32_bytes take_6_split)
  show "n \<le> 64" using validate_ok_len [OF v] n by simp
qed

lemma frame_init_ok [simp]: "frame_ok (fbsec_co_fd_frame_init i x)"
  by (simp add: frame_ok_def fbsec_co_fd_frame_init_def)

lemma frame_init_id_value [simp]:
  "fbsec_co_fd_frame_id_value (fbsec_co_fd_frame_init i x) = i AND FBSEC_CO_FD_CAN_ID_VALUE"
  by (cases x)
     (simp_all add: fbsec_co_fd_frame_id_value_def fbsec_co_fd_frame_init_def bit.conj_disj_distrib2
        and.assoc)

section \<open>Data identifiers: the round trip\<close>

lemma mask_u32: "(0xFF :: u32) = mask 8" "(0xFFFF :: u32) = mask 16" "(0x7F :: u32) = mask 7"
    "(0x1FFFFFFF :: u32) = mask 29" "(0x7FF :: u32) = mask 11"
  by (simp_all add: mask_eq_exp_minus_1)

lemma data_id_roundtrip:
  "fbsec_co_fd_index_sub_from_data_id (fbsec_co_fd_data_id_from_index_sub idx sub) = (idx, sub)"
proof -
  have "(ucast (drop_bit 16 (fbsec_co_fd_data_id_from_index_sub idx sub) AND 0xFFFF) :: u16) = idx"
    by (rule bit_word_eqI)
       (auto simp: fbsec_co_fd_data_id_from_index_sub_def bit_ucast_iff bit_and_iff bit_or_iff
          bit_drop_bit_eq bit_push_bit_iff bit_mask_iff mask_u32)
  moreover have "(ucast (drop_bit 8 (fbsec_co_fd_data_id_from_index_sub idx sub) AND 0xFF) :: u8) = sub"
    by (rule bit_word_eqI)
       (auto simp: fbsec_co_fd_data_id_from_index_sub_def bit_ucast_iff bit_and_iff bit_or_iff
          bit_drop_bit_eq bit_push_bit_iff bit_mask_iff mask_u32)
  ultimately show ?thesis by (simp add: fbsec_co_fd_index_sub_from_data_id_def)
qed

lemma data_id_rebuild:
  "data_id AND 0xFF = 0 \<Longrightarrow>
     fbsec_co_fd_data_id_from_index_sub (fst (fbsec_co_fd_index_sub_from_data_id data_id))
       (snd (fbsec_co_fd_index_sub_from_data_id data_id)) = data_id"
proof (rule bit_word_eqI)
  fix n assume z: "data_id AND 0xFF = 0" and n: "n < LENGTH(32)"
  have low: "\<not> bit data_id n" if "n < 8"
  proof -
    have "bit (data_id AND 0xFF) n = bit data_id n"
      using that by (simp add: mask_u32 bit_and_iff bit_mask_iff)
    then show ?thesis by (simp add: z)
  qed
  consider "n < 8" | "8 \<le> n" "n < 16" | "16 \<le> n" "n < 32" using n by fastforce
  then show "bit (fbsec_co_fd_data_id_from_index_sub (fst (fbsec_co_fd_index_sub_from_data_id data_id))
       (snd (fbsec_co_fd_index_sub_from_data_id data_id))) n = bit data_id n"
    by cases (auto simp: low fbsec_co_fd_data_id_from_index_sub_def
        fbsec_co_fd_index_sub_from_data_id_def bit_ucast_iff bit_and_iff bit_or_iff
        bit_drop_bit_eq bit_push_bit_iff bit_mask_iff mask_u32)
qed

lemma data_id_index_word:
  "drop_bit 16 (fbsec_co_fd_data_id_from_index_sub idx sub) AND 0xFFFF = (ucast idx :: u32)"
  by (rule bit_word_eqI)
     (auto simp: fbsec_co_fd_data_id_from_index_sub_def bit_ucast_iff bit_and_iff bit_or_iff
        bit_drop_bit_eq bit_push_bit_iff bit_mask_iff mask_u32 dest: bit_imp_le_length)

lemma data_id_low_zero: "fbsec_co_fd_data_id_from_index_sub idx sub AND 0xFF = 0"
  by (rule bit_word_eqI)
     (auto simp: fbsec_co_fd_data_id_from_index_sub_def bit_and_iff bit_or_iff
        bit_push_bit_iff bit_mask_iff mask_u32)

lemma data_id_canopen_form_iff:
  "fbsec_co_fd_data_id_is_canopen_form d \<longleftrightarrow>
     (\<exists>idx sub. 0x1000 \<le> idx \<and> d = fbsec_co_fd_data_id_from_index_sub idx sub)"
proof
  assume f: "fbsec_co_fd_data_id_is_canopen_form d"
  then have z: "d AND 0xFF = 0" by (simp add: fbsec_co_fd_data_id_is_canopen_form_def)
  let ?i = "fst (fbsec_co_fd_index_sub_from_data_id d)"
    and ?s = "snd (fbsec_co_fd_index_sub_from_data_id d)"
  have d: "d = fbsec_co_fd_data_id_from_index_sub ?i ?s"
    using data_id_rebuild [OF z] by simp
  have "\<not> ucast ?i < (0x1000 :: u32)"
    using f d data_id_index_word [of ?i ?s] by (simp add: fbsec_co_fd_data_id_is_canopen_form_def)
  then have "0x1000 \<le> ?i"
    by (simp add: word_less_nat_alt word_le_nat_alt unat_ucast_u16_u32)
  then show "\<exists>idx sub. 0x1000 \<le> idx \<and> d = fbsec_co_fd_data_id_from_index_sub idx sub"
    using d by blast
next
  assume "\<exists>idx sub. 0x1000 \<le> idx \<and> d = fbsec_co_fd_data_id_from_index_sub idx sub"
  then show "fbsec_co_fd_data_id_is_canopen_form d"
    by (auto simp: fbsec_co_fd_data_id_is_canopen_form_def data_id_index_word data_id_low_zero
        word_less_nat_alt word_le_nat_alt unat_ucast_u16_u32)
qed

end
