(* ===== verification/Co_Fd_Usdo.thy ===== *)
theory Co_Fd_Usdo
  imports Co_Fd_Frame Sofa_Config
begin

text \<open>
  The USDO PDU codec (\<open>variants/canopen_fd/common/fbsec_co_fd_usdo.[ch]\<close>):
  expedited and segmented transfers and aborts. An encoder that returns false
  is \<open>None\<close>, one that fills the frame is \<open>Some\<close> frame (every caller passes the
  address of a frame, so the null checks on \<open>out_frame\<close> have no branch here).
  A data pointer and its length are a byte list option and a 16-bit length; the
  \<open>memcpy\<close> reads that many bytes of it, so a caller hands over at least that many.
  The decoder returns \<open>Inl\<close> an error or \<open>Inr\<close> the PDU, whose data pointer
  into the frame is the bytes it points at.

  At the end of the theory the fifteen frame kinds are one datatype of
  messages, and the lemmas show that decoding an encoded message gives it back.
\<close>

section \<open>Layout\<close>

abbreviation (input) FBSEC_CO_FD_USDO_HEADER_SIZE :: nat where
  "FBSEC_CO_FD_USDO_HEADER_SIZE \<equiv> 6"

abbreviation (input) FBSEC_CO_FD_USDO_DATA_PREFIX_SIZE :: nat where
  "FBSEC_CO_FD_USDO_DATA_PREFIX_SIZE \<equiv> 2"

abbreviation (input) FBSEC_CO_FD_USDO_DATA_MAX :: nat where
  "FBSEC_CO_FD_USDO_DATA_MAX \<equiv> 56"

abbreviation (input) FBSEC_CO_FD_NODE_ID_MAX :: u8 where
  "FBSEC_CO_FD_NODE_ID_MAX \<equiv> 127"

abbreviation (input) FBSEC_CO_FD_USDO_SEG_HEADER_SIZE :: nat where
  "FBSEC_CO_FD_USDO_SEG_HEADER_SIZE \<equiv> 4"

abbreviation (input) FBSEC_CO_FD_USDO_SEG_DATA_MAX :: nat where
  "FBSEC_CO_FD_USDO_SEG_DATA_MAX \<equiv> 60"

abbreviation (input) FBSEC_CO_FD_USDO_INIT_SIZE :: nat where
  "FBSEC_CO_FD_USDO_INIT_SIZE \<equiv> 12"

abbreviation (input) FBSEC_CO_FD_USDO_END_RESP_SIZE :: nat where
  "FBSEC_CO_FD_USDO_END_RESP_SIZE \<equiv> 3"

abbreviation (input) FBSEC_CO_FD_USDO_ABORT_SIZE :: nat where
  "FBSEC_CO_FD_USDO_ABORT_SIZE \<equiv> 7"

abbreviation (input) FBSEC_CO_FD_USDO_ABORT_AC_OFFSET :: nat where
  "FBSEC_CO_FD_USDO_ABORT_AC_OFFSET \<equiv> 6"

abbreviation (input) FBSEC_CO_FD_USDO_SEG_BODY_MAX :: nat where
  "FBSEC_CO_FD_USDO_SEG_BODY_MAX \<equiv> 256"

abbreviation (input) FBSEC_CO_FD_USDO_REQ_BASE :: u32 where
  "FBSEC_CO_FD_USDO_REQ_BASE \<equiv> 0x600"

abbreviation (input) FBSEC_CO_FD_USDO_RSP_BASE :: u32 where
  "FBSEC_CO_FD_USDO_RSP_BASE \<equiv> 0x580"

abbreviation (input) FBSEC_CO_FD_USDO_BASE_MASK :: u32 where
  "FBSEC_CO_FD_USDO_BASE_MASK \<equiv> 0x780"

abbreviation (input) FBSEC_CO_FD_USDO_NID_MASK :: u32 where
  "FBSEC_CO_FD_USDO_NID_MASK \<equiv> 0x7F"

abbreviation (input) FBSEC_CO_FD_USDO_CMD_DOWNLOAD_REQ :: u8 where
  "FBSEC_CO_FD_USDO_CMD_DOWNLOAD_REQ \<equiv> 0x01"

abbreviation (input) FBSEC_CO_FD_USDO_CMD_DOWNLOAD_RESP :: u8 where
  "FBSEC_CO_FD_USDO_CMD_DOWNLOAD_RESP \<equiv> 0x21"

abbreviation (input) FBSEC_CO_FD_USDO_CMD_UPLOAD_REQ :: u8 where
  "FBSEC_CO_FD_USDO_CMD_UPLOAD_REQ \<equiv> 0x11"

abbreviation (input) FBSEC_CO_FD_USDO_CMD_UPLOAD_RESP :: u8 where
  "FBSEC_CO_FD_USDO_CMD_UPLOAD_RESP \<equiv> 0x31"

abbreviation (input) FBSEC_CO_FD_USDO_CMD_ABORT :: u8 where
  "FBSEC_CO_FD_USDO_CMD_ABORT \<equiv> 0x7F"

abbreviation (input) FBSEC_CO_FD_USDO_CMD_DOWNLOAD_INIT_REQ :: u8 where
  "FBSEC_CO_FD_USDO_CMD_DOWNLOAD_INIT_REQ \<equiv> 0x02"

abbreviation (input) FBSEC_CO_FD_USDO_CMD_DOWNLOAD_SEG_REQ :: u8 where
  "FBSEC_CO_FD_USDO_CMD_DOWNLOAD_SEG_REQ \<equiv> 0x03"

abbreviation (input) FBSEC_CO_FD_USDO_CMD_DOWNLOAD_END_REQ :: u8 where
  "FBSEC_CO_FD_USDO_CMD_DOWNLOAD_END_REQ \<equiv> 0x04"

abbreviation (input) FBSEC_CO_FD_USDO_CMD_UPLOAD_SEG_REQ :: u8 where
  "FBSEC_CO_FD_USDO_CMD_UPLOAD_SEG_REQ \<equiv> 0x13"

abbreviation (input) FBSEC_CO_FD_USDO_CMD_DOWNLOAD_INIT_RESP :: u8 where
  "FBSEC_CO_FD_USDO_CMD_DOWNLOAD_INIT_RESP \<equiv> 0x22"

abbreviation (input) FBSEC_CO_FD_USDO_CMD_DOWNLOAD_SEG_RESP :: u8 where
  "FBSEC_CO_FD_USDO_CMD_DOWNLOAD_SEG_RESP \<equiv> 0x23"

abbreviation (input) FBSEC_CO_FD_USDO_CMD_DOWNLOAD_END_RESP :: u8 where
  "FBSEC_CO_FD_USDO_CMD_DOWNLOAD_END_RESP \<equiv> 0x24"

abbreviation (input) FBSEC_CO_FD_USDO_CMD_UPLOAD_INIT_RESP :: u8 where
  "FBSEC_CO_FD_USDO_CMD_UPLOAD_INIT_RESP \<equiv> 0x32"

abbreviation (input) FBSEC_CO_FD_USDO_CMD_UPLOAD_SEG_RESP :: u8 where
  "FBSEC_CO_FD_USDO_CMD_UPLOAD_SEG_RESP \<equiv> 0x33"

abbreviation (input) FBSEC_CO_FD_USDO_CMD_UPLOAD_END_RESP :: u8 where
  "FBSEC_CO_FD_USDO_CMD_UPLOAD_END_RESP \<equiv> 0x34"

abbreviation (input) FBSEC_CO_FD_USDO_TYPE_DOMAIN :: u8 where
  "FBSEC_CO_FD_USDO_TYPE_DOMAIN \<equiv> 0x0F"

datatype usdo_kind = USDO_KIND_NONE | USDO_KIND_REQUEST | USDO_KIND_RESPONSE | USDO_KIND_ABORT

record pdu =
  pdu_src_node_id :: u8
  pdu_dst_node_id :: u8
  pdu_cmd :: u8
  pdu_session :: u8
  pdu_index :: u16
  pdu_subindex :: u8
  pdu_mux_valid :: bool
  pdu_counter :: u8
  pdu_total_size :: u32
  pdu_data_type :: u8
  pdu_abort_code :: abort
  pdu_data_len :: u16
  pdu_data :: "bytes option"

datatype usdo_decode_error =
    DECODE_FRAME_TOO_SHORT
  | DECODE_RESERVED_NODE
  | DECODE_BAD_CMD
  | DECODE_BAD_INDEX
  | DECODE_BAD_ABORT_LEN
  | DECODE_NOT_USDO
  | DECODE_BAD_SEGMENT

section \<open>CAN identifiers and command specifiers\<close>

definition fbsec_co_fd_usdo_can_id :: "u8 \<Rightarrow> bool \<Rightarrow> u32" where
  "fbsec_co_fd_usdo_can_id sender_node_id to_server =
     (if sender_node_id = 0 \<or> sender_node_id > FBSEC_CO_FD_NODE_ID_MAX then 0
      else (if to_server then FBSEC_CO_FD_USDO_REQ_BASE else FBSEC_CO_FD_USDO_RSP_BASE)
           OR ucast sender_node_id)"

text \<open>Sender and kind; the C function also returns whether the kind is not NONE.\<close>

definition fbsec_co_fd_usdo_can_id_split :: "u32 \<Rightarrow> u8 \<times> usdo_kind \<times> bool" where
  "fbsec_co_fd_usdo_can_id_split can_id =
     (let sender = ucast (can_id AND FBSEC_CO_FD_USDO_NID_MASK) :: u8;
          kind = (if sender \<noteq> 0 \<and> sender \<le> FBSEC_CO_FD_NODE_ID_MAX then
                    (if can_id AND FBSEC_CO_FD_USDO_BASE_MASK = FBSEC_CO_FD_USDO_REQ_BASE
                     then USDO_KIND_REQUEST
                     else if can_id AND FBSEC_CO_FD_USDO_BASE_MASK = FBSEC_CO_FD_USDO_RSP_BASE
                     then USDO_KIND_RESPONSE
                     else USDO_KIND_NONE)
                  else USDO_KIND_NONE)
      in (sender, kind, kind \<noteq> USDO_KIND_NONE))"

definition cmd_is_known :: "u8 \<Rightarrow> bool" where
  "cmd_is_known cmd \<longleftrightarrow> cmd \<in> {
     FBSEC_CO_FD_USDO_CMD_DOWNLOAD_REQ, FBSEC_CO_FD_USDO_CMD_DOWNLOAD_RESP,
     FBSEC_CO_FD_USDO_CMD_UPLOAD_REQ, FBSEC_CO_FD_USDO_CMD_UPLOAD_RESP,
     FBSEC_CO_FD_USDO_CMD_ABORT, FBSEC_CO_FD_USDO_CMD_DOWNLOAD_INIT_REQ,
     FBSEC_CO_FD_USDO_CMD_DOWNLOAD_SEG_REQ, FBSEC_CO_FD_USDO_CMD_DOWNLOAD_END_REQ,
     FBSEC_CO_FD_USDO_CMD_UPLOAD_SEG_REQ, FBSEC_CO_FD_USDO_CMD_DOWNLOAD_INIT_RESP,
     FBSEC_CO_FD_USDO_CMD_DOWNLOAD_SEG_RESP, FBSEC_CO_FD_USDO_CMD_DOWNLOAD_END_RESP,
     FBSEC_CO_FD_USDO_CMD_UPLOAD_INIT_RESP, FBSEC_CO_FD_USDO_CMD_UPLOAD_SEG_RESP,
     FBSEC_CO_FD_USDO_CMD_UPLOAD_END_RESP}"

definition cmd_is_request :: "u8 \<Rightarrow> bool" where
  "cmd_is_request cmd \<longleftrightarrow> cmd \<in> {
     FBSEC_CO_FD_USDO_CMD_DOWNLOAD_REQ, FBSEC_CO_FD_USDO_CMD_UPLOAD_REQ,
     FBSEC_CO_FD_USDO_CMD_DOWNLOAD_INIT_REQ, FBSEC_CO_FD_USDO_CMD_DOWNLOAD_SEG_REQ,
     FBSEC_CO_FD_USDO_CMD_DOWNLOAD_END_REQ, FBSEC_CO_FD_USDO_CMD_UPLOAD_SEG_REQ}"

definition cmd_must_have_data :: "u8 \<Rightarrow> bool" where
  "cmd_must_have_data cmd \<longleftrightarrow>
     cmd = FBSEC_CO_FD_USDO_CMD_DOWNLOAD_REQ \<or> cmd = FBSEC_CO_FD_USDO_CMD_UPLOAD_RESP"

definition cmd_emits_data :: "u8 \<Rightarrow> u16 \<Rightarrow> bool" where
  "cmd_emits_data cmd data_len \<longleftrightarrow>
     cmd_must_have_data cmd \<or> cmd = FBSEC_CO_FD_USDO_CMD_DOWNLOAD_RESP \<and> data_len > 0"

section \<open>Encoding\<close>

text \<open>\<open>memcpy(&payload[i], data, n)\<close> of the first \<open>n\<close> bytes of \<open>data\<close>.\<close>

definition put :: "bytes \<Rightarrow> nat \<Rightarrow> bytes \<Rightarrow> bytes" where
  "put p i bs = take i p @ bs @ drop (i + length bs) p"

definition put_data :: "bytes \<Rightarrow> nat \<Rightarrow> bytes option \<Rightarrow> nat \<Rightarrow> bytes" where
  "put_data p i data n = put p i (take n (case data of None \<Rightarrow> [] | Some bs \<Rightarrow> bs))"

definition encode_common ::
  "u8 \<Rightarrow> u8 \<Rightarrow> u8 \<Rightarrow> u8 \<Rightarrow> u16 \<Rightarrow> u8 \<Rightarrow> u8 \<Rightarrow> bytes option \<Rightarrow> u16 \<Rightarrow> frame option" where
  "encode_common src_node_id dst_node_id cmd session idx subindex data_type data data_len =
     (if src_node_id = 0 \<or> src_node_id > FBSEC_CO_FD_NODE_ID_MAX then None
      else if dst_node_id = 0 \<or> dst_node_id > FBSEC_CO_FD_NODE_ID_MAX then None
      else if session = 0 then None
      else if idx < 0x1000 then None
      else if unat data_len > FBSEC_CO_FD_USDO_DATA_MAX then None
      else if data_len > 0 \<and> data = None then None
      else let can_id = fbsec_co_fd_usdo_can_id src_node_id (cmd_is_request cmd) in
        if can_id = 0 then None
        else let f = (fbsec_co_fd_frame_init can_id False)\<lparr>fr_flags := FBSEC_CO_FD_FLAG_BRS\<rparr>;
             p = (fr_payload f)[0 := dst_node_id, 1 := cmd, 2 := session, 3 := subindex,
                    4 := ucast (idx AND 0xFF), 5 := ucast (drop_bit 8 idx AND 0xFF)];
             (p, total) =
               (if cmd_emits_data cmd data_len then
                  (let p = p[6 := data_type, 7 := ucast data_len];
                       p = (if data_len > 0 then put_data p 8 data (unat data_len) else p)
                   in (p, FBSEC_CO_FD_USDO_HEADER_SIZE + FBSEC_CO_FD_USDO_DATA_PREFIX_SIZE
                          + unat data_len))
                else (p, FBSEC_CO_FD_USDO_HEADER_SIZE))
          in Some (f\<lparr>fr_payload := p, fr_len := of_nat total\<rparr>))"

definition encode_seg_common :: "u8 \<Rightarrow> u8 \<Rightarrow> u8 \<Rightarrow> u8 \<Rightarrow> frame option" where
  "encode_seg_common src_node_id dst_node_id cmd session =
     (if src_node_id = 0 \<or> src_node_id > FBSEC_CO_FD_NODE_ID_MAX then None
      else if dst_node_id = 0 \<or> dst_node_id > FBSEC_CO_FD_NODE_ID_MAX then None
      else if session = 0 then None
      else let can_id = fbsec_co_fd_usdo_can_id src_node_id (cmd_is_request cmd) in
        if can_id = 0 then None
        else let f = (fbsec_co_fd_frame_init can_id False)\<lparr>fr_flags := FBSEC_CO_FD_FLAG_BRS\<rparr>
          in Some (f\<lparr>fr_payload :=
               (fr_payload f)[0 := dst_node_id, 1 := cmd, 2 := session]\<rparr>))"

definition encode_init_common ::
  "u8 \<Rightarrow> u8 \<Rightarrow> u8 \<Rightarrow> u8 \<Rightarrow> u16 \<Rightarrow> u8 \<Rightarrow> u32 \<Rightarrow> frame option" where
  "encode_init_common src_node_id dst_node_id cmd session idx subindex total_size =
     (if total_size = 0 \<or> unat total_size > FBSEC_CO_FD_USDO_SEG_BODY_MAX then None
      else if idx < 0x1000 then None
      else case encode_seg_common src_node_id dst_node_id cmd session of None \<Rightarrow> None
        | Some f \<Rightarrow> Some (f\<lparr>fr_payload :=
            (fr_payload f)[3 := subindex, 4 := ucast (idx AND 0xFF),
              5 := ucast (drop_bit 8 idx AND 0xFF), 6 := FBSEC_CO_FD_USDO_TYPE_DOMAIN, 7 := 0,
              8 := ucast (total_size AND 0xFF), 9 := ucast (drop_bit 8 total_size AND 0xFF),
              10 := ucast (drop_bit 16 total_size AND 0xFF),
              11 := ucast (drop_bit 24 total_size AND 0xFF)],
            fr_len := of_nat FBSEC_CO_FD_USDO_INIT_SIZE\<rparr>))"

definition encode_seg_data ::
  "u8 \<Rightarrow> u8 \<Rightarrow> u8 \<Rightarrow> u8 \<Rightarrow> u8 \<Rightarrow> bytes option \<Rightarrow> frame option" where
  "encode_seg_data src_node_id dst_node_id cmd session counter data =
     (if data = None then None
      else case encode_seg_common src_node_id dst_node_id cmd session of None \<Rightarrow> None
        | Some f \<Rightarrow> Some (f\<lparr>fr_payload :=
            put_data ((fr_payload f)[3 := counter]) FBSEC_CO_FD_USDO_SEG_HEADER_SIZE data
              FBSEC_CO_FD_USDO_SEG_DATA_MAX,
            fr_len := of_nat FBSEC_CO_FD_PAYLOAD_MAX\<rparr>))"

definition encode_seg_end ::
  "u8 \<Rightarrow> u8 \<Rightarrow> u8 \<Rightarrow> u8 \<Rightarrow> bytes option \<Rightarrow> u16 \<Rightarrow> frame option" where
  "encode_seg_end src_node_id dst_node_id cmd session data len =
     (if unat len > FBSEC_CO_FD_USDO_SEG_DATA_MAX then None
      else if len > 0 \<and> data = None then None
      else case encode_seg_common src_node_id dst_node_id cmd session of None \<Rightarrow> None
        | Some f \<Rightarrow> (let p = (fr_payload f)[3 := ucast len];
                     p = (if len > 0 then put_data p FBSEC_CO_FD_USDO_SEG_HEADER_SIZE data (unat len)
                          else p)
            in Some (f\<lparr>fr_payload := p,
                 fr_len := of_nat (FBSEC_CO_FD_USDO_SEG_HEADER_SIZE + unat len)\<rparr>)))"

section \<open>The encoder of each frame kind\<close>

definition fbsec_co_fd_usdo_encode_download_req ::
  "u8 \<Rightarrow> u8 \<Rightarrow> u8 \<Rightarrow> u16 \<Rightarrow> u8 \<Rightarrow> bytes option \<Rightarrow> u16 \<Rightarrow> frame option" where
  "fbsec_co_fd_usdo_encode_download_req src dst session idx subindex data data_len =
     encode_common src dst FBSEC_CO_FD_USDO_CMD_DOWNLOAD_REQ session idx subindex
       FBSEC_CO_FD_USDO_TYPE_DOMAIN data data_len"

definition fbsec_co_fd_usdo_encode_download_resp ::
  "u8 \<Rightarrow> u8 \<Rightarrow> u8 \<Rightarrow> u16 \<Rightarrow> u8 \<Rightarrow> bytes option \<Rightarrow> u16 \<Rightarrow> frame option" where
  "fbsec_co_fd_usdo_encode_download_resp src dst session idx subindex data data_len =
     encode_common src dst FBSEC_CO_FD_USDO_CMD_DOWNLOAD_RESP session idx subindex
       FBSEC_CO_FD_USDO_TYPE_DOMAIN data data_len"

definition fbsec_co_fd_usdo_encode_upload_req ::
  "u8 \<Rightarrow> u8 \<Rightarrow> u8 \<Rightarrow> u16 \<Rightarrow> u8 \<Rightarrow> bytes option \<Rightarrow> u16 \<Rightarrow> frame option" where
  "fbsec_co_fd_usdo_encode_upload_req src dst session idx subindex data data_len =
     (if data_len > 0 \<or> data \<noteq> None then None
      else encode_common src dst FBSEC_CO_FD_USDO_CMD_UPLOAD_REQ session idx subindex 0 None 0)"

definition fbsec_co_fd_usdo_encode_upload_resp ::
  "u8 \<Rightarrow> u8 \<Rightarrow> u8 \<Rightarrow> u16 \<Rightarrow> u8 \<Rightarrow> bytes option \<Rightarrow> u16 \<Rightarrow> frame option" where
  "fbsec_co_fd_usdo_encode_upload_resp src dst session idx subindex data data_len =
     encode_common src dst FBSEC_CO_FD_USDO_CMD_UPLOAD_RESP session idx subindex
       FBSEC_CO_FD_USDO_TYPE_DOMAIN data data_len"

definition fbsec_co_fd_usdo_encode_download_init_req ::
  "u8 \<Rightarrow> u8 \<Rightarrow> u8 \<Rightarrow> u16 \<Rightarrow> u8 \<Rightarrow> u32 \<Rightarrow> frame option" where
  "fbsec_co_fd_usdo_encode_download_init_req src dst session idx subindex total_size =
     encode_init_common src dst FBSEC_CO_FD_USDO_CMD_DOWNLOAD_INIT_REQ session idx subindex total_size"

definition fbsec_co_fd_usdo_encode_upload_init_resp ::
  "u8 \<Rightarrow> u8 \<Rightarrow> u8 \<Rightarrow> u16 \<Rightarrow> u8 \<Rightarrow> u32 \<Rightarrow> frame option" where
  "fbsec_co_fd_usdo_encode_upload_init_resp src dst session idx subindex total_size =
     encode_init_common src dst FBSEC_CO_FD_USDO_CMD_UPLOAD_INIT_RESP session idx subindex total_size"

definition fbsec_co_fd_usdo_encode_download_init_resp ::
  "u8 \<Rightarrow> u8 \<Rightarrow> u8 \<Rightarrow> u16 \<Rightarrow> u8 \<Rightarrow> frame option" where
  "fbsec_co_fd_usdo_encode_download_init_resp src dst session idx subindex =
     (if idx < 0x1000 then None
      else case encode_seg_common src dst FBSEC_CO_FD_USDO_CMD_DOWNLOAD_INIT_RESP session of
          None \<Rightarrow> None
        | Some f \<Rightarrow> Some (f\<lparr>fr_payload := (fr_payload f)[3 := subindex,
              4 := ucast (idx AND 0xFF), 5 := ucast (drop_bit 8 idx AND 0xFF)],
            fr_len := of_nat FBSEC_CO_FD_USDO_HEADER_SIZE\<rparr>))"

definition fbsec_co_fd_usdo_encode_download_seg_req ::
  "u8 \<Rightarrow> u8 \<Rightarrow> u8 \<Rightarrow> u8 \<Rightarrow> bytes option \<Rightarrow> frame option" where
  "fbsec_co_fd_usdo_encode_download_seg_req src dst session counter data =
     encode_seg_data src dst FBSEC_CO_FD_USDO_CMD_DOWNLOAD_SEG_REQ session counter data"

definition fbsec_co_fd_usdo_encode_upload_seg_resp ::
  "u8 \<Rightarrow> u8 \<Rightarrow> u8 \<Rightarrow> u8 \<Rightarrow> bytes option \<Rightarrow> frame option" where
  "fbsec_co_fd_usdo_encode_upload_seg_resp src dst session counter data =
     encode_seg_data src dst FBSEC_CO_FD_USDO_CMD_UPLOAD_SEG_RESP session counter data"

definition fbsec_co_fd_usdo_encode_download_seg_resp ::
  "u8 \<Rightarrow> u8 \<Rightarrow> u8 \<Rightarrow> u8 \<Rightarrow> frame option" where
  "fbsec_co_fd_usdo_encode_download_seg_resp src dst session counter =
     (case encode_seg_common src dst FBSEC_CO_FD_USDO_CMD_DOWNLOAD_SEG_RESP session of None \<Rightarrow> None
      | Some f \<Rightarrow> Some (f\<lparr>fr_payload := (fr_payload f)[3 := counter],
          fr_len := of_nat FBSEC_CO_FD_USDO_SEG_HEADER_SIZE\<rparr>))"

definition fbsec_co_fd_usdo_encode_upload_seg_req ::
  "u8 \<Rightarrow> u8 \<Rightarrow> u8 \<Rightarrow> u8 \<Rightarrow> frame option" where
  "fbsec_co_fd_usdo_encode_upload_seg_req src dst session counter =
     (case encode_seg_common src dst FBSEC_CO_FD_USDO_CMD_UPLOAD_SEG_REQ session of None \<Rightarrow> None
      | Some f \<Rightarrow> Some (f\<lparr>fr_payload := (fr_payload f)[3 := counter],
          fr_len := of_nat FBSEC_CO_FD_USDO_SEG_HEADER_SIZE\<rparr>))"

definition fbsec_co_fd_usdo_encode_download_end_req ::
  "u8 \<Rightarrow> u8 \<Rightarrow> u8 \<Rightarrow> bytes option \<Rightarrow> u16 \<Rightarrow> frame option" where
  "fbsec_co_fd_usdo_encode_download_end_req src dst session data len =
     (if len = 0 then None
      else encode_seg_end src dst FBSEC_CO_FD_USDO_CMD_DOWNLOAD_END_REQ session data len)"

definition fbsec_co_fd_usdo_encode_download_end_resp :: "u8 \<Rightarrow> u8 \<Rightarrow> u8 \<Rightarrow> frame option" where
  "fbsec_co_fd_usdo_encode_download_end_resp src dst session =
     (case encode_seg_common src dst FBSEC_CO_FD_USDO_CMD_DOWNLOAD_END_RESP session of None \<Rightarrow> None
      | Some f \<Rightarrow> Some (f\<lparr>fr_len := of_nat FBSEC_CO_FD_USDO_END_RESP_SIZE\<rparr>))"

definition fbsec_co_fd_usdo_encode_upload_end_resp ::
  "u8 \<Rightarrow> u8 \<Rightarrow> u8 \<Rightarrow> bytes option \<Rightarrow> u16 \<Rightarrow> frame option" where
  "fbsec_co_fd_usdo_encode_upload_end_resp src dst session data len =
     encode_seg_end src dst FBSEC_CO_FD_USDO_CMD_UPLOAD_END_RESP session data len"

definition fbsec_co_fd_usdo_encode_abort ::
  "u8 \<Rightarrow> u8 \<Rightarrow> u8 \<Rightarrow> u16 \<Rightarrow> u8 \<Rightarrow> abort \<Rightarrow> frame option" where
  "fbsec_co_fd_usdo_encode_abort src dst session idx subindex abort_code =
     (if idx < 0x1000 then None
      else case encode_seg_common src dst FBSEC_CO_FD_USDO_CMD_ABORT session of None \<Rightarrow> None
        | Some f \<Rightarrow> Some (f\<lparr>fr_payload := (fr_payload f)[3 := subindex,
              4 := ucast (idx AND 0xFF), 5 := ucast (drop_bit 8 idx AND 0xFF),
              FBSEC_CO_FD_USDO_ABORT_AC_OFFSET := abort_code],
            fr_len := of_nat FBSEC_CO_FD_USDO_ABORT_SIZE\<rparr>))"

section \<open>Decoding\<close>

definition pdu_init :: "u8 \<Rightarrow> u8 \<Rightarrow> u8 \<Rightarrow> u8 \<Rightarrow> pdu" where
  "pdu_init sender dst cmd session =
     \<lparr>pdu_src_node_id = sender, pdu_dst_node_id = dst, pdu_cmd = cmd, pdu_session = session,
      pdu_index = 0, pdu_subindex = 0, pdu_mux_valid = False, pdu_counter = 0,
      pdu_total_size = 0, pdu_data_type = 0, pdu_abort_code = FBSEC_ABORT_NONE,
      pdu_data_len = 0, pdu_data = None\<rparr>"

text \<open>The switch over the segmented commands and the abort.\<close>

definition decode_segmented :: "frame \<Rightarrow> pdu \<Rightarrow> (usdo_decode_error, pdu) result option" where
  "decode_segmented f pdu =
     (let cmd = pdu_cmd pdu; p = fr_payload f; len = unat (fr_len f) in
      if cmd = FBSEC_CO_FD_USDO_CMD_DOWNLOAD_SEG_REQ \<or> cmd = FBSEC_CO_FD_USDO_CMD_UPLOAD_SEG_RESP
      then Some (if len < FBSEC_CO_FD_PAYLOAD_MAX then Inl DECODE_BAD_SEGMENT
             else Inr (pdu\<lparr>pdu_counter := p ! 3,
               pdu_data_len := of_nat FBSEC_CO_FD_USDO_SEG_DATA_MAX,
               pdu_data := Some (slice p FBSEC_CO_FD_USDO_SEG_HEADER_SIZE
                                   FBSEC_CO_FD_USDO_SEG_DATA_MAX)\<rparr>))
      else if cmd = FBSEC_CO_FD_USDO_CMD_DOWNLOAD_END_REQ \<or> cmd = FBSEC_CO_FD_USDO_CMD_UPLOAD_END_RESP
      then Some (if len < FBSEC_CO_FD_USDO_SEG_HEADER_SIZE then Inl DECODE_FRAME_TOO_SHORT
             else let n = unat (p ! 3) in
               if n > FBSEC_CO_FD_USDO_SEG_DATA_MAX then Inl DECODE_BAD_SEGMENT
               else if len < FBSEC_CO_FD_USDO_SEG_HEADER_SIZE + n then Inl DECODE_FRAME_TOO_SHORT
               else Inr (pdu\<lparr>pdu_counter := p ! 3, pdu_data_len := ucast (p ! 3),
                 pdu_data := (if n > 0 then Some (slice p FBSEC_CO_FD_USDO_SEG_HEADER_SIZE n)
                              else None)\<rparr>))
      else if cmd = FBSEC_CO_FD_USDO_CMD_DOWNLOAD_SEG_RESP \<or> cmd = FBSEC_CO_FD_USDO_CMD_UPLOAD_SEG_REQ
      then Some (if len < FBSEC_CO_FD_USDO_SEG_HEADER_SIZE then Inl DECODE_FRAME_TOO_SHORT
             else Inr (pdu\<lparr>pdu_counter := p ! 3\<rparr>))
      else if cmd = FBSEC_CO_FD_USDO_CMD_DOWNLOAD_END_RESP then Some (Inr pdu)
      else if cmd = FBSEC_CO_FD_USDO_CMD_ABORT
      then Some (if len < FBSEC_CO_FD_USDO_ABORT_SIZE then Inl DECODE_BAD_ABORT_LEN
             else Inr (pdu\<lparr>pdu_subindex := p ! 3, pdu_index := get16 p 4, pdu_mux_valid := True,
               pdu_abort_code := p ! FBSEC_CO_FD_USDO_ABORT_AC_OFFSET\<rparr>))
      else None)"

text \<open>What follows the switch: the frames with a multiplexor.\<close>

definition decode_multiplexed :: "frame \<Rightarrow> pdu \<Rightarrow> (usdo_decode_error, pdu) result" where
  "decode_multiplexed f pdu =
     (let cmd = pdu_cmd pdu; p = fr_payload f; len = unat (fr_len f) in
      if len < FBSEC_CO_FD_USDO_HEADER_SIZE then Inl DECODE_FRAME_TOO_SHORT
      else let pdu = pdu\<lparr>pdu_subindex := p ! 3, pdu_index := get16 p 4, pdu_mux_valid := True\<rparr> in
        if pdu_index pdu < 0x1000 then Inl DECODE_BAD_INDEX
        else if cmd = FBSEC_CO_FD_USDO_CMD_DOWNLOAD_INIT_REQ \<or>
                cmd = FBSEC_CO_FD_USDO_CMD_UPLOAD_INIT_RESP
        then (if len < FBSEC_CO_FD_USDO_INIT_SIZE then Inl DECODE_FRAME_TOO_SHORT
              else let pdu = pdu\<lparr>pdu_data_type := p ! 6, pdu_total_size := get32 p 8\<rparr> in
                if pdu_total_size pdu = 0 \<or>
                   unat (pdu_total_size pdu) > FBSEC_CO_FD_USDO_SEG_BODY_MAX
                then Inl DECODE_BAD_SEGMENT
                else Inr pdu)
        else if cmd = FBSEC_CO_FD_USDO_CMD_DOWNLOAD_INIT_RESP then Inr pdu
        else if cmd_must_have_data cmd \<or>
                cmd = FBSEC_CO_FD_USDO_CMD_DOWNLOAD_RESP \<and> len > FBSEC_CO_FD_USDO_HEADER_SIZE
        then (if len < FBSEC_CO_FD_USDO_HEADER_SIZE + FBSEC_CO_FD_USDO_DATA_PREFIX_SIZE
              then Inl DECODE_FRAME_TOO_SHORT
              else let n = unat (p ! 7) in
                if n > FBSEC_CO_FD_USDO_DATA_MAX then Inl DECODE_BAD_CMD
                else if len < FBSEC_CO_FD_USDO_HEADER_SIZE + FBSEC_CO_FD_USDO_DATA_PREFIX_SIZE + n
                then Inl DECODE_FRAME_TOO_SHORT
                else Inr (pdu\<lparr>pdu_data_type := p ! 6, pdu_data_len := ucast (p ! 7),
                       pdu_data := (if n > 0 then Some (slice p 8 n) else None)\<rparr>))
        else Inr pdu)"

definition fbsec_co_fd_usdo_decode :: "frame \<Rightarrow> (usdo_decode_error, pdu) result" where
  "fbsec_co_fd_usdo_decode f =
     (case fbsec_co_fd_usdo_can_id_split (fbsec_co_fd_frame_id_value f) of (sender, kind, is_usdo) \<Rightarrow>
      if \<not> is_usdo then Inl DECODE_NOT_USDO
      else if unat (fr_len f) < FBSEC_CO_FD_USDO_END_RESP_SIZE then Inl DECODE_FRAME_TOO_SHORT
      else let dst = fr_payload f ! 0; cmd = fr_payload f ! 1; session = fr_payload f ! 2 in
        if dst = 0 \<or> dst > FBSEC_CO_FD_NODE_ID_MAX then Inl DECODE_RESERVED_NODE
        else if \<not> cmd_is_known cmd then Inl DECODE_BAD_CMD
        else let pdu = pdu_init sender dst cmd session in
          (case decode_segmented f pdu of
             Some r \<Rightarrow> r
           | None \<Rightarrow> decode_multiplexed f pdu))"

section \<open>Facts on identifiers and words\<close>

definition node_ok :: "u8 \<Rightarrow> bool" where
  "node_ok n \<longleftrightarrow> n \<noteq> 0 \<and> n \<le> FBSEC_CO_FD_NODE_ID_MAX"

lemma can_id_table:
  "list_all (\<lambda>k. let n = of_nat k :: u8 in
     let i = fbsec_co_fd_usdo_can_id n True; j = fbsec_co_fd_usdo_can_id n False in
     i \<noteq> 0 \<and> j \<noteq> 0 \<and> i \<le> 0x7FF \<and> j \<le> 0x7FF \<and>
     fbsec_co_fd_usdo_can_id_split i = (n, USDO_KIND_REQUEST, True) \<and>
     fbsec_co_fd_usdo_can_id_split j = (n, USDO_KIND_RESPONSE, True)) [1..<128]"
  by code_simp

lemma can_id_split:
  assumes "node_ok n"
  shows "fbsec_co_fd_usdo_can_id n b \<noteq> 0" "fbsec_co_fd_usdo_can_id n b \<le> 0x7FF"
    "fbsec_co_fd_usdo_can_id_split (fbsec_co_fd_usdo_can_id n b) =
       (n, if b then USDO_KIND_REQUEST else USDO_KIND_RESPONSE, True)"
proof -
  have "unat n \<in> set [1..<128]"
    using assms by (auto simp: node_ok_def word_le_nat_alt unat_eq_0 Suc_le_eq unat_gt_0)
  moreover have "of_nat (unat n) = n" by simp
  ultimately show "fbsec_co_fd_usdo_can_id n b \<noteq> 0" "fbsec_co_fd_usdo_can_id n b \<le> 0x7FF"
    "fbsec_co_fd_usdo_can_id_split (fbsec_co_fd_usdo_can_id n b) =
       (n, if b then USDO_KIND_REQUEST else USDO_KIND_RESPONSE, True)"
    using bspec [OF can_id_table [unfolded list_all_iff], of "unat n"]
    by (cases b; simp add: Let_def)+
qed

lemma std_id_value: "i \<le> 0x7FF \<Longrightarrow> i AND 0x1FFFFFFF = (i :: u32)"
proof -
  assume "i \<le> 0x7FF"
  then have "i < 2 ^ 29" by (simp add: word_le_nat_alt word_less_nat_alt)
  then show ?thesis by (simp add: mask_u32 flip: take_bit_eq_mask) (simp add: less_mask_eq take_bit_eq_mask)
qed


text \<open>The fields of an encoded frame are ids the decoder takes apart again.\<close>

lemma usdo_frame_id:
  assumes "node_ok n"
  shows "fbsec_co_fd_usdo_can_id n b AND 0x1FFFFFFF = fbsec_co_fd_usdo_can_id n b"
  by (rule std_id_value [OF can_id_split(2) [OF assms]])

lemma not_node_ok [simp]:
  "n = 0 \<or> n > FBSEC_CO_FD_NODE_ID_MAX \<longleftrightarrow> \<not> node_ok n"
  by (auto simp: node_ok_def)

lemma byte_of_u16 [simp]:
  "(ucast (x AND 0xFF :: u16) :: u8) = ucast x"
  "(ucast (drop_bit 8 x AND 0xFF :: u16) :: u8) = ucast (drop_bit 8 x)"
proof -
  have m: "(0xFF :: u16) = mask 8" by (simp add: mask_eq_exp_minus_1)
  show "(ucast (x AND 0xFF :: u16) :: u8) = ucast x"
    "(ucast (drop_bit 8 x AND 0xFF :: u16) :: u8) = ucast (drop_bit 8 x)"
    by (rule bit_word_eqI, simp add: m bit_ucast_iff bit_and_iff bit_mask_iff)+
qed

lemma byte_of_u32 [simp]: "(ucast (x AND 0xFF :: u32) :: u8) = ucast x"
  by (rule bit_word_eqI) (simp add: mask_u32 bit_ucast_iff bit_and_iff bit_mask_iff)

lemma length_put [simp]: "i + length bs \<le> length p \<Longrightarrow> length (put p i bs) = length p"
  by (simp add: put_def)

lemma nth_put_below [simp]: "j < i \<Longrightarrow> i \<le> length p \<Longrightarrow> put p i bs ! j = p ! j"
  by (simp add: put_def nth_append)

lemma slice_put [simp]: "i \<le> length p \<Longrightarrow> length bs = n \<Longrightarrow> slice (put p i bs) i n = bs"
  by (simp add: put_def slice_def)

section \<open>Messages\<close>

datatype usdo_msg =
    Download_Req u16 u8 bytes
  | Download_Resp u16 u8 bytes
  | Upload_Req u16 u8
  | Upload_Resp u16 u8 bytes
  | Abort_Msg u16 u8 abort
  | Download_Init_Req u16 u8 u32
  | Download_Init_Resp u16 u8
  | Download_Seg_Req u8 bytes
  | Download_Seg_Resp u8
  | Download_End_Req bytes
  | Download_End_Resp
  | Upload_Init_Resp u16 u8 u32
  | Upload_Seg_Req u8
  | Upload_Seg_Resp u8 bytes
  | Upload_End_Resp bytes

text \<open>A buffer as the pointer and length the encoders take.\<close>

abbreviation ptr :: "bytes \<Rightarrow> bytes option" where
  "ptr bs \<equiv> (if bs = [] then None else Some bs)"

fun usdo_encode :: "u8 \<Rightarrow> u8 \<Rightarrow> u8 \<Rightarrow> usdo_msg \<Rightarrow> frame option" where
  "usdo_encode a b s (Download_Req i j d) =
     fbsec_co_fd_usdo_encode_download_req a b s i j (ptr d) (of_nat (length d))"
| "usdo_encode a b s (Download_Resp i j d) =
     fbsec_co_fd_usdo_encode_download_resp a b s i j (ptr d) (of_nat (length d))"
| "usdo_encode a b s (Upload_Req i j) = fbsec_co_fd_usdo_encode_upload_req a b s i j None 0"
| "usdo_encode a b s (Upload_Resp i j d) =
     fbsec_co_fd_usdo_encode_upload_resp a b s i j (ptr d) (of_nat (length d))"
| "usdo_encode a b s (Abort_Msg i j ac) = fbsec_co_fd_usdo_encode_abort a b s i j ac"
| "usdo_encode a b s (Download_Init_Req i j n) =
     fbsec_co_fd_usdo_encode_download_init_req a b s i j n"
| "usdo_encode a b s (Download_Init_Resp i j) =
     fbsec_co_fd_usdo_encode_download_init_resp a b s i j"
| "usdo_encode a b s (Download_Seg_Req k d) =
     fbsec_co_fd_usdo_encode_download_seg_req a b s k (Some d)"
| "usdo_encode a b s (Download_Seg_Resp k) = fbsec_co_fd_usdo_encode_download_seg_resp a b s k"
| "usdo_encode a b s (Download_End_Req d) =
     fbsec_co_fd_usdo_encode_download_end_req a b s (ptr d) (of_nat (length d))"
| "usdo_encode a b s Download_End_Resp = fbsec_co_fd_usdo_encode_download_end_resp a b s"
| "usdo_encode a b s (Upload_Init_Resp i j n) =
     fbsec_co_fd_usdo_encode_upload_init_resp a b s i j n"
| "usdo_encode a b s (Upload_Seg_Req k) = fbsec_co_fd_usdo_encode_upload_seg_req a b s k"
| "usdo_encode a b s (Upload_Seg_Resp k d) =
     fbsec_co_fd_usdo_encode_upload_seg_resp a b s k (Some d)"
| "usdo_encode a b s (Upload_End_Resp d) =
     fbsec_co_fd_usdo_encode_upload_end_resp a b s (ptr d) (of_nat (length d))"

text \<open>The messages the wire format can carry.\<close>

fun usdo_msg_ok :: "usdo_msg \<Rightarrow> bool" where
  "usdo_msg_ok (Download_Req i j d) \<longleftrightarrow> 0x1000 \<le> i \<and> length d \<le> 56"
| "usdo_msg_ok (Download_Resp i j d) \<longleftrightarrow> 0x1000 \<le> i \<and> length d \<le> 56"
| "usdo_msg_ok (Upload_Req i j) \<longleftrightarrow> 0x1000 \<le> i"
| "usdo_msg_ok (Upload_Resp i j d) \<longleftrightarrow> 0x1000 \<le> i \<and> length d \<le> 56"
| "usdo_msg_ok (Abort_Msg i j ac) \<longleftrightarrow> 0x1000 \<le> i"
| "usdo_msg_ok (Download_Init_Req i j n) \<longleftrightarrow> 0x1000 \<le> i \<and> 0 < n \<and> n \<le> 256"
| "usdo_msg_ok (Download_Init_Resp i j) \<longleftrightarrow> 0x1000 \<le> i"
| "usdo_msg_ok (Download_Seg_Req k d) \<longleftrightarrow> length d = 60"
| "usdo_msg_ok (Download_Seg_Resp k) \<longleftrightarrow> True"
| "usdo_msg_ok (Download_End_Req d) \<longleftrightarrow> 0 < length d \<and> length d \<le> 60"
| "usdo_msg_ok Download_End_Resp \<longleftrightarrow> True"
| "usdo_msg_ok (Upload_Init_Resp i j n) \<longleftrightarrow> 0x1000 \<le> i \<and> 0 < n \<and> n \<le> 256"
| "usdo_msg_ok (Upload_Seg_Req k) \<longleftrightarrow> True"
| "usdo_msg_ok (Upload_Seg_Resp k d) \<longleftrightarrow> length d = 60"
| "usdo_msg_ok (Upload_End_Resp d) \<longleftrightarrow> length d \<le> 60"

text \<open>The command specifier of a message.\<close>

fun msg_cmd :: "usdo_msg \<Rightarrow> u8" where
  "msg_cmd (Download_Req i j d) = FBSEC_CO_FD_USDO_CMD_DOWNLOAD_REQ"
| "msg_cmd (Download_Resp i j d) = FBSEC_CO_FD_USDO_CMD_DOWNLOAD_RESP"
| "msg_cmd (Upload_Req i j) = FBSEC_CO_FD_USDO_CMD_UPLOAD_REQ"
| "msg_cmd (Upload_Resp i j d) = FBSEC_CO_FD_USDO_CMD_UPLOAD_RESP"
| "msg_cmd (Abort_Msg i j ac) = FBSEC_CO_FD_USDO_CMD_ABORT"
| "msg_cmd (Download_Init_Req i j n) = FBSEC_CO_FD_USDO_CMD_DOWNLOAD_INIT_REQ"
| "msg_cmd (Download_Init_Resp i j) = FBSEC_CO_FD_USDO_CMD_DOWNLOAD_INIT_RESP"
| "msg_cmd (Download_Seg_Req k d) = FBSEC_CO_FD_USDO_CMD_DOWNLOAD_SEG_REQ"
| "msg_cmd (Download_Seg_Resp k) = FBSEC_CO_FD_USDO_CMD_DOWNLOAD_SEG_RESP"
| "msg_cmd (Download_End_Req d) = FBSEC_CO_FD_USDO_CMD_DOWNLOAD_END_REQ"
| "msg_cmd (Download_End_Resp) = FBSEC_CO_FD_USDO_CMD_DOWNLOAD_END_RESP"
| "msg_cmd (Upload_Init_Resp i j n) = FBSEC_CO_FD_USDO_CMD_UPLOAD_INIT_RESP"
| "msg_cmd (Upload_Seg_Req k) = FBSEC_CO_FD_USDO_CMD_UPLOAD_SEG_REQ"
| "msg_cmd (Upload_Seg_Resp k d) = FBSEC_CO_FD_USDO_CMD_UPLOAD_SEG_RESP"
| "msg_cmd (Upload_End_Resp d) = FBSEC_CO_FD_USDO_CMD_UPLOAD_END_RESP"

text \<open>The message a decoded PDU stands for, by its command specifier.\<close>

definition usdo_msg_of :: "pdu \<Rightarrow> usdo_msg" where
  "usdo_msg_of p =
     (let i = pdu_index p; j = pdu_subindex p; k = pdu_counter p; n = pdu_total_size p;
          d = (case pdu_data p of None \<Rightarrow> [] | Some bs \<Rightarrow> bs); c = pdu_cmd p in
      if c = FBSEC_CO_FD_USDO_CMD_DOWNLOAD_REQ then Download_Req i j d
      else if c = FBSEC_CO_FD_USDO_CMD_DOWNLOAD_RESP then Download_Resp i j d
      else if c = FBSEC_CO_FD_USDO_CMD_UPLOAD_REQ then Upload_Req i j
      else if c = FBSEC_CO_FD_USDO_CMD_UPLOAD_RESP then Upload_Resp i j d
      else if c = FBSEC_CO_FD_USDO_CMD_ABORT then Abort_Msg i j (pdu_abort_code p)
      else if c = FBSEC_CO_FD_USDO_CMD_DOWNLOAD_INIT_REQ then Download_Init_Req i j n
      else if c = FBSEC_CO_FD_USDO_CMD_DOWNLOAD_INIT_RESP then Download_Init_Resp i j
      else if c = FBSEC_CO_FD_USDO_CMD_DOWNLOAD_SEG_REQ then Download_Seg_Req k d
      else if c = FBSEC_CO_FD_USDO_CMD_DOWNLOAD_SEG_RESP then Download_Seg_Resp k
      else if c = FBSEC_CO_FD_USDO_CMD_DOWNLOAD_END_REQ then Download_End_Req d
      else if c = FBSEC_CO_FD_USDO_CMD_DOWNLOAD_END_RESP then Download_End_Resp
      else if c = FBSEC_CO_FD_USDO_CMD_UPLOAD_INIT_RESP then Upload_Init_Resp i j n
      else if c = FBSEC_CO_FD_USDO_CMD_UPLOAD_SEG_REQ then Upload_Seg_Req k
      else if c = FBSEC_CO_FD_USDO_CMD_UPLOAD_SEG_RESP then Upload_Seg_Resp k d
      else Upload_End_Resp d)"

section \<open>Round trip\<close>

text \<open>What every decoder step starts from.\<close>

lemma decode_start:
  assumes "node_ok a" "node_ok b" "fr_can_id f = fbsec_co_fd_usdo_can_id a r"
    "3 \<le> unat (fr_len f)" "fr_payload f ! 0 = b" "fr_payload f ! 1 = c" "fr_payload f ! 2 = s"
    "cmd_is_known c"
  shows "fbsec_co_fd_usdo_decode f =
    (case decode_segmented f (pdu_init a b c s) of Some r \<Rightarrow> r
     | None \<Rightarrow> decode_multiplexed f (pdu_init a b c s))"
proof -
  have "fbsec_co_fd_frame_id_value f = fbsec_co_fd_usdo_can_id a r"
    by (simp add: fbsec_co_fd_frame_id_value_def assms(3) usdo_frame_id [OF assms(1)])
  then show ?thesis
    using assms by (simp add: fbsec_co_fd_usdo_decode_def can_id_split Let_def)
qed

definition seg_frame :: "u8 \<Rightarrow> u8 \<Rightarrow> u8 \<Rightarrow> u8 \<Rightarrow> frame" where
  "seg_frame a b c s =
     \<lparr>fr_can_id = fbsec_co_fd_usdo_can_id a (cmd_is_request c), fr_flags = 1, fr_len = 0,
      fr_payload = (replicate 64 0)[0 := b, 1 := c, 2 := s]\<rparr>"

lemma encode_seg_common_eq:
  "encode_seg_common a b c s =
     (if node_ok a \<and> node_ok b \<and> s \<noteq> 0 then Some (seg_frame a b c s) else None)"
  using can_id_split(1) [of a "cmd_is_request c"]
  by (simp add: encode_seg_common_def Let_def fbsec_co_fd_frame_init_def seg_frame_def usdo_frame_id)

lemma encode_common_eq:
  "encode_common a b c s idx j ty d n =
     (if node_ok a \<and> node_ok b \<and> s \<noteq> 0 \<and> 0x1000 \<le> idx \<and> unat n \<le> 56 \<and> (n = 0 \<or> d \<noteq> None)
      then let f = seg_frame a b c s;
               p = (fr_payload f)[3 := j, 4 := ucast idx, 5 := ucast (drop_bit 8 idx)] in
        Some (if cmd_emits_data c n
              then f\<lparr>fr_payload := (let p = p[6 := ty, 7 := ucast n] in
                       if n > 0 then put_data p 8 d (unat n) else p),
                     fr_len := of_nat (8 + unat n)\<rparr>
              else f\<lparr>fr_payload := p, fr_len := 6\<rparr>)
      else None)"
  using can_id_split(1) [of a "cmd_is_request c"]
  by (auto simp: encode_common_def Let_def fbsec_co_fd_frame_init_def seg_frame_def usdo_frame_id
      not_less word_not_simps)


lemma seg_frame_payload [simp]:
  "length (fr_payload (seg_frame a b c s)) = 64"
  "fr_payload (seg_frame a b c s) ! 0 = b"
  "fr_payload (seg_frame a b c s) ! Suc 0 = c"
  "fr_payload (seg_frame a b c s) ! 2 = s"
  by (simp_all add: seg_frame_def)

lemma seg_frame_can_id [simp]:
  "fr_can_id (seg_frame a b c s) = fbsec_co_fd_usdo_can_id a (cmd_is_request c)"
  "fr_flags (seg_frame a b c s) = 1"
  by (simp_all add: seg_frame_def)

lemma put_data_ptr: "put_data p i (Some d) (length d) = put p i d"
  by (simp add: put_data_def)

lemma can_id_flags:
  assumes "node_ok a"
  shows "fbsec_co_fd_usdo_can_id a r AND 0x40000000 = 0"
    "fbsec_co_fd_usdo_can_id a r AND 0x20000000 = 0"
proof -
  let ?i = "fbsec_co_fd_usdo_can_id a r"
  have i: "?i = ?i AND 0x1FFFFFFF" by (simp add: usdo_frame_id [OF assms])
  show "?i AND 0x40000000 = 0" "?i AND 0x20000000 = 0"
    by (subst i, simp add: and.assoc)+
qed

lemma seg_frame_valid:
  assumes "node_ok a" "fr_can_id f = fbsec_co_fd_usdo_can_id a r" "fr_flags f = 1"
    "unat (fr_len f) \<le> 64"
  shows "fbsec_co_fd_frame_validate f = VALID_OK"
proof -
  have "\<not> 0x7FF < fbsec_co_fd_usdo_can_id a r"
    using can_id_split(2) [OF assms(1), of r] by (simp add: not_less)
  then show ?thesis
    using assms by (simp add: fbsec_co_fd_frame_validate_def can_id_flags usdo_frame_id)
qed

lemma unat_of_nat_u8: "n < 256 \<Longrightarrow> unat (of_nat n :: u8) = n"
  by (simp add: unat_of_nat take_bit_nat_eq_self)

lemma of_nat_unat_u16 [simp]: "of_nat (unat (n :: u16)) = (ucast n :: u8)"
  by (simp add: unsigned_ucast_eq)

lemmas usdo_encoders =
  fbsec_co_fd_usdo_encode_download_req_def fbsec_co_fd_usdo_encode_download_resp_def
  fbsec_co_fd_usdo_encode_upload_req_def fbsec_co_fd_usdo_encode_upload_resp_def
  fbsec_co_fd_usdo_encode_abort_def fbsec_co_fd_usdo_encode_download_init_req_def
  fbsec_co_fd_usdo_encode_download_init_resp_def fbsec_co_fd_usdo_encode_download_seg_req_def
  fbsec_co_fd_usdo_encode_download_seg_resp_def fbsec_co_fd_usdo_encode_download_end_req_def
  fbsec_co_fd_usdo_encode_download_end_resp_def fbsec_co_fd_usdo_encode_upload_init_resp_def
  fbsec_co_fd_usdo_encode_upload_seg_req_def fbsec_co_fd_usdo_encode_upload_seg_resp_def
  fbsec_co_fd_usdo_encode_upload_end_resp_def
  encode_common_eq encode_init_common_def encode_seg_data_def encode_seg_end_def
  encode_seg_common_eq cmd_emits_data_def cmd_must_have_data_def Let_def

lemmas usdo_decoders =
  decode_segmented_def decode_multiplexed_def pdu_init_def cmd_must_have_data_def
  get16_def get32_def usdo_msg_of_def Let_def

definition usdo_carries :: "u8 \<Rightarrow> u8 \<Rightarrow> u8 \<Rightarrow> usdo_msg \<Rightarrow> frame \<Rightarrow> bool" where
  "usdo_carries a b s m f \<longleftrightarrow> frame_ok f \<and> fbsec_co_fd_frame_validate f = VALID_OK \<and>
     fr_can_id f = fbsec_co_fd_usdo_can_id a (cmd_is_request (msg_cmd m)) \<and>
     (\<exists>p. fbsec_co_fd_usdo_decode f = Inr p \<and> usdo_msg_of p = m \<and> pdu_cmd p = msg_cmd m \<and>
        pdu_src_node_id p = a \<and> pdu_dst_node_id p = b \<and> pdu_session p = s)"

lemma usdo_carriesI:
  fixes a b c s l :: u8 and q :: bytes
  defines "f \<equiv> (seg_frame a b c s)\<lparr>fr_payload := q, fr_len := l\<rparr>"
  assumes "node_ok a" "node_ok b" "3 \<le> unat l" "unat l \<le> 64" "length q = 64"
    "q ! 0 = b" "q ! 1 = c" "q ! 2 = s" "cmd_is_known c" "msg_cmd m = c"
    "case (case decode_segmented f (pdu_init a b c s) of Some r \<Rightarrow> r
           | None \<Rightarrow> decode_multiplexed f (pdu_init a b c s)) of
       Inl e \<Rightarrow> False
     | Inr p \<Rightarrow> usdo_msg_of p = m \<and> pdu_cmd p = c \<and> pdu_src_node_id p = a \<and> pdu_dst_node_id p = b \<and>
         pdu_session p = s"
  shows "usdo_carries a b s m f"
proof -
  have "fbsec_co_fd_frame_validate f = VALID_OK"
    by (rule seg_frame_valid [OF assms(2)]) (simp_all add: f_def assms(5))
  moreover have "fbsec_co_fd_usdo_decode f = (case decode_segmented f (pdu_init a b c s) of
      Some r \<Rightarrow> r | None \<Rightarrow> decode_multiplexed f (pdu_init a b c s))"
    by (rule decode_start [OF assms(2,3), where r = "cmd_is_request c"])
       (use assms(4-10) in \<open>simp_all add: f_def\<close>)
  ultimately show ?thesis
    using assms(6,11,12) unfolding usdo_carries_def frame_ok_def
    by (auto simp: f_def split: sum.splits)
qed


lemma usdo_carriesI_header:
  "usdo_carries a b s m ((seg_frame a b c s)\<lparr>fr_payload := fr_payload (seg_frame a b c s), fr_len := l\<rparr>)
     \<Longrightarrow> usdo_carries a b s m ((seg_frame a b c s)\<lparr>fr_len := l\<rparr>)"
  by (simp add: seg_frame_def)

lemma short_len:
  assumes "length (d :: bytes) \<le> 60"
  obtains n :: u16 where "of_nat (length d) = n" "unat n = length d" "n = 0 \<longleftrightarrow> d = []"
    "unat (ucast n :: u8) = length d" "(ucast (ucast n :: u8) :: u16) = n"
    "unat (4 + of_nat (length d) :: u8) = 4 + length d"
    "length d \<le> 56 \<longrightarrow> unat (8 + of_nat (length d) :: u8) = 8 + length d"
proof -
  have "length d < 65536" "length d < 256" using assms by simp_all
  then have n: "unat (of_nat (length d) :: u16) = length d"
    and v: "unat (of_nat (length d) :: u8) = length d"
    by (simp_all add: unat_of_nat_u16 unat_of_nat_u8)
  have u: "(ucast (of_nat (length d) :: u16) :: u8) = of_nat (length d)"
    by (metis n(1) of_nat_unat_u16)
  have "(of_nat (length d) :: u16) = 0 \<longleftrightarrow> d = []" by (metis n(1) length_0_conv unat_eq_0)
  moreover have "(ucast (ucast (of_nat (length d) :: u16) :: u8) :: u16) = of_nat (length d)"
    by (metis n u v word_unat_eq_iff unat_ucast_u8_u16)
  moreover have "unat (4 + of_nat (length d) :: u8) = 4 + length d"
    using assms by (simp add: unat_word_ariths v)
  moreover have "length d \<le> 56 \<longrightarrow> unat (8 + of_nat (length d) :: u8) = 8 + length d"
    by (simp add: unat_word_ariths v)
  ultimately show thesis using n u v that by metis
qed

lemmas usdo_steps = usdo_encoders usdo_decoders cmd_is_known_def put_data_def word_gt_0 not_less

text \<open>The frames without a data block of variable length.\<close>

lemma roundtrip_fixed:
  assumes ok: "node_ok a" "node_ok b" "s \<noteq> 0" and m: "usdo_msg_ok m"
    and c: "m \<in> {Upload_Req i j, Abort_Msg i j ac, Download_Init_Req i j n, Download_Init_Resp i j,
      Download_Seg_Req k d, Download_Seg_Resp k, Download_End_Resp, Upload_Init_Resp i j n,
      Upload_Seg_Req k, Upload_Seg_Resp k d}"
  shows "\<exists>f. usdo_encode a b s m = Some f \<and> usdo_carries a b s m f"
proof -
  have "\<exists>f. usdo_encode a b s Download_End_Resp = Some f \<and> usdo_carries a b s Download_End_Resp f"
    by (auto simp: usdo_steps ok intro!: usdo_carriesI_header usdo_carriesI)
  moreover have e: "unat n \<le> 256" if "n \<le> 256" for n :: u32 using that by (simp add: word_le_nat_alt)
  ultimately show ?thesis
    using c m by (auto simp: usdo_steps ok e intro!: usdo_carriesI)
qed

lemma roundtrip_end:
  assumes ok: "node_ok a" "node_ok b" "s \<noteq> 0" and m: "usdo_msg_ok m"
    and c: "m \<in> {Download_End_Req d, Upload_End_Resp d}"
  shows "\<exists>f. usdo_encode a b s m = Some f \<and> usdo_carries a b s m f"
proof -
  have l: "length d \<le> 60" using c m by auto
  obtain n :: u16 where n: "of_nat (length d) = n" "unat n = length d" "n = 0 \<longleftrightarrow> d = []"
    "unat (ucast n :: u8) = length d" "(ucast (ucast n :: u8) :: u16) = n"
    "unat (4 + of_nat (length d) :: u8) = 4 + length d"
    by (rule short_len [OF l])
  show ?thesis
    using c m l by (auto simp: usdo_steps ok n intro!: usdo_carriesI)
qed

lemma roundtrip_expedited:
  assumes ok: "node_ok a" "node_ok b" "s \<noteq> 0" and m: "usdo_msg_ok m"
    and c: "m \<in> {Download_Req i j d, Download_Resp i j d, Upload_Resp i j d}"
  shows "\<exists>f. usdo_encode a b s m = Some f \<and> usdo_carries a b s m f"
proof -
  have l: "length d \<le> 60" "length d \<le> 56" using c m by auto
  obtain n :: u16 where n: "of_nat (length d) = n" "unat n = length d" "n = 0 \<longleftrightarrow> d = []"
    "unat (ucast n :: u8) = length d" "(ucast (ucast n :: u8) :: u16) = n"
    "unat (4 + of_nat (length d) :: u8) = 4 + length d"
    and k: "length d \<le> 56 \<longrightarrow> unat (8 + of_nat (length d) :: u8) = 8 + length d"
    by (rule short_len [OF l(1)])
  show ?thesis
    using c m l(2) by (auto simp: usdo_steps ok n k [rule_format, OF l(2)] intro!: usdo_carriesI)
qed


lemma usdo_roundtrip_all:
  assumes ok: "node_ok a" "node_ok b" "s \<noteq> 0" and m: "usdo_msg_ok m"
  shows "\<exists>f. usdo_encode a b s m = Some f \<and> usdo_carries a b s m f"
  using roundtrip_fixed [OF ok m] roundtrip_end [OF ok m] roundtrip_expedited [OF ok m]
  by (cases m) blast+

section \<open>What the decoder reads\<close>

text \<open>
  The decoder never looks at payload bytes beyond the frame's length, so
  whatever a frame buffer still holds from an earlier frame cannot change what
  is decoded.
\<close>

lemma take_eq_nth: "take n p = take n q \<Longrightarrow> i < n \<Longrightarrow> (p :: bytes) ! i = q ! i"
  by (metis nth_take)

lemma take_eq_slice: "take n p = take n q \<Longrightarrow> i + k \<le> n \<Longrightarrow> slice p i k = slice q i k"
proof -
  assume "take n p = take n q" "i + k \<le> n"
  then have "take (i + k) p = take (i + k) q" by (metis min.absorb1 take_take)
  then show ?thesis by (simp add: slice_def take_drop add.commute)
qed

lemma decode_reads_len:
  assumes p: "take (unat (fr_len f)) q = take (unat (fr_len f)) (fr_payload f)"
  shows "fbsec_co_fd_usdo_decode (f\<lparr>fr_payload := q\<rparr>) = fbsec_co_fd_usdo_decode f"
proof -
  have n: "q ! i = fr_payload f ! i" if "i < unat (fr_len f)" for i
    using take_eq_nth [OF p that] .
  have sl: "slice q i k = slice (fr_payload f) i k" if "i + k \<le> unat (fr_len f)" for i k
    using take_eq_slice [OF p that] .
  have seg: "decode_segmented (f\<lparr>fr_payload := q\<rparr>) u = decode_segmented f u" for u
    by (auto simp: decode_segmented_def Let_def n sl get16_def)
  have mux: "decode_multiplexed (f\<lparr>fr_payload := q\<rparr>) u = decode_multiplexed f u" for u
    by (auto simp: decode_multiplexed_def Let_def n sl get16_def get32_def)
  show ?thesis
    by (simp add: fbsec_co_fd_usdo_decode_def seg mux n Let_def fbsec_co_fd_frame_id_value_def
        cong: option.case_cong split: prod.split)
qed

text \<open>What an accepted PDU satisfies.\<close>

definition pdu_ok :: "pdu \<Rightarrow> bool" where
  "pdu_ok p \<longleftrightarrow> node_ok (pdu_src_node_id p) \<and> node_ok (pdu_dst_node_id p) \<and>
     cmd_is_known (pdu_cmd p) \<and>
     unat (pdu_data_len p) = length (case pdu_data p of None \<Rightarrow> [] | Some d \<Rightarrow> d) \<and>
     unat (pdu_data_len p) \<le> 60 \<and> unat (pdu_total_size p) \<le> 256 \<and>
     (pdu_mux_valid p \<longrightarrow> pdu_cmd p \<noteq> FBSEC_CO_FD_USDO_CMD_ABORT \<longrightarrow> 0x1000 \<le> pdu_index p)"

lemma split_node_ok:
  "fbsec_co_fd_usdo_can_id_split i = (n, k, True) \<Longrightarrow> node_ok n"
  by (auto simp: fbsec_co_fd_usdo_can_id_split_def Let_def node_ok_def split: if_splits)

lemma decode_segmented_ok:
  assumes "decode_segmented f (pdu_init a b c s) = Some (Inr p)" "node_ok a" "node_ok b"
    "cmd_is_known c" "frame_ok f" "unat (fr_len f) \<le> 64"
  shows "pdu_ok p"
  using assms
  by (auto simp: decode_segmented_def pdu_init_def Let_def pdu_ok_def frame_ok_def split: if_splits)

lemma decode_multiplexed_ok:
  assumes "decode_multiplexed f (pdu_init a b c s) = Inr p" "node_ok a" "node_ok b"
    "cmd_is_known c" "frame_ok f" "unat (fr_len f) \<le> 64"
  shows "pdu_ok p"
  using assms
  by (auto simp: decode_multiplexed_def pdu_init_def Let_def pdu_ok_def frame_ok_def not_less
      word_le_nat_alt split: if_splits)

lemma decode_ok:
  assumes "fbsec_co_fd_usdo_decode f = Inr p" "frame_ok f" "unat (fr_len f) \<le> 64"
  shows "pdu_ok p"
proof -
  obtain a k u where sp: "fbsec_co_fd_usdo_can_id_split (fbsec_co_fd_frame_id_value f) = (a, k, u)"
    by (metis prod_cases3)
  have u: u using assms(1) by (auto simp: fbsec_co_fd_usdo_decode_def sp split: if_splits)
  have a: "node_ok a" using sp u split_node_ok by auto
  let ?i = "pdu_init a (fr_payload f ! 0) (fr_payload f ! 1) (fr_payload f ! 2)"
  have b: "node_ok (fr_payload f ! 0)" and c: "cmd_is_known (fr_payload f ! 1)"
    and r: "(case decode_segmented f ?i of Some r \<Rightarrow> r | None \<Rightarrow> decode_multiplexed f ?i) = Inr p"
    using assms(1) u by (auto simp: fbsec_co_fd_usdo_decode_def sp Let_def cong: option.case_cong split: if_splits)
  show ?thesis
  proof (cases "decode_segmented f ?i")
    case None
    then show ?thesis using r decode_multiplexed_ok [OF _ a b c assms(2,3)] by simp
  next
    case (Some r')
    then show ?thesis using r decode_segmented_ok [OF _ a b c assms(2,3)] by simp
  qed
qed

section \<open>What the encoders refuse\<close>

text \<open>
  The C contract of the encoders: a length that fits in 16 bits, and a segment
  buffer of the full segment size.
\<close>

fun usdo_args_ok :: "usdo_msg \<Rightarrow> bool" where
  "usdo_args_ok (Download_Req i j d) \<longleftrightarrow> length d < 65536"
| "usdo_args_ok (Download_Resp i j d) \<longleftrightarrow> length d < 65536"
| "usdo_args_ok (Upload_Resp i j d) \<longleftrightarrow> length d < 65536"
| "usdo_args_ok (Download_End_Req d) \<longleftrightarrow> length d < 65536"
| "usdo_args_ok (Upload_End_Resp d) \<longleftrightarrow> length d < 65536"
| "usdo_args_ok (Download_Seg_Req k d) \<longleftrightarrow> length d = 60"
| "usdo_args_ok (Upload_Seg_Resp k d) \<longleftrightarrow> length d = 60"
| "usdo_args_ok _ \<longleftrightarrow> True"

lemma of_nat_len_zero: "length (d :: bytes) < 65536 \<Longrightarrow> (of_nat (length d) :: u16) = 0 \<longleftrightarrow> d = []"
  by (metis length_0_conv unat_eq_0 unat_of_nat_u16)

lemma unat_le_256: "n \<le> 256 \<longleftrightarrow> unat n \<le> 256" for n :: u32
  by (simp add: word_le_nat_alt)

lemma usdo_encode_refuses:
  assumes "usdo_encode a b s m = Some f" "usdo_args_ok m"
  shows "node_ok a \<and> node_ok b \<and> s \<noteq> 0 \<and> usdo_msg_ok m"
  using assms
  by (cases m)
     (auto simp: usdo_encoders unat_of_nat_u16 of_nat_len_zero not_less unat_le_256 word_gt_0
        split: if_splits)

end
