(* ===== verification/Co_Fd_Server.thy ===== *)
theory Co_Fd_Server
  imports Co_Fd_Usdo Server_Run
begin

text \<open>
  The CANopen FD server (\<open>variants/canopen_fd/server/fbsec_co_fd_server.c\<close>):
  what one received frame does. A frame is decoded, filtered by kind and node,
  and then handled by the segmented-download reassembly, the segmented upload,
  or the dispatch of the reference server, whose reply becomes a USDO response,
  an abort, or the start of a segmented upload. The result is the list of
  frames handed to the carrier, in order, and the new state; whether the
  carrier delivers them does not change the state. Argument parsing and the
  receive loop are in \<open>Server_Main\<close>, the state lines in \<open>Console\<close>.
\<close>

section \<open>State\<close>

abbreviation (input) SERVER_SEG_ABORT_INDEX :: u16 where "SERVER_SEG_ABORT_INDEX \<equiv> 0x1000"

record segdl =
  dl_active :: bool
  dl_src :: u8
  dl_session :: u8
  dl_sub :: u8
  dl_index :: u16
  dl_counter :: u8
  dl_total :: u16
  dl_have :: u16
  dl_buf :: bytes

record segul =
  ul_active :: bool
  ul_dst :: u8
  ul_session :: u8
  ul_total :: u16
  ul_sent :: u16
  ul_counter :: u8
  ul_buf :: bytes

record co_fd =
  g_node_id :: u8
  g_segdl :: segdl
  g_segul :: segul

text \<open>The addressing a reply needs (\<open>request_ctx_t\<close>).\<close>

record request_ctx =
  rc_src_node_id :: u8
  rc_req_cmd :: u8
  rc_session :: u8
  rc_index :: u16
  rc_subindex :: u8

text \<open>Frames out and the new state of the transport.\<close>

type_synonym out = "frame list \<times> co_fd"

definition opt_list :: "'a option \<Rightarrow> 'a list" where
  "opt_list x = (case x of None \<Rightarrow> [] | Some y \<Rightarrow> [y])"

section \<open>Segmented transfers\<close>

definition server_seg_abort :: "u8 \<Rightarrow> u8 \<Rightarrow> u16 \<Rightarrow> u8 \<Rightarrow> abort \<Rightarrow> co_fd \<Rightarrow> out" where
  "server_seg_abort peer session idx subindex code c =
     (opt_list (fbsec_co_fd_usdo_encode_abort (g_node_id c) peer session idx subindex code),
      c\<lparr>g_segdl := (g_segdl c)\<lparr>dl_active := False\<rparr>, g_segul := (g_segul c)\<lparr>ul_active := False\<rparr>\<rparr>)"

definition server_seg_download_init :: "pdu \<Rightarrow> co_fd \<Rightarrow> out" where
  "server_seg_download_init p c =
     (if unat (pdu_total_size p) > FBSEC_CO_FD_USDO_SEG_BODY_MAX then
        server_seg_abort (pdu_src_node_id p) (pdu_session p) (pdu_index p) (pdu_subindex p)
          FBSEC_ABORT_LEN_TOO_HIGH c
      else
        (opt_list (fbsec_co_fd_usdo_encode_download_init_resp (g_node_id c) (pdu_src_node_id p)
                     (pdu_session p) (pdu_index p) (pdu_subindex p)),
         c\<lparr>g_segdl := (g_segdl c)\<lparr>dl_active := True, dl_src := pdu_src_node_id p,
             dl_session := pdu_session p, dl_index := pdu_index p, dl_sub := pdu_subindex p,
             dl_counter := 0, dl_total := ucast (pdu_total_size p), dl_have := 0\<rparr>\<rparr>))"

definition server_seg_download_matches :: "pdu \<Rightarrow> co_fd \<Rightarrow> bool" where
  "server_seg_download_matches p c \<longleftrightarrow>
     dl_active (g_segdl c) \<and> pdu_src_node_id p = dl_src (g_segdl c) \<and>
     pdu_session p = dl_session (g_segdl c)"

text \<open>The flag says that the body is complete.\<close>

definition server_seg_download_feed :: "pdu \<Rightarrow> co_fd \<Rightarrow> bool \<times> out" where
  "server_seg_download_feed p c =
     (let last = (pdu_cmd p = FBSEC_CO_FD_USDO_CMD_DOWNLOAD_END_REQ); d = g_segdl c;
          seg_abort = (\<lambda>idx sub code. (False,
            server_seg_abort (pdu_src_node_id p) (pdu_session p) idx sub code c)) in
      if \<not> server_seg_download_matches p c then
        seg_abort SERVER_SEG_ABORT_INDEX 0 FBSEC_ABORT_SESSION_ID
      else if \<not> last \<and> pdu_counter p \<noteq> dl_counter d then
        seg_abort (dl_index d) (dl_sub d) FBSEC_ABORT_SEG_COUNTER
      else if unat (dl_have d) + unat (pdu_data_len p) > unat (dl_total d) then
        seg_abort (dl_index d) (dl_sub d) FBSEC_ABORT_DATA_SIZE
      else
        let buf = (if pdu_data_len p > 0
                   then put_data (dl_buf d) (unat (dl_have d)) (pdu_data p) (unat (pdu_data_len p))
                   else dl_buf d);
            d = d\<lparr>dl_buf := buf, dl_have := dl_have d + pdu_data_len p\<rparr>
        in if \<not> last then
             (False,
              opt_list (fbsec_co_fd_usdo_encode_download_seg_resp (g_node_id c) (pdu_src_node_id p)
                          (pdu_session p) (dl_counter d)),
              c\<lparr>g_segdl := d\<lparr>dl_counter := dl_counter d + 1\<rparr>\<rparr>)
           else if dl_have d \<noteq> dl_total d then
             (False,
              server_seg_abort (pdu_src_node_id p) (pdu_session p) (dl_index d) (dl_sub d)
                FBSEC_ABORT_DATA_SIZE (c\<lparr>g_segdl := d\<rparr>))
           else (True, [], c\<lparr>g_segdl := d\<rparr>))"

definition server_seg_upload_serve :: "pdu \<Rightarrow> co_fd \<Rightarrow> out" where
  "server_seg_upload_serve p c =
     (let u = g_segul c in
      if \<not> ul_active u \<or> pdu_src_node_id p \<noteq> ul_dst u \<or> pdu_session p \<noteq> ul_session u then
        server_seg_abort (pdu_src_node_id p) (pdu_session p) SERVER_SEG_ABORT_INDEX 0
          FBSEC_ABORT_SESSION_ID c
      else if pdu_counter p \<noteq> ul_counter u then
        server_seg_abort (pdu_src_node_id p) (pdu_session p) SERVER_SEG_ABORT_INDEX 0
          FBSEC_ABORT_SEG_COUNTER c
      else let remaining = ul_total u - ul_sent u in
        if unat remaining > FBSEC_CO_FD_USDO_SEG_DATA_MAX then
          (opt_list (fbsec_co_fd_usdo_encode_upload_seg_resp (g_node_id c) (ul_dst u) (ul_session u)
                       (ul_counter u) (Some (drop (unat (ul_sent u)) (ul_buf u)))),
           c\<lparr>g_segul := u\<lparr>ul_sent := ul_sent u + of_nat FBSEC_CO_FD_USDO_SEG_DATA_MAX,
                         ul_counter := ul_counter u + 1\<rparr>\<rparr>)
        else
          (opt_list (fbsec_co_fd_usdo_encode_upload_end_resp (g_node_id c) (ul_dst u) (ul_session u)
                       (Some (drop (unat (ul_sent u)) (ul_buf u))) remaining),
           c\<lparr>g_segul := u\<lparr>ul_active := False\<rparr>\<rparr>))"

section \<open>Replies\<close>

definition send_reply_cb :: "request_ctx \<Rightarrow> abort \<Rightarrow> bytes \<Rightarrow> co_fd \<Rightarrow> out" where
  "send_reply_cb x status data c =
     (let data_len = of_nat (length data) :: u16; node = g_node_id c; dst = rc_src_node_id x;
          session = rc_session x; idx = rc_index x; sub = rc_subindex x in
      if status = FBSEC_ABORT_NONE \<and> unat data_len > FBSEC_CO_FD_USDO_DATA_MAX then
        (if unat data_len > FBSEC_CO_FD_USDO_SEG_BODY_MAX then ([], c)
         else
           (opt_list (fbsec_co_fd_usdo_encode_upload_init_resp node dst session idx sub (ucast data_len)),
            c\<lparr>g_segul := (g_segul c)\<lparr>ul_buf := put (ul_buf (g_segul c)) 0 data,
                ul_total := data_len, ul_sent := 0, ul_counter := 0,
                ul_session := session, ul_dst := dst, ul_active := True\<rparr>\<rparr>))
      else
        (opt_list
          (if status \<noteq> FBSEC_ABORT_NONE then
             fbsec_co_fd_usdo_encode_abort node dst session idx sub status
           else if rc_req_cmd x = FBSEC_CO_FD_USDO_CMD_DOWNLOAD_REQ then
             fbsec_co_fd_usdo_encode_download_resp node dst session idx sub (Some data) data_len
           else if rc_req_cmd x = FBSEC_CO_FD_USDO_CMD_DOWNLOAD_END_REQ then
             fbsec_co_fd_usdo_encode_download_end_resp node dst session
           else if rc_req_cmd x = FBSEC_CO_FD_USDO_CMD_UPLOAD_REQ then
             fbsec_co_fd_usdo_encode_upload_resp node dst session idx sub (Some data) data_len
           else fbsec_co_fd_usdo_encode_abort node dst session idx sub FBSEC_ABORT_BAD_CMD),
         c))"

section \<open>One frame\<close>

definition dispatch_and_reply ::
  "ed25519 \<Rightarrow> gcm \<Rightarrow> 'e platform \<Rightarrow> request_ctx \<Rightarrow> bytes \<Rightarrow> co_fd \<Rightarrow> 'e srv \<Rightarrow>
   frame list \<times> co_fd \<times> 'e srv" where
  "dispatch_and_reply E g F x payload c s =
     (case fbsec_server_dispatch_request E g F (ucast (rc_src_node_id x))
             (fbsec_co_fd_data_id_from_index_sub (rc_index x) (rc_subindex x)) payload s of
        ((status, data), s1) \<Rightarrow>
          (case send_reply_cb x status data c of (out, c1) \<Rightarrow> (out, c1, s1)))"

text \<open>The body of the receive loop for a frame the carrier delivered.\<close>

definition run_dispatch_frame ::
  "ed25519 \<Rightarrow> gcm \<Rightarrow> 'e platform \<Rightarrow> frame \<Rightarrow> co_fd \<Rightarrow> 'e srv \<Rightarrow> frame list \<times> co_fd \<times> 'e srv" where
  "run_dispatch_frame E g F f c s =
     (case fbsec_co_fd_usdo_decode f of
        Inl e \<Rightarrow> ([], c, s)
      | Inr p \<Rightarrow>
          (case fbsec_co_fd_usdo_can_id_split (fbsec_co_fd_frame_id_value f) of (sender, kind, u) \<Rightarrow>
           if kind \<noteq> USDO_KIND_REQUEST then ([], c, s)
           else if pdu_dst_node_id p \<noteq> g_node_id c then ([], c, s)
           else if pdu_cmd p = FBSEC_CO_FD_USDO_CMD_DOWNLOAD_INIT_REQ then
             (case server_seg_download_init p c of (out, c1) \<Rightarrow> (out, c1, s))
           else if pdu_cmd p = FBSEC_CO_FD_USDO_CMD_DOWNLOAD_SEG_REQ \<or>
                   pdu_cmd p = FBSEC_CO_FD_USDO_CMD_DOWNLOAD_END_REQ then
             (case server_seg_download_feed p c of (complete, out, c1) \<Rightarrow>
                if \<not> complete then (out, c1, s)
                else let d = g_segdl c1;
                         x = \<lparr>rc_src_node_id = dl_src d,
                              rc_req_cmd = FBSEC_CO_FD_USDO_CMD_DOWNLOAD_END_REQ,
                              rc_session = dl_session d, rc_index = dl_index d,
                              rc_subindex = dl_sub d\<rparr>
                  in (case dispatch_and_reply E g F x (take (unat (dl_total d)) (dl_buf d)) c1 s of
                        (out', c2, s1) \<Rightarrow>
                          (out @ out', c2\<lparr>g_segdl := (g_segdl c2)\<lparr>dl_active := False\<rparr>\<rparr>, s1)))
           else if pdu_cmd p = FBSEC_CO_FD_USDO_CMD_UPLOAD_SEG_REQ then
             (case server_seg_upload_serve p c of (out, c1) \<Rightarrow> (out, c1, s))
           else
             dispatch_and_reply E g F
               \<lparr>rc_src_node_id = pdu_src_node_id p, rc_req_cmd = pdu_cmd p,
                rc_session = pdu_session p, rc_index = pdu_index p,
                rc_subindex = pdu_subindex p\<rparr>
               (case pdu_data p of None \<Rightarrow> [] | Some d \<Rightarrow> take (unat (pdu_data_len p)) d) c s))"

text \<open>A sequence of received frames; the frames sent, in order.\<close>

fun run_frames ::
  "ed25519 \<Rightarrow> gcm \<Rightarrow> 'e platform \<Rightarrow> frame list \<Rightarrow> co_fd \<Rightarrow> 'e srv \<Rightarrow> frame list \<times> co_fd \<times> 'e srv" where
  "run_frames E g F [] c s = ([], c, s)"
| "run_frames E g F (f # fs) c s =
     (case run_dispatch_frame E g F f c s of (out, c1, s1) \<Rightarrow>
        (case run_frames E g F fs c1 s1 of (out', c2, s2) \<Rightarrow> (out @ out', c2, s2)))"

end
