(* ===== verification/Co_Fd_Server_Props.thy ===== *)
theory Co_Fd_Server_Props
  imports Co_Fd_Server Server_Replies
begin

text \<open>
  Properties of the CANopen FD server: its buffers never overflow, a segmented
  download hands the reference server exactly the body the client sent, once,
  and acknowledges every segment, and a parked reply is served back in segments
  that concatenate to it.
\<close>

section \<open>Invariant of the transport\<close>

definition co_fd_wf :: "co_fd \<Rightarrow> bool" where
  "co_fd_wf c \<longleftrightarrow>
     length (dl_buf (g_segdl c)) = 256 \<and> unat (dl_total (g_segdl c)) \<le> 256 \<and>
     dl_have (g_segdl c) \<le> dl_total (g_segdl c) \<and>
     length (ul_buf (g_segul c)) = 256 \<and> unat (ul_total (g_segul c)) \<le> 256 \<and>
     ul_sent (g_segul c) \<le> ul_total (g_segul c)"

lemma seg_abort_wf: "co_fd_wf c \<Longrightarrow> co_fd_wf (snd (server_seg_abort p ses i j ac c))"
  by (simp add: co_fd_wf_def server_seg_abort_def)

lemma length_put_data:
  "i + n \<le> length p \<Longrightarrow> length (put_data p i d n) = length p"
  by (auto simp: put_data_def put_def split: option.split)

lemma unat_add_u16: "unat (a :: u16) + unat b \<le> 256 \<Longrightarrow> unat (a + b) = unat a + unat b"
  by (simp add: unat_word_ariths)

lemma unat_ucast_u32_u16: "unat (x :: u32) \<le> 256 \<Longrightarrow> unat (ucast x :: u16) = unat x"
  by (simp add: unsigned_ucast_eq take_bit_nat_eq_self)

lemma download_init_wf:
  assumes "co_fd_wf c"
  shows "co_fd_wf (snd (server_seg_download_init p c))"
  using assms seg_abort_wf [OF assms]
  by (simp add: server_seg_download_init_def co_fd_wf_def unat_ucast_u32_u16 word_le_nat_alt)

lemma download_feed_wf:
  assumes "co_fd_wf c"
  shows "co_fd_wf (snd (snd (server_seg_download_feed p c)))"
proof -
  let ?d = "g_segdl c"
  show ?thesis
  proof (cases "unat (dl_have ?d) + unat (pdu_data_len p) \<le> unat (dl_total ?d)")
    case True
    then have h: "unat (dl_have ?d + pdu_data_len p) = unat (dl_have ?d) + unat (pdu_data_len p)"
      using assms by (intro unat_add_u16) (simp add: co_fd_wf_def)
    have b: "length (put_data (dl_buf ?d) (unat (dl_have ?d)) x (unat (pdu_data_len p))) = 256" for x
      using assms True by (subst length_put_data) (simp_all add: co_fd_wf_def)
    show ?thesis
      using assms True seg_abort_wf h b
      by (simp add: server_seg_download_feed_def Let_def)
         (simp add: co_fd_wf_def word_le_nat_alt server_seg_abort_def)
  next
    case False
    then show ?thesis
      using assms seg_abort_wf [OF assms] by (simp add: server_seg_download_feed_def Let_def)
  qed
qed

lemma upload_serve_wf:
  assumes "co_fd_wf c"
  shows "co_fd_wf (snd (server_seg_upload_serve p c))"
proof -
  let ?u = "g_segul c"
  have w: "ul_sent ?u \<le> ul_total ?u" "unat (ul_total ?u) \<le> 256" using assms by (auto simp: co_fd_wf_def)
  then have r: "unat (ul_total ?u - ul_sent ?u) = unat (ul_total ?u) - unat (ul_sent ?u)"
    by (simp add: unat_sub_if_size word_le_nat_alt)
  have "unat (ul_sent ?u + 60) = unat (ul_sent ?u) + 60"
    if "60 < unat (ul_total ?u - ul_sent ?u)"
    using that r w unat_add_u16 [of "ul_sent ?u" 60] by simp
  then show ?thesis
    using assms w r seg_abort_wf [OF assms]
    by (auto simp: server_seg_upload_serve_def Let_def co_fd_wf_def word_le_nat_alt)
qed

lemma send_reply_wf:
  assumes "co_fd_wf c" "length data < 65536"
  shows "co_fd_wf (snd (send_reply_cb x st data c))"
  using assms
  by (auto simp: send_reply_cb_def Let_def co_fd_wf_def unat_of_nat_u16)

section \<open>Request frames\<close>

text \<open>The commands that never carry data.\<close>

lemma decode_plain:
  assumes "fbsec_co_fd_usdo_decode f = Inr p"
    "pdu_cmd p \<in> {FBSEC_CO_FD_USDO_CMD_UPLOAD_REQ, FBSEC_CO_FD_USDO_CMD_DOWNLOAD_INIT_RESP,
      FBSEC_CO_FD_USDO_CMD_UPLOAD_INIT_RESP, FBSEC_CO_FD_USDO_CMD_DOWNLOAD_SEG_RESP,
      FBSEC_CO_FD_USDO_CMD_DOWNLOAD_END_RESP, FBSEC_CO_FD_USDO_CMD_ABORT}"
  shows "pdu_data p = None \<and> pdu_data_len p = 0"
proof -
  let ?i = "\<lambda>a. pdu_init a (fr_payload f ! 0) (fr_payload f ! 1) (fr_payload f ! 2)"
  obtain a where r: "(case decode_segmented f (?i a) of Some r \<Rightarrow> r
      | None \<Rightarrow> decode_multiplexed f (?i a)) = Inr p"
    using assms(1)
    by (auto simp: fbsec_co_fd_usdo_decode_def Let_def cong: option.case_cong split: if_splits prod.splits)
  show ?thesis
  proof (cases "decode_segmented f (?i a)")
    case None
    with r assms(2) show ?thesis
      by (auto simp: decode_multiplexed_def pdu_init_def Let_def cmd_must_have_data_def split: if_splits)
  next
    case (Some r')
    with r assms(2) show ?thesis
      by (auto simp: decode_segmented_def pdu_init_def Let_def split: if_splits)
  qed
qed

text \<open>What the receive loop sees of a frame that carries a request for this node.\<close>

lemma request_frame:
  assumes f: "usdo_carries a b ses m f" and r: "cmd_is_request (msg_cmd m)" and a: "node_ok a"
  obtains p where "fbsec_co_fd_usdo_decode f = Inr p" "usdo_msg_of p = m" "pdu_cmd p = msg_cmd m"
    "pdu_src_node_id p = a" "pdu_dst_node_id p = b" "pdu_session p = ses"
    "fbsec_co_fd_usdo_can_id_split (fbsec_co_fd_frame_id_value f) = (a, USDO_KIND_REQUEST, True)"
    "unat (pdu_data_len p) = length (case pdu_data p of None \<Rightarrow> [] | Some d \<Rightarrow> d)"
proof -
  obtain p where p: "fbsec_co_fd_usdo_decode f = Inr p" "usdo_msg_of p = m" "pdu_cmd p = msg_cmd m"
    "pdu_src_node_id p = a" "pdu_dst_node_id p = b" "pdu_session p = ses"
    and v: "frame_ok f" "fbsec_co_fd_frame_validate f = VALID_OK"
      "fr_can_id f = fbsec_co_fd_usdo_can_id a True"
    using f r by (auto simp: usdo_carries_def)
  have "fbsec_co_fd_frame_id_value f = fbsec_co_fd_usdo_can_id a True"
    by (simp add: fbsec_co_fd_frame_id_value_def v(3) usdo_frame_id [OF a])
  then have k: "fbsec_co_fd_usdo_can_id_split (fbsec_co_fd_frame_id_value f)
      = (a, USDO_KIND_REQUEST, True)" using can_id_split(3) [OF a, of True] by simp
  have "unat (fr_len f) \<le> 64"
    using v(2) by (auto simp: fbsec_co_fd_frame_validate_def split: if_splits)
  then have "pdu_ok p" by (rule decode_ok [OF p(1) v(1)])
  then show thesis using that [OF p k] by (simp add: pdu_ok_def)
qed

text \<open>The parts of a decoded request that its handler reads.\<close>

lemma msg_parts:
  assumes "usdo_msg_of p = m" "pdu_cmd p = msg_cmd m"
  shows "m = Download_Init_Req i j n \<Longrightarrow>
      pdu_index p = i \<and> pdu_subindex p = j \<and> pdu_total_size p = n"
    "m = Download_Seg_Req k d \<Longrightarrow>
      pdu_counter p = k \<and> (case pdu_data p of None \<Rightarrow> [] | Some d \<Rightarrow> d) = d"
    "m = Download_End_Req d \<Longrightarrow> (case pdu_data p of None \<Rightarrow> [] | Some d \<Rightarrow> d) = d"
    "m = Upload_Seg_Req k \<Longrightarrow> pdu_counter p = k"
    "m = Upload_Req i j \<Longrightarrow> pdu_index p = i \<and> pdu_subindex p = j"
    "m = Download_Req i j d \<Longrightarrow> pdu_index p = i \<and> pdu_subindex p = j \<and>
      (case pdu_data p of None \<Rightarrow> [] | Some d \<Rightarrow> d) = d"
  using assms by (auto simp: usdo_msg_of_def Let_def)

lemma put_data_self:
  "unat n = length (case x of None \<Rightarrow> [] | Some d \<Rightarrow> d) \<Longrightarrow>
   put_data p i x (unat n) = put p i (case x of None \<Rightarrow> [] | Some d \<Rightarrow> d)"
  by (simp add: put_data_def)

text \<open>An encoded message reaches the peer as that message.\<close>

lemma sent_carries:
  assumes "usdo_encode a b ses m = x" "node_ok a" "node_ok b" "ses \<noteq> 0" "usdo_msg_ok m"
  shows "\<exists>f. x = Some f \<and> usdo_carries a b ses m f"
  using usdo_roundtrip_all [OF assms(2-5)] assms(1) by auto

section \<open>Replies\<close>

text \<open>The message that answers a request, if any.\<close>

definition reply_msg :: "request_ctx \<Rightarrow> abort \<Rightarrow> bytes \<Rightarrow> usdo_msg option" where
  "reply_msg x status data =
     (let i = rc_index x; j = rc_subindex x in
      if status \<noteq> FBSEC_ABORT_NONE then Some (Abort_Msg i j status)
      else if length data > FBSEC_CO_FD_USDO_SEG_BODY_MAX then None
      else if length data > FBSEC_CO_FD_USDO_DATA_MAX then
        Some (Upload_Init_Resp i j (of_nat (length data)))
      else if rc_req_cmd x = FBSEC_CO_FD_USDO_CMD_DOWNLOAD_REQ then Some (Download_Resp i j data)
      else if rc_req_cmd x = FBSEC_CO_FD_USDO_CMD_DOWNLOAD_END_REQ then Some Download_End_Resp
      else if rc_req_cmd x = FBSEC_CO_FD_USDO_CMD_UPLOAD_REQ then Some (Upload_Resp i j data)
      else Some (Abort_Msg i j FBSEC_ABORT_BAD_CMD))"

lemma encode_common_ptr:
  "encode_common a b k s i j ty (Some data) (of_nat (length data)) =
   encode_common a b k s i j ty (ptr data) (of_nat (length data))"
  by (cases data) (simp_all add: encode_common_eq Let_def)

lemma ucast_len_u32: "length (d :: bytes) < 65536 \<Longrightarrow> (ucast (of_nat (length d) :: u16) :: u32) = of_nat (length d)"
  by (simp add: unat_of_nat_u16 word_unat_eq_iff unat_of_nat take_bit_nat_eq_self)

lemma unat_len_u32: "length (d :: bytes) < 65536 \<Longrightarrow> unat (of_nat (length d) :: u32) = length d"
  by (simp add: unat_of_nat take_bit_nat_eq_self)

lemma reply_msg_ok:
  "reply_msg x st data = Some m \<Longrightarrow> 0x1000 \<le> rc_index x \<Longrightarrow> usdo_msg_ok m"
  by (auto simp: reply_msg_def Let_def word_le_nat_alt unat_len_u32 word_less_nat_alt split: if_splits)

lemma send_reply_encodes:
  assumes "length data < 65536"
  shows "fst (send_reply_cb x st data c) =
     (case reply_msg x st data of None \<Rightarrow> []
      | Some m \<Rightarrow> opt_list (usdo_encode (g_node_id c) (rc_src_node_id x) (rc_session x) m))"
  using assms
  by (simp add: send_reply_cb_def reply_msg_def Let_def unat_of_nat_u16 ucast_len_u32
      fbsec_co_fd_usdo_encode_download_resp_def fbsec_co_fd_usdo_encode_upload_resp_def
      encode_common_ptr)

lemma send_reply_carries:
  assumes "length data < 65536" "0x1000 \<le> rc_index x" "rc_session x \<noteq> 0"
    "node_ok (g_node_id c)" "node_ok (rc_src_node_id x)"
  shows "list_all2 (usdo_carries (g_node_id c) (rc_src_node_id x) (rc_session x))
     (opt_list (reply_msg x st data)) (fst (send_reply_cb x st data c))"
proof (cases "reply_msg x st data")
  case (Some m)
  then obtain f where "usdo_encode (g_node_id c) (rc_src_node_id x) (rc_session x) m = Some f"
    "usdo_carries (g_node_id c) (rc_src_node_id x) (rc_session x) m f"
    using sent_carries [OF refl assms(4,5,3) reply_msg_ok [OF Some assms(2)]] by blast
  then show ?thesis using assms(1) Some by (simp add: send_reply_encodes opt_list_def)
qed (simp add: send_reply_encodes opt_list_def assms(1))

section \<open>Segmented download\<close>

text \<open>The messages of a segmented transfer of a body, after the initiate message.\<close>

fun seg_reqs :: "u8 \<Rightarrow> bytes \<Rightarrow> usdo_msg list" where
  "seg_reqs k d =
     (if length d > FBSEC_CO_FD_USDO_SEG_DATA_MAX
      then Download_Seg_Req k (take FBSEC_CO_FD_USDO_SEG_DATA_MAX d) #
           seg_reqs (k + 1) (drop FBSEC_CO_FD_USDO_SEG_DATA_MAX d)
      else [Download_End_Req d])"

text \<open>The acknowledgements before the final reply.\<close>

fun seg_acks :: "u8 \<Rightarrow> bytes \<Rightarrow> usdo_msg list" where
  "seg_acks k d =
     (if length d > FBSEC_CO_FD_USDO_SEG_DATA_MAX
      then Download_Seg_Resp k # seg_acks (k + 1) (drop FBSEC_CO_FD_USDO_SEG_DATA_MAX d)
      else [])"

declare seg_reqs.simps [simp del] seg_acks.simps [simp del]

text \<open>The reassembly slot holds the first \<open>h\<close> bytes of \<open>body\<close>, announced by \<open>a\<close> for \<open>i:j\<close>.\<close>

definition reassembling ::
  "co_fd \<Rightarrow> u8 \<Rightarrow> u8 \<Rightarrow> u16 \<Rightarrow> u8 \<Rightarrow> bytes \<Rightarrow> u8 \<Rightarrow> nat \<Rightarrow> bool" where
  "reassembling c a ses i j body k h \<longleftrightarrow>
     (let d = g_segdl c in
      dl_active d \<and> dl_src d = a \<and> dl_session d = ses \<and> dl_index d = i \<and> dl_sub d = j \<and>
      dl_counter d = k \<and> unat (dl_total d) = length body \<and> unat (dl_have d) = h \<and>
      h \<le> length body \<and> length body \<le> 256 \<and> length (dl_buf d) = 256 \<and>
      take h (dl_buf d) = take h body)"

definition seg_ctx :: "u8 \<Rightarrow> u8 \<Rightarrow> u8 \<Rightarrow> u16 \<Rightarrow> u8 \<Rightarrow> request_ctx" where
  "seg_ctx a cmd ses i j = \<lparr>rc_src_node_id = a, rc_req_cmd = cmd, rc_session = ses,
     rc_index = i, rc_subindex = j\<rparr>"

lemma take_put: "i \<le> length p \<Longrightarrow> take (i + length bs) (put p i bs) = take i p @ bs"
  by (simp add: put_def)

lemma take_append_body:
  "take h q = take h body \<Longrightarrow> d = take n (drop h body) \<Longrightarrow> take h q @ d = take (h + n) body"
  by (simp add: take_add)

lemma feed_segment:
  assumes r: "reassembling c a ses i j body k h"
    and p: "pdu_cmd p = FBSEC_CO_FD_USDO_CMD_DOWNLOAD_SEG_REQ" "pdu_src_node_id p = a"
      "pdu_session p = ses" "pdu_counter p = k"
      "(case pdu_data p of None \<Rightarrow> [] | Some d \<Rightarrow> d) = take 60 (drop h body)"
      "unat (pdu_data_len p) = length (case pdu_data p of None \<Rightarrow> [] | Some d \<Rightarrow> d)"
    and more: "60 < length (drop h body)"
  shows "\<exists>c'. server_seg_download_feed p c = (False,
      opt_list (usdo_encode (g_node_id c) a ses (Download_Seg_Resp k)), c') \<and>
    reassembling c' a ses i j body (k + 1) (h + 60) \<and> g_node_id c' = g_node_id c \<and>
    g_segul c' = g_segul c"
proof -
  have n: "unat (pdu_data_len p) = 60" using p(5,6) more by simp
  have h: "h + 60 \<le> length body" "h \<le> 256" using more r by (auto simp: reassembling_def Let_def)
  have s: "unat (dl_have (g_segdl c) + pdu_data_len p) = h + 60"
    using r n h unat_add_u16 [of "dl_have (g_segdl c)" "pdu_data_len p"]
    by (simp add: reassembling_def Let_def)
  let ?q = "put (dl_buf (g_segdl c)) h (take 60 (drop h body))"
  have "take (h + 60) ?q = take (h + 60) body"
    using take_put [of h "dl_buf (g_segdl c)" "take 60 (drop h body)"] h r
      take_append_body [of h "dl_buf (g_segdl c)" body "take 60 (drop h body)" 60]
    by (simp add: reassembling_def Let_def)
  moreover have "length ?q = 256" using r h by (simp add: put_def reassembling_def Let_def)
  moreover have "put_data (dl_buf (g_segdl c)) h (pdu_data p) 60 = ?q"
    using put_data_self [OF p(6)] by (simp add: p(5) n)
  moreover have "pdu_data_len p > 0" using n by (metis word_gt_0 unat_0 zero_neq_numeral)
  ultimately show ?thesis
    using r p h s n
    by (auto simp: server_seg_download_feed_def server_seg_download_matches_def Let_def
        reassembling_def)
qed

lemma feed_end:
  assumes r: "reassembling c a ses i j body k h"
    and p: "pdu_cmd p = FBSEC_CO_FD_USDO_CMD_DOWNLOAD_END_REQ" "pdu_src_node_id p = a"
      "pdu_session p = ses"
      "(case pdu_data p of None \<Rightarrow> [] | Some d \<Rightarrow> d) = drop h body"
      "unat (pdu_data_len p) = length (case pdu_data p of None \<Rightarrow> [] | Some d \<Rightarrow> d)"
  shows "\<exists>c'. server_seg_download_feed p c = (True, [], c') \<and>
    reassembling c' a ses i j body k (length body) \<and> g_node_id c' = g_node_id c \<and>
    g_segul c' = g_segul c"
proof -
  let ?d = "drop h body"
  have n: "unat (pdu_data_len p) = length body - h" using p(4,5) by simp
  have h: "h \<le> length body" "length body \<le> 256" using r by (auto simp: reassembling_def Let_def)
  have s: "unat (dl_have (g_segdl c) + pdu_data_len p) = length body"
    using r n h unat_add_u16 [of "dl_have (g_segdl c)" "pdu_data_len p"]
    by (simp add: reassembling_def Let_def)
  have e: "dl_have (g_segdl c) + pdu_data_len p = dl_total (g_segdl c)"
    using s r by (simp add: reassembling_def Let_def word_unat_eq_iff)
  let ?q = "put (dl_buf (g_segdl c)) h ?d"
  have "take (length body) ?q = body"
    using take_put [of h "dl_buf (g_segdl c)" ?d] h r
    by (simp add: reassembling_def Let_def)
  moreover have "length ?q = 256" using r h by (simp add: put_def reassembling_def Let_def)
  moreover have "put_data (dl_buf (g_segdl c)) h (pdu_data p) (length body - h) = ?q"
    using put_data_self [OF p(5)] by (simp add: p(4) n)
  moreover have "\<not> pdu_data_len p > 0 \<Longrightarrow> ?q = dl_buf (g_segdl c)"
    using n h by (simp add: word_gt_0 put_def)
  ultimately show ?thesis
    using r p h s n e
    by (auto simp: server_seg_download_feed_def server_seg_download_matches_def Let_def
        reassembling_def)
qed

lemma dispatch_segment:
  assumes r: "reassembling c a ses i j body k h" and ok: "node_ok a" "node_ok b" "g_node_id c = b" "ses \<noteq> 0"
    and f: "usdo_carries a b ses (Download_Seg_Req k (take 60 (drop h body))) f"
    and more: "60 < length (drop h body)"
  shows "\<exists>ack c'. run_dispatch_frame E g F f c s = ([ack], c', s) \<and>
    usdo_carries b a ses (Download_Seg_Resp k) ack \<and>
    reassembling c' a ses i j body (k + 1) (h + 60) \<and> g_node_id c' = b \<and> g_segul c' = g_segul c"
proof -
  obtain p where p: "fbsec_co_fd_usdo_decode f = Inr p"
    "usdo_msg_of p = Download_Seg_Req k (take 60 (drop h body))"
    "pdu_cmd p = FBSEC_CO_FD_USDO_CMD_DOWNLOAD_SEG_REQ"
    "pdu_src_node_id p = a" "pdu_dst_node_id p = b" "pdu_session p = ses"
    "fbsec_co_fd_usdo_can_id_split (fbsec_co_fd_frame_id_value f) = (a, USDO_KIND_REQUEST, True)"
    "unat (pdu_data_len p) = length (case pdu_data p of None \<Rightarrow> [] | Some d \<Rightarrow> d)"
    by (rule request_frame [OF f _ ok(1)]) (auto simp: cmd_is_request_def)
  have m: "pdu_counter p = k"
    "(case pdu_data p of None \<Rightarrow> [] | Some d \<Rightarrow> d) = take 60 (drop h body)"
    using msg_parts(2) [OF refl _ p(2)] p(2,3) by auto
  obtain c' where c': "server_seg_download_feed p c =
      (False, opt_list (usdo_encode b a ses (Download_Seg_Resp k)), c')"
    "reassembling c' a ses i j body (k + 1) (h + 60)" "g_node_id c' = b" "g_segul c' = g_segul c"
    using feed_segment [OF r p(3,4,6) m p(8) more] ok(3) by auto
  obtain ack where ack: "usdo_encode b a ses (Download_Seg_Resp k) = Some ack"
    "usdo_carries b a ses (Download_Seg_Resp k) ack"
    using sent_carries [OF refl ok(2,1,4), of "Download_Seg_Resp k"] by auto
  have "run_dispatch_frame E g F f c s = ([ack], c', s)"
    using p c'(1) ack(1) ok(3) by (simp add: run_dispatch_frame_def opt_list_def)
  then show ?thesis using c' ack(2) by blast
qed

lemma dispatch_end:
  assumes r: "reassembling c a ses i j body k h" and ok: "node_ok a" "node_ok b" "g_node_id c = b"
    and f: "usdo_carries a b ses (Download_End_Req (drop h body)) f"
  shows "\<exists>c1. g_node_id c1 = b \<and> g_segul c1 = g_segul c \<and> run_dispatch_frame E g F f c s =
    (case dispatch_and_reply E g F (seg_ctx a FBSEC_CO_FD_USDO_CMD_DOWNLOAD_END_REQ ses i j) body c1 s
     of (out, c2, s1) \<Rightarrow> (out, c2\<lparr>g_segdl := (g_segdl c2)\<lparr>dl_active := False\<rparr>\<rparr>, s1))"
proof -
  obtain p where p: "fbsec_co_fd_usdo_decode f = Inr p"
    "usdo_msg_of p = Download_End_Req (drop h body)"
    "pdu_cmd p = FBSEC_CO_FD_USDO_CMD_DOWNLOAD_END_REQ"
    "pdu_src_node_id p = a" "pdu_dst_node_id p = b" "pdu_session p = ses"
    "fbsec_co_fd_usdo_can_id_split (fbsec_co_fd_frame_id_value f) = (a, USDO_KIND_REQUEST, True)"
    "unat (pdu_data_len p) = length (case pdu_data p of None \<Rightarrow> [] | Some d \<Rightarrow> d)"
    by (rule request_frame [OF f _ ok(1)]) (auto simp: cmd_is_request_def)
  have m: "(case pdu_data p of None \<Rightarrow> [] | Some d \<Rightarrow> d) = drop h body"
    using msg_parts(3) [OF refl _ p(2)] p(2,3) by auto
  obtain c1 where c1: "server_seg_download_feed p c = (True, [], c1)"
    "reassembling c1 a ses i j body k (length body)" "g_node_id c1 = b" "g_segul c1 = g_segul c"
    using feed_end [OF r p(3,4,6) m p(8)] ok(3) by auto
  have "take (unat (dl_total (g_segdl c1))) (dl_buf (g_segdl c1)) = body"
    using c1(2) by (auto simp: reassembling_def Let_def)
  then have "run_dispatch_frame E g F f c s =
    (case dispatch_and_reply E g F (seg_ctx a FBSEC_CO_FD_USDO_CMD_DOWNLOAD_END_REQ ses i j) body c1 s
     of (out, c2, s1) \<Rightarrow> (out, c2\<lparr>g_segdl := (g_segdl c2)\<lparr>dl_active := False\<rparr>\<rparr>, s1))"
    using p c1 ok(3) by (simp add: run_dispatch_frame_def seg_ctx_def reassembling_def Let_def)
  then show ?thesis using c1(3,4) by blast
qed

lemma run_segments:
  assumes "list_all2 (usdo_carries a b ses) (seg_reqs k (drop h body)) fs"
    "reassembling c a ses i j body k h" "node_ok a" "node_ok b" "g_node_id c = b" "ses \<noteq> 0"
  shows "\<exists>acks c1. list_all2 (usdo_carries b a ses) (seg_acks k (drop h body)) acks \<and>
    g_node_id c1 = b \<and> g_segul c1 = g_segul c \<and>
    run_frames E g F fs c s =
      (case dispatch_and_reply E g F (seg_ctx a FBSEC_CO_FD_USDO_CMD_DOWNLOAD_END_REQ ses i j) body c1 s
       of (out, c2, s1) \<Rightarrow> (acks @ out, c2\<lparr>g_segdl := (g_segdl c2)\<lparr>dl_active := False\<rparr>\<rparr>, s1))"
  using assms
proof (induction k "drop h body" arbitrary: h fs c rule: seg_reqs.induct)
  case (1 k)
  note r = "1.prems"(2) and ok = "1.prems"(3-6)
  show ?case
  proof (cases "60 < length (drop h body)")
    case True
    then obtain f fs' where fs: "fs = f # fs'"
      and f: "usdo_carries a b ses (Download_Seg_Req k (take 60 (drop h body))) f"
      and fs': "list_all2 (usdo_carries a b ses) (seg_reqs (k + 1) (drop (h + 60) body)) fs'"
      using "1.prems"(1) seg_reqs.simps [of k "drop h body"]
      by (auto simp: list_all2_Cons1 add.commute)
    obtain ack c' where run: "run_dispatch_frame E g F f c s = ([ack], c', s)"
      "usdo_carries b a ses (Download_Seg_Resp k) ack"
      "reassembling c' a ses i j body (k + 1) (h + 60)" "g_node_id c' = b" "g_segul c' = g_segul c"
      using dispatch_segment [OF r ok f True] by blast
    obtain acks c1 where IH: "list_all2 (usdo_carries b a ses) (seg_acks (k + 1) (drop (h + 60) body)) acks"
      "g_node_id c1 = b" "g_segul c1 = g_segul c'"
      "run_frames E g F fs' c' s =
        (case dispatch_and_reply E g F (seg_ctx a FBSEC_CO_FD_USDO_CMD_DOWNLOAD_END_REQ ses i j) body c1 s
         of (out, c2, s1) \<Rightarrow> (acks @ out, c2\<lparr>g_segdl := (g_segdl c2)\<lparr>dl_active := False\<rparr>\<rparr>, s1))"
      using "1.hyps" [OF True, of "h + 60" fs' c'] fs' run ok by (auto simp: add.commute)
    show ?thesis
      using IH run True
      by (intro exI [of _ "ack # acks"] exI [of _ c1])
         (auto simp: seg_acks.simps [of k "drop h body"] fs add.commute split: prod.splits)
  next
    case False
    then obtain f where fs: "fs = [f]" and f: "usdo_carries a b ses (Download_End_Req (drop h body)) f"
      using "1.prems"(1) seg_reqs.simps [of k "drop h body"] by (auto simp: list_all2_Cons1)
    obtain c1 where "g_node_id c1 = b" "g_segul c1 = g_segul c" "run_dispatch_frame E g F f c s =
      (case dispatch_and_reply E g F (seg_ctx a FBSEC_CO_FD_USDO_CMD_DOWNLOAD_END_REQ ses i j) body c1 s
       of (out, c2, s1) \<Rightarrow> (out, c2\<lparr>g_segdl := (g_segdl c2)\<lparr>dl_active := False\<rparr>\<rparr>, s1))"
      using dispatch_end [OF r ok(1-3) f] by blast
    then show ?thesis
      using False
      by (intro exI [of _ "[]"] exI [of _ c1])
         (simp add: seg_acks.simps [of k "drop h body"] fs split: prod.splits)
  qed
qed

text \<open>The initiate message opens the reassembly.\<close>

lemma dispatch_init:
  assumes f: "usdo_carries a b ses (Download_Init_Req i j (of_nat (length body))) f"
    and ok: "node_ok a" "node_ok b" "g_node_id c = b" "ses \<noteq> 0" "0x1000 \<le> i"
    and len: "length body \<le> 256" and wf: "length (dl_buf (g_segdl c)) = 256"
  shows "\<exists>ack c'. run_dispatch_frame E g F f c s = ([ack], c', s) \<and>
    usdo_carries b a ses (Download_Init_Resp i j) ack \<and> reassembling c' a ses i j body 0 0 \<and>
    g_node_id c' = b \<and> g_segul c' = g_segul c"
proof -
  obtain p where p: "fbsec_co_fd_usdo_decode f = Inr p"
    "usdo_msg_of p = Download_Init_Req i j (of_nat (length body))"
    "pdu_cmd p = FBSEC_CO_FD_USDO_CMD_DOWNLOAD_INIT_REQ"
    "pdu_src_node_id p = a" "pdu_dst_node_id p = b" "pdu_session p = ses"
    "fbsec_co_fd_usdo_can_id_split (fbsec_co_fd_frame_id_value f) = (a, USDO_KIND_REQUEST, True)"
    by (rule request_frame [OF f _ ok(1)]) (auto simp: cmd_is_request_def)
  have m: "pdu_index p = i" "pdu_subindex p = j" "pdu_total_size p = of_nat (length body)"
    using msg_parts(1) [OF refl _ p(2)] p(2,3) by auto
  have n: "unat (of_nat (length body) :: u32) = length body"
    "unat (of_nat (length body) :: u16) = length body"
    using len by (simp_all add: unat_len_u32 unat_of_nat_u16)
  let ?c = "c\<lparr>g_segdl := (g_segdl c)\<lparr>dl_active := True, dl_src := a, dl_session := ses,
      dl_index := i, dl_sub := j, dl_counter := 0, dl_total := of_nat (length body), dl_have := 0\<rparr>\<rparr>"
  obtain ack where ack: "usdo_encode b a ses (Download_Init_Resp i j) = Some ack"
    "usdo_carries b a ses (Download_Init_Resp i j) ack"
    using sent_carries [OF refl ok(2,1,4), of "Download_Init_Resp i j"] ok(5) by auto
  have "(ucast (of_nat (length body) :: u32) :: u16) = of_nat (length body)"
    using n len by (simp add: word_unat_eq_iff unat_ucast_u32_u16)
  then have "run_dispatch_frame E g F f c s = ([ack], ?c, s)"
    using p m n ack(1) ok(3) len
    by (simp add: run_dispatch_frame_def server_seg_download_init_def opt_list_def)
  moreover have "reassembling ?c a ses i j body 0 0"
    using len wf n by (simp add: reassembling_def)
  ultimately show ?thesis using ack(2) ok(3) by fastforce
qed

text \<open>
  The whole transfer: the initiate message, the segments and the end message of
  a body lead to one dispatch of exactly that body.
\<close>

lemma seg_download_run:
  assumes fs: "list_all2 (usdo_carries a b ses)
      (Download_Init_Req i j (of_nat (length body)) # seg_reqs 0 body) fs"
    and ok: "node_ok a" "node_ok b" "g_node_id c = b" "ses \<noteq> 0" "0x1000 \<le> i"
    and len: "length body \<le> 256" and wf: "length (dl_buf (g_segdl c)) = 256"
  shows "\<exists>acks c1. list_all2 (usdo_carries b a ses) (Download_Init_Resp i j # seg_acks 0 body) acks \<and>
    g_node_id c1 = b \<and> g_segul c1 = g_segul c \<and>
    run_frames E g F fs c s =
      (case dispatch_and_reply E g F (seg_ctx a FBSEC_CO_FD_USDO_CMD_DOWNLOAD_END_REQ ses i j) body c1 s
       of (out, c2, s1) \<Rightarrow> (acks @ out, c2\<lparr>g_segdl := (g_segdl c2)\<lparr>dl_active := False\<rparr>\<rparr>, s1))"
proof -
  obtain f fs' where f: "fs = f # fs'"
    "usdo_carries a b ses (Download_Init_Req i j (of_nat (length body))) f"
    "list_all2 (usdo_carries a b ses) (seg_reqs 0 body) fs'"
    using fs by (auto simp: list_all2_Cons1)
  obtain ack c' where run: "run_dispatch_frame E g F f c s = ([ack], c', s)"
    "usdo_carries b a ses (Download_Init_Resp i j) ack" "reassembling c' a ses i j body 0 0"
    "g_node_id c' = b" "g_segul c' = g_segul c"
    using dispatch_init [OF f(2) ok len wf] by blast
  with f(3) obtain acks c1 where r: "list_all2 (usdo_carries b a ses) (seg_acks 0 body) acks"
    "g_node_id c1 = b" "g_segul c1 = g_segul c'"
    "run_frames E g F fs' c' s =
      (case dispatch_and_reply E g F (seg_ctx a FBSEC_CO_FD_USDO_CMD_DOWNLOAD_END_REQ ses i j) body c1 s
       of (out, c2, s1) \<Rightarrow> (acks @ out, c2\<lparr>g_segdl := (g_segdl c2)\<lparr>dl_active := False\<rparr>\<rparr>, s1))"
    using run_segments [of a b ses 0 0 body fs' c' i j E g F s] ok by simp blast
  then show ?thesis
    using run by (intro exI [of _ "ack # acks"] exI [of _ c1]) (auto simp: f(1) split: prod.splits)
qed

section \<open>Segmented upload\<close>

fun upload_reqs :: "u8 \<Rightarrow> bytes \<Rightarrow> usdo_msg list" where
  "upload_reqs k d =
     Upload_Seg_Req k #
       (if length d > FBSEC_CO_FD_USDO_SEG_DATA_MAX
        then upload_reqs (k + 1) (drop FBSEC_CO_FD_USDO_SEG_DATA_MAX d) else [])"

fun upload_resps :: "u8 \<Rightarrow> bytes \<Rightarrow> usdo_msg list" where
  "upload_resps k d =
     (if length d > FBSEC_CO_FD_USDO_SEG_DATA_MAX
      then Upload_Seg_Resp k (take FBSEC_CO_FD_USDO_SEG_DATA_MAX d) #
           upload_resps (k + 1) (drop FBSEC_CO_FD_USDO_SEG_DATA_MAX d)
      else [Upload_End_Resp d])"

declare upload_reqs.simps [simp del] upload_resps.simps [simp del]

text \<open>The data of the responses, put together, is the parked body.\<close>

fun resp_data :: "usdo_msg \<Rightarrow> bytes" where
  "resp_data (Upload_Seg_Resp k d) = d"
| "resp_data (Upload_End_Resp d) = d"
| "resp_data _ = []"

lemma upload_resps_data: "concat (map resp_data (upload_resps k d)) = d"
proof (induction k d rule: upload_resps.induct)
  case (1 k d)
  then show ?case by (cases "60 < length d") (simp_all add: upload_resps.simps [of k d])
qed

definition parked :: "co_fd \<Rightarrow> u8 \<Rightarrow> u8 \<Rightarrow> bytes \<Rightarrow> u8 \<Rightarrow> nat \<Rightarrow> bool" where
  "parked c a ses data k h \<longleftrightarrow>
     (let u = g_segul c in
      ul_active u \<and> ul_dst u = a \<and> ul_session u = ses \<and> ul_counter u = k \<and>
      unat (ul_total u) = length data \<and> unat (ul_sent u) = h \<and> h \<le> length data \<and>
      length data \<le> 256 \<and> length (ul_buf u) = 256 \<and> take (length data) (ul_buf u) = data)"

lemma seg_data_take: "60 \<le> length d \<Longrightarrow>
   encode_seg_data a b c s k (Some d) = encode_seg_data a b c s k (Some (take 60 d))"
  by (simp add: encode_seg_data_def put_data_def cong: option.case_cong)

lemma seg_end_take: "unat n \<le> length d \<Longrightarrow>
   encode_seg_end a b c s (Some d) n = encode_seg_end a b c s (ptr (take (unat n) d)) n"
  by (cases "n = 0") (auto simp: encode_seg_end_def put_data_def unat_eq_0 word_gt_0 Let_def
      cong: option.case_cong)

lemma parked_slice:
  assumes "parked c a ses data k h" "h + n \<le> length data"
  shows "take n (drop h (ul_buf (g_segul c))) = take n (drop h data)"
proof -
  have "take (length data) (ul_buf (g_segul c)) = data" using assms by (simp add: parked_def Let_def)
  then have "take n (drop h data) = take n (drop h (take (length data) (ul_buf (g_segul c))))" by simp
  then show ?thesis using assms(2) by (simp add: drop_take)
qed

lemma serve_segment:
  assumes r: "parked c a ses data k h"
    and p: "pdu_src_node_id p = a" "pdu_session p = ses" "pdu_counter p = k"
  shows "if 60 < length (drop h data) then
      \<exists>c'. server_seg_upload_serve p c =
        (opt_list (usdo_encode (g_node_id c) a ses (Upload_Seg_Resp k (take 60 (drop h data)))), c')
        \<and> parked c' a ses data (k + 1) (h + 60) \<and> g_node_id c' = g_node_id c
        \<and> g_segdl c' = g_segdl c
    else \<exists>c'. server_seg_upload_serve p c =
        (opt_list (usdo_encode (g_node_id c) a ses (Upload_End_Resp (drop h data))), c')
        \<and> \<not> ul_active (g_segul c') \<and> g_node_id c' = g_node_id c \<and> g_segdl c' = g_segdl c"
proof -
  let ?u = "g_segul c"
  have w: "unat (ul_total ?u) = length data" "unat (ul_sent ?u) = h" "h \<le> length data"
    "length data \<le> 256" "length (ul_buf ?u) = 256"
    using r by (auto simp: parked_def Let_def)
  then have m: "unat (ul_total ?u - ul_sent ?u) = length data - h"
    by (simp add: unat_sub_if_size)
  show ?thesis
  proof (cases "60 < length (drop h data)")
    case True
    then have s: "unat (ul_sent ?u + 60) = h + 60"
      using w unat_add_u16 [of "ul_sent ?u" 60] by simp
    have "fbsec_co_fd_usdo_encode_upload_seg_resp (g_node_id c) a ses k
        (Some (drop h (ul_buf ?u))) =
      usdo_encode (g_node_id c) a ses (Upload_Seg_Resp k (take 60 (drop h data)))"
      using True w parked_slice [OF r, of 60] seg_data_take [of "drop h (ul_buf ?u)"]
      by (simp add: fbsec_co_fd_usdo_encode_upload_seg_resp_def)
    then show ?thesis
      using True r p w m s by (auto simp: server_seg_upload_serve_def Let_def parked_def)
  next
    case False
    have n: "of_nat (length (drop h data)) = ul_total ?u - ul_sent ?u"
      using m w by (simp add: word_unat_eq_iff unat_of_nat_u16 del: of_nat_diff)
    have t: "take (unat (ul_total ?u - ul_sent ?u)) (drop h (ul_buf ?u)) = drop h data"
      using parked_slice [OF r, of "length data - h"] w m by simp
    have l: "unat (ul_total ?u - ul_sent ?u) \<le> length (drop h (ul_buf ?u))" using m w by simp
    have "fbsec_co_fd_usdo_encode_upload_end_resp (g_node_id c) a ses
        (Some (drop h (ul_buf ?u))) (ul_total ?u - ul_sent ?u) =
      usdo_encode (g_node_id c) a ses (Upload_End_Resp (drop h data))"
      unfolding usdo_encode.simps n fbsec_co_fd_usdo_encode_upload_end_resp_def
        seg_end_take [OF l] t ..
    then show ?thesis
      using False r p w m by (auto simp: server_seg_upload_serve_def Let_def parked_def)
  qed
qed

lemma dispatch_upload_segment:
  assumes f: "usdo_carries a b ses (Upload_Seg_Req k) f" and r: "parked c a ses data k h"
    and ok: "node_ok a" "node_ok b" "g_node_id c = b" "ses \<noteq> 0"
  shows "\<exists>resp c'. run_dispatch_frame E g F f c s = ([resp], c', s) \<and>
    g_node_id c' = b \<and> g_segdl c' = g_segdl c \<and>
    (if 60 < length (drop h data)
     then usdo_carries b a ses (Upload_Seg_Resp k (take 60 (drop h data))) resp \<and>
       parked c' a ses data (k + 1) (h + 60)
     else usdo_carries b a ses (Upload_End_Resp (drop h data)) resp \<and> \<not> ul_active (g_segul c'))"
proof -
  obtain p where p: "fbsec_co_fd_usdo_decode f = Inr p" "usdo_msg_of p = Upload_Seg_Req k"
    "pdu_cmd p = FBSEC_CO_FD_USDO_CMD_UPLOAD_SEG_REQ"
    "pdu_src_node_id p = a" "pdu_dst_node_id p = b" "pdu_session p = ses"
    "fbsec_co_fd_usdo_can_id_split (fbsec_co_fd_frame_id_value f) = (a, USDO_KIND_REQUEST, True)"
    by (rule request_frame [OF f _ ok(1)]) (auto simp: cmd_is_request_def)
  have k: "pdu_counter p = k" using msg_parts(4) [OF refl _ p(2)] p(2,3) by auto
  have serve: "run_dispatch_frame E g F f c s = (case server_seg_upload_serve p c of (out, c1) \<Rightarrow> (out, c1, s))"
    using p ok(3) by (simp add: run_dispatch_frame_def)
  let ?m = "if 60 < length (drop h data) then Upload_Seg_Resp k (take 60 (drop h data))
    else Upload_End_Resp (drop h data)"
  have "usdo_msg_ok ?m" by simp
  then obtain resp where "usdo_encode b a ses ?m = Some resp" "usdo_carries b a ses ?m resp"
    using sent_carries [OF refl ok(2,1,4)] by blast
  then show ?thesis
    using serve serve_segment [OF r p(4,6) k] ok(3)
    by (fastforce simp: opt_list_def split: if_split_asm)
qed

lemma run_upload:
  assumes "list_all2 (usdo_carries a b ses) (upload_reqs k (drop h data)) fs"
    "parked c a ses data k h" "node_ok a" "node_ok b" "g_node_id c = b" "ses \<noteq> 0"
  shows "\<exists>out c1. list_all2 (usdo_carries b a ses) (upload_resps k (drop h data)) out \<and>
    run_frames E g F fs c s = (out, c1, s) \<and> \<not> ul_active (g_segul c1) \<and>
    g_node_id c1 = b \<and> g_segdl c1 = g_segdl c"
  using assms
proof (induction k "drop h data" arbitrary: h fs c rule: upload_resps.induct)
  case (1 k)
  note r = "1.prems"(2) and ok = "1.prems"(3-6)
  obtain f fs' where fs: "fs = f # fs'" and f: "usdo_carries a b ses (Upload_Seg_Req k) f"
    and fs': "list_all2 (usdo_carries a b ses)
      (if 60 < length (drop h data) then upload_reqs (k + 1) (drop 60 (drop h data)) else []) fs'"
    using "1.prems"(1) upload_reqs.simps [of k "drop h data"] by (auto simp: list_all2_Cons1)
  obtain resp c' where run: "run_dispatch_frame E g F f c s = ([resp], c', s)"
    "g_node_id c' = b" "g_segdl c' = g_segdl c"
    "if 60 < length (drop h data)
     then usdo_carries b a ses (Upload_Seg_Resp k (take 60 (drop h data))) resp \<and>
       parked c' a ses data (k + 1) (h + 60)
     else usdo_carries b a ses (Upload_End_Resp (drop h data)) resp \<and> \<not> ul_active (g_segul c')"
    using dispatch_upload_segment [OF f r ok] by blast
  show ?case
  proof (cases "60 < length (drop h data)")
    case True
    obtain out c1 where IH: "list_all2 (usdo_carries b a ses) (upload_resps (k + 1) (drop (h + 60) data)) out"
      "run_frames E g F fs' c' s = (out, c1, s)" "\<not> ul_active (g_segul c1)" "g_node_id c1 = b"
      "g_segdl c1 = g_segdl c'"
      using "1.hyps" [OF True, of "h + 60" fs' c'] fs' run ok True by (auto simp: add.commute)
    then show ?thesis
      using run True
      by (intro exI [of _ "resp # out"] exI [of _ c1])
         (auto simp: upload_resps.simps [of k "drop h data"] fs add.commute)
  next
    case False
    then show ?thesis
      using run fs'
      by (intro exI [of _ "[resp]"] exI [of _ c'])
         (auto simp: upload_resps.simps [of k "drop h data"] fs)
  qed
qed

lemma reply_parked:
  assumes "56 < length data" "length data \<le> 256" "length (ul_buf (g_segul c)) = 256"
  shows "parked (snd (send_reply_cb x FBSEC_ABORT_NONE data c)) (rc_src_node_id x) (rc_session x) data 0 0"
  using assms by (simp add: send_reply_cb_def Let_def parked_def unat_of_nat_u16 put_def)

section \<open>Expedited requests\<close>

lemma dispatch_download:
  assumes f: "usdo_carries a b ses (Download_Req i j d) f" and ok: "node_ok a" "g_node_id c = b"
  shows "run_dispatch_frame E g F f c s =
    dispatch_and_reply E g F (seg_ctx a FBSEC_CO_FD_USDO_CMD_DOWNLOAD_REQ ses i j) d c s"
proof -
  obtain p where p: "fbsec_co_fd_usdo_decode f = Inr p" "usdo_msg_of p = Download_Req i j d"
    "pdu_cmd p = FBSEC_CO_FD_USDO_CMD_DOWNLOAD_REQ"
    "pdu_src_node_id p = a" "pdu_dst_node_id p = b" "pdu_session p = ses"
    "fbsec_co_fd_usdo_can_id_split (fbsec_co_fd_frame_id_value f) = (a, USDO_KIND_REQUEST, True)"
    "unat (pdu_data_len p) = length (case pdu_data p of None \<Rightarrow> [] | Some d \<Rightarrow> d)"
    by (rule request_frame [OF f _ ok(1)]) (auto simp: cmd_is_request_def)
  have m: "pdu_index p = i" "pdu_subindex p = j" "(case pdu_data p of None \<Rightarrow> [] | Some d \<Rightarrow> d) = d"
    using msg_parts(6) [OF refl _ p(2)] p(2,3) by auto
  then have "(case pdu_data p of None \<Rightarrow> [] | Some d \<Rightarrow> take (unat (pdu_data_len p)) d) = d"
    using p(8) by (auto split: option.splits)
  then show ?thesis using p m ok(2) by (simp add: run_dispatch_frame_def seg_ctx_def)
qed

lemma dispatch_upload:
  assumes f: "usdo_carries a b ses (Upload_Req i j) f" and ok: "node_ok a" "g_node_id c = b"
  shows "run_dispatch_frame E g F f c s =
    dispatch_and_reply E g F (seg_ctx a FBSEC_CO_FD_USDO_CMD_UPLOAD_REQ ses i j) [] c s"
proof -
  obtain p where p: "fbsec_co_fd_usdo_decode f = Inr p" "usdo_msg_of p = Upload_Req i j"
    "pdu_cmd p = FBSEC_CO_FD_USDO_CMD_UPLOAD_REQ"
    "pdu_src_node_id p = a" "pdu_dst_node_id p = b" "pdu_session p = ses"
    "fbsec_co_fd_usdo_can_id_split (fbsec_co_fd_frame_id_value f) = (a, USDO_KIND_REQUEST, True)"
    by (rule request_frame [OF f _ ok(1)]) (auto simp: cmd_is_request_def)
  have "pdu_index p = i" "pdu_subindex p = j"
    using msg_parts(5) [OF refl _ p(2)] p(2,3) by auto
  moreover have "pdu_data p = None" using decode_plain [OF p(1)] p(3) by simp
  ultimately show ?thesis using p ok(2) by (simp add: run_dispatch_frame_def seg_ctx_def)
qed

section \<open>Every frame\<close>

text \<open>Whatever arrives, the buffers stay within bounds.\<close>

lemma dispatch_and_reply_wf:
  assumes "dispatch_and_reply E g F x req c s = (out, c', s')" "co_fd_wf c" "srv_wf s"
    "ed_ok E" "platform_ok F" "gcm_ok g"
  shows "co_fd_wf c' \<and> srv_wf s' \<and> g_node_id c' = g_node_id c"
proof -
  let ?d = "fbsec_co_fd_data_id_from_index_sub (rc_index x) (rc_subindex x)"
  obtain st data where r: "fbsec_server_dispatch_request E g F (ucast (rc_src_node_id x)) ?d req s
      = ((st, data), s')" and c': "(out, c') = send_reply_cb x st data c"
    using assms(1) by (auto simp: dispatch_and_reply_def split: prod.splits)
  have l: "length data < 65536" using request_reply_length [OF r assms(3-6)] by simp
  have "g_node_id c' = g_node_id c"
    using arg_cong [OF c', of "\<lambda>p. g_node_id (snd p)"]
    by (simp add: send_reply_cb_def Let_def split: if_split_asm)
  then show ?thesis
    using send_reply_wf [OF assms(2) l, of x st] arg_cong [OF c', of snd]
      request_wf [OF r] assms(3-6) by simp
qed

lemma run_dispatch_frame_wf:
  assumes "run_dispatch_frame E g F f c s = (out, c', s')" "co_fd_wf c" "srv_wf s"
    "ed_ok E" "platform_ok F" "gcm_ok g"
  shows "co_fd_wf c' \<and> srv_wf s'"
proof -
  have off: "co_fd_wf (c\<lparr>g_segdl := (g_segdl c)\<lparr>dl_active := False\<rparr>\<rparr>) = co_fd_wf c" for c
    by (simp add: co_fd_wf_def)
  consider "c' = c" "s' = s"
    | p where "server_seg_download_init p c = (out, c')" "s' = s"
    | p out1 where "server_seg_download_feed p c = (False, out1, c')" "s' = s"
    | p out1 c1 x req out2 c2 where "server_seg_download_feed p c = (True, out1, c1)"
        "dispatch_and_reply E g F x req c1 s = (out2, c2, s')"
        "c' = c2\<lparr>g_segdl := (g_segdl c2)\<lparr>dl_active := False\<rparr>\<rparr>"
    | p where "server_seg_upload_serve p c = (out, c')" "s' = s"
    | x req where "dispatch_and_reply E g F x req c s = (out, c', s')"
    using assms(1) unfolding run_dispatch_frame_def Let_def
    by (auto split: sum.split_asm prod.split_asm if_split_asm)
  then show ?thesis
  proof cases
    case (4 p out1 c1 x req out2 c2)
    have "co_fd_wf c1" using download_feed_wf [OF assms(2), of p] 4(1) by simp
    then show ?thesis using dispatch_and_reply_wf [OF 4(2) _ assms(3-6)] 4(3) off by simp
  next
    case (2 p)
    then show ?thesis using download_init_wf [OF assms(2), of p] assms(3) by simp
  next
    case (3 p out1)
    then show ?thesis using download_feed_wf [OF assms(2), of p] assms(3) by simp
  next
    case (5 p)
    then show ?thesis using upload_serve_wf [OF assms(2), of p] assms(3) by simp
  next
    case (6 x req)
    then show ?thesis using dispatch_and_reply_wf [OF _ assms(2-6)] by blast
  qed (use assms in simp)
qed

lemma run_frames_wf:
  assumes "run_frames E g F fs c s = (out, c', s')" "co_fd_wf c" "srv_wf s"
    "ed_ok E" "platform_ok F" "gcm_ok g"
  shows "co_fd_wf c' \<and> srv_wf s'"
  using assms
proof (induction fs arbitrary: out c s)
  case (Cons f fs)
  then show ?case
    using run_dispatch_frame_wf by (fastforce split: prod.split_asm)
qed simp

section \<open>Frames the client never sends\<close>

text \<open>
  A frame on the request identifier whose command is not one of the six
  requests is dispatched like a download request; only the reply differs.
\<close>

lemma stray_command:
  assumes "fbsec_co_fd_usdo_decode f = Inr p"
    "fbsec_co_fd_usdo_can_id_split (fbsec_co_fd_frame_id_value f) = (a, USDO_KIND_REQUEST, u)"
    "pdu_dst_node_id p = g_node_id c" "\<not> cmd_is_request (pdu_cmd p)"
    "fbsec_server_dispatch_request E g F (ucast (pdu_src_node_id p))
       (fbsec_co_fd_data_id_from_index_sub (pdu_index p) (pdu_subindex p))
       (case pdu_data p of None \<Rightarrow> [] | Some d \<Rightarrow> take (unat (pdu_data_len p)) d) s
     = ((FBSEC_ABORT_NONE, data), s')" "length data \<le> FBSEC_CO_FD_USDO_DATA_MAX"
  shows "run_dispatch_frame E g F f c s =
    (opt_list (usdo_encode (g_node_id c) (pdu_src_node_id p) (pdu_session p)
       (Abort_Msg (pdu_index p) (pdu_subindex p) FBSEC_ABORT_BAD_CMD)), c, s')"
proof -
  have n: "unat (of_nat (length data) :: u16) = length data" using assms(6) by (simp add: unat_of_nat_u16)
  have "pdu_cmd p \<noteq> 1" "pdu_cmd p \<noteq> 2" "pdu_cmd p \<noteq> 3" "pdu_cmd p \<noteq> 4" "pdu_cmd p \<noteq> 0x11" "pdu_cmd p \<noteq> 0x13"
    using assms(4) by (auto simp: cmd_is_request_def)
  then show ?thesis
    using assms n
    by (simp add: run_dispatch_frame_def dispatch_and_reply_def send_reply_cb_def Let_def)
qed

text \<open>One segment from a peer that has no transfer open ends the transfer of another.\<close>

lemma stray_segment:
  assumes "fbsec_co_fd_usdo_decode f = Inr p"
    "fbsec_co_fd_usdo_can_id_split (fbsec_co_fd_frame_id_value f) = (a, USDO_KIND_REQUEST, u)"
    "pdu_dst_node_id p = g_node_id c" "pdu_cmd p = FBSEC_CO_FD_USDO_CMD_DOWNLOAD_SEG_REQ"
    "pdu_src_node_id p \<noteq> dl_src (g_segdl c)"
  shows "\<exists>out c'. run_dispatch_frame E g F f c s = (out, c', s) \<and>
    \<not> dl_active (g_segdl c') \<and> \<not> ul_active (g_segul c')"
  using assms
  by (simp add: run_dispatch_frame_def server_seg_download_feed_def server_seg_download_matches_def
      server_seg_abort_def Let_def)

end
