(* ===== verification/Co_Fd_Client.thy ===== *)
theory Co_Fd_Client
  imports Co_Fd_Usdo Secure_Proto
begin

text \<open>
  The CANopen FD client transport
  (\<open>variants/canopen_fd/client/fbsec_co_fd_client.c\<close>): one request frame and
  its response, the segmented upload and download, and the two entry points of
  the transport vtable. The carrier below is the record \<open>carrier\<close> of its send,
  its receive with a deadline and its clock, over a state of its own; console
  and trace output is left out. A result of the round trip is the status, the
  abort code and the response; \<open>None\<close> is a call that does not return, which
  only the receive loop can cause.
\<close>

section \<open>The carrier and the client's state\<close>

datatype carrier_status =
    CARRIER_OK | CARRIER_TIMEOUT | CARRIER_CLOSED | CARRIER_FRAME | CARRIER_NET

record 'w carrier =
  carrier_send :: "frame \<Rightarrow> 'w \<Rightarrow> carrier_status \<times> 'w"
  carrier_recv :: "u32 \<Rightarrow> 'w \<Rightarrow> (carrier_status \<times> frame) \<times> 'w"
  carrier_now_ms :: "'w \<Rightarrow> u32"

text \<open>\<open>g_cfg.node_id\<close>, \<open>g_usdo_session\<close> and the carrier.\<close>

record 'w client =
  cl_node_id :: u8
  cl_session :: u8
  cl_carrier :: 'w

definition next_session :: "'w client \<Rightarrow> u8 \<times> 'w client" where
  "next_session c =
     (let n = (if cl_session c = 0xFF then 1 else cl_session c + 1);
          n = (if n = 0 then 1 else n)
      in (n, c\<lparr>cl_session := n\<rparr>))"

text \<open>\<open>round_trip_result_t\<close> with the data that went to the caller's buffer.\<close>

record rt_result =
  res_cmd :: u8
  res_data_type :: u8
  res_counter :: u8
  res_total_size :: u32
  res_data :: bytes

definition rt_none :: rt_result where
  "rt_none = \<lparr>res_cmd = 0, res_data_type = 0, res_counter = 0, res_total_size = 0, res_data = []\<rparr>"

type_synonym rt = "secp_status \<times> abort \<times> rt_result"

text \<open>What a round trip waits for: its parameters from \<open>expected_cmd\<close> on.\<close>

record expectation =
  ex_cmd :: u8
  ex_alt :: u8
  ex_node :: u8
  ex_session :: u8
  ex_match_mux :: bool
  ex_index :: u16
  ex_sub :: u8
  ex_buf_size :: nat

section \<open>One round trip\<close>

text \<open>The body of the receive loop for one frame: \<open>None\<close> is \<open>continue\<close>.\<close>

definition response_outcome :: "u8 \<Rightarrow> expectation \<Rightarrow> frame \<Rightarrow> rt option" where
  "response_outcome node x resp =
     (case fbsec_co_fd_usdo_decode resp of
        Inl e \<Rightarrow> None
      | Inr p \<Rightarrow>
          (case fbsec_co_fd_usdo_can_id_split (fbsec_co_fd_frame_id_value resp) of (sender, kind, u) \<Rightarrow>
           if kind \<noteq> USDO_KIND_RESPONSE then None
           else if pdu_src_node_id p \<noteq> ex_node x then None
           else if pdu_dst_node_id p \<noteq> node then None
           else if pdu_session p \<noteq> ex_session x then None
           else if ex_match_mux x \<and> pdu_mux_valid p \<and>
                   (pdu_index p \<noteq> ex_index x \<or> pdu_subindex p \<noteq> ex_sub x) then None
           else if pdu_cmd p = FBSEC_CO_FD_USDO_CMD_ABORT then
             Some (SECP_ABORT, pdu_abort_code p, rt_none)
           else if pdu_cmd p \<noteq> ex_cmd x \<and> (ex_alt x = 0 \<or> pdu_cmd p \<noteq> ex_alt x) then
             Some (SECP_PROTOCOL, 0, rt_none)
           else if unat (pdu_data_len p) > ex_buf_size x then Some (SECP_BUFSIZE, 0, rt_none)
           else
             Some (SECP_OK, 0,
               \<lparr>res_cmd = pdu_cmd p, res_data_type = pdu_data_type p, res_counter = pdu_counter p,
                res_total_size = pdu_total_size p,
                res_data = (case pdu_data p of None \<Rightarrow> [] | Some d \<Rightarrow> take (unat (pdu_data_len p)) d)\<rparr>)))"

partial_function (option) await_response ::
  "'w carrier \<Rightarrow> u8 \<Rightarrow> expectation \<Rightarrow> u32 \<Rightarrow> 'w \<Rightarrow> (rt \<times> 'w) option" where
  "await_response C node x deadline w =
     (case carrier_recv C deadline w of
        ((st, resp), w1) \<Rightarrow>
          if st = CARRIER_TIMEOUT then Some ((SECP_TIMEOUT, 0, rt_none), w1)
          else if st = CARRIER_CLOSED then Some ((SECP_TX, 0, rt_none), w1)
          else if st \<noteq> CARRIER_OK then Some ((SECP_PROTOCOL, 0, rt_none), w1)
          else (case response_outcome node x resp of
                  Some r \<Rightarrow> Some (r, w1)
                | None \<Rightarrow> await_response C node x deadline w1))"

declare await_response.simps [code]

definition round_trip ::
  "'w carrier \<Rightarrow> expectation \<Rightarrow> frame \<Rightarrow> u32 \<Rightarrow> 'w client \<Rightarrow> (rt \<times> 'w client) option" where
  "round_trip C x req timeout_ms c =
     (case carrier_send C req (cl_carrier c) of
        (st, w1) \<Rightarrow>
          if st \<noteq> CARRIER_OK then Some ((SECP_TX, 0, rt_none), c\<lparr>cl_carrier := w1\<rparr>)
          else (case await_response C (cl_node_id c) x (carrier_now_ms C w1 + timeout_ms) w1 of
                  None \<Rightarrow> None
                | Some (r, w2) \<Rightarrow> Some (r, c\<lparr>cl_carrier := w2\<rparr>)))"

section \<open>Segmented upload\<close>

definition seg_expectation :: "u8 \<Rightarrow> u8 \<Rightarrow> u8 \<Rightarrow> u8 \<Rightarrow> expectation" where
  "seg_expectation cmd alt target session =
     \<lparr>ex_cmd = cmd, ex_alt = alt, ex_node = target, ex_session = session, ex_match_mux = False,
      ex_index = 0, ex_sub = 0, ex_buf_size = FBSEC_CO_FD_PAYLOAD_MAX\<rparr>"

lemma counter_left: "counter \<noteq> 0xFF \<Longrightarrow> 255 - unat (counter + 1 :: u8) < 255 - unat counter"
proof -
  assume "counter \<noteq> 0xFF"
  then have "unat counter < 255"
    using unsigned_less [of counter, where ?'a = nat] by (simp add: word_unat_eq_iff)
  moreover from this have "unat (counter + 1) = unat counter + 1" by (simp add: unat_word_ariths)
  ultimately show ?thesis by simp
qed

text \<open>The loop, with the bytes received so far.\<close>

function seg_upload_loop ::
  "'w carrier \<Rightarrow> u8 \<Rightarrow> u8 \<Rightarrow> u32 \<Rightarrow> u32 \<Rightarrow> bytes \<Rightarrow> u8 \<Rightarrow> 'w client \<Rightarrow>
   ((secp_status \<times> bytes \<times> abort) \<times> 'w client) option" where
  "seg_upload_loop C target session announced timeout_ms got counter c =
     (case fbsec_co_fd_usdo_encode_upload_seg_req (cl_node_id c) target session counter of
        None \<Rightarrow> Some ((SECP_PROTOCOL, [], 0), c)
      | Some seg \<Rightarrow>
          (case round_trip C (seg_expectation FBSEC_CO_FD_USDO_CMD_UPLOAD_SEG_RESP
                   FBSEC_CO_FD_USDO_CMD_UPLOAD_END_RESP target session) seg timeout_ms c of
             None \<Rightarrow> None
           | Some ((rc, ac, res), c1) \<Rightarrow>
               if rc \<noteq> SECP_OK then Some ((rc, [], ac), c1)
               else if res_cmd res = FBSEC_CO_FD_USDO_CMD_UPLOAD_SEG_RESP \<and> res_counter res \<noteq> counter then
                 Some ((SECP_PROTOCOL, [], 0), c1)
               else if (of_nat (length got) + of_nat (length (res_data res)) :: u32) > announced then
                 Some ((SECP_PROTOCOL, [], 0), c1)
               else let got = got @ res_data res in
                 if res_cmd res = FBSEC_CO_FD_USDO_CMD_UPLOAD_END_RESP then
                   (if (of_nat (length got) :: u32) \<noteq> announced then Some ((SECP_PROTOCOL, [], 0), c1)
                    else Some ((SECP_OK, got, 0), c1))
                 else if counter = 0xFF then Some ((SECP_PROTOCOL, [], 0), c1)
                 else seg_upload_loop C target session announced timeout_ms got (counter + 1) c1))"
  by pat_completeness auto

termination
  by (relation "measure (\<lambda>(C, target, session, announced, timeout_ms, got, counter, c). 255 - unat counter)")
     (auto intro: counter_left)

declare seg_upload_loop.simps [simp del]

definition seg_upload_pull ::
  "'w carrier \<Rightarrow> u8 \<Rightarrow> u8 \<Rightarrow> u32 \<Rightarrow> nat \<Rightarrow> u32 \<Rightarrow> 'w client \<Rightarrow>
   ((secp_status \<times> bytes \<times> abort) \<times> 'w client) option" where
  "seg_upload_pull C target session announced buf_size timeout_ms c =
     (if unat announced > buf_size then Some ((SECP_BUFSIZE, [], 0), c)
      else seg_upload_loop C target session announced timeout_ms [] 0 c)"

section \<open>The transport vtable\<close>

definition mux_expectation :: "u8 \<Rightarrow> u8 \<Rightarrow> u8 \<Rightarrow> u8 \<Rightarrow> u32 \<Rightarrow> nat \<Rightarrow> expectation" where
  "mux_expectation cmd alt target session data_id buf_size =
     \<lparr>ex_cmd = cmd, ex_alt = alt, ex_node = target, ex_session = session, ex_match_mux = True,
      ex_index = ucast (drop_bit 16 data_id), ex_sub = ucast (drop_bit 8 data_id),
      ex_buf_size = buf_size\<rparr>"

definition transport_read ::
  "'w carrier \<Rightarrow> u16 \<Rightarrow> u32 \<Rightarrow> bytes \<Rightarrow> nat \<Rightarrow> u32 \<Rightarrow> 'w client \<Rightarrow>
   ((secp_status \<times> bytes \<times> abort) \<times> 'w client) option" where
  "transport_read C device_id data_id req_body buf_size timeout_ms c =
     (let want_index = ucast (drop_bit 16 data_id) :: u16;
          want_sub = ucast (drop_bit 8 data_id) :: u8;
          target_node = ucast device_id :: u8
      in if target_node = 0 \<or> target_node > FBSEC_CO_FD_NODE_ID_MAX then
           Some ((SECP_PROTOCOL, [], 0), c)
         else
           (case next_session c of (session, c1) \<Rightarrow>
             let (req, expected_cmd) =
               (if length req_body > 0 then
                  (fbsec_co_fd_usdo_encode_download_req (cl_node_id c) target_node session want_index
                     want_sub (Some req_body) (of_nat (length req_body)),
                   FBSEC_CO_FD_USDO_CMD_DOWNLOAD_RESP)
                else
                  (fbsec_co_fd_usdo_encode_upload_req (cl_node_id c) target_node session want_index
                     want_sub None 0, FBSEC_CO_FD_USDO_CMD_UPLOAD_RESP))
             in (case req of
                   None \<Rightarrow> Some ((SECP_PROTOCOL, [], 0), c1)
                 | Some f \<Rightarrow>
                     (case round_trip C (mux_expectation expected_cmd
                              FBSEC_CO_FD_USDO_CMD_UPLOAD_INIT_RESP target_node session data_id buf_size)
                              f timeout_ms c1 of
                        None \<Rightarrow> None
                      | Some ((rc, ac, res), c2) \<Rightarrow>
                          if rc \<noteq> SECP_OK then Some ((rc, [], ac), c2)
                          else if res_cmd res = FBSEC_CO_FD_USDO_CMD_UPLOAD_INIT_RESP then
                            seg_upload_pull C target_node session (res_total_size res) buf_size
                              timeout_ms c2
                          else Some ((SECP_OK, res_data res, 0), c2)))))"

text \<open>The segments and the end message of a download, from the bytes that are left.\<close>

function seg_download_push ::
  "'w carrier \<Rightarrow> u8 \<Rightarrow> u8 \<Rightarrow> u32 \<Rightarrow> u8 \<Rightarrow> bytes \<Rightarrow> 'w client \<Rightarrow>
   ((secp_status \<times> abort) \<times> 'w client) option" where
  "seg_download_push C target session timeout_ms counter rest c =
     (if length rest > FBSEC_CO_FD_USDO_SEG_DATA_MAX then
        (case fbsec_co_fd_usdo_encode_download_seg_req (cl_node_id c) target session counter (Some rest) of
           None \<Rightarrow> Some ((SECP_PROTOCOL, 0), c)
         | Some req \<Rightarrow>
             (case round_trip C (seg_expectation FBSEC_CO_FD_USDO_CMD_DOWNLOAD_SEG_RESP 0 target session)
                     req timeout_ms c of
                None \<Rightarrow> None
              | Some ((rc, ac, res), c1) \<Rightarrow>
                  if rc \<noteq> SECP_OK then Some ((rc, ac), c1)
                  else if res_counter res \<noteq> counter then Some ((SECP_PROTOCOL, 0), c1)
                  else seg_download_push C target session timeout_ms (counter + 1)
                         (drop FBSEC_CO_FD_USDO_SEG_DATA_MAX rest) c1))
      else
        (case fbsec_co_fd_usdo_encode_download_end_req (cl_node_id c) target session (Some rest)
                (of_nat (length rest)) of
           None \<Rightarrow> Some ((SECP_PROTOCOL, 0), c)
         | Some req \<Rightarrow>
             (case round_trip C (seg_expectation FBSEC_CO_FD_USDO_CMD_DOWNLOAD_END_RESP 0 target session)
                     req timeout_ms c of
                None \<Rightarrow> None
              | Some ((rc, ac, res), c1) \<Rightarrow> Some ((rc, ac), c1))))"
  by pat_completeness auto

termination
  by (relation "measure (\<lambda>(C, target, session, timeout_ms, counter, rest, c). length rest)") auto

declare seg_download_push.simps [simp del]

definition transport_write ::
  "'w carrier \<Rightarrow> u16 \<Rightarrow> u32 \<Rightarrow> bytes \<Rightarrow> u32 \<Rightarrow> 'w client \<Rightarrow>
   ((secp_status \<times> abort) \<times> 'w client) option" where
  "transport_write C device_id data_id buf timeout_ms c =
     (let want_index = ucast (drop_bit 16 data_id) :: u16;
          want_sub = ucast (drop_bit 8 data_id) :: u8;
          target_node = ucast device_id :: u8
      in if target_node = 0 \<or> target_node > FBSEC_CO_FD_NODE_ID_MAX then Some ((SECP_PROTOCOL, 0), c)
         else if length buf \<le> FBSEC_CO_FD_USDO_DATA_MAX then
           (case next_session c of (session, c1) \<Rightarrow>
             (case fbsec_co_fd_usdo_encode_download_req (cl_node_id c) target_node session want_index
                     want_sub (Some buf) (of_nat (length buf)) of
                None \<Rightarrow> Some ((SECP_PROTOCOL, 0), c1)
              | Some req \<Rightarrow>
                  (case round_trip C (mux_expectation FBSEC_CO_FD_USDO_CMD_DOWNLOAD_RESP 0 target_node
                           session data_id FBSEC_CO_FD_PAYLOAD_MAX) req timeout_ms c1 of
                     None \<Rightarrow> None
                   | Some ((rc, ac, res), c2) \<Rightarrow> Some ((rc, ac), c2))))
         else if length buf > FBSEC_CO_FD_USDO_SEG_BODY_MAX then Some ((SECP_BUFSIZE, 0), c)
         else
           (case next_session c of (session, c1) \<Rightarrow>
             (case fbsec_co_fd_usdo_encode_download_init_req (cl_node_id c) target_node session want_index
                     want_sub (of_nat (length buf)) of
                None \<Rightarrow> Some ((SECP_PROTOCOL, 0), c1)
              | Some req \<Rightarrow>
                  (case round_trip C (mux_expectation FBSEC_CO_FD_USDO_CMD_DOWNLOAD_INIT_RESP 0
                           target_node session data_id FBSEC_CO_FD_PAYLOAD_MAX) req timeout_ms c1 of
                     None \<Rightarrow> None
                   | Some ((rc, ac, res), c2) \<Rightarrow>
                       if rc \<noteq> SECP_OK then Some ((rc, ac), c2)
                       else seg_download_push C target_node session timeout_ms 0 buf c2))))"

text \<open>
  The vtable \<open>g_transport\<close>. Its functions have no result where the receive loop
  never ends; the record shows that as a timeout, and the lemmas below say when
  a result exists.
\<close>

definition g_transport :: "'w carrier \<Rightarrow> 'w client transport" where
  "g_transport C = \<lparr>
     tp_read = (\<lambda>dev d body n t c.
       case transport_read C dev d body n t c of Some r \<Rightarrow> r | None \<Rightarrow> ((SECP_TIMEOUT, [], 0), c)),
     tp_write = (\<lambda>dev d b t c.
       case transport_write C dev d b t c of Some r \<Rightarrow> r | None \<Rightarrow> ((SECP_TIMEOUT, 0), c))\<rparr>"

definition fbsec_secure_port_get_client_id :: "'w client \<Rightarrow> u16" where
  "fbsec_secure_port_get_client_id c = ucast (cl_node_id c)"

section \<open>Sessions\<close>

lemma next_session_facts:
  assumes "next_session c = (n, c')"
  shows "n \<noteq> 0" "c' = c\<lparr>cl_session := n\<rparr>"
  using assms by (auto simp: next_session_def Let_def split: if_splits)

section \<open>Every call returns\<close>

text \<open>
  A carrier whose receive cannot deliver frames for ever: some measure of its
  state goes down with every delivered frame and never up.
\<close>

definition carrier_runs_dry :: "'w carrier \<Rightarrow> ('w \<Rightarrow> nat) \<Rightarrow> bool" where
  "carrier_runs_dry C m \<longleftrightarrow>
     (\<forall>d w f w'. carrier_recv C d w = ((CARRIER_OK, f), w') \<longrightarrow> m w' < m w)"

lemma await_returns:
  assumes "carrier_runs_dry C m"
  shows "\<exists>r. await_response C node x d w = Some r"
proof (induction "m w" arbitrary: w rule: less_induct)
  case less
  obtain st f w1 where r: "carrier_recv C d w = ((st, f), w1)" by (metis surj_pair)
  have "\<exists>r. await_response C node x d w1 = Some r" if "st = CARRIER_OK"
    using less assms r that unfolding carrier_runs_dry_def by blast
  then show ?case by (subst await_response.simps) (auto simp: r split: option.split)
qed

lemma round_trip_returns:
  "carrier_runs_dry C m \<Longrightarrow> \<exists>r. round_trip C x req t c = Some r"
  using await_returns [of C m "cl_node_id c" x]
  by (auto simp: round_trip_def split: prod.split option.split) (metis option.distinct(1))

lemma seg_upload_loop_returns:
  assumes "carrier_runs_dry C m"
  shows "\<exists>r. seg_upload_loop C target session announced t got counter c = Some r"
  using assms
proof (induction C target session announced t got counter c rule: seg_upload_loop.induct)
  case (1 C target session announced t got counter c)
  show ?case
  proof (cases "fbsec_co_fd_usdo_encode_upload_seg_req (cl_node_id c) target session counter")
    case None
    then show ?thesis by (simp add: seg_upload_loop.simps)
  next
    case (Some seg)
    obtain rc ac res c1 where r: "round_trip C (seg_expectation FBSEC_CO_FD_USDO_CMD_UPLOAD_SEG_RESP
        FBSEC_CO_FD_USDO_CMD_UPLOAD_END_RESP target session) seg t c = Some ((rc, ac, res), c1)"
      using round_trip_returns [OF "1.prems"] by (metis surj_pair)
    show ?thesis
      by (subst seg_upload_loop.simps)
         (use "1.IH" [OF Some r refl refl refl] "1.prems" in
           \<open>auto simp: Some r Let_def\<close>)
  qed
qed

lemma transport_read_returns:
  assumes "carrier_runs_dry C m"
  shows "\<exists>r. transport_read C dev d body n t c = Some r"
proof -
  have rt: "round_trip C x req t c \<noteq> None" for x req c using round_trip_returns [OF assms] by simp
  then show ?thesis
    using seg_upload_loop_returns [OF assms]
    by (auto simp: rt transport_read_def seg_upload_pull_def Let_def split: prod.split option.split)
qed

lemma seg_download_push_returns:
  assumes "carrier_runs_dry C m"
  shows "\<exists>r. seg_download_push C target session t counter rest c = Some r"
  using assms
proof (induction C target session t counter rest c rule: seg_download_push.induct)
  case (1 C target session t counter rest c)
  have rt: "round_trip C x req t c \<noteq> None" for x req c using round_trip_returns [OF "1.prems"] by simp
  then show ?case
    using "1.IH" "1.prems"
    by (subst seg_download_push.simps) (auto simp: rt split: option.split prod.split)
qed

lemma transport_write_returns:
  assumes "carrier_runs_dry C m"
  shows "\<exists>r. transport_write C dev d b t c = Some r"
proof -
  have rt: "round_trip C x req t c \<noteq> None" for x req c using round_trip_returns [OF assms] by simp
  then show ?thesis
    using seg_download_push_returns [OF assms]
    by (auto simp: rt transport_write_def Let_def split: prod.split option.split)
qed

end
