(* ===== verification/Transport_Refinement.thy ===== *)
theory Transport_Refinement
  imports Secure_Proto
begin

text \<open>
  Replacing one transport by another under the client engine. When two
  transports give the same results for one device and one object, as long as
  the worlds are related, then every operation of the engine gives the same
  result over both and leaves the worlds related.
\<close>

definition agree :: "('v \<Rightarrow> 'w \<Rightarrow> bool) \<Rightarrow> 'r \<times> 'v \<Rightarrow> 'r \<times> 'w \<Rightarrow> bool" where
  "agree R p q \<longleftrightarrow> fst p = fst q \<and> R (snd p) (snd q)"

lemma agreeI [intro]: "r = r' \<Longrightarrow> R v w \<Longrightarrow> agree R (r, v) (r', w)"
  by (simp add: agree_def)

lemma agree_result:
  "agree R (r, v) q \<Longrightarrow> \<exists>w. q = (r, w) \<and> R v w"
  by (cases q) (simp add: agree_def)

locale transport_refinement =
  fixes T1 :: "'v transport" and T2 :: "'w transport"
    and C1 :: "'v client_port" and C2 :: "'w client_port"
    and R :: "'v \<Rightarrow> 'w \<Rightarrow> bool" and dev :: u16 and d :: u32
  assumes exchange_read: "R v w \<Longrightarrow> length body \<le> 56 \<Longrightarrow>
      agree R (tp_read T1 dev d body n t v) (tp_read T2 dev d body n t w)"
    and exchange_write: "R v w \<Longrightarrow> body \<noteq> [] \<Longrightarrow> length body \<le> 256 \<Longrightarrow>
      agree R (tp_write T1 dev d body t v) (tp_write T2 dev d body t w)"
    and random: "R v w \<Longrightarrow> agree R (secure_port_random C1 k v) (secure_port_random C2 k w)"
    and random_length: "R v w \<Longrightarrow> secure_port_random C1 k v = (Some b, v') \<Longrightarrow> length b = k"
    and client_id: "R v w \<Longrightarrow> secure_port_get_client_id C1 v = secure_port_get_client_id C2 w"
    and salt: "R v w \<Longrightarrow> R (notify_salt C1 b v) (notify_salt C2 b w)"
begin

lemma read_result:
  assumes "R v w" "length body \<le> 56" "tp_read T1 dev d body n t v = (r, v')"
  shows "\<exists>w'. tp_read T2 dev d body n t w = (r, w') \<and> R v' w'"
  using exchange_read [OF assms(1,2)] assms(3) agree_result by metis

lemma write_result:
  assumes "R v w" "body \<noteq> []" "length body \<le> 256" "tp_write T1 dev d body t v = (r, v')"
  shows "\<exists>w'. tp_write T2 dev d body t w = (r, w') \<and> R v' w'"
  using exchange_write [OF assms(1-3)] assms(4) agree_result by metis

lemma random_result:
  assumes "R v w" "secure_port_random C1 k v = (r, v')"
  shows "\<exists>w'. secure_port_random C2 k w = (r, w') \<and> R v' w'"
  using random [OF assms(1)] assms(2) agree_result by metis

text \<open>The exchange of a read: the arming with a fresh random and the fetch.\<close>

lemma secure_read:
  assumes "R v w"
  shows "agree R (fbsec_secure_read g C1 T1 dev d key kid n t v) (fbsec_secure_read g C2 T2 dev d key kid n t w)"
proof -
  obtain r v1 where r: "secure_port_random C1 12 v = (r, v1)" by force
  obtain w1 where w1: "secure_port_random C2 12 w = (r, w1)" "R v1 w1"
    using random_result [OF assms r] by blast
  show ?thesis
  proof (cases r)
    case None
    then show ?thesis using r w1 assms by (auto simp: fbsec_secure_read_def)
  next
    case (Some cr)
    have len: "length cr = 12" using random_length [OF assms] r Some by blast
    let ?v2 = "notify_salt C1 cr v1" and ?w2 = "notify_salt C2 cr w1"
    obtain rc ac v3 where a: "tp_write T1 dev d (kid # cr) t ?v2 = ((rc, ac), v3)" by (metis surj_pair)
    obtain w3 where w3: "tp_write T2 dev d (kid # cr) t ?w2 = ((rc, ac), w3)" "R v3 w3"
      using write_result [OF salt [OF w1(2)] _ _ a] len by auto
    obtain rc' resp ac' v4 where b: "tp_read T1 dev d [] RESPONSE_BUF_LEN t v3 = ((rc', resp, ac'), v4)"
      by (metis surj_pair)
    obtain w4 where w4: "tp_read T2 dev d [] RESPONSE_BUF_LEN t w3 = ((rc', resp, ac'), w4)" "R v4 w4"
      using read_result [OF w3(2) _ b] by auto
    show ?thesis
      using r w1 a w3 b w4 assms Some client_id [OF w4(2)]
      by (auto simp: fbsec_secure_read_def Let_def split: option.split)
  qed
qed

lemma secure_read_armed:
  assumes "R v w"
  shows "agree R (fbsec_secure_read_armed g C1 T1 dev d key kid n t sess v)
    (fbsec_secure_read_armed g C2 T2 dev d key kid n t sess w)"
proof -
  obtain r v1 where r: "secure_port_random C1 12 v = (r, v1)" by force
  obtain w1 where w1: "secure_port_random C2 12 w = (r, w1)" "R v1 w1"
    using random_result [OF assms r] by blast
  show ?thesis
  proof (cases r)
    case None
    then show ?thesis using r w1 assms by (auto simp: fbsec_secure_read_armed_def Let_def)
  next
    case (Some cr)
    have len: "length cr = 12" using random_length [OF assms] r Some by blast
    let ?v2 = "notify_salt C1 cr v1" and ?w2 = "notify_salt C2 cr w1"
    obtain rc ac v3 where a: "tp_write T1 dev d ((kid OR 0x40) # cr) t ?v2 = ((rc, ac), v3)"
      by (metis surj_pair)
    obtain w3 where w3: "tp_write T2 dev d ((kid OR 0x40) # cr) t ?w2 = ((rc, ac), w3)" "R v3 w3"
      using write_result [OF salt [OF w1(2)] _ _ a] len by auto
    obtain rc' resp ac' v4 where b: "tp_read T1 dev d [] RESPONSE_BUF_LEN t v3 = ((rc', resp, ac'), v4)"
      by (metis surj_pair)
    obtain w4 where w4: "tp_read T2 dev d [] RESPONSE_BUF_LEN t w3 = ((rc', resp, ac'), w4)" "R v4 w4"
      using read_result [OF w3(2) _ b] by auto
    show ?thesis
      using r w1 a w3 b w4 assms Some client_id [OF w4(2)]
      by (auto simp: fbsec_secure_read_armed_def Let_def split: option.split)
  qed
qed

text \<open>The frame of a write stays within the segmented transfer's limit.\<close>

lemma sealed_length:
  assumes "gcm_ok g" "length key = FBSEC_AEAD_KEY_SIZE" "length nonce = FBSEC_AEAD_NONCE_SIZE"
    "fbsec_aead_seal g key nonce dir kid s c i cr sr pt = Some (ct, tag)" "length rnd \<le> 12"
  shows "length (rnd @ ct @ tag) \<le> 255"
  using seal_lengths [OF assms(1-4)] assms(5) by simp

lemma secure_write:
  assumes "R v w" "gcm_ok g" "length key = FBSEC_AEAD_KEY_SIZE"
  shows "agree R (fbsec_secure_write g C1 T1 dev d key kid buf t v) (fbsec_secure_write g C2 T2 dev d key kid buf t w)"
proof -
  obtain rc sr ac v1 where a: "tp_read T1 dev d [] 12 t v = ((rc, sr, ac), v1)" by (metis surj_pair)
  obtain w1 where w1: "tp_read T2 dev d [] 12 t w = ((rc, sr, ac), w1)" "R v1 w1"
    using read_result [OF assms(1) _ a] by auto
  let ?v2 = "notify_salt C1 sr v1" and ?w2 = "notify_salt C2 sr w1"
  obtain r v3 where r: "secure_port_random C1 12 ?v2 = (r, v3)" by force
  obtain w3 where w3: "secure_port_random C2 12 ?w2 = (r, w3)" "R v3 w3"
    using random_result [OF salt [OF w1(2)] r] by blast
  have "agree R (tp_write T1 dev d (kid # cr @ ct @ tag) t v3) (tp_write T2 dev d (kid # cr @ ct @ tag) t w3)"
    if "r = Some cr" "fbsec_aead_seal g key (fbsec_aead_xor_nonce cr sr) FBSEC_AEAD_DIR_WRITE_REQUEST
      kid dev cid d (Some cr) (Some sr) buf = Some (ct, tag)" for cr ct tag cid
    using exchange_write [OF w3(2), of "kid # cr @ ct @ tag" t] sealed_length [OF assms(2,3) _ that(2), of cr]
      random_length [OF salt [OF w1(2)]] r that(1) by auto
  then show ?thesis
    using a w1 r w3 assms(1) client_id [OF w3(2)]
    by (auto simp: fbsec_secure_write_def Let_def split: option.split)
qed

lemma secure_write_armed:
  assumes "R v w" "gcm_ok g" "length key = FBSEC_AEAD_KEY_SIZE"
  shows "agree R (fbsec_secure_write_armed g C1 T1 dev d key kid buf t sess v)
    (fbsec_secure_write_armed g C2 T2 dev d key kid buf t sess w)"
proof -
  obtain rc sr ac v1 where a: "tp_read T1 dev d [] 12 t v = ((rc, sr, ac), v1)" by (metis surj_pair)
  obtain w1 where w1: "tp_read T2 dev d [] 12 t w = ((rc, sr, ac), w1)" "R v1 w1"
    using read_result [OF assms(1) _ a] by auto
  let ?v2 = "notify_salt C1 sr v1" and ?w2 = "notify_salt C2 sr w1"
  obtain r v3 where r: "secure_port_random C1 12 ?v2 = (r, v3)" by force
  obtain w3 where w3: "secure_port_random C2 12 ?w2 = (r, w3)" "R v3 w3"
    using random_result [OF salt [OF w1(2)] r] by blast
  have "\<exists>rc ac v4 w4. tp_write T1 dev d ((kid OR 0x40) # cr @ ct @ tag) t v3 = ((rc, ac), v4) \<and>
      tp_write T2 dev d ((kid OR 0x40) # cr @ ct @ tag) t w3 = ((rc, ac), w4) \<and> R v4 w4"
    if "r = Some cr" "fbsec_aead_seal g key (fbsec_aead_xor_nonce cr sr) FBSEC_AEAD_DIR_WRITE_REQUEST
      (kid OR 0x40) dev cid d (Some cr) (Some sr) buf = Some (ct, tag)" for cr ct tag cid
    using exchange_write [OF w3(2), of "(kid OR 0x40) # cr @ ct @ tag" t]
      sealed_length [OF assms(2,3) _ that(2), of cr]
      random_length [OF salt [OF w1(2)]] r that(1)
    by (auto simp: agree_def) (metis prod.collapse)
  then show ?thesis
    using a w1 r w3 assms(1) client_id [OF w3(2)]
    by (fastforce simp: fbsec_secure_write_armed_def Let_def split: option.split)
qed

lemma poll_read:
  assumes "R v w" "se_data_id sess = d"
  shows "agree R (fbsec_secure_poll_read g C1 T1 dev key t sess n v) (fbsec_secure_poll_read g C2 T2 dev key t sess n w)"
proof -
  let ?b = "[ucast (se_counter sess + 1) :: u8]"
  obtain rc resp ac v1 where a: "tp_read T1 dev d ?b POLL_BUF_LEN t v = ((rc, resp, ac), v1)" by (metis surj_pair)
  obtain w1 where w1: "tp_read T2 dev d ?b POLL_BUF_LEN t w = ((rc, resp, ac), w1)" "R v1 w1"
    using read_result [OF assms(1) _ a] by auto
  show ?thesis
    using a w1 assms client_id [OF w1(2)]
    by (auto simp: fbsec_secure_poll_read_def Let_def split: option.split)
qed

lemma poll_write:
  assumes "R v w" "se_data_id sess = d" "gcm_ok g" "length key = FBSEC_AEAD_KEY_SIZE"
    "length (se_nonce_base sess) = FBSEC_AEAD_NONCE_SIZE"
  shows "agree R (fbsec_secure_poll_write g C1 T1 dev key t sess plain v)
    (fbsec_secure_poll_write g C2 T2 dev key t sess plain w)"
proof -
  let ?k = "ucast (se_counter sess + 1) :: u8"
  have nonce: "length (session_build_nonce sess k) = FBSEC_AEAD_NONCE_SIZE" for k
    using assms(5) by (simp add: session_build_nonce_def Let_def)
  have "\<exists>rc ac v4 w4. tp_write T1 dev d (?k # ct @ tag) t v = ((rc, ac), v4) \<and>
      tp_write T2 dev d (?k # ct @ tag) t w = ((rc, ac), w4) \<and> R v4 w4"
    if "fbsec_aead_seal g key (session_build_nonce sess (se_counter sess + 1)) FBSEC_AEAD_DIR_WRITE_POLL_REQUEST
      (se_key_id sess) dev cid d None None plain = Some (ct, tag)" for ct tag cid
    using exchange_write [OF assms(1), of "?k # ct @ tag" t] sealed_length [OF assms(3,4) nonce that, of "[]"]
    by (auto simp: agree_def) (metis prod.collapse)
  then show ?thesis
    using assms(1,2) client_id [OF assms(1)]
    by (fastforce simp: fbsec_secure_poll_write_def Let_def split: option.split)
qed

end

end
