(* ===== verification/Co_Fd_Link.thy ===== *)
theory Co_Fd_Link
  imports Co_Fd_Client Co_Fd_Server_Props Transport_Refinement
begin

text \<open>
  Client and server transport together. The carrier \<open>pipe\<close> hands a frame to the
  server's receive loop at once and queues what it sends; over it a call of the
  client's vtable is one request to the reference server, whatever frames and
  segments it took, and leaves the two ends ready for the next call.
\<close>

section \<open>The pipe\<close>

record 'e wire =
  wi_co_fd :: co_fd
  wi_server :: "'e srv"
  wi_queue :: "frame list"

definition pipe :: "ed25519 \<Rightarrow> gcm \<Rightarrow> 'e platform \<Rightarrow> 'e wire carrier" where
  "pipe E g F = \<lparr>
     carrier_send = (\<lambda>f w.
       if fbsec_co_fd_frame_validate f \<noteq> VALID_OK then (CARRIER_FRAME, w)
       else (case run_dispatch_frame E g F f (wi_co_fd w) (wi_server w) of
               (out, c, s) \<Rightarrow>
                 (CARRIER_OK, \<lparr>wi_co_fd = c, wi_server = s, wi_queue = wi_queue w @ out\<rparr>))),
     carrier_recv = (\<lambda>d w.
       case wi_queue w of
         [] \<Rightarrow> ((CARRIER_TIMEOUT, fbsec_co_fd_frame_init 0 False), w)
       | f # fs \<Rightarrow> ((CARRIER_OK, f), w\<lparr>wi_queue := fs\<rparr>)),
     carrier_now_ms = (\<lambda>w. 0)\<rparr>"

lemma pipe_runs_dry: "carrier_runs_dry (pipe E g F) (\<lambda>w. length (wi_queue w))"
  by (auto simp: carrier_runs_dry_def pipe_def split: list.splits)

section \<open>Responses\<close>

fun msg_data :: "usdo_msg \<Rightarrow> bytes" where
  "msg_data (Download_Resp i j d) = d"
| "msg_data (Upload_Resp i j d) = d"
| "msg_data (Upload_Seg_Resp k d) = d"
| "msg_data (Upload_End_Resp d) = d"
| "msg_data _ = []"

fun msg_mux :: "usdo_msg \<Rightarrow> (u16 \<times> u8) option" where
  "msg_mux (Download_Resp i j d) = Some (i, j)"
| "msg_mux (Upload_Resp i j d) = Some (i, j)"
| "msg_mux (Download_Init_Resp i j) = Some (i, j)"
| "msg_mux (Upload_Init_Resp i j n) = Some (i, j)"
| "msg_mux (Abort_Msg i j ac) = Some (i, j)"
| "msg_mux _ = None"

text \<open>What the receive loop of the client makes of a response that answers its request.\<close>

fun msg_outcome :: "expectation \<Rightarrow> usdo_msg \<Rightarrow> secp_status \<times> abort" where
  "msg_outcome x (Abort_Msg i j ac) = (SECP_ABORT, ac)"
| "msg_outcome x m =
     (if msg_cmd m \<noteq> ex_cmd x \<and> (ex_alt x = 0 \<or> msg_cmd m \<noteq> ex_alt x) then (SECP_PROTOCOL, 0)
      else if length (msg_data m) > ex_buf_size x then (SECP_BUFSIZE, 0)
      else (SECP_OK, 0))"

definition result_of :: "usdo_msg \<Rightarrow> rt_result \<Rightarrow> bool" where
  "result_of m r \<longleftrightarrow> res_cmd r = msg_cmd m \<and> res_data r = msg_data m \<and>
     (case m of Download_Seg_Resp k \<Rightarrow> res_counter r = k | Upload_Seg_Resp k d \<Rightarrow> res_counter r = k
      | Upload_Init_Resp i j n \<Rightarrow> res_total_size r = n | _ \<Rightarrow> True)"

lemma response_seen:
  assumes f: "usdo_carries b a ses m f" and r: "\<not> cmd_is_request (msg_cmd m)" and b: "node_ok b"
    and x: "ex_node x = b" "ex_session x = ses"
      "ex_match_mux x \<Longrightarrow> msg_mux m = Some (ex_index x, ex_sub x)"
  shows "\<exists>res. response_outcome a x f = Some (fst (msg_outcome x m), snd (msg_outcome x m), res) \<and>
    (fst (msg_outcome x m) = SECP_OK \<longrightarrow> result_of m res)"
proof -
  obtain p where p: "fbsec_co_fd_usdo_decode f = Inr p" "usdo_msg_of p = m" "pdu_cmd p = msg_cmd m"
    "pdu_src_node_id p = b" "pdu_dst_node_id p = a" "pdu_session p = ses"
    and v: "frame_ok f" "fbsec_co_fd_frame_validate f = VALID_OK"
      "fr_can_id f = fbsec_co_fd_usdo_can_id b False"
    using f r by (auto simp: usdo_carries_def)
  have "fbsec_co_fd_frame_id_value f = fbsec_co_fd_usdo_can_id b False"
    by (simp add: fbsec_co_fd_frame_id_value_def v(3) usdo_frame_id [OF b])
  then have k: "fbsec_co_fd_usdo_can_id_split (fbsec_co_fd_frame_id_value f)
      = (b, USDO_KIND_RESPONSE, True)" using can_id_split(3) [OF b, of False] by simp
  have "unat (fr_len f) \<le> 64" using validate_ok_len [OF v(2)] .
  then have len: "unat (pdu_data_len p) = length (case pdu_data p of None \<Rightarrow> [] | Some d \<Rightarrow> d)"
    using decode_ok [OF p(1) v(1)] by (simp add: pdu_ok_def)
  then have data: "(case pdu_data p of None \<Rightarrow> [] | Some d \<Rightarrow> take (unat (pdu_data_len p)) d)
      = (case pdu_data p of None \<Rightarrow> [] | Some d \<Rightarrow> d)"
    by (auto split: option.splits)
  have mux: "ex_match_mux x \<Longrightarrow> pdu_index p = ex_index x \<and> pdu_subindex p = ex_sub x"
    using x(3) p(2,3) by (cases m) (auto simp: usdo_msg_of_def Let_def)
  have d: "(case pdu_data p of None \<Rightarrow> [] | Some d \<Rightarrow> d) = msg_data m"
    using p(2,3) r decode_plain [OF p(1)]
    by (cases m) (auto simp: usdo_msg_of_def Let_def cmd_is_request_def)
  have out: "response_outcome a x f =
    (if msg_cmd m = FBSEC_CO_FD_USDO_CMD_ABORT then Some (SECP_ABORT, pdu_abort_code p, rt_none)
     else if msg_cmd m \<noteq> ex_cmd x \<and> (ex_alt x = 0 \<or> msg_cmd m \<noteq> ex_alt x) then
       Some (SECP_PROTOCOL, 0, rt_none)
     else if length (msg_data m) > ex_buf_size x then Some (SECP_BUFSIZE, 0, rt_none)
     else Some (SECP_OK, 0, \<lparr>res_cmd = msg_cmd m, res_data_type = pdu_data_type p,
       res_counter = pdu_counter p, res_total_size = pdu_total_size p, res_data = msg_data m\<rparr>))"
    using p k x(1,2) mux d len data by (auto simp: response_outcome_def)
  show ?thesis
    using p(2,3) unfolding out result_of_def
    by (cases m) (auto simp: usdo_msg_of_def Let_def)
qed

section \<open>One exchange\<close>

text \<open>
  The two ends between calls: the client \<open>a\<close> and the server \<open>b\<close> with nothing on
  the wire and the server well formed.
\<close>

definition linked :: "u8 \<Rightarrow> u8 \<Rightarrow> 'e wire client \<Rightarrow> bool" where
  "linked a b c \<longleftrightarrow> cl_node_id c = a \<and> node_ok a \<and> node_ok b \<and>
     g_node_id (wi_co_fd (cl_carrier c)) = b \<and> wi_queue (cl_carrier c) = [] \<and>
     co_fd_wf (wi_co_fd (cl_carrier c)) \<and> srv_wf (wi_server (cl_carrier c))"

definition with_wire :: "co_fd \<Rightarrow> 'e srv \<Rightarrow> 'e wire client \<Rightarrow> 'e wire client" where
  "with_wire co s c = c\<lparr>cl_carrier := \<lparr>wi_co_fd = co, wi_server = s, wi_queue = []\<rparr>\<rparr>"

lemma with_wire_simps [simp]:
  "cl_node_id (with_wire co s c) = cl_node_id c" "cl_session (with_wire co s c) = cl_session c"
  "cl_carrier (with_wire co s c) = \<lparr>wi_co_fd = co, wi_server = s, wi_queue = []\<rparr>"
  "with_wire co s (with_wire co' s' c) = with_wire co s c"
  by (simp_all add: with_wire_def)

lemma round_trip_pipe:
  assumes v: "fbsec_co_fd_frame_validate f = VALID_OK" and q: "wi_queue (cl_carrier c) = []"
    and run: "run_dispatch_frame E g F f (wi_co_fd (cl_carrier c)) (wi_server (cl_carrier c)) = ([resp], co, s)"
    and out: "response_outcome (cl_node_id c) x resp = Some r"
  shows "round_trip (pipe E g F) x f t c = Some (r, with_wire co s c)"
proof -
  have "await_response (pipe E g F) (cl_node_id c) x t \<lparr>wi_co_fd = co, wi_server = s, wi_queue = [resp]\<rparr>
      = Some (r, \<lparr>wi_co_fd = co, wi_server = s, wi_queue = []\<rparr>)"
    by (subst await_response.simps) (simp add: pipe_def out)
  then show ?thesis using v q run by (simp add: round_trip_def pipe_def with_wire_def)
qed

text \<open>The exchange of a request frame for the response that answers it.\<close>

lemma exchange:
  assumes f: "usdo_carries a b ses m f" and q: "wi_queue (cl_carrier c) = []" and a: "cl_node_id c = a"
    and run: "run_dispatch_frame E g F f (wi_co_fd (cl_carrier c)) (wi_server (cl_carrier c)) = ([resp], co, s)"
    and resp: "usdo_carries b a ses m' resp" "\<not> cmd_is_request (msg_cmd m')" "node_ok b"
    and x: "ex_node x = b" "ex_session x = ses"
      "ex_match_mux x \<Longrightarrow> msg_mux m' = Some (ex_index x, ex_sub x)"
  shows "\<exists>res. round_trip (pipe E g F) x f t c =
      Some ((fst (msg_outcome x m'), snd (msg_outcome x m'), res), with_wire co s c) \<and>
    (fst (msg_outcome x m') = SECP_OK \<longrightarrow> result_of m' res)"
proof -
  obtain res where "response_outcome a x resp = Some (fst (msg_outcome x m'), snd (msg_outcome x m'), res)"
    "fst (msg_outcome x m') = SECP_OK \<longrightarrow> result_of m' res"
    using response_seen [OF resp x] by blast
  moreover have "fbsec_co_fd_frame_validate f = VALID_OK" using f by (simp add: usdo_carries_def)
  ultimately show ?thesis using round_trip_pipe [OF _ q run] a by blast
qed

section \<open>Segmented upload\<close>

definition env_ok :: "ed25519 \<Rightarrow> gcm \<Rightarrow> 'e platform \<Rightarrow> bool" where
  "env_ok E g F \<longleftrightarrow> ed_ok E \<and> platform_ok F \<and> gcm_ok g"

lemma linked_step:
  assumes "linked a b c" "env_ok E g F" "g_node_id co = b"
    "run_dispatch_frame E g F f (wi_co_fd (cl_carrier c)) (wi_server (cl_carrier c)) = (out, co, s)"
  shows "linked a b (with_wire co s c)"
  using assms run_dispatch_frame_wf [OF assms(4)] by (auto simp: linked_def env_ok_def)

lemma of_nat_u32_le: "m \<le> n \<Longrightarrow> n \<le> 256 \<Longrightarrow> \<not> (of_nat n :: u32) < of_nat m"
  by (simp add: word_less_nat_alt unat_of_nat take_bit_nat_eq_self)

lemma seg_upload_loop_pipe:
  assumes "linked a b c" "ses \<noteq> 0" "env_ok E g F"
    "parked (wi_co_fd (cl_carrier c)) a ses data k h" "h = 60 * unat k"
  shows "\<exists>co. seg_upload_loop (pipe E g F) b ses (of_nat (length data)) t (take h data) k c =
      Some ((SECP_OK, data, 0), with_wire co (wi_server (cl_carrier c)) c) \<and>
    linked a b (with_wire co (wi_server (cl_carrier c)) c)"
  using assms
proof (induction "length data - h" arbitrary: h k c rule: less_induct)
  case less
  note l = less.prems(1) and parked = less.prems(4)
  let ?co = "wi_co_fd (cl_carrier c)" and ?s = "wi_server (cl_carrier c)"
  let ?x = "seg_expectation FBSEC_CO_FD_USDO_CMD_UPLOAD_SEG_RESP FBSEC_CO_FD_USDO_CMD_UPLOAD_END_RESP b ses"
  have ok: "node_ok a" "node_ok b" "g_node_id ?co = b" "cl_node_id c = a" "wi_queue (cl_carrier c) = []"
    using l by (auto simp: linked_def)
  have len: "h \<le> length data" "length data \<le> 256" using parked by (auto simp: parked_def Let_def)
  obtain f where f: "fbsec_co_fd_usdo_encode_upload_seg_req a b ses k = Some f"
    "usdo_carries a b ses (Upload_Seg_Req k) f"
    using sent_carries [OF refl ok(1,2) less.prems(2), of "Upload_Seg_Req k"] by auto
  obtain resp co where run: "run_dispatch_frame E g F f ?co ?s = ([resp], co, ?s)" "g_node_id co = b"
    and resp: "if 60 < length (drop h data)
     then usdo_carries b a ses (Upload_Seg_Resp k (take 60 (drop h data))) resp \<and>
       parked co a ses data (k + 1) (h + 60)
     else usdo_carries b a ses (Upload_End_Resp (drop h data)) resp \<and> \<not> ul_active (g_segul co)"
    using dispatch_upload_segment [OF f(2) parked ok(1-3) less.prems(2)] by blast
  have l': "linked a b (with_wire co ?s c)" by (rule linked_step [OF l less.prems(3) run(2,1)])
  note ex = exchange [OF f(2) ok(5,4) run(1) _ _ ok(2), where x = ?x]
  show ?case
  proof (cases "60 < length (drop h data)")
    case True
    have k: "unat k \<le> 3" using True len less.prems(5) by auto
    then have k1: "h + 60 = 60 * unat (k + 1)" "k \<noteq> 0xFF"
      using less.prems(5) by (auto simp: unat_word_ariths)
    obtain res where "round_trip (pipe E g F) ?x f t c = Some ((SECP_OK, 0, res), with_wire co ?s c)"
      "result_of (Upload_Seg_Resp k (take 60 (drop h data))) res"
      using ex [of "Upload_Seg_Resp k (take 60 (drop h data))"] resp True
      by (auto simp: seg_expectation_def cmd_is_request_def)
    moreover have "take h data @ take 60 (drop h data) = take (h + 60) data" by (simp add: take_add)
    moreover obtain co' where "seg_upload_loop (pipe E g F) b ses (of_nat (length data)) t (take (h + 60) data)
        (k + 1) (with_wire co ?s c) = Some ((SECP_OK, data, 0), with_wire co' ?s c)"
      "linked a b (with_wire co' ?s c)"
      using less.hyps [OF _ l' less.prems(2,3) _ k1(1)] True resp by (force simp del: k1)
    moreover have "\<not> (of_nat h + of_nat 60 :: u32) > of_nat (length data)"
      using of_nat_u32_le [of "h + 60" "length data"] True len by simp
    ultimately show ?thesis
      using f(1) ok(4) len True k1(2)
      by (subst seg_upload_loop.simps) (auto simp: result_of_def Let_def)
  next
    case False
    obtain res where "round_trip (pipe E g F) ?x f t c = Some ((SECP_OK, 0, res), with_wire co ?s c)"
      "result_of (Upload_End_Resp (drop h data)) res"
      using ex [of "Upload_End_Resp (drop h data)"] resp False
      by (auto simp: seg_expectation_def cmd_is_request_def)
    moreover have "\<not> (of_nat h + of_nat (length data - h) :: u32) > of_nat (length data)"
      using of_nat_u32_le [of "length data" "length data"] len by (simp flip: of_nat_add)
    ultimately show ?thesis
      using f(1) ok(4) len False l'
      by (subst seg_upload_loop.simps) (auto simp: result_of_def Let_def)
  qed
qed

section \<open>One request\<close>

lemma linked_session [simp]: "linked a b (c\<lparr>cl_session := n\<rparr>) = linked a b c"
  by (simp add: linked_def)

text \<open>What the calls return for an answer of the reference server.\<close>

fun co_read_answer :: "nat \<Rightarrow> reply \<Rightarrow> secp_status \<times> bytes \<times> abort" where
  "co_read_answer n (st, data) =
     (if st \<noteq> FBSEC_ABORT_NONE then (SECP_ABORT, [], st)
      else if length data > n then (SECP_BUFSIZE, [], 0) else (SECP_OK, data, 0))"

fun co_write_answer :: "reply \<Rightarrow> secp_status \<times> abort" where
  "co_write_answer (st, data) =
     (if st \<noteq> FBSEC_ABORT_NONE then (SECP_ABORT, st)
      else if length data > FBSEC_CO_FD_USDO_DATA_MAX then (SECP_PROTOCOL, 0) else (SECP_OK, 0))"

lemma data_id_parts:
  "(ucast (drop_bit 16 (fbsec_co_fd_data_id_from_index_sub i j)) :: u16) = i"
  "(ucast (drop_bit 8 (fbsec_co_fd_data_id_from_index_sub i j)) :: u8) = j"
  by (rule bit_word_eqI,
      auto simp: fbsec_co_fd_data_id_from_index_sub_def bit_ucast_iff bit_or_iff
          bit_drop_bit_eq bit_push_bit_iff)+

lemma dispatch_and_reply_one:
  assumes "fbsec_server_dispatch_request E g F (ucast a) (fbsec_co_fd_data_id_from_index_sub i j) body s
      = ((st, data), s')"
    and "length data \<le> 256" "0x1000 \<le> i" "ses \<noteq> 0" "node_ok a" "node_ok (g_node_id co)"
    and "length (ul_buf (g_segul co)) = 256"
  shows "\<exists>m resp co'. dispatch_and_reply E g F (seg_ctx a cmd ses i j) body co s = ([resp], co', s') \<and>
    reply_msg (seg_ctx a cmd ses i j) st data = Some m \<and>
    usdo_carries (g_node_id co) a ses m resp \<and> g_node_id co' = g_node_id co \<and>
    (st = FBSEC_ABORT_NONE \<and> 56 < length data \<longrightarrow> parked co' a ses data 0 0)"
proof -
  let ?x = "seg_ctx a cmd ses i j"
  have "\<exists>m. reply_msg ?x st data = Some m" using assms(2) by (simp add: reply_msg_def Let_def)
  then obtain m where m: "reply_msg ?x st data = Some m" by blast
  obtain out co' where r: "send_reply_cb ?x st data co = (out, co')" by fastforce
  have "list_all2 (usdo_carries (g_node_id co) a ses) [m] out"
    using send_reply_carries [of data ?x co st] assms r m by (simp add: seg_ctx_def opt_list_def)
  then obtain resp where resp: "out = [resp]" "usdo_carries (g_node_id co) a ses m resp"
    by (auto simp: list_all2_Cons1)
  have "g_node_id co' = g_node_id co"
    using arg_cong [OF r, of "\<lambda>p. g_node_id (snd p)"]
    by (simp add: send_reply_cb_def Let_def split: if_split_asm)
  moreover have "56 < length data \<Longrightarrow> st = FBSEC_ABORT_NONE \<Longrightarrow> parked co' a ses data 0 0"
    using reply_parked [of data co ?x] assms(2,7) r by (simp add: seg_ctx_def)
  ultimately show ?thesis
    using assms(1) r m resp by (simp add: dispatch_and_reply_def seg_ctx_def)
qed

lemma reply_not_request: "reply_msg x st data = Some m \<Longrightarrow> \<not> cmd_is_request (msg_cmd m)"
  by (auto simp: reply_msg_def Let_def cmd_is_request_def split: if_splits)

lemma linked_reply_length:
  assumes "linked a b c" "env_ok E g F"
    "fbsec_server_dispatch_request E g F k d body (wi_server (cl_carrier c)) = ((st, data), s')"
  shows "length data \<le> 168"
  using request_reply_length [OF assms(3)] assms(1,2) by (simp add: linked_def env_ok_def)

lemma transport_read_pipe:
  assumes l: "linked a b c" and env: "env_ok E g F" and d: "fbsec_co_fd_data_id_is_canopen_form d"
    and dev: "(ucast dev :: u8) = b" and body: "length body \<le> 56"
    and req: "fbsec_server_dispatch_request E g F (ucast a) d body (wi_server (cl_carrier c)) = (r, s')"
  shows "\<exists>co ses. transport_read (pipe E g F) dev d body n t c =
      Some (co_read_answer n r, with_wire co s' (c\<lparr>cl_session := ses\<rparr>)) \<and>
    linked a b (with_wire co s' (c\<lparr>cl_session := ses\<rparr>))"
proof -
  obtain i j where ij: "0x1000 \<le> i" "d = fbsec_co_fd_data_id_from_index_sub i j"
    using d data_id_canopen_form_iff by blast
  obtain st data where r: "r = (st, data)" by force
  obtain ses where ses: "next_session c = (ses, c\<lparr>cl_session := ses\<rparr>)" "ses \<noteq> 0"
    using next_session_facts [of c] by (metis surj_pair)
  let ?c = "c\<lparr>cl_session := ses\<rparr>" and ?co = "wi_co_fd (cl_carrier c)" and ?s = "wi_server (cl_carrier c)"
  have ok: "node_ok a" "node_ok b" "g_node_id ?co = b" "cl_node_id c = a" "wi_queue (cl_carrier c) = []"
    using l by (auto simp: linked_def)
  have len: "length data \<le> 168" using linked_reply_length [OF l env req [unfolded r]] .
  define q where "q = (if body = [] then Upload_Req i j else Download_Req i j body)"
  define cmd where "cmd = (if body = [] then FBSEC_CO_FD_USDO_CMD_UPLOAD_REQ else FBSEC_CO_FD_USDO_CMD_DOWNLOAD_REQ)"
  let ?x = "mux_expectation (if body = [] then FBSEC_CO_FD_USDO_CMD_UPLOAD_RESP
      else FBSEC_CO_FD_USDO_CMD_DOWNLOAD_RESP) FBSEC_CO_FD_USDO_CMD_UPLOAD_INIT_RESP b ses d n"
  have "usdo_msg_ok q" using ij(1) body by (simp add: q_def)
  then obtain f where f: "usdo_encode a b ses q = Some f" "usdo_carries a b ses q f"
    using sent_carries [OF refl ok(1,2) ses(2)] by blast
  have disp: "run_dispatch_frame E g F f ?co ?s = dispatch_and_reply E g F (seg_ctx a cmd ses i j) body ?co ?s"
    using f(2) dispatch_upload [OF _ ok(1,3)] dispatch_download [OF _ ok(1,3)]
    by (auto simp: q_def cmd_def split: if_splits)
  obtain m resp co where m: "run_dispatch_frame E g F f ?co ?s = ([resp], co, s')"
    "reply_msg (seg_ctx a cmd ses i j) st data = Some m" "usdo_carries b a ses m resp" "g_node_id co = b"
    "st = FBSEC_ABORT_NONE \<and> 56 < length data \<longrightarrow> parked co a ses data 0 0"
    using dispatch_and_reply_one [OF req [unfolded r ij(2)] _ ij(1) ses(2) ok(1), of ?co cmd] l len ok
    unfolding disp by (auto simp: linked_def co_fd_wf_def)
  have l': "linked a b (with_wire co s' ?c)"
    using linked_step [of a b ?c E g F co f "[resp]" s'] l env m(1,4) by simp
  have "ex_match_mux ?x \<Longrightarrow> msg_mux m = Some (ex_index ?x, ex_sub ?x)"
    using m(2) len by (auto simp: reply_msg_def Let_def mux_expectation_def seg_ctx_def ij(2)
        data_id_parts cmd_def split: if_splits)
  then obtain res where res: "round_trip (pipe E g F) ?x f t ?c =
      Some ((fst (msg_outcome ?x m), snd (msg_outcome ?x m), res), with_wire co s' ?c)"
    "fst (msg_outcome ?x m) = SECP_OK \<longrightarrow> result_of m res"
    using exchange [OF f(2), of ?c E g F resp co s' m ?x t] ok m reply_not_request [OF m(2)]
    by (auto simp: mux_expectation_def)
  have enc: "(if length body > 0
      then (fbsec_co_fd_usdo_encode_download_req a b ses i j (Some body) (of_nat (length body)),
            FBSEC_CO_FD_USDO_CMD_DOWNLOAD_RESP)
      else (fbsec_co_fd_usdo_encode_upload_req a b ses i j None 0, FBSEC_CO_FD_USDO_CMD_UPLOAD_RESP))
    = (Some f, if body = [] then FBSEC_CO_FD_USDO_CMD_UPLOAD_RESP else FBSEC_CO_FD_USDO_CMD_DOWNLOAD_RESP)"
    using f(1) by (auto simp: q_def split: if_splits)
  have read: "transport_read (pipe E g F) dev d body n t c =
    (let rc = fst (msg_outcome ?x m); ac = snd (msg_outcome ?x m); c2 = with_wire co s' ?c in
      if rc \<noteq> SECP_OK then Some ((rc, [], ac), c2)
      else if res_cmd res = FBSEC_CO_FD_USDO_CMD_UPLOAD_INIT_RESP then
        seg_upload_pull (pipe E g F) b ses (res_total_size res) n t c2
      else Some ((SECP_OK, res_data res, 0), c2))"
    unfolding transport_read_def dev ij(2) data_id_parts ses(1)
    using ok(2,4) enc res(1) ses(1) by (simp add: Let_def ij(2) split: if_split_asm)
  consider "st \<noteq> FBSEC_ABORT_NONE" | "st = FBSEC_ABORT_NONE" "56 < length data"
    | "st = FBSEC_ABORT_NONE" "length data \<le> 56" by linarith
  then show ?thesis
  proof cases
    case 1
    then have "m = Abort_Msg i j st" using m(2) by (simp add: reply_msg_def seg_ctx_def)
    then show ?thesis using read 1 r l' by auto
  next
    case 2
    then have mm: "m = Upload_Init_Resp i j (of_nat (length data))"
      using m(2) len by (simp add: reply_msg_def seg_ctx_def)
    then have out: "msg_outcome ?x m = (SECP_OK, 0)" by (simp add: mux_expectation_def)
    have total: "res_cmd res = FBSEC_CO_FD_USDO_CMD_UPLOAD_INIT_RESP"
      "res_total_size res = of_nat (length data)"
      using res(2) out by (simp_all add: mm result_of_def)
    have n: "unat (of_nat (length data) :: u32) = length data" using len by (simp add: unat_len_u32)
    obtain co' where "seg_upload_loop (pipe E g F) b ses (of_nat (length data)) t [] 0 (with_wire co s' ?c) =
        Some ((SECP_OK, data, 0), with_wire co' s' ?c)" "linked a b (with_wire co' s' ?c)"
      using seg_upload_loop_pipe [OF l' ses(2) env, of data 0 0 t] m(5) 2 by auto
    then show ?thesis
      using read out total n 2 r l' by (auto simp: seg_upload_pull_def Let_def)
  next
    case 3
    then have mm: "m = (if body = [] then Upload_Resp i j data else Download_Resp i j data)"
      using m(2) by (auto simp: reply_msg_def seg_ctx_def cmd_def split: if_split_asm)
    then have "msg_outcome ?x m = (if length data > n then (SECP_BUFSIZE, 0) else (SECP_OK, 0))"
      by (simp add: mux_expectation_def)
    then show ?thesis
      using read res(2) 3 r l' by (auto simp: mm result_of_def split: if_splits)
  qed
qed

lemma seg_download_push_pipe:
  assumes "linked a b c" "ses \<noteq> 0" "env_ok E g F" "0x1000 \<le> i"
    "reassembling (wi_co_fd (cl_carrier c)) a ses i j body k h" "h < length body"
    "fbsec_server_dispatch_request E g F (ucast a) (fbsec_co_fd_data_id_from_index_sub i j) body
      (wi_server (cl_carrier c)) = (r, s')"
  shows "\<exists>co. seg_download_push (pipe E g F) b ses t k (drop h body) c =
      Some (co_write_answer r, with_wire co s' c) \<and> linked a b (with_wire co s' c)"
  using assms
proof (induction "length body - h" arbitrary: h k c rule: less_induct)
  case less
  note l = less.prems(1) and env = less.prems(3) and re = less.prems(5) and req = less.prems(7)
  let ?co = "wi_co_fd (cl_carrier c)" and ?s = "wi_server (cl_carrier c)"
  have ok: "node_ok a" "node_ok b" "g_node_id ?co = b" "cl_node_id c = a" "wi_queue (cl_carrier c) = []"
    using l by (auto simp: linked_def)
  show ?case
  proof (cases "60 < length (drop h body)")
    case True
    let ?x = "seg_expectation FBSEC_CO_FD_USDO_CMD_DOWNLOAD_SEG_RESP 0 b ses"
    obtain f where f: "usdo_encode a b ses (Download_Seg_Req k (take 60 (drop h body))) = Some f"
      "usdo_carries a b ses (Download_Seg_Req k (take 60 (drop h body))) f"
      using sent_carries [OF refl ok(1,2) less.prems(2), of "Download_Seg_Req k (take 60 (drop h body))"]
        True by auto
    obtain ack co where run: "run_dispatch_frame E g F f ?co ?s = ([ack], co, ?s)"
      "usdo_carries b a ses (Download_Seg_Resp k) ack"
      "reassembling co a ses i j body (k + 1) (h + 60)" "g_node_id co = b"
      using dispatch_segment [OF re ok(1-3) less.prems(2) f(2) True] by blast
    have l': "linked a b (with_wire co ?s c)" by (rule linked_step [OF l env run(4,1)])
    obtain res where "round_trip (pipe E g F) ?x f t c = Some ((SECP_OK, 0, res), with_wire co ?s c)"
      "result_of (Download_Seg_Resp k) res"
      using exchange [OF f(2) ok(5,4) run(1,2) _ ok(2), of ?x t]
      by (auto simp: seg_expectation_def cmd_is_request_def)
    moreover have "fbsec_co_fd_usdo_encode_download_seg_req a b ses k (Some (drop h body)) = Some f"
      using f(1) True seg_data_take [of "drop h body"]
      by (simp add: fbsec_co_fd_usdo_encode_download_seg_req_def)
    moreover obtain co' where "seg_download_push (pipe E g F) b ses t (k + 1) (drop (h + 60) body)
        (with_wire co ?s c) = Some (co_write_answer r, with_wire co' s' c)"
      "linked a b (with_wire co' s' c)"
      using less.hyps [OF _ l' less.prems(2,3,4)] True run(3) req by force
    ultimately show ?thesis
      using ok(4) True by (subst seg_download_push.simps) (auto simp: result_of_def add.commute)
  next
    case False
    let ?x = "seg_expectation FBSEC_CO_FD_USDO_CMD_DOWNLOAD_END_RESP 0 b ses"
    let ?ctx = "seg_ctx a FBSEC_CO_FD_USDO_CMD_DOWNLOAD_END_REQ ses i j"
    obtain st data where r: "r = (st, data)" by force
    have len: "length data \<le> 168" using linked_reply_length [OF l env req [unfolded r]] .
    have "usdo_msg_ok (Download_End_Req (drop h body))" using False less.prems(6) by simp
    then obtain f where f: "usdo_encode a b ses (Download_End_Req (drop h body)) = Some f"
      "usdo_carries a b ses (Download_End_Req (drop h body)) f"
      using sent_carries [OF refl ok(1,2) less.prems(2)] by blast
    obtain c1 where c1: "g_node_id c1 = b" "g_segul c1 = g_segul ?co" "run_dispatch_frame E g F f ?co ?s =
      (case dispatch_and_reply E g F ?ctx body c1 ?s
       of (out, c2, s1) \<Rightarrow> (out, c2\<lparr>g_segdl := (g_segdl c2)\<lparr>dl_active := False\<rparr>\<rparr>, s1))"
      using dispatch_end [OF re ok(1-3) f(2)] by blast
    have "length data \<le> 256" "node_ok (g_node_id c1)" "length (ul_buf (g_segul c1)) = 256"
      using l len ok c1 by (auto simp: linked_def co_fd_wf_def)
    then obtain m resp c2 where m': "dispatch_and_reply E g F ?ctx body c1 ?s = ([resp], c2, s')"
      "reply_msg ?ctx st data = Some m" "usdo_carries b a ses m resp" "g_node_id c2 = b"
      using dispatch_and_reply_one [OF req [unfolded r] _ less.prems(4,2) ok(1)] c1(1) by blast
    define co where "co = c2\<lparr>g_segdl := (g_segdl c2)\<lparr>dl_active := False\<rparr>\<rparr>"
    have m: "run_dispatch_frame E g F f ?co ?s = ([resp], co, s')"
      "reply_msg ?ctx st data = Some m" "usdo_carries b a ses m resp" "g_node_id co = b"
      using m' c1(3) by (simp_all add: co_def)
    have l': "linked a b (with_wire co s' c)" by (rule linked_step [OF l env m(4,1)])
    obtain res where res: "round_trip (pipe E g F) ?x f t c =
        Some ((fst (msg_outcome ?x m), snd (msg_outcome ?x m), res), with_wire co s' c)"
      using exchange [OF f(2) ok(5,4) m(1,3) reply_not_request [OF m(2)] ok(2), of ?x t]
      by (auto simp: seg_expectation_def)
    have "msg_outcome ?x m = co_write_answer r"
      using m(2) len by (auto simp: r reply_msg_def seg_ctx_def seg_expectation_def split: if_split_asm)
    moreover have "fbsec_co_fd_usdo_encode_download_end_req a b ses (Some (drop h body))
        (of_nat (length (drop h body))) = Some f"
      using f(1) less.prems(6) by simp
    ultimately show ?thesis
      using ok(4) False res l' by (subst seg_download_push.simps) auto
  qed
qed

lemma transport_write_pipe:
  assumes l: "linked a b c" and env: "env_ok E g F" and d: "fbsec_co_fd_data_id_is_canopen_form d"
    and dev: "(ucast dev :: u8) = b" and body: "body \<noteq> []" "length body \<le> 256"
    and req: "fbsec_server_dispatch_request E g F (ucast a) d body (wi_server (cl_carrier c)) = (r, s')"
  shows "\<exists>co ses. transport_write (pipe E g F) dev d body t c =
      Some (co_write_answer r, with_wire co s' (c\<lparr>cl_session := ses\<rparr>)) \<and>
    linked a b (with_wire co s' (c\<lparr>cl_session := ses\<rparr>))"
proof -
  obtain i j where ij: "0x1000 \<le> i" "d = fbsec_co_fd_data_id_from_index_sub i j"
    using d data_id_canopen_form_iff by blast
  obtain st data where r: "r = (st, data)" by force
  obtain ses where ses: "next_session c = (ses, c\<lparr>cl_session := ses\<rparr>)" "ses \<noteq> 0"
    using next_session_facts [of c] by (metis surj_pair)
  let ?c = "c\<lparr>cl_session := ses\<rparr>" and ?co = "wi_co_fd (cl_carrier c)" and ?s = "wi_server (cl_carrier c)"
  have ok: "node_ok a" "node_ok b" "g_node_id ?co = b" "cl_node_id c = a" "wi_queue (cl_carrier c) = []"
    using l by (auto simp: linked_def)
  have len: "length data \<le> 168" using linked_reply_length [OF l env req [unfolded r]] .
  show ?thesis
  proof (cases "length body \<le> 56")
    case True
    let ?x = "mux_expectation FBSEC_CO_FD_USDO_CMD_DOWNLOAD_RESP 0 b ses d 64"
    let ?ctx = "seg_ctx a FBSEC_CO_FD_USDO_CMD_DOWNLOAD_REQ ses i j"
    have "usdo_msg_ok (Download_Req i j body)" using ij(1) True by simp
    then obtain f where f: "usdo_encode a b ses (Download_Req i j body) = Some f"
      "usdo_carries a b ses (Download_Req i j body) f"
      using sent_carries [OF refl ok(1,2) ses(2)] by blast
    obtain m resp co where m: "run_dispatch_frame E g F f ?co ?s = ([resp], co, s')"
      "reply_msg ?ctx st data = Some m" "usdo_carries b a ses m resp" "g_node_id co = b"
      using dispatch_and_reply_one [OF req [unfolded r ij(2)] _ ij(1) ses(2) ok(1), of ?co
          FBSEC_CO_FD_USDO_CMD_DOWNLOAD_REQ] l len ok dispatch_download [OF f(2) ok(1,3), of E g F ?s]
      by (auto simp: linked_def co_fd_wf_def)
    have l': "linked a b (with_wire co s' ?c)"
      using linked_step [of a b ?c E g F co f "[resp]" s'] l env m(1,4) by simp
    have "ex_match_mux ?x \<Longrightarrow> msg_mux m = Some (ex_index ?x, ex_sub ?x)"
      using m(2) len by (auto simp: reply_msg_def Let_def mux_expectation_def seg_ctx_def ij(2)
          data_id_parts split: if_split_asm)
    then obtain res where res: "round_trip (pipe E g F) ?x f t ?c =
        Some ((fst (msg_outcome ?x m), snd (msg_outcome ?x m), res), with_wire co s' ?c)"
      using exchange [OF f(2), of ?c E g F resp co s' m ?x t] ok m reply_not_request [OF m(2)]
      by (auto simp: mux_expectation_def)
    have "msg_outcome ?x m = co_write_answer r"
      using m(2) len by (auto simp: r reply_msg_def seg_ctx_def mux_expectation_def split: if_split_asm)
    moreover have "fbsec_co_fd_usdo_encode_download_req a b ses i j (Some body) (of_nat (length body)) = Some f"
      using f(1) body(1) by simp
    ultimately have "transport_write (pipe E g F) dev d body t c =
        Some (co_write_answer r, with_wire co s' ?c)"
      using res ok(2,4) True ses(1)
      by (simp add: transport_write_def dev ij(2) data_id_parts Let_def split: if_split_asm)
    then show ?thesis using l' by blast
  next
    case False
    let ?x = "mux_expectation FBSEC_CO_FD_USDO_CMD_DOWNLOAD_INIT_RESP 0 b ses d 64"
    have n: "unat (of_nat (length body) :: u32) = length body" using body(2) by (simp add: unat_len_u32)
    then have "usdo_msg_ok (Download_Init_Req i j (of_nat (length body)))"
      using ij(1) False body by (simp add: word_le_nat_alt word_less_nat_alt)
    then obtain f where f: "usdo_encode a b ses (Download_Init_Req i j (of_nat (length body))) = Some f"
      "usdo_carries a b ses (Download_Init_Req i j (of_nat (length body))) f"
      using sent_carries [OF refl ok(1,2) ses(2)] by blast
    obtain ack co where run: "run_dispatch_frame E g F f ?co ?s = ([ack], co, ?s)"
      "usdo_carries b a ses (Download_Init_Resp i j) ack" "reassembling co a ses i j body 0 0" "g_node_id co = b"
      using dispatch_init [OF f(2) ok(1-3) ses(2) ij(1) body(2), of E g F ?s] l
      unfolding linked_def co_fd_wf_def by blast
    have l': "linked a b (with_wire co ?s ?c)"
      using linked_step [of a b ?c E g F co f "[ack]" ?s] l env run(1,4) by simp
    obtain res where res: "round_trip (pipe E g F) ?x f t ?c = Some ((SECP_OK, 0, res), with_wire co ?s ?c)"
      using exchange [OF f(2), of ?c E g F ack co ?s "Download_Init_Resp i j" ?x t] ok run
      by (auto simp: mux_expectation_def cmd_is_request_def ij(2) data_id_parts)
    obtain co' where "seg_download_push (pipe E g F) b ses t 0 body (with_wire co ?s ?c) =
        Some (co_write_answer r, with_wire co' s' ?c)" "linked a b (with_wire co' s' ?c)"
      using seg_download_push_pipe [OF l' ses(2) env ij(1), of j body 0 0 r s' t] run(3) body(1) req
      by (auto simp: ij(2))
    moreover have "fbsec_co_fd_usdo_encode_download_init_req a b ses i j (of_nat (length body)) = Some f"
      using f(1) by simp
    ultimately have "transport_write (pipe E g F) dev d body t c =
        Some (co_write_answer r, with_wire co' s' ?c)"
      using res ok(2,4) False body(2) ses(1)
      by (simp add: transport_write_def dev ij(2) data_id_parts Let_def split: if_split_asm)
    then show ?thesis using \<open>linked a b (with_wire co' s' ?c)\<close> by blast
  qed
qed

section \<open>The client engine over the bus\<close>

text \<open>
  The environment of the client engine (random source, salt callback) is a port
  over a state of its own, next to the transport's. \<open>co_link\<close> is the client's
  vtable over the pipe; \<open>srv_link\<close> hands each call to the reference server.
\<close>

definition env_port :: "('v \<Rightarrow> u16) \<Rightarrow> 'x client_port \<Rightarrow> ('v \<times> 'x) client_port" where
  "env_port cid X = \<lparr>
     secure_port_random = (\<lambda>n (v, x). case secure_port_random X n x of (r, x') \<Rightarrow> (r, (v, x'))),
     secure_port_get_client_id = (\<lambda>(v, x). cid v),
     salt_cb = map_option (\<lambda>cb b (v, x). (v, cb b x)) (salt_cb X)\<rparr>"

definition env_port_ok :: "'x client_port \<Rightarrow> bool" where
  "env_port_ok X \<longleftrightarrow> (\<forall>n x b x'. secure_port_random X n x = (Some b, x') \<longrightarrow> length b = n)"

definition co_link :: "ed25519 \<Rightarrow> gcm \<Rightarrow> 'e platform \<Rightarrow> ('e wire client \<times> 'x) transport" where
  "co_link E g F = \<lparr>
     tp_read = (\<lambda>dev d body n t (c, x).
       case tp_read (g_transport (pipe E g F)) dev d body n t c of (r, c') \<Rightarrow> (r, (c', x))),
     tp_write = (\<lambda>dev d body t (c, x).
       case tp_write (g_transport (pipe E g F)) dev d body t c of (r, c') \<Rightarrow> (r, (c', x)))\<rparr>"

definition srv_link :: "ed25519 \<Rightarrow> gcm \<Rightarrow> 'e platform \<Rightarrow> u8 \<Rightarrow> ('e srv \<times> 'x) transport" where
  "srv_link E g F a = \<lparr>
     tp_read = (\<lambda>dev d body n t (s, x).
       case fbsec_server_dispatch_request E g F (ucast a) d body s of
         (r, s') \<Rightarrow> (co_read_answer n r, (s', x))),
     tp_write = (\<lambda>dev d body t (s, x).
       case fbsec_server_dispatch_request E g F (ucast a) d body s of
         (r, s') \<Rightarrow> (co_write_answer r, (s', x)))\<rparr>"

abbreviation co_port :: "'x client_port \<Rightarrow> ('e wire client \<times> 'x) client_port" where
  "co_port \<equiv> env_port fbsec_secure_port_get_client_id"

abbreviation srv_client_port :: "u8 \<Rightarrow> 'x client_port \<Rightarrow> ('e srv \<times> 'x) client_port" where
  "srv_client_port a \<equiv> env_port (\<lambda>s. ucast a)"

text \<open>The same server behind both, and everything the exchanges need.\<close>

definition same_server ::
  "ed25519 \<Rightarrow> gcm \<Rightarrow> 'e platform \<Rightarrow> 'x client_port \<Rightarrow> u8 \<Rightarrow> u16 \<Rightarrow> u32 \<Rightarrow>
   'e wire client \<times> 'x \<Rightarrow> 'e srv \<times> 'x \<Rightarrow> bool" where
  "same_server E g F X a dev d v w \<longleftrightarrow>
     env_ok E g F \<and> env_port_ok X \<and> fbsec_co_fd_data_id_is_canopen_form d \<and>
     linked a (ucast dev) (fst v) \<and> wi_server (cl_carrier (fst v)) = fst w \<and> snd v = snd w"

lemma co_link_simps [simp]:
  "tp_read (co_link E g F) dev d body n t (c, x) =
     (case tp_read (g_transport (pipe E g F)) dev d body n t c of (r, c') \<Rightarrow> (r, (c', x)))"
  "tp_write (co_link E g F) dev d body t (c, x) =
     (case tp_write (g_transport (pipe E g F)) dev d body t c of (r, c') \<Rightarrow> (r, (c', x)))"
  by (simp_all add: co_link_def)

lemma srv_link_simps [simp]:
  "tp_read (srv_link E g F a) dev d body n t (s, x) =
     (case fbsec_server_dispatch_request E g F (ucast a) d body s of
        (r, s') \<Rightarrow> (co_read_answer n r, (s', x)))"
  "tp_write (srv_link E g F a) dev d body t (s, x) =
     (case fbsec_server_dispatch_request E g F (ucast a) d body s of
        (r, s') \<Rightarrow> (co_write_answer r, (s', x)))"
  by (simp_all add: srv_link_def)

interpretation co_fd_refines: transport_refinement
  "co_link E g F" "srv_link E g F a" "co_port X" "srv_client_port a X" "same_server E g F X a dev d" dev d
  for E g and F :: "'e platform" and X :: "'x client_port" and a dev d
proof
  fix v w body n t
  assume R: "same_server E g F X a dev d v w"
  obtain c x s where vw: "v = (c, x)" "w = (s, x)" "wi_server (cl_carrier c) = s"
    using R by (cases v, cases w) (auto simp: same_server_def)
  obtain r s' where req: "fbsec_server_dispatch_request E g F (ucast a) d body s = (r, s')"
    by (metis surj_pair)
  have l: "linked a (ucast dev) c" "env_ok E g F" "fbsec_co_fd_data_id_is_canopen_form d"
    using R vw by (auto simp: same_server_def)
  show "agree (same_server E g F X a dev d) (tp_read (co_link E g F) dev d body n t v)
      (tp_read (srv_link E g F a) dev d body n t w)" if "length body \<le> 56"
    using transport_read_pipe [OF l refl that, of r s' n t] req vw R
    by (auto simp: g_transport_def same_server_def agree_def)
  show "agree (same_server E g F X a dev d) (tp_write (co_link E g F) dev d body t v)
      (tp_write (srv_link E g F a) dev d body t w)" if "body \<noteq> []" "length body \<le> 256"
    using transport_write_pipe [OF l refl that, of r s' t] req vw R
    by (auto simp: g_transport_def same_server_def agree_def)
next
  fix v w k
  assume R: "same_server E g F X a dev d v w"
  show "agree (same_server E g F X a dev d) (secure_port_random (co_port X) k v)
      (secure_port_random (srv_client_port a X) k w)"
    using R by (cases v, cases w) (auto simp: same_server_def env_port_def agree_def split: prod.split)
  show "secure_port_get_client_id (co_port X) v = secure_port_get_client_id (srv_client_port a X) w"
    using R by (cases v, cases w)
      (auto simp: same_server_def env_port_def fbsec_secure_port_get_client_id_def linked_def)
  show "length b = k" if "secure_port_random (co_port X) k v = (Some b, v')" for b v'
    using R that by (cases v) (auto simp: same_server_def env_port_def env_port_ok_def split: prod.splits)
  show "same_server E g F X a dev d (notify_salt (co_port X) b v) (notify_salt (srv_client_port a X) b w)" for b
    using R by (cases v, cases w, cases "salt_cb X") (auto simp: same_server_def env_port_def notify_salt_def)
qed

end
