(* ===== verification/C_Text.thy ===== *)
theory C_Text
  imports Prelude
begin

text \<open>
  The parts of the C library on text that the programs use: \<open>isspace\<close>,
  \<open>strtoul\<close>, \<open>strtol\<close>, \<open>strtok\<close> with the separators of the
  loaders, and the conversions of \<open>printf\<close> the trace rows need. A text is a
  \<open>string\<close> without its terminating zero.
\<close>

section \<open>Characters\<close>

abbreviation (input) TAB :: char where "TAB \<equiv> CHR 0x09"
abbreviation (input) LF :: char where "LF \<equiv> CHR 0x0A"
abbreviation (input) CR :: char where "CR \<equiv> CHR 0x0D"

definition code :: "char \<Rightarrow> nat" where
  "code c = of_char c"

definition isspace :: "char \<Rightarrow> bool" where
  "isspace c \<longleftrightarrow> code c = 32 \<or> 9 \<le> code c \<and> code c \<le> 13"

text \<open>The value of a digit in a base of up to 36.\<close>

definition digit_val :: "char \<Rightarrow> nat option" where
  "digit_val c =
     (let n = code c in
      if 48 \<le> n \<and> n \<le> 57 then Some (n - 48)
      else if 97 \<le> n \<and> n \<le> 122 then Some (n - 87)
      else if 65 \<le> n \<and> n \<le> 90 then Some (n - 55)
      else None)"

definition is_digit :: "nat \<Rightarrow> char \<Rightarrow> bool" where
  "is_digit base c = (case digit_val c of None \<Rightarrow> False | Some d \<Rightarrow> d < base)"

definition digits_val :: "nat \<Rightarrow> string \<Rightarrow> nat" where
  "digits_val base s =
     fold (\<lambda>c v. v * base + (case digit_val c of None \<Rightarrow> 0 | Some d \<Rightarrow> d)) s 0"

section \<open>Numbers from text\<close>

text \<open>
  What \<open>strtoul\<close> and \<open>strtol\<close> share: white space, a sign, the prefix that
  selects the base, the digits. Nothing when there is no digit; otherwise the
  sign, the magnitude and the text behind the number.
\<close>

definition number_base :: "nat \<Rightarrow> string \<Rightarrow> nat \<times> string" where
  "number_base base s =
     (case s of
        c # x # d # r \<Rightarrow>
          if (base = 0 \<or> base = 16) \<and> c = CHR ''0'' \<and> (x = CHR ''x'' \<or> x = CHR ''X'') \<and> is_digit 16 d
          then (16, d # r)
          else if base = 0 then (if c = CHR ''0'' then 8 else 10, s) else (base, s)
      | c # r \<Rightarrow> if base = 0 then (if c = CHR ''0'' then 8 else 10, s) else (base, s)
      | [] \<Rightarrow> (if base = 0 then 10 else base, s))"

definition scan_number :: "nat \<Rightarrow> string \<Rightarrow> (bool \<times> nat \<times> string) option" where
  "scan_number base s =
     (let t = dropWhile isspace s;
          (neg, t) = (case t of c # r \<Rightarrow> if c = CHR ''-'' then (True, r)
                                        else if c = CHR ''+'' then (False, r) else (False, t)
                     | [] \<Rightarrow> (False, t));
          (b, t) = number_base base t;
          ds = takeWhile (is_digit b) t
      in if ds = [] then None else Some (neg, digits_val b ds, dropWhile (is_digit b) t))"

text \<open>
  \<open>unsigned long\<close> has \<open>bits\<close> bits (32 on the targets of the bus and the
  clients, 64 elsewhere): a value that does not fit becomes \<open>ULONG_MAX\<close>, a
  minus sign negates modulo the word size. Without digits the value is 0 and
  the end is the start of the text.
\<close>

definition strtoul :: "nat \<Rightarrow> nat \<Rightarrow> string \<Rightarrow> nat \<times> string" where
  "strtoul bits base s =
     (case scan_number base s of
        None \<Rightarrow> (0, s)
      | Some (neg, v, r) \<Rightarrow>
          (if v \<ge> 2 ^ bits then (2 ^ bits - 1, r)
           else ((if neg then (2 ^ bits - v) mod 2 ^ bits else v), r)))"

definition strtol :: "nat \<Rightarrow> nat \<Rightarrow> string \<Rightarrow> int \<times> string" where
  "strtol bits base s =
     (case scan_number base s of
        None \<Rightarrow> (0, s)
      | Some (neg, v, r) \<Rightarrow>
          (if neg then (max (- int v) (- (2 ^ (bits - 1))), r)
           else (min (int v) (2 ^ (bits - 1) - 1), r)))"

lemma strtoul_bound: "fst (strtoul bits base s) < 2 ^ bits"
  by (auto simp: strtoul_def split: option.splits)

section \<open>Tokens\<close>

text \<open>\<open>strtok(line, " \t\r\n")\<close>, called until it returns \<open>NULL\<close>.\<close>

definition is_sep :: "char \<Rightarrow> bool" where
  "is_sep c \<longleftrightarrow> c = CHR '' '' \<or> c = TAB \<or> c = CR \<or> c = LF"

text \<open>One call: the token, if there is one, and the text the next call goes on with.\<close>

definition strtok :: "string \<Rightarrow> (string \<times> string) option" where
  "strtok s =
     (let t = dropWhile is_sep s
      in if t = [] then None
         else Some (takeWhile (\<lambda>c. \<not> is_sep c) t, drop 1 (dropWhile (\<lambda>c. \<not> is_sep c) t)))"

lemma strtok_shorter: "strtok s = Some (tok, r) \<Longrightarrow> length r < length s"
proof -
  assume a: "strtok s = Some (tok, r)"
  let ?t = "dropWhile is_sep s"
  have "?t \<noteq> []" "r = drop 1 (dropWhile (\<lambda>c. \<not> is_sep c) ?t)"
    using a by (auto simp: strtok_def Let_def split: if_splits)
  moreover have "length (dropWhile (\<lambda>c. \<not> is_sep c) ?t) \<le> length ?t"
    by (rule length_dropWhile_le)
  moreover have "length ?t \<le> length s" by (rule length_dropWhile_le)
  moreover have "0 < length ?t" using \<open>?t \<noteq> []\<close> by (metis length_greater_0_conv)
  moreover have "length (drop 1 xs) = length xs - 1" for xs :: string by simp
  ultimately show ?thesis by (metis diff_less le_less_trans less_imp_diff_less less_numeral_extra(1)
      nat_less_le not_less)
qed

lemma strtok_token:
  assumes "strtok s = Some (tok, r)"
  shows "tok \<noteq> []" "\<forall>c\<in>set tok. \<not> is_sep c"
proof -
  let ?t = "dropWhile is_sep s"
  have t: "?t \<noteq> []" "tok = takeWhile (\<lambda>c. \<not> is_sep c) ?t"
    using assms by (auto simp: strtok_def Let_def split: if_splits)
  have "\<not> is_sep (hd ?t)" using t(1) by (rule hd_dropWhile)
  then show "tok \<noteq> []" using t by (cases ?t) auto
  show "\<forall>c\<in>set tok. \<not> is_sep c" unfolding t(2) by (auto dest: set_takeWhileD)
qed

section \<open>Text from numbers\<close>

definition hex_digit :: "nat \<Rightarrow> char" where
  "hex_digit n = ''0123456789ABCDEF'' ! n"

text \<open>\<open>%02X\<close> of a byte, \<open>%08X\<close> of a 32-bit value.\<close>

definition hex2 :: "u8 \<Rightarrow> string" where
  "hex2 b = [hex_digit (unat b div 16), hex_digit (unat b mod 16)]"

definition hex8 :: "u32 \<Rightarrow> string" where
  "hex8 w = concat (map hex2 (rev (le32 w)))"

text \<open>\<open>%u\<close>, and the padding of \<open>%05llu\<close>.\<close>

fun decimal :: "nat \<Rightarrow> string" where
  "decimal n = (if n < 10 then [hex_digit n] else decimal (n div 10) @ [hex_digit (n mod 10)])"

declare decimal.simps [simp del]

definition pad_zeros :: "nat \<Rightarrow> string \<Rightarrow> string" where
  "pad_zeros k s = replicate (k - length s) (CHR ''0'') @ s"

lemma digit_val_hex_digit [simp]: "n < 16 \<Longrightarrow> digit_val (hex_digit n) = Some n"
proof -
  assume "n < 16"
  then have "n \<in> set [0 ..< 16]" by simp
  moreover have "\<forall>n \<in> set [0 ..< 16]. digit_val (hex_digit n) = Some n" by code_simp
  ultimately show ?thesis by blast
qed

lemma length_hex2 [simp]: "length (hex2 b) = 2"
  by (simp add: hex2_def)

end
