(* ===== verification/Co_Fd_Carrier.thy ===== *)
theory Co_Fd_Carrier
  imports Co_Fd_Client
begin

text \<open>
  Frames over a TCP connection: the carrier of the peers
  (\<open>variants/canopen_fd/common/fbsec_co_fd_carrier.c\<close>). The socket calls of
  the operating system, here and in the bus, are the record \<open>sockets\<close> over a network state; a socket
  handle is a number.
\<close>

section \<open>Sockets\<close>

datatype recv_result = Received bytes | Recv_Timed_Out | Recv_Error

text \<open>
  \<open>send\<close> returns the count it took, or an error; \<open>recv\<close> at most the
  number of bytes asked for, none at the end of the stream; \<open>setsockopt\<close> is
  the receive timeout; \<open>GetTickCount\<close> the clock.
\<close>

record 'w sockets =
  so_send :: "nat \<Rightarrow> bytes \<Rightarrow> 'w \<Rightarrow> int \<times> 'w"
  so_recv :: "nat \<Rightarrow> nat \<Rightarrow> 'w \<Rightarrow> recv_result \<times> 'w"
  so_set_timeout :: "nat \<Rightarrow> u32 \<Rightarrow> 'w \<Rightarrow> bool \<times> 'w"
  so_close :: "nat \<Rightarrow> 'w \<Rightarrow> 'w"
  so_tick :: "'w \<Rightarrow> u32"

section \<open>The carrier\<close>

text \<open>\<open>fbsec_co_fd_carrier_t\<close>: the socket, \<open>None\<close> for \<open>INVALID_SOCKET\<close>.\<close>

type_synonym carrier_handle = "nat option"

text \<open>
  \<open>WSAStartup\<close>, \<open>WSACleanup\<close>, \<open>socket\<close>, the address parser and \<open>connect\<close>; an
  address is the text the caller gives.
\<close>

record 'w connects =
  co_startup :: "'w \<Rightarrow> bool \<times> 'w"
  co_cleanup :: "'w \<Rightarrow> 'w"
  co_socket :: "'w \<Rightarrow> nat option \<times> 'w"
  co_pton :: "string \<Rightarrow> u32 option"
  co_connect :: "nat \<Rightarrow> u32 \<Rightarrow> u16 \<Rightarrow> 'w \<Rightarrow> bool \<times> 'w"

definition fbsec_co_fd_carrier_global_init :: "'w connects \<Rightarrow> 'w \<Rightarrow> carrier_status \<times> 'w" where
  "fbsec_co_fd_carrier_global_init N w =
     (case co_startup N w of (ok, w) \<Rightarrow> (if \<not> ok then CARRIER_NET else CARRIER_OK, w))"

definition fbsec_co_fd_carrier_global_shutdown :: "'w connects \<Rightarrow> 'w \<Rightarrow> 'w" where
  "fbsec_co_fd_carrier_global_shutdown N w = co_cleanup N w"

definition fbsec_co_fd_carrier_init :: carrier_handle where
  "fbsec_co_fd_carrier_init = None"

definition fbsec_co_fd_carrier_connect ::
  "'w sockets \<Rightarrow> 'w connects \<Rightarrow> string \<Rightarrow> u16 \<Rightarrow> 'w \<Rightarrow> (carrier_status \<times> carrier_handle) \<times> 'w" where
  "fbsec_co_fd_carrier_connect S N h port w =
     (case co_socket N w of
        (None, w) \<Rightarrow> ((CARRIER_NET, None), w)
      | (Some sock, w) \<Rightarrow>
          (case co_pton N h of
             None \<Rightarrow> ((CARRIER_NET, None), so_close S sock w)
           | Some addr \<Rightarrow>
               (case co_connect N sock addr port w of
                  (ok, w) \<Rightarrow> if \<not> ok then ((CARRIER_NET, None), so_close S sock w)
                             else ((CARRIER_OK, Some sock), w))))"

definition fbsec_co_fd_carrier_now_ms :: "'w sockets \<Rightarrow> 'w \<Rightarrow> u32" where
  "fbsec_co_fd_carrier_now_ms S w = so_tick S w"

definition fbsec_co_fd_carrier_is_open :: "carrier_handle \<Rightarrow> bool" where
  "fbsec_co_fd_carrier_is_open c \<longleftrightarrow> c \<noteq> None"

definition fbsec_co_fd_carrier_close :: "'w sockets \<Rightarrow> carrier_handle \<Rightarrow> 'w \<Rightarrow> carrier_handle \<times> 'w" where
  "fbsec_co_fd_carrier_close S c w =
     (case c of None \<Rightarrow> (None, w) | Some sock \<Rightarrow> (None, so_close S sock w))"

function send_all :: "'w sockets \<Rightarrow> nat \<Rightarrow> bytes \<Rightarrow> 'w \<Rightarrow> carrier_status \<times> 'w" where
  "send_all S sock buf w =
     (if buf = [] then (CARRIER_OK, w)
      else (case so_send S sock buf w of
              (r, w1) \<Rightarrow>
                if r \<le> 0 then (CARRIER_NET, w1)
                else send_all S sock (drop (nat r) buf) w1))"
  by pat_completeness auto
termination by (relation "measure (\<lambda>(S, sock, buf, w). length buf)") auto

declare send_all.simps [simp del]

definition fbsec_co_fd_carrier_send ::
  "'w sockets \<Rightarrow> carrier_handle \<Rightarrow> frame \<Rightarrow> 'w \<Rightarrow> carrier_status \<times> 'w" where
  "fbsec_co_fd_carrier_send S c f w =
     (case c of
        None \<Rightarrow> (CARRIER_NET, w)
      | Some sock \<Rightarrow>
          if fbsec_co_fd_frame_validate f \<noteq> VALID_OK then (CARRIER_FRAME, w)
          else (case fbsec_co_fd_frame_serialize f FBSEC_CO_FD_WIRE_MAX of
                  None \<Rightarrow> (CARRIER_FRAME, w)
                | Some buf \<Rightarrow> send_all S sock buf w))"

text \<open>The bytes read so far come back with the status; the C code keeps them in \<open>buf\<close>.\<close>

function recv_exact_with_deadline ::
  "'w sockets \<Rightarrow> nat \<Rightarrow> nat \<Rightarrow> u32 \<Rightarrow> 'w \<Rightarrow> (carrier_status \<times> bytes) \<times> 'w" where
  "recv_exact_with_deadline S sock n deadline_ms w =
     (if n = 0 then ((CARRIER_OK, []), w)
      else
        let remain = deadline_ms - so_tick S w
        in if sint remain \<le> 0 then ((CARRIER_TIMEOUT, []), w)
           else (case so_set_timeout S sock remain w of
                   (ok, w1) \<Rightarrow>
                     if \<not> ok then ((CARRIER_NET, []), w1)
                     else (case so_recv S sock n w1 of
                             (Received b, w2) \<Rightarrow>
                               if b = [] then ((CARRIER_CLOSED, []), w2)
                               else (case recv_exact_with_deadline S sock (n - length b) deadline_ms w2 of
                                       ((st, bs), w3) \<Rightarrow> ((st, b @ bs), w3))
                           | (Recv_Timed_Out, w2) \<Rightarrow> ((CARRIER_TIMEOUT, []), w2)
                           | (Recv_Error, w2) \<Rightarrow> ((CARRIER_NET, []), w2))))"
  by pat_completeness auto
termination
  by (relation "measure (\<lambda>(S, sock, n, deadline_ms, w). n)") auto

declare recv_exact_with_deadline.simps [simp del]

text \<open>\<open>f0\<close> is the caller's frame before the call; its payload is overwritten up to the length.\<close>

definition fbsec_co_fd_carrier_recv ::
  "'w sockets \<Rightarrow> carrier_handle \<Rightarrow> frame \<Rightarrow> u32 \<Rightarrow> 'w \<Rightarrow> (carrier_status \<times> frame) \<times> 'w" where
  "fbsec_co_fd_carrier_recv S c f0 deadline_ms w =
     (case c of
        None \<Rightarrow> ((CARRIER_NET, f0), w)
      | Some sock \<Rightarrow>
          (case recv_exact_with_deadline S sock FBSEC_CO_FD_HEADER_SIZE deadline_ms w of
             ((st, header), w1) \<Rightarrow>
               if st \<noteq> CARRIER_OK then ((st, f0), w1)
               else (case fbsec_co_fd_frame_parse_header header f0 of
                       Inl e \<Rightarrow> ((CARRIER_FRAME, f0), w1)
                     | Inr (f, expected_payload) \<Rightarrow>
                         if expected_payload > 0 then
                           (case recv_exact_with_deadline S sock expected_payload deadline_ms w1 of
                              ((st, bs), w2) \<Rightarrow>
                                ((st, f\<lparr>fr_payload := put (fr_payload f) 0 bs\<rparr>), w2))
                         else ((CARRIER_OK, f), w1))))"

text \<open>The vtable the client transport uses; the frame on the stack starts as any frame \<open>f0\<close>.\<close>

definition tcp_carrier :: "'w sockets \<Rightarrow> carrier_handle \<Rightarrow> frame \<Rightarrow> 'w carrier" where
  "tcp_carrier S c f0 = \<lparr>carrier_send = fbsec_co_fd_carrier_send S c,
     carrier_recv = fbsec_co_fd_carrier_recv S c f0, carrier_now_ms = fbsec_co_fd_carrier_now_ms S\<rparr>"

section \<open>Streams\<close>

text \<open>
  The contract of a connection that delivers: the bytes still to come are
  \<open>inp w\<close>, and a receive takes a non-empty prefix of them of at most the size
  asked for. How the stream is cut into pieces is open. For a call with a
  deadline, the clock stays before it, and setting the timeout works and leaves
  the stream alone.
\<close>

definition recv_stream :: "'w sockets \<Rightarrow> nat \<Rightarrow> ('w \<Rightarrow> bytes) \<Rightarrow> bool" where
  "recv_stream S sock inp \<longleftrightarrow>
     (\<forall>n w. 0 < n \<longrightarrow> inp w \<noteq> [] \<longrightarrow>
        (\<exists>b w'. so_recv S sock n w = (Received b, w') \<and> b \<noteq> [] \<and> length b \<le> n \<and> inp w = b @ inp w'))"

definition delivers :: "'w sockets \<Rightarrow> nat \<Rightarrow> u32 \<Rightarrow> ('w \<Rightarrow> bytes) \<Rightarrow> bool" where
  "delivers S sock deadline inp \<longleftrightarrow> recv_stream S sock inp \<and>
     (\<forall>w. 0 < sint (deadline - so_tick S w)) \<and>
     (\<forall>t w. \<exists>w'. so_set_timeout S sock t w = (True, w') \<and> inp w' = inp w)"

lemma recv_streamD:
  "recv_stream S sock inp \<Longrightarrow> 0 < n \<Longrightarrow> inp w \<noteq> [] \<Longrightarrow>
   \<exists>b w'. so_recv S sock n w = (Received b, w') \<and> b \<noteq> [] \<and> length b \<le> n \<and> inp w = b @ inp w'"
  by (auto simp: recv_stream_def)

text \<open>A piece of the stream is a piece of the data asked for.\<close>

lemma piece_of_data:
  assumes "b @ rest' = data @ rest" "length b \<le> length data"
  shows "data = b @ drop (length b) data" "rest' = drop (length b) data @ rest"
proof -
  have "b = take (length b) data" and r: "rest' = drop (length b) data @ rest"
    using assms by (auto simp: append_eq_append_conv_if)
  then show "data = b @ drop (length b) data" by (metis append_take_drop_id)
  show "rest' = drop (length b) data @ rest" by (rule r)
qed

lemma recv_exact_stream:
  assumes "delivers S sock deadline inp" "inp w = data @ rest" "length data = n"
  shows "\<exists>w'. recv_exact_with_deadline S sock n deadline w = ((CARRIER_OK, data), w') \<and> inp w' = rest"
  using assms(2,3)
proof (induction n arbitrary: w data rule: less_induct)
  case (less n)
  show ?case
  proof (cases "n = 0")
    case True
    then show ?thesis using less.prems by (simp add: recv_exact_with_deadline.simps)
  next
    case False
    have t: "0 < sint (deadline - so_tick S w)" using assms(1) by (simp add: delivers_def)
    obtain w1 where w1: "so_set_timeout S sock (deadline - so_tick S w) w = (True, w1)" "inp w1 = inp w"
      using assms(1) unfolding delivers_def by blast
    have "inp w1 \<noteq> []" using False less.prems w1 by auto
    then obtain b w2 where b: "so_recv S sock n w1 = (Received b, w2)" "b \<noteq> []" "length b \<le> n"
      "inp w1 = b @ inp w2"
      using assms(1) False recv_streamD [of S sock inp n w1] unfolding delivers_def by auto
    have "b @ inp w2 = data @ rest" using b(4) w1(2) less.prems(1) by simp
    note d = piece_of_data [OF this, unfolded less.prems(2), OF b(3)]
    obtain w3 where "recv_exact_with_deadline S sock (n - length b) deadline w2
        = ((CARRIER_OK, drop (length b) data), w3)" "inp w3 = rest"
      using less.IH [of "n - length b" w2 "drop (length b) data"] b(2) False d(2) less.prems(2) by auto
    then show ?thesis
      using False t w1 b d(1) by (subst recv_exact_with_deadline.simps) (simp add: Let_def)
  qed
qed

text \<open>A serialized frame in the stream is received as that frame, and the stream goes on behind it.\<close>

lemma recv_frame_stream:
  assumes d: "delivers S sock deadline inp" and i: "inp w = buf @ rest"
    and f: "fbsec_co_fd_frame_serialize f FBSEC_CO_FD_WIRE_MAX = Some buf"
      "fbsec_co_fd_frame_validate f = VALID_OK" "frame_ok f"
  shows "\<exists>w'. fbsec_co_fd_carrier_recv S (Some sock) f0 deadline w =
      ((CARRIER_OK, f\<lparr>fr_payload := put (fr_payload f0) 0 (take (unat (fr_len f)) (fr_payload f))\<rparr>), w') \<and>
    inp w' = rest"
proof -
  note p = serialize_payload [OF f(1,3,2)]
  have h: "length (take 6 buf) = 6" using p(1) by simp
  have "inp w = take 6 buf @ (drop 6 buf @ rest)" using i by simp
  then obtain w1 where w1: "recv_exact_with_deadline S sock 6 deadline w = ((CARRIER_OK, take 6 buf), w1)"
      "inp w1 = drop 6 buf @ rest"
    using recv_exact_stream [OF d _ h] by blast
  have ph: "fbsec_co_fd_frame_parse_header (take 6 buf) f0 =
      Inr (f\<lparr>fr_payload := fr_payload f0\<rparr>, unat (fr_len f))"
  proof -
    have "fbsec_co_fd_frame_parse_header (take 6 buf) f0 = fbsec_co_fd_frame_parse_header (buf @ []) f0"
      using p(1) by (simp add: fbsec_co_fd_frame_parse_header_def get32_def)
    then show ?thesis using frame_serialize_parse(1) [OF f(2,3,1), of "[]" f0] by simp
  qed
  have l: "length (drop 6 buf) = unat (fr_len f)" using p(1) by simp
  obtain w2 where w2: "recv_exact_with_deadline S sock (unat (fr_len f)) deadline w1 =
      ((CARRIER_OK, drop 6 buf), w2)" "inp w2 = rest"
    using recv_exact_stream [OF d w1(2) l] by blast
  have z: "recv_exact_with_deadline S sock 0 deadline w1 = ((CARRIER_OK, []), w1)"
    by (simp add: recv_exact_with_deadline.simps)
  show ?thesis
  proof (cases "unat (fr_len f) = 0")
    case True
    then have "w2 = w1" using w2(1) z by simp
    then show ?thesis
      using True w1 w2(2) ph by (simp add: fbsec_co_fd_carrier_recv_def put_def)
  next
    case False
    then show ?thesis using w1 w2 ph p(4) by (simp add: fbsec_co_fd_carrier_recv_def)
  qed
qed

text \<open>Frames sent one behind the other are received one by one, in that order.\<close>

definition frames_wire :: "frame list \<Rightarrow> bytes" where
  "frames_wire fs = concat (map (\<lambda>f. the (fbsec_co_fd_frame_serialize f FBSEC_CO_FD_WIRE_MAX)) fs)"

definition wire_frame :: "frame \<Rightarrow> bool" where
  "wire_frame f \<longleftrightarrow> frame_ok f \<and> fbsec_co_fd_frame_validate f = VALID_OK"

lemma wire_frame_serialize:
  "wire_frame f \<Longrightarrow> \<exists>buf. fbsec_co_fd_frame_serialize f FBSEC_CO_FD_WIRE_MAX = Some buf"
  using validate_ok_len [of f] by (auto simp: wire_frame_def fbsec_co_fd_frame_serialize_def Let_def)

fun recv_frames ::
  "'w sockets \<Rightarrow> nat \<Rightarrow> nat \<Rightarrow> frame \<Rightarrow> u32 \<Rightarrow> 'w \<Rightarrow> (carrier_status \<times> frame) list \<times> 'w" where
  "recv_frames S sock 0 f0 deadline w = ([], w)"
| "recv_frames S sock (Suc n) f0 deadline w =
     (case fbsec_co_fd_carrier_recv S (Some sock) f0 deadline w of
        (r, w) \<Rightarrow> (case recv_frames S sock n f0 deadline w of (rs, w) \<Rightarrow> (r # rs, w)))"

text \<open>The frame as the receiver sees it: the rest of its payload array is as before the call.\<close>

definition received_frame :: "frame \<Rightarrow> frame \<Rightarrow> frame" where
  "received_frame f0 f = f\<lparr>fr_payload := put (fr_payload f0) 0 (take (unat (fr_len f)) (fr_payload f))\<rparr>"

lemma recv_frames_stream:
  assumes "delivers S sock deadline inp" "\<forall>f\<in>set fs. wire_frame f" "inp w = frames_wire fs @ rest"
  shows "\<exists>w'. recv_frames S sock (length fs) f0 deadline w =
      (map (\<lambda>f. (CARRIER_OK, received_frame f0 f)) fs, w') \<and> inp w' = rest"
  using assms(2,3)
proof (induction fs arbitrary: w)
  case Nil
  then show ?case by (simp add: frames_wire_def)
next
  case (Cons f fs)
  obtain buf where buf: "fbsec_co_fd_frame_serialize f FBSEC_CO_FD_WIRE_MAX = Some buf"
    using wire_frame_serialize [of f] Cons.prems(1) by auto
  have f: "fbsec_co_fd_frame_validate f = VALID_OK" "frame_ok f"
    using Cons.prems(1) by (auto simp: wire_frame_def)
  have "inp w = buf @ (frames_wire fs @ rest)"
    using Cons.prems(2) buf by (simp add: frames_wire_def)
  then obtain w1 where w1: "fbsec_co_fd_carrier_recv S (Some sock) f0 deadline w =
      ((CARRIER_OK, received_frame f0 f), w1)" "inp w1 = frames_wire fs @ rest"
    using recv_frame_stream [OF assms(1) _ buf f, of w "frames_wire fs @ rest" f0]
    by (auto simp: received_frame_def)
  obtain w2 where "recv_frames S sock (length fs) f0 deadline w1 =
      (map (\<lambda>f. (CARRIER_OK, received_frame f0 f)) fs, w2)" "inp w2 = rest"
    using Cons.IH [OF _ w1(2)] Cons.prems(1) by auto
  then show ?case using w1(1) by simp
qed

end
