(* ===== verification/Co_Fd_Pcan.thy ===== *)
theory Co_Fd_Pcan
  imports Co_Fd_Usdo C_Text
begin

text \<open>
  The bridge to a CAN FD adapter
  (\<open>variants/canopen_fd/bus/fbsec_co_fd_pcan.c\<close> and its header). The vendor
  library \<open>PCANBasic.dll\<close> is the record \<open>pcan_api\<close> over a state of the
  world; this theory models the wrapper: loading, probing, opening, the length
  codes of CAN FD and the two transfers. The lines on standard error are left
  out.
\<close>

section \<open>The vendor library\<close>

abbreviation (input) PCAN_NONEBUS :: u16 where "PCAN_NONEBUS \<equiv> 0"
abbreviation (input) PCAN_ERROR_OK :: u32 where "PCAN_ERROR_OK \<equiv> 0"
abbreviation (input) PCAN_ERROR_QRCVEMPTY :: u32 where "PCAN_ERROR_QRCVEMPTY \<equiv> 0x20"
abbreviation (input) PCAN_CHANNEL_CONDITION :: u32 where "PCAN_CHANNEL_CONDITION \<equiv> 0x0D"
abbreviation (input) PCAN_CHANNEL_FEATURES :: u32 where "PCAN_CHANNEL_FEATURES \<equiv> 0x16"
abbreviation (input) PCAN_CHANNEL_UNAVAILABLE :: u32 where "PCAN_CHANNEL_UNAVAILABLE \<equiv> 0"
abbreviation (input) PCAN_CHANNEL_OCCUPIED :: u32 where "PCAN_CHANNEL_OCCUPIED \<equiv> 2"
abbreviation (input) PCAN_FEATURE_FD_CAPABLE :: u32 where "PCAN_FEATURE_FD_CAPABLE \<equiv> 1"
abbreviation (input) PCAN_MESSAGE_EXTENDED :: u8 where "PCAN_MESSAGE_EXTENDED \<equiv> 0x02"
abbreviation (input) PCAN_MESSAGE_FD :: u8 where "PCAN_MESSAGE_FD \<equiv> 0x04"
abbreviation (input) PCAN_MESSAGE_BRS :: u8 where "PCAN_MESSAGE_BRS \<equiv> 0x08"
abbreviation (input) FBSEC_PCAN_MSG_DATA_MAX :: nat where "FBSEC_PCAN_MSG_DATA_MAX \<equiv> 64"

text \<open>\<open>tpcan_msg_fd_t\<close>; the data array has 64 bytes.\<close>

record pcan_msg =
  pm_id :: u32
  pm_msgtype :: u8
  pm_dlc :: u8
  pm_data :: bytes

record 'w pcan_api =
  pa_load :: "'w \<Rightarrow> bool \<times> 'w"
  pa_free :: "'w \<Rightarrow> 'w"
  pa_symbol :: "string \<Rightarrow> 'w \<Rightarrow> bool"
  pa_init :: "u16 \<Rightarrow> 'w \<Rightarrow> u32 \<times> 'w"
  pa_uninit :: "u16 \<Rightarrow> 'w \<Rightarrow> 'w"
  pa_getval :: "u16 \<Rightarrow> u32 \<Rightarrow> 'w \<Rightarrow> u32 \<times> u32"
  pa_read :: "u16 \<Rightarrow> 'w \<Rightarrow> (u32 \<times> pcan_msg) \<times> 'w"
  pa_write :: "u16 \<Rightarrow> pcan_msg \<Rightarrow> 'w \<Rightarrow> u32 \<times> 'w"

section \<open>Loading\<close>

text \<open>
  The static variables: \<open>g_dll\<close>, the resolved entry points by name,
  \<open>g_open_handle\<close> and \<open>g_open\<close>.
\<close>

record pcan =
  pc_dll :: bool
  pc_fp :: "string list"
  pc_open_handle :: u16
  pc_open :: bool

definition pcan_reset :: pcan where
  "pcan_reset = \<lparr>pc_dll = False, pc_fp = [], pc_open_handle = PCAN_NONEBUS, pc_open = False\<rparr>"

definition pcan_symbols :: "string list" where
  "pcan_symbols = [''CAN_InitializeFD'', ''CAN_Uninitialize'', ''CAN_GetValue'', ''CAN_ReadFD'',
     ''CAN_WriteFD'', ''CAN_Reset'']"

definition fbsec_pcan_close :: "'w pcan_api \<Rightarrow> pcan \<Rightarrow> 'w \<Rightarrow> pcan \<times> 'w" where
  "fbsec_pcan_close A p w =
     (if \<not> pc_open p then (p, w)
      else let w = (if ''CAN_Uninitialize'' \<in> set (pc_fp p) then pa_uninit A (pc_open_handle p) w else w)
           in (p\<lparr>pc_open := False, pc_open_handle := PCAN_NONEBUS\<rparr>, w))"

definition fbsec_pcan_unload :: "'w pcan_api \<Rightarrow> pcan \<Rightarrow> 'w \<Rightarrow> pcan \<times> 'w" where
  "fbsec_pcan_unload A p w =
     (let (p, w) = (if pc_open p then fbsec_pcan_close A p w else (p, w));
          (p, w) = (if pc_dll p then (p\<lparr>pc_dll := False\<rparr>, pa_free A w) else (p, w))
      in (p\<lparr>pc_fp := []\<rparr>, w))"

definition fbsec_pcan_load :: "'w pcan_api \<Rightarrow> pcan \<Rightarrow> 'w \<Rightarrow> bool \<times> pcan \<times> 'w" where
  "fbsec_pcan_load A p w =
     (if pc_dll p then (True, p, w)
      else (case pa_load A w of (ok, w) \<Rightarrow>
        if \<not> ok then (False, p, w)
        else let p = p\<lparr>pc_dll := True, pc_fp := filter (\<lambda>s. pa_symbol A s w) pcan_symbols\<rparr>
             in if \<not> (\<forall>s\<in>set pcan_symbols. s \<in> set (pc_fp p))
                then (False, fbsec_pcan_unload A p w)
                else (True, p, w)))"

definition fbsec_pcan_loaded :: "pcan \<Rightarrow> bool" where
  "fbsec_pcan_loaded p \<longleftrightarrow> pc_dll p \<and> ''CAN_InitializeFD'' \<in> set (pc_fp p)"

definition fbsec_pcan_is_open :: "pcan \<Rightarrow> bool" where
  "fbsec_pcan_is_open p = pc_open p"

definition fbsec_pcan_open_500k_2m :: "'w pcan_api \<Rightarrow> u16 \<Rightarrow> pcan \<Rightarrow> 'w \<Rightarrow> bool \<times> pcan \<times> 'w" where
  "fbsec_pcan_open_500k_2m A handle p w =
     (if \<not> fbsec_pcan_loaded p then (False, p, w)
      else if pc_open p then (False, p, w)
      else (case pa_init A handle w of (st, w) \<Rightarrow>
        if st \<noteq> PCAN_ERROR_OK then (False, p, w)
        else (True, p\<lparr>pc_open_handle := handle, pc_open := True\<rparr>, w)))"

section \<open>Channels\<close>

text \<open>\<open>k_probe_handles\<close>: the eight USB and the eight PCI channels.\<close>

definition k_probe_handles :: "u16 list" where
  "k_probe_handles = [0x51, 0x52, 0x53, 0x54, 0x55, 0x56, 0x57, 0x58,
                      0x41, 0x42, 0x43, 0x44, 0x45, 0x46, 0x47, 0x48]"

definition fbsec_pcan_handle_name :: "u16 \<Rightarrow> string" where
  "fbsec_pcan_handle_name handle =
     (if 0x51 \<le> handle \<and> handle \<le> 0x58
      then ''PCAN_USBBUS'' @ decimal (unat (handle - 0x50))
      else if 0x41 \<le> handle \<and> handle \<le> 0x48
      then ''PCAN_PCIBUS'' @ decimal (unat (handle - 0x40))
      else ''?'')"

text \<open>\<open>condition_label\<close>, for the report of the probe.\<close>

definition condition_label :: "u32 \<Rightarrow> string" where
  "condition_label c = (if c = 0 then ''unavailable'' else if c = 1 then ''available''
     else if c = 2 then ''occupied'' else if c = 4 then ''pcanview'' else ''?'')"

definition channel_supports_fd :: "'w pcan_api \<Rightarrow> pcan \<Rightarrow> 'w \<Rightarrow> u16 \<Rightarrow> bool" where
  "channel_supports_fd A p w handle =
     (if ''CAN_GetValue'' \<notin> set (pc_fp p) then False
      else (case pa_getval A handle PCAN_CHANNEL_FEATURES w of (st, features) \<Rightarrow>
        if st \<noteq> PCAN_ERROR_OK then False else features AND PCAN_FEATURE_FD_CAPABLE \<noteq> 0))"

definition probe_offers :: "'w pcan_api \<Rightarrow> pcan \<Rightarrow> 'w \<Rightarrow> u16 \<Rightarrow> bool" where
  "probe_offers A p w handle =
     (case pa_getval A handle PCAN_CHANNEL_CONDITION w of (st, condition) \<Rightarrow>
        if st \<noteq> PCAN_ERROR_OK then False
        else if condition = PCAN_CHANNEL_UNAVAILABLE then False
        else if condition = PCAN_CHANNEL_OCCUPIED then False
        else channel_supports_fd A p w handle)"

text \<open>The number of channels found, and the first \<open>cap\<close> of them.\<close>

definition fbsec_pcan_probe_available :: "'w pcan_api \<Rightarrow> pcan \<Rightarrow> 'w \<Rightarrow> nat \<Rightarrow> nat \<times> u16 list" where
  "fbsec_pcan_probe_available A p w cap =
     (if \<not> fbsec_pcan_loaded p then (0, [])
      else let found = filter (probe_offers A p w) k_probe_handles
           in (length found, take cap found))"

definition fbsec_pcan_parse_channel :: "string \<Rightarrow> u16 option" where
  "fbsec_pcan_parse_channel s =
     (if s = [] then None
      else (case find (\<lambda>h. s = fbsec_pcan_handle_name h) k_probe_handles of
        Some h \<Rightarrow> Some h
      | None \<Rightarrow> (case strtoul 32 0 s of (v, r) \<Rightarrow>
          if r = s \<or> r \<noteq> [] \<or> v = 0 \<or> v > 0xFFFF then None else Some (of_nat v))))"

section \<open>Lengths of CAN FD\<close>

text \<open>The code of a length and the length it stands for.\<close>

definition len_to_dlc :: "u8 \<Rightarrow> u8 \<times> u8" where
  "len_to_dlc len =
     (if len \<le> 8 then (len, len)
      else if len \<le> 12 then (9, 12)
      else if len \<le> 16 then (10, 16)
      else if len \<le> 20 then (11, 20)
      else if len \<le> 24 then (12, 24)
      else if len \<le> 32 then (13, 32)
      else if len \<le> 48 then (14, 48)
      else (15, 64))"

definition dlc_to_len :: "u8 \<Rightarrow> u8" where
  "dlc_to_len dlc =
     [0, 1, 2, 3, 4, 5, 6, 7, 8, 12, 16, 20, 24, 32, 48, 64] ! unat (dlc AND 0x0F)"

section \<open>Transfers\<close>

text \<open>The message handed to the driver.\<close>

definition pcan_message :: "u32 \<Rightarrow> bool \<Rightarrow> bool \<Rightarrow> bytes \<Rightarrow> u8 \<Rightarrow> pcan_msg" where
  "pcan_message can_id extended brs data len =
     \<lparr>pm_id = can_id,
      pm_msgtype = PCAN_MESSAGE_FD OR (if extended then PCAN_MESSAGE_EXTENDED else 0)
                   OR (if brs then PCAN_MESSAGE_BRS else 0),
      pm_dlc = fst (len_to_dlc len),
      pm_data = put (replicate FBSEC_PCAN_MSG_DATA_MAX 0) 0 (take (unat len) data)\<rparr>"

definition fbsec_pcan_write_fd ::
  "'w pcan_api \<Rightarrow> pcan \<Rightarrow> u32 \<Rightarrow> bool \<Rightarrow> bool \<Rightarrow> bytes \<Rightarrow> u8 \<Rightarrow> 'w \<Rightarrow> bool \<times> 'w" where
  "fbsec_pcan_write_fd A p can_id extended brs data len w =
     (if \<not> pc_open p \<or> ''CAN_WriteFD'' \<notin> set (pc_fp p) then (False, w)
      else if unat len > FBSEC_PCAN_MSG_DATA_MAX then (False, w)
      else (case pa_write A (pc_open_handle p) (pcan_message can_id extended brs data len) w of
              (st, w) \<Rightarrow> (st = PCAN_ERROR_OK, w)))"

text \<open>Identifier, extended, bit rate switch and data of a message from the driver.\<close>

definition pcan_received :: "pcan_msg \<Rightarrow> u32 \<times> bool \<times> bool \<times> bytes \<times> u8" where
  "pcan_received m =
     (let l = dlc_to_len (pm_dlc m);
          l = (if unat l > FBSEC_PCAN_MSG_DATA_MAX then of_nat FBSEC_PCAN_MSG_DATA_MAX else l)
      in (pm_id m, pm_msgtype m AND PCAN_MESSAGE_EXTENDED \<noteq> 0, pm_msgtype m AND PCAN_MESSAGE_BRS \<noteq> 0,
          take (unat l) (pm_data m), l))"

definition fbsec_pcan_read_fd ::
  "'w pcan_api \<Rightarrow> pcan \<Rightarrow> 'w \<Rightarrow> (u32 \<times> bool \<times> bool \<times> bytes \<times> u8) option \<times> 'w" where
  "fbsec_pcan_read_fd A p w =
     (if \<not> pc_open p \<or> ''CAN_ReadFD'' \<notin> set (pc_fp p) then (None, w)
      else (case pa_read A (pc_open_handle p) w of
              ((st, m), w) \<Rightarrow> if st \<noteq> PCAN_ERROR_OK then (None, w) else (Some (pcan_received m), w)))"

section \<open>Facts\<close>

lemma u8_upto: "unat (l :: u8) < n \<Longrightarrow> l \<in> set (map of_nat [0 ..< n])"
  by (auto simp: image_iff intro!: bexI [where x = "unat l"])

lemma dlc_padded:
  assumes "unat len \<le> 64"
  shows "dlc_to_len (fst (len_to_dlc len)) = snd (len_to_dlc len)"
    "unat len \<le> unat (snd (len_to_dlc len))" "unat (snd (len_to_dlc len)) \<le> 64"
    "unat len \<le> 8 \<Longrightarrow> snd (len_to_dlc len) = len"
proof -
  have "len \<in> set (map of_nat [0 ..< 65])" using assms by (intro u8_upto) simp
  moreover have "\<forall>l \<in> set (map of_nat [0 ..< 65]) :: u8 set.
      dlc_to_len (fst (len_to_dlc l)) = snd (len_to_dlc l) \<and> unat l \<le> unat (snd (len_to_dlc l)) \<and>
      unat (snd (len_to_dlc l)) \<le> 64 \<and> (unat l \<le> 8 \<longrightarrow> snd (len_to_dlc l) = l)"
    by code_simp
  ultimately show "dlc_to_len (fst (len_to_dlc len)) = snd (len_to_dlc len)"
    "unat len \<le> unat (snd (len_to_dlc len))" "unat (snd (len_to_dlc len)) \<le> 64"
    "unat len \<le> 8 \<Longrightarrow> snd (len_to_dlc len) = len" by blast+
qed

text \<open>A message that goes out and comes back: the length is padded, the data is extended by zeros.\<close>

lemma pcan_received_message:
  assumes l: "unat len \<le> 64" "length data = 64"
  shows "pcan_received (pcan_message can_id extended brs data len) =
    (can_id, extended, brs,
     take (unat len) data @ replicate (unat (snd (len_to_dlc len)) - unat len) 0,
     snd (len_to_dlc len))"
proof -
  note d = dlc_padded [OF l(1)]
  have "take (unat (snd (len_to_dlc len))) (put (replicate 64 0) 0 (take (unat len) data)) =
      take (unat len) data @ replicate (unat (snd (len_to_dlc len)) - unat len) 0"
    using d(2,3) l by (simp add: put_def min_def)
  moreover have "(0x02 :: u8) AND (0x04 OR (if extended then 0x02 else 0) OR (if brs then 0x08 else 0)) \<noteq> 0
      \<longleftrightarrow> extended"
    "(0x08 :: u8) AND (0x04 OR (if extended then 0x02 else 0) OR (if brs then 0x08 else 0)) \<noteq> 0 \<longleftrightarrow> brs"
    by (cases extended; cases brs; simp)+
  ultimately show ?thesis
    using d by (simp add: pcan_received_def pcan_message_def Let_def and.commute)
qed

text \<open>
  Decoding does not see the padding: every length that matters is in the frame
  itself. \<open>pads f g\<close>: \<open>g\<close> is \<open>f\<close> with more bytes at its end, and
  frames of up to eight bytes are not padded.
\<close>

definition pads :: "frame \<Rightarrow> frame \<Rightarrow> bool" where
  "pads f g \<longleftrightarrow> fbsec_co_fd_frame_id_value g = fbsec_co_fd_frame_id_value f \<and>
     unat (fr_len f) \<le> unat (fr_len g) \<and> (unat (fr_len f) \<le> 8 \<longrightarrow> fr_len g = fr_len f) \<and>
     take (unat (fr_len f)) (fr_payload g) = take (unat (fr_len f)) (fr_payload f)"

lemma pads_nth: "pads f g \<Longrightarrow> i < unat (fr_len f) \<Longrightarrow> fr_payload g ! i = fr_payload f ! i"
  unfolding pads_def by (metis nth_take)

lemma pads_get: "pads f g \<Longrightarrow> i + 1 < unat (fr_len f) \<Longrightarrow> get16 (fr_payload g) i = get16 (fr_payload f) i"
    "pads f g \<Longrightarrow> i + 3 < unat (fr_len f) \<Longrightarrow> get32 (fr_payload g) i = get32 (fr_payload f) i"
  by (simp_all add: get16_def get32_def pads_nth)

lemma take_slice: "i + k \<le> n \<Longrightarrow> slice (take n p) i k = slice p i k"
  by (simp add: slice_def drop_take min_def)

lemma pads_slice:
  "pads f g \<Longrightarrow> i + k \<le> unat (fr_len f) \<Longrightarrow> slice (fr_payload g) i k = slice (fr_payload f) i k"
  unfolding pads_def by (metis take_slice)

lemma pads_bytes:
  assumes "pads f g"
  shows "\<not> unat (fr_len f) < 4 \<Longrightarrow> fr_payload g ! 3 = fr_payload f ! 3"
    "\<not> unat (fr_len f) < 6 \<Longrightarrow> get16 (fr_payload g) 4 = get16 (fr_payload f) 4"
    "\<not> unat (fr_len f) < 7 \<Longrightarrow> fr_payload g ! 6 = fr_payload f ! 6"
    "\<not> unat (fr_len f) < 8 \<Longrightarrow> fr_payload g ! 7 = fr_payload f ! 7"
    "\<not> unat (fr_len f) < 12 \<Longrightarrow> get32 (fr_payload g) 8 = get32 (fr_payload f) 8"
    "unat (fr_len f) < k \<or> \<not> unat (fr_len g) < k"
  using assms by (auto simp: pads_nth pads_get pads_def)

lemma if_chain:
  "(if c then x else y) = z \<Longrightarrow> (c \<Longrightarrow> x = z \<Longrightarrow> x' = z) \<Longrightarrow> (\<not> c \<Longrightarrow> y = z \<Longrightarrow> y' = z) \<Longrightarrow>
   (if c then x' else y') = z"
  by (cases c) simp_all

lemma if_guard:
  "(if c then Inl e else y) = Inr z \<Longrightarrow> (\<not> c \<Longrightarrow> \<not> c') \<Longrightarrow> (\<not> c \<Longrightarrow> y = Inr z \<Longrightarrow> y' = Inr z) \<Longrightarrow>
   (if c' then Inl e' else y') = Inr z"
  by (simp split: if_splits)

lemma pads_len: "pads f g \<Longrightarrow> \<not> unat (fr_len f) < k \<Longrightarrow> \<not> unat (fr_len g) < k"
  by (simp add: pads_def)

lemma pads_segmented:
  assumes "pads f g" "decode_segmented f pdu = Some (Inr r)"
  shows "decode_segmented g pdu = Some (Inr r)"
proof -
  note b = pads_bytes [OF assms(1)] pads_slice [OF assms(1)]
  note l = pads_len [OF assms(1)]
  show ?thesis
    using assms(2) unfolding decode_segmented_def Let_def
    apply (elim if_chain)
    subgoal by (simp split: if_splits) (use l [of 64] b(1) b(7) [of 4 60] in simp)
    subgoal by (simp split: if_splits) (use l [of 4] l b(1) b(7) [of 4] in auto)
    subgoal by (simp split: if_splits) (use l [of 4] b(1) in simp)
    subgoal .
    subgoal by (simp split: if_splits) (use l [of 7] b(1,2,3) in simp)
    subgoal .
    done
qed

lemma pads_multiplexed:
  assumes "pads f g" "decode_multiplexed f pdu = Inr r"
  shows "decode_multiplexed g pdu = Inr r"
proof -
  note b = pads_bytes [OF assms(1)] pads_slice [OF assms(1)]
  note l = pads_len [OF assms(1)]
  have n6: "\<not> unat (fr_len f) < 6"
    using assms(2) by (auto simp: decode_multiplexed_def Let_def)
  have same: "fr_payload g ! 3 = fr_payload f ! 3" "get16 (fr_payload g) 4 = get16 (fr_payload f) 4"
    using n6 b(1,2) by simp_all
  have six: "6 < unat (fr_len g) \<longleftrightarrow> 6 < unat (fr_len f)"
    using assms(1) by (auto simp: pads_def)
  show ?thesis
    using assms(2) unfolding decode_multiplexed_def Let_def same six
    apply (elim if_guard)
      apply (simp add: l [OF n6])
     apply simp
    apply (elim if_chain)
    subgoal by (simp split: if_splits) (use l [of 12] b(3,5) in simp)
    subgoal .
    subgoal by (simp split: if_splits) (use l [of 8] l b(3,4) b(7) [of 8] in auto)
    subgoal .
    done
qed

lemma segmented_none: "decode_segmented f pdu = None \<longleftrightarrow> decode_segmented g pdu = None"
  by (simp add: decode_segmented_def Let_def)

lemma pads_body:
  assumes "pads f g"
    "(case decode_segmented f q of Some r \<Rightarrow> r | None \<Rightarrow> decode_multiplexed f q) = Inr pdu"
  shows "(case decode_segmented g q of Some r \<Rightarrow> r | None \<Rightarrow> decode_multiplexed g q) = Inr pdu"
proof (cases "decode_segmented f q")
  case None
  then show ?thesis
    using assms(2) segmented_none [of f q g] pads_multiplexed [OF assms(1)] by simp
next
  case (Some r)
  then show ?thesis using assms(2) pads_segmented [OF assms(1)] by simp
qed

lemma decode_padding:
  assumes p: "pads f g" and d: "fbsec_co_fd_usdo_decode f = Inr pdu"
  shows "fbsec_co_fd_usdo_decode g = Inr pdu"
proof -
  obtain sender kind u where k: "fbsec_co_fd_usdo_can_id_split (fbsec_co_fd_frame_id_value f) = (sender, kind, u)"
    by (metis prod_cases3)
  have kg: "fbsec_co_fd_usdo_can_id_split (fbsec_co_fd_frame_id_value g) = (sender, kind, u)"
    using p k by (simp add: pads_def)
  have n3: "\<not> unat (fr_len f) < 3"
    using d k by (auto simp: fbsec_co_fd_usdo_decode_def split: if_splits)
  have h: "fr_payload g ! 0 = fr_payload f ! 0" "fr_payload g ! 1 = fr_payload f ! 1"
    "fr_payload g ! 2 = fr_payload f ! 2"
    using n3 by (simp_all add: pads_nth [OF p])
  show ?thesis
    using d unfolding fbsec_co_fd_usdo_decode_def k kg Let_def h prod.case
    apply (elim if_guard)
       apply simp
      apply (simp add: pads_len [OF p n3])
     apply simp
    apply simp
    apply (erule pads_body [OF p])
    done
qed

end
