(* ===== verification/Bus_Common.thy ===== *)
theory Bus_Common
  imports Co_Fd_Carrier C_Text
begin

text \<open>
  The bus simulator without its variant (\<open>bus_common/bus_common.c\<close>): the
  table of peers, the relay, the trace rows, the event loop and the life cycle
  of a run. The variant is the record \<open>bus_callbacks\<close>; the operating system
  is the record \<open>bus_os\<close> over a world. Messages on standard error are left
  out.
\<close>

section \<open>State\<close>

abbreviation (input) FBSEC_BUS_MAX_PEERS :: nat where "FBSEC_BUS_MAX_PEERS \<equiv> 63"
abbreviation (input) FBSEC_BUS_LISTEN_BACKLOG :: nat where "FBSEC_BUS_LISTEN_BACKLOG \<equiv> 16"

text \<open>
  \<open>bus_peer_t\<close>: \<open>None\<close> for \<open>INVALID_SOCKET\<close>; the variant's pointer is the index of
  an element of its pool, \<open>None\<close> for \<open>NULL\<close>.
\<close>

record bus_peer =
  bp_sock :: "nat option"
  bp_in_use :: bool
  bp_tcp_port :: u16
  bp_user :: "nat option"

datatype color_pref = COLOR_AUTO | COLOR_ALWAYS | COLOR_NEVER

record bus_options =
  bo_port :: int
  bo_quiet :: bool
  bo_color_pref :: color_pref
  bo_idle_timeout_ms :: int

text \<open>
  The static variables of the file, with the variant's \<open>'v\<close>, the lines printed
  on the standard output and the world.
\<close>

record ('v, 'w) bus =
  g_peers :: "bus_peer list"
  g_listen_sock :: "nat option"
  g_shutdown_flag :: bool
  g_quiet :: bool
  g_use_color :: bool
  g_frame_no :: "64 word"
  g_idle_timeout_ms :: int
  bus_out :: "string list"
  bus_variant :: 'v
  bus_world :: 'w

record ('v, 'w) bus_callbacks =
  on_peer_accepted :: "nat \<Rightarrow> u16 \<Rightarrow> ('v, 'w) bus \<Rightarrow> nat option \<times> ('v, 'w) bus"
  on_peer_readable :: "nat option \<Rightarrow> nat option \<Rightarrow> ('v, 'w) bus \<Rightarrow> int \<times> ('v, 'w) bus"
  on_peer_dropped :: "nat option \<Rightarrow> nat option \<Rightarrow> ('v, 'w) bus \<Rightarrow> ('v, 'w) bus"
  on_idle_tick :: "('v, 'w) bus \<Rightarrow> ('v, 'w) bus option"

text \<open>
  \<open>select\<close> gives the sockets that are ready; the flag says that the console's
  control handler ran on its thread during the wait.
\<close>

datatype select_result = Select_Error bool | Select_Timeout | Select_Ready "nat list"

datatype bind_result = Bind_Ok | Bind_In_Use | Bind_Error

record 'w bus_os =
  os_sockets :: "'w sockets"
  os_startup :: "'w \<Rightarrow> bool \<times> 'w"
  os_cleanup :: "'w \<Rightarrow> 'w"
  os_socket :: "'w \<Rightarrow> nat option \<times> 'w"
  os_bind :: "nat \<Rightarrow> int \<Rightarrow> 'w \<Rightarrow> bind_result \<times> 'w"
  os_listen :: "nat \<Rightarrow> nat \<Rightarrow> 'w \<Rightarrow> bool \<times> 'w"
  os_sleep :: "nat \<Rightarrow> 'w \<Rightarrow> 'w"
  os_accept :: "nat \<Rightarrow> 'w \<Rightarrow> (nat \<times> u16) option \<times> 'w"
  os_select :: "nat option list \<Rightarrow> int \<Rightarrow> 'w \<Rightarrow> (select_result \<times> bool) \<times> 'w"
  os_timestamp :: "'w \<Rightarrow> string"
  os_console :: "'w \<Rightarrow> bool"

section \<open>Colours and trace rows\<close>

definition ESC :: string where "ESC = [CHR 0x1B]"

definition fbsec_bus_use_color :: "('v, 'w) bus \<Rightarrow> bool" where
  "fbsec_bus_use_color b = g_use_color b"

definition fbsec_bus_ansi_reset :: "('v, 'w) bus \<Rightarrow> string" where
  "fbsec_bus_ansi_reset b = (if g_use_color b then ESC @ ''[0m'' else '''')"

definition fbsec_bus_ansi_red :: "('v, 'w) bus \<Rightarrow> string" where
  "fbsec_bus_ansi_red b = (if g_use_color b then ESC @ ''[31m'' else '''')"

definition fbsec_bus_ansi_blue :: "('v, 'w) bus \<Rightarrow> string" where
  "fbsec_bus_ansi_blue b = (if g_use_color b then ESC @ ''[94m'' else '''')"

definition fbsec_bus_ansi_magenta :: "('v, 'w) bus \<Rightarrow> string" where
  "fbsec_bus_ansi_magenta b = (if g_use_color b then ESC @ ''[35m'' else '''')"

definition fbsec_bus_ansi_dim :: "('v, 'w) bus \<Rightarrow> string" where
  "fbsec_bus_ansi_dim b = (if g_use_color b then ESC @ ''[2m'' else '''')"

definition resolve_color :: "'w bus_os \<Rightarrow> color_pref \<Rightarrow> ('v, 'w) bus \<Rightarrow> ('v, 'w) bus" where
  "resolve_color os pref b =
     b\<lparr>g_use_color := (case pref of COLOR_NEVER \<Rightarrow> False | COLOR_ALWAYS \<Rightarrow> True
                        | COLOR_AUTO \<Rightarrow> os_console os (bus_world b))\<rparr>"

definition fbsec_bus_emit_trace_row ::
  "'w bus_os \<Rightarrow> string \<Rightarrow> string \<Rightarrow> string \<Rightarrow> ('v, 'w) bus \<Rightarrow> ('v, 'w) bus" where
  "fbsec_bus_emit_trace_row os col_start col_end body b =
     (if g_quiet b then b
      else let n = g_frame_no b + 1; ts = os_timestamp os (bus_world b);
               num = (if n < 100000 then pad_zeros 5 (decimal (unat n)) else decimal (unat n))
           in b\<lparr>g_frame_no := n,
                bus_out := bus_out b @ [col_start @ num @ '','' @ ts @ '','' @ body @ col_end]\<rparr>)"

section \<open>Wire input and output\<close>

text \<open>A call on \<open>INVALID_SOCKET\<close> fails.\<close>

definition sock_recv :: "'w sockets \<Rightarrow> nat option \<Rightarrow> nat \<Rightarrow> 'w \<Rightarrow> recv_result \<times> 'w" where
  "sock_recv S sock n w = (case sock of None \<Rightarrow> (Recv_Error, w) | Some s \<Rightarrow> so_recv S s n w)"

definition sock_send :: "'w sockets \<Rightarrow> nat option \<Rightarrow> bytes \<Rightarrow> 'w \<Rightarrow> int \<times> 'w" where
  "sock_send S sock buf w = (case sock of None \<Rightarrow> (-1, w) | Some s \<Rightarrow> so_send S s buf w)"

definition sock_close :: "'w sockets \<Rightarrow> nat option \<Rightarrow> 'w \<Rightarrow> 'w" where
  "sock_close S sock w = (case sock of None \<Rightarrow> w | Some s \<Rightarrow> so_close S s w)"

datatype recv_exact_result = Got bytes | Got_Eof | Got_Error

text \<open>A failure before the first byte of the read counts as the end of the stream.\<close>

function bus_recv :: "'w sockets \<Rightarrow> nat option \<Rightarrow> nat \<Rightarrow> bytes \<Rightarrow> 'w \<Rightarrow> recv_exact_result \<times> 'w" where
  "bus_recv S sock n got w =
     (if n \<le> length got then (Got got, w)
      else (case sock_recv S sock (n - length got) w of
              (Received b, w1) \<Rightarrow>
                if b = [] then ((if got = [] then Got_Eof else Got_Error), w1)
                else bus_recv S sock n (got @ b) w1
            | (_, w1) \<Rightarrow> ((if got = [] then Got_Eof else Got_Error), w1)))"
  by pat_completeness auto
termination
  by (relation "measure (\<lambda>(S, sock, n, got, w). n - length got)")
     (auto intro!: diff_less_mono2 simp: not_le)

declare bus_recv.simps [simp del]

definition fbsec_bus_recv_exact :: "'w sockets \<Rightarrow> nat option \<Rightarrow> nat \<Rightarrow> 'w \<Rightarrow> recv_exact_result \<times> 'w" where
  "fbsec_bus_recv_exact S sock n w = bus_recv S sock n [] w"

function fbsec_bus_send_all :: "'w sockets \<Rightarrow> nat option \<Rightarrow> bytes \<Rightarrow> 'w \<Rightarrow> bool \<times> 'w" where
  "fbsec_bus_send_all S sock buf w =
     (if buf = [] then (True, w)
      else (case sock_send S sock buf w of
              (r, w1) \<Rightarrow> if r \<le> 0 then (False, w1)
                         else fbsec_bus_send_all S sock (drop (nat r) buf) w1))"
  by pat_completeness auto
termination by (relation "measure (\<lambda>(S, sock, buf, w). length buf)") auto

declare fbsec_bus_send_all.simps [simp del]

section \<open>Peers and relay\<close>

definition no_peer :: bus_peer where
  "no_peer = \<lparr>bp_sock = None, bp_in_use = False, bp_tcp_port = 0, bp_user = None\<rparr>"

text \<open>The loop over the table calls the visitor on each peer in use but the one to skip.\<close>

fun each_peer ::
  "nat option \<Rightarrow> (nat option \<Rightarrow> nat option \<Rightarrow> 's \<Rightarrow> 's) \<Rightarrow> bus_peer list \<Rightarrow> 's \<Rightarrow> 's" where
  "each_peer skip fn [] s = s"
| "each_peer skip fn (p # ps) s =
     each_peer skip fn ps
       (if \<not> bp_in_use p \<or> bp_sock p = skip then s else fn (bp_sock p) (bp_user p) s)"

definition fbsec_bus_each_peer ::
  "nat option \<Rightarrow> (nat option \<Rightarrow> nat option \<Rightarrow> 'w \<Rightarrow> 'w) \<Rightarrow> ('v, 'w) bus \<Rightarrow> ('v, 'w) bus" where
  "fbsec_bus_each_peer skip fn b = b\<lparr>bus_world := each_peer skip fn (g_peers b) (bus_world b)\<rparr>"

text \<open>A peer whose send fails is closed and its slot given up, without the variant's callback.\<close>

fun relay_peers ::
  "'w sockets \<Rightarrow> nat option \<Rightarrow> bytes \<Rightarrow> bus_peer list \<Rightarrow> 'w \<Rightarrow> bus_peer list \<times> 'w" where
  "relay_peers S origin bytes [] w = ([], w)"
| "relay_peers S origin bytes (p # ps) w =
     (let (p, w) =
        (if \<not> bp_in_use p \<or> bp_sock p = origin then (p, w)
         else (case fbsec_bus_send_all S (bp_sock p) bytes w of
                 (ok, w) \<Rightarrow>
                   if ok then (p, w)
                   else (p\<lparr>bp_sock := None, bp_in_use := False, bp_user := None\<rparr>,
                         sock_close S (bp_sock p) w)))
      in case relay_peers S origin bytes ps w of (ps, w) \<Rightarrow> (p # ps, w))"

definition fbsec_bus_relay_bytes ::
  "'w bus_os \<Rightarrow> nat option \<Rightarrow> bytes \<Rightarrow> ('v, 'w) bus \<Rightarrow> ('v, 'w) bus" where
  "fbsec_bus_relay_bytes os origin bytes b =
     (case relay_peers (os_sockets os) origin bytes (g_peers b) (bus_world b) of
        (ps, w) \<Rightarrow> b\<lparr>g_peers := ps, bus_world := w\<rparr>)"

section \<open>The control handler\<close>

fun close_peers :: "'w sockets \<Rightarrow> bus_peer list \<Rightarrow> 'w \<Rightarrow> bus_peer list \<times> 'w" where
  "close_peers S [] w = ([], w)"
| "close_peers S (p # ps) w =
     (let (p, w) = (if bp_in_use p \<and> bp_sock p \<noteq> None
                    then (p\<lparr>bp_sock := None\<rparr>, sock_close S (bp_sock p) w) else (p, w))
      in case close_peers S ps w of (ps, w) \<Rightarrow> (p # ps, w))"

definition ctrl_handler :: "'w bus_os \<Rightarrow> ('v, 'w) bus \<Rightarrow> ('v, 'w) bus" where
  "ctrl_handler os b =
     (case close_peers (os_sockets os) (g_peers b) (sock_close (os_sockets os) (g_listen_sock b) (bus_world b)) of
        (ps, w) \<Rightarrow> b\<lparr>g_shutdown_flag := True, g_listen_sock := None, g_peers := ps, bus_world := w\<rparr>)"

section \<open>Listening\<close>

text \<open>Up to five attempts; the socket bound, or nothing.\<close>

fun bind_attempts :: "'w bus_os \<Rightarrow> int \<Rightarrow> nat \<Rightarrow> 'w \<Rightarrow> nat option \<times> 'w" where
  "bind_attempts os port 0 w = (None, w)"
| "bind_attempts os port (Suc n) w =
     (case os_socket os w of
        (None, w) \<Rightarrow> (None, w)
      | (Some s, w) \<Rightarrow>
          (case os_bind os s port w of
             (Bind_Ok, w) \<Rightarrow> (Some s, w)
           | (Bind_In_Use, w) \<Rightarrow>
               bind_attempts os port n (os_sleep os 200 (so_close (os_sockets os) s w))
           | (Bind_Error, w) \<Rightarrow> (None, so_close (os_sockets os) s w)))"

definition start_listening :: "'w bus_os \<Rightarrow> int \<Rightarrow> ('v, 'w) bus \<Rightarrow> bool \<times> ('v, 'w) bus" where
  "start_listening os port b =
     (case bind_attempts os port 5 (bus_world b) of
        (None, w) \<Rightarrow> (False, b\<lparr>bus_world := w\<rparr>)
      | (Some s, w) \<Rightarrow>
          (case os_listen os s FBSEC_BUS_LISTEN_BACKLOG w of
             (ok, w) \<Rightarrow>
               if \<not> ok then (False, b\<lparr>bus_world := so_close (os_sockets os) s w\<rparr>)
               else (True, b\<lparr>g_listen_sock := Some s, bus_world := w\<rparr>)))"

section \<open>Accepting and dropping\<close>

fun first_free :: "bus_peer list \<Rightarrow> nat option" where
  "first_free [] = None"
| "first_free (p # ps) = (if \<not> bp_in_use p then Some 0 else map_option Suc (first_free ps))"

definition accept_new_peer ::
  "'w bus_os \<Rightarrow> ('v, 'w) bus_callbacks \<Rightarrow> ('v, 'w) bus \<Rightarrow> ('v, 'w) bus" where
  "accept_new_peer os cb b =
     (case g_listen_sock b of
        None \<Rightarrow> b
      | Some ls \<Rightarrow>
          (case os_accept os ls (bus_world b) of
             (None, w) \<Rightarrow> b\<lparr>bus_world := w\<rparr>
           | (Some (s, tcp_port), w) \<Rightarrow>
               (case first_free (g_peers b) of
                  None \<Rightarrow> b\<lparr>bus_world := so_close (os_sockets os) s w\<rparr>
                | Some i \<Rightarrow>
                    (case on_peer_accepted cb s tcp_port (b\<lparr>bus_world := w\<rparr>) of
                       (user, b) \<Rightarrow>
                         b\<lparr>g_peers := (g_peers b)[i := \<lparr>bp_sock = Some s, bp_in_use = True,
                             bp_tcp_port = tcp_port, bp_user = user\<rparr>]\<rparr>))))"

definition drop_peer ::
  "'w bus_os \<Rightarrow> ('v, 'w) bus_callbacks \<Rightarrow> nat \<Rightarrow> ('v, 'w) bus \<Rightarrow> ('v, 'w) bus" where
  "drop_peer os cb i b =
     (let p = g_peers b ! i in
      if \<not> bp_in_use p then b
      else let b = b\<lparr>g_peers := (g_peers b)[i := p\<lparr>bp_sock := None, bp_in_use := False, bp_user := None\<rparr>]\<rparr>;
               b = on_peer_dropped cb (bp_sock p) (bp_user p) b
           in b\<lparr>bus_world := sock_close (os_sockets os) (bp_sock p) (bus_world b)\<rparr>)"

section \<open>The event loop\<close>

fun serve_peers ::
  "'w bus_os \<Rightarrow> ('v, 'w) bus_callbacks \<Rightarrow> nat list \<Rightarrow> nat list \<Rightarrow> ('v, 'w) bus \<Rightarrow> ('v, 'w) bus" where
  "serve_peers os cb ready [] b = b"
| "serve_peers os cb ready (i # is) b =
     (let p = g_peers b ! i in
      serve_peers os cb ready is
        (if bp_in_use p \<and> (case bp_sock p of None \<Rightarrow> False | Some s \<Rightarrow> s \<in> set ready)
         then (case on_peer_readable cb (bp_sock p) (bp_user p) b of
                 (rc, b) \<Rightarrow> if rc \<noteq> 0 then drop_peer os cb i b else b)
         else b))"

definition watched :: "('v, 'w) bus \<Rightarrow> nat option list" where
  "watched b = (case g_listen_sock b of None \<Rightarrow> [] | Some ls \<Rightarrow> [Some ls])
               @ map bp_sock (filter bp_in_use (g_peers b))"

text \<open>
  One iteration: whether the loop goes on, and the state; nothing when the
  variant's idle work does not return.
\<close>

definition loop_step ::
  "'w bus_os \<Rightarrow> ('v, 'w) bus_callbacks \<Rightarrow> ('v, 'w) bus \<Rightarrow> (bool \<times> ('v, 'w) bus) option" where
  "loop_step os cb b =
     (let effective_to = (if g_idle_timeout_ms b > 0 then g_idle_timeout_ms b else 250)
      in case os_select os (watched b) effective_to (bus_world b) of
        ((sel, ctrl), w) \<Rightarrow>
          (let b = b\<lparr>bus_world := w\<rparr>; b = (if ctrl then ctrl_handler os b else b)
           in case sel of
                Select_Error eintr \<Rightarrow>
                  Some (\<not> g_shutdown_flag b \<and> eintr, b)
              | Select_Timeout \<Rightarrow> map_option (\<lambda>b. (True, b)) (on_idle_tick cb b)
              | Select_Ready ready \<Rightarrow>
                  (let b = (case g_listen_sock b of
                              Some ls \<Rightarrow> if ls \<in> set ready then accept_new_peer os cb b else b
                            | None \<Rightarrow> b)
                   in Some (True, serve_peers os cb ready [0 ..< FBSEC_BUS_MAX_PEERS] b))))"

partial_function (option) run_event_loop ::
  "'w bus_os \<Rightarrow> ('v, 'w) bus_callbacks \<Rightarrow> ('v, 'w) bus \<Rightarrow> ('v, 'w) bus option" where
  "run_event_loop os cb b =
     (if g_shutdown_flag b then Some b
      else (case loop_step os cb b of
              None \<Rightarrow> None
            | Some (go, b) \<Rightarrow> if go then run_event_loop os cb b else Some b))"

fun drop_all ::
  "'w bus_os \<Rightarrow> ('v, 'w) bus_callbacks \<Rightarrow> nat list \<Rightarrow> ('v, 'w) bus \<Rightarrow> ('v, 'w) bus" where
  "drop_all os cb [] b = b"
| "drop_all os cb (i # is) b = drop_all os cb is (drop_peer os cb i b)"

definition shutdown_all ::
  "'w bus_os \<Rightarrow> ('v, 'w) bus_callbacks \<Rightarrow> ('v, 'w) bus \<Rightarrow> ('v, 'w) bus" where
  "shutdown_all os cb b =
     (let b = drop_all os cb [0 ..< FBSEC_BUS_MAX_PEERS] b
      in b\<lparr>bus_world := sock_close (os_sockets os) (g_listen_sock b) (bus_world b), g_listen_sock := None\<rparr>)"

text \<open>The static variables at the start of a run; then the exit code and the state at its end.\<close>

definition bus_reset :: "'w bus_os \<Rightarrow> bus_options \<Rightarrow> ('v, 'w) bus \<Rightarrow> ('v, 'w) bus" where
  "bus_reset os opts b =
     (let b = b\<lparr>g_peers := map (\<lambda>p. p\<lparr>bp_sock := None, bp_in_use := False, bp_user := None\<rparr>) (g_peers b),
                g_quiet := bo_quiet opts\<rparr>;
          b = resolve_color os (bo_color_pref opts) b
      in b\<lparr>g_frame_no := 0, g_shutdown_flag := False, g_idle_timeout_ms := bo_idle_timeout_ms opts\<rparr>)"

definition fbsec_bus_run ::
  "'w bus_os \<Rightarrow> bus_options \<Rightarrow> ('v, 'w) bus_callbacks \<Rightarrow> ('v, 'w) bus \<Rightarrow> (int \<times> ('v, 'w) bus) option" where
  "fbsec_bus_run os opts cb b =
     (case os_startup os (bus_world b) of
        (ok, w) \<Rightarrow>
          if \<not> ok then Some (1, b\<lparr>bus_world := w\<rparr>)
          else (case start_listening os (bo_port opts) (bus_reset os opts (b\<lparr>bus_world := w\<rparr>)) of
                  (False, b) \<Rightarrow> Some (1, b\<lparr>bus_world := os_cleanup os (bus_world b)\<rparr>)
                | (True, b) \<Rightarrow>
                    (case run_event_loop os cb b of
                       None \<Rightarrow> None
                     | Some b \<Rightarrow>
                         (let b = shutdown_all os cb b
                          in Some (0, b\<lparr>bus_world := os_cleanup os (bus_world b)\<rparr>)))))"

section \<open>The contract of a variant\<close>

text \<open>
  What a variant promises about the peer table and its own state: \<open>inv\<close> holds
  of the two at every point of the loop. The callbacks get the socket and the
  pointer of the peer they are called for.
\<close>

definition closed_peers :: "bus_peer list \<Rightarrow> bus_peer list \<Rightarrow> bool" where
  "closed_peers ps ps' \<longleftrightarrow> list_all2 (\<lambda>p p'. p' = p \<or> p' = p\<lparr>bp_sock := None\<rparr>) ps ps'"

lemma close_peers_closed: "close_peers S ps w = (ps', w') \<Longrightarrow> closed_peers ps ps'"
  by (induction ps arbitrary: w ps')
     (auto simp: closed_peers_def Let_def split: prod.splits if_splits)

lemma first_free_Some: "first_free ps = Some i \<Longrightarrow> i < length ps \<and> \<not> bp_in_use (ps ! i)"
  by (induction ps arbitrary: i) (auto split: if_splits)

text \<open>What a failed send or a drop leaves of a peer.\<close>

definition gone :: "bus_peer \<Rightarrow> bus_peer" where
  "gone p = p\<lparr>bp_sock := None, bp_in_use := False, bp_user := None\<rparr>"

locale peer_accounting =
  fixes os :: "'w bus_os" and cb :: "('v, 'w) bus_callbacks" and inv :: "bus_peer list \<Rightarrow> 'v \<Rightarrow> bool"
  assumes inv_length: "inv ps v \<Longrightarrow> length ps = FBSEC_BUS_MAX_PEERS"
    and inv_closed: "inv ps v \<Longrightarrow> closed_peers ps ps' \<Longrightarrow> inv ps' v"
    and inv_accepted: "inv (g_peers b) (bus_variant b) \<Longrightarrow> on_peer_accepted cb s port b = (u, b') \<Longrightarrow>
      i < length (g_peers b) \<Longrightarrow> \<not> bp_in_use (g_peers b ! i) \<Longrightarrow>
      inv ((g_peers b')[i := \<lparr>bp_sock = Some s, bp_in_use = True, bp_tcp_port = port, bp_user = u\<rparr>])
        (bus_variant b')"
    and inv_readable: "inv (g_peers b) (bus_variant b) \<Longrightarrow> i < length (g_peers b) \<Longrightarrow>
      bp_in_use (g_peers b ! i) \<Longrightarrow>
      on_peer_readable cb (bp_sock (g_peers b ! i)) (bp_user (g_peers b ! i)) b = (rc, b') \<Longrightarrow>
      inv (g_peers b') (bus_variant b')"
    and inv_dropped: "inv (g_peers b) (bus_variant b) \<Longrightarrow> i < length (g_peers b) \<Longrightarrow>
      bp_in_use (g_peers b ! i) \<Longrightarrow>
      on_peer_dropped cb (bp_sock (g_peers b ! i)) (bp_user (g_peers b ! i))
        (b\<lparr>g_peers := (g_peers b)[i := gone (g_peers b ! i)]\<rparr>) = b' \<Longrightarrow>
      inv (g_peers b') (bus_variant b')"
    and inv_idle: "inv (g_peers b) (bus_variant b) \<Longrightarrow> on_idle_tick cb b = Some b' \<Longrightarrow>
      inv (g_peers b') (bus_variant b')"
begin

definition good :: "('v, 'w) bus \<Rightarrow> bool" where
  "good b \<longleftrightarrow> inv (g_peers b) (bus_variant b)"

lemma good_world [simp]: "good (b\<lparr>bus_world := w\<rparr>) = good b"
  by (simp add: good_def)

lemma good_ctrl: "good b \<Longrightarrow> good (ctrl_handler os b)"
  by (auto simp: good_def ctrl_handler_def intro: inv_closed close_peers_closed split: prod.split)

lemma good_accept: "good b \<Longrightarrow> good (accept_new_peer os cb b)"
  by (auto simp: accept_new_peer_def good_def dest!: first_free_Some
      intro: inv_accepted [where b = "b\<lparr>bus_world := w\<rparr>" for w, simplified] split: option.split prod.split)

lemma good_drop: "good b \<Longrightarrow> i < FBSEC_BUS_MAX_PEERS \<Longrightarrow> good (drop_peer os cb i b)"
  using inv_dropped [of b i] inv_length [of "g_peers b" "bus_variant b"]
  by (simp add: drop_peer_def Let_def good_def gone_def)

lemma good_serve:
  "good b \<Longrightarrow> \<forall>i \<in> set is. i < FBSEC_BUS_MAX_PEERS \<Longrightarrow> good (serve_peers os cb ready is b)"
proof (induction "is" arbitrary: b)
  case (Cons i js)
  obtain rc b' where r: "on_peer_readable cb (bp_sock (g_peers b ! i)) (bp_user (g_peers b ! i)) b = (rc, b')"
    by fastforce
  have "good b'" if "bp_in_use (g_peers b ! i)"
    using inv_readable [OF _ _ that r] Cons.prems inv_length by (auto simp: good_def)
  then show ?case using Cons r good_drop by (auto simp: Let_def)
qed simp

lemma good_idle: "on_idle_tick cb b = Some b' \<Longrightarrow> good b \<Longrightarrow> good b'"
  using inv_idle by (simp add: good_def)

lemma good_step: "good b \<Longrightarrow> loop_step os cb b = Some (go, b') \<Longrightarrow> good b'"
  unfolding loop_step_def Let_def
  by (auto split: prod.splits select_result.splits if_splits option.splits
      intro!: good_serve good_accept good_ctrl elim!: good_idle)

lemma good_loop:
  assumes "run_event_loop os cb b = Some b'" "good b"
  shows "good b'"
proof -
  let ?P = "\<lambda>os' cb' b b'. os' = os \<longrightarrow> cb' = cb \<longrightarrow> good b \<longrightarrow> good b'"
  have "?P os cb b b'"
  proof (rule run_event_loop.raw_induct [where P = ?P, OF _ assms(1)])
    fix f os' cb' b b'
    assume "\<And>os' cb' b b'. f os' cb' b = Some b' \<Longrightarrow> ?P os' cb' b b'"
      and "(if g_shutdown_flag b then Some b
        else case loop_step os' cb' b of None \<Rightarrow> None | Some (go, b) \<Rightarrow> if go then f os' cb' b else Some b) = Some b'"
    then show "?P os' cb' b b'" by (auto split: if_splits option.splits prod.splits dest: good_step)
  qed
  then show ?thesis using assms(2) by simp
qed

lemma good_drop_all: "good b \<Longrightarrow> \<forall>i \<in> set is. i < FBSEC_BUS_MAX_PEERS \<Longrightarrow> good (drop_all os cb is b)"
  by (induction "is" arbitrary: b) (auto intro: good_drop)

lemma good_shutdown: "good b \<Longrightarrow> good (shutdown_all os cb b)"
  using good_drop_all [of b "[0 ..< FBSEC_BUS_MAX_PEERS]"] by (simp add: shutdown_all_def Let_def good_def)

end

end
