(* ===== verification/Co_Fd_Bus.thy ===== *)
theory Co_Fd_Bus
  imports Bus_Common Co_Fd_Pcan
begin

text \<open>
  The CANopen FD variant of the bus simulator
  (\<open>variants/canopen_fd/bus/fbsec_co_fd_bus.c\<close>): the pool of peer records, the
  trace, the callbacks that relay frames between the peers and the CAN FD
  adapter, and the command line.
\<close>

section \<open>Constants\<close>

abbreviation (input) FBSEC_CO_FD_CAN_ID_SIM_PEER_ANNOUNCE :: u32 where
  "FBSEC_CO_FD_CAN_ID_SIM_PEER_ANNOUNCE \<equiv> 0x1FFFFFE0"
abbreviation (input) FBSEC_CO_FD_CAN_ID_SIM_PEER_LOSS :: u32 where
  "FBSEC_CO_FD_CAN_ID_SIM_PEER_LOSS \<equiv> 0x1FFFFFE1"
abbreviation (input) FBSEC_CO_FD_CAN_ID_SIM_FRAME_ERROR :: u32 where
  "FBSEC_CO_FD_CAN_ID_SIM_FRAME_ERROR \<equiv> 0x1FFFFFEF"
abbreviation (input) FBSEC_CO_FD_SIM_ERR_RESERVED_CANID :: u8 where
  "FBSEC_CO_FD_SIM_ERR_RESERVED_CANID \<equiv> 1"
abbreviation (input) FBSEC_CO_FD_SIM_ERR_RESERVED_FLAGS :: u8 where
  "FBSEC_CO_FD_SIM_ERR_RESERVED_FLAGS \<equiv> 2"
abbreviation (input) FBSEC_CO_FD_SIM_ERR_LEN_TOO_BIG :: u8 where
  "FBSEC_CO_FD_SIM_ERR_LEN_TOO_BIG \<equiv> 3"
abbreviation (input) FBSEC_CO_FD_SIM_ERR_SHORT_READ :: u8 where
  "FBSEC_CO_FD_SIM_ERR_SHORT_READ \<equiv> 4"
abbreviation (input) FBSEC_CO_FD_SIM_ERR_UNKNOWN_CANID :: u8 where
  "FBSEC_CO_FD_SIM_ERR_UNKNOWN_CANID \<equiv> 5"
abbreviation (input) FBSEC_CO_FD_SIM_ERR_USDO_MALFORMED :: u8 where
  "FBSEC_CO_FD_SIM_ERR_USDO_MALFORMED \<equiv> 6"
abbreviation (input) FBSEC_CO_FD_SIM_ERR_DUP_ANNOUNCE :: u8 where
  "FBSEC_CO_FD_SIM_ERR_DUP_ANNOUNCE \<equiv> 7"
abbreviation (input) SIM_NAME_MAX :: nat where "SIM_NAME_MAX \<equiv> 30"
abbreviation (input) MAX_PEERS :: nat where "MAX_PEERS \<equiv> 63"

section \<open>The pool of peer records\<close>

record fd_peer =
  fp_announced :: bool
  fp_role :: u8
  fp_node_id :: u8
  fp_name_len :: u8
  fp_name :: bytes
  fp_tcp_port :: u16

text \<open>\<open>g_peer_pool\<close>, \<open>g_peer_in_use\<close> and the adapter.\<close>

record fd_bus =
  g_peer_pool :: "fd_peer list"
  g_peer_in_use :: "bool list"
  g_pcan :: pcan

type_synonym 'w fd_bus_state = "(fd_bus, 'w) bus"

definition zero_peer :: fd_peer where
  "zero_peer = \<lparr>fp_announced = False, fp_role = 0, fp_node_id = 0, fp_name_len = 0,
     fp_name = replicate SIM_NAME_MAX 0, fp_tcp_port = 0\<rparr>"

fun first_unused :: "bool list \<Rightarrow> nat option" where
  "first_unused [] = None"
| "first_unused (u # us) = (if \<not> u then Some 0 else map_option Suc (first_unused us))"

definition alloc_peer :: "fd_bus \<Rightarrow> nat option \<times> fd_bus" where
  "alloc_peer v =
     (case first_unused (g_peer_in_use v) of
        None \<Rightarrow> (None, v)
      | Some i \<Rightarrow> (Some i, v\<lparr>g_peer_in_use := (g_peer_in_use v)[i := True],
                            g_peer_pool := (g_peer_pool v)[i := zero_peer]\<rparr>))"

definition free_peer :: "nat option \<Rightarrow> fd_bus \<Rightarrow> fd_bus" where
  "free_peer p v =
     (case p of
        None \<Rightarrow> v
      | Some idx \<Rightarrow> if idx < MAX_PEERS then v\<lparr>g_peer_in_use := (g_peer_in_use v)[idx := False]\<rparr> else v)"

section \<open>Trace\<close>

datatype trace_action =
  AC_USDO_REQ | AC_USDO_RSP | AC_USDO_ABT | AC_ANNOUNCE | AC_LOSS | AC_ERROR | AC_NONE

definition ansi_for_action :: "'w fd_bus_state \<Rightarrow> trace_action \<Rightarrow> string" where
  "ansi_for_action b ac =
     (if \<not> fbsec_bus_use_color b then ''''
      else case ac of
        AC_USDO_REQ \<Rightarrow> fbsec_bus_ansi_blue b
      | AC_USDO_RSP \<Rightarrow> fbsec_bus_ansi_magenta b
      | AC_USDO_ABT \<Rightarrow> fbsec_bus_ansi_red b
      | AC_ERROR \<Rightarrow> fbsec_bus_ansi_red b
      | AC_ANNOUNCE \<Rightarrow> fbsec_bus_ansi_dim b
      | AC_LOSS \<Rightarrow> fbsec_bus_ansi_dim b
      | AC_NONE \<Rightarrow> fbsec_bus_ansi_dim b)"

definition render_node :: "int \<Rightarrow> string" where
  "render_node v = (if v < 0 \<or> v > 0xFF then ''--'' else hex2 (of_int v))"

text \<open>The loop stops when fewer than five bytes of the buffer are left.\<close>

fun payload_hex :: "nat \<Rightarrow> bytes \<Rightarrow> string \<Rightarrow> string" where
  "payload_hex outsize [] out = out"
| "payload_hex outsize (x # xs) out =
     (if length out + 4 < outsize
      then payload_hex outsize xs (out @ (if out = [] then hex2 x else CHR '' '' # hex2 x))
      else out)"

definition format_payload :: "nat \<Rightarrow> bytes \<Rightarrow> u8 \<Rightarrow> string" where
  "format_payload outsize payload plen = payload_hex outsize (take (unat plen) payload) []"

definition compute_src_dst :: "frame \<Rightarrow> int \<times> int" where
  "compute_src_dst f =
     (let can_id = fbsec_co_fd_frame_id_value f in
      case fbsec_co_fd_usdo_can_id_split can_id of (sender, kind, is_usdo) \<Rightarrow>
        if is_usdo then
          (uint sender, case fbsec_co_fd_usdo_decode f of
                          Inr pdu \<Rightarrow> uint (pdu_dst_node_id pdu) | Inl _ \<Rightarrow> -1)
        else if can_id = FBSEC_CO_FD_CAN_ID_SIM_PEER_ANNOUNCE \<or> can_id = FBSEC_CO_FD_CAN_ID_SIM_PEER_LOSS
        then (if fr_len f \<ge> 2 then uint (fr_payload f ! 1) else -1, -1)
        else (-1, -1))"

definition frame_trace_body :: "frame \<Rightarrow> string" where
  "frame_trace_body f =
     (case compute_src_dst f of (src, dst) \<Rightarrow>
        ''['' @ render_node src @ ''->'' @ render_node dst @ ''],0x''
        @ hex8 (fbsec_co_fd_frame_id_value f) @ '',''
        @ format_payload (3 * FBSEC_CO_FD_PAYLOAD_MAX + 4) (fr_payload f) (fr_len f))"

definition trace_colored :: "'w bus_os \<Rightarrow> trace_action \<Rightarrow> string \<Rightarrow> 'w fd_bus_state \<Rightarrow> 'w fd_bus_state" where
  "trace_colored os ac body b =
     (let col_start = ansi_for_action b ac;
          col_end = (if col_start \<noteq> [] then fbsec_bus_ansi_reset b else '''')
      in fbsec_bus_emit_trace_row os col_start col_end body b)"

definition emit_frame_trace :: "'w bus_os \<Rightarrow> frame \<Rightarrow> trace_action \<Rightarrow> 'w fd_bus_state \<Rightarrow> 'w fd_bus_state" where
  "emit_frame_trace os f ac b = trace_colored os ac (frame_trace_body f) b"

definition emit_peer_event_trace :: "'w bus_os \<Rightarrow> string \<Rightarrow> u16 \<Rightarrow> 'w fd_bus_state \<Rightarrow> 'w fd_bus_state" where
  "emit_peer_event_trace os label tcp_port b =
     trace_colored os AC_NONE (''[--->--],,'' @ label @ '' port='' @ decimal (unat tcp_port)) b"

definition emit_carrier_error :: "'w bus_os \<Rightarrow> u8 \<Rightarrow> 'w fd_bus_state \<Rightarrow> 'w fd_bus_state" where
  "emit_carrier_error os err_code b =
     (let f = fbsec_co_fd_frame_init FBSEC_CO_FD_CAN_ID_SIM_FRAME_ERROR True;
          f = f\<lparr>fr_payload := (fr_payload f)[0 := err_code], fr_len := 1\<rparr>
      in emit_frame_trace os f AC_ERROR b)"

section \<open>Announcements\<close>

definition record_announce :: "fd_peer \<Rightarrow> frame \<Rightarrow> fd_peer" where
  "record_announce p f =
     (let p = p\<lparr>fp_announced := True\<rparr>;
          p = (if fr_len f \<ge> 1 then p\<lparr>fp_role := fr_payload f ! 0\<rparr> else p);
          p = (if fr_len f \<ge> 2 then p\<lparr>fp_node_id := fr_payload f ! 1\<rparr> else p);
          name_bytes = (if fr_len f > 2 then min (unat (fr_len f) - 2) SIM_NAME_MAX else 0);
          p = p\<lparr>fp_name := put (fp_name p) 0 (slice (fr_payload f) 2 name_bytes)\<rparr>
      in p\<lparr>fp_name_len := of_nat name_bytes\<rparr>)"

definition fill_peer_loss :: "fd_peer \<Rightarrow> frame" where
  "fill_peer_loss p =
     (let f = fbsec_co_fd_frame_init FBSEC_CO_FD_CAN_ID_SIM_PEER_LOSS True;
          f = f\<lparr>fr_payload := (fr_payload f)[0 := fp_role p, 1 := fp_node_id p]\<rparr>;
          f = f\<lparr>fr_payload := put (fr_payload f) 2 (take (unat (fp_name_len p)) (fp_name p))\<rparr>
      in f\<lparr>fr_len := 2 + fp_name_len p\<rparr>)"

section \<open>Reading a frame\<close>

definition carrier_error_of :: "frame_parse_error \<Rightarrow> u8" where
  "carrier_error_of pr =
     (case pr of PARSE_LEN_TOO_BIG \<Rightarrow> FBSEC_CO_FD_SIM_ERR_LEN_TOO_BIG
      | PARSE_RESERVED_CANID \<Rightarrow> FBSEC_CO_FD_SIM_ERR_RESERVED_CANID
      | PARSE_RESERVED_FLAGS \<Rightarrow> FBSEC_CO_FD_SIM_ERR_RESERVED_FLAGS
      | PARSE_NEED_MORE \<Rightarrow> FBSEC_CO_FD_SIM_ERR_SHORT_READ)"

datatype read_result = Read_Eof | Read_Error | Read_Frame frame

text \<open>\<open>f0\<close> is the frame on the stack before the call.\<close>

definition read_one_frame ::
  "'w bus_os \<Rightarrow> frame \<Rightarrow> nat option \<Rightarrow> 'w fd_bus_state \<Rightarrow> read_result \<times> 'w fd_bus_state" where
  "read_one_frame os f0 sock b =
     (case fbsec_bus_recv_exact (os_sockets os) sock FBSEC_CO_FD_HEADER_SIZE (bus_world b) of
        (Got_Eof, w) \<Rightarrow> (Read_Eof, b\<lparr>bus_world := w\<rparr>)
      | (Got_Error, w) \<Rightarrow> (Read_Error, b\<lparr>bus_world := w\<rparr>)
      | (Got header, w) \<Rightarrow>
          (let b = b\<lparr>bus_world := w\<rparr> in
           case fbsec_co_fd_frame_parse_header header f0 of
             Inl pr \<Rightarrow> (Read_Error, emit_carrier_error os (carrier_error_of pr) b)
           | Inr (f, expected_payload) \<Rightarrow>
               if expected_payload > 0 then
                 (case fbsec_bus_recv_exact (os_sockets os) sock expected_payload (bus_world b) of
                    (Got_Eof, w) \<Rightarrow> (Read_Eof, b\<lparr>bus_world := w\<rparr>)
                  | (Got_Error, w) \<Rightarrow>
                      (Read_Error, emit_carrier_error os FBSEC_CO_FD_SIM_ERR_SHORT_READ (b\<lparr>bus_world := w\<rparr>))
                  | (Got bs, w) \<Rightarrow>
                      (Read_Frame (f\<lparr>fr_payload := put (fr_payload f) 0 bs\<rparr>), b\<lparr>bus_world := w\<rparr>))
               else (Read_Frame f, b)))"

section \<open>The adapter\<close>

definition can_id_is_sim_only :: "u32 \<Rightarrow> bool" where
  "can_id_is_sim_only can_id_value \<longleftrightarrow>
     can_id_value = FBSEC_CO_FD_CAN_ID_SIM_PEER_ANNOUNCE \<or>
     can_id_value = FBSEC_CO_FD_CAN_ID_SIM_PEER_LOSS \<or>
     can_id_value = FBSEC_CO_FD_CAN_ID_SIM_FRAME_ERROR"

definition pcan_bridge_send_if_open ::
  "'w pcan_api \<Rightarrow> frame \<Rightarrow> 'w fd_bus_state \<Rightarrow> 'w fd_bus_state" where
  "pcan_bridge_send_if_open A f b =
     (let p = g_pcan (bus_variant b); can_id_value = fbsec_co_fd_frame_id_value f in
      if \<not> fbsec_pcan_is_open p then b
      else if can_id_is_sim_only can_id_value then b
      else b\<lparr>bus_world := snd (fbsec_pcan_write_fd A p can_id_value (fbsec_co_fd_frame_is_extended f)
               (fr_flags f AND FBSEC_CO_FD_FLAG_BRS \<noteq> 0) (fr_payload f) (fr_len f) (bus_world b))\<rparr>)"

section \<open>The callbacks\<close>

definition cb_on_peer_accepted ::
  "'w bus_os \<Rightarrow> nat \<Rightarrow> u16 \<Rightarrow> 'w fd_bus_state \<Rightarrow> nat option \<times> 'w fd_bus_state" where
  "cb_on_peer_accepted os sock tcp_port b =
     (case alloc_peer (bus_variant b) of
        (None, v) \<Rightarrow> (None, b)
      | (Some i, v) \<Rightarrow>
          (let v = v\<lparr>g_peer_pool := (g_peer_pool v)[i := (g_peer_pool v ! i)\<lparr>fp_tcp_port := tcp_port\<rparr>]\<rparr>
           in (Some i, emit_peer_event_trace os ''Peer connected'' tcp_port (b\<lparr>bus_variant := v\<rparr>))))"

definition relay_frame :: "'w bus_os \<Rightarrow> nat option \<Rightarrow> frame \<Rightarrow> 'w fd_bus_state \<Rightarrow> 'w fd_bus_state" where
  "relay_frame os sock f b =
     (case fbsec_co_fd_frame_serialize f FBSEC_CO_FD_WIRE_MAX of
        Some buf \<Rightarrow> fbsec_bus_relay_bytes os sock buf b
      | None \<Rightarrow> b)"

definition usdo_action :: "usdo_kind \<Rightarrow> bool \<Rightarrow> trace_action" where
  "usdo_action kind abort_cmd =
     (if kind = USDO_KIND_REQUEST then AC_USDO_REQ else if abort_cmd then AC_USDO_ABT else AC_USDO_RSP)"

definition cb_on_peer_readable ::
  "'w bus_os \<Rightarrow> 'w pcan_api \<Rightarrow> frame \<Rightarrow> nat option \<Rightarrow> nat option \<Rightarrow> 'w fd_bus_state \<Rightarrow>
   int \<times> 'w fd_bus_state" where
  "cb_on_peer_readable os A f0 sock peer b =
     (case read_one_frame os f0 sock b of
        (Read_Frame f, b) \<Rightarrow>
          (let can_id = fbsec_co_fd_frame_id_value f in
           if can_id = FBSEC_CO_FD_CAN_ID_SIM_PEER_ANNOUNCE then
             (if (case peer of None \<Rightarrow> False | Some i \<Rightarrow> fp_announced (g_peer_pool (bus_variant b) ! i))
              then (-1, emit_carrier_error os FBSEC_CO_FD_SIM_ERR_DUP_ANNOUNCE b)
              else
                let b = (case peer of None \<Rightarrow> b
                         | Some i \<Rightarrow> b\<lparr>bus_variant := (bus_variant b)\<lparr>g_peer_pool :=
                             (g_peer_pool (bus_variant b))[i := record_announce (g_peer_pool (bus_variant b) ! i) f]\<rparr>\<rparr>);
                    b = emit_frame_trace os f AC_ANNOUNCE b
                in (0, relay_frame os sock f b))
           else if can_id = FBSEC_CO_FD_CAN_ID_SIM_PEER_LOSS \<or> can_id = FBSEC_CO_FD_CAN_ID_SIM_FRAME_ERROR
           then (-1, emit_carrier_error os FBSEC_CO_FD_SIM_ERR_UNKNOWN_CANID b)
           else (case fbsec_co_fd_usdo_can_id_split can_id of (sender, kind, is_usdo) \<Rightarrow>
             if is_usdo then
               (case fbsec_co_fd_usdo_decode f of
                  Inl _ \<Rightarrow> (-1, emit_carrier_error os FBSEC_CO_FD_SIM_ERR_USDO_MALFORMED b)
                | Inr pdu \<Rightarrow>
                    (let b = emit_frame_trace os f (usdo_action kind (pdu_cmd pdu = FBSEC_CO_FD_USDO_CMD_ABORT)) b;
                         b = relay_frame os sock f b
                     in (0, pcan_bridge_send_if_open A f b)))
             else (-1, emit_carrier_error os FBSEC_CO_FD_SIM_ERR_UNKNOWN_CANID b)))
      | (_, b) \<Rightarrow> (-1, b))"

definition cb_on_peer_dropped ::
  "'w bus_os \<Rightarrow> nat option \<Rightarrow> nat option \<Rightarrow> 'w fd_bus_state \<Rightarrow> 'w fd_bus_state" where
  "cb_on_peer_dropped os sock peer b =
     (case peer of
        None \<Rightarrow> b
      | Some i \<Rightarrow>
          (let p = g_peer_pool (bus_variant b) ! i;
               b = emit_peer_event_trace os ''Peer disconnected'' (fp_tcp_port p) b;
               b = (if fp_announced p
                    then let loss = fill_peer_loss p
                         in relay_frame os sock loss (emit_frame_trace os loss AC_LOSS b)
                    else b)
           in b\<lparr>bus_variant := free_peer peer (bus_variant b)\<rparr>))"

text \<open>What the idle work makes of a message from the adapter: the frame, or nothing when it is skipped.\<close>

definition pcan_frame :: "u32 \<times> bool \<times> bool \<times> bytes \<times> u8 \<Rightarrow> frame option" where
  "pcan_frame m =
     (case m of (can_id_value, extended, brs, data, len) \<Rightarrow>
      if can_id_is_sim_only can_id_value then None
      else if unat len > FBSEC_CO_FD_PAYLOAD_MAX then None
      else
        let f = fbsec_co_fd_frame_init can_id_value extended;
            f = f\<lparr>fr_flags := (if brs then FBSEC_CO_FD_FLAG_BRS else 0)\<rparr>;
            f = f\<lparr>fr_payload := put (fr_payload f) 0 (take (unat len) data), fr_len := len\<rparr>
        in if fbsec_co_fd_frame_validate f \<noteq> VALID_OK then None else Some f)"

definition pcan_action :: "u32 \<Rightarrow> frame \<Rightarrow> trace_action" where
  "pcan_action can_id_value f =
     (case fbsec_co_fd_usdo_can_id_split can_id_value of (sender, kind, is_usdo) \<Rightarrow>
      if is_usdo
      then usdo_action kind (fr_len f \<ge> 2 \<and> fr_payload f ! 1 = FBSEC_CO_FD_USDO_CMD_ABORT)
      else AC_NONE)"

definition broadcast_frame :: "'w bus_os \<Rightarrow> frame \<Rightarrow> 'w fd_bus_state \<Rightarrow> 'w fd_bus_state" where
  "broadcast_frame os f b =
     (case fbsec_co_fd_frame_serialize f FBSEC_CO_FD_WIRE_MAX of
        None \<Rightarrow> b
      | Some buf \<Rightarrow>
          fbsec_bus_each_peer None (\<lambda>sock user w. snd (fbsec_bus_send_all (os_sockets os) sock buf w)) b)"

text \<open>The loop ends when the receive queue is empty.\<close>

partial_function (option) drain_pcan ::
  "'w bus_os \<Rightarrow> 'w pcan_api \<Rightarrow> 'w fd_bus_state \<Rightarrow> 'w fd_bus_state option" where
  "drain_pcan os A b =
     (case fbsec_pcan_read_fd A (g_pcan (bus_variant b)) (bus_world b) of
        (None, w) \<Rightarrow> Some (b\<lparr>bus_world := w\<rparr>)
      | (Some m, w) \<Rightarrow>
          (let b = b\<lparr>bus_world := w\<rparr> in
           case pcan_frame m of
             None \<Rightarrow> drain_pcan os A b
           | Some f \<Rightarrow>
               drain_pcan os A (broadcast_frame os f (emit_frame_trace os f (pcan_action (fst m) f) b))))"

definition cb_on_idle_tick ::
  "'w bus_os \<Rightarrow> 'w pcan_api \<Rightarrow> 'w fd_bus_state \<Rightarrow> 'w fd_bus_state option" where
  "cb_on_idle_tick os A b =
     (if \<not> fbsec_pcan_is_open (g_pcan (bus_variant b)) then Some b else drain_pcan os A b)"

definition fd_callbacks ::
  "'w bus_os \<Rightarrow> 'w pcan_api \<Rightarrow> frame \<Rightarrow> (fd_bus, 'w) bus_callbacks" where
  "fd_callbacks os A f0 =
     \<lparr>on_peer_accepted = cb_on_peer_accepted os, on_peer_readable = cb_on_peer_readable os A f0,
      on_peer_dropped = cb_on_peer_dropped os, on_idle_tick = cb_on_idle_tick os A\<rparr>"

section \<open>The program\<close>

abbreviation (input) DEFAULT_PORT :: int where "DEFAULT_PORT \<equiv> 5810"
abbreviation (input) PCAN_IDLE_TIMEOUT_MS :: int where "PCAN_IDLE_TIMEOUT_MS \<equiv> 5"

definition default_options :: bus_options where
  "default_options = \<lparr>bo_port = DEFAULT_PORT, bo_quiet = False, bo_color_pref = COLOR_AUTO,
     bo_idle_timeout_ms = 0\<rparr>"

text \<open>
  The command line: the usage with exit code 0, an error with exit code 2, or
  the options, the channel of \<open>--pcan\<close> and whether \<open>--no-pcan\<close> was given. The
  types are those of a target with a \<open>long\<close> of 32 bits.
\<close>

datatype bus_args = Args_Help | Args_Error | Args_Run bus_options "u16 option" bool

definition port_value :: "string \<Rightarrow> int option" where
  "port_value s =
     (case strtol 32 0 s of (v, endp) \<Rightarrow>
        if endp = s \<or> endp \<noteq> [] \<or> v < 1 \<or> v > 65535 then None else Some v)"

fun parse_bus_args :: "string list \<Rightarrow> bus_options \<Rightarrow> u16 option \<Rightarrow> bool \<Rightarrow> bus_args" where
  "parse_bus_args [] opts pcan no_pcan = Args_Run opts pcan no_pcan"
| "parse_bus_args (a # as) opts pcan no_pcan =
     (if a = ''--help'' then Args_Help
      else if a = ''--quiet'' then parse_bus_args as (opts\<lparr>bo_quiet := True\<rparr>) pcan no_pcan
      else if a = ''--color'' then parse_bus_args as (opts\<lparr>bo_color_pref := COLOR_ALWAYS\<rparr>) pcan no_pcan
      else if a = ''--no-color'' then parse_bus_args as (opts\<lparr>bo_color_pref := COLOR_NEVER\<rparr>) pcan no_pcan
      else if a = ''--no-pcan'' then parse_bus_args as opts pcan True
      else if a = ''--pcan'' \<and> as \<noteq> [] then
        (case fbsec_pcan_parse_channel (hd as) of
           None \<Rightarrow> Args_Error
         | Some h \<Rightarrow> parse_bus_args (tl as) opts (Some h) no_pcan)
      else if a = ''--port'' \<and> as \<noteq> [] then
        (case port_value (hd as) of
           None \<Rightarrow> Args_Error
         | Some v \<Rightarrow> parse_bus_args (tl as) (opts\<lparr>bo_port := v\<rparr>) pcan no_pcan)
      else Args_Error)"

declare parse_bus_args.simps [simp del]

text \<open>
  The first line the operator types decides, and only its first letter; the
  answer is \<open>None\<close> at the end of the input.
\<close>

definition answered_yes :: "string option \<Rightarrow> bool" where
  "answered_yes line = (case line of Some (c # _) \<Rightarrow> c = CHR ''y'' \<or> c = CHR ''Y'' | _ \<Rightarrow> False)"

definition pcan_probe_and_prompt :: "'w pcan_api \<Rightarrow> string option \<Rightarrow> pcan \<Rightarrow> 'w \<Rightarrow> u16" where
  "pcan_probe_and_prompt A line p w =
     (if \<not> fbsec_pcan_loaded p then PCAN_NONEBUS
      else (case fbsec_pcan_probe_available A p w 8 of (found, avail) \<Rightarrow>
        if found = 0 then PCAN_NONEBUS
        else if answered_yes line then hd avail else PCAN_NONEBUS))"

text \<open>Whether the start goes on, and the state of the adapter.\<close>

definition pcan_bring_up ::
  "'w pcan_api \<Rightarrow> string option \<Rightarrow> u16 option \<Rightarrow> bool \<Rightarrow> pcan \<Rightarrow> 'w \<Rightarrow> bool \<times> pcan \<times> 'w" where
  "pcan_bring_up A line explicit disabled p w =
     (case explicit of
        Some handle \<Rightarrow>
          (case fbsec_pcan_load A p w of (ok, p, w) \<Rightarrow>
             if \<not> ok then (False, p, w)
             else (case fbsec_pcan_open_500k_2m A handle p w of (ok, p, w) \<Rightarrow>
               if \<not> ok then (False, fbsec_pcan_unload A p w) else (True, p, w)))
      | None \<Rightarrow>
          if disabled then (True, p, w)
          else (case fbsec_pcan_load A p w of (ok, p, w) \<Rightarrow>
             if \<not> ok then (True, p, w)
             else let pick = pcan_probe_and_prompt A line p w in
               if pick = PCAN_NONEBUS then (True, p, w)
               else (True, snd (fbsec_pcan_open_500k_2m A pick p w))))"

text \<open>
  \<open>other_instance\<close>: the named mutex exists already, and the first line typed in
  answer to the question; \<open>line\<close> the line typed when an adapter is offered.
\<close>

definition fd_bus_main ::
  "'w bus_os \<Rightarrow> 'w pcan_api \<Rightarrow> frame \<Rightarrow> string list \<Rightarrow> string option option \<Rightarrow> string option \<Rightarrow>
   'w fd_bus_state \<Rightarrow> (int \<times> 'w fd_bus_state) option" where
  "fd_bus_main os A f0 args other_instance line b =
     (case parse_bus_args args default_options None False of
        Args_Help \<Rightarrow> Some (0, b)
      | Args_Error \<Rightarrow> Some (2, b)
      | Args_Run opts explicit disabled \<Rightarrow>
          if (case other_instance of None \<Rightarrow> False | Some reply \<Rightarrow> \<not> answered_yes reply) then Some (1, b)
          else
            let v = (bus_variant b)\<lparr>g_peer_in_use := map (\<lambda>_. False) (g_peer_in_use (bus_variant b))\<rparr>
            in case pcan_bring_up A line explicit disabled (g_pcan v) (bus_world b) of (go, p, w) \<Rightarrow>
              let b = b\<lparr>bus_variant := v\<lparr>g_pcan := p\<rparr>, bus_world := w\<rparr> in
              if \<not> go then Some (1, b)
              else
                let opts = (if fbsec_pcan_is_open p then opts\<lparr>bo_idle_timeout_ms := PCAN_IDLE_TIMEOUT_MS\<rparr> else opts);
                    b = (if \<not> bo_quiet opts
                         then b\<lparr>bus_out := bus_out b @ [''    #,        time,src->dst,    CAN ID,data'']\<rparr> else b)
                in case fbsec_bus_run os opts (fd_callbacks os A f0) b of
                     None \<Rightarrow> None
                   | Some (rc, b) \<Rightarrow>
                       (case fbsec_pcan_close A (g_pcan (bus_variant b)) (bus_world b) of (p, w) \<Rightarrow>
                         case fbsec_pcan_unload A p w of (p, w) \<Rightarrow>
                           Some (rc, b\<lparr>bus_variant := (bus_variant b)\<lparr>g_pcan := p\<rparr>, bus_world := w\<rparr>)))"

end
