(* ===== verification/Co_Fd_Bus_Props.thy ===== *)
theory Co_Fd_Bus_Props
  imports Co_Fd_Bus
begin

text \<open>
  What the bus does with frames: the contract of the network it runs on, the
  relay peer by peer (delivered, or gone after a failed send), the cases of the readable
  callback, and the transparency of the adapter.
\<close>

section \<open>The network\<close>

text \<open>
  \<open>out t w\<close> are the bytes handed to the network on socket \<open>t\<close> so far. A send
  that returns a count has taken that many bytes, a failed send none; no call
  touches what went out on another socket.
\<close>

definition sends :: "'w sockets \<Rightarrow> (nat \<Rightarrow> 'w \<Rightarrow> bytes) \<Rightarrow> bool" where
  "sends S out \<longleftrightarrow>
     (\<forall>s buf w r w'. so_send S s buf w = (r, w') \<longrightarrow>
        out s w' = out s w @ take (nat r) buf \<and> nat r \<le> length buf \<and>
        (\<forall>t. t \<noteq> s \<longrightarrow> out t w' = out t w)) \<and>
     (\<forall>s n w t. out t (snd (so_recv S s n w)) = out t w) \<and>
     (\<forall>s w t. out t (so_close S s w) = out t w)"

lemma send_all_out:
  assumes "sends S out"
  shows "fbsec_bus_send_all S (Some s) buf w = (ok, w') \<Longrightarrow>
    (\<exists>k \<le> length buf. out s w' = out s w @ take k buf) \<and> (ok \<longrightarrow> out s w' = out s w @ buf) \<and>
    (\<forall>t. t \<noteq> s \<longrightarrow> out t w' = out t w)"
proof (induction "length buf" arbitrary: buf w rule: less_induct)
  case less
  show ?case
  proof (cases "buf = []")
    case True
    then show ?thesis using less.prems by (simp add: fbsec_bus_send_all.simps)
  next
    case False
    obtain r w1 where r: "so_send S s buf w = (r, w1)" by fastforce
    then have o1: "out s w1 = out s w @ take (nat r) buf" "nat r \<le> length buf"
      "\<And>t. t \<noteq> s \<Longrightarrow> out t w1 = out t w"
      using assms unfolding sends_def by blast+
    show ?thesis
    proof (cases "r \<le> 0")
      case True
      then have "w' = w1" "\<not> ok" using less.prems r False by (auto simp: fbsec_bus_send_all.simps sock_send_def)
      then show ?thesis using o1 True by auto
    next
      case pos: False
      then have rest: "fbsec_bus_send_all S (Some s) (drop (nat r) buf) w1 = (ok, w')"
        using less.prems r False by (subst (asm) fbsec_bus_send_all.simps) (simp add: sock_send_def)
      have "length (drop (nat r) buf) < length buf" using pos False by simp
      note ih = less.hyps [OF this rest]
      obtain k where k1: "k \<le> length buf - nat r" "out s w' = out s w1 @ take k (drop (nat r) buf)"
        using conjunct1 [OF ih] by auto
      have k3: "ok \<longrightarrow> out s w' = out s w1 @ drop (nat r) buf" "\<forall>t. t \<noteq> s \<longrightarrow> out t w' = out t w1"
        using ih by blast+
      have "out s w' = out s w @ take (nat r + k) buf" using k1(2) o1(1) by (simp add: take_add)
      moreover have "nat r + k \<le> length buf" using k1(1) o1(2) by simp
      moreover have "ok \<longrightarrow> out s w' = out s w @ buf" using k3(1) o1(1) by simp
      moreover have "\<forall>t. t \<noteq> s \<longrightarrow> out t w' = out t w" using k3(2) o1(3) by simp
      ultimately show ?thesis by blast
    qed
  qed
qed

lemma send_all_none: "fbsec_bus_send_all S None buf w = (buf = [], w)"
  by (simp add: fbsec_bus_send_all.simps sock_send_def)

lemma sock_recv_out: "sends S out \<Longrightarrow> out t (snd (sock_recv S sock n w)) = out t w"
  by (auto simp: sends_def sock_recv_def split: option.split)

lemma recv_out:
  assumes "sends S out"
  shows "bus_recv S sock n got w = (r, w') \<Longrightarrow> out t w' = out t w"
proof (induction "n - length got" arbitrary: got w rule: less_induct)
  case less
  obtain x w1 where x: "sock_recv S sock (n - length got) w = (x, w1)" by fastforce
  have o: "out t w1 = out t w" using sock_recv_out [OF assms, of t sock "n - length got" w] x by simp
  show ?case
  proof (cases "n \<le> length got")
    case True
    then show ?thesis using less.prems by (simp add: bus_recv.simps)
  next
    case False
    show ?thesis
    proof (cases "\<exists>b. x = Received b \<and> b \<noteq> []")
      case True
      then obtain b where b: "x = Received b" "b \<noteq> []" by blast
      then have "bus_recv S sock n (got @ b) w1 = (r, w')"
        using less.prems x False by (subst (asm) bus_recv.simps) simp
      moreover have "n - length (got @ b) < n - length got" using b(2) False by (simp add: diff_less_mono2)
      ultimately show ?thesis using less.hyps [of "got @ b" w1] o by simp
    next
      case other: False
      then have "w' = w1"
        using less.prems x False by (subst (asm) bus_recv.simps) (auto split: recv_result.splits if_splits)
      then show ?thesis using o by simp
    qed
  qed
qed

text \<open>Exact reads from a stream that has the bytes.\<close>

lemma bus_recv_stream:
  assumes "recv_stream S sock inp" "length (got @ data) = n"
  shows "inp w = data @ rest \<Longrightarrow>
    \<exists>w'. bus_recv S (Some sock) n got w = (Got (got @ data), w') \<and> inp w' = rest"
  using assms(2)
proof (induction "length data" arbitrary: data got w rule: less_induct)
  case less
  show ?case
  proof (cases "data = []")
    case True
    then show ?thesis using less.prems by (simp add: bus_recv.simps)
  next
    case False
    let ?k = "n - length got"
    have k: "?k = length data" "0 < ?k" "\<not> n \<le> length got" using less.prems(2) False by auto
    have "inp w \<noteq> []" using less.prems(1) False by simp
    then obtain b w1 where b: "so_recv S sock ?k w = (Received b, w1)" "b \<noteq> []" "length b \<le> ?k"
      "inp w = b @ inp w1"
      using recv_streamD [OF assms(1) k(2)] by blast
    have "b @ inp w1 = data @ rest" using b(4) less.prems(1) by simp
    note d = piece_of_data [OF this, folded k(1), OF b(3)]
    have l: "length (drop (length b) data) < length data" using b(2) False by simp
    have n: "length ((got @ b) @ drop (length b) data) = n" using less.prems(2) d(1) b(3) k(1) by simp
    obtain w2 where "bus_recv S (Some sock) n (got @ b) w1 = (Got ((got @ b) @ drop (length b) data), w2)"
        "inp w2 = rest"
      using less.hyps [OF l d(2) n] by blast
    then show ?thesis
      using k(3) b(1,2) d(1) by (subst bus_recv.simps) (simp add: sock_recv_def)
  qed
qed

section \<open>The relay\<close>

text \<open>The sockets of the peers in use are valid and pairwise different.\<close>

definition sockets_ok :: "bus_peer list \<Rightarrow> bool" where
  "sockets_ok ps \<longleftrightarrow> (\<forall>p \<in> set ps. bp_in_use p \<longrightarrow> bp_sock p \<noteq> None) \<and>
     distinct (map bp_sock (filter bp_in_use ps))"

lemma relay_peers_table:
  "relay_peers S origin bytes ps w = (ps', w') \<Longrightarrow>
   list_all2 (\<lambda>p p'. p' = p \<or> bp_in_use p \<and> bp_sock p \<noteq> origin \<and> p' = gone p) ps ps'"
  by (induction ps arbitrary: w ps')
     (auto simp: gone_def Let_def split: prod.splits if_splits)

lemma close_out: "sends S out \<Longrightarrow> out t (sock_close S sock w) = out t w"
  by (auto simp: sends_def sock_close_def split: option.split)

text \<open>One step of the relay.\<close>

lemma relay_Cons:
  assumes "relay_peers S origin bytes (p # ps) w = (ps', w')"
  obtains (skip) ps1 where "\<not> bp_in_use p \<or> bp_sock p = origin" "ps' = p # ps1"
      "relay_peers S origin bytes ps w = (ps1, w')"
    | (sent) ps1 w1 where "bp_in_use p" "bp_sock p \<noteq> origin"
      "fbsec_bus_send_all S (bp_sock p) bytes w = (True, w1)" "ps' = p # ps1"
      "relay_peers S origin bytes ps w1 = (ps1, w')"
    | (failed) ps1 w1 where "bp_in_use p" "bp_sock p \<noteq> origin"
      "fbsec_bus_send_all S (bp_sock p) bytes w = (False, w1)" "ps' = gone p # ps1"
      "relay_peers S origin bytes ps (sock_close S (bp_sock p) w1) = (ps1, w')"
  using assms by (auto simp: gone_def Let_def split: prod.splits if_splits)

text \<open>A socket no peer in use has, and the socket of the origin, get nothing.\<close>

lemma send_other:
  assumes "sends S out" "sock \<noteq> Some t" "fbsec_bus_send_all S sock bytes w = (ok, w1)"
  shows "out t w1 = out t w"
  using send_all_out [OF assms(1), of _ bytes w ok w1] assms(2,3)
  by (cases sock) (auto simp: send_all_none)

lemma relay_other:
  assumes "sends S out" "origin = Some t \<or> (\<forall>p \<in> set ps. bp_in_use p \<longrightarrow> bp_sock p \<noteq> Some t)"
  shows "relay_peers S origin bytes ps w = (ps', w') \<Longrightarrow> out t w' = out t w"
  using assms(2)
proof (induction ps arbitrary: w ps')
  case (Cons p ps)
  have r: "origin = Some t \<or> (\<forall>p \<in> set ps. bp_in_use p \<longrightarrow> bp_sock p \<noteq> Some t)"
    using Cons.prems(2) by auto
  note ih = Cons.IH [OF _ r]
  have t: "out t w1 = out t w"
    if "bp_in_use p" "bp_sock p \<noteq> origin" "fbsec_bus_send_all S (bp_sock p) bytes w = (ok, w1)" for ok w1
    using send_other [OF assms(1) _ that(3)] Cons.prems(2) that(1,2) by auto
  show ?case
    using Cons.prems(1)
  proof (cases rule: relay_Cons)
    case (skip ps1) then show ?thesis using ih by simp
  next
    case (sent ps1 w1) then show ?thesis using ih t by simp
  next
    case (failed ps1 w1) then show ?thesis using ih t close_out [OF assms(1)] by simp
  qed
qed simp

lemma sockets_ok_Cons:
  assumes "sockets_ok (p # ps)"
  shows "sockets_ok ps" "bp_in_use p \<Longrightarrow> \<forall>q \<in> set ps. bp_in_use q \<longrightarrow> bp_sock q \<noteq> bp_sock p"
  using assms by (auto simp: sockets_ok_def image_iff split: if_splits)

text \<open>
  A connected peer other than the origin is kept and gets the bytes, or the send
  of the bytes to it failed and it is gone.
\<close>

lemma relay_outcome:
  assumes "sends S out" "sockets_ok ps" "relay_peers S origin bytes ps w = (ps', w')"
    "i < length ps" "bp_in_use (ps ! i)" "bp_sock (ps ! i) = Some t" "origin \<noteq> Some t"
  shows "ps' ! i = ps ! i \<and> out t w' = out t w @ bytes \<or>
    ps' ! i = gone (ps ! i) \<and> (\<exists>w1 w2. out t w1 = out t w \<and>
      fbsec_bus_send_all S (Some t) bytes w1 = (False, w2) \<and> out t w' = out t w2)"
  using assms(2-6)
proof (induction ps arbitrary: w ps' i)
  case (Cons p ps)
  note ok = sockets_ok_Cons [OF Cons.prems(1)]
  show ?case
  proof (cases i)
    case 0
    then have p: "bp_in_use p" "bp_sock p = Some t" using Cons.prems(4,5) by auto
    have r: "origin = Some t \<or> (\<forall>q \<in> set ps. bp_in_use q \<longrightarrow> bp_sock q \<noteq> Some t)"
      using ok(2) [OF p(1)] p(2) by auto
    note other = relay_other [OF assms(1) r]
    show ?thesis
      using Cons.prems(2)
    proof (cases rule: relay_Cons)
      case (skip ps1) then show ?thesis using p assms(7) by simp
    next
      case (sent ps1 w1)
      have "out t w1 = out t w @ bytes" using send_all_out [OF assms(1)] sent(3) p(2) by auto
      then show ?thesis using other [OF sent(5)] sent(4) 0 by simp
    next
      case (failed ps1 w1)
      have "out t w' = out t w1" using other [OF failed(5)] close_out [OF assms(1)] by simp
      then show ?thesis using failed(3,4) p(2) 0 by auto
    qed
  next
    case (Suc j)
    have j: "j < length ps" "bp_in_use (ps ! j)" "bp_sock (ps ! j) = Some t"
      using Cons.prems(3,4,5) Suc by auto
    then have ps: "ps ! j \<in> set ps" by simp
    have h: "out t w1 = out t w"
      if "bp_in_use p" "fbsec_bus_send_all S (bp_sock p) bytes w = (b, w1)" for b w1
      using send_other [OF assms(1) _ that(2)] ok(2) [OF that(1)] ps j(2,3) by metis
    note ih = Cons.IH [OF ok(1) _ j]
    show ?thesis
      using Cons.prems(2)
    proof (cases rule: relay_Cons)
      case (skip ps1) then show ?thesis using ih Suc by simp
    next
      case (sent ps1 w1) then show ?thesis using ih [OF sent(5)] h Suc by simp
    next
      case (failed ps1 w1)
      then show ?thesis using ih [OF failed(5)] h close_out [OF assms(1)] Suc by simp
    qed
  qed
qed simp

text \<open>Sends that always make progress complete.\<close>

lemma send_all_progress:
  assumes "\<And>bs w. bs \<noteq> [] \<Longrightarrow> 0 < fst (so_send S t bs w)"
  shows "fst (fbsec_bus_send_all S (Some t) buf w)"
proof (induction "length buf" arbitrary: buf w rule: less_induct)
  case less
  show ?case
  proof (cases "buf = []")
    case True
    then show ?thesis by (simp add: fbsec_bus_send_all.simps)
  next
    case False
    obtain r w1 where r: "so_send S t buf w = (r, w1)" by fastforce
    then have "0 < r" using assms [OF False, of w] by simp
    moreover have "fst (fbsec_bus_send_all S (Some t) (drop (nat r) buf) w1)"
      using less False calculation by simp
    ultimately show ?thesis
      using r False by (subst fbsec_bus_send_all.simps) (simp add: sock_send_def)
  qed
qed

lemma relay_skips:
  "relay_peers S origin bytes ps w = (ps', w') \<Longrightarrow> i < length ps \<Longrightarrow>
   \<not> bp_in_use (ps ! i) \<or> bp_sock (ps ! i) = origin \<Longrightarrow> ps' ! i = ps ! i"
  using list_all2_nthD [OF relay_peers_table, of S origin bytes ps w ps' w' i] by auto

text \<open>Every socket gets a beginning of the bytes, the origin's nothing.\<close>

lemma relay_prefix:
  assumes "sends S out" "sockets_ok ps" "relay_peers S origin bytes ps w = (ps', w')"
  shows "\<exists>k. out t w' = out t w @ take k bytes"
proof (cases "origin = Some t \<or> (\<forall>p \<in> set ps. bp_in_use p \<longrightarrow> bp_sock p \<noteq> Some t)")
  case True
  then have "out t w' = out t w @ take 0 bytes" using relay_other [OF assms(1) _ assms(3)] by simp
  then show ?thesis by blast
next
  case False
  then obtain i where "i < length ps" "bp_in_use (ps ! i)" "bp_sock (ps ! i) = Some t" "origin \<noteq> Some t"
    by (auto simp: in_set_conv_nth)
  then consider "out t w' = out t w @ bytes"
    | w1 w2 where "out t w1 = out t w" "fbsec_bus_send_all S (Some t) bytes w1 = (False, w2)" "out t w' = out t w2"
    using relay_outcome [OF assms] by blast
  then show ?thesis
  proof cases
    case 1
    then show ?thesis by (metis take_all order_refl)
  next
    case 2
    then show ?thesis using send_all_out [OF assms(1) 2(2)] by auto
  qed
qed

section \<open>Traces leave the table and the world alone\<close>

lemma emit_trace_row_same [simp]:
  "g_peers (fbsec_bus_emit_trace_row os c e body b) = g_peers b"
  "bus_world (fbsec_bus_emit_trace_row os c e body b) = bus_world b"
  "bus_variant (fbsec_bus_emit_trace_row os c e body b) = bus_variant b"
  "g_listen_sock (fbsec_bus_emit_trace_row os c e body b) = g_listen_sock b"
  by (simp_all add: fbsec_bus_emit_trace_row_def Let_def)

lemma emit_same [simp]:
  "g_peers (emit_frame_trace os f ac b) = g_peers b"
  "bus_world (emit_frame_trace os f ac b) = bus_world b"
  "bus_variant (emit_frame_trace os f ac b) = bus_variant b"
  "g_peers (emit_peer_event_trace os l p b) = g_peers b"
  "bus_world (emit_peer_event_trace os l p b) = bus_world b"
  "bus_variant (emit_peer_event_trace os l p b) = bus_variant b"
  "g_peers (emit_carrier_error os e b) = g_peers b"
  "bus_world (emit_carrier_error os e b) = bus_world b"
  "bus_variant (emit_carrier_error os e b) = bus_variant b"
  by (simp_all add: emit_frame_trace_def emit_peer_event_trace_def emit_carrier_error_def
      trace_colored_def Let_def)

section \<open>Reading a frame\<close>

lemma received_frame_facts:
  assumes "frame_ok f0" "wire_frame f"
  shows "wire_frame (received_frame f0 f)"
    "fbsec_co_fd_frame_serialize (received_frame f0 f) n = fbsec_co_fd_frame_serialize f n"
    "fbsec_co_fd_frame_id_value (received_frame f0 f) = fbsec_co_fd_frame_id_value f"
    "pads f (received_frame f0 f)"
proof -
  have l: "unat (fr_len f) \<le> 64" using assms(2) validate_ok_len by (auto simp: wire_frame_def)
  have t: "take (unat (fr_len f)) (put (fr_payload f0) 0 (take (unat (fr_len f)) (fr_payload f))) =
      take (unat (fr_len f)) (fr_payload f)"
    using assms l by (simp add: put_def frame_ok_def wire_frame_def)
  show "wire_frame (received_frame f0 f)"
    using assms l by (simp add: wire_frame_def received_frame_def frame_ok_def)
  show "fbsec_co_fd_frame_serialize (received_frame f0 f) n = fbsec_co_fd_frame_serialize f n"
    using t by (simp add: fbsec_co_fd_frame_serialize_def received_frame_def Let_def)
  show "fbsec_co_fd_frame_id_value (received_frame f0 f) = fbsec_co_fd_frame_id_value f"
    by (simp add: fbsec_co_fd_frame_id_value_def received_frame_def)
  then show "pads f (received_frame f0 f)" using t by (simp add: pads_def received_frame_def)
qed

lemma read_one_frame_stream:
  assumes i: "recv_stream (os_sockets os) s inp" "inp (bus_world b) = wire @ rest"
    and f: "fbsec_co_fd_frame_serialize f FBSEC_CO_FD_WIRE_MAX = Some wire" "wire_frame f"
  shows "\<exists>w. read_one_frame os f0 (Some s) b = (Read_Frame (received_frame f0 f), b\<lparr>bus_world := w\<rparr>) \<and> inp w = rest"
proof -
  have v: "fbsec_co_fd_frame_validate f = VALID_OK" "frame_ok f" using f(2) by (auto simp: wire_frame_def)
  note p = serialize_payload [OF f(1) v(2,1)]
  have h: "length ([] @ take 6 wire) = 6" using p(1) by simp
  have "inp (bus_world b) = take 6 wire @ (drop 6 wire @ rest)" using i(2) by simp
  then obtain w1 where w1: "bus_recv (os_sockets os) (Some s) 6 [] (bus_world b) = (Got (take 6 wire), w1)"
      "inp w1 = drop 6 wire @ rest"
    using bus_recv_stream [OF i(1) h] by auto
  have "fbsec_co_fd_frame_parse_header (take 6 wire) f0 = fbsec_co_fd_frame_parse_header (wire @ []) f0"
    using p(1) by (simp add: fbsec_co_fd_frame_parse_header_def get32_def)
  then have ph: "fbsec_co_fd_frame_parse_header (take 6 wire) f0 =
      Inr (f\<lparr>fr_payload := fr_payload f0\<rparr>, unat (fr_len f))"
    using frame_serialize_parse(1) [OF v f(1), of "[]" f0] by simp
  have l: "length ([] @ drop 6 wire) = unat (fr_len f)" using p(1) by simp
  obtain w2 where w2: "bus_recv (os_sockets os) (Some s) (unat (fr_len f)) [] w1 = (Got (drop 6 wire), w2)"
      "inp w2 = rest"
    using bus_recv_stream [OF i(1) l w1(2)] by auto
  show ?thesis
  proof (cases "unat (fr_len f) = 0")
    case True
    then have "inp w1 = rest" using w1(2) l by simp
    then show ?thesis
      using True w1 ph
      by (auto simp: read_one_frame_def fbsec_bus_recv_exact_def received_frame_def put_def
          intro!: exI [where x = w1])
  next
    case False
    then show ?thesis
      using w1 w2 ph p(4)
      by (auto simp: read_one_frame_def fbsec_bus_recv_exact_def received_frame_def
          intro!: exI [where x = w2])
  qed
qed

lemma read_one_frame_same:
  assumes "read_one_frame os f0 sock b = (r, b')"
  shows "g_peers b' = g_peers b" "bus_variant b' = bus_variant b"
    "sends (os_sockets os) out \<Longrightarrow> out t (bus_world b') = out t (bus_world b)"
    "r = Read_Frame f \<Longrightarrow> fbsec_co_fd_frame_validate f = VALID_OK"
proof -
  let ?S = "os_sockets os"
  obtain h w1 where h: "fbsec_bus_recv_exact ?S sock 6 (bus_world b) = (h, w1)" by fastforce
  have o1: "out t w1 = out t (bus_world b)" if "sends ?S out"
    using recv_out [OF that] h by (simp add: fbsec_bus_recv_exact_def)
  have "g_peers b' = g_peers b \<and> bus_variant b' = bus_variant b \<and>
    (sends ?S out \<longrightarrow> out t (bus_world b') = out t (bus_world b)) \<and>
    (r = Read_Frame f \<longrightarrow> fbsec_co_fd_frame_validate f = VALID_OK)"
  proof (cases "\<exists>bs x. h = Got bs \<and> fbsec_co_fd_frame_parse_header bs f0 = Inr x")
    case False
    then show ?thesis
      using assms h o1 by (auto simp: read_one_frame_def Let_def split: recv_exact_result.splits sum.splits)
  next
    case True
    then obtain bs g n where g: "h = Got bs" "fbsec_co_fd_frame_parse_header bs f0 = Inr (g, n)" by auto
    have v: "fbsec_co_fd_frame_validate g = VALID_OK"
      by (rule frame_parse_serialize(2) [OF g(2) order_refl])
    obtain q w2 where q: "fbsec_bus_recv_exact ?S sock n w1 = (q, w2)" by fastforce
    have "out t w2 = out t w1" if "sends ?S out"
      using recv_out [OF that] q by (simp add: fbsec_bus_recv_exact_def)
    then show ?thesis
      using assms h o1 g v q
      by (auto simp: read_one_frame_def Let_def split: recv_exact_result.splits if_splits)
  qed
  then show "g_peers b' = g_peers b" "bus_variant b' = bus_variant b"
    "sends (os_sockets os) out \<Longrightarrow> out t (bus_world b') = out t (bus_world b)"
    "r = Read_Frame f \<Longrightarrow> fbsec_co_fd_frame_validate f = VALID_OK" by auto
qed

section \<open>The readable callback\<close>

text \<open>The adapter's writes send nothing to the peers.\<close>

definition adapter_quiet :: "'w pcan_api \<Rightarrow> (nat \<Rightarrow> 'w \<Rightarrow> bytes) \<Rightarrow> bool" where
  "adapter_quiet A out \<longleftrightarrow> (\<forall>h m w t. out t (snd (pa_write A h m w)) = out t w)"

lemma bridge_same [simp]:
  "g_peers (pcan_bridge_send_if_open A f b) = g_peers b"
  "bus_variant (pcan_bridge_send_if_open A f b) = bus_variant b"
  by (simp_all add: pcan_bridge_send_if_open_def Let_def)

lemma bridge_out:
  assumes "adapter_quiet A out"
  shows "out t (bus_world (pcan_bridge_send_if_open A f b)) = out t (bus_world b)"
proof -
  have "out t (snd (fbsec_pcan_write_fd A p c x r d l w)) = out t w" for p c x r d l w
    using assms by (simp add: fbsec_pcan_write_fd_def adapter_quiet_def case_prod_unfold)
  then show ?thesis by (simp add: pcan_bridge_send_if_open_def Let_def)
qed

lemma relay_frame_same [simp]: "bus_variant (relay_frame os sock f b) = bus_variant b"
  by (simp add: relay_frame_def fbsec_bus_relay_bytes_def split: option.split prod.split)

lemma relay_frame_peers:
  assumes "fbsec_co_fd_frame_serialize f FBSEC_CO_FD_WIRE_MAX = Some wire"
  shows "relay_peers (os_sockets os) sock wire (g_peers b) (bus_world b) =
    (g_peers (relay_frame os sock f b), bus_world (relay_frame os sock f b))"
  using assms by (simp add: relay_frame_def fbsec_bus_relay_bytes_def split: prod.split)

text \<open>What a peer's frame is, seen by the bus.\<close>

definition may_cross :: "frame \<Rightarrow> bool" where
  "may_cross f \<longleftrightarrow> fbsec_co_fd_frame_validate f = VALID_OK \<and>
     (fbsec_co_fd_frame_id_value f = FBSEC_CO_FD_CAN_ID_SIM_PEER_ANNOUNCE \<or>
      (\<exists>pdu. fbsec_co_fd_usdo_decode f = Inr pdu))"

lemma readable_cases:
  assumes "cb_on_peer_readable os A f0 sock peer b = (rc, b')"
  shows "(rc = -1 \<and> g_peers b' = g_peers b \<and> bus_variant b' = bus_variant b \<and>
      bus_world b' = bus_world (snd (read_one_frame os f0 sock b))) \<or>
    (\<exists>f b1 b2. rc = 0 \<and> read_one_frame os f0 sock b = (Read_Frame f, b1) \<and> may_cross f \<and>
      g_peers b2 = g_peers b \<and> bus_world b2 = bus_world b1 \<and>
      (b' = relay_frame os sock f b2 \<or> b' = pcan_bridge_send_if_open A f (relay_frame os sock f b2)))"
proof -
  obtain r b1 where r: "read_one_frame os f0 sock b = (r, b1)" by fastforce
  note same = read_one_frame_same [OF r]
  show ?thesis
  proof (cases r)
    case (Read_Frame f)
    let ?id = "fbsec_co_fd_frame_id_value f"
    note v = same(4) [OF Read_Frame]
    consider (dup) "?id = 0x1FFFFFE0" "rc = -1" "b' = emit_carrier_error os 7 b1"
      | (ann) v where "?id = 0x1FFFFFE0" "rc = 0"
          "b' = relay_frame os sock f (emit_frame_trace os f AC_ANNOUNCE (b1\<lparr>bus_variant := v\<rparr>))"
      | (ann0) "?id = 0x1FFFFFE0" "rc = 0" "b' = relay_frame os sock f (emit_frame_trace os f AC_ANNOUNCE b1)"
      | (bad) e where "rc = -1" "b' = emit_carrier_error os e b1"
      | (usdo) pdu a where "fbsec_co_fd_usdo_decode f = Inr pdu" "rc = 0"
          "b' = pcan_bridge_send_if_open A f (relay_frame os sock f (emit_frame_trace os f a b1))"
      using assms r Read_Frame
      by (auto simp: cb_on_peer_readable_def Let_def split: if_splits prod.splits sum.splits option.splits)
    then show ?thesis
    proof cases
      case dup then show ?thesis using same r by simp
    next
      case ann
      then have "may_cross f" using v by (simp add: may_cross_def)
      then show ?thesis using ann same r Read_Frame
        by (intro disjI2 exI [where x = f] exI [where x = b1]
            exI [where x = "emit_frame_trace os f AC_ANNOUNCE (b1\<lparr>bus_variant := v\<rparr>)"]) simp
    next
      case ann0
      then have "may_cross f" using v by (simp add: may_cross_def)
      then show ?thesis using ann0 same r Read_Frame
        by (intro disjI2 exI [where x = f] exI [where x = b1]
            exI [where x = "emit_frame_trace os f AC_ANNOUNCE b1"]) simp
    next
      case bad then show ?thesis using same r by simp
    next
      case usdo
      then have "may_cross f" using v by (auto simp: may_cross_def)
      then show ?thesis using usdo same r Read_Frame
        by (intro disjI2 exI [where x = f] exI [where x = b1]
            exI [where x = "emit_frame_trace os f a b1"]) simp
    qed
  qed (use assms same r in \<open>auto simp: cb_on_peer_readable_def\<close>)
qed

lemma bus_forwards_only_frames:
  assumes out: "sends (os_sockets os) out" "adapter_quiet A out" and ok: "sockets_ok (g_peers b)"
    and step: "cb_on_peer_readable os A f0 sock peer b = (rc, b')"
  shows "(rc = -1 \<and> g_peers b' = g_peers b \<and> (\<forall>t. out t (bus_world b') = out t (bus_world b))) \<or>
    (rc = 0 \<and> (\<exists>f wire. may_cross f \<and> fbsec_co_fd_frame_serialize f FBSEC_CO_FD_WIRE_MAX = Some wire \<and>
       (\<forall>t. \<exists>k. out t (bus_world b') = out t (bus_world b) @ take k wire)))"
proof -
  consider (dropped) "rc = -1" "g_peers b' = g_peers b" "bus_world b' = bus_world (snd (read_one_frame os f0 sock b))"
    | (relayed) f b1 b2 where "rc = 0" "read_one_frame os f0 sock b = (Read_Frame f, b1)" "may_cross f"
      "g_peers b2 = g_peers b" "bus_world b2 = bus_world b1"
      "b' = relay_frame os sock f b2 \<or> b' = pcan_bridge_send_if_open A f (relay_frame os sock f b2)"
    using readable_cases [OF step] by blast
  then show ?thesis
  proof cases
    case dropped
    then show ?thesis using read_one_frame_same(3) [OF prod.collapse [symmetric] out(1)] by auto
  next
    case (relayed f b1 b2)
    obtain wire where w: "fbsec_co_fd_frame_serialize f FBSEC_CO_FD_WIRE_MAX = Some wire"
      using relayed(3) validate_ok_len [of f] by (auto simp: may_cross_def fbsec_co_fd_frame_serialize_def Let_def)
    have o: "out t (bus_world b') = out t (bus_world (relay_frame os sock f b2))" for t
      using relayed(6) bridge_out [OF out(2)] by auto
    have "sockets_ok (g_peers b2)" using ok relayed(4) by simp
    from relay_prefix [OF out(1) this relay_frame_peers [OF w]]
    have "\<forall>t. \<exists>k. out t (bus_world b') = out t (bus_world b) @ take k wire"
      using o relayed(5) read_one_frame_same(3) [OF relayed(2) out(1)] by simp
    then show ?thesis using relayed(1,3) w by blast
  qed
qed

text \<open>A frame of the protocol that a peer sends reaches every other peer, byte for byte.\<close>

lemma bus_relays_usdo_frame:
  assumes out: "sends (os_sockets os) out" "adapter_quiet A out" and ok: "sockets_ok (g_peers b)"
    and inp: "recv_stream (os_sockets os) s inp" "inp (bus_world b) = wire @ rest"
    and f: "fbsec_co_fd_frame_serialize f FBSEC_CO_FD_WIRE_MAX = Some wire" "wire_frame f"
      "fbsec_co_fd_usdo_decode f = Inr pdu" and f0: "frame_ok f0"
  obtains b' where "cb_on_peer_readable os A f0 (Some s) peer b = (0, b')"
    "out s (bus_world b') = out s (bus_world b)" "length (g_peers b') = length (g_peers b)"
    "\<And>i t. i < length (g_peers b) \<Longrightarrow> bp_in_use (g_peers b ! i) \<Longrightarrow> bp_sock (g_peers b ! i) = Some t \<Longrightarrow>
       t \<noteq> s \<Longrightarrow> g_peers b' ! i = g_peers b ! i \<and> out t (bus_world b') = out t (bus_world b) @ wire \<or>
         g_peers b' ! i = gone (g_peers b ! i) \<and> (\<exists>w1 w2. out t w1 = out t (bus_world b) \<and>
           fbsec_bus_send_all (os_sockets os) (Some t) wire w1 = (False, w2) \<and>
           out t (bus_world b') = out t w2)"
    "\<And>i. i < length (g_peers b) \<Longrightarrow> \<not> bp_in_use (g_peers b ! i) \<or> bp_sock (g_peers b ! i) = Some s \<Longrightarrow>
       g_peers b' ! i = g_peers b ! i"
proof -
  let ?g = "received_frame f0 f"
  note g = received_frame_facts [OF f0 f(2)]
  obtain w where w: "read_one_frame os f0 (Some s) b = (Read_Frame ?g, b\<lparr>bus_world := w\<rparr>)"
    using read_one_frame_stream [OF inp f(1,2)] by blast
  have ow: "out t w = out t (bus_world b)" for t
    using read_one_frame_same(3) [OF w out(1)] by simp
  have dec: "fbsec_co_fd_usdo_decode ?g = Inr pdu" by (rule decode_padding [OF g(4) f(3)])
  have id: "snd (snd (fbsec_co_fd_usdo_can_id_split (fbsec_co_fd_frame_id_value ?g)))"
    using dec by (auto simp: fbsec_co_fd_usdo_decode_def split: prod.splits if_splits)
  have nosim: "fbsec_co_fd_frame_id_value ?g \<noteq> 0x1FFFFFE0" "fbsec_co_fd_frame_id_value ?g \<noteq> 0x1FFFFFE1"
    "fbsec_co_fd_frame_id_value ?g \<noteq> 0x1FFFFFEF"
    using id by (auto simp: fbsec_co_fd_usdo_can_id_split_def Let_def)
  obtain sender kind where k: "fbsec_co_fd_usdo_can_id_split (fbsec_co_fd_frame_id_value ?g) = (sender, kind, True)"
    using id by (metis (full_types) prod.collapse)
  define a where "a = usdo_action kind (pdu_cmd pdu = FBSEC_CO_FD_USDO_CMD_ABORT)"
  have step: "cb_on_peer_readable os A f0 (Some s) peer b =
      (0, pcan_bridge_send_if_open A ?g
        (relay_frame os (Some s) ?g (emit_frame_trace os ?g a (b\<lparr>bus_world := w\<rparr>))))"
    using w nosim k dec by (simp add: cb_on_peer_readable_def a_def)
  let ?b2 = "emit_frame_trace os ?g a (b\<lparr>bus_world := w\<rparr>)"
  let ?b' = "pcan_bridge_send_if_open A ?g (relay_frame os (Some s) ?g ?b2)"
  have ser: "fbsec_co_fd_frame_serialize ?g FBSEC_CO_FD_WIRE_MAX = Some wire" using g(2) f(1) by simp
  note rel = relay_frame_peers [OF ser, of os "Some s" ?b2]
  show thesis
  proof (rule that [OF step])
    show "out s (bus_world ?b') = out s (bus_world b)"
      using relay_other [OF out(1) _ rel, of s] bridge_out [OF out(2)] ow by simp
    show "length (g_peers ?b') = length (g_peers b)"
      using list_all2_lengthD [OF relay_peers_table [OF rel]] by simp
    show "g_peers ?b' ! i = g_peers b ! i"
      if "i < length (g_peers b)" "\<not> bp_in_use (g_peers b ! i) \<or> bp_sock (g_peers b ! i) = Some s" for i
      using relay_skips [OF rel, of i] that by simp
    show "g_peers ?b' ! i = g_peers b ! i \<and> out t (bus_world ?b') = out t (bus_world b) @ wire \<or>
         g_peers ?b' ! i = gone (g_peers b ! i) \<and> (\<exists>w1 w2. out t w1 = out t (bus_world b) \<and>
           fbsec_bus_send_all (os_sockets os) (Some t) wire w1 = (False, w2) \<and>
           out t (bus_world ?b') = out t w2)"
      if "i < length (g_peers b)" "bp_in_use (g_peers b ! i)" "bp_sock (g_peers b ! i) = Some t" "t \<noteq> s"
      for i t
      using relay_outcome [OF out(1) _ rel, of i t] ok that bridge_out [OF out(2)] ow by simp
  qed
qed

section \<open>The adapter is transparent\<close>

text \<open>
  A frame handed to the adapter of one bus and read from the adapter of another
  is a frame the other bus broadcasts, and it decodes to the same PDU.
\<close>

lemma usdo_not_sim_only:
  assumes "fbsec_co_fd_usdo_decode f = Inr pdu"
  shows "\<not> can_id_is_sim_only (fbsec_co_fd_frame_id_value f)"
proof -
  have "snd (snd (fbsec_co_fd_usdo_can_id_split (fbsec_co_fd_frame_id_value f)))"
    using assms by (auto simp: fbsec_co_fd_usdo_decode_def split: prod.splits if_splits)
  then show ?thesis
    by (auto simp: fbsec_co_fd_usdo_can_id_split_def can_id_is_sim_only_def Let_def)
qed

lemma bridged_id:
  fixes f :: frame
  defines "c \<equiv> fr_can_id (fbsec_co_fd_frame_init (fbsec_co_fd_frame_id_value f) (fbsec_co_fd_frame_is_extended f))"
  shows "c AND FBSEC_CO_FD_CAN_ID_VALUE = fbsec_co_fd_frame_id_value f"
    "c AND FBSEC_CO_FD_CAN_ID_FLAG_IDE \<noteq> 0 \<longleftrightarrow> fbsec_co_fd_frame_is_extended f"
    "c AND FBSEC_CO_FD_CAN_ID_FLAG_RTR = 0" "c AND FBSEC_CO_FD_CAN_ID_FLAG_ERR = 0"
  by (auto simp: c_def fbsec_co_fd_frame_init_def fbsec_co_fd_frame_id_value_def
      bit.conj_disj_distrib2 and.assoc)

lemma pcan_bridges_pdus:
  assumes f: "wire_frame f" "fbsec_co_fd_usdo_decode f = Inr pdu"
  defines "m \<equiv> pcan_message (fbsec_co_fd_frame_id_value f) (fbsec_co_fd_frame_is_extended f)
      (fr_flags f AND FBSEC_CO_FD_FLAG_BRS \<noteq> 0) (fr_payload f) (fr_len f)"
  shows "\<exists>g. pcan_frame (pcan_received m) = Some g \<and> fbsec_co_fd_usdo_decode g = Inr pdu \<and> wire_frame g \<and>
    fbsec_co_fd_frame_id_value g = fbsec_co_fd_frame_id_value f \<and>
    fbsec_co_fd_frame_is_extended g = fbsec_co_fd_frame_is_extended f"
proof -
  let ?id = "fbsec_co_fd_frame_id_value f" and ?x = "fbsec_co_fd_frame_is_extended f"
  let ?n = "unat (fr_len f)" and ?l = "snd (len_to_dlc (fr_len f))"
  have v: "fbsec_co_fd_frame_validate f = VALID_OK" and p64: "length (fr_payload f) = 64"
    using f(1) by (auto simp: wire_frame_def frame_ok_def)
  note l = validate_ok_len [OF v] note d = dlc_padded [OF l]
  define data where "data = take ?n (fr_payload f) @ replicate (unat ?l - ?n) 0"
  define g where "g = (fbsec_co_fd_frame_init ?id ?x)\<lparr>
      fr_flags := (if fr_flags f AND FBSEC_CO_FD_FLAG_BRS \<noteq> 0 then FBSEC_CO_FD_FLAG_BRS else 0),
      fr_payload := put (replicate 64 0) 0 (take (unat ?l) data), fr_len := ?l\<rparr>"
  have len: "length data = unat ?l" using l d(2) p64 by (simp add: data_def)
  note b = bridged_id [of f]
  have id: "fbsec_co_fd_frame_id_value g = ?id" using b(1) by (simp add: g_def fbsec_co_fd_frame_id_value_def)
  have x: "fbsec_co_fd_frame_is_extended g = ?x"
    using b(2) by (simp add: g_def fbsec_co_fd_frame_is_extended_def)
  have std: "\<not> (\<not> ?x \<and> ?id > FBSEC_CO_FD_STD_ID_MAX)"
    using v by (auto simp: fbsec_co_fd_frame_validate_def fbsec_co_fd_frame_is_extended_def
        fbsec_co_fd_frame_id_value_def split: if_splits)
  have vg: "fbsec_co_fd_frame_validate g = VALID_OK"
    using b std d(3) by (auto simp: fbsec_co_fd_frame_validate_def g_def)
  have okg: "frame_ok g" using len d(3) by (simp add: frame_ok_def g_def)
  have "take ?n (fr_payload g) = take ?n (fr_payload f)"
    using len d(2) p64 l by (simp add: g_def put_def data_def)
  then have pads: "pads f g" using id d by (auto simp: pads_def g_def)
  have "pcan_received m = (?id, ?x, fr_flags f AND FBSEC_CO_FD_FLAG_BRS \<noteq> 0, data, ?l)"
    unfolding m_def data_def by (rule pcan_received_message [OF l p64])
  then have "pcan_frame (pcan_received m) = Some g"
    using usdo_not_sim_only [OF f(2)] d(3) vg
    by (simp add: pcan_frame_def Let_def g_def fbsec_co_fd_frame_init_def)
  then show ?thesis using decode_padding [OF pads f(2)] id x okg vg by (auto simp: wire_frame_def)
qed

section \<open>The tables\<close>

text \<open>
  The peer table and the pool of the variant fit together: a peer in use that
  has a pool entry has one that is allocated, no two peers in use share one,
  and the names in the pool fit their arrays. An entry may be allocated that no
  peer has: the relay gives up the slot of a peer whose send fails and does not
  call the variant.
\<close>

definition users_ok :: "bus_peer list \<Rightarrow> bool list \<Rightarrow> bool" where
  "users_ok ps used \<longleftrightarrow>
     (\<forall>i < length ps. \<forall>u. bp_in_use (ps ! i) \<longrightarrow> bp_user (ps ! i) = Some u \<longrightarrow>
        u < length used \<and> used ! u \<and>
        (\<forall>j < length ps. bp_in_use (ps ! j) \<longrightarrow> bp_user (ps ! j) = Some u \<longrightarrow> j = i))"

definition fd_peer_ok :: "fd_peer \<Rightarrow> bool" where
  "fd_peer_ok p \<longleftrightarrow> length (fp_name p) = SIM_NAME_MAX \<and> unat (fp_name_len p) \<le> SIM_NAME_MAX"

definition fd_inv :: "bus_peer list \<Rightarrow> fd_bus \<Rightarrow> bool" where
  "fd_inv ps v \<longleftrightarrow> length ps = FBSEC_BUS_MAX_PEERS \<and> length (g_peer_in_use v) = MAX_PEERS \<and>
     length (g_peer_pool v) = MAX_PEERS \<and> users_ok ps (g_peer_in_use v) \<and>
     (\<forall>p \<in> set (g_peer_pool v). fd_peer_ok p)"

lemma first_unused_Some: "first_unused us = Some i \<Longrightarrow> i < length us \<and> \<not> us ! i"
  by (induction us arbitrary: i) (auto split: if_splits)

text \<open>Peers that go away, and sockets that close, keep the tables.\<close>

lemma users_ok_fewer:
  assumes "users_ok ps used"
    "list_all2 (\<lambda>p p'. bp_in_use p' \<longrightarrow> bp_in_use p \<and> bp_user p' = bp_user p) ps ps'"
  shows "users_ok ps' used"
proof -
  have l: "length ps' = length ps" using assms(2) by (simp add: list_all2_lengthD)
  have u: "bp_in_use (ps' ! i) \<Longrightarrow> bp_in_use (ps ! i) \<and> bp_user (ps' ! i) = bp_user (ps ! i)"
    if "i < length ps" for i
    using list_all2_nthD [OF assms(2) that] by simp
  show ?thesis using assms(1) l u unfolding users_ok_def by metis
qed

lemma fd_inv_fewer:
  assumes "fd_inv ps v"
    "list_all2 (\<lambda>p p'. bp_in_use p' \<longrightarrow> bp_in_use p \<and> bp_user p' = bp_user p) ps ps'"
  shows "fd_inv ps' v"
  using assms users_ok_fewer [OF _ assms(2)] list_all2_lengthD [OF assms(2)] by (auto simp: fd_inv_def)

lemma fd_inv_relay: "fd_inv (g_peers b) v \<Longrightarrow> fd_inv (g_peers (relay_frame os sock f b)) v"
proof (cases "fbsec_co_fd_frame_serialize f FBSEC_CO_FD_WIRE_MAX")
  case (Some wire)
  assume "fd_inv (g_peers b) v"
  then show ?thesis
    using relay_peers_table [OF relay_frame_peers [OF Some, of os sock b]]
    by (elim fd_inv_fewer) (auto simp: gone_def elim!: list_all2_mono)
qed (simp add: relay_frame_def)

text \<open>An announcement is recorded within the arrays.\<close>

lemma record_announce_ok: "fd_peer_ok p \<Longrightarrow> fd_peer_ok (record_announce p f)"
proof -
  assume p: "fd_peer_ok p"
  define n where "n = (if fr_len f > 2 then min (unat (fr_len f) - 2) SIM_NAME_MAX else 0)"
  have n: "n \<le> 30" by (simp add: n_def)
  have "length (slice (fr_payload f) 2 n) \<le> 30" using n by (simp add: slice_def)
  moreover have "unat (of_nat n :: u8) = n" using n by (simp add: unat_of_nat)
  ultimately show ?thesis
    using p n by (auto simp: fd_peer_ok_def record_announce_def Let_def n_def [symmetric])
qed

lemma fd_inv_pool:
  assumes "fd_inv ps v" "u < MAX_PEERS \<Longrightarrow> fd_peer_ok (g_peer_pool v ! u) \<Longrightarrow> fd_peer_ok q"
  shows "fd_inv ps (v\<lparr>g_peer_pool := (g_peer_pool v)[u := q]\<rparr>)"
proof (cases "u < MAX_PEERS")
  case True
  then have "fd_peer_ok q" using assms by (auto simp: fd_inv_def)
  then show ?thesis
    using assms(1) set_update_subset_insert [of "g_peer_pool v" u q] by (auto simp: fd_inv_def)
next
  case False
  then have "(g_peer_pool v)[u := q] = g_peer_pool v"
    using assms(1) by (auto simp: fd_inv_def intro: list_update_beyond)
  then show ?thesis using assms(1) by simp
qed

lemma zero_peer_ok: "fd_peer_ok (zero_peer\<lparr>fp_tcp_port := p\<rparr>)"
  by (simp add: fd_peer_ok_def zero_peer_def)

lemma users_ok_new:
  assumes "users_ok ps used" "i < length ps"
    "\<And>k. u = Some k \<Longrightarrow> k < length used' \<and> used' ! k \<and> (\<forall>j < length ps. bp_in_use (ps ! j) \<longrightarrow> bp_user (ps ! j) \<noteq> Some k)"
    "length used' = length used" "\<And>k. k < length used \<Longrightarrow> used ! k \<Longrightarrow> used' ! k" "bp_user p = u"
  shows "users_ok (ps[i := p]) used'"
  unfolding users_ok_def
proof (intro allI impI)
  fix a k
  assume a: "a < length (ps[i := p])" "bp_in_use (ps[i := p] ! a)" "bp_user (ps[i := p] ! a) = Some k"
  show "k < length used' \<and> used' ! k \<and> (\<forall>j < length (ps[i := p]).
      bp_in_use (ps[i := p] ! j) \<longrightarrow> bp_user (ps[i := p] ! j) = Some k \<longrightarrow> j = a)"
  proof (cases "a = i")
    case True
    then have "u = Some k" using a(3) assms(2,6) by simp
    then show ?thesis using assms(3) True by (metis length_list_update nth_list_update_neq)
  next
    case False
    then have o: "bp_in_use (ps ! a)" "bp_user (ps ! a) = Some k" "a < length ps" using a by auto
    then have "k < length used" "used ! k" "\<forall>j < length ps. bp_in_use (ps ! j) \<longrightarrow> bp_user (ps ! j) = Some k \<longrightarrow> j = a"
      using assms(1) unfolding users_ok_def by blast+
    moreover have "u \<noteq> Some k" using assms(3) o by blast
    ultimately show ?thesis using assms(2,4,5,6) by (auto simp: nth_list_update)
  qed
qed

lemma fd_inv_accepted:
  assumes inv: "fd_inv (g_peers b) (bus_variant b)" and acc: "cb_on_peer_accepted os s port b = (u, b')"
    and i: "i < length (g_peers b)" "\<not> bp_in_use (g_peers b ! i)"
  shows "fd_inv ((g_peers b')[i := \<lparr>bp_sock = Some s, bp_in_use = True, bp_tcp_port = port, bp_user = u\<rparr>])
    (bus_variant b')"
proof -
  let ?v = "bus_variant b" and ?p = "\<lparr>bp_sock = Some s, bp_in_use = True, bp_tcp_port = port, bp_user = u\<rparr>"
  have inv': "length (g_peers b) = 63" "length (g_peer_in_use ?v) = 63" "length (g_peer_pool ?v) = 63"
    "users_ok (g_peers b) (g_peer_in_use ?v)" "\<forall>p \<in> set (g_peer_pool ?v). fd_peer_ok p"
    using inv by (auto simp: fd_inv_def)
  show ?thesis
  proof (cases "first_unused (g_peer_in_use ?v)")
    case None
    then have "u = None" "b' = b" using acc by (auto simp: cb_on_peer_accepted_def alloc_peer_def)
    moreover have "users_ok ((g_peers b)[i := ?p]) (g_peer_in_use ?v)"
      by (rule users_ok_new [OF inv'(4) i(1)]) (use \<open>u = None\<close> in auto)
    ultimately show ?thesis using inv' by (simp add: fd_inv_def)
  next
    case (Some k)
    note k = first_unused_Some [OF Some]
    have u: "u = Some k" and p: "g_peers b' = g_peers b"
      and v: "bus_variant b' = ?v\<lparr>g_peer_in_use := (g_peer_in_use ?v)[k := True],
        g_peer_pool := (g_peer_pool ?v)[k := zero_peer\<lparr>fp_tcp_port := port\<rparr>]\<rparr>"
      using acc Some k inv' by (auto simp: cb_on_peer_accepted_def alloc_peer_def Let_def)
    have free: "\<forall>j < length (g_peers b). bp_in_use (g_peers b ! j) \<longrightarrow> bp_user (g_peers b ! j) \<noteq> Some k"
      using inv'(4) k unfolding users_ok_def by blast
    have "users_ok ((g_peers b)[i := ?p]) ((g_peer_in_use ?v)[k := True])"
      by (rule users_ok_new [OF inv'(4) i(1)]) (use u free k in \<open>auto simp: nth_list_update\<close>)
    moreover have "\<forall>p \<in> set ((g_peer_pool ?v)[k := zero_peer\<lparr>fp_tcp_port := port\<rparr>]). fd_peer_ok p"
      using set_update_subset_insert [of "g_peer_pool ?v" k] inv'(5) zero_peer_ok by blast
    ultimately show ?thesis using inv' p v by (simp add: fd_inv_def)
  qed
qed

lemma readable_variant:
  assumes "cb_on_peer_readable os A f0 sock peer b = (rc, b')"
  shows "bus_variant b' = bus_variant b \<or> (\<exists>u f. peer = Some u \<and> bus_variant b' =
    (bus_variant b)\<lparr>g_peer_pool := (g_peer_pool (bus_variant b))[u := record_announce (g_peer_pool (bus_variant b) ! u) f]\<rparr>)"
proof -
  obtain r b1 where r: "read_one_frame os f0 sock b = (r, b1)" by fastforce
  note same = read_one_frame_same(2) [OF r]
  show ?thesis
    using assms r same
    by (auto simp: cb_on_peer_readable_def Let_def split: read_result.splits if_splits prod.splits
        sum.splits option.splits)
qed

lemma fd_inv_readable:
  assumes inv: "fd_inv (g_peers b) (bus_variant b)" and step: "cb_on_peer_readable os A f0 sock peer b = (rc, b')"
  shows "fd_inv (g_peers b') (bus_variant b')"
proof -
  have v: "fd_inv ps (bus_variant b')" if "fd_inv ps (bus_variant b)" for ps
    using readable_variant [OF step] that fd_inv_pool [OF that] record_announce_ok by auto
  have p: "fd_inv (g_peers b') (bus_variant b)"
    using readable_cases [OF step] inv by (metis fd_inv_relay bridge_same(1))
  show ?thesis by (rule v [OF p])
qed

lemma users_ok_freed:
  assumes "users_ok ps used" "\<forall>j < length ps. bp_in_use (ps ! j) \<longrightarrow> bp_user (ps ! j) \<noteq> Some u"
  shows "users_ok ps (used[u := False])"
  unfolding users_ok_def
proof (intro allI impI)
  fix a k
  assume a: "a < length ps" "bp_in_use (ps ! a)" "bp_user (ps ! a) = Some k"
  then have "k \<noteq> u" using assms(2) by blast
  moreover have "k < length used \<and> used ! k \<and>
      (\<forall>j < length ps. bp_in_use (ps ! j) \<longrightarrow> bp_user (ps ! j) = Some k \<longrightarrow> j = a)"
    using assms(1) a unfolding users_ok_def by blast
  ultimately show "k < length (used[u := False]) \<and> used[u := False] ! k \<and>
      (\<forall>j < length ps. bp_in_use (ps ! j) \<longrightarrow> bp_user (ps ! j) = Some k \<longrightarrow> j = a)" by simp
qed

lemma fd_inv_dropped:
  assumes inv: "fd_inv (g_peers b) (bus_variant b)" and i: "i < length (g_peers b)" "bp_in_use (g_peers b ! i)"
    and d: "cb_on_peer_dropped os sock (bp_user (g_peers b ! i))
        (b\<lparr>g_peers := (g_peers b)[i := gone (g_peers b ! i)]\<rparr>) = b'"
  shows "fd_inv (g_peers b') (bus_variant b')"
proof -
  let ?ps = "(g_peers b)[i := gone (g_peers b ! i)]" and ?v = "bus_variant b"
  have l: "length (g_peers b) = 63" using inv by (simp add: fd_inv_def)
  have "list_all2 (\<lambda>p p'. bp_in_use p' \<longrightarrow> bp_in_use p \<and> bp_user p' = bp_user p) (g_peers b) ?ps"
    using i(1) by (auto simp: list_all2_conv_all_nth nth_list_update gone_def)
  then have ps: "fd_inv ?ps ?v" by (rule fd_inv_fewer [OF inv])
  show ?thesis
  proof (cases "bp_user (g_peers b ! i)")
    case None
    then show ?thesis using ps d by (auto simp: cb_on_peer_dropped_def)
  next
    case (Some u)
    have u: "u < 63" "\<forall>j < length ?ps. bp_in_use (?ps ! j) \<longrightarrow> bp_user (?ps ! j) \<noteq> Some u"
    proof -
      have h: "u < length (g_peer_in_use ?v)"
        "\<forall>j < length (g_peers b). bp_in_use (g_peers b ! j) \<longrightarrow> bp_user (g_peers b ! j) = Some u \<longrightarrow> j = i"
        using inv i Some unfolding fd_inv_def users_ok_def by blast+
      show "u < 63" using h(1) inv by (simp add: fd_inv_def)
      show "\<forall>j < length ?ps. bp_in_use (?ps ! j) \<longrightarrow> bp_user (?ps ! j) \<noteq> Some u"
      proof (intro allI impI)
        fix j assume j: "j < length ?ps" "bp_in_use (?ps ! j)"
        then have "j \<noteq> i" using i(1) by (auto simp: gone_def)
        then show "bp_user (?ps ! j) \<noteq> Some u" using h(2) j by auto
      qed
    qed
    have "users_ok ?ps ((g_peer_in_use ?v)[u := False])"
      by (rule users_ok_freed) (use ps u(2) in \<open>auto simp: fd_inv_def\<close>)
    then have f: "fd_inv ?ps (free_peer (Some u) ?v)"
      using ps u(1) by (simp add: fd_inv_def free_peer_def)
    have "bus_variant b' = free_peer (Some u) ?v"
      using d Some by (auto simp: cb_on_peer_dropped_def Let_def)
    moreover have "g_peers b' = ?ps \<or> (\<exists>f b1. g_peers b1 = ?ps \<and> g_peers b' = g_peers (relay_frame os sock f b1))"
    proof -
      let ?q = "g_peer_pool ?v ! u"
      let ?b1 = "emit_peer_event_trace os ''Peer disconnected'' (fp_tcp_port ?q) (b\<lparr>g_peers := ?ps\<rparr>)"
      have "g_peers b' = (if fp_announced ?q then g_peers (relay_frame os sock (fill_peer_loss ?q)
          (emit_frame_trace os (fill_peer_loss ?q) AC_LOSS ?b1)) else ?ps)"
        using d Some by (auto simp: cb_on_peer_dropped_def Let_def)
      moreover have "g_peers (emit_frame_trace os (fill_peer_loss ?q) AC_LOSS ?b1) = ?ps" by simp
      ultimately show ?thesis by meson
    qed
    ultimately show ?thesis using f by (metis fd_inv_relay)
  qed
qed

lemma drain_pcan_same:
  assumes "drain_pcan os A b = Some b'"
  shows "g_peers b' = g_peers b \<and> bus_variant b' = bus_variant b"
proof -
  let ?P = "\<lambda>os A b b'. g_peers b' = g_peers b \<and> bus_variant b' = bus_variant b"
  show ?thesis
  proof (rule drain_pcan.raw_induct [where P = ?P, OF _ assms])
    fix f :: "'a bus_os \<Rightarrow> 'a pcan_api \<Rightarrow> 'a fd_bus_state \<Rightarrow> 'a fd_bus_state option" and os A b b'
    assume ih: "\<And>os A b b'. f os A b = Some b' \<Longrightarrow> ?P os A b b'"
      and "(case fbsec_pcan_read_fd A (g_pcan (bus_variant b)) (bus_world b) of
          (None, w) \<Rightarrow> Some (b\<lparr>bus_world := w\<rparr>)
        | (Some m, w) \<Rightarrow>
            let b = b\<lparr>bus_world := w\<rparr>
            in case pcan_frame m of None \<Rightarrow> f os A b
               | Some g \<Rightarrow> f os A (broadcast_frame os g (emit_frame_trace os g (pcan_action (fst m) g) b))) = Some b'"
    then show "?P os A b b'"
      by (auto simp: Let_def broadcast_frame_def fbsec_bus_each_peer_def split: option.splits prod.splits
          dest!: ih)
  qed
qed

interpretation fd: peer_accounting os "fd_callbacks os A f0" fd_inv
proof
  show "fd_inv ps v \<Longrightarrow> length ps = FBSEC_BUS_MAX_PEERS" for ps v by (simp add: fd_inv_def)
  show "fd_inv ps v \<Longrightarrow> closed_peers ps ps' \<Longrightarrow> fd_inv ps' v" for ps ps' v
    by (erule fd_inv_fewer) (auto simp: closed_peers_def elim!: list_all2_mono)
qed (auto simp: fd_callbacks_def cb_on_idle_tick_def intro: fd_inv_accepted fd_inv_readable fd_inv_dropped
    dest!: drain_pcan_same split: if_splits)

section \<open>Runs\<close>

text \<open>The tables are consistent when the program ends, however it ran.\<close>

definition fd_start :: "'w fd_bus_state \<Rightarrow> bool" where
  "fd_start b \<longleftrightarrow> length (g_peers b) = FBSEC_BUS_MAX_PEERS \<and>
     length (g_peer_in_use (bus_variant b)) = MAX_PEERS \<and>
     length (g_peer_pool (bus_variant b)) = MAX_PEERS \<and> (\<forall>p \<in> set (g_peer_pool (bus_variant b)). fd_peer_ok p)"

lemma fd_inv_start:
  assumes "length ps = FBSEC_BUS_MAX_PEERS" "length used = MAX_PEERS"
    "length pool = MAX_PEERS" "\<forall>p \<in> set pool. fd_peer_ok p" "\<forall>p \<in> set ps. \<not> bp_in_use p"
  shows "fd_inv ps (v\<lparr>g_peer_in_use := used, g_peer_pool := pool\<rparr>)"
  using assms by (auto simp: fd_inv_def users_ok_def)

lemma start_listening_same:
  assumes "start_listening os port b = (ok, b')"
  shows "g_peers b' = g_peers b" "bus_variant b' = bus_variant b"
  using assms by (auto simp: start_listening_def split: prod.splits option.splits if_splits)

lemma bus_reset_same:
  "g_peers (bus_reset os opts b) = map (\<lambda>p. p\<lparr>bp_sock := None, bp_in_use := False, bp_user := None\<rparr>) (g_peers b)"
  "bus_variant (bus_reset os opts b) = bus_variant b"
  by (simp_all add: bus_reset_def resolve_color_def Let_def)

lemma bus_run_cases:
  assumes "fbsec_bus_run os opts cb b = Some (rc, b')"
  obtains (refused) "rc = 1"
    | (ran) w b2 b3 where "rc = 0"
      "start_listening os (bo_port opts) (bus_reset os opts (b\<lparr>bus_world := w\<rparr>)) = (True, b2)"
      "run_event_loop os cb b2 = Some b3"
      "b' = (shutdown_all os cb b3)\<lparr>bus_world := os_cleanup os (bus_world (shutdown_all os cb b3))\<rparr>"
  using assms
  by (auto simp: fbsec_bus_run_def Let_def split: prod.splits if_splits bool.splits option.splits)

lemma fd_inv_run:
  assumes run: "fbsec_bus_run os opts (fd_callbacks os A f0) b = Some (rc, b')" and start: "fd_start b"
  shows "rc = 1 \<or> fd_inv (g_peers b') (bus_variant b')"
  using run
proof (cases rule: bus_run_cases)
  case (ran w b2 b3)
  let ?r = "bus_reset os opts (b\<lparr>bus_world := w\<rparr>)"
  have "fd_inv (g_peers ?r) (bus_variant ?r)"
    using start fd_inv_start [of "g_peers ?r" "g_peer_in_use (bus_variant b)" "g_peer_pool (bus_variant b)" "bus_variant b"]
    by (auto simp: fd_start_def bus_reset_same)
  then have "fd_inv (g_peers b2) (bus_variant b2)"
    using start_listening_same [OF ran(2)] by simp
  then have "fd_inv (g_peers b3) (bus_variant b3)"
    using fd.good_loop [OF ran(3)] by (simp add: fd.good_def)
  then show ?thesis using fd.good_shutdown [of b3] ran(4) by (simp add: fd.good_def)
qed simp

end
