(* ===== verification/Bus_Demo.thy ===== *)
theory Bus_Demo
  imports Co_Fd_Bus_Props
begin

text \<open>
  A small network on which the statements about carriers and the bus are
  evaluated: each socket has a stream of bytes to come and a record of the bytes
  sent. A receive returns at most four bytes, a send takes at most five, so that
  frames are cut into pieces.
\<close>

record demo_world =
  dw_in :: "nat \<Rightarrow> bytes"
  dw_out :: "nat \<Rightarrow> bytes"

definition demo_sockets :: "demo_world sockets" where
  "demo_sockets = \<lparr>
     so_send = (\<lambda>s buf w. (int (min 5 (length buf)), w\<lparr>dw_out := (dw_out w)(s := dw_out w s @ take 5 buf)\<rparr>)),
     so_recv = (\<lambda>s n w. (Received (take (min n 4) (dw_in w s)),
                         w\<lparr>dw_in := (dw_in w)(s := drop (min n 4) (dw_in w s))\<rparr>)),
     so_set_timeout = (\<lambda>s t w. (True, w)), so_close = (\<lambda>s w. w), so_tick = (\<lambda>w. 0)\<rparr>"

definition demo_os :: "demo_world bus_os" where
  "demo_os = \<lparr>os_sockets = demo_sockets, os_startup = (\<lambda>w. (True, w)), os_cleanup = (\<lambda>w. w),
     os_socket = (\<lambda>w. (Some 9, w)), os_bind = (\<lambda>s p w. (Bind_Ok, w)), os_listen = (\<lambda>s n w. (True, w)),
     os_sleep = (\<lambda>n w. w), os_accept = (\<lambda>s w. (None, w)),
     os_select = (\<lambda>ss t w. ((Select_Error False, False), w)), os_timestamp = (\<lambda>w. ''12:00:00.000''),
     os_console = (\<lambda>w. False)\<rparr>"

text \<open>No adapter.\<close>

definition demo_pcan :: "demo_world pcan_api" where
  "demo_pcan = \<lparr>pa_load = (\<lambda>w. (False, w)), pa_free = (\<lambda>w. w), pa_symbol = (\<lambda>s w. False),
     pa_init = (\<lambda>h w. (1, w)), pa_uninit = (\<lambda>h w. w), pa_getval = (\<lambda>h p w. (1, 0)),
     pa_read = (\<lambda>h w. ((PCAN_ERROR_QRCVEMPTY, \<lparr>pm_id = 0, pm_msgtype = 0, pm_dlc = 0, pm_data = []\<rparr>), w)),
     pa_write = (\<lambda>h m w. (1, w))\<rparr>"

text \<open>Peers on the sockets 1, 2 and 3, the first with a pool entry.\<close>

definition demo_peer :: "nat \<Rightarrow> nat option \<Rightarrow> bus_peer" where
  "demo_peer s u = \<lparr>bp_sock = Some s, bp_in_use = True, bp_tcp_port = 5000, bp_user = u\<rparr>"

definition demo_bus :: "bytes \<Rightarrow> demo_world fd_bus_state" where
  "demo_bus input =
     \<lparr>g_peers = [demo_peer 1 (Some 0), demo_peer 2 None, demo_peer 3 None] @ replicate 60 no_peer,
      g_listen_sock = Some 9, g_shutdown_flag = False, g_quiet = False, g_use_color = False,
      g_frame_no = 0, g_idle_timeout_ms = 0, bus_out = [],
      bus_variant = \<lparr>g_peer_pool = replicate 63 zero_peer, g_peer_in_use = True # replicate 62 False,
        g_pcan = pcan_reset\<rparr>,
      bus_world = \<lparr>dw_in = (\<lambda>s. if s = 1 then input else []), dw_out = (\<lambda>_. [])\<rparr>\<rparr>"

lemma demo_sends: "sends demo_sockets (\<lambda>t w. dw_out w t)"
  by (auto simp: sends_def demo_sockets_def min_def)

lemma demo_recv_stream: "recv_stream demo_sockets s (\<lambda>w. dw_in w s)"
  by (auto simp: recv_stream_def demo_sockets_def)

lemma demo_delivers: "0 < sint d \<Longrightarrow> delivers demo_sockets s d (\<lambda>w. dw_in w s)"
  using demo_recv_stream by (simp add: delivers_def) (simp add: demo_sockets_def)

lemma demo_adapter_quiet: "adapter_quiet demo_pcan (\<lambda>t w. dw_out w t)"
  by (simp add: adapter_quiet_def demo_pcan_def)

lemma demo_os_sockets [simp]: "os_sockets demo_os = demo_sockets"
  by (simp add: demo_os_def)

text \<open>An upload request of node 5 to node 2, and its bytes on the wire.\<close>

definition demo_frame :: frame where
  "demo_frame = the (fbsec_co_fd_usdo_encode_upload_req 5 2 1 0x1018 1 None 0)"

definition demo_wire :: bytes where
  "demo_wire = the (fbsec_co_fd_frame_serialize demo_frame FBSEC_CO_FD_WIRE_MAX)"

lemma demo_frame_facts:
  "fbsec_co_fd_usdo_encode_upload_req 5 2 1 0x1018 1 None 0 \<noteq> None"
  "wire_frame demo_frame"
  "fbsec_co_fd_frame_serialize demo_frame FBSEC_CO_FD_WIRE_MAX = Some demo_wire"
  "\<exists>pdu. fbsec_co_fd_usdo_decode demo_frame = Inr pdu"
proof -
  show "fbsec_co_fd_usdo_encode_upload_req 5 2 1 0x1018 1 None 0 \<noteq> None" by code_simp
  show "wire_frame demo_frame" unfolding wire_frame_def by code_simp
  show "fbsec_co_fd_frame_serialize demo_frame FBSEC_CO_FD_WIRE_MAX = Some demo_wire"
    unfolding demo_wire_def by code_simp
  have "case fbsec_co_fd_usdo_decode demo_frame of Inl _ \<Rightarrow> False | Inr _ \<Rightarrow> True" by code_simp
  then show "\<exists>pdu. fbsec_co_fd_usdo_decode demo_frame = Inr pdu" by (cases "fbsec_co_fd_usdo_decode demo_frame") auto
qed

end
