(* ===== verification/C_File.thy ===== *)
theory C_File
  imports C_Text
begin

text \<open>
  Reading text files the way the loaders do: \<open>fgets\<close> into a line buffer, the
  comment strip, and the hexadecimal parser of \<open>client_common_keys.c\<close> and
  \<open>client_common_cli.c\<close>, which writes into the caller's buffer as it goes, with
  the bytes the text it accepts denotes.
\<close>

section \<open>Lines\<close>

text \<open>
  \<open>fgets\<close> with room for \<open>k\<close> characters and the terminating zero: up to and
  including the next line feed. A longer line comes in pieces.
\<close>

fun fgets :: "nat \<Rightarrow> string \<Rightarrow> string \<times> string" where
  "fgets 0 s = ([], s)"
| "fgets (Suc k) [] = ([], [])"
| "fgets (Suc k) (c # s) =
     (if c = LF then ([c], s) else (case fgets k s of (l, r) \<Rightarrow> (c # l, r)))"

lemma fgets_shorter: "length (snd (fgets k s)) \<le> length s"
  by (induction k s rule: fgets.induct) (auto split: prod.splits)

lemma fgets_proper: "0 < k \<Longrightarrow> s \<noteq> [] \<Longrightarrow> length (snd (fgets k s)) < length s"
proof -
  assume "0 < k" "s \<noteq> []"
  then obtain k' c s' where "k = Suc k'" "s = c # s'" by (metis gr0_conv_Suc neq_Nil_conv)
  then show ?thesis using fgets_shorter [of k' s'] by (auto split: prod.splits)
qed

text \<open>All the lines of a file, read with \<open>char line[n]\<close>.\<close>

function file_lines :: "nat \<Rightarrow> string \<Rightarrow> string list" where
  "file_lines n s =
     (if n \<le> 1 \<or> s = [] then []
      else (case fgets (n - 1) s of (l, r) \<Rightarrow> l # file_lines n r))"
  by pat_completeness auto
termination
proof (relation "measure (\<lambda>(n :: nat, s :: string). length s)", goal_cases)
  case 1
  show ?case by simp
next
  case (2 n s l r)
  then have "snd (fgets (n - 1) s) = r" by (metis snd_conv)
  then show ?case using 2(1) fgets_proper [of "n - 1" s] by auto
qed

declare file_lines.simps [simp del]

text \<open>A line as the string functions see it: up to a zero byte and up to the comment mark.\<close>

definition c_line :: "string \<Rightarrow> string" where
  "c_line l = takeWhile (\<lambda>c. c \<noteq> CHR 0x00) l"

definition strip_comment :: "string \<Rightarrow> string" where
  "strip_comment l = takeWhile (\<lambda>c. c \<noteq> CHR ''#'') l"

lemma fgets_whole: "\<lbrakk>LF \<notin> set l; length l < k\<rbrakk> \<Longrightarrow> fgets k (l @ LF # s) = (l @ [LF], s)"
proof (induction l arbitrary: k)
  case Nil
  then show ?case by (cases k) auto
next
  case (Cons c l)
  then show ?case by (cases k) auto
qed

lemma file_lines_cons:
  "\<lbrakk>LF \<notin> set l; length l + 2 \<le> n\<rbrakk> \<Longrightarrow> file_lines n (l @ LF # s) = (l @ [LF]) # file_lines n s"
  by (subst file_lines.simps) (simp add: fgets_whole)

lemma file_lines_Nil [simp]: "file_lines n [] = []"
  by (simp add: file_lines.simps)

section \<open>Hexadecimal text\<close>

definition hex_separator :: "char \<Rightarrow> bool" where
  "hex_separator c \<longleftrightarrow> c = CHR '' '' \<or> c = TAB \<or> c = CHR '':'' \<or> c = CHR ''-'' \<or> c = CHR '','' \<or>
     c = CR \<or> c = LF"

definition hex_nibble :: "char \<Rightarrow> u8 option" where
  "hex_nibble c =
     (let n = code c in
      if 48 \<le> n \<and> n \<le> 57 then Some (of_nat (n - 48))
      else if 97 \<le> n \<and> n \<le> 102 then Some (of_nat (n - 97 + 10))
      else if 65 \<le> n \<and> n \<le> 70 then Some (of_nat (n - 65 + 10))
      else None)"

text \<open>
  The loop: \<open>hi\<close> is the pending high nibble, \<open>n\<close> the bytes written into \<open>buf\<close>, of
  which \<open>cap\<close> may be written. \<open>None\<close> is the return value -1; the bytes written
  before the error stay in the buffer.
\<close>

fun hex_loop :: "nat \<Rightarrow> string \<Rightarrow> u8 option \<Rightarrow> nat \<Rightarrow> bytes \<Rightarrow> nat option \<times> bytes" where
  "hex_loop cap [] hi n buf = (if hi \<noteq> None then None else Some n, buf)"
| "hex_loop cap (c # s) hi n buf =
     (if hex_separator c then hex_loop cap s hi n buf
      else (case hex_nibble c of
         None \<Rightarrow> (None, buf)
       | Some nib \<Rightarrow>
           (case hi of
              None \<Rightarrow> hex_loop cap s (Some nib) n buf
            | Some h \<Rightarrow>
                if n \<ge> cap then (None, buf)
                else hex_loop cap s None (n + 1) (buf[n := push_bit 4 h OR nib]))))"

definition parse_hex_to_buf :: "string option \<Rightarrow> nat \<Rightarrow> bytes \<Rightarrow> nat option \<times> bytes" where
  "parse_hex_to_buf s cap buf =
     (case s of None \<Rightarrow> (None, buf) | Some s \<Rightarrow> hex_loop cap s None 0 buf)"

text \<open>\<open>fbsec_client_cli_parse_hex\<close> is a second copy of the same loop.\<close>

definition fbsec_client_cli_parse_hex :: "string option \<Rightarrow> nat \<Rightarrow> bytes \<Rightarrow> nat option \<times> bytes" where
  "fbsec_client_cli_parse_hex s cap buf =
     (case s of None \<Rightarrow> (None, buf) | Some s \<Rightarrow> hex_loop cap s None 0 buf)"

lemma hex_loop_length [simp]: "length (snd (hex_loop cap s hi n buf)) = length buf"
  by (induction cap s hi n buf rule: hex_loop.induct) (auto split: option.splits)

lemma hex_loop_count:
  "fst (hex_loop cap s hi n buf) = Some m \<Longrightarrow> n \<le> cap \<Longrightarrow> n \<le> m \<and> m \<le> cap"
  by (induction cap s hi n buf rule: hex_loop.induct) (fastforce split: option.splits if_splits)+

text \<open>Bytes behind the count written are untouched.\<close>

lemma hex_loop_front: "i < n \<Longrightarrow> snd (hex_loop cap s hi n buf) ! i = buf ! i"
  by (induction cap s hi n buf rule: hex_loop.induct) (auto split: option.splits)

section \<open>Printed bytes parse back\<close>

lemma hex_digit_props:
  "k < 16 \<Longrightarrow> \<not> hex_separator (hex_digit k) \<and> hex_nibble (hex_digit k) = Some (of_nat k)"
proof -
  assume "k < 16"
  then have "k \<in> set [0 ..< 16]" by simp
  moreover have "\<forall>k \<in> set [0 ..< 16]. \<not> hex_separator (hex_digit k) \<and>
      hex_nibble (hex_digit k) = Some (of_nat k)" by code_simp
  ultimately show ?thesis by blast
qed

lemma nibbles_join: "push_bit 4 (of_nat (unat (b :: u8) div 16)) OR of_nat (unat b mod 16) = b"
proof -
  have "of_nat (unat b div 16) = drop_bit 4 b"
    by (simp add: drop_bit_eq_div word_arith_nat_div)
  moreover have "of_nat (unat b mod 16) = take_bit 4 b"
    by (simp add: take_bit_eq_mod word_arith_nat_mod)
  ultimately show ?thesis by (metis bits_ident or.commute add.commute disjunctive_add bit_push_bit_iff bit_take_bit_iff not_le)
qed

lemma hex_loop_hex2:
  "n < cap \<Longrightarrow> hex_loop cap (hex2 b @ s) None n buf = hex_loop cap s None (n + 1) (buf[n := b])"
proof -
  assume n: "n < cap"
  have "unat b < 256" using unsigned_less [of b] by simp
  then have "unat b div 16 < 16" "unat b mod 16 < 16" by auto
  then show ?thesis
    using n hex_digit_props [of "unat b div 16"] hex_digit_props [of "unat b mod 16"]
    by (simp add: hex2_def nibbles_join)
qed

lemma hex_loop_separators:
  "\<forall>c\<in>set t. hex_separator c \<Longrightarrow> hex_loop cap (t @ s) hi n buf = hex_loop cap s hi n buf"
  by (induction t) auto

text \<open>A printer that puts separators between the bytes: \<open>sep i\<close> follows byte \<open>i\<close>.\<close>

fun print_hex :: "(nat \<Rightarrow> string) \<Rightarrow> nat \<Rightarrow> bytes \<Rightarrow> string" where
  "print_hex sep i [] = []"
| "print_hex sep i (b # bs) = hex2 b @ sep i @ print_hex sep (i + 1) bs"

lemma hex_loop_print:
  assumes "\<forall>i. \<forall>c\<in>set (sep i). hex_separator c" "n + length bs \<le> cap" "cap \<le> length buf"
  shows "hex_loop cap (print_hex sep i bs @ t) None n buf =
    hex_loop cap t None (n + length bs) (take n buf @ bs @ drop (n + length bs) buf)"
  using assms(2,3)
proof (induction bs arbitrary: i n buf)
  case Nil
  then show ?case by simp
next
  case (Cons b bs)
  have "hex_loop cap (print_hex sep i (b # bs) @ t) None n buf
      = hex_loop cap (print_hex sep (i + 1) bs @ t) None (n + 1) (buf[n := b])"
    using Cons.prems assms(1) by (simp add: hex_loop_hex2 hex_loop_separators)
  also have "\<dots> = hex_loop cap t None (n + 1 + length bs)
      (take (n + 1) (buf[n := b]) @ bs @ drop (n + 1 + length bs) (buf[n := b]))"
    by (rule Cons.IH) (use Cons.prems in auto)
  also have "take (n + 1) (buf[n := b]) = take n buf @ [b]"
    using Cons.prems by (simp add: take_Suc_conv_app_nth)
  also have "drop (n + 1 + length bs) (buf[n := b]) = drop (n + length (b # bs)) buf"
    by simp
  finally show ?case by simp
qed

lemma parse_hex_printed:
  assumes "\<forall>i. \<forall>c\<in>set (sep i). hex_separator c" "length bs \<le> cap" "cap \<le> length buf"
    and "\<forall>c\<in>set t. hex_separator c"
  shows "parse_hex_to_buf (Some (print_hex sep 0 bs @ t)) cap buf
      = (Some (length bs), bs @ drop (length bs) buf)"
    and "fbsec_client_cli_parse_hex (Some (print_hex sep 0 bs @ t)) cap buf
      = (Some (length bs), bs @ drop (length bs) buf)"
  using hex_loop_print [OF assms(1), of 0 bs cap buf 0 t] assms(2,3)
    hex_loop_separators [OF assms(4), of cap "[]" None]
  by (simp_all add: parse_hex_to_buf_def fbsec_client_cli_parse_hex_def)

section \<open>The bytes a hexadecimal text denotes\<close>

text \<open>Its digits without the separators, two to a byte.\<close>

fun join_nibbles :: "u8 list \<Rightarrow> bytes" where
  "join_nibbles (h # l # ns) = (push_bit 4 h OR l) # join_nibbles ns"
| "join_nibbles ns = []"

definition hex_value :: "string \<Rightarrow> bytes" where
  "hex_value s = join_nibbles (map (\<lambda>c. the (hex_nibble c)) (filter (\<lambda>c. \<not> hex_separator c) s))"

lemma hex_loop_value:
  "hex_loop cap s hi n buf = (Some m, b) \<Longrightarrow> n \<le> cap \<Longrightarrow> cap \<le> length buf \<Longrightarrow>
   take m b = take n buf @ join_nibbles ((case hi of None \<Rightarrow> [] | Some h \<Rightarrow> [h]) @
     map (\<lambda>c. the (hex_nibble c)) (filter (\<lambda>c. \<not> hex_separator c) s))"
proof (induction cap s hi n buf rule: hex_loop.induct)
  case (1 cap hi n buf)
  then show ?case by (auto split: if_splits)
next
  case (2 cap c s hi n buf)
  show ?case
  proof (cases "hex_separator c")
    case True
    then show ?thesis using 2 by simp
  next
    case False
    then obtain nib where nib: "hex_nibble c = Some nib" using 2(4) by (auto split: option.splits)
    show ?thesis
    proof (cases hi)
      case None
      then show ?thesis using 2(2) [OF False nib None] 2(4-6) False nib by simp
    next
      case (Some h)
      then have n: "n < cap" using 2(4) False nib by (auto split: if_splits)
      then have "hex_loop cap s None (n + 1) (buf[n := push_bit 4 h OR nib]) = (Some m, b)"
        using 2(4) False nib Some by simp
      from 2(3) [OF False nib Some _ this] n 2(6) show ?thesis
        using False nib Some by (simp add: take_Suc_conv_app_nth)
    qed
  qed
qed

lemma parse_hex_value:
  "fbsec_client_cli_parse_hex (Some s) cap buf = (Some m, b) \<Longrightarrow> cap \<le> length buf \<Longrightarrow> take m b = hex_value s"
  using hex_loop_value [of cap s None 0 buf m b] by (simp add: fbsec_client_cli_parse_hex_def hex_value_def)

end
