(* ===== verification/Client_Keys.thy ===== *)
theory Client_Keys
  imports C_File Hkdf Aead
begin

text \<open>
  Model of \<open>client_common/client_common_keys.c\<close>: the session-key slots, the main
  key and salt with the local derivation, the key file, the demo keys, and the
  buffer for the last salt seen. The file-static variables are the record
  \<open>client_keys\<close>. (Key id \<open>g_key_id\<close> is 0 when none is selected.)
\<close>

section \<open>State\<close>

abbreviation (input) FBSEC_AEAD_KEYID_MAX :: nat where "FBSEC_AEAD_KEYID_MAX \<equiv> 15"
abbreviation (input) FBSEC_CLIENT_KEYID_PROVISIONING :: u8 where "FBSEC_CLIENT_KEYID_PROVISIONING \<equiv> 1"
abbreviation (input) FBSEC_CLIENT_KEYID_INTEGRATOR :: u8 where "FBSEC_CLIENT_KEYID_INTEGRATOR \<equiv> 2"
abbreviation (input) FBSEC_CLIENT_KEYID_OPERATOR :: u8 where "FBSEC_CLIENT_KEYID_OPERATOR \<equiv> 3"
abbreviation (input) FBSEC_CLIENT_KEYID_CLAIM_TOKEN :: u8 where "FBSEC_CLIENT_KEYID_CLAIM_TOKEN \<equiv> 4"
abbreviation (input) FBSEC_CLIENT_DEFAULT_SALT_SIZE :: nat where "FBSEC_CLIENT_DEFAULT_SALT_SIZE \<equiv> 32"

record client_keys =
  ck_session_keys :: "bytes list"
  ck_loaded :: "bool list"
  ck_main_key :: bytes
  ck_main_key_set :: bool
  ck_salt :: bytes
  ck_salt_len :: nat
  ck_key_id :: u8
  ck_use_encryption :: bool
  ck_observed_salt :: bytes
  ck_observed_salt_len :: nat

definition client_keys_zero :: client_keys where
  "client_keys_zero = \<lparr>ck_session_keys = replicate 16 (replicate FBSEC_AEAD_KEY_SIZE 0),
     ck_loaded = replicate 16 False, ck_main_key = replicate FBSEC_AEAD_KEY_SIZE 0,
     ck_main_key_set = False, ck_salt = replicate FBSEC_CLIENT_DEFAULT_SALT_SIZE 0, ck_salt_len = 0,
     ck_key_id = 0, ck_use_encryption = True, ck_observed_salt = replicate FBSEC_AEAD_RAND_SIZE 0,
     ck_observed_salt_len = 0\<rparr>"

definition DEMO_KEY_PROVISIONING :: bytes where
  "DEMO_KEY_PROVISIONING = [0x00,0x11,0x22,0x33,0x44,0x55,0x66,0x77,
     0x88,0x99,0xAA,0xBB,0xCC,0xDD,0xEE,0xFF, 0x00,0x11,0x22,0x33,0x44,0x55,0x66,0x77,
     0x88,0x99,0xAA,0xBB,0xCC,0xDD,0xEE,0xFF]"

definition DEMO_KEY_INTEGRATOR :: bytes where
  "DEMO_KEY_INTEGRATOR = [0xAA,0xBB,0xCC,0xDD,0xEE,0xFF,0x00,0x11,
     0x22,0x33,0x44,0x55,0x66,0x77,0x88,0x99, 0xAA,0xBB,0xCC,0xDD,0xEE,0xFF,0x00,0x11,
     0x22,0x33,0x44,0x55,0x66,0x77,0x88,0x99]"

definition DEMO_KEY_OPERATOR :: bytes where
  "DEMO_KEY_OPERATOR = [0xFF,0xEE,0xDD,0xCC,0xBB,0xAA,0x99,0x88,
     0x77,0x66,0x55,0x44,0x33,0x22,0x11,0x00, 0xFF,0xEE,0xDD,0xCC,0xBB,0xAA,0x99,0x88,
     0x77,0x66,0x55,0x44,0x33,0x22,0x11,0x00]"

definition demo_role_label :: "u8 \<Rightarrow> string option" where
  "demo_role_label keyid =
     (if keyid = FBSEC_CLIENT_KEYID_PROVISIONING then Some ''Provisioning Key''
      else if keyid = FBSEC_CLIENT_KEYID_INTEGRATOR then Some ''Integrator Key''
      else if keyid = FBSEC_CLIENT_KEYID_OPERATOR then Some ''Operator Key''
      else None)"

text \<open>No slot selected: key id 0 or beyond the last slot.\<close>

definition no_slot :: "client_keys \<Rightarrow> bool" where
  "no_slot k \<longleftrightarrow> ck_key_id k = 0 \<or> unat (ck_key_id k) > FBSEC_AEAD_KEYID_MAX"

section \<open>Setters\<close>

text \<open>The slot \<open>i\<close> after the hex parser wrote into it, and after a whole key was stored.\<close>

definition slot_written :: "nat \<Rightarrow> bytes \<Rightarrow> client_keys \<Rightarrow> client_keys" where
  "slot_written i b k = k\<lparr>ck_session_keys := (ck_session_keys k)[i := b]\<rparr>"

definition slot_loaded :: "nat \<Rightarrow> client_keys \<Rightarrow> client_keys" where
  "slot_loaded i k = k\<lparr>ck_loaded := (ck_loaded k)[i := True]\<rparr>"

definition fbsec_client_keys_set_session_from_hex ::
  "string option \<Rightarrow> client_keys \<Rightarrow> bool \<times> client_keys" where
  "fbsec_client_keys_set_session_from_hex hex k =
     (if no_slot k then (False, k)
      else
        let i = unat (ck_key_id k)
        in (case parse_hex_to_buf hex FBSEC_AEAD_KEY_SIZE (ck_session_keys k ! i) of
              (klen, b) \<Rightarrow>
                if klen \<noteq> Some FBSEC_AEAD_KEY_SIZE then (False, slot_written i b k)
                else (True, slot_loaded i (slot_written i b k))))"

definition fbsec_client_keys_set_session :: "bytes option \<Rightarrow> client_keys \<Rightarrow> bool \<times> client_keys" where
  "fbsec_client_keys_set_session key k =
     (case key of
        None \<Rightarrow> (False, k)
      | Some b \<Rightarrow>
          if no_slot k then (False, k)
          else
            let i = unat (ck_key_id k)
            in (True, slot_loaded i (slot_written i (take FBSEC_AEAD_KEY_SIZE b) k)))"

definition fbsec_client_keys_set_main_from_hex ::
  "string option \<Rightarrow> client_keys \<Rightarrow> bool \<times> client_keys" where
  "fbsec_client_keys_set_main_from_hex hex k =
     (case parse_hex_to_buf hex FBSEC_AEAD_KEY_SIZE (ck_main_key k) of
        (klen, b) \<Rightarrow>
          if klen \<noteq> Some FBSEC_AEAD_KEY_SIZE then (False, k\<lparr>ck_main_key := b\<rparr>)
          else (True, k\<lparr>ck_main_key := b, ck_main_key_set := True\<rparr>))"

definition fbsec_client_keys_set_salt_from_hex ::
  "string option \<Rightarrow> client_keys \<Rightarrow> bool \<times> client_keys" where
  "fbsec_client_keys_set_salt_from_hex hex k =
     (case parse_hex_to_buf hex FBSEC_CLIENT_DEFAULT_SALT_SIZE (ck_salt k) of
        (None, b) \<Rightarrow> (False, k\<lparr>ck_salt := b\<rparr>)
      | (Some n, b) \<Rightarrow> (n \<noteq> 0, k\<lparr>ck_salt := b, ck_salt_len := n\<rparr>))"

definition fbsec_client_keys_set_keyid :: "u8 \<Rightarrow> client_keys \<Rightarrow> client_keys" where
  "fbsec_client_keys_set_keyid kid k = k\<lparr>ck_key_id := kid\<rparr>"

definition fbsec_client_keys_set_use_encryption :: "bool \<Rightarrow> client_keys \<Rightarrow> client_keys" where
  "fbsec_client_keys_set_use_encryption on k = k\<lparr>ck_use_encryption := on\<rparr>"

section \<open>Getters\<close>

definition fbsec_client_keys_session_set :: "client_keys \<Rightarrow> bool" where
  "fbsec_client_keys_session_set k =
     (if no_slot k then False else ck_loaded k ! unat (ck_key_id k))"

definition fbsec_client_keys_session :: "client_keys \<Rightarrow> bytes" where
  "fbsec_client_keys_session k =
     (if no_slot k then ck_session_keys k ! 0 else ck_session_keys k ! unat (ck_key_id k))"

definition fbsec_client_keys_effective_keyid :: "client_keys \<Rightarrow> u8" where
  "fbsec_client_keys_effective_keyid k =
     (if ck_key_id k = 0 then 0
      else FBSEC_AEAD_KEYID_BASE (ck_key_id k) OR (if ck_use_encryption k then 0x80 else 0))"

section \<open>Derivation\<close>

definition FBSEC_CLIENT_KDF_INFO_PREFIX :: bytes where
  "FBSEC_CLIENT_KDF_INFO_PREFIX = map of_nat (map code ''FBSEC-SK-v1'') @ [0]"

definition fbsec_client_keys_derive_session_if_needed ::
  "'c sha \<Rightarrow> client_keys \<Rightarrow> nat \<times> client_keys" where
  "fbsec_client_keys_derive_session_if_needed S k =
     (if \<not> ck_main_key_set k then (0, k)
      else if no_slot k then (0, k)
      else
        let i = unat (ck_key_id k)
        in if ck_loaded k ! i then (0, k)
           else
             (case fbsec_hkdf_sha256 S (ck_main_key k) (Some (take (ck_salt_len k) (ck_salt k)))
                     (FBSEC_CLIENT_KDF_INFO_PREFIX @ [ck_key_id k]) FBSEC_AEAD_KEY_SIZE of
                None \<Rightarrow> (1, k)
              | Some okm \<Rightarrow> (0, slot_loaded i (slot_written i okm k))))"

section \<open>The key file\<close>

datatype row_result = Row_Blank | Row_Error | Row_Loaded

definition load_key_line :: "nat \<Rightarrow> string \<Rightarrow> client_keys \<Rightarrow> row_result \<times> client_keys" where
  "load_key_line bits line k =
     (case strtok (strip_comment (c_line line)) of
        None \<Rightarrow> (Row_Blank, k)
      | Some (t_kid, r1) \<Rightarrow>
          (case strtoul bits 0 t_kid of
             (kid, after_kid) \<Rightarrow>
               if after_kid = t_kid \<or> after_kid \<noteq> [] \<or> kid = 0 \<or> kid > FBSEC_AEAD_KEYID_MAX then
                 (Row_Error, k)
               else
                 (case strtok r1 of
                    None \<Rightarrow> (Row_Error, k)
                  | Some (t_label, r2) \<Rightarrow>
                      (case strtok r2 of
                         None \<Rightarrow> (Row_Error, k)
                       | Some (t_key, r3) \<Rightarrow>
                           (case parse_hex_to_buf (Some t_key) FBSEC_AEAD_KEY_SIZE
                                   (ck_session_keys k ! kid) of
                              (klen, b) \<Rightarrow>
                                if klen \<noteq> Some FBSEC_AEAD_KEY_SIZE then
                                  (Row_Error, slot_written kid b k)
                                else (Row_Loaded, slot_loaded kid (slot_written kid b k)))))))"

fun load_key_lines :: "nat \<Rightarrow> string list \<Rightarrow> nat \<Rightarrow> bool \<Rightarrow> client_keys \<Rightarrow> nat \<times> bool \<times> client_keys" where
  "load_key_lines bits [] loaded_count any_error k = (loaded_count, any_error, k)"
| "load_key_lines bits (l # ls) loaded_count any_error k =
     (case load_key_line bits l k of
        (Row_Blank, k) \<Rightarrow> load_key_lines bits ls loaded_count any_error k
      | (Row_Error, k) \<Rightarrow> load_key_lines bits ls loaded_count True k
      | (Row_Loaded, k) \<Rightarrow> load_key_lines bits ls (loaded_count + 1) any_error k)"

text \<open>\<open>file\<close> is the text of the file, \<open>None\<close> when it cannot be opened.\<close>

definition fbsec_client_keys_load_file ::
  "nat \<Rightarrow> string option \<Rightarrow> client_keys \<Rightarrow> nat \<times> client_keys" where
  "fbsec_client_keys_load_file bits file k =
     (case file of
        None \<Rightarrow> (1, k)
      | Some text \<Rightarrow>
          (case load_key_lines bits (file_lines 256 text) 0 False k of
             (loaded_count, any_error, k') \<Rightarrow>
               (if loaded_count = 0 then 1 else if any_error then 1 else 0, k')))"

section \<open>Demo keys, wipe, observed salt\<close>

definition demo_session_key :: "nat \<Rightarrow> bytes" where
  "demo_session_key k =
     (if k = 1 then DEMO_KEY_PROVISIONING else if k = 2 then DEMO_KEY_INTEGRATOR
      else DEMO_KEY_OPERATOR)"

definition load_demo_slot :: "nat \<Rightarrow> client_keys \<Rightarrow> client_keys" where
  "load_demo_slot i k =
     (if ck_loaded k ! i then k
      else slot_loaded i (slot_written i (take FBSEC_AEAD_KEY_SIZE (demo_session_key i)) k))"

definition fbsec_client_keys_load_demo_all :: "client_keys \<Rightarrow> client_keys" where
  "fbsec_client_keys_load_demo_all k = fold load_demo_slot [1, 2, 3] k"

definition fbsec_client_keys_load_demo :: "u8 \<Rightarrow> client_keys \<Rightarrow> client_keys" where
  "fbsec_client_keys_load_demo keyid k =
     (if keyid = FBSEC_CLIENT_KEYID_PROVISIONING \<or> keyid = FBSEC_CLIENT_KEYID_INTEGRATOR \<or>
         keyid = FBSEC_CLIENT_KEYID_OPERATOR then
        (slot_loaded (unat keyid)
          (slot_written (unat keyid) (take FBSEC_AEAD_KEY_SIZE (demo_session_key (unat keyid))) k))
          \<lparr>ck_key_id := keyid\<rparr>
      else k)"

definition fbsec_client_keys_wipe :: "client_keys \<Rightarrow> client_keys" where
  "fbsec_client_keys_wipe k =
     k\<lparr>ck_session_keys := replicate 16 (replicate FBSEC_AEAD_KEY_SIZE 0),
       ck_loaded := replicate 16 False, ck_main_key := replicate FBSEC_AEAD_KEY_SIZE 0,
       ck_salt := replicate FBSEC_CLIENT_DEFAULT_SALT_SIZE 0, ck_main_key_set := False, ck_salt_len := 0\<rparr>"

definition fbsec_client_keys_on_observed_salt :: "bytes option \<Rightarrow> nat \<Rightarrow> client_keys \<Rightarrow> client_keys" where
  "fbsec_client_keys_on_observed_salt salt len k =
     (let len = min len FBSEC_AEAD_RAND_SIZE;
          k = (case salt of
                 None \<Rightarrow> k
               | Some s \<Rightarrow>
                   if len > 0 then k\<lparr>ck_observed_salt := take len s @ drop len (ck_observed_salt k)\<rparr> else k)
      in k\<lparr>ck_observed_salt_len := len\<rparr>)"

definition fbsec_client_keys_clear_observed_salt :: "client_keys \<Rightarrow> client_keys" where
  "fbsec_client_keys_clear_observed_salt k = k\<lparr>ck_observed_salt_len := 0\<rparr>"

section \<open>The state invariant\<close>

definition client_keys_wf :: "client_keys \<Rightarrow> bool" where
  "client_keys_wf k \<longleftrightarrow>
     length (ck_session_keys k) = 16 \<and> (\<forall>b\<in>set (ck_session_keys k). length b = FBSEC_AEAD_KEY_SIZE) \<and>
     length (ck_loaded k) = 16 \<and> length (ck_main_key k) = FBSEC_AEAD_KEY_SIZE \<and>
     length (ck_salt k) = FBSEC_CLIENT_DEFAULT_SALT_SIZE \<and>
     ck_salt_len k \<le> FBSEC_CLIENT_DEFAULT_SALT_SIZE \<and>
     length (ck_observed_salt k) = FBSEC_AEAD_RAND_SIZE \<and>
     ck_observed_salt_len k \<le> FBSEC_AEAD_RAND_SIZE"

named_theorems client_keys_defs "the operations on the key store"

lemmas [client_keys_defs] = fbsec_client_keys_set_session_from_hex_def
  fbsec_client_keys_set_session_def fbsec_client_keys_set_main_from_hex_def
  fbsec_client_keys_set_salt_from_hex_def fbsec_client_keys_set_keyid_def
  fbsec_client_keys_set_use_encryption_def fbsec_client_keys_load_demo_def
  fbsec_client_keys_wipe_def fbsec_client_keys_on_observed_salt_def
  fbsec_client_keys_clear_observed_salt_def

lemma client_keys_zero_wf: "client_keys_wf client_keys_zero"
  by (simp add: client_keys_wf_def client_keys_zero_def)

lemma client_keys_wf_slot [simp]:
  "client_keys_wf k \<Longrightarrow> i < 16 \<Longrightarrow> length (ck_session_keys k ! i) = FBSEC_AEAD_KEY_SIZE"
  by (simp add: client_keys_wf_def)

lemma slot_written_wf [intro]:
  "client_keys_wf k \<Longrightarrow> length b = FBSEC_AEAD_KEY_SIZE \<Longrightarrow> client_keys_wf (slot_written i b k)"
  by (auto simp: client_keys_wf_def slot_written_def dest!: set_update_subset_insert [THEN subsetD])

lemma slot_loaded_wf [intro]: "client_keys_wf k \<Longrightarrow> client_keys_wf (slot_loaded i k)"
  by (simp add: client_keys_wf_def slot_loaded_def)

lemma parse_hex_length [simp]: "length (snd (parse_hex_to_buf s n buf)) = length buf"
  by (simp add: parse_hex_to_buf_def split: option.split)

lemma parse_hex_result:
  assumes "parse_hex_to_buf s n buf = (r, b)"
  shows "length b = length buf" "r = Some m \<Longrightarrow> m \<le> n"
  using assms parse_hex_length [of s n buf] hex_loop_count [of n _ None 0 buf m]
  by (auto simp: parse_hex_to_buf_def split: option.splits) (metis fst_conv)

lemma demo_session_key_length [simp]: "length (take FBSEC_AEAD_KEY_SIZE (demo_session_key i)) = 16"
  by (simp add: demo_session_key_def DEMO_KEY_PROVISIONING_def DEMO_KEY_INTEGRATOR_def
      DEMO_KEY_OPERATOR_def)

lemma slot_index: "\<not> no_slot k \<Longrightarrow> unat (ck_key_id k) < 16"
  by (simp add: no_slot_def)

lemma set_session_from_hex_wf:
  "client_keys_wf k \<Longrightarrow> client_keys_wf (snd (fbsec_client_keys_set_session_from_hex hex k))"
  by (auto simp: client_keys_defs Let_def slot_index dest!: parse_hex_result(1) split: prod.split
      intro!: slot_loaded_wf slot_written_wf)

lemma set_session_wf:
  "client_keys_wf k \<Longrightarrow> (\<And>b. key = Some b \<Longrightarrow> FBSEC_AEAD_KEY_SIZE \<le> length b) \<Longrightarrow>
   client_keys_wf (snd (fbsec_client_keys_set_session key k))"
  by (auto simp: client_keys_defs Let_def split: option.split intro!: slot_loaded_wf slot_written_wf)

lemma set_main_wf: "client_keys_wf k \<Longrightarrow> client_keys_wf (snd (fbsec_client_keys_set_main_from_hex hex k))"
  by (auto simp: client_keys_defs client_keys_wf_def dest!: parse_hex_result(1) split: prod.split)

lemma set_salt_wf: "client_keys_wf k \<Longrightarrow> client_keys_wf (snd (fbsec_client_keys_set_salt_from_hex hex k))"
  by (auto simp: client_keys_defs client_keys_wf_def dest: parse_hex_result split: prod.split option.split)

lemma client_keys_simple_wf [simp]:
  "client_keys_wf k \<Longrightarrow> client_keys_wf (fbsec_client_keys_set_keyid kid k)"
  "client_keys_wf k \<Longrightarrow> client_keys_wf (fbsec_client_keys_set_use_encryption on k)"
  "client_keys_wf k \<Longrightarrow> client_keys_wf (fbsec_client_keys_wipe k)"
  "client_keys_wf k \<Longrightarrow> client_keys_wf (fbsec_client_keys_clear_observed_salt k)"
  by (auto simp: client_keys_defs client_keys_wf_def)

lemma observed_salt_wf:
  "client_keys_wf k \<Longrightarrow> (\<And>s. salt = Some s \<Longrightarrow> n \<le> length s) \<Longrightarrow>
   client_keys_wf (fbsec_client_keys_on_observed_salt salt n k)"
  by (auto simp: client_keys_defs client_keys_wf_def Let_def min_def split: option.split)

lemma load_demo_slot_wf:
  "client_keys_wf k \<Longrightarrow>
   client_keys_wf (slot_loaded i (slot_written i (take FBSEC_AEAD_KEY_SIZE (demo_session_key i)) k))"
  by (intro slot_loaded_wf slot_written_wf demo_session_key_length)

lemma load_demo_wf: "client_keys_wf k \<Longrightarrow> client_keys_wf (fbsec_client_keys_load_demo kid k)"
proof -
  assume "client_keys_wf k"
  then show ?thesis
    using load_demo_slot_wf [of k "unat kid"]
    by (auto simp: fbsec_client_keys_load_demo_def client_keys_wf_def)
qed

lemma load_demo_all_wf: "client_keys_wf k \<Longrightarrow> client_keys_wf (fbsec_client_keys_load_demo_all k)"
proof -
  have "client_keys_wf (load_demo_slot i k)" if "client_keys_wf k" for i k
    using that load_demo_slot_wf by (simp add: load_demo_slot_def)
  then show "client_keys_wf k \<Longrightarrow> ?thesis" by (simp add: fbsec_client_keys_load_demo_all_def)
qed

section \<open>The key file\<close>

text \<open>A slot that is loaded stays loaded, and its content is at least as long as a key.\<close>

lemma load_key_line_wf:
  assumes "load_key_line bits l k = (r, k')" "client_keys_wf k"
  shows "client_keys_wf k'"
  using assms
  by (auto simp: load_key_line_def split: option.splits prod.splits if_splits
      dest!: parse_hex_result(1) intro!: slot_loaded_wf slot_written_wf)

lemma load_key_lines_wf:
  "client_keys_wf k \<Longrightarrow> client_keys_wf (snd (snd (load_key_lines bits ls n e k)))"
  by (induction bits ls n e k rule: load_key_lines.induct)
     (simp_all add: load_key_line_wf split: prod.split row_result.split)

lemma load_file_wf:
  "client_keys_wf k \<Longrightarrow> client_keys_wf (snd (fbsec_client_keys_load_file bits file k))"
  using load_key_lines_wf [of k bits _ 0 False]
  by (auto simp: fbsec_client_keys_load_file_def split: option.split prod.split) (metis snd_conv)

section \<open>The effective key id\<close>

lemma effective_keyid:
  assumes "\<not> no_slot k"
  shows "FBSEC_AEAD_KEYID_BASE (fbsec_client_keys_effective_keyid k) = ck_key_id k"
    "FBSEC_AEAD_KEYID_RESERVED (fbsec_client_keys_effective_keyid k) = 0"
    "\<not> FBSEC_AEAD_KEYID_IS_CYCLIC (fbsec_client_keys_effective_keyid k)"
    "FBSEC_AEAD_KEYID_ENCRYPT (fbsec_client_keys_effective_keyid k) = ck_use_encryption k"
proof -
  let ?i = "ck_key_id k"
  have "unat ?i \<in> set [1 ..< 16]"
    using assms by (auto simp: no_slot_def unat_eq_zero Suc_le_eq word_neq_0_conv unat_gt_0)
  then have i: "?i \<in> set (map of_nat [1 ..< 16])"
    using word_nat_cases [of ?i] by (metis image_eqI list.set_map of_nat_unat ucast_id)
  let ?P = "\<lambda>i e. FBSEC_AEAD_KEYID_BASE (FBSEC_AEAD_KEYID_BASE i OR (if e then 0x80 else 0)) = i \<and>
    FBSEC_AEAD_KEYID_RESERVED (FBSEC_AEAD_KEYID_BASE i OR (if e then 0x80 else 0)) = 0 \<and>
    \<not> FBSEC_AEAD_KEYID_IS_CYCLIC (FBSEC_AEAD_KEYID_BASE i OR (if e then 0x80 else 0)) \<and>
    FBSEC_AEAD_KEYID_ENCRYPT (FBSEC_AEAD_KEYID_BASE i OR (if e then 0x80 else 0)) = e"
  have "\<forall>e \<in> set [True, False]. \<forall>i \<in> set (map of_nat [1 ..< 16]). ?P i e" by code_simp
  then have "?P ?i (ck_use_encryption k)" using i by (elim ballE [where x = "ck_use_encryption k"]) (blast, simp)
  moreover have "fbsec_client_keys_effective_keyid k
      = FBSEC_AEAD_KEYID_BASE ?i OR (if ck_use_encryption k then 0x80 else 0)"
    using assms by (simp add: fbsec_client_keys_effective_keyid_def no_slot_def)
  ultimately show "FBSEC_AEAD_KEYID_BASE (fbsec_client_keys_effective_keyid k) = ck_key_id k"
    "FBSEC_AEAD_KEYID_RESERVED (fbsec_client_keys_effective_keyid k) = 0"
    "\<not> FBSEC_AEAD_KEYID_IS_CYCLIC (fbsec_client_keys_effective_keyid k)"
    "FBSEC_AEAD_KEYID_ENCRYPT (fbsec_client_keys_effective_keyid k) = ck_use_encryption k"
    by simp_all
qed

end
