(* ===== verification/Client_Verbs.thy ===== *)
theory Client_Verbs
  imports Client_Keys Secure_Proto Descriptor
begin

text \<open>
  The client application around the protocol engine: its file-static state
  next to the network world, the verbs of \<open>client_common_verbs.c\<close> with their
  exit codes, and the capability gate of \<open>client_common_caps.c\<close>. The trace
  rows the verbs print have no effect on the state and are left out.
\<close>

section \<open>The application state\<close>

text \<open>
  The globals of \<open>client_common_keys.c\<close> and \<open>client_common_commission.c\<close>, and
  the world \<open>'w\<close> the transport works on.
\<close>

record 'w app =
  ap_keys :: client_keys
  ap_claim_token :: bytes
  ap_claim_token_set :: bool
  ap_voucher :: bytes
  ap_voucher_loaded :: bool
  ap_net :: 'w

definition app_zero :: "'w \<Rightarrow> 'w app" where
  "app_zero w = \<lparr>ap_keys = client_keys_zero, ap_claim_token = replicate FBSEC_AEAD_KEY_SIZE 0,
     ap_claim_token_set = False, ap_voucher = replicate 108 0, ap_voucher_loaded = False,
     ap_net = w\<rparr>"

definition upd_keys :: "(client_keys \<Rightarrow> client_keys) \<Rightarrow> 'w app \<Rightarrow> 'w app" where
  "upd_keys f a = a\<lparr>ap_keys := f (ap_keys a)\<rparr>"

text \<open>An action on the network world, as an action of the application.\<close>

definition on_net :: "('w \<Rightarrow> 'r \<times> 'w) \<Rightarrow> 'w app \<Rightarrow> 'r \<times> 'w app" where
  "on_net f a = (case f (ap_net a) of (r, w) \<Rightarrow> (r, a\<lparr>ap_net := w\<rparr>))"

definition app_transport :: "'w transport \<Rightarrow> 'w app transport" where
  "app_transport T = \<lparr>
     tp_read = (\<lambda>dev d body n t. on_net (tp_read T dev d body n t)),
     tp_write = (\<lambda>dev d body t. on_net (tp_write T dev d body t))\<rparr>"

text \<open>
  The host hooks of the engine. The client registers
  \<open>fbsec_client_keys_on_observed_salt\<close> as the salt callback.
\<close>

definition app_port :: "'w client_port \<Rightarrow> 'w app client_port" where
  "app_port C = \<lparr>
     secure_port_random = (\<lambda>n. on_net (secure_port_random C n)),
     secure_port_get_client_id = (\<lambda>a. secure_port_get_client_id C (ap_net a)),
     salt_cb = Some (\<lambda>salt. upd_keys (fbsec_client_keys_on_observed_salt (Some salt) (length salt)))\<rparr>"

section \<open>Verbs\<close>

definition fbsec_client_secp_strerror :: "secp_status \<Rightarrow> string" where
  "fbsec_client_secp_strerror rc =
     (case rc of
        SECP_OK \<Rightarrow> ''ok'' | SECP_TIMEOUT \<Rightarrow> ''timeout'' | SECP_TX \<Rightarrow> ''transmit failed''
      | SECP_PROTOCOL \<Rightarrow> ''protocol error'' | SECP_BUFSIZE \<Rightarrow> ''buffer size''
      | SECP_ABORT \<Rightarrow> ''server abort'' | SECP_TAG \<Rightarrow> ''tag verify failed''
      | SECP_RANDOM \<Rightarrow> ''random source failed'')"

text \<open>The exit code of a verb.\<close>

definition verb_exit :: "secp_status \<Rightarrow> nat" where
  "verb_exit rc = (if rc = SECP_OK then 0 else if rc = SECP_ABORT then 2
     else if rc = SECP_TAG then 3 else 1)"

definition fbsec_client_run_secure_read ::
  "gcm \<Rightarrow> 'w client_port \<Rightarrow> 'w transport \<Rightarrow> u16 \<Rightarrow> u32 \<Rightarrow> u32 \<Rightarrow> nat \<Rightarrow> 'w app \<Rightarrow>
   (nat \<times> bytes) \<times> 'w app" where
  "fbsec_client_run_secure_read g C T target data_id timeout_ms out_buf_size a =
     (let a = upd_keys fbsec_client_keys_clear_observed_salt a
      in (case fbsec_secure_read g (app_port C) (app_transport T) target data_id
                 (fbsec_client_keys_session (ap_keys a))
                 (fbsec_client_keys_effective_keyid (ap_keys a)) out_buf_size timeout_ms a of
            ((rc, got, ac), a) \<Rightarrow> ((verb_exit rc, got), a)))"

definition fbsec_client_run_secure_write ::
  "gcm \<Rightarrow> 'w client_port \<Rightarrow> 'w transport \<Rightarrow> u16 \<Rightarrow> u32 \<Rightarrow> bytes \<Rightarrow> u32 \<Rightarrow> 'w app \<Rightarrow>
   nat \<times> 'w app" where
  "fbsec_client_run_secure_write g C T target data_id payload timeout_ms a =
     (let a = upd_keys fbsec_client_keys_clear_observed_salt a
      in (case fbsec_secure_write g (app_port C) (app_transport T) target data_id
                 (fbsec_client_keys_session (ap_keys a))
                 (fbsec_client_keys_effective_keyid (ap_keys a)) payload timeout_ms a of
            ((rc, ac), a) \<Rightarrow> (verb_exit rc, a)))"

text \<open>\<open>memset(&sess, 0, sizeof sess)\<close>\<close>

definition session_zero :: session where
  "session_zero = \<lparr>se_in_use = False, se_data_id = 0, se_key_id = 0,
     se_nonce_base = replicate FBSEC_AEAD_NONCE_SIZE 0, se_counter = 0\<rparr>"

lemma poll_read_advances:
  "fbsec_secure_poll_read g C T dev key t sess n w = ((SECP_OK, pt, tag, ac, sess'), w') \<Longrightarrow>
   se_counter sess < FBSEC_AEAD_KEY_USE_LIMIT \<and> se_counter sess' = se_counter sess + 1"
  by (auto simp: fbsec_secure_poll_read_def Let_def not_le split: if_splits prod.splits option.splits)

lemma poll_write_advances:
  "fbsec_secure_poll_write g C T dev key t sess pl w = ((SECP_OK, tag, ac, sess'), w') \<Longrightarrow>
   se_counter sess < FBSEC_AEAD_KEY_USE_LIMIT \<and> se_counter sess' = se_counter sess + 1"
  by (auto simp: fbsec_secure_poll_write_def Let_def not_le split: if_splits prod.splits option.splits)

text \<open>What a session may still send: every successful poll takes one away.\<close>

definition polls_left :: "session \<Rightarrow> nat" where
  "polls_left sess = unat (FBSEC_AEAD_KEY_USE_LIMIT :: u32) - unat (se_counter sess)"

lemma polls_left_decreases:
  assumes "se_counter sess < FBSEC_AEAD_KEY_USE_LIMIT \<and> se_counter sess' = se_counter sess + 1"
  shows "polls_left sess' < polls_left sess"
proof -
  have "unat (se_counter sess) < 1000000" using assms by (simp add: word_less_nat_alt)
  moreover from this have "unat (se_counter sess') = unat (se_counter sess) + 1"
    using assms by (simp add: unat_word_ariths)
  ultimately show ?thesis by (simp add: polls_left_def)
qed

text \<open>
  The loop \<open>for (n = 2; n <= count; ++n)\<close> of the read polls. The index is 32 bits
  wide, so for the largest \<open>count\<close> the condition never fails; the loop still ends,
  because the engine refuses to poll a session past its key budget.
\<close>

function read_poll_loop ::
  "gcm \<Rightarrow> 'w client_port \<Rightarrow> 'w transport \<Rightarrow> u16 \<Rightarrow> u32 \<Rightarrow> u32 \<Rightarrow> u32 \<Rightarrow> session \<Rightarrow> bytes list \<Rightarrow>
   'w app \<Rightarrow> (nat \<times> bytes list) \<times> 'w app" where
  "read_poll_loop g C T target timeout_ms count n sess out a =
     (if n \<le> count then
        (case fbsec_secure_poll_read g (app_port C) (app_transport T) target
                (fbsec_client_keys_session (ap_keys a)) timeout_ms sess FBSEC_AEAD_MAX_PROTECTED a of
           ((rc, pt, tag, ac, sess'), a') \<Rightarrow>
             (if rc = SECP_OK
              then read_poll_loop g C T target timeout_ms count (n + 1) sess' (out @ [pt]) a'
              else ((verb_exit rc, out), a')))
      else ((0, out), a))"
  by pat_completeness auto
termination
  by (relation "measure (\<lambda>(g, C, T, target, t, count, n, sess, out, a). polls_left sess)")
     (auto intro!: polls_left_decreases dest!: poll_read_advances [OF sym])

declare read_poll_loop.simps [simp del]

text \<open>\<open>out\<close> collects the plaintexts the summary rows show, in order.\<close>

definition fbsec_client_run_secure_read_poll ::
  "gcm \<Rightarrow> 'w client_port \<Rightarrow> 'w transport \<Rightarrow> u16 \<Rightarrow> u32 \<Rightarrow> u32 \<Rightarrow> u32 \<Rightarrow> 'w app \<Rightarrow>
   (nat \<times> bytes list) \<times> 'w app" where
  "fbsec_client_run_secure_read_poll g C T target data_id count timeout_ms a =
     (let a = upd_keys fbsec_client_keys_clear_observed_salt a
      in (case fbsec_secure_read_armed g (app_port C) (app_transport T) target data_id
                 (fbsec_client_keys_session (ap_keys a))
                 (fbsec_client_keys_effective_keyid (ap_keys a)) FBSEC_AEAD_MAX_PROTECTED
                 timeout_ms session_zero a of
            ((rc, pt, ac, sess), a) \<Rightarrow>
              if rc \<noteq> SECP_OK then ((verb_exit rc, []), a)
              else read_poll_loop g C T target timeout_ms count 2 sess [pt] a))"

function write_poll_loop ::
  "gcm \<Rightarrow> 'w client_port \<Rightarrow> 'w transport \<Rightarrow> u16 \<Rightarrow> bytes \<Rightarrow> u32 \<Rightarrow> u32 \<Rightarrow> u32 \<Rightarrow> session \<Rightarrow>
   'w app \<Rightarrow> nat \<times> 'w app" where
  "write_poll_loop g C T target payload timeout_ms count n sess a =
     (if n \<le> count then
        (case fbsec_secure_poll_write g (app_port C) (app_transport T) target
                (fbsec_client_keys_session (ap_keys a)) timeout_ms sess payload a of
           ((rc, tag, ac, sess'), a') \<Rightarrow>
             (if rc = SECP_OK
              then write_poll_loop g C T target payload timeout_ms count (n + 1) sess' a'
              else (verb_exit rc, a')))
      else (0, a))"
  by pat_completeness auto
termination
  by (relation "measure (\<lambda>(g, C, T, target, pl, t, count, n, sess, a). polls_left sess)")
     (auto intro!: polls_left_decreases dest!: poll_write_advances [OF sym])

declare write_poll_loop.simps [simp del]

definition fbsec_client_run_secure_write_poll ::
  "gcm \<Rightarrow> 'w client_port \<Rightarrow> 'w transport \<Rightarrow> u16 \<Rightarrow> u32 \<Rightarrow> bytes \<Rightarrow> u32 \<Rightarrow> u32 \<Rightarrow> 'w app \<Rightarrow>
   nat \<times> 'w app" where
  "fbsec_client_run_secure_write_poll g C T target data_id payload count timeout_ms a =
     (let a = upd_keys fbsec_client_keys_clear_observed_salt a
      in (case fbsec_secure_write_armed g (app_port C) (app_transport T) target data_id
                 (fbsec_client_keys_session (ap_keys a))
                 (fbsec_client_keys_effective_keyid (ap_keys a)) payload timeout_ms session_zero a of
            ((rc, ac, sess), a) \<Rightarrow>
              if rc \<noteq> SECP_OK then (verb_exit rc, a)
              else write_poll_loop g C T target payload timeout_ms count 2 sess a))"

section \<open>The capability gate\<close>

datatype min_sec = SEC_ANY | SEC_AEAD | SEC_SIGNED | SEC_X509

abbreviation (input) FBSEC_MECH_X509 :: u16 where "FBSEC_MECH_X509 \<equiv> 0x04"

text \<open>
  The exit code (0 success, 1 error, 2 abort) and the record with the
  sub-indices read so far.
\<close>

definition read_one_sub ::
  "'w transport \<Rightarrow> u16 \<Rightarrow> u8 \<Rightarrow> u32 \<Rightarrow> caps \<Rightarrow> 'w \<Rightarrow> (nat \<times> caps) \<times> 'w" where
  "read_one_sub T target sub timeout_ms c w =
     (let data_id = push_bit 16 (ucast FBSEC_DESC_CAP_INDEX) OR push_bit 8 (ucast sub)
      in (case tp_read T target data_id [] 8 timeout_ms w of
            ((rc, buf, ac), w1) \<Rightarrow>
              if rc = SECP_ABORT then ((2, c), w1)
              else if rc \<noteq> SECP_OK then ((1, c), w1)
              else (case fbsec_caps_deserialize_sub c sub buf of
                      None \<Rightarrow> ((1, c), w1)
                    | Some c' \<Rightarrow> ((0, c'), w1))))"

text \<open>
  The loop over the sub-indices up to the highest one. It re-reads
  \<open>out->highest_sub\<close>, which only sub-index 0 changes and which the caller has
  bounded by 8; the guard against 255, where the 8-bit index would wrap, makes
  the function total.
\<close>

function read_caps_loop ::
  "'w transport \<Rightarrow> u16 \<Rightarrow> u32 \<Rightarrow> u8 \<Rightarrow> caps \<Rightarrow> 'w \<Rightarrow> (nat \<times> caps) \<times> 'w" where
  "read_caps_loop T target timeout_ms sub c w =
     (if sub \<le> caps_highest_sub c \<and> sub \<noteq> 255 then
        (case read_one_sub T target sub timeout_ms c w of
           ((rc, c1), w1) \<Rightarrow>
             if rc \<noteq> 0 then ((rc, c1), w1)
             else read_caps_loop T target timeout_ms (sub + 1) c1 w1)
      else ((0, c), w))"
  by pat_completeness auto
termination
proof (relation "measure (\<lambda>(T, target, t, sub :: u8, c, w). 255 - unat sub)", goal_cases)
  case 1
  show ?case by simp
next
  case (2 T target t sub c w p w1 rc c1)
  then have "unat sub \<noteq> unat (255 :: u8)" by (simp only: word_unat_eq_iff [symmetric]) simp
  moreover have "unat sub < 256" using unsigned_less [of sub] by simp
  ultimately have "unat sub < 255" by simp
  then show ?case by (simp add: unat_word_ariths)
qed

declare read_caps_loop.simps [simp del]

definition fbsec_client_read_caps ::
  "'w transport \<Rightarrow> u16 \<Rightarrow> u32 \<Rightarrow> caps \<Rightarrow> 'w \<Rightarrow> (nat \<times> caps) \<times> 'w" where
  "fbsec_client_read_caps T target timeout_ms out w =
     (case read_one_sub T target 0x00 timeout_ms out w of
        ((rc, out), w1) \<Rightarrow>
          if rc \<noteq> 0 then ((rc, out), w1)
          else if caps_highest_sub out > FBSEC_DESC_CAP_SUB_MAX then ((1, out), w1)
          else read_caps_loop T target timeout_ms 0x01 out w1)"

definition fbsec_client_caps_meets_min :: "caps option \<Rightarrow> min_sec \<Rightarrow> bool" where
  "fbsec_client_caps_meets_min c floor =
     (if floor = SEC_ANY then True
      else (case c of
         None \<Rightarrow> False
       | Some c \<Rightarrow>
           (case floor of
              SEC_AEAD \<Rightarrow> mechanisms c AND FBSEC_MECH_AEAD \<noteq> 0
            | SEC_SIGNED \<Rightarrow> mechanisms c AND FBSEC_MECH_RPK \<noteq> 0
            | SEC_X509 \<Rightarrow> mechanisms c AND FBSEC_MECH_X509 \<noteq> 0
            | SEC_ANY \<Rightarrow> False)))"

text \<open>\<open>memset(&caps, 0, sizeof caps)\<close>\<close>

definition caps_zero :: caps where
  "caps_zero = \<lparr>caps_highest_sub = 0, type_word = 0, aead_and_tag = 0, kdf = 0, sig_alg = 0,
     sym_levels = 0, id_flags = 0, handover_model = 0, mechanisms = 0\<rparr>"

definition fbsec_client_enforce_min_security ::
  "'w transport \<Rightarrow> u16 \<Rightarrow> u32 \<Rightarrow> min_sec \<Rightarrow> 'w \<Rightarrow> nat \<times> 'w" where
  "fbsec_client_enforce_min_security T target timeout_ms floor w =
     (if floor = SEC_ANY then (0, w)
      else (case fbsec_client_read_caps T target timeout_ms caps_zero w of
              ((rc, c), w1) \<Rightarrow>
                if rc \<noteq> 0 then (1, w1)
                else if \<not> fbsec_client_caps_meets_min (Some c) floor then (1, w1)
                else (0, w1)))"

end
