(* ===== verification/Client_Rpk.thy ===== *)
theory Client_Rpk
  imports Client_Verbs Server_Rpk
begin

text \<open>
  The client's demo identities (\<open>client_common_asym.c\<close>) and its signed
  operations (\<open>client_common_rpk.c\<close>): signed read, signed write and function
  command, each a challenge fetch and a second pass over the same object. The
  codes returned are the ones of the source: 1 local error, 2 transport, 3
  reply length, 5 signature of the reply, 6 signing.
\<close>

section \<open>Identities\<close>

text \<open>Derived once from the shared demo seeds; the same value on every call.\<close>

definition fbsec_client_asym_integrator :: "ed25519 \<Rightarrow> keypair" where
  "fbsec_client_asym_integrator E = fbsec_asym_keygen E FBSEC_DEMO_INTEGRATOR_SEED"

definition fbsec_client_asym_manufacturer :: "ed25519 \<Rightarrow> keypair" where
  "fbsec_client_asym_manufacturer E = fbsec_asym_keygen E FBSEC_DEMO_MFG_SEED"

definition fbsec_client_asym_server_idevid :: "ed25519 \<Rightarrow> bytes" where
  "fbsec_client_asym_server_idevid E = kp_pub (fbsec_asym_keygen E FBSEC_DEMO_IDEVID_SEED)"

section \<open>The challenge\<close>

definition fetch_challenge ::
  "'w transport \<Rightarrow> u16 \<Rightarrow> u32 \<Rightarrow> bytes \<Rightarrow> u32 \<Rightarrow> 'w \<Rightarrow> (nat \<times> bytes) \<times> 'w" where
  "fetch_challenge T target data_id req timeout_ms w =
     (case tp_read T target data_id req FBSEC_RPK_NONCE_LEN timeout_ms w of
        ((rc, rep, ac), w1) \<Rightarrow>
          if rc \<noteq> SECP_OK then ((2, []), w1)
          else if length rep \<noteq> FBSEC_RPK_NONCE_LEN then ((3, []), w1)
          else ((0, rep), w1))"

text \<open>The canonical body, as the client builds it; \<open>cl_\<close> keeps it apart from the server's copy.\<close>

definition cl_build_signed_body :: "u16 \<Rightarrow> u16 \<Rightarrow> u32 \<Rightarrow> bytes \<Rightarrow> bytes \<Rightarrow> bytes \<Rightarrow> bytes" where
  "cl_build_signed_body server_id client_id obj_mux client_nonce server_nonce v =
     put_u16le server_id @ put_u16le client_id @ put_u32le obj_mux @ put_u16le (of_nat (length v)) @
     take FBSEC_RPK_NONCE_LEN client_nonce @ take FBSEC_RPK_NONCE_LEN server_nonce @ v"

lemma client_body_eq: "cl_build_signed_body = build_signed_body"
  by (intro ext) (simp add: cl_build_signed_body_def build_signed_body_def put_u16le_def put_u32le_def)

section \<open>Signed read\<close>

definition rpk_target_id :: "u16 \<Rightarrow> u8 \<Rightarrow> u32" where
  "rpk_target_id target_index target_sub =
     push_bit 16 (ucast target_index) OR push_bit 8 (ucast target_sub)"

definition fbsec_rpk_signed_read ::
  "ed25519 \<Rightarrow> 'w client_port \<Rightarrow> 'w transport \<Rightarrow> u16 \<Rightarrow> u16 \<Rightarrow> u8 \<Rightarrow> nat \<Rightarrow> u32 \<Rightarrow> 'w \<Rightarrow>
   (nat \<times> bytes) \<times> 'w" where
  "fbsec_rpk_signed_read E C T target target_index target_sub buf_size timeout_ms w =
     (let hdr = put_u16le target_index @ [target_sub]
      in (case fetch_challenge T target FBSEC_RPK_GENERIC_READ_ID hdr timeout_ms w of
        ((rc, server_nonce), w1) \<Rightarrow>
          if rc \<noteq> 0 then ((rc, []), w1)
          else
            (case secure_port_random C FBSEC_RPK_NONCE_LEN w1 of
              (None, w2) \<Rightarrow> ((1, []), w2)
            | (Some client_nonce, w2) \<Rightarrow>
                (case tp_read T target FBSEC_RPK_GENERIC_READ_ID (hdr @ client_nonce)
                        (FBSEC_RPK_VALUE_MAX + FBSEC_ASYM_SIG_SIZE) timeout_ms w2 of
                  ((rc, rep, ac), w3) \<Rightarrow>
                    if rc \<noteq> SECP_OK then ((2, []), w3)
                    else if length rep < FBSEC_ASYM_SIG_SIZE then ((3, []), w3)
                    else
                      let vlen = length rep - FBSEC_ASYM_SIG_SIZE
                      in if vlen > FBSEC_RPK_VALUE_MAX \<or> vlen > buf_size then ((3, []), w3)
                         else
                           let body = cl_build_signed_body target (secure_port_get_client_id C w3)
                                        (rpk_target_id target_index target_sub) client_nonce
                                        server_nonce (take vlen rep)
                           in (case fbsec_asym_transcript FBSEC_ASYM_RD_GENERIC_READ body
                                      RPK_TRANSCRIPT_MAX of
                                 None \<Rightarrow> ((5, []), w3)
                               | Some tr \<Rightarrow>
                                   if \<not> fbsec_asym_verify E (fbsec_client_asym_server_idevid E) tr
                                          (drop vlen rep) then ((5, []), w3)
                                   else ((0, take vlen rep), w3))))))"

section \<open>Signed write and command\<close>

definition fbsec_rpk_signed_write ::
  "ed25519 \<Rightarrow> 'w client_port \<Rightarrow> 'w transport \<Rightarrow> u16 \<Rightarrow> u16 \<Rightarrow> u8 \<Rightarrow> bytes \<Rightarrow> u32 \<Rightarrow> 'w \<Rightarrow>
   nat \<times> 'w" where
  "fbsec_rpk_signed_write E C T target target_index target_sub v timeout_ms w =
     (if length v > FBSEC_RPK_VALUE_MAX then (1, w)
      else
        let hdr = put_u16le target_index @ [target_sub]
        in (case fetch_challenge T target FBSEC_RPK_GENERIC_WRITE_ID hdr timeout_ms w of
          ((rc, server_nonce), w1) \<Rightarrow>
            if rc \<noteq> 0 then (rc, w1)
            else
              (case secure_port_random C FBSEC_RPK_NONCE_LEN w1 of
                (None, w2) \<Rightarrow> (1, w2)
              | (Some client_nonce, w2) \<Rightarrow>
                  let body = cl_build_signed_body target (secure_port_get_client_id C w2)
                               (rpk_target_id target_index target_sub) client_nonce server_nonce v
                  in (case fbsec_asym_transcript FBSEC_ASYM_RD_GENERIC_WRITE body RPK_TRANSCRIPT_MAX of
                        None \<Rightarrow> (6, w2)
                      | Some tr \<Rightarrow>
                          (case tp_write T target FBSEC_RPK_GENERIC_WRITE_ID
                                  (hdr @ client_nonce @ v @
                                   fbsec_asym_sign E (fbsec_client_asym_integrator E) tr)
                                  timeout_ms w2 of
                             ((rc, ac), w3) \<Rightarrow> (if rc \<noteq> SECP_OK then 2 else 0, w3))))))"

definition fbsec_rpk_command ::
  "ed25519 \<Rightarrow> 'w client_port \<Rightarrow> 'w transport \<Rightarrow> u16 \<Rightarrow> u32 \<Rightarrow> u32 \<Rightarrow> 'w \<Rightarrow> nat \<times> 'w" where
  "fbsec_rpk_command E C T target code_v timeout_ms w =
     (case fetch_challenge T target FBSEC_RPK_FUNCCMD_ID [] timeout_ms w of
        ((rc, server_nonce), w1) \<Rightarrow>
          if rc \<noteq> 0 then (rc, w1)
          else
            (case secure_port_random C FBSEC_RPK_NONCE_LEN w1 of
              (None, w2) \<Rightarrow> (1, w2)
            | (Some client_nonce, w2) \<Rightarrow>
                let code_bytes = put_u32le code_v;
                    body = cl_build_signed_body target (secure_port_get_client_id C w2)
                             FBSEC_RPK_FUNCCMD_ID client_nonce server_nonce code_bytes
                in (case fbsec_asym_transcript FBSEC_ASYM_RD_FUNCTION_CMD body RPK_TRANSCRIPT_MAX of
                      None \<Rightarrow> (6, w2)
                    | Some tr \<Rightarrow>
                        (case tp_write T target FBSEC_RPK_FUNCCMD_ID
                                (client_nonce @ code_bytes @
                                 fbsec_asym_sign E (fbsec_client_asym_integrator E) tr)
                                timeout_ms w2 of
                           ((rc, ac), w3) \<Rightarrow> (if rc \<noteq> SECP_OK then 2 else 0, w3)))))"

end
