(* ===== verification/Client_Commission.thy ===== *)
theory Client_Commission
  imports Client_Rpk
begin

text \<open>
  The commissioning tool of \<open>client_common_commission.c\<close>: the genuineness check,
  ownership vouchers (minted, loaded from and written to a file), the install
  of the provisioning key by signature or by claim token, the key ladder and
  the operational identity. Codes 20 to 22 are missing keys.
\<close>

section \<open>Demo material and the claim token\<close>

definition DEMO_PROVISIONING_KEY :: bytes where
  "DEMO_PROVISIONING_KEY = [0x00,0x11,0x22,0x33,0x44,0x55,0x66,0x77,
     0x88,0x99,0xAA,0xBB,0xCC,0xDD,0xEE,0xFF]"

definition DEMO_CLAIM_TOKEN :: bytes where
  "DEMO_CLAIM_TOKEN = [0x01,0x23,0x45,0x67,0x89,0xAB,0xCD,0xEF,0xFE,0xDC,0xBA,0x98,0x76,0x54,0x32,0x10,
     0x01,0x23,0x45,0x67,0x89,0xAB,0xCD,0xEF,0xFE,0xDC,0xBA,0x98,0x76,0x54,0x32,0x10]"

abbreviation (input) DEMO_VOUCHER_EPOCH :: u32 where "DEMO_VOUCHER_EPOCH \<equiv> 2"

definition fbsec_commission_claim_token :: "'w app \<Rightarrow> bytes" where
  "fbsec_commission_claim_token a =
     (if ap_claim_token_set a then ap_claim_token a else DEMO_CLAIM_TOKEN)"

definition fbsec_commission_set_claim_token_hex :: "string option \<Rightarrow> 'w app \<Rightarrow> nat \<times> 'w app" where
  "fbsec_commission_set_claim_token_hex hex a =
     (case fbsec_client_cli_parse_hex hex FBSEC_AEAD_KEY_SIZE (ap_claim_token a) of
        (n, b) \<Rightarrow>
          if n \<noteq> Some FBSEC_AEAD_KEY_SIZE then (1, a\<lparr>ap_claim_token := b\<rparr>)
          else (0, a\<lparr>ap_claim_token := b, ap_claim_token_set := True\<rparr>))"

section \<open>Genuineness\<close>

definition fbsec_commission_verify_genuineness ::
  "ed25519 \<Rightarrow> 'w client_port \<Rightarrow> 'w transport \<Rightarrow> u16 \<Rightarrow> u32 \<Rightarrow> 'w \<Rightarrow> nat \<times> 'w" where
  "fbsec_commission_verify_genuineness E C T target timeout_ms w =
     (case secure_port_random C FBSEC_HO_RT_LEN w of
        (None, w1) \<Rightarrow> (1, w1)
      | (Some rt, w1) \<Rightarrow>
          (case tp_read T target FBSEC_HO_IDENTITY_ID rt FBSEC_HO_IDENTITY_REPLY_LEN timeout_ms w1 of
            ((rc, rep, ac), w2) \<Rightarrow>
              if rc \<noteq> SECP_OK then (2, w2)
              else if length rep \<noteq> FBSEC_HO_IDENTITY_REPLY_LEN then (3, w2)
              else
                let blob = take FBSEC_ASYM_IDENTITY_BLOB_LEN rep;
                    cert = slice rep FBSEC_ASYM_IDENTITY_BLOB_LEN FBSEC_ASYM_SIG_SIZE;
                    sig_rt = drop (FBSEC_ASYM_IDENTITY_BLOB_LEN + FBSEC_ASYM_SIG_SIZE) rep;
                    idevid_pub = slice blob FBSEC_ASYM_SERIAL_LEN FBSEC_ASYM_PUBKEY_SIZE
                in if (case fbsec_asym_transcript FBSEC_ASYM_RD_IDEVID_CERT blob
                              (FBSEC_ASYM_TRANSCRIPT_OVERHEAD + FBSEC_ASYM_IDENTITY_BLOB_LEN) of
                         None \<Rightarrow> True
                       | Some ct \<Rightarrow>
                           \<not> fbsec_asym_verify E (kp_pub (fbsec_client_asym_manufacturer E)) ct cert)
                   then (4, w2)
                   else if (case fbsec_asym_transcript FBSEC_ASYM_RD_IDENTITY_READ (blob @ rt)
                                   (FBSEC_ASYM_TRANSCRIPT_OVERHEAD + FBSEC_ASYM_IDENTITY_BLOB_LEN
                                    + FBSEC_HO_RT_LEN) of
                              None \<Rightarrow> True
                            | Some st \<Rightarrow> \<not> fbsec_asym_verify E idevid_pub st sig_rt)
                   then (5, w2)
                   else (0, w2)))"

section \<open>Vouchers\<close>

text \<open>The code and the voucher; a code other than 0 leaves the caller's buffer as it was.\<close>

definition build_voucher_epoch :: "ed25519 \<Rightarrow> nat \<Rightarrow> u32 \<Rightarrow> nat \<times> bytes" where
  "build_voucher_epoch E out_size epoch =
     (if out_size < FBSEC_HO_VOUCHER_LEN then (1, [])
      else
        let body = FBSEC_DEMO_DEVICE_SERIAL @ kp_pub (fbsec_client_asym_integrator E) @ le32 epoch
        in (case fbsec_asym_transcript FBSEC_ASYM_RD_VOUCHER body
                   (FBSEC_ASYM_TRANSCRIPT_OVERHEAD + 44) of
              None \<Rightarrow> (6, [])
            | Some tr \<Rightarrow> (0, body @ fbsec_asym_sign E (fbsec_client_asym_manufacturer E) tr)))"

definition fbsec_commission_build_voucher :: "ed25519 \<Rightarrow> nat \<Rightarrow> nat \<times> bytes" where
  "fbsec_commission_build_voucher E out_size = build_voucher_epoch E out_size DEMO_VOUCHER_EPOCH"

definition read_owner_epoch :: "'w transport \<Rightarrow> u16 \<Rightarrow> u32 \<Rightarrow> 'w \<Rightarrow> u32 option \<times> 'w" where
  "read_owner_epoch T target timeout_ms w =
     (case tp_read T target FBSEC_HO_EPOCH_ID [] 4 timeout_ms w of
        ((rc, buf, ac), w1) \<Rightarrow>
          if rc \<noteq> SECP_OK \<or> length buf \<noteq> 4 then (None, w1) else (Some (get32 buf 0), w1))"

definition fbsec_commission_present_voucher_bytes ::
  "'w transport \<Rightarrow> u16 \<Rightarrow> u32 \<Rightarrow> bytes \<Rightarrow> 'w \<Rightarrow> nat \<times> 'w" where
  "fbsec_commission_present_voucher_bytes T target timeout_ms voucher w =
     (if length voucher \<noteq> FBSEC_HO_VOUCHER_LEN then (7, w)
      else (case tp_write T target FBSEC_HO_VOUCHER_ID voucher timeout_ms w of
              ((rc, ac), w1) \<Rightarrow> (if rc \<noteq> SECP_OK then 2 else 0, w1)))"

definition fbsec_commission_present_voucher ::
  "ed25519 \<Rightarrow> 'w transport \<Rightarrow> u16 \<Rightarrow> u32 \<Rightarrow> 'w app \<Rightarrow> nat \<times> 'w app" where
  "fbsec_commission_present_voucher E T target timeout_ms a =
     (if ap_voucher_loaded a then
        on_net (fbsec_commission_present_voucher_bytes T target timeout_ms (ap_voucher a)) a
      else
        (case on_net (read_owner_epoch T target timeout_ms) a of
           (cur, a1) \<Rightarrow>
             let next_epoch = (case cur of Some e \<Rightarrow> e + 1 | None \<Rightarrow> DEMO_VOUCHER_EPOCH)
             in (case build_voucher_epoch E FBSEC_HO_VOUCHER_LEN next_epoch of
                   (rc, voucher) \<Rightarrow>
                     if rc \<noteq> 0 then (rc, a1)
                     else on_net (fbsec_commission_present_voucher_bytes T target timeout_ms voucher) a1)))"

definition fbsec_commission_get_voucher :: "ed25519 \<Rightarrow> nat \<Rightarrow> 'w app \<Rightarrow> nat \<times> bytes" where
  "fbsec_commission_get_voucher E out_size a =
     (if out_size < FBSEC_HO_VOUCHER_LEN then (1, [])
      else if ap_voucher_loaded a then (0, ap_voucher a)
      else fbsec_commission_build_voucher E out_size)"

section \<open>Voucher files\<close>

text \<open>
  The text of a file with its comments dropped; \<open>None\<close> when it does not fit
  \<open>out_size\<close> with the terminating zero. Line feeds are dropped too.
\<close>

fun slurp_loop :: "nat \<Rightarrow> string \<Rightarrow> bool \<Rightarrow> string \<Rightarrow> string option" where
  "slurp_loop out_size [] in_comment out = Some out"
| "slurp_loop out_size (c # s) in_comment out =
     (if c = CHR ''#'' then slurp_loop out_size s True out
      else if c = LF then slurp_loop out_size s False out
      else if in_comment then slurp_loop out_size s in_comment out
      else if length out < out_size - 1 then slurp_loop out_size s in_comment (out @ [c])
      else None)"

definition slurp_hex_text :: "string option \<Rightarrow> nat \<Rightarrow> string option" where
  "slurp_hex_text file out_size =
     (case file of
        None \<Rightarrow> None
      | Some s \<Rightarrow> if out_size = 0 then None else slurp_loop out_size s False [])"

definition fbsec_commission_load_voucher_file :: "string option \<Rightarrow> 'w app \<Rightarrow> nat \<times> 'w app" where
  "fbsec_commission_load_voucher_file file a =
     (case slurp_hex_text file 512 of
        None \<Rightarrow> (1, a)
      | Some text \<Rightarrow>
          (case fbsec_client_cli_parse_hex (Some (c_line text)) FBSEC_HO_VOUCHER_LEN
                  (replicate FBSEC_HO_VOUCHER_LEN 0) of
             (None, buf) \<Rightarrow> (2, a)
           | (Some n, buf) \<Rightarrow>
               if n \<noteq> FBSEC_HO_VOUCHER_LEN then (3, a)
               else (0, a\<lparr>ap_voucher := buf, ap_voucher_loaded := True\<rparr>)))"

text \<open>\<open>%02X\<close>, then a line feed behind every sixteenth byte and a blank behind the others.\<close>

definition voucher_separator :: "nat \<Rightarrow> string" where
  "voucher_separator i = (if (i + 1) mod 16 = 0 then [LF] else '' '')"

definition voucher_file_text :: "bytes \<Rightarrow> string" where
  "voucher_file_text voucher =
     ''# SOFA demo ownership voucher (offline MASA artifact).'' @ [LF] @
     ''# serial || integrator_pub || epoch(LE) || SIG_mfg; '' @ decimal (length voucher) @
     '' bytes hex.'' @ [LF] @ print_hex voucher_separator 0 voucher @ [LF]"

text \<open>The text written, \<open>None\<close> when nothing is; \<open>can_open\<close> tells whether the file opens.\<close>

definition fbsec_commission_emit_voucher_file :: "ed25519 \<Rightarrow> bool \<Rightarrow> nat \<times> string option" where
  "fbsec_commission_emit_voucher_file E can_open =
     (case fbsec_commission_build_voucher E FBSEC_HO_VOUCHER_LEN of
        (rc, voucher) \<Rightarrow>
          if rc \<noteq> 0 then (rc, None)
          else if \<not> can_open then (10, None)
          else (0, Some (voucher_file_text voucher)))"

section \<open>Provisioning\<close>

definition fbsec_commission_install_provisioning ::
  "ed25519 \<Rightarrow> 'w transport \<Rightarrow> u16 \<Rightarrow> u32 \<Rightarrow> 'w \<Rightarrow> nat \<times> 'w" where
  "fbsec_commission_install_provisioning E T target timeout_ms w =
     (case fbsec_asym_transcript FBSEC_ASYM_RD_PKINSTALL_ACK DEMO_PROVISIONING_KEY
             (FBSEC_ASYM_TRANSCRIPT_OVERHEAD + FBSEC_AEAD_KEY_SIZE) of
        None \<Rightarrow> (6, w)
      | Some tr \<Rightarrow>
          (case tp_write T target FBSEC_HO_PROVISION_ID
                  (DEMO_PROVISIONING_KEY @ fbsec_asym_sign E (fbsec_client_asym_integrator E) tr)
                  timeout_ms w of
             ((rc, ac), w1) \<Rightarrow> (if rc \<noteq> SECP_OK then 2 else 0, w1)))"

abbreviation (input) FBSEC_HO_KEY_SET_ID :: u32 where "FBSEC_HO_KEY_SET_ID \<equiv> 0xC01F0000"

definition install_key_rung ::
  "gcm \<Rightarrow> 'w client_port \<Rightarrow> 'w transport \<Rightarrow> u16 \<Rightarrow> u32 \<Rightarrow> u8 \<Rightarrow> u8 \<Rightarrow> 'w app \<Rightarrow> nat \<times> 'w app" where
  "install_key_rung g C T target timeout_ms target_slot auth_slot a =
     (let keyid_val = 0x1000 + ucast target_slot :: u32;
          a = upd_keys (fbsec_client_keys_set_keyid target_slot) a
      in if \<not> fbsec_client_keys_session_set (ap_keys a) then (20, a)
         else
           let body = target_slot # le32 keyid_val @
                        take FBSEC_AEAD_KEY_SIZE (fbsec_client_keys_session (ap_keys a));
               a = upd_keys (fbsec_client_keys_set_keyid auth_slot) a
           in if \<not> fbsec_client_keys_session_set (ap_keys a) then (21, a)
              else fbsec_client_run_secure_write g C T target FBSEC_HO_KEY_SET_ID body timeout_ms a)"

definition fbsec_commission_install_provisioning_by_token ::
  "gcm \<Rightarrow> 'w client_port \<Rightarrow> 'w transport \<Rightarrow> u16 \<Rightarrow> u32 \<Rightarrow> 'w app \<Rightarrow> nat \<times> 'w app" where
  "fbsec_commission_install_provisioning_by_token g C T target timeout_ms a =
     (let saved_keyid = ck_key_id (ap_keys a);
          a = upd_keys (fbsec_client_keys_set_keyid FBSEC_CLIENT_KEYID_CLAIM_TOKEN) a
      in (case fbsec_client_keys_set_session (Some (fbsec_commission_claim_token a)) (ap_keys a) of
            (ok, k) \<Rightarrow>
              let a = a\<lparr>ap_keys := k\<rparr>
              in if \<not> ok then (22, upd_keys (fbsec_client_keys_set_keyid saved_keyid) a)
                 else (case install_key_rung g C T target timeout_ms FBSEC_CLIENT_KEYID_PROVISIONING
                              FBSEC_CLIENT_KEYID_CLAIM_TOKEN a of
                         (rc, a) \<Rightarrow> (rc, upd_keys (fbsec_client_keys_set_keyid saved_keyid) a))))"

definition fbsec_commission_install_ladder ::
  "gcm \<Rightarrow> 'w client_port \<Rightarrow> 'w transport \<Rightarrow> u16 \<Rightarrow> u32 \<Rightarrow> 'w app \<Rightarrow> nat \<times> 'w app" where
  "fbsec_commission_install_ladder g C T target timeout_ms a =
     (let saved_keyid = ck_key_id (ap_keys a)
      in (case install_key_rung g C T target timeout_ms FBSEC_CLIENT_KEYID_INTEGRATOR
                 FBSEC_CLIENT_KEYID_PROVISIONING a of
            (rc, a) \<Rightarrow>
              (case (if rc = 0
                     then install_key_rung g C T target timeout_ms FBSEC_CLIENT_KEYID_OPERATOR
                            FBSEC_CLIENT_KEYID_INTEGRATOR a
                     else (rc, a)) of
                 (rc, a) \<Rightarrow> (rc, upd_keys (fbsec_client_keys_set_keyid saved_keyid) a))))"

definition fbsec_commission_generate_ldevid ::
  "ed25519 \<Rightarrow> 'w transport \<Rightarrow> u16 \<Rightarrow> u32 \<Rightarrow> 'w \<Rightarrow> (nat \<times> bytes) \<times> 'w" where
  "fbsec_commission_generate_ldevid E T target timeout_ms w =
     (case tp_read T target FBSEC_HO_LDEVID_ID [0x01] (FBSEC_ASYM_PUBKEY_SIZE + FBSEC_ASYM_SIG_SIZE)
             timeout_ms w of
        ((rc, rep, ac), w1) \<Rightarrow>
          if rc \<noteq> SECP_OK then ((2, []), w1)
          else if length rep \<noteq> FBSEC_ASYM_PUBKEY_SIZE + FBSEC_ASYM_SIG_SIZE then ((3, []), w1)
          else
            (case fbsec_asym_transcript FBSEC_ASYM_RD_LDEVID_EXPORT (take FBSEC_ASYM_PUBKEY_SIZE rep)
                    (FBSEC_ASYM_TRANSCRIPT_OVERHEAD + FBSEC_ASYM_PUBKEY_SIZE) of
               None \<Rightarrow> ((5, []), w1)
             | Some tr \<Rightarrow>
                 if \<not> fbsec_asym_verify E (fbsec_client_asym_server_idevid E) tr
                        (drop FBSEC_ASYM_PUBKEY_SIZE rep) then ((5, []), w1)
                 else ((0, take FBSEC_ASYM_PUBKEY_SIZE rep), w1)))"

end
