(* ===== verification/Client_Link.thy ===== *)
theory Client_Link
  imports Client_Commission Co_Fd_Link
begin

text \<open>
  The client's commissioning and signed operations against the reference
  server. Over the link that hands each request to the server (and, by the
  refinement of \<open>Co_Fd_Link\<close>, over the bus) the voucher the client mints is
  accepted, its signatures verify, and the server does what was asked.
\<close>

section \<open>The device the client expects\<close>

text \<open>
  The identity material a booted device holds, and no constant entry in the
  range of the security objects.
\<close>

definition demo_device :: "ed25519 \<Rightarrow> u16 \<Rightarrow> 'e srv \<Rightarrow> bool" where
  "demo_device E dev s \<longleftrightarrow>
     sv_my_dev (host s) = dev \<and> as_ready (astore s) \<and>
     as_idevid (astore s) = fbsec_asym_keygen E FBSEC_DEMO_IDEVID_SEED \<and>
     as_idevid_cert (astore s) = fbsec_asym_sign E (fbsec_client_asym_manufacturer E)
       (transcript_of FBSEC_ASYM_RD_IDEVID_CERT
          (FBSEC_DEMO_DEVICE_SERIAL @ fbsec_client_asym_server_idevid E)) \<and>
     as_anchor (astore s) = kp_pub (fbsec_client_asym_manufacturer E) \<and>
     as_serial (astore s) = FBSEC_DEMO_DEVICE_SERIAL \<and>
     fbsec_server_asym_get_peer s RPK_WRITE_PEER_SLOT = Some (kp_pub (fbsec_client_asym_integrator E)) \<and>
     (\<forall>e\<in>set (sv_const_od (host s)). ce_index e < 0xC000)"

lemma demo_seeds [simp]:
  "length FBSEC_DEMO_IDEVID_SEED = 32" "length FBSEC_DEMO_MFG_SEED = 32"
  "length FBSEC_DEMO_INTEGRATOR_SEED = 32" "length FBSEC_DEMO_DEVICE_SERIAL = 8"
  by (simp_all add: FBSEC_DEMO_IDEVID_SEED_def FBSEC_DEMO_MFG_SEED_def
      FBSEC_DEMO_INTEGRATOR_SEED_def FBSEC_DEMO_DEVICE_SERIAL_def)

lemma client_pub_lengths [simp]:
  assumes "ed_ok E"
  shows "length (kp_pub (fbsec_client_asym_integrator E)) = 32"
    "length (kp_pub (fbsec_client_asym_manufacturer E)) = 32"
    "length (fbsec_client_asym_server_idevid E) = 32"
    "length (fbsec_asym_sign E kp m) = 64"
  using ed_ok_pub_length [OF assms] ed_ok_sign_length [OF assms]
  by (simp_all add: fbsec_client_asym_integrator_def fbsec_client_asym_manufacturer_def
      fbsec_client_asym_server_idevid_def)

lemma client_signs [simp]:
  assumes "ed_ok E"
  shows "fbsec_asym_verify E (kp_pub (fbsec_client_asym_integrator E)) m
      (fbsec_asym_sign E (fbsec_client_asym_integrator E) m)"
    "fbsec_asym_verify E (kp_pub (fbsec_client_asym_manufacturer E)) m
      (fbsec_asym_sign E (fbsec_client_asym_manufacturer E) m)"
    "fbsec_asym_verify E (fbsec_client_asym_server_idevid E) m
      (fbsec_asym_sign E (fbsec_asym_keygen E FBSEC_DEMO_IDEVID_SEED) m)"
  using ed_ok_verify [OF assms]
  by (simp_all add: fbsec_client_asym_integrator_def fbsec_client_asym_manufacturer_def
      fbsec_client_asym_server_idevid_def)

lemma get_peer_cong:
  "\<lbrakk>as_peer (astore s') = as_peer (astore s); as_peer_set (astore s') = as_peer_set (astore s)\<rbrakk> \<Longrightarrow>
   fbsec_server_asym_get_peer s' j = fbsec_server_asym_get_peer s j"
  by (simp add: fbsec_server_asym_get_peer_def)

text \<open>Nothing a device does changes what makes it one.\<close>

lemma same_identity_device:
  "same_identity s s' \<Longrightarrow> demo_device E dev s \<Longrightarrow> demo_device E dev s'"
  using get_peer_cong [of s' s RPK_WRITE_PEER_SLOT] by (simp add: same_identity_def demo_device_def)

section \<open>A booted server is one\<close>

text \<open>The steps of the start-up behind the identity store leave it alone.\<close>

definition boot_keeps :: "'e srv \<Rightarrow> 'e srv \<Rightarrow> bool" where
  "boot_keeps s s' \<longleftrightarrow> astore s' = astore s \<and> sv_my_dev (host s') = sv_my_dev (host s) \<and>
     sv_const_od (host s') = sv_const_od (host s)"

lemma const_od_load_host:
  "const_od_load rows s = Some s' \<Longrightarrow>
   host s' = (host s)\<lparr>sv_const_od := sv_const_od (host s) @ rows\<rparr>"
  by (induction rows arbitrary: s) (auto split: if_splits)

lemma register_entries_host: "register_server_entries es s = Some s' \<Longrightarrow> host s' = host s"
proof (induction es arbitrary: s)
  case (Cons e es)
  then show ?case using register_entry_host(1) [of e s] by (auto split: prod.splits if_splits)
qed simp

lemma load_key_rows_host: "load_key_rows rows s = Some s' \<Longrightarrow> host s' = host s"
proof (induction rows arbitrary: s)
  case (Cons r rows)
  obtain k key v where r: "r = (k, key, v)" by (metis prod_cases3)
  obtain ok t where t: "set_key_from k key v s = (ok, t)" by force
  have "host (snd (set_key_from k key v s)) = host s" by simp
  then have "host t = host s" by (simp add: t)
  then show ?case using Cons r t by (auto split: if_splits)
qed simp

lemma booted_device:
  assumes init: "fbsec_server_od_init E dev kf od demo (server_statics e) = Some s" and E: "ed_ok E"
    and od: "case od of None \<Rightarrow> True | Some rows \<Rightarrow> \<forall>r\<in>set rows. ce_index r < 0xC000"
  shows "demo_device E dev s"
proof -
  define a where "a = fbsec_server_asym_init E (fbsec_server_hooks_set_my_dev dev
     (fbsec_server_lifecycle_init (fbsec_sod_init (server_statics e))))"
  define p where "p = fbsec_const_od_init (snd (fbsec_server_asym_set_peer 1
     (kp_pub (fbsec_asym_keygen E FBSEC_DEMO_INTEGRATOR_SEED)) a))"
  obtain q b t u v where
    q: "(case od of None \<Rightarrow> Some p | Some rows \<Rightarrow> const_od_load rows p) = Some q" and
    t: "fbsec_server_hooks_load_identity q = (b, t)" and
    u: "register_server_entries (server_entries b) t = Some u" and
    v: "(case kf of None \<Rightarrow> Some u | Some rows \<Rightarrow> fbsec_server_load_key_file rows u) = Some v" and
    s: "s = (let w = fbsec_server_install_claim_token
               (if demo then fbsec_server_install_demo_keys_if_unset v else v)
             in fbsec_server_lifecycle_set (if has_session_keys w then FBSEC_STAGE_OPERATIONAL
                  else FBSEC_STAGE_UNCOMMISSIONED) w)"
    using init unfolding fbsec_server_od_init_def Let_def a_def p_def
    by (auto split: option.splits prod.splits)
  have pd: "demo_device E dev p" "sv_const_od (host p) = []"
    using E
    by (simp_all add: p_def a_def demo_device_def fbsec_const_od_init_def fbsec_server_asym_set_peer_def
        fbsec_server_asym_init_def Let_def upd_asym_def fbsec_server_asym_get_peer_def
        fbsec_server_hooks_set_my_dev_def fbsec_server_lifecycle_init_def
        fbsec_client_asym_integrator_def fbsec_client_asym_manufacturer_def
        fbsec_client_asym_server_idevid_def transcript_eq ed_ok_pub_length)
  then have qd: "demo_device E dev q"
    using q od const_od_load_host [of _ p q] get_peer_cong [of q p RPK_WRITE_PEER_SLOT]
    by (auto simp: demo_device_def split: option.splits)
  have "boot_keeps q t"
    using t by (auto simp: fbsec_server_hooks_load_identity_def boot_keeps_def split: prod.splits)
  moreover have "host u = host t" using register_entries_host [OF u] .
  moreover have "host v = host u"
    using v load_key_rows_host [of _ u v]
    by (auto simp: fbsec_server_load_key_file_def split: option.splits if_splits)
  ultimately have "boot_keeps q s"
    by (simp add: boot_keeps_def s Let_def fbsec_server_install_claim_token_def
        fbsec_server_install_demo_keys_if_unset_def install_if_unset_def)
  then show ?thesis
    using qd get_peer_cong [of s q RPK_WRITE_PEER_SLOT] by (simp add: boot_keeps_def demo_device_def)
qed

section \<open>Routes\<close>

lemma const_od_lookup_None: "\<forall>e\<in>set es. ce_index e \<noteq> i \<Longrightarrow> const_od_lookup es i j = None"
  by (induction es) auto

lemma route_asym:
  assumes "demo_device E dev s" "0xC002 \<le> id_index d" "id_index d \<noteq> 0xC010" "id_index d \<noteq> 0xC011"
  shows "fbsec_server_dispatch_request E g F c d req s =
    (case fbsec_server_handover_try E d req s of
       Some rs \<Rightarrow> rs
     | None \<Rightarrow>
        (case fbsec_server_rpk_try E F c d req s of
           Some rs \<Rightarrow> rs
         | None \<Rightarrow>
            (case fbsec_sod_dispatch g (server_port F) c d req FBSEC_SERVER_DISPATCH_REPLY_MAX s of
               (st, s1) \<Rightarrow> (secure_reply st, s1))))"
proof -
  have n: "id_index d \<noteq> 0xC000" "id_index d \<noteq> 0xC001" using assms(2) by auto
  have "ce_index e \<noteq> id_index d" if "e \<in> set (sv_const_od (host s))" for e
  proof -
    have "ce_index e < 0xC000" using assms(1) that by (simp add: demo_device_def)
    also have "(0xC000 :: u16) \<le> 0xC002" by simp
    finally show ?thesis using assms(2) by auto
  qed
  then have "try_serve_const_od d req s = None"
    by (simp add: try_serve_const_od_def fbsec_const_od_get_def const_od_lookup_None)
  then show ?thesis
    using n assms(3,4)
    by (simp add: fbsec_server_dispatch_request_def try_serve_descriptor_def
        fbsec_server_security_try_def Let_def)
qed

lemma asym_ids [simp]:
  "id_index FBSEC_HO_IDENTITY_ID = 0xC028" "id_index FBSEC_HO_EPOCH_ID = 0xC020"
  "id_index FBSEC_HO_VOUCHER_ID = 0xC020" "id_index FBSEC_HO_PROVISION_ID = 0xC02F"
  "id_index FBSEC_HO_LDEVID_ID = 0xC020" "id_index FBSEC_RPK_GENERIC_READ_ID = 0xC042"
  "id_index FBSEC_RPK_GENERIC_WRITE_ID = 0xC042" "id_index FBSEC_RPK_FUNCCMD_ID = 0xC049"
  "id_index FBSEC_SEC_KEY_SET_DATA_ID = 0xC01F"
  by (simp_all add: id_index_def)

lemma device_requests:
  assumes "demo_device E dev s"
  shows "fbsec_server_dispatch_request E g F c FBSEC_HO_IDENTITY_ID req s = handle_identity E req s"
    "fbsec_server_dispatch_request E g F c FBSEC_HO_EPOCH_ID req s = handle_epoch s"
    "fbsec_server_dispatch_request E g F c FBSEC_HO_VOUCHER_ID req s = handle_voucher E req s"
    "fbsec_server_dispatch_request E g F c FBSEC_HO_PROVISION_ID req s = handle_provision E req s"
    "fbsec_server_dispatch_request E g F c FBSEC_HO_LDEVID_ID req s = handle_ldevid E req s"
    "fbsec_server_dispatch_request E g F c FBSEC_RPK_GENERIC_READ_ID req s
      = handle_generic_read E F c req s"
    "fbsec_server_dispatch_request E g F c FBSEC_RPK_GENERIC_WRITE_ID req s
      = handle_generic_write E F c req s"
    "fbsec_server_dispatch_request E g F c FBSEC_RPK_FUNCCMD_ID req s = handle_command E F c req s"
  by (simp_all add: route_asym [OF assms] fbsec_server_handover_try_def fbsec_server_rpk_try_def Let_def)

lemma env_port_simps [simp]:
  "secure_port_random (env_port cid X) n (v, x) =
     (case secure_port_random X n x of (r, x') \<Rightarrow> (r, (v, x')))"
  "secure_port_get_client_id (env_port cid X) (v, x) = cid v"
  by (simp_all add: env_port_def)

section \<open>Handover\<close>

lemma genuineness_link:
  assumes dev: "demo_device E dev s" and E: "ed_ok E"
    and r: "secure_port_random X FBSEC_HO_RT_LEN x = (Some rt, x')" "length rt = FBSEC_HO_RT_LEN"
  shows "fbsec_commission_verify_genuineness E (srv_client_port a X) (srv_link E g F a) tgt t (s, x)
    = (0, (s, x'))"
proof -
  let ?pub = "fbsec_client_asym_server_idevid E" and ?blob = "FBSEC_DEMO_DEVICE_SERIAL @ fbsec_client_asym_server_idevid E"
  have st: "as_serial (astore s) = FBSEC_DEMO_DEVICE_SERIAL" "kp_pub (as_idevid (astore s)) = ?pub"
    "as_idevid (astore s) = fbsec_asym_keygen E FBSEC_DEMO_IDEVID_SEED"
    "as_idevid_cert (astore s) = fbsec_asym_sign E (fbsec_client_asym_manufacturer E)
       (transcript_of FBSEC_ASYM_RD_IDEVID_CERT ?blob)"
    using dev by (simp_all add: demo_device_def fbsec_client_asym_server_idevid_def)
  have l: "length ?pub = 32" "length ?blob = 40" using E by simp_all
  have "handle_identity E rt s = ((FBSEC_ABORT_NONE, ?blob @ as_idevid_cert (astore s) @
      fbsec_asym_sign E (as_idevid (astore s))
        (transcript_of FBSEC_ASYM_RD_IDENTITY_READ (?blob @ rt))), s)"
    using r(2) l(1) by (simp add: handle_identity_def Let_def sign_idevid_def st(1,2) transcript_eq)
  then show ?thesis
    using r E l
    by (simp add: fbsec_commission_verify_genuineness_def device_requests [OF dev] Let_def st(3,4)
        transcript_eq slice_def)
qed

text \<open>What a result of 0 says about any device that answered.\<close>

definition identity_evidence :: "ed25519 \<Rightarrow> bytes \<Rightarrow> bytes \<Rightarrow> bool" where
  "identity_evidence E rt rep \<longleftrightarrow> length rep = FBSEC_HO_IDENTITY_REPLY_LEN \<and>
     fbsec_asym_verify E (kp_pub (fbsec_client_asym_manufacturer E))
       (transcript_of FBSEC_ASYM_RD_IDEVID_CERT (take 40 rep)) (slice rep 40 64) \<and>
     fbsec_asym_verify E (slice rep 8 32)
       (transcript_of FBSEC_ASYM_RD_IDENTITY_READ (take 40 rep @ rt)) (drop 104 rep)"

lemma genuineness_iff:
  assumes r: "secure_port_random C FBSEC_HO_RT_LEN w = (Some rt, w1)" "length rt = FBSEC_HO_RT_LEN"
    and rd: "tp_read T tgt FBSEC_HO_IDENTITY_ID rt FBSEC_HO_IDENTITY_REPLY_LEN t w1 = ((rc, rep, ac), w2)"
  shows "fst (fbsec_commission_verify_genuineness E C T tgt t w) = 0 \<longleftrightarrow>
    rc = SECP_OK \<and> identity_evidence E rt rep"
proof -
  have s: "slice (take 40 rep) 8 32 = slice rep 8 32" by (simp add: slice_def drop_take min_def)
  show ?thesis
    using r rd
    by (auto simp: fbsec_commission_verify_genuineness_def Let_def identity_evidence_def s transcript_eq)
qed

definition client_voucher :: "ed25519 \<Rightarrow> u32 \<Rightarrow> bytes" where
  "client_voucher E epoch =
     (let body = FBSEC_DEMO_DEVICE_SERIAL @ kp_pub (fbsec_client_asym_integrator E) @ le32 epoch
      in body @ fbsec_asym_sign E (fbsec_client_asym_manufacturer E)
                  (transcript_of FBSEC_ASYM_RD_VOUCHER body))"

lemma build_voucher [simp]:
  "ed_ok E \<Longrightarrow> 108 \<le> n \<Longrightarrow> build_voucher_epoch E n epoch = (0, client_voucher E epoch)"
  by (simp add: build_voucher_epoch_def client_voucher_def Let_def transcript_eq)

lemma client_voucher_fields:
  assumes "ed_ok E"
  shows "length (client_voucher E n) = FBSEC_HO_VOUCHER_LEN" "voucher_epoch (client_voucher E n) = n"
    "slice (client_voucher E n) 8 32 = kp_pub (fbsec_client_asym_integrator E)"
    "take 8 (client_voucher E n) = FBSEC_DEMO_DEVICE_SERIAL"
    "fbsec_asym_verify E (kp_pub (fbsec_client_asym_manufacturer E))
       (transcript_of FBSEC_ASYM_RD_VOUCHER (take 44 (client_voucher E n))) (drop 44 (client_voucher E n))"
  using assms get32_append [of "FBSEC_DEMO_DEVICE_SERIAL @ kp_pub (fbsec_client_asym_integrator E)" 40 _ 0]
  by (simp_all add: client_voucher_def Let_def voucher_epoch_def slice_def)

lemma voucher_accepted:
  assumes "demo_device E dev s" "ed_ok E"
  shows "voucher_ok E (client_voucher E n) s \<longleftrightarrow>
    as_uncommissioned (astore s) \<and> as_owner_epoch (astore s) < n"
  using assms client_voucher_fields [OF assms(2), of n]
  by (auto simp: voucher_ok_def demo_device_def)

lemma present_voucher_link:
  assumes dev: "demo_device E dev s" and E: "ed_ok E"
    and a: "\<not> ap_voucher_loaded ap" "ap_net ap = (s, x)"
  defines "v \<equiv> client_voucher E (as_owner_epoch (astore s) + 1)"
  shows "fbsec_commission_present_voucher E (srv_link E g F a) tgt t ap =
    (if voucher_ok E v s then (0, ap\<lparr>ap_net := (claimed v s, x)\<rparr>) else (2, ap))"
proof -
  have "fbsec_commission_present_voucher_bytes (srv_link E g F a) tgt t v (s, x) =
      (if voucher_ok E v s then (0, (claimed v s, x)) else (2, (s, x)))"
    using client_voucher_fields(1) [OF E]
    by (simp add: fbsec_commission_present_voucher_bytes_def device_requests [OF dev]
        handle_voucher_result v_def)
  moreover have "read_owner_epoch (srv_link E g F a) tgt t (s, x)
      = (Some (as_owner_epoch (astore s)), (s, x))"
    using get32_le32 [of "as_owner_epoch (astore s)" "[]"]
    by (simp add: read_owner_epoch_def device_requests [OF dev] handle_epoch_def
        fbsec_server_asym_owner_epoch_def)
  moreover have "ap\<lparr>ap_net := (s, x)\<rparr> = ap" using a(2) [symmetric] by simp
  ultimately show ?thesis
    using a E by (simp add: fbsec_commission_present_voucher_def on_net_def v_def)
qed

definition client_provision :: "ed25519 \<Rightarrow> bytes" where
  "client_provision E = DEMO_PROVISIONING_KEY @ fbsec_asym_sign E (fbsec_client_asym_integrator E)
     (transcript_of FBSEC_ASYM_RD_PKINSTALL_ACK DEMO_PROVISIONING_KEY)"

lemma DEMO_PROVISIONING_KEY_length [simp]: "length DEMO_PROVISIONING_KEY = 16"
  by (simp add: DEMO_PROVISIONING_KEY_def)

lemma install_provisioning_link:
  assumes dev: "demo_device E dev s" and E: "ed_ok E"
  shows "fbsec_commission_install_provisioning E (srv_link E g F a) tgt t (s, x) =
    (if provision_ok E (client_provision E) s then (0, (provisioned (client_provision E) s, x))
     else (2, (s, x)))"
  by (simp add: fbsec_commission_install_provisioning_def transcript_eq device_requests [OF dev]
      handle_provision_result client_provision_def)

lemma provision_accepted:
  assumes "demo_device E dev s" "ed_ok E" "as_owner_set (astore s)"
    "as_owner (astore s) = kp_pub (fbsec_client_asym_integrator E)"
  shows "provision_ok E (client_provision E) s"
  using assms by (simp add: provision_ok_def client_provision_def demo_device_def)

lemma generate_ldevid_link:
  assumes dev: "demo_device E dev s" and E: "ed_ok E"
  shows "fbsec_commission_generate_ldevid E (srv_link E g F a) tgt t (s, x) =
    ((0, kp_pub (fbsec_asym_keygen E FBSEC_DEMO_LDEVID_SEED)), (new_ldevid E s, x))"
proof -
  have l: "length (kp_pub (fbsec_asym_keygen E FBSEC_DEMO_LDEVID_SEED)) = 32"
    using ed_ok_pub_length [OF E] by (simp add: FBSEC_DEMO_LDEVID_SEED_def)
  show ?thesis
    using E l dev
    by (simp add: fbsec_commission_generate_ldevid_def device_requests [OF dev] handle_ldevid_def
        fbsec_server_asym_generate_ldevid_def Let_def sign_idevid_def transcript_eq new_ldevid_def
        upd_asym_def demo_device_def)
qed

section \<open>Commissioning as a whole\<close>

text \<open>
  The \<open>commission\<close> command of \<open>run_descriptor_command\<close>: the four steps, each run
  whatever the ones before returned, and the exit code.
\<close>

definition run_commission ::
  "ed25519 \<Rightarrow> 'w client_port \<Rightarrow> 'w transport \<Rightarrow> u16 \<Rightarrow> u32 \<Rightarrow> 'w app \<Rightarrow> (nat list \<times> nat) \<times> 'w app" where
  "run_commission E C T target timeout a =
     (case on_net (fbsec_commission_verify_genuineness E C T target timeout) a of (r1, a) \<Rightarrow>
      (case fbsec_commission_present_voucher E T target timeout a of (r2, a) \<Rightarrow>
       (case on_net (fbsec_commission_install_provisioning E T target timeout) a of (r3, a) \<Rightarrow>
        (case on_net (fbsec_commission_generate_ldevid E T target timeout) a of ((r4, ldev), a) \<Rightarrow>
           (([r1, r2, r3, r4], if r1 \<noteq> 0 \<or> r2 \<noteq> 0 \<or> r3 \<noteq> 0 \<or> r4 \<noteq> 0 then 1 else 0), a)))))"

lemma claimed_device:
  assumes "demo_device E dev s"
  shows "demo_device E dev (claimed v s)"
  using assms get_peer_cong [of "claimed v s" s RPK_WRITE_PEER_SLOT]
  by (simp add: demo_device_def claimed_def upd_asym_def)

lemma provisioned_device:
  assumes "demo_device E dev s"
  shows "demo_device E dev (provisioned p s)"
  using assms get_peer_cong [of "provisioned p s" s RPK_WRITE_PEER_SLOT]
  by (simp add: demo_device_def provisioned_def upd_asym_def)

text \<open>The state of the device after a commissioning.\<close>

definition commissioned :: "ed25519 \<Rightarrow> 'e srv \<Rightarrow> 'e srv" where
  "commissioned E s = new_ldevid E (provisioned (client_provision E)
     (claimed (client_voucher E (as_owner_epoch (astore s) + 1)) s))"

lemma upd_asym_keys:
  "keys_wf (upd_asym f s) = keys_wf s" "get_key (upd_asym f s) j = get_key s j"
  by (simp_all add: upd_asym_def keys_wf_def get_key_def fbsec_sod_has_key_def)

lemma lifecycle_keys_wf: "keys_wf (fbsec_server_lifecycle_set st s) = keys_wf s"
  by (simp add: fbsec_server_lifecycle_set_def keys_wf_def)

lemma provisioned_key:
  assumes "keys_wf s"
  shows "get_key (provisioned p s) FBSEC_DEMO_KEYID_PROVISIONING = (case get_key s FBSEC_DEMO_KEYID_PROVISIONING of
      None \<Rightarrow> Some (take FBSEC_AEAD_KEY_SIZE p) | Some k \<Rightarrow> Some k)"
  using set_key_from_get [of "upd_asym f s" 1 "take 16 p" v 1 for f v] assms
  by (simp add: provisioned_def upd_asym_keys split: option.split)

lemma commissioned_state:
  assumes E: "ed_ok E" and wf: "keys_wf s"
  shows "as_owner_set (astore (commissioned E s)) \<and>
    as_owner (astore (commissioned E s)) = kp_pub (fbsec_client_asym_integrator E) \<and>
    as_owner_epoch (astore (commissioned E s)) = as_owner_epoch (astore s) + 1 \<and>
    as_ldevid_present (astore (commissioned E s)) \<and>
    as_ldevid (astore (commissioned E s)) = fbsec_asym_keygen E FBSEC_DEMO_LDEVID_SEED \<and>
    get_key (commissioned E s) FBSEC_DEMO_KEYID_PROVISIONING = (case get_key s FBSEC_DEMO_KEYID_PROVISIONING of
      None \<Rightarrow> Some DEMO_PROVISIONING_KEY | Some k \<Rightarrow> Some k)"
proof -
  let ?v = "client_voucher E (as_owner_epoch (astore s) + 1)"
  have "get_key (provisioned (client_provision E) (claimed ?v s)) 1 =
    (case get_key s 1 of None \<Rightarrow> Some (take 16 (client_provision E)) | Some k \<Rightarrow> Some k)"
    using wf by (subst provisioned_key) (simp_all add: claimed_def upd_asym_keys lifecycle_keys_wf)
  moreover have "take 16 (client_provision E) = DEMO_PROVISIONING_KEY" by (simp add: client_provision_def)
  moreover have "as_owner_set (astore (commissioned E s)) \<and>
    as_owner (astore (commissioned E s)) = slice ?v 8 32 \<and>
    as_owner_epoch (astore (commissioned E s)) = voucher_epoch ?v \<and>
    as_ldevid_present (astore (commissioned E s)) \<and>
    as_ldevid (astore (commissioned E s)) = fbsec_asym_keygen E FBSEC_DEMO_LDEVID_SEED"
    by (simp add: commissioned_def new_ldevid_def provisioned_def claimed_def upd_asym_def)
  ultimately show ?thesis
    using client_voucher_fields(2,3) [OF E]
    by (auto simp: commissioned_def new_ldevid_def upd_asym_keys split: option.split)
qed

lemma less_next_epoch: "e \<noteq> -1 \<Longrightarrow> (e :: u32) < e + 1"
  using unatSuc [of e] by (simp add: word_less_nat_alt eq_neg_iff_add_eq_0 add.commute)

lemma commission_link:
  assumes dev: "demo_device E dev s" and E: "ed_ok E"
    and un: "as_uncommissioned (astore s)" "as_owner_epoch (astore s) \<noteq> -1"
    and a: "\<not> ap_voucher_loaded ap" "ap_net ap = (s, x)"
    and r: "secure_port_random X FBSEC_HO_RT_LEN x = (Some rt, x')" "length rt = FBSEC_HO_RT_LEN"
  shows "run_commission E (srv_client_port a X) (srv_link E g F a) tgt t ap =
    (([0, 0, 0, 0], 0), ap\<lparr>ap_net := (commissioned E s, x')\<rparr>)"
proof -
  let ?v = "client_voucher E (as_owner_epoch (astore s) + 1)" and ?p = "client_provision E"
  have "as_owner_epoch (astore s) < as_owner_epoch (astore s) + 1"
    by (rule less_next_epoch [OF un(2)])
  then have v: "voucher_ok E ?v s" using voucher_accepted [OF dev E] un(1) by simp
  note d1 = claimed_device [OF dev, of ?v]
  have p: "provision_ok E ?p (claimed ?v s)"
    using provision_accepted [OF d1 E] client_voucher_fields(3) [OF E]
    by (simp add: claimed_def upd_asym_def)
  show ?thesis
    using a genuineness_link [OF dev E r, where a = a and g = g and F = F and tgt = tgt and t = t]
      present_voucher_link [OF dev E, of "ap\<lparr>ap_net := (s, x')\<rparr>" x' g F a tgt t] v p
      install_provisioning_link [OF d1 E, of g F a tgt t x']
      generate_ldevid_link [OF provisioned_device [OF d1] E, of g F a tgt t ?p x']
    by (simp add: run_commission_def on_net_def commissioned_def)
qed

section \<open>Signed operations\<close>

lemma random_state:
  "fbsec_sod_port_random F n s = (r, s1) \<Longrightarrow> \<exists>e. s1 = upd_host (\<lambda>h. h\<lparr>sv_env := e\<rparr>) s"
proof -
  assume r: "fbsec_sod_port_random F n s = (r, s1)"
  have "s = upd_host (\<lambda>h. h\<lparr>sv_env := sv_env (host s)\<rparr>) s" by (simp add: upd_host_def)
  moreover have "s1 = s \<or> (\<exists>e. s1 = upd_host (\<lambda>h. h\<lparr>sv_env := e\<rparr>) s)"
    using r by (auto simp: fbsec_sod_port_random_def split: if_splits prod.splits)
  ultimately show ?thesis by metis
qed

text \<open>The server with the challenge \<open>nonce\<close> out for client \<open>c\<close> and object \<open>d\<close>, and the challenge used up.\<close>

definition challenged :: "u16 \<Rightarrow> u32 \<Rightarrow> bytes \<Rightarrow> 'e srv \<Rightarrow> 'e srv" where
  "challenged c d nonce = upd_chall (\<lambda>_. \<lparr>ch_armed = True, ch_client_dev = c, ch_data_id = d,
     ch_server_nonce = nonce\<rparr>)"

lemma challenged_device:
  assumes "demo_device E dev s" "fbsec_sod_port_random F n s = (r, s1)"
  shows "demo_device E dev (challenged c d nonce s1)"
  using random_state [OF assms(2)] assms(1) get_peer_cong [of "challenged c d nonce s1" s RPK_WRITE_PEER_SLOT]
  by (auto simp: demo_device_def challenged_def upd_chall_def)

lemma fetch_challenge_link:
  assumes dev: "demo_device E dev s" and F: "platform_ok F"
    and r: "fbsec_sod_port_random F FBSEC_RPK_NONCE_LEN s = (Some nonce, s1)"
    and d: "d = FBSEC_RPK_GENERIC_READ_ID \<and> length req = 3 \<or> d = FBSEC_RPK_GENERIC_WRITE_ID \<and> length req = 3
      \<or> d = FBSEC_RPK_FUNCCMD_ID \<and> req = []"
  shows "fetch_challenge (srv_link E g F a) tgt d req t (s, x)
    = ((0, nonce), (challenged (ucast a) d nonce s1, x))"
proof -
  have l: "length nonce = 16"
    using port_random_length [OF server_port_ok [OF F], of 16 s nonce s1] r by simp
  have "fbsec_server_dispatch_request E g F (ucast a) d req s = arm_challenge F (ucast a) d s"
    using d by (auto simp: device_requests [OF dev] handle_generic_read_def handle_generic_write_def
        handle_command_def Let_def)
  then show ?thesis
    using r l by (simp add: fetch_challenge_def arm_challenge_def challenged_def)
qed

lemma rpk_target:
  "length (put_u16le i @ [j]) = 3" "target_of ((put_u16le i @ [j]) @ ys) = rpk_target_id i j"
  by (simp_all add: target_of_def rpk_target_id_def put_u16le_def le16_def get16_def)

lemma signed_body_length:
  "length n1 = 16 \<Longrightarrow> length n2 = 16 \<Longrightarrow> length v \<le> 16 \<Longrightarrow>
   length (build_signed_body i j k n1 n2 v) = 42 + length v"
  by (simp add: build_signed_body_def)

text \<open>The integrator's signature over the canonical body verifies at the server.\<close>

lemma verify_signed_client:
  assumes dev: "demo_device E dev s" and E: "ed_ok E"
    and c: "chall s = \<lparr>ch_armed = True, ch_client_dev = c, ch_data_id = d, ch_server_nonce = nonce\<rparr>"
    and l: "length nonce = 16" "length cn = 16" "length v \<le> 16"
  shows "verify_signed E c d b role cn v
      (fbsec_asym_sign E (fbsec_client_asym_integrator E)
         (transcript_of role (build_signed_body dev c b cn nonce v))) s
    = (FBSEC_ABORT_NONE, disarm s)"
proof -
  have "fbsec_server_asym_get_peer s RPK_WRITE_PEER_SLOT = Some (kp_pub (fbsec_client_asym_integrator E))"
    "fbsec_sod_port_get_device_id s = dev"
    using dev by (simp_all add: demo_device_def fbsec_sod_port_get_device_id_def)
  then show ?thesis
    using c E signed_body_length [OF l(2,1,3)] l(3)
    by (simp add: verify_signed_def Let_def transcript_eq)
qed

lemma signed_write_link:
  assumes dev: "demo_device E dev s" and E: "ed_ok E" and F: "platform_ok F" and v: "length v \<le> 16"
    and r: "fbsec_sod_port_random F FBSEC_RPK_NONCE_LEN s = (Some nonce, s1)"
    and cr: "secure_port_random X FBSEC_RPK_NONCE_LEN x = (Some cn, x')" "length cn = 16"
    and hook: "fbsec_sod_port_write_after (rpk_target_id i j) v
        (disarm (challenged (ucast a) FBSEC_RPK_GENERIC_WRITE_ID nonce s1)) = (rc, s2)"
  shows "fbsec_rpk_signed_write E (srv_client_port a X) (srv_link E g F a) dev i j v t (s, x)
    = (if rc = FBSEC_ABORT_NONE then 0 else 2, (s2, x'))"
proof -
  let ?s = "challenged (ucast a) FBSEC_RPK_GENERIC_WRITE_ID nonce s1"
  let ?body = "build_signed_body dev (ucast a) (rpk_target_id i j) cn nonce v"
  let ?sig = "fbsec_asym_sign E (fbsec_client_asym_integrator E)
    (transcript_of FBSEC_ASYM_RD_GENERIC_WRITE ?body)"
  let ?hdr = "put_u16le i @ [j]"
  let ?req = "?hdr @ cn @ v @ ?sig"
  have l: "length nonce = 16"
    using port_random_length [OF server_port_ok [OF F], of 16 s nonce s1] r by simp
  note d = challenged_device [OF dev r, where c = "ucast a" and d = FBSEC_RPK_GENERIC_WRITE_ID and nonce = nonce]
  have c: "chall ?s = \<lparr>ch_armed = True, ch_client_dev = ucast a, ch_data_id = FBSEC_RPK_GENERIC_WRITE_ID,
      ch_server_nonce = nonce\<rparr>" by (simp add: challenged_def upd_chall_def)
  have len: "length ?hdr = 3" "length ?sig = 64" "length ?req = 83 + length v"
    using E cr(2) by (simp_all add: put_u16le_def)
  have "length (?hdr @ cn @ v) = 19 + length v" using len cr(2) by simp
  then have "drop (19 + length v) ((?hdr @ cn @ v) @ ?sig) = ?sig" by (metis append_eq_conv_conj)
  then have parts: "slice ?req 3 16 = cn" "slice ?req 19 (length v) = v" "drop (19 + length v) ?req = ?sig"
    using len cr(2) by (simp_all only: append_assoc) (simp_all add: slice_def)
  have "handle_generic_write E F (ucast a) ?req ?s = ((rc, []), s2)"
    using verify_signed_client [OF d E c l cr(2) v, where b = "rpk_target_id i j" and role = FBSEC_ASYM_RD_GENERIC_WRITE]
      len parts v hook rpk_target(2) [of i j "cn @ v @ ?sig"]
    by (simp add: handle_generic_write_def Let_def)
  then show ?thesis
    using v fetch_challenge_link [OF dev F r, where d = FBSEC_RPK_GENERIC_WRITE_ID and req = ?hdr
        and g = g and a = a and tgt = dev and t = t and x = x] len(1) cr
      signed_body_length [OF cr(2) l v]
    by (simp add: fbsec_rpk_signed_write_def Let_def client_body_eq transcript_eq
        device_requests [OF d])
qed

lemma command_link:
  assumes dev: "demo_device E dev s" and E: "ed_ok E" and F: "platform_ok F"
    and r: "fbsec_sod_port_random F FBSEC_RPK_NONCE_LEN s = (Some nonce, s1)"
    and cr: "secure_port_random X FBSEC_RPK_NONCE_LEN x = (Some cn, x')" "length cn = 16"
  shows "fbsec_rpk_command E (srv_client_port a X) (srv_link E g F a) dev code_v t (s, x)
    = (0, (if code_v = FBSEC_HO_CMD_FACTORY_RESTORE
           then fbsec_server_handover_decommission
                  (disarm (challenged (ucast a) FBSEC_RPK_FUNCCMD_ID nonce s1))
           else disarm (challenged (ucast a) FBSEC_RPK_FUNCCMD_ID nonce s1), x'))"
proof -
  let ?s = "challenged (ucast a) FBSEC_RPK_FUNCCMD_ID nonce s1"
  let ?v = "put_u32le code_v"
  let ?body = "build_signed_body dev (ucast a) FBSEC_RPK_FUNCCMD_ID cn nonce ?v"
  let ?sig = "fbsec_asym_sign E (fbsec_client_asym_integrator E)
    (transcript_of FBSEC_ASYM_RD_FUNCTION_CMD ?body)"
  let ?req = "cn @ ?v @ ?sig"
  have l: "length nonce = 16" "length ?v \<le> 16"
    using port_random_length [OF server_port_ok [OF F], of 16 s nonce s1] r by simp_all
  note d = challenged_device [OF dev r, where c = "ucast a" and d = FBSEC_RPK_FUNCCMD_ID and nonce = nonce]
  have c: "chall ?s = \<lparr>ch_armed = True, ch_client_dev = ucast a, ch_data_id = FBSEC_RPK_FUNCCMD_ID,
      ch_server_nonce = nonce\<rparr>" by (simp add: challenged_def upd_chall_def)
  have len: "length ?v = 4" "length ?sig = 64" "length ?req = 84" using E cr(2) by simp_all
  have parts: "take 16 ?req = cn" "slice ?req 16 4 = ?v" "drop 20 ?req = ?sig"
    using len cr(2) by (simp_all add: slice_def)
  have code: "get32 ?v 0 = code_v" using get32_le32 [of code_v "[]"] by (simp add: put_u32le_def)
  have "handle_command E F (ucast a) ?req ?s =
      ((FBSEC_ABORT_NONE, []), if code_v = FBSEC_HO_CMD_FACTORY_RESTORE
         then fbsec_server_handover_decommission (disarm ?s) else disarm ?s)"
    using verify_signed_client [OF d E c l(1) cr(2) l(2), where b = FBSEC_RPK_FUNCCMD_ID
        and role = FBSEC_ASYM_RD_FUNCTION_CMD] len parts code
    by (simp add: handle_command_def Let_def)
  then show ?thesis
    using fetch_challenge_link [OF dev F r, where d = FBSEC_RPK_FUNCCMD_ID and req = "[]"
        and g = g and a = a and tgt = dev and t = t and x = x] cr
      signed_body_length [OF cr(2) l]
    by (simp add: fbsec_rpk_command_def Let_def client_body_eq transcript_eq device_requests [OF d]
        split: if_split)
qed

lemma signed_read_link:
  assumes dev: "demo_device E dev s" and E: "ed_ok E" and F: "platform_ok F"
    and r: "fbsec_sod_port_random F FBSEC_RPK_NONCE_LEN s = (Some nonce, s1)"
    and cr: "secure_port_random X FBSEC_RPK_NONCE_LEN x = (Some cn, x')" "length cn = 16"
    and hook: "fbsec_sod_port_read_before (rpk_target_id i j) FBSEC_RPK_VALUE_MAX
        (challenged (ucast a) FBSEC_RPK_GENERIC_READ_ID nonce s1) = ((FBSEC_ABORT_NONE, v), s2)"
    and v: "length v \<le> 16" "length v \<le> n"
  shows "fbsec_rpk_signed_read E (srv_client_port a X) (srv_link E g F a) dev i j n t (s, x)
    = ((0, v), (disarm s2, x'))"
proof -
  let ?s = "challenged (ucast a) FBSEC_RPK_GENERIC_READ_ID nonce s1"
  let ?body = "build_signed_body dev (ucast a) (rpk_target_id i j) cn nonce v"
  let ?sig = "fbsec_asym_sign E (fbsec_asym_keygen E FBSEC_DEMO_IDEVID_SEED)
    (transcript_of FBSEC_ASYM_RD_GENERIC_READ ?body)"
  let ?hdr = "put_u16le i @ [j]"
  have l: "length nonce = 16"
    using port_random_length [OF server_port_ok [OF F], of 16 s nonce s1] r by simp
  note d = challenged_device [OF dev r, where c = "ucast a" and d = FBSEC_RPK_GENERIC_READ_ID and nonce = nonce]
  have c: "chall ?s = \<lparr>ch_armed = True, ch_client_dev = ucast a, ch_data_id = FBSEC_RPK_GENERIC_READ_ID,
      ch_server_nonce = nonce\<rparr>" by (simp add: challenged_def upd_chall_def)
  have s2: "chall s2 = chall ?s" "astore s2 = astore ?s" "sv_my_dev (host s2) = sv_my_dev (host ?s)"
    using hook by (auto simp: fbsec_sod_port_read_before_def split: if_splits)
  have id: "as_idevid (astore s2) = fbsec_asym_keygen E FBSEC_DEMO_IDEVID_SEED"
    "fbsec_sod_port_get_device_id s2 = dev"
    using d s2 by (simp_all add: demo_device_def fbsec_sod_port_get_device_id_def)
  have t3: "target_of (?hdr @ cn) = rpk_target_id i j" "length (?hdr @ cn) = 19"
    "drop 3 (?hdr @ cn) = cn" "length ?hdr = 3"
    using rpk_target(2) [of i j cn] cr(2) by (simp_all add: put_u16le_def)
  have "handle_generic_read E F (ucast a) (?hdr @ cn) ?s = ((FBSEC_ABORT_NONE, v @ ?sig), disarm s2)"
    using hook t3 c v(1) s2(1) id signed_body_length [OF cr(2) l v(1)]
    by (simp add: handle_generic_read_def Let_def transcript_eq del: append_assoc)
  then show ?thesis
    using fetch_challenge_link [OF dev F r, where d = FBSEC_RPK_GENERIC_READ_ID and req = ?hdr
        and g = g and a = a and tgt = dev and t = t and x = x] cr v E t3(4)
      signed_body_length [OF cr(2) l v(1)]
    by (simp add: fbsec_rpk_signed_read_def Let_def client_body_eq transcript_eq
        device_requests [OF d])
qed

end
