(* ===== verification/Client_Ladder.thy ===== *)
theory Client_Ladder
  imports Client_Link Secure_Link Server_Run
begin

text \<open>
  The client's secure write verb and the key ladder against the reference
  server: each rung is one AEAD-authorized write of C01Fh, and after the rungs
  the server holds the client's keys.
\<close>

section \<open>The secure write verb on the server\<close>

text \<open>Requests for \<open>d\<close> reach the secure object server, in every state of this configuration.\<close>

definition routed :: "ed25519 \<Rightarrow> gcm \<Rightarrow> 'e platform \<Rightarrow> u16 \<Rightarrow> u32 \<Rightarrow> 'e srv \<Rightarrow> bool" where
  "routed E g F c d s \<longleftrightarrow>
     (\<forall>req s'. sv_const_od (host s') = sv_const_od (host s) \<longrightarrow>
        fbsec_server_dispatch_request E g F c d req s' =
          (case fbsec_sod_dispatch g (server_port F) c d req FBSEC_SERVER_DISPATCH_REPLY_MAX s' of
             (st, s1) \<Rightarrow> (secure_reply st, s1)))"

lemma routed_key_set:
  assumes "demo_device E dev s"
  shows "routed E g F c FBSEC_SEC_KEY_SET_DATA_ID s"
proof -
  have "try_serve_const_od FBSEC_SEC_KEY_SET_DATA_ID req s' = None"
    if "sv_const_od (host s') = sv_const_od (host s)" for req and s' :: "'a srv"
  proof -
    have "ce_index e \<noteq> 0xC01F" if "e \<in> set (sv_const_od (host s))" for e
      using assms that by (auto simp: demo_device_def)
    then show ?thesis
      using that by (simp add: try_serve_const_od_def fbsec_const_od_get_def const_od_lookup_None)
  qed
  then show ?thesis
    by (simp add: routed_def fbsec_server_dispatch_request_def try_serve_descriptor_def
        fbsec_server_security_try_def fbsec_server_handover_try_def fbsec_server_rpk_try_def
        Let_def id_index_def)
qed

text \<open>The application after a verb drew \<open>x'\<close>, saw the salt \<open>sr\<close> and left the server in \<open>s'\<close>.\<close>

definition after_verb :: "bytes \<Rightarrow> 'e srv \<Rightarrow> 'x \<Rightarrow> ('e srv \<times> 'x) app \<Rightarrow> ('e srv \<times> 'x) app" where
  "after_verb sr s' x' ap =
     (upd_keys (fbsec_client_keys_on_observed_salt (Some sr) (length sr))
        (upd_keys fbsec_client_keys_clear_observed_salt ap))\<lparr>ap_net := (s', x')\<rparr>"

lemma run_secure_write_link:
  assumes g: "gcm_ok g" and F: "platform_ok F" and wf: "sod_wf s"
    and dev: "sv_my_dev (host s) = dev" and rt: "routed E g F (ucast a) d s"
    and net: "ap_net ap = (s, x)"
    and k: "\<not> no_slot (ap_keys ap)" "fbsec_client_keys_session (ap_keys ap) = key"
    and al: "write_allowed (server_port F) (ucast a) d
        (fbsec_client_keys_effective_keyid (ap_keys ap)) key buf s i sr s1"
    and cr: "secure_port_random X FBSEC_AEAD_RAND_SIZE x = (Some cr, x')" "length cr = FBSEC_AEAD_RAND_SIZE"
    and buf: "buf \<noteq> []"
  shows "\<exists>frame rc s3. frame ! 0 = fbsec_client_keys_effective_keyid (ap_keys ap) \<and>
    fbsec_sod_port_write_after d buf
      (write_hook_state i frame (write_armed_state (server_port F) i (ucast a) sr s1)) = (rc, s3) \<and>
    release_write i s3 = srv_run E g F [Request (ucast a) d [], Request (ucast a) d frame] s \<and>
    fbsec_client_run_secure_write g (srv_client_port a X) (srv_link E g F a) dev d buf t ap
      = (if rc = FBSEC_ABORT_NONE then 0 else 2, after_verb sr (release_write i s3) x' ap)"
proof -
  let ?P = "server_port F" and ?kid = "fbsec_client_keys_effective_keyid (ap_keys ap)"
  define sA where "sA = write_armed_state ?P i (ucast a) sr s1"
  let ?ap = "upd_keys fbsec_client_keys_clear_observed_salt ap"
  note pok = server_port_ok [OF F]
  have al': "find_index s d = Some i" "length buf = unat (ent_data_len (registry s ! i))"
    "port_random ?P FBSEC_AEAD_RAND_SIZE s = (Some sr, s1)"
    using al by (auto simp: write_allowed_def Let_def)
  have kid: "\<not> key_id_invalid ?kid" "\<not> FBSEC_AEAD_KEYID_IS_CYCLIC ?kid"
    using effective_keyid [OF k(1)] slot_index [OF k(1)] k(1)
    by (auto simp: key_id_invalid_def no_slot_def word_less_nat_alt)
  have buflen: "length buf \<le> FBSEC_AEAD_MAX_PROTECTED" using sod_wf_data_len [OF wf al'(1)] al'(2) by simp
  have sr: "length sr = FBSEC_AEAD_RAND_SIZE" using port_random_length [OF pok al'(3)] .
  obtain e where s1: "s1 = upd_host (\<lambda>h. h\<lparr>sv_env := e\<rparr>) s"
    using random_state [of F 12 s "Some sr" s1] al'(3) unfolding server_port_simps by blast
  have od: "sv_const_od (host sA) = sv_const_od (host s)"
    by (simp add: sA_def write_armed_state_def s1)
  obtain ct tag where seal: "fbsec_aead_seal g key (fbsec_aead_xor_nonce cr sr)
      FBSEC_AEAD_DIR_WRITE_REQUEST ?kid dev (ucast a) d (Some cr) (Some sr) buf = Some (ct, tag)"
    "length ct = length buf" "length tag = FBSEC_AEAD_TAG_SIZE"
    and p2: "\<forall>rm. fbsec_sod_dispatch g ?P (ucast a) d (?kid # cr @ ct @ tag) rm sA =
      (case port_write_after ?P d buf (write_hook_state i (?kid # cr @ ct @ tag) sA) of
         (rc, s3) \<Rightarrow>
           if rc \<noteq> FBSEC_ABORT_NONE then (SOD_ABORT rc, release_write i s3)
           else if FBSEC_AEAD_KEYID_IS_CYCLIC ?kid
                then (SOD_OK [], start_write_session ?P i (?kid # cr @ ct @ tag) s3)
           else (SOD_OK [], release_write i s3))"
    using write_frame_opens [OF g pok wf al kid(1) cr(2) sA_def, of dev] s1 dev
    by (auto simp: sA_def write_armed_state_def fbsec_sod_port_get_device_id_def
        fbsec_sod_port_get_time_ms_def)
  let ?frame = "?kid # cr @ ct @ tag"
  obtain rc s3 where hook: "fbsec_sod_port_write_after d buf (write_hook_state i ?frame sA) = (rc, s3)"
    by force
  have p1: "fbsec_sod_dispatch g ?P (ucast a) d [] 64 s = (SOD_OK sr, sA)"
    unfolding sA_def by (rule write_arm_dispatch [OF al]) simp
  have r1: "tp_read (app_transport (srv_link E g F a)) dev d [] 12 t ?ap
      = ((SECP_OK, sr, 0), ?ap\<lparr>ap_net := (sA, x)\<rparr>)"
    using rt p1 sr net
    by (simp add: app_transport_def on_net_def routed_def secure_reply_def upd_keys_def)
  have r2: "tp_write (app_transport (srv_link E g F a)) dev d ?frame t
        (after_verb sr sA x' ap)
      = ((if rc = FBSEC_ABORT_NONE then SECP_OK else SECP_ABORT, rc),
         after_verb sr (release_write i s3) x' ap)"
    using rt od p2 hook kid(2)
    by (simp add: app_transport_def on_net_def routed_def secure_reply_def after_verb_def upd_keys_def)
  have key: "fbsec_client_keys_session (ap_keys ?ap) = key"
    "fbsec_client_keys_effective_keyid (ap_keys ?ap) = ?kid"
    using k by (simp_all add: upd_keys_def fbsec_client_keys_clear_observed_salt_def
        fbsec_client_keys_session_def no_slot_def fbsec_client_keys_effective_keyid_def)
  have n: "notify_salt (app_port (srv_client_port a X)) sr (?ap\<lparr>ap_net := (sA, x)\<rparr>)
      = after_verb sr sA x ap"
    by (simp add: notify_salt_def app_port_def after_verb_def upd_keys_def)
  have rnd: "secure_port_random (app_port (srv_client_port a X)) 12 (after_verb sr sA x ap)
      = (Some cr, after_verb sr sA x' ap)"
    using cr(1) by (simp add: app_port_def on_net_def after_verb_def)
  have "fbsec_secure_write g (app_port (srv_client_port a X)) (app_transport (srv_link E g F a)) dev d
      key ?kid buf t ?ap
    = ((if rc = FBSEC_ABORT_NONE then SECP_OK else SECP_ABORT, rc),
       after_verb sr (release_write i s3) x' ap)"
  proof -
    have cid: "secure_port_get_client_id (app_port (srv_client_port a X)) (after_verb sr sA x' ap) = ucast a"
      by (simp add: app_port_def after_verb_def)
    show ?thesis
      using kid(1) buf buflen r1 n rnd cid seal(1) r2 sr
      by (simp add: fbsec_secure_write_def Let_def)
  qed
  then have "fbsec_client_run_secure_write g (srv_client_port a X) (srv_link E g F a) dev d buf t ap
      = (if rc = FBSEC_ABORT_NONE then 0 else 2, after_verb sr (release_write i s3) x' ap)"
    by (simp add: fbsec_client_run_secure_write_def Let_def key verb_exit_def)
  moreover have "release_write i s3 = srv_run E g F [Request (ucast a) d [], Request (ucast a) d ?frame] s"
    using rt p1 p2 hook kid(2) od by (simp add: routed_def)
  ultimately show ?thesis using hook unfolding sA_def by (metis nth_Cons_0)
qed

section \<open>One rung\<close>

text \<open>Random sources that do not fail.\<close>

definition randoms_ok :: "'e platform \<Rightarrow> 'x client_port \<Rightarrow> bool" where
  "randoms_ok F X \<longleftrightarrow> platform_ok F \<and>
     (\<forall>n e. 0 < n \<longrightarrow> fst (CryptGenRandom F n e) \<noteq> None) \<and>
     (\<forall>n x. \<exists>b. fst (secure_port_random X n x) = Some b \<and> length b = n)"

lemma client_random:
  assumes "randoms_ok F X"
  shows "\<exists>b x'. secure_port_random X n x = (Some b, x') \<and> length b = n"
proof -
  obtain b where "fst (secure_port_random X n x) = Some b" "length b = n"
    using assms unfolding randoms_ok_def by blast
  then show ?thesis by (metis prod.collapse)
qed

lemma server_random:
  assumes "randoms_ok F X" "0 < n"
  shows "\<exists>b e. fbsec_sod_port_random F n s = (Some b, upd_host (\<lambda>h. h\<lparr>sv_env := e\<rparr>) s)"
proof -
  have "fst (CryptGenRandom F n (sv_env (host s))) \<noteq> None"
    using assms unfolding randoms_ok_def by blast
  then show ?thesis using assms(2)
    by (cases "CryptGenRandom F n (sv_env (host s))") (auto simp: fbsec_sod_port_random_def)
qed

text \<open>
  The device between two rungs: a booted one, well formed, with the key-set
  object registered and nobody writing it.
\<close>

definition ladder_ready :: "ed25519 \<Rightarrow> u16 \<Rightarrow> 'e srv \<Rightarrow> bool" where
  "ladder_ready E dev s \<longleftrightarrow> demo_device E dev s \<and> srv_wf s \<and> (\<exists>b. registry s = server_entries b) \<and>
     (\<forall>i. find_index s FBSEC_SEC_KEY_SET_DATA_ID = Some i \<longrightarrow> \<not> ws_in_use (write_slot s ! i))"

lemma key_set_entry:
  assumes "registry s = server_entries b"
  shows "\<exists>i. find_index s FBSEC_SEC_KEY_SET_DATA_ID = Some i \<and> i < 8 \<and>
    registry s ! i = server_entry FBSEC_SEC_KEY_SET_DATA_ID FBSEC_SOD_ACCESS_SECURE_WO 21"
  using assms by (cases b) (auto simp: find_index_def server_entries_def server_entry_def)

lemma ladder_slots:
  assumes "ladder_need T = Some A"
  shows "T \<in> {1, 2, 3}" "A \<in> {1, 2, 4}" "T \<noteq> A"
  using assms by (auto simp: ladder_need_def split: if_splits)

text \<open>The server's hook installs the key the body carries.\<close>

lemma key_set_installs:
  assumes T: "ladder_need T = Some A" and l: "last_write_kid_base s = A" and k: "get_key s T = None"
    and wf: "keys_wf s" and key: "length key = FBSEC_AEAD_KEY_SIZE"
  shows "\<exists>s'. fbsec_sod_port_write_after FBSEC_SEC_KEY_SET_DATA_ID (T # le32 v @ key) s
      = (FBSEC_ABORT_NONE, s') \<and>
    (\<forall>j. get_key s' j = (if j = T then Some key else get_key s j)) \<and>
    (T = FBSEC_DEMO_KEYID_OPERATOR \<longrightarrow> sv_stage (host s') = FBSEC_STAGE_OPERATIONAL)"
proof -
  let ?b = "T # le32 v @ key"
  obtain ok t where t: "set_key_from T key v s = (ok, t)" by force
  have T3: "T = 1 \<or> T = 2 \<or> T = 3" using ladder_slots(1) [OF T] by auto
  have ok: "ok"
    using t k T3 by (auto simp: set_key_from_def fbsec_sod_set_key_ex_def get_key_def
        fbsec_sod_has_key_def split: if_splits)
  have g: "get_key t j = (if j = T then Some key else get_key s j)" for j
    using set_key_from_get [OF wf, of T key v j] k key T3 t by auto
  have b: "length ?b = 21" "?b ! 0 = T" "drop 5 ?b = key" "get32 ?b 1 = v"
    using key get32_append [of "[T]" 1 "le32 v @ key" 0] by simp_all
  have "fbsec_sod_port_write_after FBSEC_SEC_KEY_SET_DATA_ID ?b s =
     (if fbsec_sod_has_key t FBSEC_DEMO_KEYID_OPERATOR then
        (FBSEC_ABORT_NONE, fbsec_server_lifecycle_set FBSEC_STAGE_OPERATIONAL t)
      else if fbsec_sod_has_key t FBSEC_DEMO_KEYID_PROVISIONING then
        (FBSEC_ABORT_NONE, fbsec_server_lifecycle_set FBSEC_STAGE_OWNED t)
      else (FBSEC_ABORT_NONE, t))"
    using b T l k t ok
    by (simp add: fbsec_sod_port_write_after_def fbsec_server_apply_key_set_def
        fbsec_sod_last_write_key_id_def has_key_get del: append_Cons)
  then show ?thesis using g by (auto simp: has_key_get)
qed

text \<open>The client's store after a rung: the key id of the authorizing slot, and a salt seen.\<close>

definition same_slots_of :: "client_keys \<Rightarrow> client_keys \<Rightarrow> bool" where
  "same_slots_of k k' \<longleftrightarrow> ck_session_keys k' = ck_session_keys k \<and> ck_loaded k' = ck_loaded k"

lemma same_slots_of_trans: "same_slots_of k k' \<Longrightarrow> same_slots_of k' k'' \<Longrightarrow> same_slots_of k k''"
  by (simp add: same_slots_of_def)

lemma same_slots_of_keyid [simp]:
  "same_slots_of k (fbsec_client_keys_set_keyid i k') = same_slots_of k k'"
  by (simp add: same_slots_of_def fbsec_client_keys_set_keyid_def)

lemma after_verb_simps [simp]:
  "ap_net (after_verb sr s' x' ap) = (s', x')"
  "same_slots_of (ap_keys ap) (ap_keys (after_verb sr s' x' ap))"
  by (simp_all add: after_verb_def upd_keys_def same_slots_of_def Let_def
      fbsec_client_keys_on_observed_salt_def fbsec_client_keys_clear_observed_salt_def)

lemma upd_keys_simps [simp]: "ap_keys (upd_keys f ap) = f (ap_keys ap)" "ap_net (upd_keys f ap) = ap_net ap"
  by (simp_all add: upd_keys_def)

lemma slot_selected:
  assumes "i \<in> {1, 2, 3, 4 :: u8}"
  shows "\<not> no_slot (fbsec_client_keys_set_keyid i k)"
    "fbsec_client_keys_session (fbsec_client_keys_set_keyid i k) = ck_session_keys k ! unat i"
    "fbsec_client_keys_session_set (fbsec_client_keys_set_keyid i k) = ck_loaded k ! unat i"
  using assms
  by (auto simp: fbsec_client_keys_set_keyid_def no_slot_def fbsec_client_keys_session_def
      fbsec_client_keys_session_set_def)

lemma key_rung_link:
  assumes g: "gcm_ok g" and E: "ed_ok E" and R: "randoms_ok F X"
    and s: "ladder_ready E dev s" and net: "ap_net ap = (s, x)"
    and T: "ladder_need T = Some A"
    and client: "ck_loaded (ap_keys ap) ! unat T" "ck_loaded (ap_keys ap) ! unat A"
      "length (ck_session_keys (ap_keys ap) ! unat T) = FBSEC_AEAD_KEY_SIZE"
    and server: "get_key s A = Some (ck_session_keys (ap_keys ap) ! unat A)" "get_key s T = None"
  shows "\<exists>ap' s' x'. install_key_rung g (srv_client_port a X) (srv_link E g F a) dev t T A ap = (0, ap') \<and>
    ap_net ap' = (s', x') \<and> same_slots_of (ap_keys ap) (ap_keys ap') \<and> ladder_ready E dev s' \<and>
    (\<forall>j. get_key s' j = (if j = T then Some (ck_session_keys (ap_keys ap) ! unat T) else get_key s j)) \<and>
    (T = FBSEC_DEMO_KEYID_OPERATOR \<longrightarrow> sv_stage (host s') = FBSEC_STAGE_OPERATIONAL)"
proof -
  let ?d = FBSEC_SEC_KEY_SET_DATA_ID and ?P = "server_port F"
  let ?key = "ck_session_keys (ap_keys ap) ! unat T"
  let ?apA = "upd_keys (fbsec_client_keys_set_keyid A) (upd_keys (fbsec_client_keys_set_keyid T) ap)"
  let ?kid = "fbsec_client_keys_effective_keyid (ap_keys ?apA)"
  let ?body = "T # le32 (0x1000 + ucast T) @ ?key"
  note slots = ladder_slots [OF T]
  have dev: "demo_device E dev s" and wf: "srv_wf s" and reg: "\<exists>b. registry s = server_entries b"
    using s by (auto simp: ladder_ready_def)
  have F: "platform_ok F" using R by (simp add: randoms_ok_def)
  obtain i where i: "find_index s ?d = Some i" "i < 8"
    "registry s ! i = server_entry ?d FBSEC_SOD_ACCESS_SECURE_WO 21"
    using key_set_entry reg by blast
  have idle: "\<not> ws_in_use (write_slot s ! i)" using s i(1) by (simp add: ladder_ready_def)
  obtain sr e where sr: "fbsec_sod_port_random F 12 s = (Some sr, upd_host (\<lambda>h. h\<lparr>sv_env := e\<rparr>) s)"
    using server_random [OF R, of 12 s] by auto
  obtain cr x' where cr: "secure_port_random X 12 x = (Some cr, x')" "length cr = 12"
    using client_random [OF R, of 12 x] by blast
  have A: "\<not> no_slot (ap_keys ?apA)"
    "fbsec_client_keys_session (ap_keys ?apA) = ck_session_keys (ap_keys ap) ! unat A"
    using slot_selected(1,2) [of A "fbsec_client_keys_set_keyid T (ap_keys ap)"] slots(2)
    by (auto simp: fbsec_client_keys_set_keyid_def)
  have kb: "FBSEC_AEAD_KEYID_BASE ?kid = A"
    using effective_keyid(1) [OF A(1)] by (simp add: fbsec_client_keys_set_keyid_def)
  have al: "write_allowed ?P (ucast a) ?d ?kid (ck_session_keys (ap_keys ap) ! unat A) ?body s i sr
      (upd_host (\<lambda>h. h\<lparr>sv_env := e\<rparr>) s)"
    using i idle sr server(1) kb slots(2) client(3)
    by (auto simp: write_allowed_def Let_def server_entry_def fbsec_sod_port_access_allowed_def
        fbsec_sod_port_role_allowed_def slot_held_by_other_def)
  have apnet: "ap_net ?apA = (s, x)" using net by simp
  have sodwf: "sod_wf s" using wf by (simp add: srv_wf_def)
  have mydev: "sv_my_dev (host s) = dev" using dev by (simp add: demo_device_def)
  obtain frame rc s3 where f: "frame ! 0 = ?kid"
    and hook: "fbsec_sod_port_write_after ?d ?body (write_hook_state i frame
      (write_armed_state ?P i (ucast a) sr (upd_host (\<lambda>h. h\<lparr>sv_env := e\<rparr>) s))) = (rc, s3)"
    and fin: "release_write i s3 = srv_run E g F [Request (ucast a) ?d [], Request (ucast a) ?d frame] s"
    and run: "fbsec_client_run_secure_write g (srv_client_port a X) (srv_link E g F a) dev ?d ?body t ?apA
      = (if rc = FBSEC_ABORT_NONE then 0 else 2, after_verb sr (release_write i s3) x' ?apA)"
    using run_secure_write_link [OF g F sodwf mydev routed_key_set [OF dev] apnet A al cr, of t] by auto
  let ?h = "write_hook_state i frame
      (write_armed_state ?P i (ucast a) sr (upd_host (\<lambda>h. h\<lparr>sv_env := e\<rparr>) s))"
  have hk: "get_key ?h j = get_key s j" "keys_wf ?h" "last_write_kid_base ?h = A" for j
    using f kb sodwf
    by (simp_all add: write_hook_state_def write_armed_state_def get_key_def fbsec_sod_has_key_def
        keys_wf_def sod_wf_def)
  obtain s' where s': "fbsec_sod_port_write_after ?d ?body ?h = (FBSEC_ABORT_NONE, s')"
    "\<forall>j. get_key s' j = (if j = T then Some ?key else get_key ?h j)"
    "T = FBSEC_DEMO_KEYID_OPERATOR \<longrightarrow> sv_stage (host s') = FBSEC_STAGE_OPERATIONAL"
    using key_set_installs [OF T hk(3) _ hk(2) client(3), of "0x1000 + ucast T"] hk(1) server(2) by auto
  then have rc: "rc = FBSEC_ABORT_NONE" "s3 = s'" using hook by simp_all
  have "same_identity s (release_write i s3)" unfolding fin by (rule run_identity)
  then have id: "demo_device E dev (release_write i s3)" "registry (release_write i s3) = registry s"
    using same_identity_device [OF _ dev] by (auto simp: same_identity_def)
  have wf': "srv_wf (release_write i s3)" unfolding fin by (rule run_wf [OF wf F g])
  have "\<not> ws_in_use (write_slot (release_write i s3) ! i)"
    using wf' i(2) by (simp add: release_write_def srv_wf_def sod_wf_def)
  moreover have "find_index (release_write i s3) = find_index s" by (rule find_index_cong [OF id(2)])
  ultimately have ready: "ladder_ready E dev (release_write i s3)"
    using id wf' reg i(1) by (simp add: ladder_ready_def)
  have "install_key_rung g (srv_client_port a X) (srv_link E g F a) dev t T A ap
      = (0, after_verb sr (release_write i s3) x' ?apA)"
    using run rc client slot_selected [of T "ap_keys ap"] slot_selected(3) [of A "fbsec_client_keys_set_keyid T (ap_keys ap)"]
      slots by (auto simp: install_key_rung_def Let_def fbsec_client_keys_set_keyid_def)
  moreover have "same_slots_of (ap_keys ap) (ap_keys (after_verb sr (release_write i s3) x' ?apA))"
    using after_verb_simps(2) [of ?apA sr "release_write i s3" x'] same_slots_of_trans
    by (auto simp: same_slots_of_def fbsec_client_keys_set_keyid_def)
  moreover have "get_key (release_write i s3) j = get_key s3 j" for j
    by (simp add: release_write_def get_key_def fbsec_sod_has_key_def)
  ultimately show ?thesis
    using ready s'(2,3) hk(1) rc(2)
    by (intro exI [of _ "after_verb sr (release_write i s3) x' ?apA"] exI [of _ "release_write i s3"] exI [of _ x'])
       (auto simp: release_write_def)
qed

section \<open>The whole ladder\<close>

lemma token_step:
  assumes g: "gcm_ok g" and E: "ed_ok E" and R: "randoms_ok F X"
    and s: "ladder_ready E dev s" and net: "ap_net ap = (s, x)" and wf: "client_keys_wf (ap_keys ap)"
    and tok: "16 \<le> length (fbsec_commission_claim_token ap)"
      "get_key s FBSEC_DEMO_KEYID_CLAIM_TOKEN = Some (take 16 (fbsec_commission_claim_token ap))"
    and one: "ck_loaded (ap_keys ap) ! 1" "get_key s 1 = None"
  shows "\<exists>ap' s' x'. fbsec_commission_install_provisioning_by_token g (srv_client_port a X)
      (srv_link E g F a) dev t ap = (0, ap') \<and> ap_net ap' = (s', x') \<and> ladder_ready E dev s' \<and>
    ck_key_id (ap_keys ap') = ck_key_id (ap_keys ap) \<and>
    (\<forall>i \<in> {1, 2, 3}. ck_session_keys (ap_keys ap') ! i = ck_session_keys (ap_keys ap) ! i \<and>
       ck_loaded (ap_keys ap') ! i = ck_loaded (ap_keys ap) ! i) \<and>
    (\<forall>j. get_key s' j = (if j = 1 then Some (ck_session_keys (ap_keys ap) ! 1) else get_key s j))"
proof -
  let ?tok = "take 16 (fbsec_commission_claim_token ap)"
  let ?k = "slot_loaded 4 (slot_written 4 ?tok (fbsec_client_keys_set_keyid 4 (ap_keys ap)))"
  let ?ap = "ap\<lparr>ap_keys := ?k\<rparr>"
  have l: "length (ck_session_keys (ap_keys ap)) = 16" "length (ck_loaded (ap_keys ap)) = 16"
    using wf by (simp_all add: client_keys_wf_def)
  have k: "ck_session_keys ?k = (ck_session_keys (ap_keys ap))[4 := ?tok]"
    "ck_loaded ?k = (ck_loaded (ap_keys ap))[4 := True]"
    by (simp_all add: slot_loaded_def slot_written_def fbsec_client_keys_set_keyid_def)
  have "fbsec_client_keys_set_session (Some (fbsec_commission_claim_token
      (upd_keys (fbsec_client_keys_set_keyid 4) ap))) (fbsec_client_keys_set_keyid 4 (ap_keys ap)) = (True, ?k)"
    using slot_selected(1) [of 4 "ap_keys ap"]
    by (simp add: fbsec_client_keys_set_session_def fbsec_commission_claim_token_def upd_keys_def)
       (simp add: fbsec_client_keys_set_keyid_def)
  moreover have "ap_net ?ap = (s, x)" "ladder_need 1 = Some 4"
    using net by (simp_all add: ladder_need_def)
  moreover have "ck_loaded (ap_keys ?ap) ! unat (1 :: u8)" "ck_loaded (ap_keys ?ap) ! unat (4 :: u8)"
    "length (ck_session_keys (ap_keys ?ap) ! unat (1 :: u8)) = 16"
    "get_key s 4 = Some (ck_session_keys (ap_keys ?ap) ! unat (4 :: u8))"
    using one l wf tok by (simp_all add: k)
  ultimately obtain ap' s' x' where r: "install_key_rung g (srv_client_port a X) (srv_link E g F a) dev t 1 4 ?ap
      = (0, ap')" "ap_net ap' = (s', x')" "same_slots_of ?k (ap_keys ap')" "ladder_ready E dev s'"
    "\<forall>j. get_key s' j = (if j = 1 then Some (ck_session_keys ?k ! unat (1 :: u8)) else get_key s j)"
    and ss: "fbsec_client_keys_set_session (Some (fbsec_commission_claim_token
      (upd_keys (fbsec_client_keys_set_keyid 4) ap))) (fbsec_client_keys_set_keyid 4 (ap_keys ap)) = (True, ?k)"
    using key_rung_link [OF g E R s, where ap = ?ap and x = x and T = 1 and A = 4 and a = a and t = t] one(2) by auto
  let ?ap' = "upd_keys (fbsec_client_keys_set_keyid (ck_key_id (ap_keys ap))) ap'"
  have "(upd_keys (fbsec_client_keys_set_keyid 4) ap)\<lparr>ap_keys := ?k\<rparr> = ?ap" by (simp add: upd_keys_def)
  then have "fbsec_commission_install_provisioning_by_token g (srv_client_port a X) (srv_link E g F a) dev t ap
      = (0, ?ap')"
    using ss r(1) by (simp add: fbsec_commission_install_provisioning_by_token_def Let_def)
  then show ?thesis
    using r k by (intro exI [of _ ?ap'] exI [of _ s'] exI [of _ x'])
      (auto simp: same_slots_of_def fbsec_client_keys_set_keyid_def)
qed

lemma ladder_steps:
  assumes g: "gcm_ok g" and E: "ed_ok E" and R: "randoms_ok F X"
    and s: "ladder_ready E dev s" and net: "ap_net ap = (s, x)"
    and len: "\<forall>i \<in> {1, 2, 3}. length (ck_session_keys (ap_keys ap) ! i) = FBSEC_AEAD_KEY_SIZE"
    and client: "\<forall>i \<in> {1, 2, 3}. ck_loaded (ap_keys ap) ! i"
    and server: "get_key s 1 = Some (ck_session_keys (ap_keys ap) ! 1)" "get_key s 2 = None" "get_key s 3 = None"
  shows "\<exists>ap' s' x'. fbsec_commission_install_ladder g (srv_client_port a X) (srv_link E g F a) dev t ap
      = (0, ap') \<and> ap_net ap' = (s', x') \<and> ck_key_id (ap_keys ap') = ck_key_id (ap_keys ap) \<and>
    (\<forall>j \<in> {1, 2, 3}. get_key s' j = Some (ck_session_keys (ap_keys ap) ! unat j)) \<and>
    sv_stage (host s') = FBSEC_STAGE_OPERATIONAL"
proof -
  have need: "ladder_need 2 = Some 1" "ladder_need 3 = Some 2" by (simp_all add: ladder_need_def)
  obtain ap1 s1 x1 where r1: "install_key_rung g (srv_client_port a X) (srv_link E g F a) dev t 2 1 ap = (0, ap1)"
    "ap_net ap1 = (s1, x1)" "same_slots_of (ap_keys ap) (ap_keys ap1)" "ladder_ready E dev s1"
    "\<forall>j. get_key s1 j = (if j = 2 then Some (ck_session_keys (ap_keys ap) ! unat (2 :: u8)) else get_key s j)"
    using key_rung_link [OF g E R s net need(1), where a = a and t = t] client server len by auto
  have "ck_loaded (ap_keys ap1) ! unat (3 :: u8)" "ck_loaded (ap_keys ap1) ! unat (2 :: u8)"
    "length (ck_session_keys (ap_keys ap1) ! unat (3 :: u8)) = 16"
    "get_key s1 2 = Some (ck_session_keys (ap_keys ap1) ! unat (2 :: u8))" "get_key s1 3 = None"
    using r1(3,5) client len server by (simp_all add: same_slots_of_def)
  then obtain ap2 s2 x2 where r2: "install_key_rung g (srv_client_port a X) (srv_link E g F a) dev t 3 2 ap1 = (0, ap2)"
    "ap_net ap2 = (s2, x2)"
    "\<forall>j. get_key s2 j = (if j = 3 then Some (ck_session_keys (ap_keys ap1) ! unat (3 :: u8)) else get_key s1 j)"
    "sv_stage (host s2) = FBSEC_STAGE_OPERATIONAL"
    using key_rung_link [OF g E R r1(4) r1(2) need(2), where a = a and t = t] by auto
  let ?ap = "upd_keys (fbsec_client_keys_set_keyid (ck_key_id (ap_keys ap))) ap2"
  have "fbsec_commission_install_ladder g (srv_client_port a X) (srv_link E g F a) dev t ap = (0, ?ap)"
    using r1(1) r2(1) by (simp add: fbsec_commission_install_ladder_def Let_def)
  then show ?thesis
    using r1(3,5) r2 server(1) by (intro exI [of _ ?ap] exI [of _ s2] exI [of _ x2])
      (auto simp: same_slots_of_def fbsec_client_keys_set_keyid_def)
qed

text \<open>Both steps together: a claimed device that holds only the claim token becomes operational.\<close>

lemma ladder_completes:
  assumes g: "gcm_ok g" and E: "ed_ok E" and R: "randoms_ok F X"
    and s: "ladder_ready E dev s" and net: "ap_net ap = (s, x)" and wf: "client_keys_wf (ap_keys ap)"
    and tok: "FBSEC_AEAD_KEY_SIZE \<le> length (fbsec_commission_claim_token ap)"
      "get_key s FBSEC_DEMO_KEYID_CLAIM_TOKEN = Some (take FBSEC_AEAD_KEY_SIZE (fbsec_commission_claim_token ap))"
    and client: "\<forall>i \<in> {1, 2, 3}. ck_loaded (ap_keys ap) ! i"
    and server: "\<forall>i \<in> {1, 2, 3}. get_key s i = None"
  shows "\<exists>ap1 ap2 s' x'.
    fbsec_commission_install_provisioning_by_token g (srv_client_port a X) (srv_link E g F a) dev t ap = (0, ap1) \<and>
    fbsec_commission_install_ladder g (srv_client_port a X) (srv_link E g F a) dev t ap1 = (0, ap2) \<and>
    ap_net ap2 = (s', x') \<and> ck_key_id (ap_keys ap2) = ck_key_id (ap_keys ap) \<and>
    (\<forall>j \<in> {1, 2, 3}. get_key s' j = Some (ck_session_keys (ap_keys ap) ! unat j)) \<and>
    sv_stage (host s') = FBSEC_STAGE_OPERATIONAL"
proof -
  have one: "ck_loaded (ap_keys ap) ! 1" "get_key s 1 = None" using client server by simp_all
  from token_step [OF g E R s net wf tok one, where a = a and t = t] obtain ap1 s1 x1 where
    r1: "fbsec_commission_install_provisioning_by_token g (srv_client_port a X) (srv_link E g F a) dev t ap = (0, ap1)"
    "ap_net ap1 = (s1, x1)" "ladder_ready E dev s1" "ck_key_id (ap_keys ap1) = ck_key_id (ap_keys ap)"
    and same: "\<forall>i \<in> {1, 2, 3}. ck_session_keys (ap_keys ap1) ! i = ck_session_keys (ap_keys ap) ! i \<and>
       ck_loaded (ap_keys ap1) ! i = ck_loaded (ap_keys ap) ! i"
    and keys: "\<forall>j. get_key s1 j = (if j = 1 then Some (ck_session_keys (ap_keys ap) ! 1) else get_key s j)"
    by blast
  have "\<forall>i \<in> {1, 2, 3}. length (ck_session_keys (ap_keys ap1) ! i) = FBSEC_AEAD_KEY_SIZE"
    "\<forall>i \<in> {1, 2, 3}. ck_loaded (ap_keys ap1) ! i"
    "get_key s1 1 = Some (ck_session_keys (ap_keys ap1) ! 1)" "get_key s1 2 = None" "get_key s1 3 = None"
    using same keys wf client server by simp_all
  from ladder_steps [OF g E R r1(3,2) this, where a = a and t = t] obtain ap2 s2 x2 where
    r2: "fbsec_commission_install_ladder g (srv_client_port a X) (srv_link E g F a) dev t ap1 = (0, ap2)"
    "ap_net ap2 = (s2, x2)" "ck_key_id (ap_keys ap2) = ck_key_id (ap_keys ap1)"
    "\<forall>j \<in> {1, 2, 3}. get_key s2 j = Some (ck_session_keys (ap_keys ap1) ! unat j)"
    "sv_stage (host s2) = FBSEC_STAGE_OPERATIONAL"
    by blast
  have "\<forall>j \<in> {1, 2, 3}. get_key s2 j = Some (ck_session_keys (ap_keys ap) ! unat j)"
    using r2(4) same by simp
  then show ?thesis using r1(1,4) r2 by (intro exI [of _ ap1] exI [of _ ap2] exI [of _ s2] exI [of _ x2]) simp
qed

end
