(* ===== verification/Client_Gate.thy ===== *)
theory Client_Gate
  imports Client_Link
begin

text \<open>
  The capability gate: what a satisfied security floor is evidence of, for any
  device, and what the gate answers for the reference server.
\<close>

section \<open>Evidence\<close>

definition caps_data_id :: "u8 \<Rightarrow> u32" where
  "caps_data_id sub = push_bit 16 (ucast FBSEC_DESC_CAP_INDEX) OR push_bit 8 (ucast sub)"

text \<open>
  The transport delivered a two-byte sub-index 8 that shows the bit of the
  mechanism: a floor is never met by an absent or unreadable descriptor.
\<close>

fun floor_bit :: "min_sec \<Rightarrow> u16" where
  "floor_bit SEC_AEAD = FBSEC_MECH_AEAD"
| "floor_bit SEC_SIGNED = FBSEC_MECH_RPK"
| "floor_bit SEC_X509 = FBSEC_MECH_X509"
| "floor_bit SEC_ANY = 0"

definition mech_advertised :: "'w transport \<Rightarrow> u16 \<Rightarrow> u32 \<Rightarrow> min_sec \<Rightarrow> bool" where
  "mech_advertised T target t floor \<longleftrightarrow>
     (\<exists>w buf ac w'. tp_read T target (caps_data_id 8) [] 8 t w = ((SECP_OK, buf, ac), w') \<and>
        length buf = 2 \<and> get_u16le buf AND floor_bit floor \<noteq> 0)"

lemma read_one_sub_mech:
  assumes "read_one_sub T target sub t c w = ((rc, c'), w')"
    "mechanisms c AND floor_bit f = 0 \<or> mech_advertised T target t f"
  shows "mechanisms c' AND floor_bit f = 0 \<or> mech_advertised T target t f"
  using assms
  by (auto simp: read_one_sub_def Let_def caps_data_id_def mech_advertised_def
      fbsec_caps_deserialize_sub_def split: prod.splits if_splits option.splits) metis+

lemma read_caps_loop_mech:
  assumes "read_caps_loop T target t sub c w = ((rc, c'), w')"
    "mechanisms c AND floor_bit f = 0 \<or> mech_advertised T target t f"
  shows "mechanisms c' AND floor_bit f = 0 \<or> mech_advertised T target t f"
  using assms
proof (induction T target t sub c w rule: read_caps_loop.induct)
  case (1 T target t sub c w)
  obtain rc1 c1 w1 where r: "read_one_sub T target sub t c w = ((rc1, c1), w1)" by (metis surj_pair)
  note step = read_one_sub_mech [OF r 1(3)]
  show ?case
  proof (cases "sub \<le> caps_highest_sub c \<and> sub \<noteq> 255")
    case True
    then show ?thesis
      using 1(1) [OF True r [symmetric] refl] 1(2) r step
      by (cases "rc1 = 0") (auto simp: read_caps_loop.simps [of T target t sub])
  next
    case False
    then have "read_caps_loop T target t sub c w = ((0, c), w)"
      by (subst read_caps_loop.simps) (simp only: if_False)
    then show ?thesis using 1(2,3) by simp
  qed
qed

lemma gate_evidence:
  assumes "fst (fbsec_client_enforce_min_security T target t floor w) = 0" "floor \<noteq> SEC_ANY"
  shows "mech_advertised T target t floor"
proof -
  obtain rc c w1 where r: "fbsec_client_read_caps T target t caps_zero w = ((rc, c), w1)"
    by (metis surj_pair)
  obtain rc0 c0 w0 where r0: "read_one_sub T target 0 t caps_zero w = ((rc0, c0), w0)"
    by (metis surj_pair)
  have z: "mechanisms c0 AND floor_bit floor = 0 \<or> mech_advertised T target t floor"
    by (rule read_one_sub_mech [OF r0]) (simp add: caps_zero_def)
  have "mechanisms c AND floor_bit floor = 0 \<or> mech_advertised T target t floor"
  proof (cases "rc0 \<noteq> 0 \<or> caps_highest_sub c0 > FBSEC_DESC_CAP_SUB_MAX")
    case True
    then show ?thesis using r r0 z by (auto simp: fbsec_client_read_caps_def split: if_splits)
  next
    case False
    then have "read_caps_loop T target t 1 c0 w0 = ((rc, c), w1)"
      using r r0 by (auto simp: fbsec_client_read_caps_def)
    then show ?thesis using read_caps_loop_mech z by metis
  qed
  moreover have "fbsec_client_caps_meets_min (Some c) floor"
    using assms r by (auto simp: fbsec_client_enforce_min_security_def split: if_splits)
  ultimately show ?thesis
    using assms(2) by (cases floor) (auto simp: fbsec_client_caps_meets_min_def)
qed

section \<open>The reference server\<close>

lemma serve_caps:
  assumes "n \<le> 8"
  shows "fbsec_server_dispatch_request E g F c (caps_data_id (of_nat n)) [] s
    = ((FBSEC_ABORT_NONE, fbsec_caps_serialize_sub (server_caps s) (of_nat n) 4), s)"
proof -
  have "n \<in> set [0 ..< 9]" using assms by auto
  moreover have "\<forall>n \<in> set [0 ..< 9]. id_index (caps_data_id (of_nat n)) = 0xC000 \<and>
    id_sub (caps_data_id (of_nat n)) = of_nat n \<and> caps_data_id (of_nat n) AND 0xFF = 0 \<and>
    (of_nat n :: u8) \<le> 8" by code_simp
  ultimately have i: "id_index (caps_data_id (of_nat n)) = 0xC000"
    "id_sub (caps_data_id (of_nat n)) = of_nat n" "caps_data_id (of_nat n) AND 0xFF = 0"
    "(of_nat n :: u8) \<le> 8" by blast+
  have h: "caps_highest_sub (server_caps s) = 8"
    by (simp add: server_caps_def fbsec_descriptor_build_caps_def)
  have "(of_nat n :: u8) = 0 \<or> of_nat n = (1 :: u8) \<or> of_nat n = (2 :: u8) \<or> of_nat n = (3 :: u8) \<or>
      of_nat n = (4 :: u8) \<or> of_nat n = (5 :: u8) \<or> of_nat n = (6 :: u8) \<or> of_nat n = (7 :: u8) \<or>
      of_nat n = (8 :: u8)"
    using assms by (auto simp: le_Suc_eq numeral_eq_Suc)
  then have ne: "fbsec_caps_serialize_sub (server_caps s) (of_nat n) 4 \<noteq> []"
    by (auto simp: fbsec_caps_serialize_sub_def put_u16le_def put_u32le_def le16_def le32_def)
  show ?thesis
    using i h ne by (simp add: fbsec_server_dispatch_request_def try_serve_descriptor_def Let_def)
qed

lemma caps_reply_short: "length (fbsec_caps_serialize_sub c sub 4) \<le> 4"
  by (auto simp: fbsec_caps_serialize_sub_def)

lemma read_one_sub_link:
  assumes "n \<le> 8" "fbsec_caps_deserialize_sub c (of_nat n)
      (fbsec_caps_serialize_sub (server_caps s) (of_nat n) 4) = Some c'"
  shows "read_one_sub (srv_link E g F a) tgt (of_nat n) t c (s, x) = ((0, c'), (s, x))"
  unfolding read_one_sub_def Let_def caps_data_id_def [symmetric]
  using assms(2) serve_caps [OF assms(1), of E g F "ucast a" s]
    caps_reply_short [of "server_caps s" "of_nat n"]
  by simp

lemma deserialize_highest:
  "fbsec_caps_deserialize_sub c sub b = Some c' \<Longrightarrow> sub \<noteq> 0 \<Longrightarrow> caps_highest_sub c' = caps_highest_sub c"
  by (auto simp: fbsec_caps_deserialize_sub_def Let_def split: if_splits)

lemma read_caps_loop_link:
  assumes "transfer_subs fbsec_caps_serialize_sub fbsec_caps_deserialize_sub 4 (server_caps s)
      (map of_nat [n ..< 9]) c = Some c'" "caps_highest_sub c = 8" "1 \<le> n" "n \<le> 9"
  shows "read_caps_loop (srv_link E g F a) tgt t (of_nat n) c (s, x) = ((0, c'), (s, x))"
  using assms
proof (induction "9 - n" arbitrary: n c)
  case 0
  then show ?case by (subst read_caps_loop.simps) simp
next
  case (Suc k)
  then have n: "n \<le> 8" "[n ..< 9] = n # [Suc n ..< 9]" by (simp_all add: upt_rec)
  then obtain c1 where c1: "fbsec_caps_deserialize_sub c (of_nat n)
      (fbsec_caps_serialize_sub (server_caps s) (of_nat n) 4) = Some c1"
    "transfer_subs fbsec_caps_serialize_sub fbsec_caps_deserialize_sub 4 (server_caps s)
      (map of_nat [Suc n ..< 9]) c1 = Some c'"
    using Suc.prems(1) by (auto split: option.splits)
  have "(of_nat n :: u8) \<noteq> 0 \<and> (of_nat n :: u8) \<le> 8 \<and> (of_nat n :: u8) \<noteq> 255"
    using n(1) Suc.prems(3) by (simp add: word_le_nat_alt word_unat_eq_iff unat_of_nat)
  moreover have "read_caps_loop (srv_link E g F a) tgt t (of_nat (Suc n)) c1 (s, x) = ((0, c'), (s, x))"
    using Suc.hyps(1) [of "Suc n" c1] Suc.hyps(2) Suc.prems deserialize_highest [OF c1(1)] c1(2) calculation
    by auto
  ultimately show ?case
    using Suc.prems(2)
      read_one_sub_link [OF n(1) c1(1), where E = E and g = g and F = F and a = a and tgt = tgt and t = t and x = x]
    by (subst read_caps_loop.simps) (simp add: add.commute)
qed

lemma read_caps_link:
  "fbsec_client_read_caps (srv_link E g F a) tgt t caps_zero (s, x) = ((0, server_caps s), (s, x))"
proof -
  let ?tr = "transfer_subs fbsec_caps_serialize_sub fbsec_caps_deserialize_sub 4 (server_caps s)"
  have all: "?tr caps_subs caps_zero = Some (server_caps s)" by (rule caps_codec.transfer_all) simp
  have subs: "caps_subs = 0 # map of_nat [1 ..< 9]" by code_simp
  obtain c0 where c0: "fbsec_caps_deserialize_sub caps_zero 0
      (fbsec_caps_serialize_sub (server_caps s) 0 4) = Some c0"
    "?tr (map of_nat [1 ..< 9]) c0 = Some (server_caps s)"
    using all by (auto simp: subs split: option.splits)
  have h: "caps_highest_sub c0 = 8"
    using c0(1) by (auto simp: fbsec_caps_deserialize_sub_def fbsec_caps_serialize_sub_def server_caps_def
        fbsec_descriptor_build_caps_def split: if_splits)
  show ?thesis
    using read_one_sub_link [of 0 caps_zero s c0 E g F a tgt t x] c0(1) h
      read_caps_loop_link [OF c0(2) h, of E g F a tgt t x]
    by (simp add: fbsec_client_read_caps_def)
qed

text \<open>The reference server implements AEAD and signatures, and no certificates.\<close>

lemma gate_link:
  "fbsec_client_enforce_min_security (srv_link E g F a) tgt t floor (s, x)
    = (if floor = SEC_X509 then 1 else 0, (s, x))"
  by (cases floor) (simp_all add: fbsec_client_enforce_min_security_def read_caps_link
      fbsec_client_caps_meets_min_def server_caps_def fbsec_descriptor_build_caps_def)

end
