(* ===== verification/Client_Files.thy ===== *)
theory Client_Files
  imports Client_Link
begin

text \<open>
  The client's text files round trip: a voucher written by
  \<open>emit_voucher_file\<close> loads back, and a key file loads the keys its rows show.
\<close>

section \<open>Voucher files\<close>

lemma slurp_in_comment:
  "LF \<notin> set l \<Longrightarrow> slurp_loop n (l @ LF # s) True out = slurp_loop n s False out"
  by (induction l) auto

lemma slurp_comment_line:
  "LF \<notin> set l \<Longrightarrow> slurp_loop n (CHR ''#'' # l @ LF # s) False out = slurp_loop n s False out"
  by (simp add: slurp_in_comment)

lemma slurp_text:
  assumes "CHR ''#'' \<notin> set s" "length out + length (filter (\<lambda>c. c \<noteq> LF) s) < n"
  shows "slurp_loop n s False out = Some (out @ filter (\<lambda>c. c \<noteq> LF) s)"
  using assms by (induction s arbitrary: out) auto

definition hex_digits :: "char list" where
  "hex_digits = ''0123456789ABCDEF''"

lemma hex2_digits: "set (hex2 b) \<subseteq> set hex_digits"
proof -
  have "unat b < 256" using unsigned_less [of b] by simp
  then have "unat b div 16 < 16" "unat b mod 16 < 16" by auto
  moreover have "hex_digit n \<in> set hex_digits" if "n < 16" for n
    unfolding hex_digit_def hex_digits_def by (rule nth_mem) (use that in simp)
  ultimately show ?thesis by (simp add: hex2_def)
qed

lemma print_hex_chars:
  assumes "c \<in> set (print_hex sep i bs)"
  shows "c \<in> set hex_digits \<or> (\<exists>j. c \<in> set (sep j))"
  using assms hex2_digits by (induction sep i bs rule: print_hex.induct) auto

lemma filter_print_hex:
  assumes "LF \<notin> set hex_digits"
  shows "filter (\<lambda>c. c \<noteq> LF) (print_hex sep i bs) = print_hex (\<lambda>i. filter (\<lambda>c. c \<noteq> LF) (sep i)) i bs"
proof -
  have "filter (\<lambda>c. c \<noteq> LF) (hex2 b) = hex2 b" for b
    using hex2_digits [of b] assms by (auto simp: filter_id_conv)
  then show ?thesis by (induction sep i bs rule: print_hex.induct) simp_all
qed

lemma print_hex_length:
  "\<forall>i. length (sep i) \<le> 1 \<Longrightarrow> length (print_hex sep i bs) \<le> 3 * length bs"
  by (induction sep i bs rule: print_hex.induct) (simp_all, metis add_le_mono One_nat_def plus_1_eq_Suc)

lemma decimal_108: "decimal 108 = ''108''"
  by (simp add: decimal.simps hex_digit_def)

lemma voucher_text_slurped:
  assumes "length v = 108"
  shows "slurp_hex_text (Some (voucher_file_text v)) 512
    = Some (print_hex (\<lambda>i. filter (\<lambda>c. c \<noteq> LF) (voucher_separator i)) 0 v)"
proof -
  let ?l1 = "'' SOFA demo ownership voucher (offline MASA artifact).''"
  let ?l2 = "'' serial || integrator_pub || epoch(LE) || SIG_mfg; 108 bytes hex.''"
  let ?body = "print_hex voucher_separator 0 v @ [LF]"
  have whole: "voucher_file_text v = CHR ''#'' # ?l1 @ LF # CHR ''#'' # ?l2 @ LF # ?body"
    by (simp add: voucher_file_text_def assms decimal_108)
  have l: "LF \<notin> set ?l1" "LF \<notin> set ?l2" "LF \<notin> set hex_digits" "CHR ''#'' \<notin> set hex_digits"
    by (simp_all add: hex_digits_def)
  have n: "CHR ''#'' \<notin> set ?body"
    using print_hex_chars [of "CHR ''#''" voucher_separator 0 v] l(4)
    by (auto simp: voucher_separator_def split: if_splits)
  have f: "filter (\<lambda>c. c \<noteq> LF) ?body
      = print_hex (\<lambda>i. filter (\<lambda>c. c \<noteq> LF) (voucher_separator i)) 0 v"
    using filter_print_hex [OF l(3)] by simp
  have "length (filter (\<lambda>c. c \<noteq> LF) ?body) \<le> 324"
    unfolding f using print_hex_length [of "\<lambda>i. filter (\<lambda>c. c \<noteq> LF) (voucher_separator i)" 0 v] assms
    by (simp add: voucher_separator_def)
  then have "slurp_loop 512 ?body False [] = Some (filter (\<lambda>c. c \<noteq> LF) ?body)"
    using slurp_text [OF n, of "[]" 512] by simp
  then show ?thesis
    unfolding slurp_hex_text_def whole
    using slurp_comment_line [OF l(1)] slurp_comment_line [OF l(2)] f by simp
qed

lemma voucher_file_loads:
  assumes "length v = 108"
  shows "fbsec_commission_load_voucher_file (Some (voucher_file_text v)) ap
    = (0, ap\<lparr>ap_voucher := v, ap_voucher_loaded := True\<rparr>)"
proof -
  let ?sep = "\<lambda>i. filter (\<lambda>c. c \<noteq> LF) (voucher_separator i)"
  have sep: "\<forall>i. \<forall>c\<in>set (?sep i). hex_separator c"
    by (simp add: voucher_separator_def hex_separator_def)
  have "CHR 0x00 \<notin> set (print_hex ?sep 0 v)"
  proof
    assume "CHR 0x00 \<in> set (print_hex ?sep 0 v)"
    from print_hex_chars [OF this] show False
      by (auto simp: hex_digits_def voucher_separator_def split: if_splits)
  qed
  then have "c_line (print_hex ?sep 0 v) = print_hex ?sep 0 v"
    by (auto simp: c_line_def takeWhile_eq_all_conv)
  then show ?thesis
    using voucher_text_slurped [OF assms] parse_hex_printed(2) [OF sep, of v 108 "replicate 108 0" "[]"] assms
    by (simp add: fbsec_commission_load_voucher_file_def)
qed

section \<open>Key files\<close>

definition key_row :: "nat \<times> string \<times> bytes \<Rightarrow> string" where
  "key_row r = (case r of (kid, label, key) \<Rightarrow>
     decimal kid @ '' '' @ label @ '' '' @ print_hex (\<lambda>_. []) 0 key @ [LF])"

definition key_file_text :: "(nat \<times> string \<times> bytes) list \<Rightarrow> string" where
  "key_file_text rows = concat (map key_row rows)"

definition plain_char :: "char \<Rightarrow> bool" where
  "plain_char c \<longleftrightarrow> \<not> is_sep c \<and> c \<noteq> CHR ''#'' \<and> c \<noteq> CHR 0x00"

definition key_row_ok :: "nat \<times> string \<times> bytes \<Rightarrow> bool" where
  "key_row_ok r = (case r of (kid, label, key) \<Rightarrow>
     0 < kid \<and> kid \<le> FBSEC_AEAD_KEYID_MAX \<and> label \<noteq> [] \<and> length label \<le> 200 \<and>
     (\<forall>c\<in>set label. plain_char c) \<and> length key = FBSEC_AEAD_KEY_SIZE)"

definition store_key :: "nat \<times> string \<times> bytes \<Rightarrow> client_keys \<Rightarrow> client_keys" where
  "store_key r k = (case r of (kid, label, key) \<Rightarrow> slot_loaded kid (slot_written kid key k))"

lemma strtok_word:
  assumes "tok \<noteq> []" "\<forall>c\<in>set tok. \<not> is_sep c" "is_sep c"
  shows "strtok (tok @ c # r) = Some (tok, r)"
proof -
  obtain x xs where "tok = x # xs" using assms(1) by (cases tok) auto
  then have "dropWhile is_sep (tok @ c # r) = tok @ c # r" using assms(2) by simp
  moreover have "takeWhile (\<lambda>c. \<not> is_sep c) (tok @ c # r) = tok"
    "dropWhile (\<lambda>c. \<not> is_sep c) (tok @ c # r) = c # r"
    using assms(2,3) by simp_all
  ultimately show ?thesis using assms(1) by (simp add: strtok_def Let_def)
qed

lemma kid_text:
  assumes "0 < kid" "kid \<le> 15" "bits = 32 \<or> bits = 64"
  shows "strtoul bits 0 (decimal kid) = (kid, [])" "decimal kid \<noteq> []" "length (decimal kid) \<le> 2"
    "\<forall>c\<in>set (decimal kid). plain_char c"
proof -
  have k: "kid \<in> set [1 ..< 16]" using assms by auto
  have d: "decimal kid = (if kid < 10 then [hex_digit kid] else [hex_digit 1, hex_digit (kid - 10)])"
  proof (cases "kid < 10")
    case False
    then have "kid div 10 = 1" "kid mod 10 = kid - 10" using assms(2) by arith+
    moreover have "decimal 1 = [hex_digit 1]" by (subst decimal.simps) simp
    ultimately show ?thesis using False by (subst decimal.simps) simp
  qed (subst decimal.simps, simp)
  have all: "\<forall>kid \<in> set [1 ..< 16]. let t = (if kid < 10 then [hex_digit kid]
      else [hex_digit 1, hex_digit (kid - 10)]) in
    scan_number 0 t = Some (False, kid, []) \<and> t \<noteq> [] \<and> length t \<le> 2 \<and> list_all plain_char t"
    by code_simp
  have t: "scan_number 0 (decimal kid) = Some (False, kid, []) \<and> decimal kid \<noteq> [] \<and>
      length (decimal kid) \<le> 2 \<and> list_all plain_char (decimal kid)"
    using bspec [OF all k] unfolding Let_def d .
  then show "decimal kid \<noteq> []" "length (decimal kid) \<le> 2" "\<forall>c\<in>set (decimal kid). plain_char c"
    by (simp_all add: list_all_iff)
  show "strtoul bits 0 (decimal kid) = (kid, [])"
    using t assms(2,3) by (auto simp: strtoul_def)
qed

lemma hex_text_plain:
  "\<forall>c\<in>set (print_hex (\<lambda>_. []) i bs). plain_char c" "length (print_hex (\<lambda>_. []) i bs) = 2 * length bs"
proof -
  have "\<forall>c \<in> set hex_digits. plain_char c" by code_simp
  then show "\<forall>c\<in>set (print_hex (\<lambda>_. []) i bs). plain_char c"
    using print_hex_chars [of _ "\<lambda>_. []" i bs] by auto
  show "length (print_hex (\<lambda>_. []) i bs) = 2 * length bs" by (induction bs arbitrary: i) auto
qed

lemma key_row_loads:
  assumes ok: "key_row_ok r" and bits: "bits = 32 \<or> bits = 64" and wf: "client_keys_wf k"
  shows "load_key_line bits (key_row r) k = (Row_Loaded, store_key r k)"
    "\<exists>l. key_row r = l @ [LF] \<and> LF \<notin> set l \<and> length l + 2 \<le> 256"
proof -
  obtain kid label key where r: "r = (kid, label, key)" by (metis prod_cases3)
  note o = ok [unfolded key_row_ok_def r prod.case]
  let ?hex = "print_hex (\<lambda>_. []) 0 key"
  have kid: "0 < kid" "kid \<le> 15" using o by auto
  note kt = kid_text [OF kid bits]
  have sep: "is_sep (CHR '' '')" "is_sep LF" by (simp_all add: is_sep_def)
  have hex: "?hex \<noteq> []" using hex_text_plain(2) [of 0 key] o by auto
  have whole: "key_row r = decimal kid @ CHR '' '' # label @ CHR '' '' # ?hex @ [LF]"
    by (simp add: key_row_def r)
  define keep where "keep c \<longleftrightarrow> c \<noteq> CHR ''#'' \<and> c \<noteq> CHR 0x00" for c :: char
  have "keep c" if "plain_char c" for c using that by (simp add: plain_char_def keep_def)
  moreover have "keep (CHR '' '')" "keep LF" by (simp_all add: keep_def)
  ultimately have "\<forall>c\<in>set (key_row r). keep c"
    using kt(4) hex_text_plain(1) [of 0 key] o unfolding whole by (simp add: ball_Un)
  then have line: "strip_comment (c_line (key_row r)) = key_row r"
    by (simp add: strip_comment_def c_line_def keep_def takeWhile_eq_all_conv [THEN iffD2])
  have toks: "strtok (key_row r) = Some (decimal kid, label @ CHR '' '' # ?hex @ [LF])"
    "strtok (label @ CHR '' '' # ?hex @ [LF]) = Some (label, ?hex @ [LF])"
    "strtok (?hex @ [LF]) = Some (?hex, [])"
    using strtok_word [OF kt(2) _ sep(1)] strtok_word [OF _ _ sep(1), of label]
      strtok_word [OF hex _ sep(2), of "[]"] kt(4) o hex_text_plain(1) [of 0 key] unfolding whole
    by (simp_all add: plain_char_def)
  have "parse_hex_to_buf (Some ?hex) 16 (ck_session_keys k ! kid) = (Some 16, key)"
    using parse_hex_printed(1) [of "\<lambda>_. []" key 16 "ck_session_keys k ! kid" "[]"] wf kid o by simp
  then show "load_key_line bits (key_row r) k = (Row_Loaded, store_key r k)"
    using line toks kt(1,2) kid by (simp add: load_key_line_def store_key_def r)
  have "\<not> plain_char LF" "LF \<noteq> CHR '' ''" by (simp_all add: plain_char_def is_sep_def)
  then have "LF \<notin> set (decimal kid @ CHR '' '' # label @ CHR '' '' # ?hex)"
    using kt(4) hex_text_plain(1) [of 0 key] o unfolding set_append list.set Un_iff insert_iff by blast
  moreover have "length (decimal kid @ CHR '' '' # label @ CHR '' '' # ?hex) + 2 \<le> 256"
    using kt(3) hex_text_plain(2) [of 0 key] o by simp
  ultimately show "\<exists>l. key_row r = l @ [LF] \<and> LF \<notin> set l \<and> length l + 2 \<le> 256"
    using whole by (intro exI [of _ "decimal kid @ CHR '' '' # label @ CHR '' '' # ?hex"]) simp
qed

lemma store_key_wf: "client_keys_wf k \<Longrightarrow> key_row_ok r \<Longrightarrow> client_keys_wf (store_key r k)"
  by (auto simp: store_key_def key_row_ok_def split: prod.splits intro!: slot_loaded_wf slot_written_wf)

lemma key_file_lines:
  assumes "\<forall>r\<in>set rows. key_row_ok r"
  shows "file_lines 256 (key_file_text rows) = map key_row rows"
  using assms
proof (induction rows)
  case Nil
  then show ?case by (simp add: key_file_text_def)
next
  case (Cons r rows)
  note wf = client_keys_zero_wf
  obtain l where l: "key_row r = l @ [LF]" "LF \<notin> set l" "length l + 2 \<le> 256"
    using key_row_loads(2) [OF _ _ wf, of r 32] Cons.prems by auto
  then show ?case
    using Cons file_lines_cons [OF l(2,3)] by (simp add: key_file_text_def)
qed

lemma key_lines_load:
  assumes "\<forall>r\<in>set rows. key_row_ok r" "bits = 32 \<or> bits = 64" "client_keys_wf k"
  shows "load_key_lines bits (map key_row rows) n e k = (n + length rows, e, fold store_key rows k)"
  using assms(1,3)
  by (induction rows arbitrary: n k) (simp_all add: key_row_loads(1) [OF _ assms(2)] store_key_wf)

lemma key_file_loads:
  assumes "\<forall>r\<in>set rows. key_row_ok r" "bits = 32 \<or> bits = 64" "client_keys_wf k" "rows \<noteq> []"
  shows "fbsec_client_keys_load_file bits (Some (key_file_text rows)) k = (0, fold store_key rows k)"
  using assms by (simp add: fbsec_client_keys_load_file_def key_file_lines key_lines_load)

end
