(* ===== verification/Client_Cli.thy ===== *)
theory Client_Cli
  imports Client_Commission Bus_Common Co_Fd_Client
begin

text \<open>
  The command line of the client: \<open>client_common_cli.c\<close>, the configuration types
  of \<open>client_common_cfg.h\<close>, and \<open>parse_args\<close> of \<open>fbsec_co_fd_client.c\<close>. The
  argument vector is a list of strings, program name first; \<open>bits\<close> is the width
  of the target's \<open>long\<close>, and \<open>files\<close> gives the text of a file that can be read.
  Messages on the error stream are left out.
\<close>

section \<open>Configuration\<close>

datatype client_verb = VERB_RD | VERB_WR | VERB_SRD | VERB_SWR | VERB_SRD_POLL | VERB_SWR_POLL

definition FBSEC_CLIENT_VERB_IS_SECURE :: "client_verb \<Rightarrow> bool" where
  "FBSEC_CLIENT_VERB_IS_SECURE v \<longleftrightarrow>
     v = VERB_SRD \<or> v = VERB_SWR \<or> v = VERB_SRD_POLL \<or> v = VERB_SWR_POLL"

datatype ts_state = TS_DEFAULT | TS_ON | TS_OFF

datatype cli_result = CLI_NOT_MATCHED | CLI_HANDLED | CLI_HELP | CLI_ERROR

record client_cfg =
  cc_verbose :: bool
  cc_quiet :: bool
  cc_ts_state :: ts_state
  cc_color_pref :: color_pref
  cc_timeout_ms :: u32
  cc_count :: u32
  cc_out_path :: "string option"
  cc_hex :: bool
  cc_in_batch :: bool
  cc_menu_mode :: bool
  cc_batch_path :: "string option"
  cc_stop_on_fail :: bool
  cc_min_security :: min_sec
  cc_check_policy :: bool

section \<open>Values\<close>

text \<open>
  A 32-bit number. Where \<open>long\<close> is wider than that, a value that does not fit is
  refused; where it is not, the saturated or negated value of \<open>strtoul\<close> is taken.
\<close>

definition fbsec_client_cli_parse_u32 :: "nat \<Rightarrow> string \<Rightarrow> u32 option" where
  "fbsec_client_cli_parse_u32 bits s =
     (if s = [] then None
      else (case strtoul bits 0 s of
              (v, end_ptr) \<Rightarrow>
                if end_ptr = s \<or> end_ptr \<noteq> [] then None
                else if 32 < bits \<and> v > 0xFFFFFFFF then None
                else Some (of_nat v)))"

text \<open>\<open>console\<close> tells whether the standard output is a console.\<close>

definition fbsec_client_cli_resolve_color :: "bool \<Rightarrow> color_pref \<Rightarrow> bool" where
  "fbsec_client_cli_resolve_color console pref =
     (case pref of COLOR_NEVER \<Rightarrow> False | COLOR_ALWAYS \<Rightarrow> True | COLOR_AUTO \<Rightarrow> console)"

definition fbsec_client_cli_resolve_show_ts :: "ts_state \<Rightarrow> bool \<Rightarrow> bool" where
  "fbsec_client_cli_resolve_show_ts st in_batch =
     (case st of TS_ON \<Rightarrow> True | TS_OFF \<Rightarrow> False | TS_DEFAULT \<Rightarrow> in_batch)"

section \<open>The common flags\<close>

abbreviation (input) DEV_RESERVED :: u32 where "DEV_RESERVED \<equiv> 0x0000"
abbreviation (input) DEV_BROADCAST :: u32 where "DEV_BROADCAST \<equiv> 0xFFFF"

text \<open>What the matcher may change: the index, the configuration, the device id, the key store.\<close>

type_synonym cli_state = "nat \<times> client_cfg \<times> u16 option \<times> client_keys"

definition flag_done :: "nat \<Rightarrow> (client_cfg \<Rightarrow> client_cfg) \<Rightarrow> cli_state \<Rightarrow> cli_result \<times> cli_state" where
  "flag_done n f st = (case st of (i, cfg, dev, k) \<Rightarrow> (CLI_HANDLED, (i + n, f cfg, dev, k)))"

definition flag_keys :: "nat \<Rightarrow> client_keys \<Rightarrow> cli_state \<Rightarrow> cli_result \<times> cli_state" where
  "flag_keys n k' st = (case st of (i, cfg, dev, k) \<Rightarrow> (CLI_HANDLED, (i + n, cfg, dev, k')))"

definition flag_error :: "client_keys \<Rightarrow> cli_state \<Rightarrow> cli_result \<times> cli_state" where
  "flag_error k' st = (case st of (i, cfg, dev, k) \<Rightarrow> (CLI_ERROR, (i, cfg, dev, k')))"

definition nonzero_flag ::
  "nat \<Rightarrow> string \<Rightarrow> (u32 \<Rightarrow> client_cfg \<Rightarrow> client_cfg) \<Rightarrow> cli_state \<Rightarrow> cli_result \<times> cli_state" where
  "nonzero_flag bits x f st =
     (case fbsec_client_cli_parse_u32 bits x of
        None \<Rightarrow> flag_error (snd (snd (snd st))) st
      | Some v \<Rightarrow> if v = 0 then flag_error (snd (snd (snd st))) st else flag_done 2 (f v) st)"

definition fbsec_client_cli_try_common_flag ::
  "nat \<Rightarrow> (string \<Rightarrow> string option) \<Rightarrow> string list \<Rightarrow> cli_state \<Rightarrow> cli_result \<times> cli_state" where
  "fbsec_client_cli_try_common_flag bits files argv st =
     (case st of (i, cfg, dev, k) \<Rightarrow>
      let a = argv ! i; more = i + 1 < length argv; x = argv ! (i + 1) in
      if a = ''--help'' then (CLI_HELP, st)
      else if a = ''--device-id'' \<and> more then
        (case fbsec_client_cli_parse_u32 bits x of
           None \<Rightarrow> flag_error k st
         | Some v \<Rightarrow>
             if v = DEV_RESERVED \<or> v \<ge> DEV_BROADCAST then flag_error k st
             else (CLI_HANDLED, (i + 2, cfg, map_option (\<lambda>_. ucast v) dev, k)))
      else if a = ''--timeout'' \<and> more then
        nonzero_flag bits x (\<lambda>v c. c\<lparr>cc_timeout_ms := v\<rparr>) st
      else if a = ''--count'' \<and> more then nonzero_flag bits x (\<lambda>v c. c\<lparr>cc_count := v\<rparr>) st
      else if a = ''--verbose'' then flag_done 1 (\<lambda>c. c\<lparr>cc_verbose := True\<rparr>) st
      else if a = ''--quiet'' then flag_done 1 (\<lambda>c. c\<lparr>cc_quiet := True\<rparr>) st
      else if a = ''--timestamp'' then flag_done 1 (\<lambda>c. c\<lparr>cc_ts_state := TS_ON\<rparr>) st
      else if a = ''--no-timestamp'' then flag_done 1 (\<lambda>c. c\<lparr>cc_ts_state := TS_OFF\<rparr>) st
      else if a = ''--color'' then flag_done 1 (\<lambda>c. c\<lparr>cc_color_pref := COLOR_ALWAYS\<rparr>) st
      else if a = ''--no-color'' then flag_done 1 (\<lambda>c. c\<lparr>cc_color_pref := COLOR_NEVER\<rparr>) st
      else if a = ''--encrypt'' then flag_keys 1 (fbsec_client_keys_set_use_encryption True k) st
      else if a = ''--no-encrypt'' then flag_keys 1 (fbsec_client_keys_set_use_encryption False k) st
      else if a = ''--require-aead'' then flag_done 1 (\<lambda>c. c\<lparr>cc_min_security := SEC_AEAD\<rparr>) st
      else if a = ''--require-signed'' then flag_done 1 (\<lambda>c. c\<lparr>cc_min_security := SEC_SIGNED\<rparr>) st
      else if a = ''--require-x509'' then flag_done 1 (\<lambda>c. c\<lparr>cc_min_security := SEC_X509\<rparr>) st
      else if a = ''--check-policy'' then flag_done 1 (\<lambda>c. c\<lparr>cc_check_policy := True\<rparr>) st
      else if a = ''--stop-on-fail'' then flag_done 1 (\<lambda>c. c\<lparr>cc_stop_on_fail := True\<rparr>) st
      else if a = ''--menu'' then flag_done 1 (\<lambda>c. c\<lparr>cc_menu_mode := True\<rparr>) st
      else if a = ''--hex'' then flag_done 1 (\<lambda>c. c\<lparr>cc_hex := True\<rparr>) st
      else if a = ''--batch'' \<and> more then
        flag_done 2 (\<lambda>c. c\<lparr>cc_batch_path := Some x, cc_in_batch := True\<rparr>) st
      else if a = ''--out'' \<and> more then flag_done 2 (\<lambda>c. c\<lparr>cc_out_path := Some x\<rparr>) st
      else if a = ''--key'' \<and> more then
        (if ck_key_id k = 0 then flag_error k st
         else (case fbsec_client_keys_set_session_from_hex (Some x) k of
                 (ok, k') \<Rightarrow> if \<not> ok then flag_error k' st else flag_keys 2 k' st))
      else if a = ''--main-key'' \<and> more then
        (case fbsec_client_keys_set_main_from_hex (Some x) k of
           (ok, k') \<Rightarrow> if \<not> ok then flag_error k' st else flag_keys 2 k' st)
      else if a = ''--salt'' \<and> more then
        (case fbsec_client_keys_set_salt_from_hex (Some x) k of
           (ok, k') \<Rightarrow> if \<not> ok then flag_error k' st else flag_keys 2 k' st)
      else if a = ''--keyid'' \<and> more then
        (case fbsec_client_cli_parse_u32 bits x of
           None \<Rightarrow> flag_error k st
         | Some v \<Rightarrow>
             if v < 1 \<or> v > of_nat FBSEC_AEAD_KEYID_MAX then flag_error k st
             else flag_keys 2 (fbsec_client_keys_set_keyid (ucast v) k) st)
      else if a = ''--kdf'' \<and> more then
        (if x \<noteq> ''FBSEC-SK-v1'' then flag_error k st else flag_done 2 (\<lambda>c. c) st)
      else if a = ''--key-file'' \<and> more then
        (case fbsec_client_keys_load_file bits (files x) k of
           (rc, k') \<Rightarrow> if rc \<noteq> 0 then flag_error k' st else flag_keys 2 k' st)
      else (CLI_NOT_MATCHED, st))"

lemmas flag_defs = flag_done_def flag_keys_def flag_error_def nonzero_flag_def

text \<open>A matched flag moves the index on, within the arguments.\<close>

lemma common_flag_advances:
  assumes "fbsec_client_cli_try_common_flag bits files argv (i, cfg, dev, k) = (CLI_HANDLED, (j, cfg', dev', k'))"
    "i < length argv"
  shows "i < j" "j \<le> length argv"
  using assms
  by (auto simp: fbsec_client_cli_try_common_flag_def flag_defs Let_def
      split: if_splits option.splits prod.splits)

section \<open>The options of the CANopen FD client\<close>

abbreviation (input) DEFAULT_BUS_HOST :: string where "DEFAULT_BUS_HOST \<equiv> ''127.0.0.1''"
abbreviation (input) DEFAULT_BUS_PORT :: int where "DEFAULT_BUS_PORT \<equiv> 5810"
abbreviation (input) DEFAULT_NODE_ID :: u8 where "DEFAULT_NODE_ID \<equiv> 0x7F"
abbreviation (input) DEFAULT_NAME :: string where "DEFAULT_NAME \<equiv> ''fbsec_co_fd_client''"
abbreviation (input) CLIENT_NAME_MAX :: nat where "CLIENT_NAME_MAX \<equiv> 30"
abbreviation (input) BUS_HOST_SIZE :: nat where "BUS_HOST_SIZE \<equiv> 64"

text \<open>\<open>client_variant_cfg_t\<close>; the character arrays are the strings they hold.\<close>

record client_variant_cfg =
  vc_common :: client_cfg
  vc_node_id :: u8
  vc_target_node :: u8
  vc_bus_host :: string
  vc_bus_port :: int
  vc_name :: string
  vc_voucher_path :: "string option"

definition client_cfg_zero :: client_cfg where
  "client_cfg_zero = \<lparr>cc_verbose = False, cc_quiet = False, cc_ts_state = TS_DEFAULT,
     cc_color_pref = COLOR_AUTO, cc_timeout_ms = 0, cc_count = 0, cc_out_path = None,
     cc_hex = False, cc_in_batch = False, cc_menu_mode = False, cc_batch_path = None,
     cc_stop_on_fail = False, cc_min_security = SEC_ANY, cc_check_policy = False\<rparr>"

text \<open>The defaults \<open>main\<close> stores before it reads the arguments.\<close>

definition client_defaults :: client_variant_cfg where
  "client_defaults = \<lparr>vc_common = client_cfg_zero\<lparr>cc_timeout_ms := 1000, cc_count := 1\<rparr>,
     vc_node_id = DEFAULT_NODE_ID, vc_target_node = 0x05, vc_bus_host = DEFAULT_BUS_HOST,
     vc_bus_port = DEFAULT_BUS_PORT, vc_name = DEFAULT_NAME, vc_voucher_path = None\<rparr>"

definition client_port_value :: "nat \<Rightarrow> string \<Rightarrow> int option" where
  "client_port_value bits s =
     (case fbsec_client_cli_parse_u32 bits s of
        None \<Rightarrow> None | Some v \<Rightarrow> if v < 1 \<or> v > 65535 then None else Some (uint v))"

text \<open>The host is stored before the port is looked at. \<open>True\<close> is the return value 0.\<close>

definition parse_bus_arg :: "nat \<Rightarrow> string \<Rightarrow> client_variant_cfg \<Rightarrow> bool \<times> client_variant_cfg" where
  "parse_bus_arg bits s c =
     (if s = [] then (False, c)
      else if CHR '':'' \<notin> set s then
        (case client_port_value bits s of
           Some v \<Rightarrow> (True, c\<lparr>vc_bus_port := v\<rparr>)
         | None \<Rightarrow>
             if length s \<ge> BUS_HOST_SIZE then (False, c) else (True, c\<lparr>vc_bus_host := s\<rparr>))
      else
        let h = takeWhile (\<lambda>x. x \<noteq> CHR '':'') s; p = drop (length h + 1) s in
        if h = [] \<or> length h \<ge> BUS_HOST_SIZE then (False, c)
        else (case client_port_value bits p of
                None \<Rightarrow> (False, c\<lparr>vc_bus_host := h\<rparr>)
              | Some v \<Rightarrow> (True, c\<lparr>vc_bus_host := h, vc_bus_port := v\<rparr>)))"

text \<open>
  What \<open>parse_args\<close> works on: the configuration, the process's key store, token
  and voucher, the results, and the argument of \<open>--data\<close>. The verb is the
  caller's uninitialised variable until an assignment.
\<close>

record 'w cli_run =
  cr_cfg :: client_variant_cfg
  cr_app :: "'w app"
  cr_verb :: client_verb
  cr_target :: u32
  cr_data_id :: u32
  cr_write_buf :: bytes
  cr_write_len :: nat
  cr_data_hex :: "string option"

definition upd_cfg :: "(client_variant_cfg \<Rightarrow> client_variant_cfg) \<Rightarrow> 'w cli_run \<Rightarrow> 'w cli_run" where
  "upd_cfg f r = r\<lparr>cr_cfg := f (cr_cfg r)\<rparr>"

definition node_value :: "nat \<Rightarrow> string \<Rightarrow> u32 option" where
  "node_value bits s =
     (case fbsec_client_cli_parse_u32 bits s of
        None \<Rightarrow> None
      | Some v \<Rightarrow> if v = 0 \<or> v > ucast FBSEC_CO_FD_NODE_ID_MAX then None else Some v)"

text \<open>The first pass: \<open>True\<close> when the help is asked for anywhere.\<close>

fun scan_modes :: "string list \<Rightarrow> client_cfg \<Rightarrow> bool \<times> client_cfg" where
  "scan_modes [] c = (False, c)"
| "scan_modes (a # as) c =
     (if a = ''--help'' then (True, c)
      else scan_modes as (c\<lparr>cc_menu_mode := cc_menu_mode c \<or> a = ''--menu'',
                           cc_check_policy := cc_check_policy c \<or> a = ''--check-policy''\<rparr>))"

text \<open>One option that is not a common flag: the words it takes, or an error.\<close>

definition variant_flag :: "nat \<Rightarrow> string \<Rightarrow> string option \<Rightarrow> 'w cli_run \<Rightarrow> nat option \<times> 'w cli_run" where
  "variant_flag bits a next r =
     (case next of
        None \<Rightarrow> (None, r)
      | Some x \<Rightarrow>
          if a = ''--bus'' then
            (case parse_bus_arg bits x (cr_cfg r) of
               (ok, c) \<Rightarrow> (if ok then Some 2 else None, r\<lparr>cr_cfg := c\<rparr>))
          else if a = ''--node'' then
            (case node_value bits x of
               None \<Rightarrow> (None, r)
             | Some v \<Rightarrow> (Some 2, upd_cfg (\<lambda>c. c\<lparr>vc_node_id := ucast v\<rparr>) r))
          else if a = ''--target-node'' then
            (case node_value bits x of
               None \<Rightarrow> (None, r)
             | Some v \<Rightarrow> (Some 2, upd_cfg (\<lambda>c. c\<lparr>vc_target_node := ucast v\<rparr>) r))
          else if a = ''--name'' then
            (if length x > CLIENT_NAME_MAX then (None, r)
             else (Some 2, upd_cfg (\<lambda>c. c\<lparr>vc_name := x\<rparr>) r))
          else if a = ''--data'' then (Some 2, r\<lparr>cr_data_hex := Some x\<rparr>)
          else if a = ''--voucher'' then (Some 2, upd_cfg (\<lambda>c. c\<lparr>vc_voucher_path := Some x\<rparr>) r)
          else if a = ''--claim-token'' then
            (case fbsec_commission_set_claim_token_hex (Some x) (cr_app r) of
               (rc, ap) \<Rightarrow> (if rc \<noteq> 0 then None else Some 2, r\<lparr>cr_app := ap\<rparr>))
          else (None, r))"

lemma variant_flag_words: "(Some n, r') = variant_flag bits a next r \<Longrightarrow> n = 2"
  by (auto simp: variant_flag_def split: option.splits if_splits prod.splits)

lemma common_flag_moves:
  "(CLI_HANDLED, (j, cfg', dev', k')) = fbsec_client_cli_try_common_flag bits files argv (i, cfg, dev, k) \<Longrightarrow>
   \<not> length argv \<le> i \<Longrightarrow> i < j"
  using common_flag_advances(1) [of bits files argv i cfg dev k j cfg' dev' k'] by simp

text \<open>The option loop; -1 after the help, 1 after an error.\<close>

function parse_options ::
  "nat \<Rightarrow> (string \<Rightarrow> string option) \<Rightarrow> string list \<Rightarrow> nat \<Rightarrow> 'w cli_run \<Rightarrow> int \<times> 'w cli_run" where
  "parse_options bits files argv i r =
     (if i \<ge> length argv then (0, r)
      else if argv ! i = ''--menu'' then parse_options bits files argv (i + 1) r
      else
        (case fbsec_client_cli_try_common_flag bits files argv
                (i, vc_common (cr_cfg r), None, ap_keys (cr_app r)) of
           (cr, (j, cfg, _, k)) \<Rightarrow>
             let r' = upd_cfg (\<lambda>c. c\<lparr>vc_common := cfg\<rparr>) (r\<lparr>cr_app := (cr_app r)\<lparr>ap_keys := k\<rparr>\<rparr>)
             in (case cr of
                   CLI_HELP \<Rightarrow> (-1, r')
                 | CLI_ERROR \<Rightarrow> (1, r')
                 | CLI_HANDLED \<Rightarrow> parse_options bits files argv j r'
                 | CLI_NOT_MATCHED \<Rightarrow>
                     (case variant_flag bits (argv ! i)
                             (if i + 1 < length argv then Some (argv ! (i + 1)) else None) r' of
                        (None, r'') \<Rightarrow> (1, r'')
                      | (Some n, r'') \<Rightarrow> parse_options bits files argv (i + n) r''))))"
  by pat_completeness auto
termination
  by (relation "measure (\<lambda>(bits, files, argv, i, r). length argv - i)")
     (auto dest: common_flag_moves variant_flag_words)

declare parse_options.simps [simp del]

definition parse_verb :: "string \<Rightarrow> client_verb option" where
  "parse_verb a =
     (if a = ''srd'' then Some VERB_SRD else if a = ''swr'' then Some VERB_SWR
      else if a = ''srdpoll'' then Some VERB_SRD_POLL else if a = ''swrpoll'' then Some VERB_SWR_POLL
      else None)"

text \<open>The positional arguments: \<open>True\<close> when they are accepted.\<close>

definition parse_positional :: "nat \<Rightarrow> string list \<Rightarrow> 'w cli_run \<Rightarrow> bool \<times> 'w cli_run" where
  "parse_positional bits argv r =
     (if length argv < 4 then (False, r)
      else (case parse_verb (argv ! 1) of
        None \<Rightarrow> (False, r)
      | Some v \<Rightarrow>
          let r = r\<lparr>cr_verb := v\<rparr> in
          (case fbsec_client_cli_parse_u32 bits (argv ! 2) of
             None \<Rightarrow> (False, r)
           | Some t \<Rightarrow>
               let r = r\<lparr>cr_target := t\<rparr> in
               if t = 0 \<or> t > ucast FBSEC_CO_FD_NODE_ID_MAX then (False, r)
               else (case fbsec_client_cli_parse_u32 bits (argv ! 3) of
                       None \<Rightarrow> (False, r)
                     | Some d \<Rightarrow>
                         (fbsec_co_fd_data_id_is_canopen_form d, r\<lparr>cr_data_id := d\<rparr>)))))"

definition needs_payload :: "client_verb \<Rightarrow> bool" where
  "needs_payload v \<longleftrightarrow> v = VERB_SWR \<or> v = VERB_SWR_POLL"

text \<open>The payload of \<open>--data\<close>, and the collision of the two node ids.\<close>

definition check_payload :: "'w cli_run \<Rightarrow> bool \<times> 'w cli_run" where
  "check_payload r =
     (if cc_menu_mode (vc_common (cr_cfg r)) then (True, r)
      else
        (case (if needs_payload (cr_verb r) then
                 (case cr_data_hex r of
                    None \<Rightarrow> (False, r)
                  | Some h \<Rightarrow>
                      (case fbsec_client_cli_parse_hex (Some h) FBSEC_AEAD_MAX_PROTECTED (cr_write_buf r) of
                         (None, b) \<Rightarrow> (False, r\<lparr>cr_write_buf := b\<rparr>)
                       | (Some n, b) \<Rightarrow>
                           (n \<noteq> 0 \<and> n \<le> FBSEC_AEAD_MAX_PROTECTED, r\<lparr>cr_write_buf := b, cr_write_len := n\<rparr>)))
               else (True, r)) of
           (ok, r) \<Rightarrow> (ok \<and> ucast (vc_node_id (cr_cfg r)) \<noteq> cr_target r, r)))"

definition check_credentials :: "'w cli_run \<Rightarrow> bool" where
  "check_credentials r =
     (let k = ap_keys (cr_app r);
          session = fbsec_client_keys_session_set k; main = ck_main_key_set k;
          any_secure = (if cc_menu_mode (vc_common (cr_cfg r)) then session \<or> main
                        else FBSEC_CLIENT_VERB_IS_SECURE (cr_verb r))
      in if any_secure \<or> session \<or> main \<or> ck_key_id k \<noteq> 0 then
           ck_key_id k \<noteq> 0 \<and> (session \<or> main) \<and> \<not> (main \<and> ck_salt_len k = 0) \<and> \<not> (session \<and> main)
         else True)"

definition parse_args ::
  "nat \<Rightarrow> (string \<Rightarrow> string option) \<Rightarrow> string list \<Rightarrow> 'w cli_run \<Rightarrow> int \<times> 'w cli_run" where
  "parse_args bits files argv r =
     (let r = r\<lparr>cr_write_len := 0, cr_data_hex := None\<rparr> in
      if length argv < 2 then (1, r)
      else (case scan_modes (tl argv) (vc_common (cr_cfg r)) of
              (help, cfg) \<Rightarrow>
                let r = upd_cfg (\<lambda>c. c\<lparr>vc_common := cfg\<rparr>) r in
                if help then (-1, r)
                else
                  let modes = cc_menu_mode cfg \<or> cc_check_policy cfg in
                  (case (if modes then (True, r) else parse_positional bits argv r) of
                     (ok, r) \<Rightarrow>
                       if \<not> ok then (1, r)
                       else (case parse_options bits files argv (if modes then 1 else 4) r of
                               (rc, r) \<Rightarrow>
                                 if rc \<noteq> 0 then (rc, r)
                                 else (case check_payload r of
                                         (ok, r) \<Rightarrow>
                                           if \<not> ok then (1, r)
                                           else (if check_credentials r then 0 else 1, r))))))"

section \<open>What the parser accepts\<close>

definition cfg_ok :: "client_cfg \<Rightarrow> bool" where
  "cfg_ok c \<longleftrightarrow> cc_timeout_ms c \<noteq> 0 \<and> cc_count c \<noteq> 0"

definition cli_keys_ok :: "client_keys \<Rightarrow> bool" where
  "cli_keys_ok k \<longleftrightarrow> client_keys_wf k \<and> ck_key_id k \<le> 15"

definition node_in_range :: "u8 \<Rightarrow> bool" where
  "node_in_range n \<longleftrightarrow> 0 < n \<and> n \<le> FBSEC_CO_FD_NODE_ID_MAX"

definition options_ok :: "'w cli_run \<Rightarrow> bool" where
  "options_ok r \<longleftrightarrow> cfg_ok (vc_common (cr_cfg r)) \<and> cli_keys_ok (ap_keys (cr_app r)) \<and>
     node_in_range (vc_node_id (cr_cfg r)) \<and> node_in_range (vc_target_node (cr_cfg r)) \<and>
     length (vc_bus_host (cr_cfg r)) < BUS_HOST_SIZE \<and>
     0 < vc_bus_port (cr_cfg r) \<and> vc_bus_port (cr_cfg r) \<le> 65535 \<and>
     length (vc_name (cr_cfg r)) \<le> CLIENT_NAME_MAX"

text \<open>The modes are only ever switched on.\<close>

definition modes_kept :: "client_cfg \<Rightarrow> client_cfg \<Rightarrow> bool" where
  "modes_kept c c' \<longleftrightarrow> (cc_menu_mode c \<longrightarrow> cc_menu_mode c') \<and> (cc_check_policy c \<longrightarrow> cc_check_policy c')"

lemma load_key_lines_id: "ck_key_id (snd (snd (load_key_lines bits ls n e k))) = ck_key_id k"
proof (induction bits ls n e k rule: load_key_lines.induct)
  case (2 bits l ls n e k)
  have "ck_key_id (snd (load_key_line bits l k)) = ck_key_id k"
    by (auto simp: load_key_line_def slot_written_def slot_loaded_def split: option.split prod.split)
  then show ?case using 2 by (auto split: prod.split row_result.split)
qed simp

lemma key_setters_ok:
  assumes "cli_keys_ok k"
  shows "fbsec_client_keys_set_session_from_hex h k = (ok, k') \<Longrightarrow> cli_keys_ok k'"
    "fbsec_client_keys_set_main_from_hex h k = (ok, k') \<Longrightarrow> cli_keys_ok k'"
    "fbsec_client_keys_set_salt_from_hex h k = (ok, k') \<Longrightarrow> cli_keys_ok k'"
    "fbsec_client_keys_load_file bits f k = (rc, k') \<Longrightarrow> cli_keys_ok k'"
    "cli_keys_ok (fbsec_client_keys_set_use_encryption on k)"
    "i \<le> 15 \<Longrightarrow> cli_keys_ok (fbsec_client_keys_set_keyid i k)"
proof -
  have wf: "client_keys_wf k" and i: "ck_key_id k \<le> 15" using assms by (simp_all add: cli_keys_ok_def)
  { assume h: "fbsec_client_keys_set_session_from_hex h k = (ok, k')"
    then have "ck_key_id k' = ck_key_id k"
      by (auto simp: fbsec_client_keys_set_session_from_hex_def slot_written_def slot_loaded_def Let_def
          split: if_splits prod.splits)
    then show "cli_keys_ok k'" using set_session_from_hex_wf [OF wf, of h] i h by (simp add: cli_keys_ok_def) }
  { assume h: "fbsec_client_keys_set_main_from_hex h k = (ok, k')"
    then have "ck_key_id k' = ck_key_id k"
      by (auto simp: fbsec_client_keys_set_main_from_hex_def split: if_splits prod.splits)
    then show "cli_keys_ok k'" using set_main_wf [OF wf, of h] i h by (simp add: cli_keys_ok_def) }
  { assume h: "fbsec_client_keys_set_salt_from_hex h k = (ok, k')"
    then have "ck_key_id k' = ck_key_id k"
      by (auto simp: fbsec_client_keys_set_salt_from_hex_def split: if_splits prod.splits option.splits)
    then show "cli_keys_ok k'" using set_salt_wf [OF wf, of h] i h by (simp add: cli_keys_ok_def) }
  { assume h: "fbsec_client_keys_load_file bits f k = (rc, k')"
    then have "ck_key_id k' = ck_key_id k"
      using load_key_lines_id [of bits _ 0 False k]
      by (auto simp: fbsec_client_keys_load_file_def split: if_splits prod.splits option.splits)
         (metis snd_conv)+
    then show "cli_keys_ok k'" using load_file_wf [OF wf, of bits f] i h by (simp add: cli_keys_ok_def) }
  show "cli_keys_ok (fbsec_client_keys_set_use_encryption on k)"
    "i \<le> 15 \<Longrightarrow> cli_keys_ok (fbsec_client_keys_set_keyid i k)"
    using wf i by (auto simp: cli_keys_ok_def client_keys_defs client_keys_wf_def)
qed

lemma ucast_le: "(v :: u32) \<le> ucast (b :: u8) \<Longrightarrow> ucast v \<le> b"
proof -
  assume "v \<le> ucast b"
  then have v: "unat v \<le> unat b" by (simp add: word_le_nat_alt)
  moreover have "unat b < 256" using unsigned_less [of b] by simp
  ultimately have "unat (ucast v :: u8) = unat v" by (simp add: unsigned_ucast_eq take_bit_nat_eq_self)
  then show ?thesis using v by (simp add: word_le_nat_alt)
qed

lemma common_flag_ok:
  assumes "fbsec_client_cli_try_common_flag bits files argv (i, cfg, dev, k) = (cr, (j, cfg', dev', k'))"
    and ok: "cfg_ok cfg" "cli_keys_ok k"
  shows "cfg_ok cfg' \<and> cli_keys_ok k' \<and> modes_kept cfg cfg'"
proof -
  have "cli_keys_ok k'"
    using assms(1) ok(2) key_setters_ok [OF ok(2)] ucast_le [of _ 15]
    by (auto simp: fbsec_client_cli_try_common_flag_def flag_defs Let_def not_less
        split: if_splits option.splits prod.splits)
  moreover have "cfg_ok cfg' \<and> modes_kept cfg cfg'"
    using assms(1) ok(1)
    by (auto simp: fbsec_client_cli_try_common_flag_def flag_defs Let_def cfg_ok_def modes_kept_def
        split: if_splits option.splits prod.splits)
  ultimately show ?thesis by simp
qed

lemma node_value_range:
  assumes "node_value bits x = Some v"
  shows "node_in_range (ucast v)"
proof -
  have v: "v \<noteq> 0" "v \<le> ucast (127 :: u8)"
    using assms by (auto simp: node_value_def not_less split: option.splits if_splits)
  then have "unat v \<le> 127" "unat v \<noteq> 0" by (simp_all add: word_le_nat_alt unat_eq_zero)
  then have "unat (ucast v :: u8) = unat v" by (simp add: unsigned_ucast_eq take_bit_nat_eq_self)
  then have "(ucast v :: u8) \<noteq> 0" using \<open>unat v \<noteq> 0\<close> by auto
  then show ?thesis using ucast_le [OF v(2)] by (simp add: node_in_range_def word_gt_0)
qed

lemma client_port_value_range: "client_port_value bits x = Some v \<Longrightarrow> 0 < v \<and> v \<le> 65535"
  by (auto simp: client_port_value_def word_less_def word_le_def not_less split: option.splits if_splits)

lemma bus_arg_ok:
  assumes "parse_bus_arg bits x c = (ok, c')"
  shows "vc_common c' = vc_common c" "vc_node_id c' = vc_node_id c" "vc_target_node c' = vc_target_node c"
    "vc_name c' = vc_name c" "length (vc_bus_host c) < BUS_HOST_SIZE \<Longrightarrow> length (vc_bus_host c') < BUS_HOST_SIZE"
    "0 < vc_bus_port c \<and> vc_bus_port c \<le> 65535 \<Longrightarrow> 0 < vc_bus_port c' \<and> vc_bus_port c' \<le> 65535"
  using assms
  by (auto simp: parse_bus_arg_def Let_def not_le dest: client_port_value_range split: if_splits option.splits)

text \<open>The results of the positional arguments stay what they were.\<close>

definition same_positional :: "'w cli_run \<Rightarrow> 'w cli_run \<Rightarrow> bool" where
  "same_positional r r' \<longleftrightarrow> cr_verb r' = cr_verb r \<and> cr_target r' = cr_target r \<and>
     cr_data_id r' = cr_data_id r \<and> cr_write_buf r' = cr_write_buf r \<and>
     ap_net (cr_app r') = ap_net (cr_app r) \<and>
     modes_kept (vc_common (cr_cfg r)) (vc_common (cr_cfg r'))"

lemma variant_flag_ok:
  assumes "variant_flag bits a x r = (n, r')" "options_ok r"
  shows "options_ok r' \<and> same_positional r r'"
proof -
  have s: "same_positional r r'"
    using assms(1) bus_arg_ok(1)
    by (auto simp: variant_flag_def same_positional_def upd_cfg_def modes_kept_def
        fbsec_commission_set_claim_token_hex_def Let_def split: option.splits if_splits prod.splits)
  show ?thesis
  proof (cases "a = ''--bus''")
    case True
    then show ?thesis
      using s assms bus_arg_ok
      by (auto simp: variant_flag_def options_ok_def split: option.splits prod.splits)
  next
    case False
    then show ?thesis
      using s assms
      by (auto simp: variant_flag_def options_ok_def upd_cfg_def fbsec_commission_set_claim_token_hex_def Let_def
          dest: node_value_range split: option.splits if_splits prod.splits)
  qed
qed

lemma parse_options_ok:
  assumes "parse_options bits files argv i r = (rc, r')" "options_ok r"
  shows "options_ok r' \<and> same_positional r r'"
  using assms
proof (induction bits files argv i r arbitrary: rc r' rule: parse_options.induct)
  case (1 bits files argv i r)
  show ?case
  proof (cases "i \<ge> length argv \<or> argv ! i = ''--menu''")
    case True
    have same: "same_positional r r" by (simp add: same_positional_def modes_kept_def)
    show ?thesis
    proof (cases "i \<ge> length argv")
      case True
      then show ?thesis using 1(4,5) same by (simp add: parse_options.simps [of bits files argv i])
    next
      case False
      then have "parse_options bits files argv (i + 1) r = (rc, r')"
        using 1(4) True by (simp add: parse_options.simps [of bits files argv i])
      then show ?thesis using 1(1) False True 1(5) by blast
    qed
  next
    case False
    obtain cr j cfg d k where f: "fbsec_client_cli_try_common_flag bits files argv
        (i, vc_common (cr_cfg r), None, ap_keys (cr_app r)) = (cr, (j, cfg, d, k))"
      by (cases "fbsec_client_cli_try_common_flag bits files argv
        (i, vc_common (cr_cfg r), None, ap_keys (cr_app r))") auto
    define r1 where "r1 = upd_cfg (\<lambda>c. c\<lparr>vc_common := cfg\<rparr>) (r\<lparr>cr_app := (cr_app r)\<lparr>ap_keys := k\<rparr>\<rparr>)"
    have o: "options_ok r1" "same_positional r r1"
      using common_flag_ok [OF f] 1(5)
      by (auto simp: r1_def options_ok_def upd_cfg_def same_positional_def)
    have trans: "same_positional r1 r2 \<Longrightarrow> same_positional r r2" for r2
      using o(2) by (auto simp: same_positional_def modes_kept_def)
    note step = 1(4) [unfolded parse_options.simps [of bits files argv i r]]
    show ?thesis
    proof (cases cr)
      case CLI_HANDLED
      then have "parse_options bits files argv j r1 = (rc, r')"
        using step False f by (simp add: r1_def Let_def)
      then show ?thesis
        using 1(3) [OF _ _ f [symmetric] refl refl refl _ CLI_HANDLED, of r1] False o trans
        by (auto simp: r1_def)
    next
      case CLI_NOT_MATCHED
      obtain n r2 where v: "variant_flag bits (argv ! i)
          (if i + 1 < length argv then Some (argv ! (i + 1)) else None) r1 = (n, r2)" by fastforce
      have o2: "options_ok r2" "same_positional r1 r2" using variant_flag_ok [OF v o(1)] by simp_all
      have trans2: "same_positional r2 r3 \<Longrightarrow> same_positional r r3" for r3
        using trans [OF o2(2)] by (auto simp: same_positional_def modes_kept_def)
      show ?thesis
      proof (cases n)
        case None
        then have "r' = r2" using step False f v CLI_NOT_MATCHED by (simp add: r1_def [symmetric] Let_def)
        then show ?thesis using o2 trans by simp
      next
        case (Some m)
        then have "parse_options bits files argv (i + m) r2 = (rc, r')"
          using step False f v CLI_NOT_MATCHED by (simp add: r1_def [symmetric] Let_def)
        then show ?thesis
          using 1(2) [OF _ _ f [symmetric] refl refl refl _ CLI_NOT_MATCHED, of r1 n r2 m] False o2 trans2 v Some
          by (auto simp: r1_def)
      qed
    qed (use step False f o in \<open>auto simp: r1_def Let_def\<close>)
  qed
qed

lemma scan_modes_ok:
  "scan_modes as c = (h, c') \<Longrightarrow> modes_kept c c' \<and> (cfg_ok c \<longrightarrow> cfg_ok c')"
  by (induction as c rule: scan_modes.induct) (auto simp: modes_kept_def cfg_ok_def split: if_splits)

lemma positional_ok:
  assumes "parse_positional bits argv r = (True, r')"
  shows "FBSEC_CLIENT_VERB_IS_SECURE (cr_verb r') \<and> 0 < cr_target r' \<and> cr_target r' \<le> 127 \<and>
    fbsec_co_fd_data_id_is_canopen_form (cr_data_id r') \<and>
    cr_cfg r' = cr_cfg r \<and> cr_app r' = cr_app r \<and> cr_write_buf r' = cr_write_buf r"
  using assms
  by (auto simp: parse_positional_def parse_verb_def FBSEC_CLIENT_VERB_IS_SECURE_def Let_def not_less word_gt_0
      split: if_splits option.splits)

lemma check_payload_ok:
  assumes "check_payload r = (True, r')" "\<not> cc_menu_mode (vc_common (cr_cfg r))"
    and "length (cr_write_buf r) = FBSEC_AEAD_MAX_PROTECTED"
  shows "cr_cfg r' = cr_cfg r \<and> cr_app r' = cr_app r \<and> cr_verb r' = cr_verb r \<and> cr_target r' = cr_target r \<and>
    cr_data_id r' = cr_data_id r \<and> length (cr_write_buf r') = FBSEC_AEAD_MAX_PROTECTED \<and>
    ucast (vc_node_id (cr_cfg r)) \<noteq> cr_target r \<and>
    (needs_payload (cr_verb r) \<longrightarrow> 0 < cr_write_len r' \<and> cr_write_len r' \<le> FBSEC_AEAD_MAX_PROTECTED)"
proof -
  have l: "length b = length (cr_write_buf r)"
    if "fbsec_client_cli_parse_hex h FBSEC_AEAD_MAX_PROTECTED (cr_write_buf r) = (n, b)" for h n b
    using that
    by (auto simp: fbsec_client_cli_parse_hex_def split: option.splits
        dest!: arg_cong [where f = "\<lambda>p. length (snd p)"])
  show ?thesis
    using assms l
    by (auto simp: check_payload_def split: if_splits option.splits prod.splits)
qed

text \<open>A command line that is accepted for a single operation is a complete and valid one.\<close>

definition single_shot_ok :: "'w cli_run \<Rightarrow> bool" where
  "single_shot_ok r \<longleftrightarrow> options_ok r \<and> FBSEC_CLIENT_VERB_IS_SECURE (cr_verb r) \<and>
     0 < cr_target r \<and> cr_target r \<le> 127 \<and> ucast (vc_node_id (cr_cfg r)) \<noteq> cr_target r \<and>
     fbsec_co_fd_data_id_is_canopen_form (cr_data_id r) \<and>
     (needs_payload (cr_verb r) \<longrightarrow> 0 < cr_write_len r \<and> cr_write_len r \<le> FBSEC_AEAD_MAX_PROTECTED) \<and>
     length (cr_write_buf r) = FBSEC_AEAD_MAX_PROTECTED \<and>
     \<not> no_slot (ap_keys (cr_app r)) \<and>
     (fbsec_client_keys_session_set (ap_keys (cr_app r)) \<noteq> ck_main_key_set (ap_keys (cr_app r))) \<and>
     (ck_main_key_set (ap_keys (cr_app r)) \<longrightarrow> 0 < ck_salt_len (ap_keys (cr_app r)))"

lemma credentials_ok:
  assumes "check_credentials r" "\<not> cc_menu_mode (vc_common (cr_cfg r))"
    and "FBSEC_CLIENT_VERB_IS_SECURE (cr_verb r)" "cli_keys_ok (ap_keys (cr_app r))"
  shows "\<not> no_slot (ap_keys (cr_app r)) \<and>
    (fbsec_client_keys_session_set (ap_keys (cr_app r)) \<noteq> ck_main_key_set (ap_keys (cr_app r))) \<and>
    (ck_main_key_set (ap_keys (cr_app r)) \<longrightarrow> 0 < ck_salt_len (ap_keys (cr_app r)))"
  using assms by (auto simp: check_credentials_def Let_def cli_keys_ok_def no_slot_def word_le_nat_alt)

lemma parse_args_accepts:
  assumes p: "parse_args bits files argv r0 = (0, r)"
    and ok: "options_ok r0" "length (cr_write_buf r0) = FBSEC_AEAD_MAX_PROTECTED"
    and mode: "\<not> cc_menu_mode (vc_common (cr_cfg r))" "\<not> cc_check_policy (vc_common (cr_cfg r))"
  shows "single_shot_ok r \<and> ap_net (cr_app r) = ap_net (cr_app r0)"
proof -
  define r1 where "r1 = r0\<lparr>cr_write_len := 0, cr_data_hex := None\<rparr>"
  obtain h cfg where s: "scan_modes (tl argv) (vc_common (cr_cfg r1)) = (h, cfg)" by force
  define r2 where "r2 = upd_cfg (\<lambda>c. c\<lparr>vc_common := cfg\<rparr>) r1"
  define modes where "modes = (cc_menu_mode cfg \<or> cc_check_policy cfg)"
  obtain ok3 r3 where p3: "(if modes then (True, r2) else parse_positional bits argv r2) = (ok3, r3)" by force
  obtain rc4 r4 where p4: "parse_options bits files argv (if modes then 1 else 4) r3 = (rc4, r4)" by force
  obtain ok5 r5 where p5: "check_payload r4 = (ok5, r5)" by force
  note p' = p [unfolded parse_args_def r1_def [symmetric]]
  have fin: "\<not> h" "ok3" "rc4 = 0" "ok5" "check_credentials r5" "r = r5"
    using p' s p3 p4 p5
    by (auto simp: Let_def r2_def [symmetric] modes_def [symmetric] split: if_splits)
  have o2: "options_ok r2" "length (cr_write_buf r2) = FBSEC_AEAD_MAX_PROTECTED" "ap_net (cr_app r2) = ap_net (cr_app r0)"
    using ok scan_modes_ok [OF s] by (auto simp: r2_def r1_def options_ok_def upd_cfg_def)
  have o3: "options_ok r3" "cr_write_buf r3 = cr_write_buf r2" "cr_cfg r3 = cr_cfg r2" "cr_app r3 = cr_app r2"
    using o2(1) p3 fin(2) positional_ok [of bits argv r2 r3]
    by (auto simp: options_ok_def split: if_splits)
  have o4: "options_ok r4" "same_positional r3 r4" using parse_options_ok [OF p4 o3(1)] by simp_all
  have cfg5: "cr_cfg r5 = cr_cfg r4" using p5 by (auto simp: check_payload_def split: if_splits option.splits prod.splits)
  have m4: "\<not> cc_menu_mode (vc_common (cr_cfg r4))" "\<not> cc_check_policy (vc_common (cr_cfg r4))"
    using mode fin(6) cfg5 by simp_all
  then have nm: "\<not> modes"
    using o4(2) o3(3) by (auto simp: same_positional_def modes_kept_def modes_def r2_def upd_cfg_def)
  note pos = positional_ok [of bits argv r2 r3]
  have b4: "length (cr_write_buf r4) = FBSEC_AEAD_MAX_PROTECTED"
    using o4(2) o3(2) o2(2) by (simp add: same_positional_def)
  note pay = check_payload_ok [OF p5 [unfolded eqTrueI [OF fin(4)]] m4(1) b4]
  have "options_ok r5" using o4(1) pay by (auto simp: options_ok_def)
  moreover have "FBSEC_CLIENT_VERB_IS_SECURE (cr_verb r5) \<and> 0 < cr_target r5 \<and> cr_target r5 \<le> 127 \<and>
    fbsec_co_fd_data_id_is_canopen_form (cr_data_id r5)"
    using pos p3 nm fin(2) pay o4(2) by (simp add: same_positional_def)
  ultimately show ?thesis
    using pay credentials_ok [of r5] fin m4(1) o4(2) o3(4) o2(3)
    by (simp add: single_shot_ok_def options_ok_def same_positional_def)
qed

section \<open>An accepted operation is the one the words spell\<close>

lemma variant_flag_data:
  "variant_flag bits a x r = (n, r') \<Longrightarrow>
   cr_data_hex r' = cr_data_hex r \<or> a = ''--data'' \<and> x \<noteq> None \<and> cr_data_hex r' = x"
  by (auto simp: variant_flag_def upd_cfg_def split: option.splits if_splits prod.splits)

lemma parse_options_data:
  assumes "parse_options bits files argv i r = (rc, r')"
  shows "cr_data_hex r' = cr_data_hex r \<or>
    (\<exists>j. i \<le> j \<and> j + 1 < length argv \<and> argv ! j = ''--data'' \<and> cr_data_hex r' = Some (argv ! (j + 1)))"
  using assms
proof (induction bits files argv i r arbitrary: rc r' rule: parse_options.induct)
  case (1 bits files argv i r)
  show ?case
  proof (cases "i \<ge> length argv")
    case True
    then show ?thesis using 1(4) by (simp add: parse_options.simps [of bits files argv i])
  next
    case len: False
    show ?thesis
    proof (cases "argv ! i = ''--menu''")
      case True
      then have "parse_options bits files argv (i + 1) r = (rc, r')"
        using 1(4) len by (simp add: parse_options.simps [of bits files argv i])
      from 1(1) [OF len True this] show ?thesis by (meson Suc_leD Suc_eq_plus1 le_trans le_add1)
    next
      case False
      obtain cr j cfg d k where f: "fbsec_client_cli_try_common_flag bits files argv
          (i, vc_common (cr_cfg r), None, ap_keys (cr_app r)) = (cr, (j, cfg, d, k))"
        by (cases "fbsec_client_cli_try_common_flag bits files argv
          (i, vc_common (cr_cfg r), None, ap_keys (cr_app r))") auto
      define r1 where "r1 = upd_cfg (\<lambda>c. c\<lparr>vc_common := cfg\<rparr>) (r\<lparr>cr_app := (cr_app r)\<lparr>ap_keys := k\<rparr>\<rparr>)"
      have d1: "cr_data_hex r1 = cr_data_hex r" by (simp add: r1_def upd_cfg_def)
      note step = 1(4) [unfolded parse_options.simps [of bits files argv i r]]
      show ?thesis
      proof (cases cr)
        case CLI_HANDLED
        then have "parse_options bits files argv j r1 = (rc, r')"
          using step False len f by (simp add: r1_def Let_def)
        moreover have "i < j" using common_flag_advances(1) f CLI_HANDLED len by simp
        ultimately have "cr_data_hex r' = cr_data_hex r1 \<or> (\<exists>l. j \<le> l \<and> l + 1 < length argv \<and>
            argv ! l = ''--data'' \<and> cr_data_hex r' = Some (argv ! (l + 1)))"
          using 1(3) [OF _ _ f [symmetric] refl refl refl _ CLI_HANDLED, of r1] False len
          by (auto simp: r1_def)
        then show ?thesis using d1 \<open>i < j\<close> by (metis less_imp_le le_trans)
      next
        case CLI_NOT_MATCHED
        obtain n r2 where v: "variant_flag bits (argv ! i)
            (if i + 1 < length argv then Some (argv ! (i + 1)) else None) r1 = (n, r2)" by fastforce
        have d2: "cr_data_hex r2 = cr_data_hex r \<or>
            (\<exists>j. i \<le> j \<and> j + 1 < length argv \<and> argv ! j = ''--data'' \<and> cr_data_hex r2 = Some (argv ! (j + 1)))"
          using variant_flag_data [OF v] d1 by (auto split: if_splits)
        show ?thesis
        proof (cases n)
          case None
          then have "r' = r2" using step False len f v CLI_NOT_MATCHED by (simp add: r1_def [symmetric] Let_def)
          then show ?thesis using d2 by simp
        next
          case (Some m)
          then have p: "parse_options bits files argv (i + m) r2 = (rc, r')"
            using step False len f v CLI_NOT_MATCHED by (simp add: r1_def [symmetric] Let_def)
          have "cr_data_hex r' = cr_data_hex r2 \<or> (\<exists>j. i + m \<le> j \<and> j + 1 < length argv \<and>
              argv ! j = ''--data'' \<and> cr_data_hex r' = Some (argv ! (j + 1)))"
            using 1(2) [OF _ _ f [symmetric] refl refl refl _ CLI_NOT_MATCHED, of r1 n r2 m] False len v Some p
            by (auto simp: r1_def)
          then show ?thesis using d2 by (metis add_leE)
        qed
      qed (use step False len f d1 in \<open>auto simp: r1_def Let_def\<close>)
    qed
  qed
qed

text \<open>
  An accepted single operation is the one the arguments spell out: verb, node
  and object are the first three words, and a payload is the value of the word
  behind a \<open>--data\<close>.
\<close>

lemma parse_args_spelled:
  assumes p: "parse_args bits files argv r0 = (0, r)"
    and len: "length (cr_write_buf r0) = FBSEC_AEAD_MAX_PROTECTED"
    and mode: "\<not> cc_menu_mode (vc_common (cr_cfg r))" "\<not> cc_check_policy (vc_common (cr_cfg r))"
    and ok: "options_ok r0"
  shows "4 \<le> length argv \<and> parse_verb (argv ! 1) = Some (cr_verb r) \<and>
    fbsec_client_cli_parse_u32 bits (argv ! 2) = Some (cr_target r) \<and>
    fbsec_client_cli_parse_u32 bits (argv ! 3) = Some (cr_data_id r) \<and>
    (needs_payload (cr_verb r) \<longrightarrow> (\<exists>j. 4 \<le> j \<and> j + 1 < length argv \<and> argv ! j = ''--data'' \<and>
       take (cr_write_len r) (cr_write_buf r) = hex_value (argv ! (j + 1))))"
proof -
  define r1 where "r1 = r0\<lparr>cr_write_len := 0, cr_data_hex := None\<rparr>"
  obtain h cfg where s: "scan_modes (tl argv) (vc_common (cr_cfg r1)) = (h, cfg)" by force
  define r2 where "r2 = upd_cfg (\<lambda>c. c\<lparr>vc_common := cfg\<rparr>) r1"
  define modes where "modes = (cc_menu_mode cfg \<or> cc_check_policy cfg)"
  obtain ok3 r3 where p3: "(if modes then (True, r2) else parse_positional bits argv r2) = (ok3, r3)" by force
  obtain rc4 r4 where p4: "parse_options bits files argv (if modes then 1 else 4) r3 = (rc4, r4)" by force
  obtain ok5 r5 where p5: "check_payload r4 = (ok5, r5)" by force
  note p' = p [unfolded parse_args_def r1_def [symmetric]]
  have fin: "\<not> h" "ok3" "rc4 = 0" "ok5" "check_credentials r5" "r = r5"
    using p' s p3 p4 p5
    by (auto simp: Let_def r2_def [symmetric] modes_def [symmetric] split: if_splits)
  have o2: "options_ok r2" "length (cr_write_buf r2) = FBSEC_AEAD_MAX_PROTECTED" "cr_data_hex r2 = None"
    using ok len scan_modes_ok [OF s] by (auto simp: r2_def r1_def options_ok_def upd_cfg_def)
  have o3: "options_ok r3" "cr_write_buf r3 = cr_write_buf r2" "cr_cfg r3 = cr_cfg r2"
    using o2(1) p3 fin(2) positional_ok [of bits argv r2 r3]
    by (auto simp: options_ok_def split: if_splits)
  have o4: "same_positional r3 r4" using parse_options_ok [OF p4 o3(1)] by simp
  have cfg5: "cr_cfg r5 = cr_cfg r4" using p5 by (auto simp: check_payload_def split: if_splits option.splits prod.splits)
  have m4: "\<not> cc_menu_mode (vc_common (cr_cfg r4))" "\<not> cc_check_policy (vc_common (cr_cfg r4))"
    using mode fin(6) cfg5 by simp_all
  then have nm: "\<not> modes"
    using o4 o3(3) by (auto simp: same_positional_def modes_kept_def modes_def r2_def upd_cfg_def)
  have pos: "4 \<le> length argv" "parse_verb (argv ! 1) = Some (cr_verb r3)"
    "fbsec_client_cli_parse_u32 bits (argv ! 2) = Some (cr_target r3)"
    "fbsec_client_cli_parse_u32 bits (argv ! 3) = Some (cr_data_id r3)" "cr_data_hex r3 = None"
    using p3 nm fin(2) o2(3) by (auto simp: parse_positional_def Let_def split: if_splits option.splits)
  have b4: "length (cr_write_buf r4) = FBSEC_AEAD_MAX_PROTECTED"
    using o4 o3(2) o2(2) by (simp add: same_positional_def)
  note pay = check_payload_ok [OF p5 [unfolded eqTrueI [OF fin(4)]] m4(1) b4]
  have "\<exists>j. 4 \<le> j \<and> j + 1 < length argv \<and> argv ! j = ''--data'' \<and>
       take (cr_write_len r5) (cr_write_buf r5) = hex_value (argv ! (j + 1))" if needs: "needs_payload (cr_verb r5)"
  proof -
    have nv: "needs_payload (cr_verb r4)" using needs pay by simp
    then obtain hx n b where hx: "cr_data_hex r4 = Some hx"
      "fbsec_client_cli_parse_hex (Some hx) FBSEC_AEAD_MAX_PROTECTED (cr_write_buf r4) = (Some n, b)"
      "r5 = r4\<lparr>cr_write_buf := b, cr_write_len := n\<rparr>"
      using p5 fin(4) m4(1) by (auto simp: check_payload_def split: option.splits prod.splits)
    have "take n b = hex_value hx" by (rule parse_hex_value [OF hx(2)]) (simp add: b4)
    moreover have "parse_options bits files argv 4 r3 = (rc4, r4)" using p4 nm by simp
    from parse_options_data [OF this] hx(1) pos(5) obtain j where
      "4 \<le> j" "j + 1 < length argv" "argv ! j = ''--data''" "hx = argv ! (j + 1)" by auto
    ultimately show ?thesis using hx(3) by auto
  qed
  then show ?thesis using pos fin(6) pay o4 by (auto simp: same_positional_def)
qed

lemma parse_verb_swr: "parse_verb a = Some VERB_SWR \<longleftrightarrow> a = ''swr''"
  by (auto simp: parse_verb_def)

end
