(* ===== verification/Client_Main.thy ===== *)
theory Client_Main
  imports Client_Cli Client_Link Client_Ladder Client_Gate Co_Fd_Carrier Co_Fd_Bus
begin

text \<open>
  \<open>main\<close> of \<open>fbsec_co_fd_client.c\<close>: the descriptor commands, the voucher utility, and
  the secure session from connecting to the exit code. The world of the process
  is \<open>'w client\<close>, its node id, its session counter and the operating system; the
  transport on an open carrier, the text of the files, the menu and the console
  are arguments. Messages are left out.
\<close>

section \<open>Bus connection and announcement\<close>

abbreviation (input) FBSEC_CO_FD_SIM_ROLE_CLIENT :: u8 where "FBSEC_CO_FD_SIM_ROLE_CLIENT \<equiv> 0x02"

definition bus_connect ::
  "'w sockets \<Rightarrow> 'w connects \<Rightarrow> client_variant_cfg \<Rightarrow> 'w \<Rightarrow> (bool \<times> carrier_handle) \<times> 'w" where
  "bus_connect S N c w =
     (case fbsec_co_fd_carrier_connect S N (vc_bus_host c) (word_of_int (vc_bus_port c)) w of
        ((st, h), w1) \<Rightarrow> ((st = CARRIER_OK, h), w1))"

definition announce_frame :: "client_variant_cfg \<Rightarrow> frame" where
  "announce_frame c =
     (let f = fbsec_co_fd_frame_init FBSEC_CO_FD_CAN_ID_SIM_PEER_ANNOUNCE True;
          name_len = min (length (vc_name c)) CLIENT_NAME_MAX;
          f = f\<lparr>fr_payload := (fr_payload f)[0 := FBSEC_CO_FD_SIM_ROLE_CLIENT, 1 := vc_node_id c]\<rparr>;
          f = f\<lparr>fr_payload := put (fr_payload f) 2 (map (of_nat \<circ> code) (take name_len (vc_name c)))\<rparr>
      in f\<lparr>fr_len := of_nat (2 + name_len)\<rparr>)"

definition send_announce ::
  "'w sockets \<Rightarrow> carrier_handle \<Rightarrow> client_variant_cfg \<Rightarrow> 'w \<Rightarrow> bool \<times> 'w" where
  "send_announce S h c w =
     (case fbsec_co_fd_carrier_send S h (announce_frame c) w of (st, w1) \<Rightarrow> (st = CARRIER_OK, w1))"

definition on_os :: "('o \<Rightarrow> 'r \<times> 'o) \<Rightarrow> 'o client app \<Rightarrow> 'r \<times> 'o client app" where
  "on_os f a =
     (case f (cl_carrier (ap_net a)) of
        (r, w) \<Rightarrow> (r, a\<lparr>ap_net := (ap_net a)\<lparr>cl_carrier := w\<rparr>\<rparr>))"

text \<open>Closing the carrier and \<open>WSACleanup\<close>.\<close>

definition leave_bus :: "'o sockets \<Rightarrow> 'o connects \<Rightarrow> carrier_handle \<Rightarrow> 'o client app \<Rightarrow> 'o client app" where
  "leave_bus S N h a =
     snd (on_os (\<lambda>w. ((), fbsec_co_fd_carrier_global_shutdown N (snd (fbsec_co_fd_carrier_close S h w)))) a)"

text \<open>
  Start-up, connection and announcement, with the clean-up of each failure;
  \<open>None\<close> when the program ends with exit code 1.
\<close>

definition join_bus ::
  "'o sockets \<Rightarrow> 'o connects \<Rightarrow> client_variant_cfg \<Rightarrow> 'o client app \<Rightarrow> carrier_handle option \<times> 'o client app" where
  "join_bus S N c a =
     (case on_os (fbsec_co_fd_carrier_global_init N) a of (st, a) \<Rightarrow>
        if st \<noteq> CARRIER_OK then (None, a)
        else (case on_os (bus_connect S N c) a of ((ok, h), a) \<Rightarrow>
          if \<not> ok then
            (None, snd (on_os (\<lambda>w. ((), fbsec_co_fd_carrier_global_shutdown N w)) a))
          else (case on_os (send_announce S h c) a of (ok, a) \<Rightarrow>
            if \<not> ok then (None, leave_bus S N h a) else (Some h, a))))"

lemma announce_frame_fields:
  assumes "length (vc_name c) \<le> CLIENT_NAME_MAX"
  shows "unat (fr_len (announce_frame c)) = 2 + length (vc_name c)"
    "fr_payload (announce_frame c) ! 0 = FBSEC_CO_FD_SIM_ROLE_CLIENT"
    "fr_payload (announce_frame c) ! 1 = vc_node_id c"
    "slice (fr_payload (announce_frame c)) 2 (length (vc_name c)) = map (of_nat \<circ> code) (vc_name c)"
proof -
  have "unat (of_nat (2 + length (vc_name c)) :: u8) = 2 + length (vc_name c)"
    using assms by (simp only: unsigned_of_nat) (simp add: take_bit_nat_eq_self)
  then show "unat (fr_len (announce_frame c)) = 2 + length (vc_name c)"
    using assms by (simp add: announce_frame_def Let_def min_def del: of_nat_add)
  show "fr_payload (announce_frame c) ! 0 = FBSEC_CO_FD_SIM_ROLE_CLIENT"
    "fr_payload (announce_frame c) ! 1 = vc_node_id c"
    "slice (fr_payload (announce_frame c)) 2 (length (vc_name c)) = map (of_nat \<circ> code) (vc_name c)"
    using assms by (simp_all add: announce_frame_def Let_def min_def fbsec_co_fd_frame_init_def)
qed

text \<open>The simulator records the role, the node id and the name a client announces.\<close>

lemma announce_recorded:
  assumes "length (vc_name c) \<le> CLIENT_NAME_MAX" "length (fp_name p) = SIM_NAME_MAX"
  defines "q \<equiv> record_announce p (announce_frame c)"
  shows "fp_announced q \<and> fp_role q = FBSEC_CO_FD_SIM_ROLE_CLIENT \<and> fp_node_id q = vc_node_id c \<and>
    take (unat (fp_name_len q)) (fp_name q) = map (of_nat \<circ> code) (vc_name c)"
proof -
  note f = announce_frame_fields [OF assms(1)]
  have l: "1 \<le> fr_len (announce_frame c)" "2 \<le> fr_len (announce_frame c)"
    using f(1) by (simp_all add: word_le_nat_alt)
  have nb: "(if fr_len (announce_frame c) > 2 then min (unat (fr_len (announce_frame c)) - 2) SIM_NAME_MAX else 0)
      = length (vc_name c)"
    using f(1) assms(1) by (auto simp: word_less_nat_alt)
  have n: "unat (of_nat (length (vc_name c)) :: u8) = length (vc_name c)"
    using assms(1) by (simp only: unsigned_of_nat) (simp add: take_bit_nat_eq_self)
  show ?thesis
    unfolding q_def record_announce_def Let_def nb
    using l f(2-4) n assms(2) by (simp add: put_def)
qed

section \<open>The secure session\<close>

text \<open>The verb of a single operation and its exit code.\<close>

definition run_verb ::
  "gcm \<Rightarrow> 'w client_port \<Rightarrow> 'w transport \<Rightarrow> 'v cli_run \<Rightarrow> 'w app \<Rightarrow> nat \<times> 'w app" where
  "run_verb g C T r a =
     (let c = vc_common (cr_cfg r); target = ucast (cr_target r); payload = take (cr_write_len r) (cr_write_buf r) in
      case cr_verb r of
        VERB_SRD \<Rightarrow>
          (case fbsec_client_run_secure_read g C T target (cr_data_id r) (cc_timeout_ms c)
                  FBSEC_AEAD_MAX_PROTECTED a of ((rc, _), a) \<Rightarrow> (rc, a))
      | VERB_SWR \<Rightarrow>
          fbsec_client_run_secure_write g C T target (cr_data_id r) payload (cc_timeout_ms c) a
      | VERB_SRD_POLL \<Rightarrow>
          (case fbsec_client_run_secure_read_poll g C T target (cr_data_id r) (cc_count c)
                  (cc_timeout_ms c) a of ((rc, _), a) \<Rightarrow> (rc, a))
      | VERB_SWR_POLL \<Rightarrow>
          fbsec_client_run_secure_write_poll g C T target (cr_data_id r) payload (cc_count c)
            (cc_timeout_ms c) a
      | VERB_RD \<Rightarrow> (1, a)
      | VERB_WR \<Rightarrow> (1, a))"

definition gate_target :: "'v cli_run \<Rightarrow> u16" where
  "gate_target r =
     (if cc_menu_mode (vc_common (cr_cfg r)) \<or> cc_check_policy (vc_common (cr_cfg r))
      then ucast (vc_target_node (cr_cfg r)) else ucast (cr_target r))"

text \<open>
  From the announced client to the exit code; \<open>menu\<close> is the interactive menu. The
  key store is wiped on the last path only.
\<close>

definition secure_session ::
  "'c sha \<Rightarrow> gcm \<Rightarrow> 'w client_port \<Rightarrow> 'w transport \<Rightarrow> (client_variant_cfg \<Rightarrow> 'w app \<Rightarrow> nat \<times> 'w app) \<Rightarrow>
   'v cli_run \<Rightarrow> 'w app \<Rightarrow> nat \<times> 'w app" where
  "secure_session H g C T menu r a =
     (let c = vc_common (cr_cfg r) in
      case fbsec_client_keys_derive_session_if_needed H (ap_keys a) of (rc, k) \<Rightarrow>
        let a = a\<lparr>ap_keys := k\<rparr> in
        if rc \<noteq> 0 then (1, a)
        else
          let a = upd_keys fbsec_client_keys_load_demo_all a in
          (case on_net (fbsec_client_enforce_min_security T (gate_target r) (cc_timeout_ms c) (cc_min_security c)) a of
             (gate, a) \<Rightarrow>
               if gate \<noteq> 0 then (2, a)
               else if cc_check_policy c then (0, a)
               else (case (if cc_menu_mode c then menu (cr_cfg r) a else run_verb g C T r a) of
                       (exit_code, a) \<Rightarrow> (exit_code, upd_keys fbsec_client_keys_wipe a))))"

section \<open>The descriptor commands\<close>

text \<open>
  The options of \<open>caps\<close> and \<open>commission\<close>: anything else is passed over, and a node
  id is cut to its low byte.
\<close>

fun descriptor_options :: "nat \<Rightarrow> string list \<Rightarrow> client_variant_cfg \<Rightarrow> client_variant_cfg" where
  "descriptor_options bits [] c = c"
| "descriptor_options bits [a] c = c"
| "descriptor_options bits (a # x # as) c =
     (if a = ''--bus'' then descriptor_options bits as (snd (parse_bus_arg bits x c))
      else if a = ''--node'' then
        descriptor_options bits as
          (case fbsec_client_cli_parse_u32 bits x of None \<Rightarrow> c | Some v \<Rightarrow> c\<lparr>vc_node_id := ucast v\<rparr>)
      else descriptor_options bits (x # as) c)"

definition descriptor_defaults :: client_variant_cfg where
  "descriptor_defaults = client_defaults\<lparr>vc_common := client_cfg_zero\<lparr>cc_timeout_ms := 1000\<rparr>, vc_target_node := 0\<rparr>"

definition set_node :: "u8 \<Rightarrow> 'o client app \<Rightarrow> 'o client app" where
  "set_node n a = a\<lparr>ap_net := (ap_net a)\<lparr>cl_node_id := n\<rparr>\<rparr>"

text \<open>\<open>caps0\<close> is the local descriptor variable before it is filled.\<close>

definition run_descriptor_command ::
  "nat \<Rightarrow> ed25519 \<Rightarrow> 'o client client_port \<Rightarrow> 'o sockets \<Rightarrow> 'o connects \<Rightarrow>
   (carrier_handle \<Rightarrow> 'o client transport) \<Rightarrow> caps \<Rightarrow> string list \<Rightarrow> 'o client app \<Rightarrow> nat \<times> 'o client app" where
  "run_descriptor_command bits E C S N transport_on caps0 argv a =
     (case fbsec_client_cli_parse_u32 bits (argv ! 2) of
        None \<Rightarrow> (1, a)
      | Some target \<Rightarrow>
          if target = 0 \<or> target > ucast FBSEC_CO_FD_NODE_ID_MAX then (1, a)
          else
            let c = descriptor_options bits (drop 3 argv) descriptor_defaults;
                a = set_node (vc_node_id c) a; timeout = cc_timeout_ms (vc_common c)
            in (case join_bus S N c a of
                  (None, a) \<Rightarrow> (1, a)
                | (Some h, a) \<Rightarrow>
                    (case (if argv ! 1 = ''caps'' then
                             (case on_net (fbsec_client_read_caps (transport_on h) (ucast target) timeout caps0) a of
                                ((rc, _), a) \<Rightarrow> (if rc = 0 then 0 else 1, a))
                           else
                             (case run_commission E C (transport_on h) (ucast target) timeout a of
                                ((_, rc), a) \<Rightarrow> (rc, a))) of
                       (rc, a) \<Rightarrow> (rc, leave_bus S N h a))))"

section \<open>The program\<close>

text \<open>The argument of \<open>--emit-voucher\<close>, wherever it stands.\<close>

fun emit_voucher_arg :: "string list \<Rightarrow> string option" where
  "emit_voucher_arg (a # x # as) =
     (if a = ''--emit-voucher'' then Some x else emit_voucher_arg (x # as))"
| "emit_voucher_arg as = None"

definition run_start :: "client_verb \<Rightarrow> bytes \<Rightarrow> 'w app \<Rightarrow> 'w cli_run" where
  "run_start verb0 buf0 a = \<lparr>cr_cfg = client_defaults, cr_app = a, cr_verb = verb0, cr_target = 0,
     cr_data_id = 0, cr_write_buf = buf0, cr_write_len = 0, cr_data_hex = None\<rparr>"

text \<open>
  The exit code, the file written (its name and text) and the final state.
  \<open>verb0\<close> and \<open>buf0\<close> are the uninitialised variables of \<open>main\<close>.
\<close>

definition client_main ::
  "nat \<Rightarrow> ed25519 \<Rightarrow> 'c sha \<Rightarrow> gcm \<Rightarrow> 'o client client_port \<Rightarrow> 'o sockets \<Rightarrow> 'o connects \<Rightarrow>
   (carrier_handle \<Rightarrow> 'o client transport) \<Rightarrow>
   (client_variant_cfg \<Rightarrow> 'o client app \<Rightarrow> nat \<times> 'o client app) \<Rightarrow>
   (string \<Rightarrow> string option) \<Rightarrow> (string \<Rightarrow> bool) \<Rightarrow> caps \<Rightarrow> client_verb \<Rightarrow> bytes \<Rightarrow> string list \<Rightarrow>
   'o client app \<Rightarrow> nat \<times> (string \<times> string) option \<times> 'o client app" where
  "client_main bits E H g C S N transport_on menu files can_open caps0 verb0 buf0 argv a =
     (if length argv \<ge> 3 \<and> (argv ! 1 = ''caps'' \<or> argv ! 1 = ''commission'') then
        (case run_descriptor_command bits E C S N transport_on caps0 argv a of (rc, a) \<Rightarrow> (rc, None, a))
      else
        (case emit_voucher_arg (tl argv) of
           Some path \<Rightarrow>
             (case fbsec_commission_emit_voucher_file E (can_open path) of
                (rc, written) \<Rightarrow>
                  if rc \<noteq> 0 then (1, None, a) else (0, map_option (Pair path) written, a))
         | None \<Rightarrow>
             (case parse_args bits files argv (run_start verb0 buf0 a) of
                (rc, r) \<Rightarrow>
                  if rc = -1 then (0, None, cr_app r)
                  else if rc \<noteq> 0 then (1, None, cr_app r)
                  else
                    let c = cr_cfg r; a = set_node (vc_node_id c) (cr_app r) in
                    (case (case vc_voucher_path c of
                             None \<Rightarrow> (0, a)
                           | Some path \<Rightarrow> fbsec_commission_load_voucher_file (files path) a) of
                       (vrc, a) \<Rightarrow>
                         if vrc \<noteq> 0 then (1, None, a)
                         else (case join_bus S N c a of
                                 (None, a) \<Rightarrow> (1, None, a)
                               | (Some h, a) \<Rightarrow>
                                   (case secure_session H g C (transport_on h) menu r a of
                                      (rc, a) \<Rightarrow> (rc, None, leave_bus S N h a)))))))"

section \<open>What a session guarantees\<close>

lemma derive_keeps:
  assumes "fbsec_client_keys_derive_session_if_needed H k = (rc, k')"
  shows "ck_key_id k' = ck_key_id k \<and> ck_use_encryption k' = ck_use_encryption k \<and>
    (fbsec_client_keys_session_set k \<longrightarrow> k' = k) \<and>
    (rc = 0 \<and> ck_main_key_set k \<and> \<not> no_slot k \<and> length (ck_loaded k) = 16 \<longrightarrow> fbsec_client_keys_session_set k')"
  using assms
  by (auto simp: fbsec_client_keys_derive_session_if_needed_def fbsec_client_keys_session_set_def Let_def
      slot_written_def slot_loaded_def no_slot_def split: if_splits option.splits)

lemma load_demo_slot_keeps:
  assumes "fbsec_client_keys_session_set k"
  shows "fbsec_client_keys_session_set (load_demo_slot i k) \<and>
    fbsec_client_keys_session (load_demo_slot i k) = fbsec_client_keys_session k \<and>
    ck_key_id (load_demo_slot i k) = ck_key_id k \<and>
    ck_use_encryption (load_demo_slot i k) = ck_use_encryption k"
  using assms
  by (cases "i = unat (ck_key_id k)")
     (auto simp: load_demo_slot_def fbsec_client_keys_session_set_def fbsec_client_keys_session_def
      slot_written_def slot_loaded_def no_slot_def nth_list_update split: if_splits)

text \<open>The demo keys never replace the key that was selected.\<close>

lemma load_demo_all_keeps:
  assumes "fbsec_client_keys_session_set k"
  shows "fbsec_client_keys_session_set (fbsec_client_keys_load_demo_all k) \<and>
    fbsec_client_keys_session (fbsec_client_keys_load_demo_all k) = fbsec_client_keys_session k \<and>
    fbsec_client_keys_effective_keyid (fbsec_client_keys_load_demo_all k) = fbsec_client_keys_effective_keyid k"
  using load_demo_slot_keeps [OF assms, of 1] load_demo_slot_keeps [of "load_demo_slot 1 k" 2]
    load_demo_slot_keeps [of "load_demo_slot 2 (load_demo_slot 1 k)" 3]
  by (simp add: fbsec_client_keys_load_demo_all_def fbsec_client_keys_effective_keyid_def)

lemma session_gate:
  assumes "secure_session H g C T menu r a = (0, a')" "cc_min_security (vc_common (cr_cfg r)) \<noteq> SEC_ANY"
  shows "mech_advertised T (gate_target r) (cc_timeout_ms (vc_common (cr_cfg r))) (cc_min_security (vc_common (cr_cfg r)))"
proof -
  obtain w where w: "fst (fbsec_client_enforce_min_security T (gate_target r) (cc_timeout_ms (vc_common (cr_cfg r)))
      (cc_min_security (vc_common (cr_cfg r))) w) = 0"
    using assms(1)
    by (auto simp: secure_session_def Let_def on_net_def split: prod.splits if_splits) (metis fst_conv)+
  show ?thesis by (rule gate_evidence [OF w assms(2)])
qed

text \<open>
  In menu mode the gate is taken once, on the node of \<open>--target-node\<close>; whatever the
  menu then does is not gated.
\<close>

lemma menu_session:
  assumes "cc_menu_mode (vc_common (cr_cfg r))" "\<not> cc_check_policy (vc_common (cr_cfg r))"
    and "fbsec_client_keys_derive_session_if_needed H (ap_keys ap) = (0, k)"
    and "on_net (fbsec_client_enforce_min_security T (ucast (vc_target_node (cr_cfg r)))
        (cc_timeout_ms (vc_common (cr_cfg r))) (cc_min_security (vc_common (cr_cfg r))))
      (upd_keys fbsec_client_keys_load_demo_all (ap\<lparr>ap_keys := k\<rparr>)) = (0, a1)"
  shows "secure_session H g C T menu r ap =
    (case menu (cr_cfg r) a1 of (x, a2) \<Rightarrow> (x, upd_keys fbsec_client_keys_wipe a2))"
  using assms by (simp add: secure_session_def gate_target_def Let_def)

lemma check_policy_reads_verb:
  "fst (parse_args 64 (\<lambda>_. None) [''fbsec_co_fd_client'', ''--check-policy'']
     (run_start VERB_RD (replicate 32 0) (app_zero ()))) = 0"
  "fst (parse_args 64 (\<lambda>_. None) [''fbsec_co_fd_client'', ''--check-policy'']
     (run_start VERB_SRD (replicate 32 0) (app_zero ()))) = 1"
  by code_simp+

lemma gate_any [simp]:
  "on_net (fbsec_client_enforce_min_security T target t SEC_ANY) a = (0, a)"
  by (simp add: fbsec_client_enforce_min_security_def on_net_def)

lemma derived_key:
  assumes S: "sha_ok S absorbed D" and wf: "client_keys_wf k"
    and k: "ck_main_key_set k" "\<not> no_slot k" "\<not> fbsec_client_keys_session_set k"
  shows "\<exists>k'. fbsec_client_keys_derive_session_if_needed S k = (0, k') \<and> fbsec_client_keys_session_set k' \<and>
    fbsec_client_keys_session k' = hkdf_ref D (take (ck_salt_len k) (ck_salt k)) (ck_main_key k)
      (FBSEC_CLIENT_KDF_INFO_PREFIX @ [ck_key_id k]) FBSEC_AEAD_KEY_SIZE"
proof -
  have "ck_main_key k \<noteq> []" using wf by (auto simp: client_keys_wf_def)
  then have "fbsec_hkdf_sha256 S (ck_main_key k) (Some (take (ck_salt_len k) (ck_salt k)))
      (FBSEC_CLIENT_KDF_INFO_PREFIX @ [ck_key_id k]) FBSEC_AEAD_KEY_SIZE
    = Some (hkdf_ref D (take (ck_salt_len k) (ck_salt k)) (ck_main_key k)
        (FBSEC_CLIENT_KDF_INFO_PREFIX @ [ck_key_id k]) FBSEC_AEAD_KEY_SIZE)"
    using hkdf_ok [OF S, of "ck_main_key k" FBSEC_AEAD_KEY_SIZE "Some (take (ck_salt_len k) (ck_salt k))"] by simp
  then show ?thesis
    using k slot_index [OF k(2)] wf
    by (auto simp: fbsec_client_keys_derive_session_if_needed_def fbsec_client_keys_session_set_def Let_def
        fbsec_client_keys_session_def slot_written_def slot_loaded_def no_slot_def client_keys_wf_def)
qed

text \<open>
  The key in force when a verb runs: the one the command line gave, or the one
  derived from the main key.
\<close>

lemma key_in_force:
  assumes ok: "single_shot_ok r" and S: "sha_ok S absorbed D"
  defines "k \<equiv> ap_keys (cr_app r)"
  shows "\<exists>k'. fbsec_client_keys_derive_session_if_needed S k = (0, k') \<and>
    fbsec_client_keys_session_set (fbsec_client_keys_load_demo_all k') \<and>
    fbsec_client_keys_effective_keyid (fbsec_client_keys_load_demo_all k') = fbsec_client_keys_effective_keyid k \<and>
    fbsec_client_keys_session (fbsec_client_keys_load_demo_all k') =
      (if ck_main_key_set k then hkdf_ref D (take (ck_salt_len k) (ck_salt k)) (ck_main_key k)
         (FBSEC_CLIENT_KDF_INFO_PREFIX @ [ck_key_id k]) FBSEC_AEAD_KEY_SIZE
       else fbsec_client_keys_session k)"
proof -
  have k: "\<not> no_slot k" "fbsec_client_keys_session_set k \<noteq> ck_main_key_set k" "client_keys_wf k"
    using ok by (simp_all add: single_shot_ok_def options_ok_def cli_keys_ok_def k_def)
  obtain rc k' where d: "fbsec_client_keys_derive_session_if_needed S k = (rc, k')" by force
  have id: "fbsec_client_keys_effective_keyid k' = fbsec_client_keys_effective_keyid k"
    using derive_keeps [OF d] by (simp add: fbsec_client_keys_effective_keyid_def)
  show ?thesis
  proof (cases "ck_main_key_set k")
    case True
    then show ?thesis
      using derived_key [OF S k(3) True k(1)] k(2) d id load_demo_all_keeps [of k'] by auto
  next
    case False
    then have "rc = 0" "k' = k" using d by (auto simp: fbsec_client_keys_derive_session_if_needed_def)
    then show ?thesis using False d k(2) load_demo_all_keeps [of k] by auto
  qed
qed

lemma run_start_ok: "options_ok (run_start verb0 buf0 (app_zero w))"
  by (simp add: options_ok_def run_start_def client_defaults_def cfg_ok_def cli_keys_ok_def node_in_range_def
      app_zero_def client_keys_zero_wf) (simp add: client_keys_zero_def)

text \<open>The write command, from the accepted command line to the server's hook.\<close>

lemma write_command_link:
  assumes r: "single_shot_ok r" "cr_verb r = VERB_SWR" "cc_min_security (vc_common (cr_cfg r)) = SEC_ANY"
      "\<not> cc_menu_mode (vc_common (cr_cfg r))" "\<not> cc_check_policy (vc_common (cr_cfg r))"
      "\<not> ck_main_key_set (ap_keys ap)" "ap_keys (cr_app r) = ap_keys ap"
    and g: "gcm_ok g" and F: "platform_ok F" and wf: "sod_wf s"
    and dev: "sv_my_dev (host s) = ucast (cr_target r)" and rt: "routed E g F (ucast a) (cr_data_id r) s"
    and net: "ap_net ap = (s, x)"
    and al: "write_allowed (server_port F) (ucast a) (cr_data_id r)
        (fbsec_client_keys_effective_keyid (ap_keys ap)) (fbsec_client_keys_session (ap_keys ap))
        (take (cr_write_len r) (cr_write_buf r)) s i sr s1"
    and cr: "secure_port_random X FBSEC_AEAD_RAND_SIZE x = (Some cr, x')" "length cr = FBSEC_AEAD_RAND_SIZE"
  shows "\<exists>frame rc s3 a'.
    fbsec_sod_port_write_after (cr_data_id r) (take (cr_write_len r) (cr_write_buf r))
      (write_hook_state i frame (write_armed_state (server_port F) i (ucast a) sr s1)) = (rc, s3) \<and>
    secure_session H g (srv_client_port a X) (srv_link E g F a) menu r ap
      = (if rc = FBSEC_ABORT_NONE then 0 else 2, a') \<and>
    ap_net a' = (release_write i s3, x') \<and>
    \<not> fbsec_client_keys_session_set (ap_keys a') \<and> (\<forall>b \<in> set (ck_session_keys (ap_keys a')). set b \<subseteq> {0})"
proof -
  let ?k = "ap_keys ap" and ?ap = "upd_keys fbsec_client_keys_load_demo_all ap"
  let ?buf = "take (cr_write_len r) (cr_write_buf r)"
  have d: "fbsec_client_keys_derive_session_if_needed H ?k = (0, ?k)"
    using r(6) by (simp add: fbsec_client_keys_derive_session_if_needed_def)
  have k: "fbsec_client_keys_session_set ?k" and slot: "\<not> no_slot ?k"
    using r(1,6,7) by (simp_all add: single_shot_ok_def)
  have buf: "?buf \<noteq> []" using r(1,2) by (auto simp: single_shot_ok_def needs_payload_def)
  have k': "\<not> no_slot (ap_keys ?ap)"
    "fbsec_client_keys_session (ap_keys ?ap) = fbsec_client_keys_session ?k"
    "fbsec_client_keys_effective_keyid (ap_keys ?ap) = fbsec_client_keys_effective_keyid ?k"
    using load_demo_all_keeps [OF k] by (auto simp: fbsec_client_keys_session_set_def split: if_splits)
  obtain frame rc s3 where w: "fbsec_sod_port_write_after (cr_data_id r) ?buf
      (write_hook_state i frame (write_armed_state (server_port F) i (ucast a) sr s1)) = (rc, s3)"
    "fbsec_client_run_secure_write g (srv_client_port a X) (srv_link E g F a) (ucast (cr_target r)) (cr_data_id r)
        ?buf (cc_timeout_ms (vc_common (cr_cfg r))) ?ap
      = (if rc = FBSEC_ABORT_NONE then 0 else 2, after_verb sr (release_write i s3) x' ?ap)"
    using run_secure_write_link [OF g F wf dev rt, where ap = ?ap and x = x and X = X and key = "fbsec_client_keys_session ?k"
        and buf = ?buf and i = i and sr = sr and ?s1.0 = s1 and cr = cr and x' = x' and t = "cc_timeout_ms (vc_common (cr_cfg r))"]
      k' al cr buf net by auto
  let ?a' = "upd_keys fbsec_client_keys_wipe (after_verb sr (release_write i s3) x' ?ap)"
  have "secure_session H g (srv_client_port a X) (srv_link E g F a) menu r ap
      = (if rc = FBSEC_ABORT_NONE then 0 else 2, ?a')"
    using d w(2) r(2-5) by (simp add: secure_session_def run_verb_def Let_def)
  moreover have "\<not> fbsec_client_keys_session_set (fbsec_client_keys_wipe k0)"
    "\<forall>b \<in> set (ck_session_keys (fbsec_client_keys_wipe k0)). set b \<subseteq> {0}" for k0
    by (auto simp: fbsec_client_keys_wipe_def fbsec_client_keys_session_set_def no_slot_def)
  ultimately show ?thesis using w(1)
    by (intro exI [of _ frame] exI [of _ rc] exI [of _ s3] exI [of _ ?a']) simp
qed

end
