(* ===== verification/Server_Files.thy ===== *)
theory Server_Files
  imports Server_Run C_File
begin

text \<open>
  The two text files of the server, \<open>server_common_keys.c\<close> (the key file of
  \<open>--key-file\<close>) and \<open>server_common_const_od.c\<close> (the constant entries of
  \<open>--od-file\<close>), read line by line, and \<open>fbsec_server_od_init\<close> on their names. The
  initialisation of \<open>Server_Dispatch\<close> takes the rows; the lemmas here show that
  reading the text is parsing it to those rows. \<open>bits\<close> is the width of \<open>long\<close>.
\<close>

section \<open>The key file\<close>

text \<open>0 for text that is no hexadecimal string, like an empty one; what was written stays.\<close>

definition fbsec_server_parse_hex_strict :: "string option \<Rightarrow> nat \<Rightarrow> bytes \<Rightarrow> nat \<times> bytes" where
  "fbsec_server_parse_hex_strict s cap buf =
     (case s of
        None \<Rightarrow> (0, buf)
      | Some s \<Rightarrow> (case hex_loop cap s None 0 buf of (n, b) \<Rightarrow> ((case n of None \<Rightarrow> 0 | Some n \<Rightarrow> n), b)))"

datatype 'r file_line = Line_Blank | Line_Bad | Line_Row 'r

definition number_token :: "nat \<Rightarrow> nat \<Rightarrow> string \<Rightarrow> nat option" where
  "number_token bits base tok =
     (case strtoul bits base tok of (v, endp) \<Rightarrow> if endp = tok \<or> endp \<noteq> [] then None else Some v)"

text \<open>
  A row is key id, label, key and an optional identifier, which is the key id
  when it is absent. \<open>key0\<close> is the local buffer before the row is parsed.
\<close>

definition server_key_line :: "nat \<Rightarrow> bytes \<Rightarrow> string \<Rightarrow> (u8 \<times> bytes \<times> u32) file_line" where
  "server_key_line bits key0 line =
     (case strtok (strip_comment (c_line line)) of
        None \<Rightarrow> Line_Blank
      | Some (t_kid, r1) \<Rightarrow>
          (case number_token bits 0 t_kid of
             None \<Rightarrow> Line_Bad
           | Some kid \<Rightarrow>
               if kid < 1 \<or> kid > 255 then Line_Bad
               else (case strtok r1 of
                 None \<Rightarrow> Line_Bad
               | Some (t_label, r2) \<Rightarrow>
                   (case strtok r2 of
                      None \<Rightarrow> Line_Bad
                    | Some (t_key, r3) \<Rightarrow>
                        (case fbsec_server_parse_hex_strict (Some t_key) FBSEC_AEAD_KEY_SIZE key0 of
                           (klen, key) \<Rightarrow>
                             if klen \<noteq> FBSEC_AEAD_KEY_SIZE then Line_Bad
                             else (case strtok r3 of
                               None \<Rightarrow> Line_Row (of_nat kid, key, of_nat kid)
                             | Some (t_id, r4) \<Rightarrow>
                                 (case number_token bits 0 t_id of
                                    None \<Rightarrow> Line_Bad
                                  | Some idv \<Rightarrow> Line_Row (of_nat kid, key, of_nat idv))))))))"

text \<open>The loop over the lines: the number of keys loaded, \<open>None\<close> when a line ends it with -1.\<close>

fun server_key_lines ::
  "nat \<Rightarrow> bytes \<Rightarrow> string list \<Rightarrow> nat \<Rightarrow> 'e srv \<Rightarrow> nat option \<times> 'e srv" where
  "server_key_lines bits key0 [] loaded s = (Some loaded, s)"
| "server_key_lines bits key0 (l # ls) loaded s =
     (case server_key_line bits key0 l of
        Line_Blank \<Rightarrow> server_key_lines bits key0 ls loaded s
      | Line_Bad \<Rightarrow> (None, s)
      | Line_Row (kid, key, idv) \<Rightarrow>
          (case fbsec_sod_set_key_ex kid key idv s of
             (ok, s1) \<Rightarrow> if ok then server_key_lines bits key0 ls (loaded + 1) s1 else (None, s1)))"

definition fbsec_server_load_key_text ::
  "nat \<Rightarrow> bytes \<Rightarrow> string option \<Rightarrow> 'e srv \<Rightarrow> int \<times> 'e srv" where
  "fbsec_server_load_key_text bits key0 file s =
     (case file of
        None \<Rightarrow> (-1, s)
      | Some text \<Rightarrow>
          (case server_key_lines bits key0 (file_lines 256 text) 0 s of
             (None, s1) \<Rightarrow> (-1, s1)
           | (Some loaded, s1) \<Rightarrow> (if loaded = 0 then -1 else 0, s1)))"

section \<open>The constant entries\<close>

definition parse_hex_token :: "nat \<Rightarrow> string option \<Rightarrow> nat option" where
  "parse_hex_token bits tok =
     (case tok of
        None \<Rightarrow> None
      | Some t \<Rightarrow> if t = [] then None else number_token bits 16 t)"

text \<open>The next token of the line, and the line behind it.\<close>

definition next_token :: "string \<Rightarrow> string option \<times> string" where
  "next_token r = (case strtok r of None \<Rightarrow> (None, []) | Some (t, r') \<Rightarrow> (Some t, r'))"

fun od_data_bytes :: "nat \<Rightarrow> nat \<Rightarrow> string \<Rightarrow> (bytes \<times> string) option" where
  "od_data_bytes bits 0 r = Some ([], r)"
| "od_data_bytes bits (Suc n) r =
     (case next_token r of (t, r1) \<Rightarrow>
        (case parse_hex_token bits t of
           None \<Rightarrow> None
         | Some v \<Rightarrow>
             if v > 0xFF then None
             else (case od_data_bytes bits n r1 of
                     None \<Rightarrow> None | Some (bs, r2) \<Rightarrow> Some (of_nat v # bs, r2))))"

definition od_line :: "nat \<Rightarrow> string \<Rightarrow> const_od_entry file_line" where
  "od_line bits line =
     (case strtok (strip_comment (c_line line)) of
        None \<Rightarrow> Line_Blank
      | Some (t_index, r1) \<Rightarrow>
          (case parse_hex_token bits (Some t_index) of
             None \<Rightarrow> Line_Bad
           | Some i \<Rightarrow>
               if i > 0xFFFF then Line_Bad
               else (case next_token r1 of (t, r2) \<Rightarrow>
                 (case parse_hex_token bits t of
                    None \<Rightarrow> Line_Bad
                  | Some sub \<Rightarrow>
                      if sub > 0xFF then Line_Bad
                      else (case next_token r2 of (t, r3) \<Rightarrow>
                        (case parse_hex_token bits t of
                           None \<Rightarrow> Line_Bad
                         | Some len \<Rightarrow>
                             if len > FBSEC_CONST_OD_MAX_DATA then Line_Bad
                             else (case od_data_bytes bits len r3 of
                                     None \<Rightarrow> Line_Bad
                                   | Some (bs, r4) \<Rightarrow>
                                       if strtok r4 \<noteq> None then Line_Bad
                                       else Line_Row \<lparr>ce_index = of_nat i, ce_sub = of_nat sub,
                                              ce_len = of_nat len,
                                              ce_data = bs @ replicate (FBSEC_CONST_OD_MAX_DATA - len) 0\<rparr>)))))))"

fun od_lines :: "nat \<Rightarrow> string list \<Rightarrow> 'e srv \<Rightarrow> bool \<times> 'e srv" where
  "od_lines bits [] s = (True, s)"
| "od_lines bits (l # ls) s =
     (case od_line bits l of
        Line_Blank \<Rightarrow> od_lines bits ls s
      | Line_Bad \<Rightarrow> (False, s)
      | Line_Row e \<Rightarrow>
          if length (sv_const_od (host s)) \<ge> FBSEC_CONST_OD_MAX_ENTRIES then (False, s)
          else od_lines bits ls (upd_host (\<lambda>h. h\<lparr>sv_const_od := sv_const_od h @ [e]\<rparr>) s))"

definition fbsec_const_od_load_file :: "nat \<Rightarrow> string option \<Rightarrow> 'e srv \<Rightarrow> int \<times> 'e srv" where
  "fbsec_const_od_load_file bits file s =
     (case file of
        None \<Rightarrow> (-1, s)
      | Some text \<Rightarrow>
          (case od_lines bits (file_lines 256 text) s of (ok, s1) \<Rightarrow> (if ok then 0 else -1, s1)))"

section \<open>Reading is parsing to rows\<close>

fun rows_of :: "(string \<Rightarrow> 'r file_line) \<Rightarrow> string list \<Rightarrow> 'r list option" where
  "rows_of p [] = Some []"
| "rows_of p (l # ls) =
     (case p l of
        Line_Blank \<Rightarrow> rows_of p ls
      | Line_Bad \<Rightarrow> None
      | Line_Row r \<Rightarrow> map_option (Cons r) (rows_of p ls))"

lemma key_line_length:
  assumes "server_key_line bits key0 l = Line_Row (kid, key, idv)" "length key0 = FBSEC_AEAD_KEY_SIZE"
  shows "length key = FBSEC_AEAD_KEY_SIZE"
proof -
  have "length b = 16" if "fbsec_server_parse_hex_strict h 16 key0 = (n, b)" for h n b
    using that assms(2)
    by (auto simp: fbsec_server_parse_hex_strict_def split: option.splits prod.splits
        dest!: arg_cong [where f = "\<lambda>p. length (snd p)"])
  then show ?thesis
    using assms(1)
    by (auto simp: server_key_line_def split: option.splits prod.splits if_splits)
qed

lemma key_lines_rows:
  assumes "length key0 = FBSEC_AEAD_KEY_SIZE"
  shows "(case server_key_lines bits key0 ls n s of
       (None, s1) \<Rightarrow> (case rows_of (server_key_line bits key0) ls of
          None \<Rightarrow> True | Some rows \<Rightarrow> load_key_rows rows s = None)
     | (Some m, s1) \<Rightarrow> \<exists>rows. rows_of (server_key_line bits key0) ls = Some rows \<and>
          m = n + length rows \<and> load_key_rows rows s = Some s1)"
  using assms
proof (induction bits key0 ls n s rule: server_key_lines.induct)
  case (2 bits key0 l ls n s)
  show ?case
  proof (cases "server_key_line bits key0 l")
    case (Line_Row r)
    obtain kid key idv where r: "r = (kid, key, idv)" by (cases r) auto
    have k: "set_key_from kid key idv s = fbsec_sod_set_key_ex kid key idv s"
      using key_line_length [OF Line_Row [unfolded r] 2(3)] by (simp add: set_key_from_def)
    obtain ok s1 where s: "fbsec_sod_set_key_ex kid key idv s = (ok, s1)" by force
    show ?thesis
      using Line_Row r s k 2(2) [OF Line_Row [unfolded r] refl refl s [symmetric]] 2(3)
      by (auto split: option.splits prod.splits)
  qed (use 2 in \<open>auto split: option.splits prod.splits\<close>)
qed auto


lemma od_line_wf:
  assumes "od_line bits l = Line_Row e"
  shows "unat (ce_len e) \<le> FBSEC_CONST_OD_MAX_DATA \<and> length (ce_data e) = FBSEC_CONST_OD_MAX_DATA"
proof -
  have len: "od_data_bytes bits n r = Some (bs, r') \<Longrightarrow> length bs = n" for n r bs r'
    by (induction bits n r arbitrary: bs r' rule: od_data_bytes.induct)
       (auto split: prod.splits option.splits if_splits)
  have "unat (of_nat n :: u8) = n" if "n \<le> 8" for n
    using that by (simp only: unsigned_of_nat) (simp add: take_bit_nat_eq_self)
  then show ?thesis
    using assms by (auto simp: od_line_def split: option.splits prod.splits if_splits dest!: len)
qed

lemma od_lines_rows:
  "case od_lines bits ls s of
     (True, s1) \<Rightarrow> \<exists>rows. rows_of (od_line bits) ls = Some rows \<and> const_od_load rows s = Some s1
   | (False, s1) \<Rightarrow> (case rows_of (od_line bits) ls of None \<Rightarrow> True | Some rows \<Rightarrow> const_od_load rows s = None)"
proof (induction bits ls s rule: od_lines.induct)
  case (2 bits l ls s)
  show ?case
  proof (cases "od_line bits l")
    case (Line_Row e)
    show ?thesis
    proof (cases "length (sv_const_od (host s)) \<ge> FBSEC_CONST_OD_MAX_ENTRIES")
      case False
      then show ?thesis using Line_Row 2(2) [OF Line_Row False]
        by (auto split: option.splits prod.splits bool.splits)
    qed (use Line_Row in \<open>auto split: option.splits\<close>)
  qed (use 2 in \<open>auto split: option.splits prod.splits bool.splits\<close>)
qed simp

lemma rows_of_set: "rows_of p ls = Some rows \<Longrightarrow> r \<in> set rows \<Longrightarrow> \<exists>l. p l = Line_Row r"
  by (induction p ls arbitrary: rows rule: rows_of.induct) (auto split: file_line.splits)


section \<open>Initialisation from the files\<close>

text \<open>\<open>fbsec_server_od_init\<close> with the names of its files; \<open>files\<close> gives their text.\<close>

definition fbsec_server_od_init_files ::
  "nat \<Rightarrow> (string \<Rightarrow> string option) \<Rightarrow> ed25519 \<Rightarrow> bytes \<Rightarrow> u16 \<Rightarrow> string option \<Rightarrow> string option \<Rightarrow> bool \<Rightarrow>
   'e server \<Rightarrow> 'e srv option" where
  "fbsec_server_od_init_files bits files E key0 my_dev key_file_path od_file_path install_demo_keys h =
     (let s = fbsec_server_hooks_set_my_dev my_dev
                (fbsec_server_lifecycle_init (fbsec_sod_init h));
          s = fbsec_server_asym_init E s;
          s = snd (fbsec_server_asym_set_peer 1
                     (kp_pub (fbsec_asym_keygen E FBSEC_DEMO_INTEGRATOR_SEED)) s);
          s = fbsec_const_od_init s
      in (case (case od_file_path of None \<Rightarrow> (0, s)
                | Some p \<Rightarrow> fbsec_const_od_load_file bits (files p) s) of (rc, s) \<Rightarrow>
            if rc \<noteq> 0 then None
            else (case fbsec_server_hooks_load_identity s of (identity_ok, s) \<Rightarrow>
                 (case register_server_entries (server_entries identity_ok) s of
                    None \<Rightarrow> None
                  | Some s \<Rightarrow>
                      (case (case key_file_path of None \<Rightarrow> (0, s)
                             | Some p \<Rightarrow> fbsec_server_load_key_text bits key0 (files p) s) of (rc, s) \<Rightarrow>
                         if rc \<noteq> 0 then None
                         else
                           let s = (if install_demo_keys
                                    then fbsec_server_install_demo_keys_if_unset s else s);
                               s = fbsec_server_install_claim_token s
                           in Some (fbsec_server_lifecycle_set
                                (if has_session_keys s then FBSEC_STAGE_OPERATIONAL
                                 else FBSEC_STAGE_UNCOMMISSIONED) s)))))) "

lemma const_od_load_len:
  "const_od_load rows s = Some s' \<Longrightarrow> rows \<noteq> [] \<Longrightarrow>
   length (sv_const_od (host s)) + length rows \<le> FBSEC_CONST_OD_MAX_ENTRIES"
proof (induction rows s rule: const_od_load.induct)
  case (2 e es s)
  then show ?case by (cases "es = []") (auto split: if_splits)
qed simp

lemma od_file_rows:
  assumes "(case p of None \<Rightarrow> (0, s) | Some p \<Rightarrow> fbsec_const_od_load_file bits (files p) s) = (0, s1)"
    and e: "sv_const_od (host s) = []"
  shows "\<exists>od. (case od of None \<Rightarrow> Some s | Some rows \<Rightarrow> const_od_load rows s) = Some s1 \<and>
    (case od of None \<Rightarrow> True | Some rows \<Rightarrow> const_od_wf rows)"
proof (cases p)
  case None
  then show ?thesis using assms by (intro exI [of _ None]) simp
next
  case (Some p')
  then obtain t where t: "od_lines bits (file_lines 256 t) s = (True, s1)"
    using assms by (auto simp: fbsec_const_od_load_file_def split: option.splits prod.splits if_splits)
  then obtain rows where r: "rows_of (od_line bits) (file_lines 256 t) = Some rows" "const_od_load rows s = Some s1"
    using od_lines_rows [where bits = bits and ls = "file_lines 256 t" and s = s] by auto
  have "length rows \<le> FBSEC_CONST_OD_MAX_ENTRIES" using const_od_load_len [OF r(2)] e by (cases "rows = []") auto
  then have "const_od_wf rows"
    using rows_of_set [OF r(1)] od_line_wf unfolding const_od_wf_def by blast
  then show ?thesis using r(2) by (intro exI [of _ "Some rows"]) simp
qed

lemma key_file_rows:
  assumes "(case p of None \<Rightarrow> (0, s) | Some p \<Rightarrow> fbsec_server_load_key_text bits key0 (files p) s) = (0, s1)"
    and key0: "length key0 = FBSEC_AEAD_KEY_SIZE"
  shows "\<exists>kf. (case kf of None \<Rightarrow> Some s | Some rows \<Rightarrow> fbsec_server_load_key_file rows s) = Some s1 \<and>
    (case kf of None \<Rightarrow> True | Some rows \<Rightarrow> \<forall>(k, key, v)\<in>set rows. length key = FBSEC_AEAD_KEY_SIZE)"
proof (cases p)
  case None
  then show ?thesis using assms by (intro exI [of _ None]) simp
next
  case (Some p')
  then obtain t m where t: "server_key_lines bits key0 (file_lines 256 t) 0 s = (Some m, s1)" "m \<noteq> 0"
    using assms by (auto simp: fbsec_server_load_key_text_def split: option.splits prod.splits if_splits)
  then obtain rows where r: "rows_of (server_key_line bits key0) (file_lines 256 t) = Some rows"
      "m = length rows" "load_key_rows rows s = Some s1"
    using key_lines_rows [OF key0, where bits = bits and ls = "file_lines 256 t" and n = 0 and s = s] by auto
  then have "fbsec_server_load_key_file rows s = Some s1" using t(2) by (auto simp: fbsec_server_load_key_file_def)
  moreover have "\<forall>(k, key, v)\<in>set rows. length key = FBSEC_AEAD_KEY_SIZE"
    using rows_of_set [OF r(1)] key_line_length [OF _ key0] by fastforce
  ultimately show ?thesis by (intro exI [of _ "Some rows"]) simp
qed

text \<open>An initialisation from files is one from rows, so that what holds after a start holds here.\<close>

lemma init_files_rows:
  assumes "fbsec_server_od_init_files bits files E key0 dev kp ofp demo h = Some s"
    and key0: "length key0 = FBSEC_AEAD_KEY_SIZE"
  shows "\<exists>kf od. fbsec_server_od_init E dev kf od demo h = Some s \<and>
    (case od of None \<Rightarrow> True | Some rows \<Rightarrow> const_od_wf rows) \<and>
    (case kf of None \<Rightarrow> True | Some rows \<Rightarrow> \<forall>(k, key, v)\<in>set rows. length key = FBSEC_AEAD_KEY_SIZE)"
proof -
  let ?s0 = "fbsec_const_od_init (snd (fbsec_server_asym_set_peer 1
    (kp_pub (fbsec_asym_keygen E FBSEC_DEMO_INTEGRATOR_SEED)) (fbsec_server_asym_init E
      (fbsec_server_hooks_set_my_dev dev (fbsec_server_lifecycle_init (fbsec_sod_init h))))))"
  obtain s1 where s1: "(case ofp of None \<Rightarrow> (0, ?s0) | Some p \<Rightarrow> fbsec_const_od_load_file bits (files p) ?s0) = (0, s1)"
    using assms(1) by (auto simp: fbsec_server_od_init_files_def Let_def split: prod.splits if_splits)
  obtain b s2 where s2: "fbsec_server_hooks_load_identity s1 = (b, s2)" by force
  obtain s3 where s3: "register_server_entries (server_entries b) s2 = Some s3"
    using assms(1) s1 s2 by (auto simp: fbsec_server_od_init_files_def Let_def split: option.splits)
  obtain s4 where s4: "(case kp of None \<Rightarrow> (0, s3) | Some p \<Rightarrow> fbsec_server_load_key_text bits key0 (files p) s3) = (0, s4)"
    using assms(1) s1 s2 s3 by (auto simp: fbsec_server_od_init_files_def Let_def split: prod.splits if_splits)
  have e: "sv_const_od (host ?s0) = []" by (simp add: fbsec_const_od_init_def)
  from od_file_rows [OF s1 e] obtain od where
    od: "(case od of None \<Rightarrow> Some ?s0 | Some rows \<Rightarrow> const_od_load rows ?s0) = Some s1"
    "case od of None \<Rightarrow> True | Some rows \<Rightarrow> const_od_wf rows" by blast
  from key_file_rows [OF s4 key0] obtain kf where
    kf: "(case kf of None \<Rightarrow> Some s3 | Some rows \<Rightarrow> fbsec_server_load_key_file rows s3) = Some s4"
    "case kf of None \<Rightarrow> True | Some rows \<Rightarrow> \<forall>(k, key, v)\<in>set rows. length key = FBSEC_AEAD_KEY_SIZE" by blast
  have "fbsec_server_od_init E dev kf od demo h = Some s"
    using assms(1) s1 s2 s3 s4 od(1) kf(1)
    by (simp add: fbsec_server_od_init_files_def fbsec_server_od_init_def Let_def)
  then show ?thesis using od(2) kf(2) by blast
qed

end
