(* ===== verification/Server_Main.thy ===== *)
theory Server_Main
  imports Server_Files Co_Fd_Server_Props Co_Fd_Carrier Bus_Common Co_Fd_Bus
begin

text \<open>
  The server program: \<open>server_common_cli.c\<close>, the configuration types of
  \<open>server_common_cfg.h\<close>, and the argument parsing, start-up and receive loop of
  \<open>fbsec_co_fd_server.c\<close>. The operating system is the state \<open>'w\<close>; it also
  tells whether the console handler asked for the shutdown. Console output is
  left out.
\<close>

section \<open>Configuration and flags\<close>

record server_cfg =
  sc_my_dev :: u16
  sc_verbose :: bool
  sc_quiet :: bool
  sc_color_pref :: color_pref
  sc_key_file_path :: "string option"
  sc_od_file_path :: "string option"
  sc_demo_keys :: bool

datatype server_cli_result = SERVER_CLI_NOT_MATCHED | SERVER_CLI_HANDLED | SERVER_CLI_HELP | SERVER_CLI_ERROR

definition fbsec_server_cli_parse_u32 :: "nat \<Rightarrow> string \<Rightarrow> u32 option" where
  "fbsec_server_cli_parse_u32 bits s =
     (if s = [] then None
      else (case number_token bits 0 s of
              None \<Rightarrow> None
            | Some v \<Rightarrow> if 32 < bits \<and> v > 0xFFFFFFFF then None else Some (of_nat v)))"

abbreviation (input) FBSEC_SERVER_DEV_RESERVED :: u32 where "FBSEC_SERVER_DEV_RESERVED \<equiv> 0x0000"
abbreviation (input) FBSEC_SERVER_DEV_BROADCAST :: u32 where "FBSEC_SERVER_DEV_BROADCAST \<equiv> 0xFFFF"

definition fbsec_server_cli_try_common_flag ::
  "nat \<Rightarrow> string list \<Rightarrow> nat \<Rightarrow> server_cfg \<Rightarrow> server_cli_result \<times> nat \<times> server_cfg" where
  "fbsec_server_cli_try_common_flag bits argv i c =
     (let a = argv ! i; more = i + 1 < length argv; x = argv ! (i + 1) in
      if a = ''--help'' then (SERVER_CLI_HELP, i, c)
      else if a = ''--device-id'' \<and> more then
        (case fbsec_server_cli_parse_u32 bits x of
           None \<Rightarrow> (SERVER_CLI_ERROR, i, c)
         | Some v \<Rightarrow>
             if v = FBSEC_SERVER_DEV_RESERVED \<or> v \<ge> FBSEC_SERVER_DEV_BROADCAST then (SERVER_CLI_ERROR, i, c)
             else (SERVER_CLI_HANDLED, i + 2, c\<lparr>sc_my_dev := ucast v\<rparr>))
      else if a = ''--verbose'' then (SERVER_CLI_HANDLED, i + 1, c\<lparr>sc_verbose := True\<rparr>)
      else if a = ''--quiet'' then (SERVER_CLI_HANDLED, i + 1, c\<lparr>sc_quiet := True\<rparr>)
      else if a = ''--color'' then (SERVER_CLI_HANDLED, i + 1, c\<lparr>sc_color_pref := COLOR_ALWAYS\<rparr>)
      else if a = ''--no-color'' then (SERVER_CLI_HANDLED, i + 1, c\<lparr>sc_color_pref := COLOR_NEVER\<rparr>)
      else if a = ''--key-file'' \<and> more then (SERVER_CLI_HANDLED, i + 2, c\<lparr>sc_key_file_path := Some x\<rparr>)
      else if a = ''--demo-keys'' then (SERVER_CLI_HANDLED, i + 1, c\<lparr>sc_demo_keys := True\<rparr>)
      else if a = ''--od-file'' \<and> more then (SERVER_CLI_HANDLED, i + 2, c\<lparr>sc_od_file_path := Some x\<rparr>)
      else (SERVER_CLI_NOT_MATCHED, i, c))"

text \<open>\<open>console\<close> tells whether the standard output is a console.\<close>

definition fbsec_server_cli_resolve_color :: "bool \<Rightarrow> color_pref \<Rightarrow> bool" where
  "fbsec_server_cli_resolve_color console pref =
     (case pref of COLOR_NEVER \<Rightarrow> False | COLOR_ALWAYS \<Rightarrow> True | COLOR_AUTO \<Rightarrow> console)"

lemma server_flag_moves:
  "(SERVER_CLI_HANDLED, (j, c')) = fbsec_server_cli_try_common_flag bits argv i c \<Longrightarrow> i < j"
  by (auto simp: fbsec_server_cli_try_common_flag_def Let_def split: if_splits option.splits)

section \<open>The options of the CANopen FD server\<close>

text \<open>\<open>server_variant_cfg_t\<close>.\<close>

record server_variant_cfg =
  sw_common :: server_cfg
  sw_node_id :: u8
  sw_bus_host :: string
  sw_bus_port :: int
  sw_name :: string

abbreviation (input) SERVER_NAME_MAX :: nat where "SERVER_NAME_MAX \<equiv> 30"
abbreviation (input) SERVER_BUS_HOST_SIZE :: nat where "SERVER_BUS_HOST_SIZE \<equiv> 64"

definition server_defaults :: server_variant_cfg where
  "server_defaults = \<lparr>sw_common = \<lparr>sc_my_dev = 0, sc_verbose = False, sc_quiet = False,
       sc_color_pref = COLOR_AUTO, sc_key_file_path = None, sc_od_file_path = None, sc_demo_keys = False\<rparr>,
     sw_node_id = 0x05, sw_bus_host = ''127.0.0.1'', sw_bus_port = 5810, sw_name = ''fbsec_co_fd_server''\<rparr>"

definition server_port_value :: "nat \<Rightarrow> string \<Rightarrow> int option" where
  "server_port_value bits s =
     (case fbsec_server_cli_parse_u32 bits s of
        None \<Rightarrow> None | Some v \<Rightarrow> if v < 1 \<or> v > 65535 then None else Some (uint v))"

definition server_parse_bus_arg :: "nat \<Rightarrow> string \<Rightarrow> server_variant_cfg \<Rightarrow> bool \<times> server_variant_cfg" where
  "server_parse_bus_arg bits s c =
     (if s = [] then (False, c)
      else if CHR '':'' \<notin> set s then
        (case server_port_value bits s of
           Some v \<Rightarrow> (True, c\<lparr>sw_bus_port := v\<rparr>)
         | None \<Rightarrow>
             if length s \<ge> SERVER_BUS_HOST_SIZE then (False, c) else (True, c\<lparr>sw_bus_host := s\<rparr>))
      else
        let h = takeWhile (\<lambda>x. x \<noteq> CHR '':'') s; p = drop (length h + 1) s in
        if h = [] \<or> length h \<ge> SERVER_BUS_HOST_SIZE then (False, c)
        else (case server_port_value bits p of
                None \<Rightarrow> (False, c\<lparr>sw_bus_host := h\<rparr>)
              | Some v \<Rightarrow> (True, c\<lparr>sw_bus_host := h, sw_bus_port := v\<rparr>)))"

text \<open>-1 after the help, 1 after an error, 0 at the end of the arguments.\<close>

function server_parse_args ::
  "nat \<Rightarrow> string list \<Rightarrow> nat \<Rightarrow> server_variant_cfg \<Rightarrow> int \<times> server_variant_cfg" where
  "server_parse_args bits argv i c =
     (if i \<ge> length argv then (0, c)
      else (case fbsec_server_cli_try_common_flag bits argv i (sw_common c) of
              (cr, (j, cfg)) \<Rightarrow>
                let c1 = c\<lparr>sw_common := cfg\<rparr>; a = argv ! i; more = i + 1 < length argv; x = argv ! (i + 1) in
                (case cr of
                   SERVER_CLI_HELP \<Rightarrow> (-1, c1)
                 | SERVER_CLI_ERROR \<Rightarrow> (1, c1)
                 | SERVER_CLI_HANDLED \<Rightarrow> server_parse_args bits argv j c1
                 | SERVER_CLI_NOT_MATCHED \<Rightarrow>
                     if a = ''--bus'' \<and> more then
                       (case server_parse_bus_arg bits x c1 of
                          (ok, c2) \<Rightarrow> if ok then server_parse_args bits argv (i + 2) c2 else (1, c2))
                     else if a = ''--node'' \<and> more then
                       (case fbsec_server_cli_parse_u32 bits x of
                          None \<Rightarrow> (1, c1)
                        | Some v \<Rightarrow>
                            if v = 0 \<or> v > ucast FBSEC_CO_FD_NODE_ID_MAX then (1, c1)
                            else server_parse_args bits argv (i + 2) (c1\<lparr>sw_node_id := ucast v\<rparr>))
                     else if a = ''--name'' \<and> more then
                       (if length x > SERVER_NAME_MAX then (1, c1)
                        else server_parse_args bits argv (i + 2) (c1\<lparr>sw_name := x\<rparr>))
                     else (1, c1))))"
  by pat_completeness auto
termination
  by (relation "measure (\<lambda>(bits, argv, i, c). length argv - i)") (auto dest: server_flag_moves)

declare server_parse_args.simps [simp del]

section \<open>Connection and announcement\<close>

abbreviation (input) FBSEC_CO_FD_SIM_ROLE_SERVER :: u8 where "FBSEC_CO_FD_SIM_ROLE_SERVER \<equiv> 0x01"

definition server_announce_frame :: "server_variant_cfg \<Rightarrow> frame" where
  "server_announce_frame c =
     (let f = fbsec_co_fd_frame_init FBSEC_CO_FD_CAN_ID_SIM_PEER_ANNOUNCE True;
          name_len = min (length (sw_name c)) SERVER_NAME_MAX;
          f = f\<lparr>fr_payload := (fr_payload f)[0 := FBSEC_CO_FD_SIM_ROLE_SERVER, 1 := sw_node_id c]\<rparr>;
          f = f\<lparr>fr_payload := put (fr_payload f) 2 (map (of_nat \<circ> code) (take name_len (sw_name c)))\<rparr>
      in f\<lparr>fr_len := of_nat (2 + name_len)\<rparr>)"

text \<open>Start-up, connection and announcement, with the clean-up of each failure.\<close>

definition server_join_bus ::
  "'w sockets \<Rightarrow> 'w connects \<Rightarrow> server_variant_cfg \<Rightarrow> 'w \<Rightarrow> carrier_handle option \<times> 'w" where
  "server_join_bus S N c w =
     (case fbsec_co_fd_carrier_global_init N w of (st, w) \<Rightarrow>
        if st \<noteq> CARRIER_OK then (None, w)
        else (case fbsec_co_fd_carrier_connect S N (sw_bus_host c) (word_of_int (sw_bus_port c)) w of
          ((st, h), w) \<Rightarrow>
            if st \<noteq> CARRIER_OK then (None, fbsec_co_fd_carrier_global_shutdown N w)
            else (case fbsec_co_fd_carrier_send S h (server_announce_frame c) w of (st, w) \<Rightarrow>
              if st \<noteq> CARRIER_OK then
                (None, fbsec_co_fd_carrier_global_shutdown N (snd (fbsec_co_fd_carrier_close S h w)))
              else (Some h, w))))"

section \<open>The receive loop\<close>

text \<open>The static transfer slots as the program starts.\<close>

definition transport_statics :: "u8 \<Rightarrow> co_fd" where
  "transport_statics n = \<lparr>g_node_id = n,
     g_segdl = \<lparr>dl_active = False, dl_src = 0, dl_session = 0, dl_sub = 0, dl_index = 0,
       dl_counter = 0, dl_total = 0, dl_have = 0, dl_buf = replicate FBSEC_CO_FD_USDO_SEG_BODY_MAX 0\<rparr>,
     g_segul = \<lparr>ul_active = False, ul_dst = 0, ul_session = 0, ul_total = 0, ul_sent = 0,
       ul_counter = 0, ul_buf = replicate FBSEC_CO_FD_USDO_SEG_BODY_MAX 0\<rparr>\<rparr>"

text \<open>The frames of one request, sent one after the other; a failed send changes nothing.\<close>

definition send_frames :: "'w sockets \<Rightarrow> carrier_handle \<Rightarrow> frame list \<Rightarrow> 'w \<Rightarrow> 'w" where
  "send_frames S h fs w = fold (\<lambda>f w. snd (fbsec_co_fd_carrier_send S h f w)) fs w"

definition wait_platform :: "('w \<Rightarrow> 'e \<Rightarrow> 'e) \<Rightarrow> 'w \<Rightarrow> 'e srv \<Rightarrow> 'e srv" where
  "wait_platform tick w s = upd_host (\<lambda>h. h\<lparr>sv_env := tick w (sv_env h)\<rparr>) s"

text \<open>
  The loop ends when the shutdown is asked for, the connection is closed, or the
  carrier fails; \<open>f0\<close> is the frame variable before it is filled. \<open>None\<close> is a
  loop that never ends. \<open>tick\<close> is how the platform of the hooks, its clock and its
  random source, moves on while the loop waits.
\<close>

partial_function (option) run_dispatch_loop ::
  "ed25519 \<Rightarrow> gcm \<Rightarrow> 'e platform \<Rightarrow> 'w sockets \<Rightarrow> ('w \<Rightarrow> bool) \<Rightarrow> ('w \<Rightarrow> 'e \<Rightarrow> 'e) \<Rightarrow> carrier_handle \<Rightarrow>
   frame \<Rightarrow> co_fd \<Rightarrow> 'e srv \<Rightarrow> 'w \<Rightarrow> (co_fd \<times> 'e srv \<times> 'w) option" where
  "run_dispatch_loop E g F S shutdown tick h f0 c s w =
     (if shutdown w then Some (c, s, w)
      else (case fbsec_co_fd_carrier_recv S h f0 (fbsec_co_fd_carrier_now_ms S w + 250) w of
              ((st, f), w1) \<Rightarrow>
                if st = CARRIER_TIMEOUT then run_dispatch_loop E g F S shutdown tick h f0 c (wait_platform tick w1 s) w1
                else if st \<noteq> CARRIER_OK then Some (c, s, w1)
                else (case run_dispatch_frame E g F f c (wait_platform tick w1 s) of
                        (out, c1, s1) \<Rightarrow>
                          run_dispatch_loop E g F S shutdown tick h f0 c1 s1 (send_frames S h out w1))))"

section \<open>The program\<close>

text \<open>
  The exit code and, when the server got as far as the loop and the loop ended,
  its last state. \<open>env0\<close> is the platform's state, \<open>key0\<close> the key loader's buffer.
\<close>

definition server_main ::
  "nat \<Rightarrow> (string \<Rightarrow> string option) \<Rightarrow> ed25519 \<Rightarrow> gcm \<Rightarrow> 'e platform \<Rightarrow> 'w sockets \<Rightarrow> 'w connects \<Rightarrow>
   ('w \<Rightarrow> bool) \<Rightarrow> ('w \<Rightarrow> 'e \<Rightarrow> 'e) \<Rightarrow> frame \<Rightarrow> bytes \<Rightarrow> 'e \<Rightarrow> string list \<Rightarrow> 'w \<Rightarrow>
   (nat \<times> (co_fd \<times> 'e srv) option \<times> 'w) option" where
  "server_main bits files E g F S N shutdown tick f0 key0 env0 argv w =
     (case server_parse_args bits argv 1 server_defaults of
        (rc, c) \<Rightarrow>
          if rc = -1 then Some (0, None, w)
          else if rc \<noteq> 0 then Some (1, None, w)
          else (case server_join_bus S N c w of
                  (None, w) \<Rightarrow> Some (1, None, w)
                | (Some h, w) \<Rightarrow>
                    (case fbsec_server_od_init_files bits files E key0 (ucast (sw_node_id c))
                            (sc_key_file_path (sw_common c)) (sc_od_file_path (sw_common c))
                            (sc_demo_keys (sw_common c)) (server_statics env0) of
                       None \<Rightarrow> Some (1, None, fbsec_co_fd_carrier_global_shutdown N
                                  (snd (fbsec_co_fd_carrier_close S h w)))
                     | Some s \<Rightarrow>
                         (case run_dispatch_loop E g F S shutdown tick h f0 (transport_statics (sw_node_id c)) s w of
                            None \<Rightarrow> None
                          | Some (c1, s1, w) \<Rightarrow>
                              Some (0, Some (c1, s1), fbsec_co_fd_carrier_global_shutdown N
                                (snd (fbsec_co_fd_carrier_close S h w)))))))"

section \<open>The process runs the reference server\<close>

lemma dispatch_reply_state:
  "snd (snd (dispatch_and_reply E g F x body c s)) = srv_step E g F
     (Request (ucast (rc_src_node_id x)) (fbsec_co_fd_data_id_from_index_sub (rc_index x) (rc_subindex x)) body) s"
  by (simp add: dispatch_and_reply_def Let_def split: prod.split)

lemma frame_is_event:
  assumes "run_dispatch_frame E g F f c s = (out, c', s')"
  shows "\<exists>xs. s' = srv_run E g F xs s"
proof -
  have one: "\<exists>xs. srv_step E g F x s = srv_run E g F xs s" for x
    by (rule exI [of _ "[x]"]) simp
  have "\<exists>x body c1. s' = s \<or> s' = snd (snd (dispatch_and_reply E g F x body c1 s))"
    using assms by (auto simp: run_dispatch_frame_def Let_def split: sum.splits prod.splits if_splits)
      (metis snd_conv)+
  then show ?thesis using one dispatch_reply_state by (metis srv_run.simps(1))
qed

lemma wait_is_event: "wait_platform tick w s = srv_run E g F [Platform (tick w (sv_env (host s)))] s"
  by (simp add: wait_platform_def upd_host_def)

lemma events_trans:
  assumes "\<exists>xs. s' = srv_run E g F xs s" "\<exists>xs. s'' = srv_run E g F xs s'"
  shows "\<exists>xs. s'' = srv_run E g F xs s"
  using assms by (metis srv_run_append)

lemma wait_srv_wf: "srv_wf s \<Longrightarrow> srv_wf (wait_platform tick w s)"
  by (simp add: wait_platform_def srv_wf_def host_wf_def)

lemma loop_runs_events:
  assumes "run_dispatch_loop E g F S shutdown tick h f0 c s w = Some r"
    and "ed_ok E" "platform_ok F" "gcm_ok g" "co_fd_wf c" "srv_wf s"
  shows "(\<exists>xs. fst (snd r) = srv_run E g F xs s) \<and> co_fd_wf (fst r) \<and> srv_wf (fst (snd r))"
proof -
  have "ed_ok E \<longrightarrow> platform_ok F \<longrightarrow> gcm_ok g \<longrightarrow> co_fd_wf c \<longrightarrow> srv_wf s \<longrightarrow>
    (\<exists>xs. fst (snd r) = srv_run E g F xs s) \<and> co_fd_wf (fst r) \<and> srv_wf (fst (snd r))"
  proof (rule run_dispatch_loop.raw_induct [where P = "\<lambda>E g F S shutdown tick h f0 c s w r.
      ed_ok E \<longrightarrow> platform_ok F \<longrightarrow> gcm_ok g \<longrightarrow> co_fd_wf c \<longrightarrow> srv_wf s \<longrightarrow>
      (\<exists>xs. fst (snd r) = srv_run E g F xs s) \<and> co_fd_wf (fst r) \<and> srv_wf (fst (snd r))", OF _ assms(1)],
      intro impI)
    fix loop :: "ed25519 \<Rightarrow> gcm \<Rightarrow> 'a platform \<Rightarrow> 'b sockets \<Rightarrow> ('b \<Rightarrow> bool) \<Rightarrow> ('b \<Rightarrow> 'a \<Rightarrow> 'a) \<Rightarrow> carrier_handle \<Rightarrow>
      frame \<Rightarrow> co_fd \<Rightarrow> 'a srv \<Rightarrow> 'b \<Rightarrow> (co_fd \<times> 'a srv \<times> 'b) option"
    fix E g and F :: "'a platform" and S :: "'b sockets" and sh tick h f0 c s w r
    assume IH: "\<And>E g F S sh tick h f0 c s w r. loop E g F S sh tick h f0 c s w = Some r \<Longrightarrow>
        ed_ok E \<longrightarrow> platform_ok F \<longrightarrow> gcm_ok g \<longrightarrow> co_fd_wf c \<longrightarrow> srv_wf s \<longrightarrow>
        (\<exists>xs. fst (snd r) = srv_run E g F xs s) \<and> co_fd_wf (fst r) \<and> srv_wf (fst (snd r))"
      and body: "(if sh w then Some (c, s, w)
        else case fbsec_co_fd_carrier_recv S h f0 (fbsec_co_fd_carrier_now_ms S w + 250) w of
          ((st, f), w1) \<Rightarrow>
            if st = CARRIER_TIMEOUT then loop E g F S sh tick h f0 c (wait_platform tick w1 s) w1
            else if st \<noteq> CARRIER_OK then Some (c, s, w1)
            else case run_dispatch_frame E g F f c (wait_platform tick w1 s) of
              (out, c1, s1) \<Rightarrow> loop E g F S sh tick h f0 c1 s1 (send_frames S h out w1)) = Some r"
      and ok: "ed_ok E" "platform_ok F" "gcm_ok g" "co_fd_wf c" "srv_wf s"
    have stay: "\<exists>xs. s = srv_run E g F xs s" by (rule exI [of _ "[]"]) simp
    obtain st f w1 where rv: "fbsec_co_fd_carrier_recv S h f0 (fbsec_co_fd_carrier_now_ms S w + 250) w = ((st, f), w1)"
      by (cases "fbsec_co_fd_carrier_recv S h f0 (fbsec_co_fd_carrier_now_ms S w + 250) w") auto
    let ?s = "wait_platform tick w1 s"
    have wt: "\<exists>xs. ?s = srv_run E g F xs s" "srv_wf ?s"
      by (rule exI, rule wait_is_event) (rule wait_srv_wf [OF ok(5)])
    obtain out c1 s1 where fr: "run_dispatch_frame E g F f c ?s = (out, c1, s1)"
      by (cases "run_dispatch_frame E g F f c ?s") auto
    have s1: "\<exists>xs. s1 = srv_run E g F xs s" "co_fd_wf c1" "srv_wf s1"
      using events_trans [OF wt(1) frame_is_event [OF fr]] run_dispatch_frame_wf [OF fr ok(4) wt(2) ok(1-3)] by simp_all
    consider (stop) "sh w \<or> st \<noteq> CARRIER_TIMEOUT \<and> st \<noteq> CARRIER_OK" | (wait) "\<not> sh w" "st = CARRIER_TIMEOUT"
      | (serve) "\<not> sh w" "st = CARRIER_OK" by blast
    then show "(\<exists>xs. fst (snd r) = srv_run E g F xs s) \<and> co_fd_wf (fst r) \<and> srv_wf (fst (snd r))"
    proof cases
      case stop
      then show ?thesis using body rv stay ok by (auto split: if_splits)
    next
      case wait
      then have "loop E g F S sh tick h f0 c ?s w1 = Some r" using body rv by simp
      from IH [OF this] show ?thesis using ok wt events_trans [OF wt(1)] by blast
    next
      case serve
      then have "loop E g F S sh tick h f0 c1 s1 (send_frames S h out w1) = Some r" using body rv fr by simp
      from IH [OF this] show ?thesis using ok s1 events_trans [OF s1(1)] by blast
    qed
  qed
  then show ?thesis using assms(2-6) by blast
qed

lemma transport_statics_wf: "co_fd_wf (transport_statics n)"
  by (simp add: co_fd_wf_def transport_statics_def)

text \<open>The node id the server runs with is one a CANopen node can have.\<close>

lemma server_node_range:
  assumes "server_parse_args bits argv i c = (rc, c')" "0 < sw_node_id c \<and> sw_node_id c \<le> FBSEC_CO_FD_NODE_ID_MAX"
  shows "0 < sw_node_id c' \<and> sw_node_id c' \<le> FBSEC_CO_FD_NODE_ID_MAX"
  using assms
proof (induction "length argv - i" arbitrary: i c rule: less_induct)
  case less
  obtain cr j cfg where f: "fbsec_server_cli_try_common_flag bits argv i (sw_common c) = (cr, (j, cfg))"
    by (cases "fbsec_server_cli_try_common_flag bits argv i (sw_common c)") auto
  have node: "0 < (ucast v :: u8) \<and> ucast v \<le> (127 :: u8)" if "v \<noteq> 0" "\<not> v > ucast (127 :: u8)" for v :: u32
  proof -
    have v: "0 < unat v" "unat v \<le> 127" using that by (auto simp: word_less_nat_alt unat_gt_0 not_less)
    then have "unat (ucast v :: u8) = unat v" by (simp add: unsigned_ucast_eq take_bit_nat_eq_self)
    then show ?thesis using v by (simp add: word_less_nat_alt word_le_nat_alt)
  qed
  have bus: "sw_node_id c2 = sw_node_id c1" if "server_parse_bus_arg bits x c1 = (ok, c2)" for x c1 ok c2
    using that by (auto simp: server_parse_bus_arg_def Let_def split: if_splits option.splits)
  have next2: "length argv - Suc (Suc i) < length argv - i" if "i < length argv" using that by simp
  have next_j: "length argv - j < length argv - i" if "i < length argv" "cr = SERVER_CLI_HANDLED"
    using server_flag_moves [OF f [unfolded that(2), symmetric]] that by simp
  show ?case
  proof (cases "i \<ge> length argv")
    case True
    then show ?thesis using less.prems by (simp add: server_parse_args.simps [of bits argv i c])
  next
    case False
    then have i: "i < length argv" by simp
    note IH2 = less.hyps [OF next2 [OF i]]
    show ?thesis
    proof (cases cr)
      case SERVER_CLI_HANDLED
      then have "server_parse_args bits argv j (c\<lparr>sw_common := cfg\<rparr>) = (rc, c')"
        using less.prems(1) False f by (simp add: server_parse_args.simps [of bits argv i c] Let_def)
      then show ?thesis using less.hyps [OF next_j [OF i SERVER_CLI_HANDLED]] less.prems(2) by simp
    next
      case SERVER_CLI_NOT_MATCHED
      then show ?thesis
        using less.prems False f node
        by (auto simp: server_parse_args.simps [of bits argv i c] Let_def
            split: if_splits prod.splits option.splits dest!: IH2 bus)
    qed (use less.prems False f in \<open>auto simp: server_parse_args.simps [of bits argv i c] Let_def\<close>)
  qed
qed

end
