(* ===== verification/Client_Demo.thy ===== *)
theory Client_Demo
  imports Client_Main Server_Demo
begin

text \<open>
  Concrete command lines on which the statements about the client's program are
  evaluated: the texts of the numbers and keys, and a secure write to the booted
  server.
\<close>

section \<open>Numbers and keys as text\<close>

lemma digs: "digit_val CHR ''0'' = Some 0" "digit_val CHR ''1'' = Some 1" "digit_val CHR ''2'' = Some 2"
  "digit_val CHR ''5'' = Some 5" "digit_val CHR ''6'' = Some 6"  "digit_val CHR ''9'' = Some 9" "digit_val CHR ''x'' = Some 33"
  "\<not> isspace CHR ''0''" "\<not> isspace CHR ''1''" "\<not> isspace CHR ''5''" "\<not> isspace CHR ''9''"
  by code_simp+

lemma nums: "fbsec_client_cli_parse_u32 64 ''5'' = Some 5" "fbsec_client_cli_parse_u32 64 ''9'' = Some 9"
  "fbsec_client_cli_parse_u32 64 ''1'' = Some 1" "fbsec_client_cli_parse_u32 64 ''0x20160000'' = Some 0x20160000"
   by (simp_all add: fbsec_client_cli_parse_u32_def strtoul_def scan_number_def number_base_def is_digit_def digits_val_def digs)

lemma demo_key_hex: "fbsec_client_keys_set_session_from_hex (Some ''00112233445566778899AABBCCDDEEFF'') (client_keys_zero\<lparr>ck_key_id := 1\<rparr>)
  = (True, slot_loaded 1 (slot_written 1 (take 16 FBSEC_DEMO_KEY_PROVISIONING) (client_keys_zero\<lparr>ck_key_id := 1\<rparr>)))"
 by code_simp
lemma demo_data_hex: "fbsec_client_cli_parse_hex (Some ''07070707070707070707070707070707'') 32 (replicate 32 0)
  = (Some 16, replicate 16 7 @ replicate 16 0)"
 by code_simp
section \<open>A secure write with the provisioning key to node 5\<close>

definition demo_argv :: "string list" where
  "demo_argv = [''fbsec_co_fd_client'', ''swr'', ''5'', ''0x20160000'', ''--node'', ''9'', ''--keyid'', ''1'',
     ''--key'', ''00112233445566778899AABBCCDDEEFF'', ''--data'', ''07070707070707070707070707070707'']"

definition demo_given_key :: "client_keys \<Rightarrow> client_keys" where
  "demo_given_key k = slot_loaded 1 (slot_written 1 (take 16 FBSEC_DEMO_KEY_PROVISIONING) (k\<lparr>ck_key_id := 1\<rparr>))"

definition demo_run :: "'w \<Rightarrow> 'w cli_run" where
  "demo_run w = \<lparr>cr_cfg = client_defaults\<lparr>vc_node_id := 9\<rparr>,
     cr_app = upd_keys demo_given_key (app_zero w), cr_verb = VERB_SWR, cr_target = 5,
     cr_data_id = 0x20160000, cr_write_buf = replicate 16 7 @ replicate 16 0, cr_write_len = 16,
     cr_data_hex = Some ''07070707070707070707070707070707''\<rparr>"

lemma demo_nth:
  "length demo_argv = 12" "demo_argv ! 4 = ''--node''" "demo_argv ! 5 = ''9''" "demo_argv ! 6 = ''--keyid''"
  "demo_argv ! 7 = ''1''" "demo_argv ! 8 = ''--key''" "demo_argv ! 9 = ''00112233445566778899AABBCCDDEEFF''"
  "demo_argv ! 10 = ''--data''" "demo_argv ! 11 = ''07070707070707070707070707070707''"
  by (simp_all add: demo_argv_def)

lemma demo_options:
  "parse_options 64 f demo_argv 4 (r\<lparr>cr_app := app_zero w\<rparr>)
   = (0, r\<lparr>cr_cfg := (cr_cfg r)\<lparr>vc_node_id := 9\<rparr>, cr_data_hex := Some ''07070707070707070707070707070707'',
           cr_app := upd_keys demo_given_key (app_zero w)\<rparr>)"
  by (simp add: parse_options.simps [of 64 f demo_argv 4] parse_options.simps [of 64 f demo_argv 6]
      parse_options.simps [of 64 f demo_argv 8] parse_options.simps [of 64 f demo_argv 10]
      parse_options.simps [of 64 f demo_argv 12] demo_nth fbsec_client_cli_try_common_flag_def flag_defs
      variant_flag_def node_value_def nums Let_def upd_cfg_def upd_keys_def demo_given_key_def demo_key_hex
      app_zero_def fbsec_client_keys_set_keyid_def word_le_nat_alt)

lemma demo_accepted:
  "parse_args 64 f demo_argv (run_start v (replicate 32 0) (app_zero w)) = (0, demo_run w)"
proof -
  let ?r = "run_start v (replicate 32 0) (app_zero w)"
  let ?p = "?r\<lparr>cr_verb := VERB_SWR, cr_target := 5, cr_data_id := 0x20160000\<rparr>"
  have s: "scan_modes (tl demo_argv) c = (False, c)" for c by (simp add: demo_argv_def)
  have p: "parse_positional 64 demo_argv ?r = (True, ?p)"
    by (simp add: parse_positional_def demo_argv_def parse_verb_def nums fbsec_co_fd_data_id_is_canopen_form_def)
  have o4: "parse_options 64 f demo_argv 4 ?p = (0, (demo_run w)\<lparr>cr_write_buf := replicate 32 0, cr_write_len := 0\<rparr>)"
    using demo_options [where f = f and r = ?p and w = w] by (simp add: demo_run_def run_start_def)
  have q: "check_payload ((demo_run w)\<lparr>cr_write_buf := replicate 32 0, cr_write_len := 0\<rparr>) = (True, demo_run w)"
    by (simp add: check_payload_def demo_run_def needs_payload_def demo_data_hex client_defaults_def client_cfg_zero_def)
  have c: "check_credentials (demo_run w)"
    by (simp add: check_credentials_def demo_run_def upd_keys_def demo_given_key_def app_zero_def client_keys_zero_def
        slot_loaded_def slot_written_def fbsec_client_keys_session_set_def no_slot_def client_defaults_def
        client_cfg_zero_def FBSEC_CLIENT_VERB_IS_SECURE_def)
  have m: "\<not> cc_menu_mode (vc_common (cr_cfg ?r))" "\<not> cc_check_policy (vc_common (cr_cfg ?r))"
    "?r\<lparr>cr_write_len := 0, cr_data_hex := None\<rparr> = ?r" "upd_cfg (\<lambda>c. c\<lparr>vc_common := vc_common (cr_cfg ?r)\<rparr>) ?r = ?r"
    by (simp_all add: run_start_def client_defaults_def client_cfg_zero_def upd_cfg_def)
  show ?thesis by (simp add: parse_args_def Let_def m s p o4 q c demo_nth(1))
qed

lemma demo_run_modes:
  "\<not> cc_menu_mode (vc_common (cr_cfg (demo_run w)))" "\<not> cc_check_policy (vc_common (cr_cfg (demo_run w)))"
  "cc_min_security (vc_common (cr_cfg (demo_run w))) = SEC_ANY" "cr_verb (demo_run w) = VERB_SWR"
  "ap_net (cr_app (demo_run w)) = w" "\<not> ck_main_key_set (ap_keys (cr_app (demo_run w)))"
  by (simp_all add: demo_run_def client_defaults_def client_cfg_zero_def upd_keys_def app_zero_def demo_given_key_def
      slot_loaded_def slot_written_def client_keys_zero_def)

end
