(* ===== verification/Client_Scan.thy ===== *)
theory Client_Scan
  imports Client_Verbs C_Text
begin

text \<open>
  The parameter scan of the interactive menu (\<open>client_common_menu.c\<close>): the
  unsecured reads of the constant objects and what the menu writes next to each.
  A row of the trace is what is appended to it; its colours and its own bytes are
  left out.
\<close>

section \<open>Numbers\<close>

definition rd_u32le :: "bytes \<Rightarrow> nat \<Rightarrow> u32" where
  "rd_u32le b len = fold (\<lambda>i v. v OR push_bit (8 * i) (ucast (b ! i))) [0..<min len 4] 0"

definition rd_u32be :: "bytes \<Rightarrow> nat \<Rightarrow> u32" where
  "rd_u32be b len = fold (\<lambda>i v. push_bit 8 v OR ucast (b ! i)) [0..<min len 4] 0"

section \<open>What a value means\<close>

definition menu_profile_name :: "u8 \<Rightarrow> string" where
  "menu_profile_name p =
     (if p = 0x00 then ''Custom'' else if p = 0x01 then ''Open'' else if p = 0x02 then ''Claimed''
      else if p = 0x03 then ''Authorized'' else if p = 0x04 then ''Identified''
      else if p = 0x05 then ''Confidential'' else ''unknown'')"

definition menu_aead_name :: "u8 \<Rightarrow> string" where
  "menu_aead_name bitmap =
     (if bitmap AND FBSEC_DESC_AEAD_AES128_GCM \<noteq> 0 then ''AES-128-GCM''
      else if bitmap AND 0x02 \<noteq> 0 then ''AES-256-GCM''
      else if bitmap AND 0x04 \<noteq> 0 then ''Ascon-128''
      else if bitmap AND 0x08 \<noteq> 0 then ''ChaCha20-Poly1305'' else ''unknown'')"

text \<open>The names of the bits that are set, each after a space; \<open>none\<close> for no bit at all.\<close>

definition bit_names :: "string \<Rightarrow> (u32 \<times> string) list \<Rightarrow> u32 \<Rightarrow> string" where
  "bit_names label names v =
     label @ (if v = 0 then '' none''
              else concat (map (\<lambda>(m, s). if v AND m \<noteq> 0 then s else []) names))"

definition role_names :: "(u32 \<times> string) list" where
  "role_names = [(0x01, '' Provisioning''), (0x02, '' Integrator''), (0x04, '' Operator'')]"

definition id_names :: "(u32 \<times> string) list" where
  "id_names = [(0x01, '' IDevID''), (0x02, '' LDevID''), (0x08, '' X509'')]"

definition gate_names :: "(u32 \<times> string) list" where
  "gate_names = [(0x01, '' TOFU''), (0x02, '' token''), (0x04, '' voucher'')]"

text \<open>
  The text of a sub-index, none when it is not known, or a read outside the buffer:
  the key object takes the last two bytes of the value at \<open>len - 2\<close>, an unsigned
  difference.
\<close>

datatype meaning = Meaning string | No_Meaning | Outside_Buffer

definition tag_text :: "u32 \<Rightarrow> string" where
  "tag_text v = menu_aead_name (ucast v) @ '', tag '' @ decimal (unat (drop_bit 8 v AND 0xFF)) @ '' bytes''"

definition interpret_caps :: "u8 \<Rightarrow> u32 \<Rightarrow> meaning" where
  "interpret_caps sub v =
     (if sub = 0x01 then
        Meaning (''type word: profile '' @ menu_profile_name (ucast (FBSEC_TYPEWORD_PROFILE v)) @
                 '', level C'' @ decimal (unat (FBSEC_TYPEWORD_LEVEL v)))
      else if sub = 0x02 then Meaning (tag_text v)
      else if sub = 0x03 then
        Meaning (''KDF:'' @ (if v AND 0x0001 \<noteq> 0 then '' HKDF-SHA-256'' else '' none''))
      else if sub = 0x04 then
        Meaning (''signature:'' @ (if v AND 0x0001 \<noteq> 0 then '' Ed25519'' else '' none''))
      else if sub = 0x05 then Meaning (bit_names ''symmetric key levels:'' role_names v)
      else if sub = 0x06 then Meaning (bit_names ''asymmetric key presence:'' id_names v)
      else if sub = 0x07 then Meaning (bit_names ''claim gates:'' gate_names v)
      else if sub = 0x08 then
        Meaning (bit_names ''mechanisms:'' [(0x01, '' AEAD''), (0x02, '' RPK''), (0x04, '' X509'')] v)
      else No_Meaning)"

definition interpret_status :: "u8 \<Rightarrow> bytes \<Rightarrow> u32 \<Rightarrow> meaning" where
  "interpret_status sub b v =
     (if sub = 0x01 then
        Meaning (''commissioning: '' @
          (if b ! 0 = FBSEC_STAT_COMMISSIONED then ''commissioned/owned'' else ''uncommissioned''))
      else if sub = 0x02 then Meaning (bit_names ''active claim gate:'' gate_names v)
      else if sub = 0x03 then Meaning (bit_names ''keys installed:'' role_names v)
      else if sub = 0x04 then Meaning (''active AEAD: '' @ tag_text v)
      else if sub = 0x05 then Meaning (bit_names ''device identities:'' id_names v)
      else No_Meaning)"

definition printable :: "u8 \<Rightarrow> bool" where
  "printable c \<longleftrightarrow> 0x20 \<le> c \<and> c < 0x7F"

definition interpret_identity :: "u8 \<Rightarrow> bytes \<Rightarrow> nat \<Rightarrow> meaning" where
  "interpret_identity sub b len =
     (let be = rd_u32be b len; asc = take (min 4 len) b in
      if sub = 0x01 then Meaning (''Vendor ID = 0x'' @ hex8 be)
      else if sub = 0x02 then
        Meaning (''Product code = 0x'' @ hex8 be @
          (if list_all printable asc
           then '' ('' @ [CHR 0x22] @ map (char_of \<circ> unat) asc @ [CHR 0x22] @ '')'' else []))
      else if sub = 0x03 then Meaning (''Revision = 0x'' @ hex8 be)
      else if sub = 0x04 then Meaning (''Serial number = 0x'' @ hex8 be)
      else No_Meaning)"

definition interpret_public_key :: "u8 \<Rightarrow> bytes \<Rightarrow> nat \<Rightarrow> meaning" where
  "interpret_public_key sub b len =
     (let role = (if sub = 0x01 then ''Manufacturer'' else if sub = 0x02 then ''Integrator'' else ''Public'') in
      if list_all (\<lambda>x. x = 0) (take len b) then Meaning (role @ '' public key: not installed'')
      else
        let i = unat (of_nat len - 2 :: u32); j = unat (of_nat len - 1 :: u32) in
        if i < length b \<and> j < length b
        then Meaning (role @ '' public key: '' @ concat (map (\<lambda>k. hex2 (b ! k)) [0, 1, 2, 3]) @ ''..'' @
                      hex2 (b ! i) @ hex2 (b ! j) @ '' (Ed25519, '' @ decimal len @ '' bytes)'')
        else Outside_Buffer)"

definition interpret_sub :: "u16 \<Rightarrow> u8 \<Rightarrow> bytes \<Rightarrow> nat \<Rightarrow> meaning" where
  "interpret_sub index sub b len =
     (let v = rd_u32le b len in
      if index = 0xC000 then interpret_caps sub v
      else if index = 0xC001 then interpret_status sub b v
      else if index = 0xC011 then
        (let role = (if sub = 0x01 then ''Provisioning'' else if sub = 0x02 then ''Integrator''
                     else if sub = 0x03 then ''Operator'' else ''Application'')
         in Meaning (role @ (if v = 0 then '' key: empty slot'' else '' key id = 0x'' @ hex8 v)))
      else if index = 0x1018 then interpret_identity sub b len
      else if index = 0xC021 then interpret_public_key sub b len
      else if index = 0xC022 then
        Meaning (''public key type: '' @ (if b ! 0 = 0x01 then ''Ed25519'' else ''reserved'') @
                 '', length '' @ decimal (unat (b ! 1)) @ '' bytes'')
      else No_Meaning)"

section \<open>The scan\<close>

text \<open>
  What is appended to a row: a note, or nothing. \<open>stale\<close> gives what the 64-byte
  buffer holds behind the bytes of a reply, for each sub-index. A read outside the
  buffer ends the model of the scan.
\<close>

datatype scan_row = Row_Note string | Row_Plain | Row_Outside

abbreviation (input) SCAN_BUF_SIZE :: nat where "SCAN_BUF_SIZE \<equiv> 64"

definition scan_buffer :: "(u16 \<Rightarrow> u8 \<Rightarrow> bytes \<Rightarrow> bytes) \<Rightarrow> u16 \<Rightarrow> u8 \<Rightarrow> bytes \<Rightarrow> bytes" where
  "scan_buffer stale index sub data =
     take SCAN_BUF_SIZE (data @ stale index sub data @ replicate SCAN_BUF_SIZE 0)"

text \<open>The rows of the sub-indices in the list, read one after the other.\<close>

fun scan_subs ::
  "(u16 \<Rightarrow> u8 \<Rightarrow> bytes \<Rightarrow> bytes) \<Rightarrow> 'w transport \<Rightarrow> u16 \<Rightarrow> u32 \<Rightarrow> u16 \<Rightarrow> nat list \<Rightarrow> 'w \<Rightarrow>
   scan_row list \<times> 'w" where
  "scan_subs stale T target timeout_ms index [] w = ([], w)"
| "scan_subs stale T target timeout_ms index (sub # subs) w =
     (let data_id = push_bit 16 (ucast index) OR push_bit 8 (of_nat sub)
      in (case tp_read T target data_id [] SCAN_BUF_SIZE timeout_ms w of
            ((rc, data, ac), w1) \<Rightarrow>
              (case (if rc = SECP_OK
                     then interpret_sub index (of_nat sub) (scan_buffer stale index (of_nat sub) data) (length data)
                     else No_Meaning) of
                 Outside_Buffer \<Rightarrow> ([Row_Outside], w1)
               | m \<Rightarrow>
                   (case scan_subs stale T target timeout_ms index subs w1 of
                      (rows, w2) \<Rightarrow>
                        ((case m of Meaning s \<Rightarrow> Row_Note s | _ \<Rightarrow> Row_Plain) # rows, w2)))))"

definition scan_one_object ::
  "(u16 \<Rightarrow> u8 \<Rightarrow> bytes \<Rightarrow> bytes) \<Rightarrow> 'w transport \<Rightarrow> u16 \<Rightarrow> u32 \<Rightarrow> u16 \<Rightarrow> 'w \<Rightarrow> scan_row list \<times> 'w" where
  "scan_one_object stale T target timeout_ms index w =
     (case tp_read T target (push_bit 16 (ucast index)) [] SCAN_BUF_SIZE timeout_ms w of
        ((rc, data, ac), w1) \<Rightarrow>
          if rc \<noteq> SECP_OK \<or> data = [] then
            ([if rc \<noteq> SECP_ABORT then Row_Note (''read failed ('' @ fbsec_client_secp_strerror rc @ '')'')
              else Row_Plain], w1)
          else
            (case scan_subs stale T target timeout_ms index [1..<unat (data ! 0) + 1] w1 of
               (rows, w2) \<Rightarrow> (Row_Note (''highest sub-index 0x'' @ hex2 (data ! 0)) # rows, w2)))"

definition scan_objects :: "u16 list" where
  "scan_objects = [0xC000, 0xC001, 0xC011, 0xC021, 0xC022, 0x1018]"

fun scan_list ::
  "(u16 \<Rightarrow> u8 \<Rightarrow> bytes \<Rightarrow> bytes) \<Rightarrow> 'w transport \<Rightarrow> u16 \<Rightarrow> u32 \<Rightarrow> u16 list \<Rightarrow> 'w \<Rightarrow>
   (u16 \<times> scan_row list) list \<times> 'w" where
  "scan_list stale T target timeout_ms [] w = ([], w)"
| "scan_list stale T target timeout_ms (i # is) w =
     (case scan_one_object stale T target timeout_ms i w of
        (rows, w1) \<Rightarrow>
          if Row_Outside \<in> set rows then ([(i, rows)], w1)
          else (case scan_list stale T target timeout_ms is w1 of (rest, w2) \<Rightarrow> ((i, rows) # rest, w2)))"

definition scan_security_params ::
  "(u16 \<Rightarrow> u8 \<Rightarrow> bytes \<Rightarrow> bytes) \<Rightarrow> 'w transport \<Rightarrow> u16 \<Rightarrow> u32 \<Rightarrow> 'w \<Rightarrow> (u16 \<times> scan_row list) list \<times> 'w" where
  "scan_security_params stale T target timeout_ms w = scan_list stale T target timeout_ms scan_objects w"

section \<open>When a scan stays within its buffer\<close>

lemma length_scan_buffer [simp]: "length (scan_buffer stale index sub data) = SCAN_BUF_SIZE"
  by (simp add: scan_buffer_def)

lemma len_minus:
  assumes "k \<le> n" "n \<le> 64"
  shows "unat (of_nat n - of_nat k :: u32) = n - k"
proof -
  have "of_nat n - of_nat k = (of_nat (n - k) :: u32)" using assms(1) by (simp add: of_nat_diff)
  then show ?thesis using assms(2) by (simp only:) (simp add: unsigned_of_nat take_bit_nat_eq_self)
qed

lemma public_key_outside:
  assumes "length b = SCAN_BUF_SIZE" "len \<le> SCAN_BUF_SIZE"
  shows "interpret_public_key sub b len = Outside_Buffer \<longleftrightarrow> len = 1 \<and> b ! 0 \<noteq> 0"
proof -
  consider "len = 0" | "len = 1" | "2 \<le> len" by linarith
  then show ?thesis
  proof cases
    case 2
    have "take 1 b = [b ! 0]" using assms(1) by (cases b) auto
    moreover have "unat (1 - 2 :: u32) = 0xFFFFFFFF" by (simp add: unsigned_minus_1_eq_mask mask_eq_exp_minus_1)
    ultimately show ?thesis using assms 2 by (simp add: interpret_public_key_def Let_def)
  next
    case 3
    then have "unat (of_nat len - 2 :: u32) < length b" "unat (of_nat len - 1 :: u32) < length b"
      using assms len_minus [of 2 len] len_minus [of 1 len] by simp_all
    then show ?thesis using 3 by (simp add: interpret_public_key_def Let_def)
  qed (simp add: interpret_public_key_def)
qed

text \<open>The only read outside the buffer is the one of a public key that is one non-zero byte.\<close>

lemma interpret_outside:
  assumes "length b = SCAN_BUF_SIZE" "len \<le> SCAN_BUF_SIZE"
  shows "interpret_sub index sub b len = Outside_Buffer \<longleftrightarrow> index = 0xC021 \<and> len = 1 \<and> b ! 0 \<noteq> 0"
  using public_key_outside [OF assms]
  by (auto simp: interpret_sub_def interpret_caps_def interpret_status_def interpret_identity_def Let_def)

end
