(* ===== verification/Client_Menu.thy ===== *)
theory Client_Menu
  imports Client_Scan Client_Commission C_File
begin

text \<open>
  The interactive menu (\<open>client_common_menu.c\<close>). The standard input is the text
  still to come, threaded through the prompts; its end is the end of file. What
  the menu prints is left out, except for the rows of the parameter scan and the
  counts of the cyclic loops. \<open>bits\<close> is the width of the target's \<open>long\<close>.
\<close>

section \<open>Lines\<close>

definition is_blank :: "char \<Rightarrow> bool" where
  "is_blank c \<longleftrightarrow> c = CHR '' '' \<or> c = TAB"

text \<open>
  The offset of the returned pointer, and the text in place: the white space at
  the end is cut, the blanks at the front are only skipped by the pointer.
\<close>

definition trim_inplace :: "string \<Rightarrow> nat \<times> string" where
  "trim_inplace s =
     (let k = length (takeWhile is_blank s)
      in (k, take k s @ rev (dropWhile is_sep (rev (drop k s)))))"

text \<open>A line into a buffer of \<open>n\<close> bytes; the pointer is not used. \<open>None\<close> at the end of the input.\<close>

definition read_line :: "nat \<Rightarrow> string \<Rightarrow> (string \<times> string) option" where
  "read_line n inp =
     (if inp = [] then None
      else (case fgets (n - 1) inp of (l, rest) \<Rightarrow> Some (snd (trim_inplace (c_line l)), rest)))"

lemma read_line_shorter: "Some (l, rest) = read_line n inp \<Longrightarrow> 1 < n \<Longrightarrow> length rest < length inp"
  using fgets_proper [of "n - 1" inp] by (auto simp: read_line_def split: if_splits prod.splits)

lemmas read_line_shorter' = read_line_shorter [OF sym]

definition menu_parse_u32 :: "nat \<Rightarrow> string \<Rightarrow> u32 option" where
  "menu_parse_u32 bits s =
     (if s = [] then None
      else (case strtoul bits 0 s of
              (v, end_ptr) \<Rightarrow> if end_ptr = s \<or> end_ptr \<noteq> [] then None else Some (of_nat v)))"

section \<open>Prompts\<close>

function prompt_target :: "nat \<Rightarrow> u16 \<Rightarrow> string \<Rightarrow> u16 option \<times> string" where
  "prompt_target bits my_dev inp =
     (case read_line 64 inp of
        None \<Rightarrow> (None, inp)
      | Some (line, rest) \<Rightarrow>
          (case menu_parse_u32 bits (if line = [] then ''0x05'' else line) of
             None \<Rightarrow> prompt_target bits my_dev rest
           | Some v \<Rightarrow>
               if v = 0 \<or> v \<ge> 0xFFFF then prompt_target bits my_dev rest
               else if ucast v = my_dev then prompt_target bits my_dev rest
               else (Some (ucast v), rest)))"
  by pat_completeness auto
termination
  by (relation "measure (\<lambda>(bits, my_dev, inp). length inp)") (auto dest: read_line_shorter read_line_shorter')

declare prompt_target.simps [simp del]

function prompt_key :: "string \<Rightarrow> client_keys \<Rightarrow> string \<times> client_keys" where
  "prompt_key inp k =
     (case read_line 16 inp of
        None \<Rightarrow> (inp, k)
      | Some (line, rest) \<Rightarrow>
          if line = [] then
            (rest, if ck_key_id k = 0 then fbsec_client_keys_set_keyid FBSEC_CLIENT_KEYID_INTEGRATOR k else k)
          else if hd line = CHR ''1'' then (rest, fbsec_client_keys_set_keyid FBSEC_CLIENT_KEYID_PROVISIONING k)
          else if hd line = CHR ''2'' then (rest, fbsec_client_keys_set_keyid FBSEC_CLIENT_KEYID_INTEGRATOR k)
          else if hd line = CHR ''3'' then (rest, fbsec_client_keys_set_keyid FBSEC_CLIENT_KEYID_OPERATOR k)
          else prompt_key rest k)"
  by pat_completeness auto
termination
  by (relation "measure (\<lambda>(inp, k). length inp)") (auto dest: read_line_shorter read_line_shorter')

declare prompt_key.simps [simp del]

definition ensure_key_selected :: "string \<Rightarrow> 'w app \<Rightarrow> string \<times> 'w app" where
  "ensure_key_selected inp a =
     (if ck_key_id (ap_keys a) = 0 \<and> \<not> ck_main_key_set (ap_keys a) then
        (case prompt_key inp (ap_keys a) of (rest, k) \<Rightarrow> (rest, a\<lparr>ap_keys := k\<rparr>))
      else (inp, a))"

text \<open>\<open>setter\<close> is the variant's callback, \<open>None\<close> when there is none.\<close>

function prompt_node_id ::
  "nat \<Rightarrow> (u8 \<Rightarrow> 'w app \<Rightarrow> 'w app) option \<Rightarrow> u16 \<Rightarrow> string \<Rightarrow> 'w app \<Rightarrow> u16 \<times> string \<times> 'w app" where
  "prompt_node_id bits setter my_dev inp a =
     (case setter of
        None \<Rightarrow> (my_dev, inp, a)
      | Some set_id \<Rightarrow>
          (case read_line 16 inp of
             None \<Rightarrow> (my_dev, inp, a)
           | Some (line, rest) \<Rightarrow>
               if line = [] then (my_dev, rest, a)
               else (case menu_parse_u32 bits line of
                       None \<Rightarrow> prompt_node_id bits setter my_dev rest a
                     | Some v \<Rightarrow>
                         if v = 0 \<or> v > 127 then prompt_node_id bits setter my_dev rest a
                         else (ucast v, rest, set_id (ucast v) a))))"
  by pat_completeness auto
termination
  by (relation "measure (\<lambda>(bits, setter, my_dev, inp, a). length inp)")
     (auto dest: read_line_shorter read_line_shorter')

declare prompt_node_id.simps [simp del]

function prompt_encryption :: "string \<Rightarrow> client_keys \<Rightarrow> string \<times> client_keys" where
  "prompt_encryption inp k =
     (case read_line 16 inp of
        None \<Rightarrow> (inp, k)
      | Some (line, rest) \<Rightarrow>
          if line = [] then (rest, k)
          else if hd line \<in> {CHR ''y'', CHR ''Y'', CHR ''1''} then (rest, fbsec_client_keys_set_use_encryption True k)
          else if hd line \<in> {CHR ''n'', CHR ''N'', CHR ''0''} then (rest, fbsec_client_keys_set_use_encryption False k)
          else prompt_encryption rest k)"
  by pat_completeness auto
termination
  by (relation "measure (\<lambda>(inp, k). length inp)") (auto dest: read_line_shorter read_line_shorter')

declare prompt_encryption.simps [simp del]

lemma prompt_key_shorter: "length (fst (prompt_key inp k)) \<le> length inp"
proof (induction inp k rule: prompt_key.induct)
  case (1 inp k)
  show ?case
  proof (cases "read_line 16 inp")
    case None
    then show ?thesis by (simp add: prompt_key.simps [of inp])
  next
    case (Some lr)
    obtain line rest where lr: "lr = (line, rest)" by force
    then have "length rest < length inp" using read_line_shorter' Some by simp
    then show ?thesis
      using 1 [OF Some lr [symmetric]] Some lr by (auto simp: prompt_key.simps [of inp])
  qed
qed

lemma ensure_key_shorter: "length (fst (ensure_key_selected inp a)) \<le> length inp"
  using prompt_key_shorter [of inp "ap_keys a"] by (auto simp: ensure_key_selected_def split: prod.split)

section \<open>Cyclic loops\<close>

abbreviation (input) MENU_POLL_COUNT :: nat where "MENU_POLL_COUNT \<equiv> 300"
abbreviation (input) MENU_WR_DATA_ID :: u32 where "MENU_WR_DATA_ID \<equiv> 0x20100000"
abbreviation (input) MENU_RD_DATA_ID :: u32 where "MENU_RD_DATA_ID \<equiv> 0x20200000"
abbreviation (input) MENU_ID_DATA_ID :: u32 where "MENU_ID_DATA_ID \<equiv> 0xC0180000"
abbreviation (input) MENU_BIN_DATA_ID :: u32 where "MENU_BIN_DATA_ID \<equiv> 0x20160000"
abbreviation (input) MENU_BIN_LEN :: nat where "MENU_BIN_LEN \<equiv> 16"

text \<open>The counters \<open>ok\<close>, \<open>abort_n\<close> and \<open>fail\<close>.\<close>

type_synonym poll_counts = "nat \<times> nat \<times> nat"

definition count_poll :: "secp_status \<Rightarrow> poll_counts \<Rightarrow> poll_counts" where
  "count_poll rc = (\<lambda>(ok, abort_n, fail).
     if rc = SECP_OK then (ok + 1, abort_n, fail)
     else if rc = SECP_ABORT then (ok, abort_n + 1, fail) else (ok, abort_n, fail + 1))"

text \<open>One round; a failed one leaves the loop running.\<close>

definition menu_poll_read ::
  "gcm \<Rightarrow> 'w client_port \<Rightarrow> 'w transport \<Rightarrow> u16 \<Rightarrow> u32 \<Rightarrow> nat \<Rightarrow>
   session \<times> poll_counts \<times> 'w app \<Rightarrow> session \<times> poll_counts \<times> 'w app" where
  "menu_poll_read g C T target timeout_ms n = (\<lambda>(sess, counts, a).
     let a = upd_keys fbsec_client_keys_clear_observed_salt a in
     (case fbsec_secure_poll_read g (app_port C) (app_transport T) target
             (fbsec_client_keys_session (ap_keys a)) timeout_ms sess FBSEC_AEAD_MAX_PROTECTED a of
        ((rc, pt, tag, ac, sess'), a') \<Rightarrow> (sess', count_poll rc counts, a')))"

text \<open>\<open>None\<close> when the session could not be armed; the function itself returns 0 either way.\<close>

definition poll_read_loop ::
  "gcm \<Rightarrow> 'w client_port \<Rightarrow> 'w transport \<Rightarrow> u16 \<Rightarrow> u32 \<Rightarrow> 'w app \<Rightarrow> poll_counts option \<times> 'w app" where
  "poll_read_loop g C T target timeout_ms a =
     (let a = upd_keys fbsec_client_keys_clear_observed_salt a in
      (case fbsec_secure_read_armed g (app_port C) (app_transport T) target MENU_RD_DATA_ID
              (fbsec_client_keys_session (ap_keys a)) (fbsec_client_keys_effective_keyid (ap_keys a))
              FBSEC_AEAD_MAX_PROTECTED timeout_ms session_zero a of
         ((rc, pt, ac, sess), a) \<Rightarrow>
           if rc \<noteq> SECP_OK then (None, a)
           else (case fold (menu_poll_read g C T target timeout_ms) [2..<MENU_POLL_COUNT + 1] (sess, (1, 0, 0), a) of
                   (_, counts, a) \<Rightarrow> (Some counts, a))))"

definition be32 :: "u32 \<Rightarrow> bytes" where
  "be32 v = rev (le32 v)"

definition menu_poll_write ::
  "gcm \<Rightarrow> 'w client_port \<Rightarrow> 'w transport \<Rightarrow> u16 \<Rightarrow> u32 \<Rightarrow> nat \<Rightarrow>
   session \<times> poll_counts \<times> 'w app \<Rightarrow> session \<times> poll_counts \<times> 'w app" where
  "menu_poll_write g C T target timeout_ms n = (\<lambda>(sess, counts, a).
     let a = upd_keys fbsec_client_keys_clear_observed_salt a in
     (case fbsec_secure_poll_write g (app_port C) (app_transport T) target
             (fbsec_client_keys_session (ap_keys a)) timeout_ms sess (be32 (of_nat n)) a of
        ((rc, tag, ac, sess'), a') \<Rightarrow> (sess', count_poll rc counts, a')))"

definition poll_write_loop ::
  "gcm \<Rightarrow> 'w client_port \<Rightarrow> 'w transport \<Rightarrow> u16 \<Rightarrow> u32 \<Rightarrow> 'w app \<Rightarrow> poll_counts option \<times> 'w app" where
  "poll_write_loop g C T target timeout_ms a =
     (let a = upd_keys fbsec_client_keys_clear_observed_salt a in
      (case fbsec_secure_write_armed g (app_port C) (app_transport T) target MENU_WR_DATA_ID
              (fbsec_client_keys_session (ap_keys a)) (fbsec_client_keys_effective_keyid (ap_keys a))
              (be32 1) timeout_ms session_zero a of
         ((rc, ac, sess), a) \<Rightarrow>
           if rc \<noteq> SECP_OK then (None, a)
           else (case fold (menu_poll_write g C T target timeout_ms) [2..<MENU_POLL_COUNT + 1] (sess, (1, 0, 0), a) of
                   (_, counts, a) \<Rightarrow> (Some counts, a))))"

section \<open>The lifecycle submenu\<close>

definition lifecycle_cold_read ::
  "'w transport \<Rightarrow> u16 \<Rightarrow> u16 \<Rightarrow> u8 \<Rightarrow> u32 \<Rightarrow> nat \<Rightarrow> 'w \<Rightarrow> bytes \<times> 'w" where
  "lifecycle_cold_read T target index sub timeout_ms buf_size w =
     (let data_id = push_bit 16 (ucast index) OR push_bit 8 (ucast sub)
      in (case tp_read T target data_id [] buf_size timeout_ms w of
            ((rc, data, ac), w1) \<Rightarrow> (if rc = SECP_OK then data else [], w1)))"

record lifecycle_state =
  lc_ok :: bool
  lc_commissioning :: u8
  lc_keys :: u8
  lc_handover :: u8

definition lifecycle_read_state :: "'w transport \<Rightarrow> u16 \<Rightarrow> u32 \<Rightarrow> 'w \<Rightarrow> lifecycle_state \<times> 'w" where
  "lifecycle_read_state T target timeout_ms w =
     (let st = \<lparr>lc_ok = False, lc_commissioning = FBSEC_STAT_UNCOMMISSIONED, lc_keys = 0, lc_handover = 0\<rparr> in
      case lifecycle_cold_read T target 0xC001 0x01 timeout_ms 8 w of (d, w) \<Rightarrow>
        let st = (if d \<noteq> [] then st\<lparr>lc_ok := True, lc_commissioning := d ! 0\<rparr> else st) in
      case lifecycle_cold_read T target 0xC001 0x03 timeout_ms 8 w of (d, w) \<Rightarrow>
        let st = (if d \<noteq> [] then st\<lparr>lc_keys := d ! 0\<rparr> else st) in
      case lifecycle_cold_read T target 0xC000 0x07 timeout_ms 8 w of (d, w) \<Rightarrow>
        let st = (if d \<noteq> [] then st\<lparr>lc_handover := d ! 0\<rparr> else st) in (st, w))"

datatype lifecycle_action = LC_ACT_VOUCHER | LC_ACT_TOKEN | LC_ACT_LADDER | LC_ACT_DECOMMISSION

definition lifecycle_actions :: "lifecycle_state \<Rightarrow> lifecycle_action list" where
  "lifecycle_actions st =
     (if lc_commissioning st \<noteq> FBSEC_STAT_COMMISSIONED then
        (if lc_handover st AND FBSEC_DESC_HANDOVER_VOUCHER \<noteq> 0 then [LC_ACT_VOUCHER] else []) @
        (if lc_handover st AND FBSEC_DESC_HANDOVER_TOKEN \<noteq> 0 then [LC_ACT_TOKEN] else [])
      else
        let all_keys = FBSEC_STAT_KEY_PROVISIONING OR FBSEC_STAT_KEY_INTEGRATOR OR FBSEC_STAT_KEY_OPERATOR in
        (if lc_keys st AND all_keys \<noteq> all_keys then [LC_ACT_LADDER] else []) @ [LC_ACT_DECOMMISSION])"

definition lifecycle_run_ladder ::
  "gcm \<Rightarrow> 'w client_port \<Rightarrow> 'w transport \<Rightarrow> u16 \<Rightarrow> u32 \<Rightarrow> string \<Rightarrow> 'w app \<Rightarrow> string \<times> 'w app" where
  "lifecycle_run_ladder g C T target timeout_ms inp a =
     (case fbsec_commission_install_ladder g C T target timeout_ms a of
        (rc, a) \<Rightarrow> if rc \<noteq> 0 then (inp, a) else ensure_key_selected inp a)"

definition lifecycle_do_action ::
  "ed25519 \<Rightarrow> gcm \<Rightarrow> 'w client_port \<Rightarrow> 'w transport \<Rightarrow> lifecycle_action \<Rightarrow> u16 \<Rightarrow> u32 \<Rightarrow>
   string \<Rightarrow> 'w app \<Rightarrow> string \<times> 'w app" where
  "lifecycle_do_action E g C T act target timeout_ms inp a =
     (case act of
        LC_ACT_VOUCHER \<Rightarrow>
          (case fbsec_commission_present_voucher E T target timeout_ms a of
             (rc, a) \<Rightarrow>
               if rc \<noteq> 0 then (inp, a)
               else (case on_net (fbsec_commission_install_provisioning E T target timeout_ms) a of
                       (rc, a) \<Rightarrow>
                         if rc \<noteq> 0 then (inp, a)
                         else lifecycle_run_ladder g C T target timeout_ms inp a))
      | LC_ACT_TOKEN \<Rightarrow>
          (case fbsec_commission_install_provisioning_by_token g C T target timeout_ms a of
             (rc, a) \<Rightarrow>
               if rc \<noteq> 0 then (inp, a) else lifecycle_run_ladder g C T target timeout_ms inp a)
      | LC_ACT_LADDER \<Rightarrow> lifecycle_run_ladder g C T target timeout_ms inp a
      | LC_ACT_DECOMMISSION \<Rightarrow>
          (case on_net (fbsec_rpk_command E C T target FBSEC_HO_CMD_FACTORY_RESTORE timeout_ms) a of
             (rc, a) \<Rightarrow> (inp, a)))"

lemma run_ladder_shorter: "length (fst (lifecycle_run_ladder g C T target t inp a)) \<le> length inp"
  using ensure_key_shorter [of inp] by (auto simp: lifecycle_run_ladder_def split: prod.split)

lemma do_action_shorter: "length (fst (lifecycle_do_action E g C T act target t inp a)) \<le> length inp"
  using run_ladder_shorter [of g C T target t inp]
  by (auto simp: lifecycle_do_action_def split: lifecycle_action.split prod.split)

text \<open>The choice of a line: the number of an offered action.\<close>

definition lifecycle_choice :: "nat \<Rightarrow> string \<Rightarrow> lifecycle_action list \<Rightarrow> lifecycle_action option" where
  "lifecycle_choice bits line acts =
     (case strtoul bits 10 line of
        (sel, end_ptr) \<Rightarrow>
          if end_ptr = line \<or> end_ptr \<noteq> [] \<or> sel < 1 \<or> sel > length acts then None
          else Some (acts ! (sel - 1)))"

text \<open>What a line that is neither empty nor \<open>q\<close> does.\<close>

definition lifecycle_line ::
  "nat \<Rightarrow> ed25519 \<Rightarrow> gcm \<Rightarrow> 'w client_port \<Rightarrow> 'w transport \<Rightarrow> u16 \<Rightarrow> u32 \<Rightarrow> lifecycle_state \<Rightarrow> string \<Rightarrow>
   string \<Rightarrow> 'w app \<Rightarrow> string \<times> 'w app" where
  "lifecycle_line bits E g C T target timeout_ms st line inp a =
     (case lifecycle_choice bits line (if lc_ok st then lifecycle_actions st else []) of
        None \<Rightarrow> (inp, a)
      | Some act \<Rightarrow> lifecycle_do_action E g C T act target timeout_ms inp a)"

lemma lifecycle_line_shorter:
  "(rest, a') = lifecycle_line bits E g C T target t st line inp a \<Longrightarrow> length rest \<le> length inp"
  using do_action_shorter [of E g C T _ target t inp a]
  by (auto simp: lifecycle_line_def split: option.splits) (metis fst_conv)

function lifecycle_submenu ::
  "nat \<Rightarrow> ed25519 \<Rightarrow> gcm \<Rightarrow> 'w client_port \<Rightarrow> 'w transport \<Rightarrow> u16 \<Rightarrow> u32 \<Rightarrow> string \<Rightarrow> 'w app \<Rightarrow>
   string \<times> 'w app" where
  "lifecycle_submenu bits E g C T target timeout_ms inp a =
     (case on_net (lifecycle_read_state T target timeout_ms) a of
        (st, a1) \<Rightarrow>
          (case read_line 32 inp of
             None \<Rightarrow> (inp, a1)
           | Some (line, rest) \<Rightarrow>
               if line = [] then lifecycle_submenu bits E g C T target timeout_ms rest a1
               else if hd line = CHR ''q'' \<or> hd line = CHR ''Q'' then (rest, a1)
               else
                 (case lifecycle_line bits E g C T target timeout_ms st line rest a1 of
                    (rest', a2) \<Rightarrow> lifecycle_submenu bits E g C T target timeout_ms rest' a2)))"
  by pat_completeness auto
termination
  by (relation "measure (\<lambda>(bits, E, g, C, T, target, t, inp, a). length inp)")
     (auto split: prod.split dest!: read_line_shorter' lifecycle_line_shorter [OF sym])

declare lifecycle_submenu.simps [simp del]

section \<open>The menu\<close>

text \<open>The two counters of the menu, \<open>wr_counter\<close> and \<open>bin_counter\<close>.\<close>

record menu_vars =
  mv_wr_counter :: u16
  mv_bin_counter :: u32

definition menu_bin_value :: "u8 \<Rightarrow> menu_vars \<Rightarrow> bytes" where
  "menu_bin_value fill m = be32 (mv_bin_counter m) @ replicate (MENU_BIN_LEN - 4) fill"

definition menu_wr_value :: "menu_vars \<Rightarrow> bytes" where
  "menu_wr_value m = [0x12, 0x34, ucast (drop_bit 8 (mv_wr_counter m)), ucast (mv_wr_counter m)]"

definition next_bin :: "menu_vars \<Rightarrow> menu_vars" where
  "next_bin m = m\<lparr>mv_bin_counter := mv_bin_counter m + 1\<rparr>"

definition next_wr :: "menu_vars \<Rightarrow> menu_vars" where
  "next_wr m = m\<lparr>mv_wr_counter := mv_wr_counter m + 1\<rparr>"

text \<open>The AEAD choices; the whole line is compared.\<close>

definition menu_aead ::
  "gcm \<Rightarrow> 'w client_port \<Rightarrow> 'w transport \<Rightarrow> u16 \<Rightarrow> u32 \<Rightarrow> string \<Rightarrow> menu_vars \<Rightarrow> 'w app \<Rightarrow>
   (menu_vars \<times> 'w app) option" where
  "menu_aead g C T target timeout_ms line m a =
     (if line = ''1'' then
        Some (m, snd (fbsec_client_run_secure_read g C T target MENU_ID_DATA_ID timeout_ms FBSEC_AEAD_MAX_PROTECTED a))
      else if line = ''2'' then
        Some (next_bin m, snd (fbsec_client_run_secure_write g C T target MENU_BIN_DATA_ID
                                (menu_bin_value 0xCC m) timeout_ms a))
      else if line = ''3'' then
        Some (m, snd (fbsec_client_run_secure_read g C T target MENU_RD_DATA_ID timeout_ms FBSEC_AEAD_MAX_PROTECTED a))
      else if line = ''4'' then
        Some (next_wr m, snd (fbsec_client_run_secure_write g C T target MENU_WR_DATA_ID
                               (menu_wr_value m) timeout_ms a))
      else if line = ''5'' then Some (m, snd (poll_read_loop g C T target timeout_ms a))
      else if line = ''6'' then Some (m, snd (poll_write_loop g C T target timeout_ms a))
      else None)"

definition command_code :: "nat \<Rightarrow> string \<Rightarrow> u32 \<times> string" where
  "command_code bits inp =
     (case read_line 16 inp of
        None \<Rightarrow> (0x0001, inp)
      | Some (line, rest) \<Rightarrow> (if line \<noteq> [] then of_nat (fst (strtoul bits 16 line)) else 0x0001, rest))"

text \<open>The other choices, by the first character.\<close>

definition menu_other ::
  "nat \<Rightarrow> ed25519 \<Rightarrow> gcm \<Rightarrow> 'w client_port \<Rightarrow> 'w transport \<Rightarrow> u16 \<Rightarrow> u32 \<Rightarrow> char \<Rightarrow> string \<Rightarrow>
   menu_vars \<Rightarrow> 'w app \<Rightarrow> string \<times> menu_vars \<times> 'w app" where
  "menu_other bits E g C T target timeout_ms c inp m a =
     (if c = CHR ''a'' \<or> c = CHR ''A'' then
        (inp, m, snd (on_net (fbsec_commission_verify_genuineness E C T target timeout_ms) a))
      else if c = CHR ''b'' \<or> c = CHR ''B'' then
        (inp, m, snd (on_net (fbsec_rpk_signed_read E C T target 0x2021 0x00 FBSEC_RPK_VALUE_MAX timeout_ms) a))
      else if c = CHR ''c'' \<or> c = CHR ''C'' then
        (inp, next_bin m,
         snd (on_net (fbsec_rpk_signed_write E C T target 0x2017 0x00 (menu_bin_value 0xDD m) timeout_ms) a))
      else if c = CHR ''d'' \<or> c = CHR ''D'' then
        (case command_code bits inp of
           (cmd, rest) \<Rightarrow> (rest, m, snd (on_net (fbsec_rpk_command E C T target cmd timeout_ms) a)))
      else if c = CHR ''l'' \<or> c = CHR ''L'' then
        (case lifecycle_submenu bits E g C T target timeout_ms inp a of (rest, a) \<Rightarrow> (rest, m, a))
      else (inp, m, a))"

text \<open>
  A line that is neither empty nor \<open>q\<close>. The flag tells that a scan read outside its
  buffer, where the language gives no meaning to what follows.
\<close>

definition menu_line ::
  "nat \<Rightarrow> (u16 \<Rightarrow> u8 \<Rightarrow> bytes \<Rightarrow> bytes) \<Rightarrow> ed25519 \<Rightarrow> gcm \<Rightarrow> 'w client_port \<Rightarrow> 'w transport \<Rightarrow> u16 \<Rightarrow> u32 \<Rightarrow>
   string \<Rightarrow> string \<Rightarrow> menu_vars \<Rightarrow> 'w app \<Rightarrow> bool \<times> string \<times> menu_vars \<times> 'w app" where
  "menu_line bits stale E g C T target timeout_ms line inp m a =
     (if hd line = CHR ''0'' then
        (case on_net (scan_security_params stale T target timeout_ms) a of
           (rows, a) \<Rightarrow> (list_ex (\<lambda>(i, rs). Row_Outside \<in> set rs) rows, inp, m, a))
      else
        (case (if hd line \<in> set ''123456'' then ensure_key_selected inp a else (inp, a)) of
           (inp, a) \<Rightarrow>
             (case menu_aead g C T target timeout_ms line m a of
                Some (m, a) \<Rightarrow> (False, inp, m, a)
              | None \<Rightarrow> (False, menu_other bits E g C T target timeout_ms (hd line) inp m a))))"

lemma submenu_shorter: "length (fst (lifecycle_submenu bits E g C T target t inp a)) \<le> length inp"
proof (induction bits E g C T target t inp a rule: lifecycle_submenu.induct)
  case (1 bits E g C T target t inp a)
  obtain st a1 where st: "on_net (lifecycle_read_state T target t) a = (st, a1)" by force
  show ?case
  proof (cases "read_line 32 inp")
    case None
    then show ?thesis using st by (simp add: lifecycle_submenu.simps [of bits E g C T target t inp a])
  next
    case (Some lr)
    obtain line rest where lr: "lr = (line, rest)" by force
    have s: "length rest < length inp" using read_line_shorter' Some lr by simp
    obtain rest' a2 where ll: "lifecycle_line bits E g C T target t st line rest a1 = (rest', a2)" by force
    have "length rest' \<le> length rest" by (rule lifecycle_line_shorter [OF ll [symmetric]])
    then show ?thesis
      using 1(1) [OF st [symmetric] Some lr [symmetric]] 1(2) [OF st [symmetric] Some lr [symmetric] _ _ ll [symmetric]]
        st Some lr s ll
      by (auto simp: lifecycle_submenu.simps [of bits E g C T target t inp a])
  qed
qed

lemma menu_other_shorter: "length (fst (menu_other bits E g C T target t c inp m a)) \<le> length inp"
  using submenu_shorter [of bits E g C T target t inp a] read_line_shorter' [of 16 inp]
  by (auto simp: menu_other_def command_code_def split: prod.split option.splits)

lemma menu_line_shorter:
  "menu_line bits stale E g C T target t line inp m a = (u, rest, m', a') \<Longrightarrow> length rest \<le> length inp"
  using ensure_key_shorter [of inp a] menu_other_shorter [of bits E g C T target t "hd line"]
  by (auto simp: menu_line_def split: if_splits prod.splits option.splits)
     (metis fst_conv le_trans)+

function menu_loop ::
  "nat \<Rightarrow> (u16 \<Rightarrow> u8 \<Rightarrow> bytes \<Rightarrow> bytes) \<Rightarrow> ed25519 \<Rightarrow> gcm \<Rightarrow> 'w client_port \<Rightarrow> 'w transport \<Rightarrow> u16 \<Rightarrow> u32 \<Rightarrow>
   string \<Rightarrow> menu_vars \<Rightarrow> 'w app \<Rightarrow> bool \<times> string \<times> 'w app" where
  "menu_loop bits stale E g C T target timeout_ms inp m a =
     (case read_line 32 inp of
        None \<Rightarrow> (False, inp, a)
      | Some (line, rest) \<Rightarrow>
          if line = [] then menu_loop bits stale E g C T target timeout_ms rest m a
          else if hd line = CHR ''q'' \<or> hd line = CHR ''Q'' then (False, rest, a)
          else
            (case menu_line bits stale E g C T target timeout_ms line rest m a of
               (outside, rest', m', a') \<Rightarrow>
                 if outside then (True, rest', a')
                 else menu_loop bits stale E g C T target timeout_ms rest' m' a'))"
  by pat_completeness auto
termination
  by (relation "measure (\<lambda>(bits, stale, E, g, C, T, target, t, inp, m, a). length inp)")
     (auto split: prod.split dest!: read_line_shorter' menu_line_shorter [OF sym])

declare menu_loop.simps [simp del]

text \<open>The function always returns 0, so only the rest of the input and the state are given.\<close>

definition fbsec_client_run_menu ::
  "nat \<Rightarrow> (u16 \<Rightarrow> u8 \<Rightarrow> bytes \<Rightarrow> bytes) \<Rightarrow> ed25519 \<Rightarrow> gcm \<Rightarrow> 'w client_port \<Rightarrow> 'w transport \<Rightarrow>
   (u8 \<Rightarrow> 'w app \<Rightarrow> 'w app) option \<Rightarrow> u16 \<Rightarrow> u32 \<Rightarrow> string \<Rightarrow> 'w app \<Rightarrow> bool \<times> string \<times> 'w app" where
  "fbsec_client_run_menu bits stale E g C T setter my_dev timeout_ms inp a =
     (case prompt_node_id bits setter my_dev inp a of
        (my_dev, inp, a) \<Rightarrow>
          (case prompt_target bits my_dev inp of
             (None, inp) \<Rightarrow> (False, inp, a)
           | (Some target, inp) \<Rightarrow>
               (case prompt_encryption inp (ap_keys a) of
                  (inp, k) \<Rightarrow>
                    menu_loop bits stale E g C T target timeout_ms inp
                      \<lparr>mv_wr_counter = 0, mv_bin_counter = 1\<rparr> (a\<lparr>ap_keys := k\<rparr>))))"

end
