(* ===== verification/Client_Menu_Props.thy ===== *)
theory Client_Menu_Props
  imports Client_Menu Client_Main
begin

text \<open>
  What the menu does against a device: when the parameter scan stays within its
  buffer, and what the lifecycle submenu offers and completes on the reference
  server.
\<close>

section \<open>The menu of the program\<close>

text \<open>The setter the variant hands to the menu, and the branch of \<open>main\<close> that runs it.\<close>

definition on_menu_set_node_id :: "u8 \<Rightarrow> 'o client app \<Rightarrow> 'o client app" where
  "on_menu_set_node_id n a = set_node n a"

definition run_menu_mode ::
  "nat \<Rightarrow> (u16 \<Rightarrow> u8 \<Rightarrow> bytes \<Rightarrow> bytes) \<Rightarrow> ed25519 \<Rightarrow> gcm \<Rightarrow> 'o client client_port \<Rightarrow> 'o client transport \<Rightarrow>
   string \<Rightarrow> client_variant_cfg \<Rightarrow> 'o client app \<Rightarrow> nat \<times> 'o client app" where
  "run_menu_mode bits stale E g C T inp c a =
     (case fbsec_client_run_menu bits stale E g C T (Some on_menu_set_node_id) (ucast (vc_node_id c))
             (cc_timeout_ms (vc_common c)) inp a of (outside, rest, a) \<Rightarrow> (0, a))"

section \<open>The scan\<close>

text \<open>The transport keeps to the size of the buffer it is given.\<close>

definition reads_bounded :: "'w transport \<Rightarrow> bool" where
  "reads_bounded T \<longleftrightarrow> (\<forall>dev d body n t w. length (fst (snd (fst (tp_read T dev d body n t w)))) \<le> n)"

text \<open>A device answered a read of a public key with a single byte that is not zero.\<close>

definition short_public_key :: "'w transport \<Rightarrow> u16 \<Rightarrow> u32 \<Rightarrow> bool" where
  "short_public_key T target t \<longleftrightarrow> (\<exists>sub w key ac w'. key \<noteq> 0 \<and>
     tp_read T target (push_bit 16 0xC021 OR push_bit 8 (of_nat sub)) [] SCAN_BUF_SIZE t w = ((SECP_OK, [key], ac), w'))"

lemma scan_subs_outside:
  assumes "reads_bounded T" "scan_subs stale T target t index subs w = (rows, w')" "Row_Outside \<in> set rows"
  shows "short_public_key T target t"
  using assms(2,3)
proof (induction subs arbitrary: w rows w')
  case (Cons sub subs)
  let ?d = "push_bit 16 (ucast index) OR push_bit 8 (of_nat sub) :: u32"
  obtain rc data ac w1 where r: "tp_read T target ?d [] SCAN_BUF_SIZE t w = ((rc, data, ac), w1)" by (metis surj_pair)
  have len: "length data \<le> 64" using assms(1) r unfolding reads_bounded_def by (metis fst_conv snd_conv)
  obtain rows2 w2 where rest: "scan_subs stale T target t index subs w1 = (rows2, w2)" by force
  let ?b = "scan_buffer stale index (of_nat sub) data"
  let ?m = "if rc = SECP_OK then interpret_sub index (of_nat sub) ?b (length data) else No_Meaning"
  show ?case
  proof (cases "?m = Outside_Buffer")
    case True
    then have i: "rc = SECP_OK" "interpret_sub index (of_nat sub) ?b (length data) = Outside_Buffer"
      by (auto split: if_splits)
    then have o: "index = 0xC021" "length data = 1" "?b ! 0 \<noteq> 0" using interpret_outside [OF _ len, of ?b] by auto
    then obtain key where "data = [key]" by (metis One_nat_def length_0_conv length_Suc_conv)
    then have "tp_read T target (push_bit 16 0xC021 OR push_bit 8 (of_nat sub)) [] SCAN_BUF_SIZE t w
        = ((SECP_OK, [key], ac), w1)" "key \<noteq> 0"
      using o i r by (simp_all add: scan_buffer_def)
    then show ?thesis unfolding short_public_key_def by blast
  next
    case False
    then have "Row_Outside \<in> set rows2" using Cons.prems r rest by (auto simp: Let_def split: meaning.splits)
    then show ?thesis using Cons.IH [OF rest] by simp
  qed
qed simp

lemma scan_object_outside:
  assumes "reads_bounded T" "scan_one_object stale T target t index w = (rows, w')" "Row_Outside \<in> set rows"
  shows "short_public_key T target t"
  using assms(2,3) scan_subs_outside [OF assms(1)]
  by (auto simp: scan_one_object_def split: prod.splits if_splits)

lemma scan_list_outside:
  assumes "reads_bounded T" "scan_list stale T target t is w = (rows, w')" "list_ex (\<lambda>(i, rs). Row_Outside \<in> set rs) rows"
  shows "short_public_key T target t"
  using assms(2,3)
  by (induction "is" arbitrary: w rows w')
     (auto dest: scan_object_outside [OF assms(1)] split: prod.splits if_splits)

section \<open>The lifecycle submenu on the reference server\<close>

text \<open>A cold read of the status or capability object is answered from the record the server builds.\<close>

lemma cold_ids:
  "id_index (push_bit 16 (ucast (0xC001 :: u16)) OR push_bit 8 (ucast (1 :: u8))) = 0xC001"
  "id_index (push_bit 16 (ucast (0xC001 :: u16)) OR push_bit 8 (ucast (3 :: u8))) = 0xC001"
  "id_sub (push_bit 16 (ucast (0xC001 :: u16)) OR push_bit 8 (ucast (1 :: u8))) = 1"
  "id_sub (push_bit 16 (ucast (0xC001 :: u16)) OR push_bit 8 (ucast (3 :: u8))) = 3"
  "(push_bit 16 (ucast (0xC001 :: u16)) OR push_bit 8 (ucast (1 :: u8))) AND 0xFF = (0 :: u32)"
  "(push_bit 16 (ucast (0xC001 :: u16)) OR push_bit 8 (ucast (3 :: u8))) AND 0xFF = (0 :: u32)"
  by code_simp+

lemma serve_status:
  assumes "id_index d = 0xC001" "id_sub d = n" "d AND 0xFF = 0" "n = 1 \<or> n = 3"
  shows "fbsec_server_dispatch_request E g F c d [] s
    = ((FBSEC_ABORT_NONE, [if n = 1 then fbsec_server_lifecycle_commissioning s else live_key_flags s]), s)"
  using assms
  by (auto simp: fbsec_server_dispatch_request_def try_serve_descriptor_def Let_def
      server_status_def fbsec_descriptor_build_status_def fbsec_status_serialize_sub_def)

lemma status_read_link:
  assumes "n = 1 \<or> n = 3"
  shows "lifecycle_cold_read (srv_link E g F a) tgt 0xC001 n t 8 (s, x)
    = ([if n = 1 then fbsec_server_lifecycle_commissioning s else live_key_flags s], (s, x))"
proof -
  let ?d = "push_bit 16 (ucast (0xC001 :: u16)) OR push_bit 8 (ucast n) :: u32"
  have "id_index ?d = 0xC001" "id_sub ?d = n" "?d AND 0xFF = 0"
    using assms cold_ids by auto
  from serve_status [OF this assms, of E g F "ucast a" s] show ?thesis
    unfolding lifecycle_cold_read_def Let_def srv_link_def by simp
qed

lemma gate_read_link:
  "lifecycle_cold_read (srv_link E g F a) tgt 0xC000 0x07 t 8 (s, x) = ([0x07], (s, x))"
proof -
  have "caps_data_id (of_nat 7) = push_bit 16 (ucast (0xC000 :: u16)) OR push_bit 8 (ucast (0x07 :: u8))"
    by (simp add: caps_data_id_def)
  moreover have "fbsec_caps_serialize_sub (server_caps s) (of_nat 7) 4 = [0x07]"
    by (simp add: fbsec_caps_serialize_sub_def server_caps_def fbsec_descriptor_build_caps_def)
  ultimately show ?thesis
    using serve_caps [of 7 E g F "ucast a" s] by (simp add: lifecycle_cold_read_def Let_def)
qed

definition server_lifecycle :: "'e srv \<Rightarrow> lifecycle_state" where
  "server_lifecycle s = \<lparr>lc_ok = True, lc_commissioning = fbsec_server_lifecycle_commissioning s,
     lc_keys = live_key_flags s, lc_handover = 0x07\<rparr>"

lemma lifecycle_state_link:
  "lifecycle_read_state (srv_link E g F a) tgt t (s, x) = (server_lifecycle s, (s, x))"
  using status_read_link [of 1 E g F a tgt t s x] status_read_link [of 3 E g F a tgt t s x]
    gate_read_link [of E g F a tgt t s x]
  by (simp add: lifecycle_read_state_def server_lifecycle_def Let_def)

lemma unclaimed_offers:
  "fbsec_server_lifecycle_commissioning s = FBSEC_STAT_UNCOMMISSIONED \<Longrightarrow>
   lifecycle_actions (server_lifecycle s) = [LC_ACT_VOUCHER, LC_ACT_TOKEN]"
  by (simp add: lifecycle_actions_def server_lifecycle_def)

lemma operational_offers:
  assumes "\<forall>j \<in> {1, 2, 3}. get_key s j \<noteq> None" "sv_stage (host s) = FBSEC_STAGE_OPERATIONAL"
  shows "lifecycle_actions (server_lifecycle s) = [LC_ACT_DECOMMISSION]"
  using assms
  by (simp add: lifecycle_actions_def server_lifecycle_def live_key_flags_def get_key_def
      fbsec_server_lifecycle_commissioning_def split: if_splits)

lemma choice_of_digit:
  assumes "bits = 32 \<or> bits = 64"
  shows "lifecycle_choice bits ''2'' acts = (if 2 \<le> length acts then Some (acts ! 1) else None)"
proof -
  have "scan_number 10 ''2'' = Some (False, 2, [])" by code_simp
  then have "strtoul bits 10 ''2'' = (2, [])" using assms by (auto simp: strtoul_def)
  then show ?thesis by (auto simp: lifecycle_choice_def)
qed

lemma ensure_key_keeps:
  "ensure_key_selected inp a = (inp', a') \<Longrightarrow> ap_net a' = ap_net a"
  by (auto simp: ensure_key_selected_def split: if_splits prod.splits)

lemma token_action_link:
  assumes g: "gcm_ok g" and E: "ed_ok E" and R: "randoms_ok F X"
    and s: "ladder_ready E dev s" and net: "ap_net ap = (s, x)" and wf: "client_keys_wf (ap_keys ap)"
    and tok: "FBSEC_AEAD_KEY_SIZE \<le> length (fbsec_commission_claim_token ap)"
      "get_key s FBSEC_DEMO_KEYID_CLAIM_TOKEN = Some (take FBSEC_AEAD_KEY_SIZE (fbsec_commission_claim_token ap))"
    and client: "\<forall>i \<in> {1, 2, 3}. ck_loaded (ap_keys ap) ! i"
    and server: "\<forall>i \<in> {1, 2, 3}. get_key s i = None"
  shows "\<exists>inp' ap' s' x'. lifecycle_do_action E g (srv_client_port a X) (srv_link E g F a) LC_ACT_TOKEN dev t inp ap
      = (inp', ap') \<and> ap_net ap' = (s', x') \<and>
    (\<forall>j \<in> {1, 2, 3}. get_key s' j = Some (ck_session_keys (ap_keys ap) ! unat j)) \<and>
    lifecycle_actions (server_lifecycle s') = [LC_ACT_DECOMMISSION]"
proof -
  from ladder_completes [OF g E R s net wf tok client server, where a = a and t = t] obtain ap1 ap2 s' x' where
    r: "fbsec_commission_install_provisioning_by_token g (srv_client_port a X) (srv_link E g F a) dev t ap = (0, ap1)"
    "fbsec_commission_install_ladder g (srv_client_port a X) (srv_link E g F a) dev t ap1 = (0, ap2)"
    "ap_net ap2 = (s', x')" "\<forall>j \<in> {1, 2, 3}. get_key s' j = Some (ck_session_keys (ap_keys ap) ! unat j)"
    "sv_stage (host s') = FBSEC_STAGE_OPERATIONAL" by blast
  obtain inp' ap' where e: "ensure_key_selected inp ap2 = (inp', ap')" by force
  have "lifecycle_do_action E g (srv_client_port a X) (srv_link E g F a) LC_ACT_TOKEN dev t inp ap = (inp', ap')"
    using r(1,2) e by (simp add: lifecycle_do_action_def lifecycle_run_ladder_def)
  moreover have "ap_net ap' = (s', x')" using ensure_key_keeps [OF e] r(3) by simp
  moreover have "lifecycle_actions (server_lifecycle s') = [LC_ACT_DECOMMISSION]"
    using r(4,5) by (intro operational_offers) auto
  ultimately show ?thesis using r(4) by blast
qed

end
