(* ===== verification/Server_Ends.thy ===== *)
theory Server_Ends
  imports Server_Main
begin

text \<open>
  What the server process does from its arguments to its exit. Its receive loop is
  a partial function: it ends on every connection that brings finitely many bytes,
  because the first receive of a round either takes a byte or ends the loop. The
  configuration is what the last occurrence of each option says; and on a
  connection that brings its bytes at once, the frames of the stream are served in
  order and every reply goes on the wire.
\<close>

section \<open>When the process ends\<close>

text \<open>
  A connection with finitely many bytes to come: a receive takes some of them, or
  reports the end of the stream when there are none, and sending and setting the
  timeout leave them alone. Nothing is said about the clock.
\<close>

definition finite_stream :: "'w sockets \<Rightarrow> nat \<Rightarrow> ('w \<Rightarrow> bytes) \<Rightarrow> bool" where
  "finite_stream S sock inp \<longleftrightarrow>
     (\<forall>n w. 0 < n \<longrightarrow> (\<exists>b w'. so_recv S sock n w = (Received b, w') \<and> length b \<le> n \<and> inp w = b @ inp w' \<and>
        (inp w \<noteq> [] \<longrightarrow> b \<noteq> []))) \<and>
     (\<forall>t w. inp (snd (so_set_timeout S sock t w)) = inp w) \<and>
     (\<forall>b w. inp (snd (so_send S sock b w)) = inp w)"

lemma finite_streamD:
  assumes "finite_stream S sock inp"
  shows "0 < n \<Longrightarrow> \<exists>b w'. so_recv S sock n w = (Received b, w') \<and> length b \<le> n \<and> inp w = b @ inp w' \<and>
      (inp w \<noteq> [] \<longrightarrow> b \<noteq> [])"
    "so_set_timeout S sock t w = (ok, w1) \<Longrightarrow> inp w1 = inp w" "so_send S sock b w = (r, w1) \<Longrightarrow> inp w1 = inp w"
  using assms unfolding finite_stream_def by (blast, metis snd_conv, metis snd_conv)

lemma recv_exact_consumes:
  assumes F: "finite_stream S sock inp"
  shows "recv_exact_with_deadline S sock n d w = ((st, bs), w') \<Longrightarrow> length (inp w') \<le> length (inp w)"
proof (induction n arbitrary: w st bs w' rule: less_induct)
  case (less n)
  obtain ok w1 where t: "so_set_timeout S sock (d - so_tick S w) w = (ok, w1)" by force
  have i1: "inp w1 = inp w" by (rule finite_streamD(2) [OF F t])
  show ?case
  proof (cases "n = 0 \<or> sint (d - so_tick S w) \<le> 0 \<or> \<not> ok")
    case True
    then show ?thesis
      using less.prems t i1 by (subst (asm) recv_exact_with_deadline.simps) (auto simp: Let_def split: if_splits)
  next
    case False
    then have n: "0 < n" by simp
    obtain b w2 where r: "so_recv S sock n w1 = (Received b, w2)" "length b \<le> n" "inp w1 = b @ inp w2"
      using finite_streamD(1) [OF F n] by blast
    obtain st3 bs3 w3 where rest: "recv_exact_with_deadline S sock (n - length b) d w2 = ((st3, bs3), w3)"
      by (metis surj_pair)
    have "b \<noteq> [] \<Longrightarrow> length (inp w3) \<le> length (inp w2)" using less.IH [OF _ rest] n by simp
    then show ?thesis
      using less.prems False t r rest i1
      by (subst (asm) recv_exact_with_deadline.simps) (auto simp: Let_def split: if_splits)
  qed
qed

text \<open>The first receive of a call has its full time, so it takes a byte or ends the loop.\<close>

lemma recv_exact_progress:
  assumes F: "finite_stream S sock inp" and n: "0 < n"
    and r: "recv_exact_with_deadline S sock n (so_tick S w + 250) w = ((st, bs), w')"
  shows "length (inp w') < length (inp w) \<or> st = CARRIER_CLOSED \<or> st = CARRIER_NET"
proof -
  have s: "0 < sint (250 :: u32)" by code_simp
  obtain ok w1 where t: "so_set_timeout S sock 250 w = (ok, w1)" by force
  have i1: "inp w1 = inp w" by (rule finite_streamD(2) [OF F t])
  obtain b w2 where b: "so_recv S sock n w1 = (Received b, w2)" "inp w1 = b @ inp w2" "inp w1 \<noteq> [] \<longrightarrow> b \<noteq> []"
    using finite_streamD(1) [OF F n] by blast
  obtain st3 bs3 w3 where rest: "recv_exact_with_deadline S sock (n - length b) (so_tick S w + 250) w2 = ((st3, bs3), w3)"
    by (metis surj_pair)
  have l: "length (inp w3) < length (inp w)" if "b \<noteq> []"
    using recv_exact_consumes [OF F rest] arg_cong [OF b(2), of length] i1 that by (cases b) auto
  have "recv_exact_with_deadline S sock n (so_tick S w + 250) w =
      (if \<not> ok then ((CARRIER_NET, []), w1) else if b = [] then ((CARRIER_CLOSED, []), w2) else ((st3, b @ bs3), w3))"
    using n t s b(1) rest by (subst recv_exact_with_deadline.simps) simp
  then show ?thesis using r l by (auto split: if_splits)
qed

lemma carrier_recv_progress:
  assumes F: "finite_stream S sock inp"
    and r: "fbsec_co_fd_carrier_recv S (Some sock) f0 (fbsec_co_fd_carrier_now_ms S w + 250) w = ((st, f), w')"
    and st: "st = CARRIER_OK \<or> st = CARRIER_TIMEOUT"
  shows "length (inp w') < length (inp w)"
proof -
  let ?d = "so_tick S w + 250"
  obtain st1 h w1 where h: "recv_exact_with_deadline S sock FBSEC_CO_FD_HEADER_SIZE ?d w = ((st1, h), w1)" by (metis surj_pair)
  have p: "length (inp w1) < length (inp w) \<or> st1 = CARRIER_CLOSED \<or> st1 = CARRIER_NET"
    by (rule recv_exact_progress [OF F _ h]) simp
  have "length (inp w') \<le> length (inp w1) \<and> (st1 = CARRIER_OK \<or> st1 = st)"
    using r h recv_exact_consumes [OF F]
    by (auto simp: fbsec_co_fd_carrier_recv_def fbsec_co_fd_carrier_now_ms_def split: if_splits sum.splits prod.splits)
  then show ?thesis using p st by auto
qed

lemma send_all_keeps:
  assumes F: "finite_stream S sock inp"
  shows "inp (snd (send_all S sock buf w)) = inp w"
proof (induction "length buf" arbitrary: buf w rule: less_induct)
  case less
  obtain r w1 where r: "so_send S sock buf w = (r, w1)" by force
  show ?case
    using r finite_streamD(3) [OF F r] less [of "drop (nat r) buf" w1]
    by (subst send_all.simps) (cases "r \<le> 0", auto)
qed

lemma send_frames_keep:
  assumes F: "finite_stream S sock inp"
  shows "inp (send_frames S (Some sock) fs w) = inp w"
proof (induction fs arbitrary: w)
  case (Cons f fs)
  have "inp (snd (fbsec_co_fd_carrier_send S (Some sock) f w)) = inp w"
    using send_all_keeps [OF F] by (auto simp: fbsec_co_fd_carrier_send_def split: option.split)
  then show ?case using Cons by (simp add: send_frames_def)
qed (simp add: send_frames_def)

lemma loop_ends:
  assumes F: "finite_stream S sock inp"
  shows "\<exists>r. run_dispatch_loop E g P S shutdown tick (Some sock) f0 c s w = Some r"
proof (induction "length (inp w)" arbitrary: c s w rule: less_induct)
  case less
  obtain st f w1 where r: "fbsec_co_fd_carrier_recv S (Some sock) f0 (fbsec_co_fd_carrier_now_ms S w + 250) w = ((st, f), w1)"
    by (metis surj_pair)
  obtain out c1 s1 where d: "run_dispatch_frame E g P f c (wait_platform tick w1 s) = (out, c1, s1)" by (metis surj_pair)
  show ?case
  proof (cases "\<not> shutdown w \<and> (st = CARRIER_OK \<or> st = CARRIER_TIMEOUT)")
    case True
    then have "length (inp w1) < length (inp w)" using carrier_recv_progress [OF F r] by simp
    then show ?thesis
      using less [of w1 c "wait_platform tick w1 s"] less [of "send_frames S (Some sock) out w1" c1 s1]
        send_frames_keep [OF F, of out w1] True r d
      by (subst run_dispatch_loop.simps) auto
  next
    case False
    then show ?thesis using r by (subst run_dispatch_loop.simps) auto
  qed
qed

lemma join_socket: "server_join_bus S N c w = (Some h, w') \<Longrightarrow> \<exists>sock. h = Some sock"
  by (auto simp: server_join_bus_def fbsec_co_fd_carrier_connect_def split: prod.splits if_splits option.splits)

lemma server_main_ends:
  assumes "\<And>sock. finite_stream S sock (inp sock)"
  shows "server_main bits files E g F S N shutdown tick f0 key0 env0 argv w \<noteq> None"
proof -
  obtain rc c where p: "server_parse_args bits argv 1 server_defaults = (rc, c)" by force
  obtain h w1 where j: "server_join_bus S N c w = (h, w1)" by force
  let ?s = "fbsec_server_od_init_files bits files E key0 (ucast (sw_node_id c))
      (sc_key_file_path (sw_common c)) (sc_od_file_path (sw_common c)) (sc_demo_keys (sw_common c)) (server_statics env0)"
  show ?thesis
  proof (cases "rc \<noteq> 0 \<or> h = None \<or> ?s = None")
    case True
    then show ?thesis using p j by (auto simp: server_main_def split: option.split)
  next
    case False
    then obtain sock s0 where f: "rc = 0" "h = Some (Some sock)" "?s = Some s0"
      using join_socket [of S N c w] j by auto
    obtain r where "run_dispatch_loop E g F S shutdown tick (Some sock) f0 (transport_statics (sw_node_id c)) s0 w1 = Some r"
      using loop_ends [OF assms] by blast
    then show ?thesis using p j f by (cases r) (simp add: server_main_def)
  qed
qed

section \<open>The options of the command line\<close>

text \<open>
  The arguments as options: the five flags stand alone, every other option
  takes the word behind it. \<open>last_given\<close> is the value of the last occurrence of an
  option.
\<close>

fun server_options :: "string list \<Rightarrow> (string \<times> string) list" where
  "server_options [] = []"
| "server_options [a] = [(a, [])]"
| "server_options (a # x # as) =
     (if a \<in> {''--verbose'', ''--quiet'', ''--color'', ''--no-color'', ''--demo-keys''}
      then (a, []) # server_options (x # as)
      else (a, x) # server_options as)"

definition last_given :: "string \<Rightarrow> (string \<Rightarrow> 'v) \<Rightarrow> 'v \<Rightarrow> (string \<times> string) list \<Rightarrow> 'v" where
  "last_given a read old opts = fold (\<lambda>(b, x) v. if b = a then read x else v) opts old"

lemma last_given_simps [simp]:
  "last_given a read old [] = old"
  "last_given a read old ((b, x) # opts) = last_given a read (if b = a then read x else old) opts"
  by (simp_all add: last_given_def)

definition options_hold :: "nat \<Rightarrow> (string \<times> string) list \<Rightarrow> server_variant_cfg \<Rightarrow> server_variant_cfg \<Rightarrow> bool" where
  "options_hold bits opts c c' \<longleftrightarrow>
     sc_key_file_path (sw_common c') = last_given ''--key-file'' Some (sc_key_file_path (sw_common c)) opts \<and>
     sc_od_file_path (sw_common c') = last_given ''--od-file'' Some (sc_od_file_path (sw_common c)) opts \<and>
     sc_demo_keys (sw_common c') = last_given ''--demo-keys'' (\<lambda>x. True) (sc_demo_keys (sw_common c)) opts \<and>
     sw_node_id c' = last_given ''--node'' (\<lambda>x. ucast (the (fbsec_server_cli_parse_u32 bits x))) (sw_node_id c) opts"

text \<open>One round of the loop: the option at the index, and the rest of the arguments.\<close>

lemma server_parse_round:
  assumes "server_parse_args bits argv i c = (0, c')" "i < length argv"
  obtains j a x c1 where "i < j" "server_options (drop i argv) = (a, x) # server_options (drop j argv)"
    "options_hold bits [(a, x)] c c1" "server_parse_args bits argv j c1 = (0, c')"
proof -
  let ?a = "argv ! i" and ?x = "argv ! (i + 1)"
  obtain cr k cfg where f: "fbsec_server_cli_try_common_flag bits argv i (sw_common c) = (cr, (k, cfg))"
    by (cases "fbsec_server_cli_try_common_flag bits argv i (sw_common c)") auto
  have d1: "drop i argv = ?a # drop (i + 1) argv" using assms(2) by (simp add: Cons_nth_drop_Suc)
  have d2: "drop (i + 1) argv = ?x # drop (i + 2) argv" if "i + 1 < length argv"
    using that Cons_nth_drop_Suc [of "i + 1" argv] by simp
  have one: "server_options (drop i argv) = (?a, []) # server_options (drop (i + 1) argv)"
    if "?a \<in> {''--verbose'', ''--quiet'', ''--color'', ''--no-color'', ''--demo-keys''}"
    using that d1 by (cases "drop (i + 1) argv") auto
  have two: "server_options (drop i argv) = (?a, ?x) # server_options (drop (i + 2) argv)"
    if "?a \<notin> {''--verbose'', ''--quiet'', ''--color'', ''--no-color'', ''--demo-keys''}" "i + 1 < length argv"
    using that d1 d2 by simp
  have bus: "sw_common c2 = sw_common c1 \<and> sw_node_id c2 = sw_node_id c1"
    if "server_parse_bus_arg bits x c1 = (ok, c2)" for x c1 ok c2
    using that by (auto simp: server_parse_bus_arg_def Let_def split: if_splits option.splits)
  note body = assms(1) [unfolded server_parse_args.simps [of bits argv i c]]
  show thesis
  proof (cases cr)
    case SERVER_CLI_HANDLED
    have n: "server_parse_args bits argv k (c\<lparr>sw_common := cfg\<rparr>) = (0, c')"
      using body assms(2) f SERVER_CLI_HANDLED by (simp add: Let_def)
    consider "?a \<in> {''--verbose'', ''--quiet'', ''--color'', ''--no-color'', ''--demo-keys''}" "k = i + 1"
      "options_hold bits [(?a, [])] c (c\<lparr>sw_common := cfg\<rparr>)"
      | "?a \<notin> {''--verbose'', ''--quiet'', ''--color'', ''--no-color'', ''--demo-keys''}" "i + 1 < length argv"
        "k = i + 2" "options_hold bits [(?a, ?x)] c (c\<lparr>sw_common := cfg\<rparr>)"
      using f SERVER_CLI_HANDLED
      by (auto simp: fbsec_server_cli_try_common_flag_def Let_def options_hold_def split: if_splits option.splits)
    then show thesis
      by cases (rule that [OF _ _ _ n]; use one two in simp)+
  next
    case SERVER_CLI_NOT_MATCHED
    then have nm: "?a \<notin> {''--verbose'', ''--quiet'', ''--color'', ''--no-color'', ''--demo-keys''}"
      using f by (auto simp: fbsec_server_cli_try_common_flag_def Let_def split: if_splits option.splits)
    have cfg: "cfg = sw_common c" and nf: "i + 1 < length argv \<Longrightarrow> ?a \<notin> {''--key-file'', ''--od-file''}"
      using f SERVER_CLI_NOT_MATCHED
      by (auto simp: fbsec_server_cli_try_common_flag_def Let_def split: if_splits option.splits)
    define c1 where "c1 = (if ?a = ''--bus'' then snd (server_parse_bus_arg bits ?x c)
      else if ?a = ''--node'' then c\<lparr>sw_node_id := ucast (the (fbsec_server_cli_parse_u32 bits ?x))\<rparr>
      else c\<lparr>sw_name := ?x\<rparr>)"
    have "i + 1 < length argv \<and> ?a \<in> {''--bus'', ''--node'', ''--name''} \<and>
        server_parse_args bits argv (i + 2) c1 = (0, c')"
      using body assms(2) f SERVER_CLI_NOT_MATCHED cfg
      by (auto simp: Let_def c1_def split: if_splits option.splits prod.splits)
    moreover have "sw_common (snd (server_parse_bus_arg bits ?x c)) = sw_common c"
      "sw_node_id (snd (server_parse_bus_arg bits ?x c)) = sw_node_id c"
      using bus by (metis prod.collapse)+
    then have "options_hold bits [(?a, ?x)] c c1"
      using nf nm calculation by (auto simp: options_hold_def c1_def)
    ultimately show thesis using that [of "i + 2" ?a ?x] two [OF nm] by auto
  qed (use body assms(2) f in \<open>auto simp: Let_def\<close>)
qed

lemma options_hold_trans:
  "options_hold bits [p] c c1 \<Longrightarrow> options_hold bits opts c1 c2 \<Longrightarrow> options_hold bits (p # opts) c c2"
  by (cases p) (simp add: options_hold_def)

lemma server_parse_options:
  "server_parse_args bits argv i c = (0, c') \<Longrightarrow> options_hold bits (server_options (drop i argv)) c c'"
proof (induction "length argv - i" arbitrary: i c rule: less_induct)
  case less
  show ?case
  proof (cases "i < length argv")
    case True
    obtain j a x c1 where r: "i < j" "server_options (drop i argv) = (a, x) # server_options (drop j argv)"
      "options_hold bits [(a, x)] c c1" "server_parse_args bits argv j c1 = (0, c')"
      using server_parse_round [OF less.prems True] by blast
    have "length argv - j < length argv - i" using r(1) True by simp
    from options_hold_trans [OF r(3) less.hyps [OF this r(4)]] show ?thesis by (simp only: r(2))
  next
    case False
    then show ?thesis
      using less.prems by (simp add: server_parse_args.simps [of bits argv i c] options_hold_def)
  qed
qed

section \<open>What the process serves\<close>

text \<open>
  A connection that brings what has arrived at once: a receive takes some of the
  bytes to come without time passing, or reports the end of the stream; a send
  takes some of its bytes; only receives take from the input and only sends add
  to the output.
\<close>

definition prompt_connection ::
  "'w sockets \<Rightarrow> 'w connects \<Rightarrow> nat \<Rightarrow> ('w \<Rightarrow> bytes) \<Rightarrow> ('w \<Rightarrow> bytes) \<Rightarrow> bool" where
  "prompt_connection S N sock inp out \<longleftrightarrow>
     (\<forall>n w. 0 < n \<longrightarrow> (\<exists>b w'. so_recv S sock n w = (Received b, w') \<and> length b \<le> n \<and> inp w = b @ inp w' \<and>
        (inp w \<noteq> [] \<longrightarrow> b \<noteq> [] \<and> so_tick S w' = so_tick S w) \<and> out w' = out w)) \<and>
     (\<forall>t w. \<exists>w'. so_set_timeout S sock t w = (True, w') \<and> inp w' = inp w \<and> so_tick S w' = so_tick S w \<and>
        out w' = out w) \<and>
     (\<forall>b w. \<exists>r w'. so_send S sock b w = (r, w') \<and> inp w' = inp w \<and> nat r \<le> length b \<and> (b \<noteq> [] \<longrightarrow> 0 < r) \<and>
        out w' = out w @ take (nat r) b) \<and>
     (\<forall>w. out (so_close S sock w) = out w \<and> out (co_cleanup N w) = out w)"

lemma prompt_recv:
  "prompt_connection S N sock inp out \<Longrightarrow> 0 < n \<Longrightarrow> \<exists>b w'. so_recv S sock n w = (Received b, w') \<and> length b \<le> n \<and>
     inp w = b @ inp w' \<and> (inp w \<noteq> [] \<longrightarrow> b \<noteq> [] \<and> so_tick S w' = so_tick S w) \<and> out w' = out w"
  unfolding prompt_connection_def by blast

lemma prompt_timeout:
  "prompt_connection S N sock inp out \<Longrightarrow> \<exists>w'. so_set_timeout S sock t w = (True, w') \<and> inp w' = inp w \<and>
     so_tick S w' = so_tick S w \<and> out w' = out w"
  unfolding prompt_connection_def by blast

lemma prompt_send:
  "prompt_connection S N sock inp out \<Longrightarrow> \<exists>r w'. so_send S sock b w = (r, w') \<and> inp w' = inp w \<and>
     nat r \<le> length b \<and> (b \<noteq> [] \<longrightarrow> 0 < r) \<and> out w' = out w @ take (nat r) b"
  unfolding prompt_connection_def by blast

lemma recv_exact_prompt:
  assumes C: "prompt_connection S N sock inp out"
  shows "inp w = data @ rest \<Longrightarrow> 0 < sint (d - so_tick S w) \<Longrightarrow>
    \<exists>w'. recv_exact_with_deadline S sock (length data) d w = ((CARRIER_OK, data), w') \<and> inp w' = rest \<and>
      so_tick S w' = so_tick S w \<and> out w' = out w"
proof (induction "length data" arbitrary: data w rule: less_induct)
  case less
  show ?case
  proof (cases "data = []")
    case True
    then show ?thesis using less.prems by (simp add: recv_exact_with_deadline.simps)
  next
    case False
    then have n: "0 < length data" by simp
    obtain w1 where t: "so_set_timeout S sock (d - so_tick S w) w = (True, w1)" "inp w1 = inp w"
      "so_tick S w1 = so_tick S w" "out w1 = out w"
      using prompt_timeout [OF C] by blast
    have "inp w1 \<noteq> []" using False less.prems t by simp
    then obtain b w2 where b: "so_recv S sock (length data) w1 = (Received b, w2)" "length b \<le> length data"
      "inp w1 = b @ inp w2" "b \<noteq> []" "so_tick S w2 = so_tick S w1" "out w2 = out w1"
      using prompt_recv [OF C n, of w1] by blast
    have "b @ inp w2 = data @ rest" using b(3) t(2) less.prems(1) by simp
    note p = piece_of_data [OF this b(2)]
    have l: "length (drop (length b) data) < length data" using b(4) False by simp
    obtain w3 where w3: "recv_exact_with_deadline S sock (length (drop (length b) data)) d w2
        = ((CARRIER_OK, drop (length b) data), w3)" "inp w3 = rest" "so_tick S w3 = so_tick S w2" "out w3 = out w2"
      using less.hyps [OF l p(2)] less.prems(2) t(3) b(5) by auto
    have "recv_exact_with_deadline S sock (length data) d w = ((CARRIER_OK, b @ drop (length b) data), w3)"
      using False less.prems(2) t(1) b(1,4) w3(1)
      by (subst recv_exact_with_deadline.simps) (simp add: Let_def)
    then show ?thesis using p(1) w3 t b by (metis (no_types))
  qed
qed

text \<open>The next frame of the stream, and the end of the stream.\<close>

lemma carrier_recv_prompt:
  assumes C: "prompt_connection S N sock inp out" and f: "wire_frame f" and i: "inp w = frames_wire (f # fs)"
  shows "\<exists>w'. fbsec_co_fd_carrier_recv S (Some sock) f0 (fbsec_co_fd_carrier_now_ms S w + 250) w =
      ((CARRIER_OK, received_frame f0 f), w') \<and> inp w' = frames_wire fs \<and> out w' = out w"
proof -
  let ?d = "so_tick S w + 250"
  obtain buf where buf: "fbsec_co_fd_frame_serialize f FBSEC_CO_FD_WIRE_MAX = Some buf"
    using wire_frame_serialize [OF f] by blast
  have v: "fbsec_co_fd_frame_validate f = VALID_OK" "frame_ok f" using f by (auto simp: wire_frame_def)
  note p = serialize_payload [OF buf v(2,1)]
  have s: "0 < sint (?d - so_tick S w)" by simp
  have l6: "length (take 6 buf) = 6" using p(1) by simp
  have "inp w = take 6 buf @ (drop 6 buf @ frames_wire fs)" using i buf by (simp add: frames_wire_def)
  from recv_exact_prompt [OF C this s, unfolded l6] obtain w1 where
    w1: "recv_exact_with_deadline S sock 6 ?d w = ((CARRIER_OK, take 6 buf), w1)"
      "inp w1 = drop 6 buf @ frames_wire fs" "so_tick S w1 = so_tick S w" "out w1 = out w" by blast
  have ph: "fbsec_co_fd_frame_parse_header (take 6 buf) f0 =
      Inr (f\<lparr>fr_payload := fr_payload f0\<rparr>, unat (fr_len f))"
  proof -
    have "fbsec_co_fd_frame_parse_header (take 6 buf) f0 = fbsec_co_fd_frame_parse_header (buf @ []) f0"
      using p(1) by (simp add: fbsec_co_fd_frame_parse_header_def get32_def)
    then show ?thesis using frame_serialize_parse(1) [OF v buf, of "[]" f0] by simp
  qed
  have s1: "0 < sint (?d - so_tick S w1)" using w1(3) by simp
  have l: "length (drop 6 buf) = unat (fr_len f)" using p(1) by simp
  from recv_exact_prompt [OF C w1(2) s1, unfolded l] obtain w2 where
    w2: "recv_exact_with_deadline S sock (unat (fr_len f)) ?d w1 = ((CARRIER_OK, drop 6 buf), w2)"
      "inp w2 = frames_wire fs" "out w2 = out w1" by blast
  show ?thesis
  proof (cases "unat (fr_len f) = 0")
    case True
    then have "w2 = w1" using w2(1) by (simp add: recv_exact_with_deadline.simps)
    then show ?thesis
      using True w1 w2 ph
      by (simp add: fbsec_co_fd_carrier_recv_def fbsec_co_fd_carrier_now_ms_def received_frame_def put_def)
  next
    case False
    then show ?thesis
      using w1 w2 ph p(4)
      by (simp add: fbsec_co_fd_carrier_recv_def fbsec_co_fd_carrier_now_ms_def received_frame_def)
  qed
qed

lemma carrier_recv_end:
  assumes C: "prompt_connection S N sock inp out" and i: "inp w = []"
  shows "\<exists>f w'. fbsec_co_fd_carrier_recv S (Some sock) f0 (fbsec_co_fd_carrier_now_ms S w + 250) w =
      ((CARRIER_CLOSED, f), w') \<and> out w' = out w"
proof -
  obtain w1 where t: "so_set_timeout S sock 250 w = (True, w1)" "inp w1 = inp w" "out w1 = out w"
    using prompt_timeout [OF C] by blast
  obtain w2 where b: "so_recv S sock 6 w1 = (Received [], w2)" "out w2 = out w1"
    using prompt_recv [OF C, of 6 w1] t(2) i by auto
  have "recv_exact_with_deadline S sock 6 (so_tick S w + 250) w = ((CARRIER_CLOSED, []), w2)"
    using t b by (subst recv_exact_with_deadline.simps) simp
  then show ?thesis
    using b t by (simp add: fbsec_co_fd_carrier_recv_def fbsec_co_fd_carrier_now_ms_def)
qed

text \<open>The bytes of the frames a send puts on the wire: an invalid frame is not sent.\<close>

definition sent_wire :: "frame list \<Rightarrow> bytes" where
  "sent_wire fs = concat (map (\<lambda>f. if fbsec_co_fd_frame_validate f = VALID_OK
     then (case fbsec_co_fd_frame_serialize f FBSEC_CO_FD_WIRE_MAX of None \<Rightarrow> [] | Some buf \<Rightarrow> buf) else []) fs)"

lemma send_all_prompt:
  assumes C: "prompt_connection S N sock inp out"
  shows "\<exists>w'. send_all S sock buf w = (CARRIER_OK, w') \<and> inp w' = inp w \<and> out w' = out w @ buf"
proof (induction "length buf" arbitrary: buf w rule: less_induct)
  case less
  show ?case
  proof (cases "buf = []")
    case True
    then show ?thesis by (simp add: send_all.simps)
  next
    case False
    obtain r w1 where r: "so_send S sock buf w = (r, w1)" "inp w1 = inp w" "nat r \<le> length buf" "0 < r"
      "out w1 = out w @ take (nat r) buf"
      using prompt_send [OF C, of buf w] False by blast
    have "length (drop (nat r) buf) < length buf" using r(4) False by simp
    from less.hyps [OF this, of w1] obtain w2 where
      "send_all S sock (drop (nat r) buf) w1 = (CARRIER_OK, w2)" "inp w2 = inp w1" "out w2 = out w1 @ drop (nat r) buf"
      by blast
    then show ?thesis using r False by (subst send_all.simps) simp
  qed
qed

lemma send_frames_prompt:
  assumes C: "prompt_connection S N sock inp out"
  shows "inp (send_frames S (Some sock) fs w) = inp w \<and> out (send_frames S (Some sock) fs w) = out w @ sent_wire fs"
proof (induction fs arbitrary: w)
  case Nil
  then show ?case by (simp add: send_frames_def sent_wire_def)
next
  case (Cons f fs)
  let ?w1 = "snd (fbsec_co_fd_carrier_send S (Some sock) f w)"
  have "inp ?w1 = inp w \<and> out ?w1 = out w @ sent_wire [f]"
    using send_all_prompt [OF C, of _ w]
    by (auto simp: fbsec_co_fd_carrier_send_def sent_wire_def split: option.split) (metis snd_conv)+
  then show ?case using Cons [of ?w1] by (simp add: send_frames_def sent_wire_def)
qed

text \<open>
  The frames of a connection served in order; before each the platform moves on
  to the state given with it. The frames sent, in order, and the final state.
\<close>

fun serve_frames ::
  "ed25519 \<Rightarrow> gcm \<Rightarrow> 'e platform \<Rightarrow> (frame \<times> 'e) list \<Rightarrow> co_fd \<Rightarrow> 'e srv \<Rightarrow> frame list \<times> co_fd \<times> 'e srv" where
  "serve_frames E g F [] c s = ([], c, s)"
| "serve_frames E g F ((f, e) # fs) c s =
     (case run_dispatch_frame E g F f c (upd_host (\<lambda>h. h\<lparr>sv_env := e\<rparr>) s) of (sent, c1, s1) \<Rightarrow>
        (case serve_frames E g F fs c1 s1 of (sent', c2, s2) \<Rightarrow> (sent @ sent', c2, s2)))"

lemma sent_wire_append: "sent_wire (xs @ ys) = sent_wire xs @ sent_wire ys"
  by (simp add: sent_wire_def)

lemma loop_serves:
  assumes C: "prompt_connection S N sock inp out" and sh: "\<And>w. \<not> shutdown w"
  shows "\<forall>f\<in>set fs. wire_frame f \<Longrightarrow> inp w = frames_wire fs \<Longrightarrow>
    \<exists>es sent c1 s1 w1. length es = length fs \<and>
      serve_frames E g F (zip (map (received_frame f0) fs) es) c s = (sent, c1, s1) \<and>
      run_dispatch_loop E g F S shutdown tick (Some sock) f0 c s w = Some (c1, s1, w1) \<and>
      out w1 = out w @ sent_wire sent"
proof (induction fs arbitrary: c s w)
  case Nil
  obtain f w' where r: "fbsec_co_fd_carrier_recv S (Some sock) f0 (fbsec_co_fd_carrier_now_ms S w + 250) w =
      ((CARRIER_CLOSED, f), w')" "out w' = out w"
    using carrier_recv_end [OF C, of w f0] Nil(2) by (auto simp: frames_wire_def)
  have "run_dispatch_loop E g F S shutdown tick (Some sock) f0 c s w = Some (c, s, w')"
    using sh r(1) by (subst run_dispatch_loop.simps) simp
  then show ?case using r(2) by (simp add: sent_wire_def)
next
  case (Cons f fs)
  have f: "wire_frame f" and fs: "\<forall>f\<in>set fs. wire_frame f" using Cons.prems(1) by auto
  obtain w1 where r: "fbsec_co_fd_carrier_recv S (Some sock) f0 (fbsec_co_fd_carrier_now_ms S w + 250) w =
      ((CARRIER_OK, received_frame f0 f), w1)" "inp w1 = frames_wire fs" "out w1 = out w"
    using carrier_recv_prompt [OF C f Cons.prems(2)] by blast
  let ?e = "tick w1 (sv_env (host s))"
  obtain sent c1 s1 where d: "run_dispatch_frame E g F (received_frame f0 f) c
      (upd_host (\<lambda>h. h\<lparr>sv_env := ?e\<rparr>) s) = (sent, c1, s1)" by (metis surj_pair)
  have ws: "wait_platform tick w1 s = upd_host (\<lambda>h. h\<lparr>sv_env := ?e\<rparr>) s"
    by (simp add: wait_platform_def upd_host_def)
  let ?w2 = "send_frames S (Some sock) sent w1"
  have w2: "inp ?w2 = frames_wire fs" "out ?w2 = out w @ sent_wire sent"
    using send_frames_prompt [OF C, of sent w1] r by simp_all
  obtain es sent' c2 s2 w3 where ih: "length es = length fs"
    "serve_frames E g F (zip (map (received_frame f0) fs) es) c1 s1 = (sent', c2, s2)"
    "run_dispatch_loop E g F S shutdown tick (Some sock) f0 c1 s1 ?w2 = Some (c2, s2, w3)"
    "out w3 = out ?w2 @ sent_wire sent'"
    using Cons.IH [OF fs w2(1)] by blast
  have "run_dispatch_loop E g F S shutdown tick (Some sock) f0 c s w = Some (c2, s2, w3)"
    using sh r(1) d ws ih(3) by (subst run_dispatch_loop.simps) simp
  moreover have "serve_frames E g F (zip (map (received_frame f0) (f # fs)) (?e # es)) c s
      = (sent @ sent', c2, s2)"
    using d ih(2) by simp
  ultimately show ?case
    using ih(1,4) w2(2)
    by (intro exI [of _ "?e # es"] exI [of _ "sent @ sent'"] exI [of _ c2] exI [of _ s2] exI [of _ w3])
       (simp add: sent_wire_append)
qed

text \<open>The steps of \<open>main\<close> before the loop: the command line, the connection, the files.\<close>

definition server_started ::
  "nat \<Rightarrow> (string \<Rightarrow> string option) \<Rightarrow> ed25519 \<Rightarrow> 'w sockets \<Rightarrow> 'w connects \<Rightarrow> bytes \<Rightarrow> 'e \<Rightarrow>
   string list \<Rightarrow> 'w \<Rightarrow> server_variant_cfg \<Rightarrow> carrier_handle \<Rightarrow> 'w \<Rightarrow> 'e srv \<Rightarrow> bool" where
  "server_started bits files E S N key0 env0 argv w c0 h w1 s0 \<longleftrightarrow>
     server_parse_args bits argv 1 server_defaults = (0, c0) \<and>
     server_join_bus S N c0 w = (Some h, w1) \<and>
     fbsec_server_od_init_files bits files E key0 (ucast (sw_node_id c0))
       (sc_key_file_path (sw_common c0)) (sc_od_file_path (sw_common c0)) (sc_demo_keys (sw_common c0))
       (server_statics env0) = Some s0"

lemma server_main_serves:
  assumes C: "prompt_connection S N sock inp out" and sh: "\<And>w. \<not> shutdown w"
    and st: "server_started bits files E S N key0 env0 argv w c0 (Some sock) w1 s0"
    and fs: "\<forall>f\<in>set fs. wire_frame f" "inp w1 = frames_wire fs"
  shows "\<exists>es sent c s w'. length es = length fs \<and>
    serve_frames E g F (zip (map (received_frame f0) fs) es) (transport_statics (sw_node_id c0)) s0 = (sent, c, s) \<and>
    server_main bits files E g F S N shutdown tick f0 key0 env0 argv w = Some (0, Some (c, s), w') \<and>
    out w' = out w1 @ sent_wire sent"
proof -
  obtain es sent c1 s1 w2 where l: "length es = length fs"
    "serve_frames E g F (zip (map (received_frame f0) fs) es) (transport_statics (sw_node_id c0)) s0 = (sent, c1, s1)"
    "run_dispatch_loop E g F S shutdown tick (Some sock) f0 (transport_statics (sw_node_id c0)) s0 w1 = Some (c1, s1, w2)"
    "out w2 = out w1 @ sent_wire sent"
    using loop_serves [OF C, where shutdown = shutdown, OF sh fs] by blast
  have "out (fbsec_co_fd_carrier_global_shutdown N (snd (fbsec_co_fd_carrier_close S (Some sock) w2))) = out w2"
    using C by (simp add: fbsec_co_fd_carrier_global_shutdown_def fbsec_co_fd_carrier_close_def prompt_connection_def)
  then show ?thesis using st l by (auto simp: server_main_def server_started_def)
qed

text \<open>Any run of the process that reaches the end of its loop.\<close>

lemma server_main_started:
  assumes "server_main bits files E g F S N shutdown tick f0 key0 env0 argv w = Some (rc, Some (c, s), w')"
    and ok: "ed_ok E" "platform_ok F" "gcm_ok g" "length key0 = FBSEC_AEAD_KEY_SIZE"
  shows "\<exists>c0 h w1 s0 xs. server_started bits files E S N key0 env0 argv w c0 h w1 s0 \<and>
    options_hold bits (server_options (tl argv)) server_defaults c0 \<and>
    0 < sw_node_id c0 \<and> sw_node_id c0 \<le> FBSEC_CO_FD_NODE_ID_MAX \<and>
    srv_reachable E g F s0 \<and> s = srv_run E g F xs s0 \<and> rc = 0 \<and> co_fd_wf c \<and> srv_wf s"
proof -
  obtain c0 where p: "server_parse_args bits argv 1 server_defaults = (0, c0)"
    using assms(1) by (auto simp: server_main_def split: prod.splits if_splits)
  obtain h w1 where j: "server_join_bus S N c0 w = (Some h, w1)"
    using assms(1) p by (auto simp: server_main_def split: prod.splits option.splits)
  let ?n = "sw_node_id c0"
  obtain s0 where i: "fbsec_server_od_init_files bits files E key0 (ucast ?n)
      (sc_key_file_path (sw_common c0)) (sc_od_file_path (sw_common c0)) (sc_demo_keys (sw_common c0))
      (server_statics env0) = Some s0"
    using assms(1) p j by (auto simp: server_main_def split: option.splits)
  obtain w2 where l: "run_dispatch_loop E g F S shutdown tick h f0 (transport_statics ?n) s0 w1 = Some (c, s, w2)"
    and rc: "rc = 0"
    using assms(1) p j i by (auto simp: server_main_def split: option.splits)
  from init_files_rows [OF i ok(4)] obtain kf od where b:
    "fbsec_server_od_init E (ucast ?n) kf od (sc_demo_keys (sw_common c0)) (server_statics env0) = Some s0"
    "case od of None \<Rightarrow> True | Some rows \<Rightarrow> const_od_wf rows"
    "case kf of None \<Rightarrow> True | Some rows \<Rightarrow> \<forall>(k, key, v)\<in>set rows. length key = FBSEC_AEAD_KEY_SIZE" by blast
  have r: "srv_reachable E g F s0" using booted [OF b(1,2)] b(3) by simp
  have "srv_wf s0" using reachable_wf [OF r ok(1-3)] by simp
  from loop_runs_events [OF l ok(1-3) transport_statics_wf this] obtain xs
    where "s = srv_run E g F xs s0" "co_fd_wf c" "srv_wf s" by auto
  then show ?thesis
    using server_node_range [OF p] server_parse_options [OF p] p j i r rc
    by (intro exI [of _ c0] exI [of _ h] exI [of _ w1] exI [of _ s0] exI [of _ xs])
       (simp add: server_defaults_def server_started_def drop_Suc)
qed

end
