(* ===== verification/Trace_Text.thy ===== *)
theory Trace_Text
  imports C_Text Prelude
begin

text \<open>
  What the two trace formatters share: the colour escapes, the formats
  \<open>%02X\<close> in a row, \<open>%06X\<close>, \<open>%-4s\<close> and the time stamp, and the slicing of a
  payload into coloured pieces. A piece is a colour, an offset and a length;
  \<open>tiles\<close> says that a list of pieces covers a payload exactly once, in order and
  without a byte outside it.
\<close>

section \<open>Escapes and formats\<close>

abbreviation (input) newline :: char where "newline \<equiv> CHR 0x0A"

definition sgr :: "string \<Rightarrow> string" where
  "sgr n = CHR 0x1B # CHR ''['' # n @ ''m''"

definition ANSI_RESET :: string where "ANSI_RESET = sgr ''0''"
definition ANSI_RED :: string where "ANSI_RED = sgr ''31''"
definition ANSI_GREEN :: string where "ANSI_GREEN = sgr ''32''"
definition ANSI_BLUE :: string where "ANSI_BLUE = sgr ''94''"
definition ANSI_MAGENTA :: string where "ANSI_MAGENTA = sgr ''35''"
definition ANSI_WHITE :: string where "ANSI_WHITE = sgr ''97''"
definition ANSI_LIGHT_GREY :: string where "ANSI_LIGHT_GREY = sgr ''90''"
definition ANSI_ORANGE :: string where "ANSI_ORANGE = sgr ''38;5;208''"

text \<open>\<open>%02X\<close> with a space between two bytes; the reference has a space before each.\<close>

fun hex_joined :: "bytes \<Rightarrow> string" where
  "hex_joined [] = ''''"
| "hex_joined [b] = hex2 b"
| "hex_joined (b # c # bs) = hex2 b @ '' '' @ hex_joined (c # bs)"

definition hex_row :: "bytes \<Rightarrow> string" where
  "hex_row p = concat (map (\<lambda>b. '' '' @ hex2 b) p)"

text \<open>\<open>%06X\<close> of the index and sub-index in a data id, and \<open>%-4s\<close>.\<close>

definition hex6 :: "u32 \<Rightarrow> string" where
  "hex6 w = drop 2 (hex8 w)"

definition id24 :: "u32 \<Rightarrow> u32" where
  "id24 data_id = drop_bit 8 data_id AND 0xFFFFFF"

definition pad_right :: "nat \<Rightarrow> string \<Rightarrow> string" where
  "pad_right k s = s @ replicate (k - length s) (CHR '' '')"

text \<open>
  The local time, where the platform has it (the Windows build), as
  \<open>%02u:%02u:%02u.%03u\<close> in a buffer of the given size; an empty text elsewhere.
\<close>

type_synonym local_time = "(u16 \<times> u16 \<times> u16 \<times> u16) option"

definition format_timestamp :: "nat \<Rightarrow> local_time \<Rightarrow> string" where
  "format_timestamp buflen now =
     (case now of
        None \<Rightarrow> ''''
      | Some (h, m, s, ms) \<Rightarrow>
          take (buflen - 1)
            (pad_zeros 2 (decimal (unat h)) @ '':'' @ pad_zeros 2 (decimal (unat m)) @ '':'' @
             pad_zeros 2 (decimal (unat s)) @ ''.'' @ pad_zeros 3 (decimal (unat ms))))"

section \<open>Pieces\<close>

type_synonym piece = "string \<times> nat \<times> nat"

fun tiles :: "nat \<Rightarrow> piece list \<Rightarrow> nat \<Rightarrow> bool" where
  "tiles a [] til \<longleftrightarrow> a = til"
| "tiles a ((col, off, len) # ps) til \<longleftrightarrow> off = a \<and> tiles (a + len) ps til"

definition pieces_hex :: "bytes \<Rightarrow> piece list \<Rightarrow> string" where
  "pieces_hex p ps = concat (map (\<lambda>(col, off, len). hex_row (slice p off len)) ps)"

lemma hex_row_simps [simp]:
  "hex_row [] = ''''" "hex_row (b # p) = CHR '' '' # hex2 b @ hex_row p" "hex_row (p @ q) = hex_row p @ hex_row q"
  by (simp_all add: hex_row_def)

lemma hex_joined_row: "p \<noteq> [] \<Longrightarrow> CHR '' '' # hex_joined p = hex_row p"
  by (induction p rule: hex_joined.induct) auto

lemma hex_digit_inject: "m < 16 \<Longrightarrow> n < 16 \<Longrightarrow> hex_digit m = hex_digit n \<longleftrightarrow> m = n"
  by (metis digit_val_hex_digit option.inject)

lemma hex2_inject [simp]: "hex2 a = hex2 b \<longleftrightarrow> a = b"
proof
  assume h: "hex2 a = hex2 b"
  have l: "unat a < 256" "unat b < 256" using unsigned_less [of a, where ?'a = nat] unsigned_less [of b, where ?'a = nat] by simp_all
  then have "unat a div 16 = unat b div 16" "unat a mod 16 = unat b mod 16"
    using h by (simp_all add: hex2_def hex_digit_inject)
  then have "unat a = unat b" by (metis div_mult_mod_eq)
  then show "a = b" by (simp add: word_unat_eq_iff)
qed simp

lemma hex_row_inject: "hex_row p = hex_row q \<longleftrightarrow> p = q"
proof
  show "hex_row p = hex_row q \<Longrightarrow> p = q"
  proof (induction p arbitrary: q)
    case Nil
    then show ?case by (cases q) auto
  next
    case (Cons b p)
    then show ?case by (cases q) (auto simp: append_eq_append_conv)
  qed
qed simp

lemma tiles_mono: "tiles a ps b \<Longrightarrow> a \<le> b"
  by (induction a ps b rule: tiles.induct) auto

lemma tiles_inside: "tiles a ps b \<Longrightarrow> (col, off, len) \<in> set ps \<Longrightarrow> off + len \<le> b"
  by (induction a ps b rule: tiles.induct) (auto dest: tiles_mono)

lemma tiles_hex: "tiles a ps (length p) \<Longrightarrow> pieces_hex p ps = hex_row (drop a p)"
proof (induction a ps "length p" rule: tiles.induct)
  case (2 a col off len ps)
  then have "pieces_hex p ps = hex_row (drop (a + len) p)" "off = a" by simp_all
  moreover have "drop a p = slice p a len @ drop (a + len) p"
    by (metis add.commute append_take_drop_id drop_drop slice_def)
  ultimately show ?case by (simp add: pieces_hex_def)
qed (simp add: pieces_hex_def)

end
