(* ===== verification/Client_Trace.thy ===== *)
theory Client_Trace
  imports Trace_Text Client_Verbs
begin

text \<open>
  The trace of the client (\<open>client_common_trace.c\<close>): its static variables with the
  standard output so far, the setters, the slicing of a payload by verb, the row
  of a frame, and the calls that close a row left open for the plaintext or a
  note; \<open>emit_summary\<close> of \<open>client_common_verbs.c\<close>, which ends a verb. The local
  time is an argument.
\<close>

section \<open>State\<close>

record client_trace =
  ct_quiet :: bool
  ct_use_color :: bool
  ct_show_ts :: bool
  ct_current_verb :: string
  ct_secure_round :: u8
  ct_rx_open :: bool
  ct_force_defer :: bool
  ct_out :: string

definition trace_zero :: client_trace where
  "trace_zero = \<lparr>ct_quiet = False, ct_use_color = False, ct_show_ts = False, ct_current_verb = '''',
     ct_secure_round = 0, ct_rx_open = False, ct_force_defer = False, ct_out = ''''\<rparr>"

definition printf :: "string \<Rightarrow> client_trace \<Rightarrow> client_trace" where
  "printf s t = t\<lparr>ct_out := ct_out t @ s\<rparr>"

definition COL :: "client_trace \<Rightarrow> string \<Rightarrow> string" where
  "COL t ansi = (if ct_use_color t then ansi else '''')"

definition fbsec_client_trace_set_quiet :: "bool \<Rightarrow> client_trace \<Rightarrow> client_trace" where
  "fbsec_client_trace_set_quiet q t = t\<lparr>ct_quiet := q\<rparr>"

definition fbsec_client_trace_set_use_color :: "bool \<Rightarrow> client_trace \<Rightarrow> client_trace" where
  "fbsec_client_trace_set_use_color c t = t\<lparr>ct_use_color := c\<rparr>"

definition fbsec_client_trace_set_show_ts :: "bool \<Rightarrow> client_trace \<Rightarrow> client_trace" where
  "fbsec_client_trace_set_show_ts b t = t\<lparr>ct_show_ts := b\<rparr>"

definition fbsec_client_trace_set_verb :: "string \<Rightarrow> client_trace \<Rightarrow> client_trace" where
  "fbsec_client_trace_set_verb v t = t\<lparr>ct_current_verb := v\<rparr>"

definition fbsec_client_trace_reset_round :: "client_trace \<Rightarrow> client_trace" where
  "fbsec_client_trace_reset_round t = t\<lparr>ct_secure_round := 0\<rparr>"

definition fbsec_client_trace_inc_round :: "client_trace \<Rightarrow> client_trace" where
  "fbsec_client_trace_inc_round t = t\<lparr>ct_secure_round := ct_secure_round t + 1\<rparr>"

definition fbsec_client_trace_set_force_defer :: "bool \<Rightarrow> client_trace \<Rightarrow> client_trace" where
  "fbsec_client_trace_set_force_defer on t = t\<lparr>ct_force_defer := on\<rparr>"

section \<open>Names\<close>

definition fbsec_client_abort_name :: "abort \<Rightarrow> string" where
  "fbsec_client_abort_name ac =
     (if ac = FBSEC_ABORT_NONE then ''none''
      else if ac = FBSEC_ABORT_BAD_CMD then ''unknown command specifier''
      else if ac = FBSEC_ABORT_SEG_COUNTER then ''USDO segment counter wrong''
      else if ac = FBSEC_ABORT_DATA_SIZE then ''incorrect data size''
      else if ac = FBSEC_ABORT_SESSION_ID then ''USDO session-ID wrong/unknown''
      else if ac = FBSEC_ABORT_WRITE_ONLY then ''read of a write-only entry''
      else if ac = FBSEC_ABORT_READ_ONLY then ''write to a read-only entry''
      else if ac = FBSEC_ABORT_NO_OBJECT then ''object does not exist''
      else if ac = FBSEC_ABORT_NO_SUBINDEX then ''sub-index does not exist''
      else if ac = FBSEC_ABORT_TYPE_MISMATCH then ''data type / length mismatch''
      else if ac = FBSEC_ABORT_LEN_TOO_HIGH then ''length too high''
      else if ac = FBSEC_ABORT_LEN_TOO_LOW then ''length too low''
      else if ac = FBSEC_ABORT_INTERNAL then ''internal failure''
      else if ac = FBSEC_ABORT_DEVICE_STATE then ''refused by device state / lock''
      else if ac = FBSEC_ABORT_TAG_VERIFY then ''AEAD tag verification failed''
      else if ac = FBSEC_ABORT_SIG_VERIFY then ''Ed25519 signature failed''
      else if ac = FBSEC_ABORT_VOUCHER then ''ownership voucher rejected''
      else if ac = FBSEC_ABORT_ROLE_DENIED then ''role policy denied''
      else if ac = FBSEC_ABORT_KEY_ID then ''key identifier not accepted''
      else if ac = FBSEC_ABORT_NO_SESSION then ''secure session unknown/expired''
      else if ac = FBSEC_ABORT_POLL_COUNTER then ''cyclic poll counter desync''
      else if ac = FBSEC_ABORT_KEY_BUDGET then ''key frame budget reached''
      else if ac = FBSEC_ABORT_NOT_BUILT then ''feature not compiled in''
      else ''reserved'')"

definition secure_verb_label :: "client_trace \<Rightarrow> string" where
  "secure_verb_label t =
     (let v = ct_current_verb t in
      if v = '''' then ''--''
      else if v = ''armrd'' then ''SRD1''
      else if v = ''pollrd'' then ''SRD2''
      else if v = ''armwr'' then ''SWR1''
      else if v = ''pollwr'' then ''SWR2''
      else if v = ''srd'' then (if ct_secure_round t \<ge> 2 then ''SRD2'' else ''SRD1'')
      else if v = ''swr'' then (if ct_secure_round t \<ge> 2 then ''SWR2'' else ''SWR1'')
      else v)"

section \<open>Pieces of a payload\<close>

definition fbsec_client_trace_print_hex_seg :: "string \<Rightarrow> bytes \<Rightarrow> client_trace \<Rightarrow> client_trace" where
  "fbsec_client_trace_print_hex_seg col p t =
     (if p = [] then t
      else printf ('' '' @ col @ hex_joined p @ (if col \<noteq> '''' then COL t ANSI_RESET else '''')) t)"

text \<open>The shapes of \<open>log_secure_segments\<close>, for a payload of \<open>n\<close> bytes, in its order.\<close>

definition secure_pieces :: "string \<Rightarrow> bool \<Rightarrow> nat \<Rightarrow> piece list" where
  "secure_pieces v is_tx n =
     (let TAGN = FBSEC_AEAD_TAG_SIZE; RAND = FBSEC_AEAD_RAND_SIZE in
      if v = '''' then [('''', 0, n)]
      else if (v = ''srd'' \<or> v = ''armrd'') \<and> is_tx \<and> n = 1 + RAND then
        [(ANSI_LIGHT_GREY, 0, 1), (ANSI_ORANGE, 1, RAND)]
      else if (v = ''srd'' \<or> v = ''armrd'') \<and> \<not> is_tx \<and> n \<ge> RAND + TAGN then
        (let cipher_off = RAND; cipher = n - cipher_off - TAGN in
         [(ANSI_ORANGE, 0, RAND), (ANSI_WHITE, cipher_off, cipher), (ANSI_GREEN, cipher_off + cipher, TAGN)])
      else if v = ''pollrd'' \<and> is_tx \<and> n = 1 then [(ANSI_LIGHT_GREY, 0, 1)]
      else if v = ''pollrd'' \<and> \<not> is_tx \<and> n \<ge> 1 + TAGN then
        (let cipher = n - 1 - TAGN in
         [(ANSI_LIGHT_GREY, 0, 1), (ANSI_WHITE, 1, cipher), (ANSI_GREEN, 1 + cipher, TAGN)])
      else if v = ''swr'' \<and> is_tx \<and> n \<ge> 1 + RAND + TAGN then
        (let cipher_off = 1 + RAND; cipher = n - cipher_off - TAGN in
         [(ANSI_LIGHT_GREY, 0, 1), (ANSI_ORANGE, 1, RAND), (ANSI_WHITE, cipher_off, cipher),
          (ANSI_GREEN, cipher_off + cipher, TAGN)])
      else if v = ''swr'' \<and> \<not> is_tx \<and> n = RAND then [(ANSI_ORANGE, 0, RAND)]
      else if v = ''armwr'' \<and> is_tx \<and> n = 1 then [(ANSI_LIGHT_GREY, 0, 1)]
      else if v = ''armwr'' \<and> \<not> is_tx \<and> n = RAND then [(ANSI_ORANGE, 0, RAND)]
      else if v = ''pollwr'' \<and> is_tx \<and> n \<ge> 1 + TAGN then
        (let cipher = n - 1 - TAGN in
         [(ANSI_LIGHT_GREY, 0, 1), (ANSI_WHITE, 1, cipher), (ANSI_GREEN, 1 + cipher, TAGN)])
      else [('''', 0, n)])"

text \<open>The length is truncated to 16 bits before the call.\<close>

definition log_secure_segments :: "bool \<Rightarrow> bytes \<Rightarrow> client_trace \<Rightarrow> client_trace" where
  "log_secure_segments is_tx p t =
     fold (\<lambda>(col, off, len). fbsec_client_trace_print_hex_seg (COL t col) (slice p off len))
       (secure_pieces (ct_current_verb t) is_tx (length p mod 2 ^ 16)) t"

section \<open>Rows\<close>

definition row_header :: "local_time \<Rightarrow> bool \<Rightarrow> u16 \<Rightarrow> u16 \<Rightarrow> u32 \<Rightarrow> client_trace \<Rightarrow> string" where
  "row_header now is_tx src dst data_id t =
     COL t (if is_tx then ANSI_BLUE else ANSI_MAGENTA) @ ''['' @ format_timestamp 16 now @ ''] '' @
     (if is_tx then ''TX'' else ''RX'') @ '' '' @ pad_right 4 (secure_verb_label t) @ '' '' @
     hex2 (ucast (src AND 0xFF)) @ ''->'' @ hex2 (ucast (dst AND 0xFF)) @
     '' ['' @ hex6 (id24 data_id) @ '']'' @ COL t ANSI_RESET"

definition meta :: "string \<Rightarrow> client_trace \<Rightarrow> string" where
  "meta s t = '' '' @ COL t ANSI_LIGHT_GREY @ s @ COL t ANSI_RESET"

definition close_row :: "client_trace \<Rightarrow> client_trace" where
  "close_row t = (printf [newline] t)\<lparr>ct_rx_open := False\<rparr>"

text \<open>Whether the row of a received frame stays open for its plaintext or a note.\<close>

definition row_deferred :: "bool \<Rightarrow> bytes \<Rightarrow> client_trace \<Rightarrow> bool" where
  "row_deferred is_tx p t \<longleftrightarrow> \<not> is_tx \<and>
     (ct_force_defer t \<or>
      (ct_current_verb t = ''srd'' \<and> length p \<ge> FBSEC_AEAD_TAG_SIZE) \<or>
      (ct_current_verb t = ''pollrd'' \<and> length p \<ge> 1 + FBSEC_AEAD_TAG_SIZE))"

definition row_body :: "bool \<Rightarrow> bytes \<Rightarrow> client_trace \<Rightarrow> client_trace" where
  "row_body is_tx p t =
     (let label = secure_verb_label t in
      if p \<noteq> [] then log_secure_segments is_tx p t
      else if \<not> is_tx then printf (meta ''ACK'' t) t
      else if take 3 label = ''SRD'' then printf (meta ''SRD REQ'' t) t
      else if take 3 label = ''SWR'' then printf (meta ''SWR REQ'' t) t
      else t)"

definition fbsec_client_trace_secure_frame ::
  "local_time \<Rightarrow> bool \<Rightarrow> u16 \<Rightarrow> u16 \<Rightarrow> u32 \<Rightarrow> bytes \<Rightarrow> abort \<Rightarrow> client_trace \<Rightarrow> client_trace" where
  "fbsec_client_trace_secure_frame now is_tx src dst data_id p status t =
     (if ct_quiet t then t
      else
        let t = (if ct_rx_open t then close_row t else t);
            t = printf (row_header now is_tx src dst data_id t) t
        in if \<not> is_tx \<and> status \<noteq> FBSEC_ABORT_NONE then
             printf ('' '' @ COL t ANSI_RED @ ''abort 0x'' @ hex2 status @ '' ('' @
               fbsec_client_abort_name status @ '')'' @ COL t ANSI_RESET @ [newline]) t
           else
             let t = row_body is_tx p t
             in if row_deferred is_tx p t then t\<lparr>ct_rx_open := True\<rparr> else printf [newline] t)"

definition fbsec_client_trace_close_with_plain :: "bytes option \<Rightarrow> client_trace \<Rightarrow> client_trace" where
  "fbsec_client_trace_close_with_plain plain t =
     (if \<not> ct_rx_open t then t
      else close_row
        (case plain of
           Some p \<Rightarrow> if p \<noteq> [] then
                       fbsec_client_trace_print_hex_seg (COL t ANSI_WHITE) p (printf (meta ''Plain:'' t) t)
                     else t
         | None \<Rightarrow> t))"

definition fbsec_client_trace_close_no_plain :: "client_trace \<Rightarrow> client_trace" where
  "fbsec_client_trace_close_no_plain t = (if \<not> ct_rx_open t then t else close_row t)"

definition fbsec_client_trace_close_with_note :: "string option \<Rightarrow> client_trace \<Rightarrow> client_trace" where
  "fbsec_client_trace_close_with_note note t =
     (if \<not> ct_rx_open t then t
      else close_row
        (case note of
           Some s \<Rightarrow> if s \<noteq> '''' then printf (meta '';'' t @ '' '' @ s) t else t
         | None \<Rightarrow> t))"

definition fbsec_client_trace_print_legend :: "client_trace \<Rightarrow> client_trace" where
  "fbsec_client_trace_print_legend t =
     (if \<not> ct_use_color t then t
      else printf (''Coloring: '' @ COL t ANSI_BLUE @ ''Request'' @ COL t ANSI_RESET @ '', '' @
        COL t ANSI_MAGENTA @ ''Response'' @ COL t ANSI_RESET @ '', '' @
        COL t ANSI_LIGHT_GREY @ ''Meta'' @ COL t ANSI_RESET @ '', '' @
        COL t ANSI_ORANGE @ ''Random'' @ COL t ANSI_RESET @ '', '' @
        COL t ANSI_GREEN @ ''Tag'' @ COL t ANSI_RESET @ '', '' @
        COL t ANSI_WHITE @ ''Data'' @ COL t ANSI_RESET @ [newline, newline]) t)"

text \<open>The end of a verb: the plaintext on the open row, or the failure on one of its own.\<close>

definition emit_summary :: "bool \<Rightarrow> bytes option \<Rightarrow> abort \<Rightarrow> string option \<Rightarrow> client_trace \<Rightarrow> client_trace" where
  "emit_summary success plain abort_code fail_text t =
     (if ct_quiet t then t
      else if success then
        (case plain of
           Some p \<Rightarrow> if p \<noteq> [] then fbsec_client_trace_close_with_plain (Some (take (length p mod 2 ^ 16) p)) t
                     else fbsec_client_trace_close_no_plain t
         | None \<Rightarrow> fbsec_client_trace_close_no_plain t)
      else
        let t = fbsec_client_trace_close_no_plain t in
        case fail_text of
          Some s \<Rightarrow> printf (COL t ANSI_RED @ ''FAIL  '' @ s @ COL t ANSI_RESET @ [newline]) t
        | None \<Rightarrow> printf (COL t ANSI_RED @ ''FAIL  abort 0x'' @ hex2 abort_code @ '' ('' @
                    fbsec_client_abort_name abort_code @ '')'' @ COL t ANSI_RESET @ [newline]) t)"

section \<open>A row shows its frame\<close>

lemma printf_simps [simp]:
  "ct_out (printf s t) = ct_out t @ s" "ct_quiet (printf s t) = ct_quiet t"
  "ct_use_color (printf s t) = ct_use_color t" "ct_show_ts (printf s t) = ct_show_ts t"
  "ct_current_verb (printf s t) = ct_current_verb t" "ct_secure_round (printf s t) = ct_secure_round t"
  "ct_rx_open (printf s t) = ct_rx_open t" "ct_force_defer (printf s t) = ct_force_defer t"
  by (simp_all add: printf_def)

lemma printf_printf [simp]: "printf b (printf a t) = printf (a @ b) t"
  by (simp add: printf_def)

lemma printf_nil [simp]: "printf [] t = t"
  by (simp add: printf_def)

lemma COL_printf [simp]: "COL (printf s t) c = COL t c"
  by (simp add: COL_def)

lemma label_printf [simp]: "secure_verb_label (printf s t) = secure_verb_label t"
  by (simp add: secure_verb_label_def)

text \<open>Every shape covers the payload: no byte is skipped, repeated or read outside it.\<close>

lemma secure_pieces_tile: "tiles 0 (secure_pieces v is_tx n) n"
  by (auto simp: secure_pieces_def Let_def)

definition seg_text :: "string \<Rightarrow> bytes \<Rightarrow> client_trace \<Rightarrow> string" where
  "seg_text col p t = (if p = [] then ''''
     else '' '' @ col @ hex_joined p @ (if col \<noteq> '''' then COL t ANSI_RESET else ''''))"

lemma print_hex_seg_text: "fbsec_client_trace_print_hex_seg col p t = printf (seg_text col p t) t"
  by (simp add: fbsec_client_trace_print_hex_seg_def seg_text_def)

lemma seg_text_printf [simp]: "seg_text c q (printf s t) = seg_text c q t"
  by (simp add: seg_text_def)

lemma print_pieces:
  "fold (\<lambda>(col, off, len). fbsec_client_trace_print_hex_seg (COL t0 col) (slice p off len)) ps t =
     printf (concat (map (\<lambda>(col, off, len). seg_text (COL t0 col) (slice p off len) t) ps)) t"
  by (induction ps arbitrary: t) (auto simp: print_hex_seg_text)

lemma plain_seg_text: "\<not> ct_use_color t0 \<Longrightarrow> seg_text (COL t0 col) q t = hex_row q"
  using hex_joined_row [of q] by (auto simp: seg_text_def COL_def)

lemma log_segments_printf: "\<exists>s. log_secure_segments is_tx p t = printf s t \<and>
    (\<not> ct_use_color t \<longrightarrow> length p < 65536 \<longrightarrow> s = hex_row p)"
proof -
  let ?ps = "secure_pieces (ct_current_verb t) is_tx (length p mod 2 ^ 16)"
  have "concat (map (\<lambda>(col, off, len). seg_text (COL t col) (slice p off len) t) ?ps) = pieces_hex p ?ps"
    if "\<not> ct_use_color t"
    using that by (simp add: plain_seg_text pieces_hex_def)
  moreover have "pieces_hex p ?ps = hex_row p" if "length p < 65536"
    using tiles_hex [of 0 ?ps p] secure_pieces_tile [of "ct_current_verb t" is_tx "length p"] that by simp
  ultimately show ?thesis unfolding log_secure_segments_def print_pieces by metis
qed

lemma frame_row:
  assumes "\<not> ct_quiet t" "\<not> ct_use_color t" "is_tx \<or> status = FBSEC_ABORT_NONE" "p \<noteq> []" "length p < 65536"
  shows "ct_out (fbsec_client_trace_secure_frame now is_tx src dst data_id p status t) =
    ct_out t @ (if ct_rx_open t then [newline] else []) @ row_header now is_tx src dst data_id t @ hex_row p @
    (if row_deferred is_tx p t then [] else [newline])"
proof -
  define t1 where "t1 = (if ct_rx_open t then close_row t else t)"
  have t1: "ct_use_color t1 = ct_use_color t" "ct_current_verb t1 = ct_current_verb t"
    "ct_secure_round t1 = ct_secure_round t" "ct_force_defer t1 = ct_force_defer t"
    "ct_out t1 = ct_out t @ (if ct_rx_open t then [newline] else [])"
    by (auto simp: t1_def close_row_def)
  then have h: "row_header now is_tx src dst data_id t1 = row_header now is_tx src dst data_id t"
    by (simp add: row_header_def COL_def secure_verb_label_def)
  let ?t2 = "printf (row_header now is_tx src dst data_id t) t1"
  obtain s where s: "log_secure_segments is_tx p ?t2 = printf s ?t2" "s = hex_row p"
    using log_segments_printf [of is_tx p ?t2] assms t1 by auto
  have d: "row_deferred is_tx p (printf s ?t2) = row_deferred is_tx p t"
    using t1 by (simp add: row_deferred_def)
  have st: "(\<not> is_tx \<and> status \<noteq> FBSEC_ABORT_NONE) = False" using assms(3) by blast
  show ?thesis
    unfolding fbsec_client_trace_secure_frame_def t1_def [symmetric] Let_def st
    using assms(1,4) s d h t1 by (simp add: row_body_def)
qed

section \<open>Lines\<close>

text \<open>
  The calls of the module. Between two of them the output ends with a line, or the
  row of a received frame is open, unless a bare \<open>print_hex_seg\<close> was among them: it
  writes inside a row of its caller's.
\<close>

datatype trace_call =
  Call_Quiet bool | Call_Color bool | Call_Verb string | Call_Reset_Round | Call_Inc_Round
| Call_Force_Defer bool
| Call_Frame local_time bool u16 u16 u32 bytes abort
| Call_Close_Plain "bytes option" | Call_Close | Call_Close_Note "string option"
| Call_Legend | Call_Summary bool "bytes option" abort "string option"
| Call_Hex_Seg string bytes

fun run_call :: "trace_call \<Rightarrow> client_trace \<Rightarrow> client_trace" where
  "run_call (Call_Quiet q) t = fbsec_client_trace_set_quiet q t"
| "run_call (Call_Color c) t = fbsec_client_trace_set_use_color c t"
| "run_call (Call_Verb v) t = fbsec_client_trace_set_verb v t"
| "run_call Call_Reset_Round t = fbsec_client_trace_reset_round t"
| "run_call Call_Inc_Round t = fbsec_client_trace_inc_round t"
| "run_call (Call_Force_Defer on) t = fbsec_client_trace_set_force_defer on t"
| "run_call (Call_Frame now is_tx src dst d p st) t = fbsec_client_trace_secure_frame now is_tx src dst d p st t"
| "run_call (Call_Close_Plain p) t = fbsec_client_trace_close_with_plain p t"
| "run_call Call_Close t = fbsec_client_trace_close_no_plain t"
| "run_call (Call_Close_Note n) t = fbsec_client_trace_close_with_note n t"
| "run_call Call_Legend t = fbsec_client_trace_print_legend t"
| "run_call (Call_Summary ok p ac f) t = emit_summary ok p ac f t"
| "run_call (Call_Hex_Seg col p) t = fbsec_client_trace_print_hex_seg col p t"

definition whole_row_call :: "trace_call \<Rightarrow> bool" where
  "whole_row_call c \<longleftrightarrow> (\<forall>col p. c \<noteq> Call_Hex_Seg col p)"

definition whole_lines :: "client_trace \<Rightarrow> bool" where
  "whole_lines t \<longleftrightarrow> ct_rx_open t \<or> ct_out t = '''' \<or> last (ct_out t) = newline"

lemma whole_lines_cong: "whole_lines t \<Longrightarrow> ct_rx_open t' = ct_rx_open t \<Longrightarrow> ct_out t' = ct_out t \<Longrightarrow> whole_lines t'"
  by (simp add: whole_lines_def)

lemma whole_lines_newline [simp]: "s \<noteq> [] \<Longrightarrow> last s = newline \<Longrightarrow> whole_lines (printf s t)"
  by (simp add: whole_lines_def)

lemma whole_lines_close [simp]: "whole_lines (close_row t)"
  by (simp add: close_row_def whole_lines_def)

lemma whole_lines_open [simp]: "whole_lines (t\<lparr>ct_rx_open := True\<rparr>)"
  by (simp add: whole_lines_def)

lemma close_no_plain_lines: "whole_lines t \<Longrightarrow> whole_lines (fbsec_client_trace_close_no_plain t)"
  by (simp add: fbsec_client_trace_close_no_plain_def)

lemma close_plain_lines: "whole_lines t \<Longrightarrow> whole_lines (fbsec_client_trace_close_with_plain p t)"
  by (simp add: fbsec_client_trace_close_with_plain_def)

lemma frame_lines: "whole_lines t \<Longrightarrow> whole_lines (fbsec_client_trace_secure_frame now is_tx src dst d p st t)"
  by (simp add: fbsec_client_trace_secure_frame_def Let_def)

lemma summary_lines: "whole_lines t \<Longrightarrow> whole_lines (emit_summary ok p ac f t)"
  by (simp add: emit_summary_def close_no_plain_lines close_plain_lines Let_def split: option.split)

lemma legend_lines: "whole_lines t \<Longrightarrow> whole_lines (fbsec_client_trace_print_legend t)"
  by (auto simp: fbsec_client_trace_print_legend_def whole_lines_def)

lemma run_call_lines: "whole_row_call c \<Longrightarrow> whole_lines t \<Longrightarrow> whole_lines (run_call c t)"
  by (cases c) (auto simp: whole_row_call_def fbsec_client_trace_set_quiet_def fbsec_client_trace_set_use_color_def
      fbsec_client_trace_set_verb_def fbsec_client_trace_reset_round_def fbsec_client_trace_inc_round_def
      fbsec_client_trace_set_force_defer_def fbsec_client_trace_close_with_note_def
      close_no_plain_lines close_plain_lines frame_lines summary_lines legend_lines elim: whole_lines_cong)

lemma run_calls_lines: "\<forall>c\<in>set cs. whole_row_call c \<Longrightarrow> whole_lines t \<Longrightarrow> whole_lines (fold run_call cs t)"
  by (induction cs arbitrary: t) (auto intro: run_call_lines)

lemma fresh_trace_lines: "\<forall>c\<in>set cs. whole_row_call c \<Longrightarrow> whole_lines (fold run_call cs trace_zero)"
  by (rule run_calls_lines) (simp_all add: whole_lines_def trace_zero_def)

text \<open>A verb ends with its rows closed, unless the trace is quiet.\<close>

lemma summary_closes: "\<not> ct_quiet t \<Longrightarrow> \<not> ct_rx_open (emit_summary ok p ac f t)"
  by (auto simp: emit_summary_def fbsec_client_trace_close_no_plain_def fbsec_client_trace_close_with_plain_def
      close_row_def Let_def split: option.split)

end
