(* ===== verification/Server_Trace.thy ===== *)
theory Server_Trace
  imports Trace_Text Server_Replies
begin

text \<open>
  The trace of the server (\<open>server_common_trace.c\<close>): for every request a row for what
  was received and a row for what was sent, sliced by the shape the registry entry
  gives them, and the verb a handler passes to it. \<open>traced_request\<close> lays the output
  of the trace over the dispatcher: in the source the handlers call the trace
  themselves, once per request, after the reply is known, and the trace functions
  return nothing and write nothing but the console.
\<close>

section \<open>State\<close>

record server_trace =
  st_quiet :: bool
  st_use_color :: bool
  st_out :: string

definition fbsec_server_trace_set_quiet :: "bool \<Rightarrow> server_trace \<Rightarrow> server_trace" where
  "fbsec_server_trace_set_quiet q t = t\<lparr>st_quiet := q\<rparr>"

definition fbsec_server_trace_set_use_color :: "bool \<Rightarrow> server_trace \<Rightarrow> server_trace" where
  "fbsec_server_trace_set_use_color c t = t\<lparr>st_use_color := c\<rparr>"

definition server_col :: "server_trace \<Rightarrow> string \<Rightarrow> string" where
  "server_col t ansi = (if st_use_color t then ansi else '''')"

definition server_legend :: "server_trace \<Rightarrow> string" where
  "server_legend t = ''Coloring: '' @ server_col t ANSI_BLUE @ ''Request'' @ server_col t ANSI_RESET @ '', '' @
     server_col t ANSI_MAGENTA @ ''Response'' @ server_col t ANSI_RESET @ '', '' @
     server_col t ANSI_LIGHT_GREY @ ''Meta'' @ server_col t ANSI_RESET @ '', '' @
     server_col t ANSI_ORANGE @ ''Random'' @ server_col t ANSI_RESET @ '', '' @
     server_col t ANSI_GREEN @ ''Tag'' @ server_col t ANSI_RESET @ '', '' @
     server_col t ANSI_WHITE @ ''Data'' @ server_col t ANSI_RESET @ [newline, newline]"

definition fbsec_server_trace_print_legend :: "server_trace \<Rightarrow> server_trace" where
  "fbsec_server_trace_print_legend t =
     (if \<not> st_use_color t then t else t\<lparr>st_out := st_out t @ server_legend t\<rparr>)"

section \<open>Pieces of a request and of a reply\<close>

definition server_hex_seg :: "string \<Rightarrow> bytes \<Rightarrow> server_trace \<Rightarrow> string" where
  "server_hex_seg col p t =
     (if p = [] then ''''
      else '' '' @ col @ hex_joined p @ (if col \<noteq> '''' then server_col t ANSI_RESET else ''''))"

text \<open>The lengths are 16-bit, the offsets are not.\<close>

definition rx_pieces :: "sod_entry option \<Rightarrow> u16 \<Rightarrow> piece list" where
  "rx_pieces entry n =
     (let TAGN = FBSEC_AEAD_TAG_SIZE; RAND = FBSEC_AEAD_RAND_SIZE in
      case entry of
        None \<Rightarrow> [('''', 0, unat n)]
      | Some e \<Rightarrow>
          let has_ro = (ent_access_flags e AND FBSEC_SOD_ACCESS_SECURE_RO \<noteq> 0);
              has_wo = (ent_access_flags e AND FBSEC_SOD_ACCESS_SECURE_WO \<noteq> 0);
              data_len = unat (ent_data_len e)
          in if has_ro \<and> n = of_nat (1 + RAND) then [(ANSI_LIGHT_GREY, 0, 1), (ANSI_ORANGE, 1, RAND)]
             else if has_ro \<and> n = 1 then [(ANSI_LIGHT_GREY, 0, 1)]
             else if has_wo \<and> n = 1 then [(ANSI_LIGHT_GREY, 0, 1)]
             else if has_wo \<and> n = of_nat (1 + RAND + data_len + TAGN) then
               [(ANSI_LIGHT_GREY, 0, 1), (ANSI_ORANGE, 1, RAND), (ANSI_WHITE, 1 + RAND, data_len),
                (ANSI_GREEN, 1 + RAND + data_len, TAGN)]
             else if has_wo \<and> n = of_nat (1 + data_len + TAGN) then
               [(ANSI_LIGHT_GREY, 0, 1), (ANSI_WHITE, 1, data_len), (ANSI_GREEN, 1 + data_len, TAGN)]
             else [('''', 0, unat n)])"

definition tx_pieces :: "sod_entry option \<Rightarrow> u16 \<Rightarrow> piece list" where
  "tx_pieces entry n =
     (let TAGN = FBSEC_AEAD_TAG_SIZE; RAND = FBSEC_AEAD_RAND_SIZE in
      case entry of
        None \<Rightarrow> [('''', 0, unat n)]
      | Some e \<Rightarrow>
          let has_ro = (ent_access_flags e AND FBSEC_SOD_ACCESS_SECURE_RO \<noteq> 0);
              has_wo = (ent_access_flags e AND FBSEC_SOD_ACCESS_SECURE_WO \<noteq> 0);
              data_len = unat (ent_data_len e)
          in if has_ro \<and> n = of_nat (RAND + data_len + TAGN) then
               [(ANSI_ORANGE, 0, RAND), (ANSI_WHITE, RAND, data_len), (ANSI_GREEN, RAND + data_len, TAGN)]
             else if has_ro \<and> n = of_nat (1 + data_len + TAGN) then
               [(ANSI_LIGHT_GREY, 0, 1), (ANSI_WHITE, 1, data_len), (ANSI_GREEN, 1 + data_len, TAGN)]
             else if has_wo \<and> n = of_nat RAND then [(ANSI_ORANGE, 0, RAND)]
             else [('''', 0, unat n)])"

definition log_rx_segments :: "sod_entry option \<Rightarrow> bytes \<Rightarrow> server_trace \<Rightarrow> string" where
  "log_rx_segments entry p t =
     concat (map (\<lambda>(col, off, len). server_hex_seg (server_col t col) (slice p off len) t)
       (rx_pieces entry (of_nat (length p))))"

definition log_tx_segments :: "sod_entry option \<Rightarrow> bytes \<Rightarrow> server_trace \<Rightarrow> string" where
  "log_tx_segments entry p t =
     concat (map (\<lambda>(col, off, len). server_hex_seg (server_col t col) (slice p off len) t)
       (tx_pieces entry (of_nat (length p))))"

section \<open>Rows\<close>

text \<open>The value behind a data-bearing request: its own copy in the server, as it is now.\<close>

definition trace_plain :: "string \<Rightarrow> u32 \<Rightarrow> 'e srv \<Rightarrow> bytes option" where
  "trace_plain verb data_id s =
     (if verb = ''SRD2'' then
        (if data_id = FBSEC_SERVER_ENTRY_RD_DATA_ID then Some (sv_value (host s))
         else if data_id = FBSEC_SERVER_ENTRY_SRD_DATA_ID then Some (sv_secure_ro (host s)) else None)
      else if verb = ''SWR2'' then
        (if data_id = FBSEC_SERVER_ENTRY_WR_DATA_ID then Some (sv_value (host s))
         else if data_id = FBSEC_SERVER_ENTRY_SWR_DATA_ID then Some (sv_secure_wo (host s)) else None)
      else None)"

definition server_meta :: "string \<Rightarrow> server_trace \<Rightarrow> string" where
  "server_meta m t = '' '' @ server_col t ANSI_LIGHT_GREY @ m @ server_col t ANSI_RESET"

definition plain_note :: "bytes option \<Rightarrow> bool \<Rightarrow> server_trace \<Rightarrow> string" where
  "plain_note plain on t =
     (case plain of
        Some p \<Rightarrow> if on then server_meta ''Plain:'' t @ server_hex_seg (server_col t ANSI_WHITE) p t else ''''
      | None \<Rightarrow> '''')"

definition server_row_header :: "string \<Rightarrow> local_time \<Rightarrow> string \<Rightarrow> string \<Rightarrow> u16 \<Rightarrow> u16 \<Rightarrow> u32 \<Rightarrow> server_trace \<Rightarrow> string" where
  "server_row_header col now dir verb a b data_id t =
     server_col t col @ ''['' @ format_timestamp 16 now @ ''] '' @ dir @ '' '' @ pad_right 4 verb @ '' '' @
     hex2 (ucast (a AND 0xFF)) @ ''->'' @ hex2 (ucast (b AND 0xFF)) @
     '' ['' @ hex6 (id24 data_id) @ '']'' @ server_col t ANSI_RESET"

definition rx_row :: "local_time \<Rightarrow> u16 \<Rightarrow> u16 \<Rightarrow> u32 \<Rightarrow> string \<Rightarrow> abort \<Rightarrow> bytes \<Rightarrow> 'e srv \<Rightarrow> server_trace \<Rightarrow> string" where
  "rx_row now src_dev dst_dev data_id verb status req s t =
     server_row_header ANSI_BLUE now ''RX'' verb src_dev dst_dev data_id t @
     (if req \<noteq> [] then log_rx_segments (fbsec_sod_find_entry s data_id) req t
      else if take 3 verb = ''SRD'' then server_meta ''SRD REQ'' t
      else if take 3 verb = ''SWR'' then server_meta ''SWR REQ'' t
      else '''') @
     plain_note (trace_plain verb data_id s) (verb = ''SWR2'' \<and> status = FBSEC_ABORT_NONE) t @ [newline]"

definition tx_row :: "local_time \<Rightarrow> u16 \<Rightarrow> u16 \<Rightarrow> u32 \<Rightarrow> string \<Rightarrow> abort \<Rightarrow> bytes \<Rightarrow> 'e srv \<Rightarrow> server_trace \<Rightarrow> string" where
  "tx_row now src_dev dst_dev data_id verb status data s t =
     server_row_header ANSI_MAGENTA now ''TX'' verb dst_dev src_dev data_id t @
     (if status \<noteq> FBSEC_ABORT_NONE then
        '' '' @ server_col t ANSI_RED @ ''abort 0x'' @ hex2 status @ server_col t ANSI_RESET
      else if data \<noteq> [] then log_tx_segments (fbsec_sod_find_entry s data_id) data t
      else server_meta ''ACK'' t) @
     plain_note (trace_plain verb data_id s) (verb = ''SRD2'' \<and> status = FBSEC_ABORT_NONE) t @ [newline]"

definition fbsec_server_trace_request ::
  "local_time \<Rightarrow> u16 \<Rightarrow> u16 \<Rightarrow> u32 \<Rightarrow> string \<Rightarrow> abort \<Rightarrow> bytes \<Rightarrow> bytes \<Rightarrow> 'e srv \<Rightarrow> server_trace \<Rightarrow> server_trace" where
  "fbsec_server_trace_request now src_dev dst_dev data_id verb status req data s t =
     (if st_quiet t then t
      else t\<lparr>st_out := st_out t @ rx_row now src_dev dst_dev data_id verb status req s t @
                              tx_row now src_dev dst_dev data_id verb status data s t\<rparr>)"

section \<open>The verb of a request\<close>

definition detect_verb :: "sod_entry option \<Rightarrow> bytes \<Rightarrow> string" where
  "detect_verb entry payload =
     (case entry of
        None \<Rightarrow> ''??''
      | Some e \<Rightarrow>
          let is_ro = (ent_access_flags e AND FBSEC_SOD_ACCESS_SECURE_RO \<noteq> 0);
              is_wo = (ent_access_flags e AND FBSEC_SOD_ACCESS_SECURE_WO \<noteq> 0)
          in if is_ro \<and> length payload = 1 + FBSEC_AEAD_RAND_SIZE then ''SRD1''
             else if is_ro then ''SRD2''
             else if is_wo \<and> length payload \<le> 1 then ''SWR1''
             else if is_wo then ''SWR2''
             else ''??'')"

text \<open>The verb each handler names in its calls, by the object it serves.\<close>

definition handover_verb :: "u32 \<Rightarrow> string" where
  "handover_verb data_id =
     (if data_id = FBSEC_HO_IDENTITY_ID then ''HOID'' else if data_id = FBSEC_HO_LDEVID_ID then ''HOLD''
      else if data_id = FBSEC_HO_PROVISION_ID then ''HOPK'' else if data_id = FBSEC_HO_VOUCHER_ID then ''HOVC''
      else ''HOEP'')"

definition rpk_verb :: "u32 \<Rightarrow> string" where
  "rpk_verb data_id =
     (if id_index data_id = FBSEC_RPK_PUBKEYS_INDEX then ''C021''
      else if id_index data_id = FBSEC_RPK_PKTYPES_INDEX then ''C022''
      else if data_id = FBSEC_RPK_GENERIC_READ_ID then ''C42R''
      else if data_id = FBSEC_RPK_GENERIC_WRITE_ID then ''C42W'' else ''C49C'')"

definition secure_verb :: "gcm \<Rightarrow> 'e platform \<Rightarrow> u16 \<Rightarrow> u32 \<Rightarrow> bytes \<Rightarrow> 'e srv \<Rightarrow> string" where
  "secure_verb g F src_dev data_id payload s =
     (case fbsec_sod_dispatch g (server_port F) src_dev data_id payload FBSEC_SERVER_DISPATCH_REPLY_MAX s of
        (st, s1) \<Rightarrow>
          if st \<noteq> SOD_NOT_HANDLED then detect_verb (fbsec_sod_find_entry s1 data_id) payload
          else if payload = [] then ''SRD?'' else ''SWR?'')"

definition request_verb :: "ed25519 \<Rightarrow> gcm \<Rightarrow> 'e platform \<Rightarrow> u16 \<Rightarrow> u32 \<Rightarrow> bytes \<Rightarrow> 'e srv \<Rightarrow> string" where
  "request_verb E g F src_dev data_id payload s =
     (if try_serve_descriptor data_id payload s \<noteq> None then
        (if id_index data_id = FBSEC_DESC_STAT_INDEX then ''STAT'' else ''CAP'')
      else if try_serve_const_od data_id payload s \<noteq> None then ''CRD''
      else if fbsec_server_security_try data_id payload s \<noteq> None then
        (if id_index data_id = FBSEC_SEC_INDEX_KEY_IDS then ''C011'' else ''C010'')
      else if fbsec_server_handover_try E data_id payload s \<noteq> None then handover_verb data_id
      else if fbsec_server_rpk_try E F src_dev data_id payload s \<noteq> None then rpk_verb data_id
      else secure_verb g F src_dev data_id payload s)"

text \<open>
  The dispatcher with its trace. Every handler ends with one reply and one call of
  the trace, with the reply's status and data; the call reads only the registry, the
  device id and, for a secure object, the values the dispatch left.
\<close>

definition traced_request ::
  "ed25519 \<Rightarrow> gcm \<Rightarrow> 'e platform \<Rightarrow> local_time \<Rightarrow> u16 \<Rightarrow> u32 \<Rightarrow> bytes \<Rightarrow> 'e srv \<Rightarrow> server_trace \<Rightarrow>
   reply \<times> 'e srv \<times> server_trace" where
  "traced_request E g F now src_dev data_id payload s t =
     (case fbsec_server_dispatch_request E g F src_dev data_id payload s of
        ((status, data), s1) \<Rightarrow>
          ((status, data), s1,
           fbsec_server_trace_request now src_dev (fbsec_sod_port_get_device_id s1) data_id
             (request_verb E g F src_dev data_id payload s) status payload data s1 t))"

section \<open>The rows show the request and the reply\<close>

lemma plain_server_seg: "\<not> st_use_color t \<Longrightarrow> server_hex_seg (server_col t c) q t = hex_row q"
  using hex_joined_row [of q] by (auto simp: server_hex_seg_def server_col_def)

text \<open>An entry of the registry is small, so the 16-bit lengths do not wrap.\<close>

definition entry_fits :: "sod_entry option \<Rightarrow> bool" where
  "entry_fits entry \<longleftrightarrow> (\<forall>e. entry = Some e \<longrightarrow> unat (ent_data_len e) \<le> FBSEC_AEAD_MAX_PROTECTED)"

lemma registry_entry_fits: "registry_wf (registry s) \<Longrightarrow> entry_fits (fbsec_sod_find_entry s d)"
  by (auto simp: entry_fits_def registry_wf_def find_entry_distinct)

lemma of_nat_u16_one: "n < 65536 \<Longrightarrow> (of_nat n :: u16) = 1 \<longleftrightarrow> n = 1"
  using of_nat_u16_inject [of n 1] by simp

lemmas u16_lengths = of_nat_u16_inject of_nat_u16_one unat_of_nat_u16

lemma rx_pieces_tile:
  assumes "entry_fits entry" "n < 65536"
  shows "tiles 0 (rx_pieces entry (of_nat n)) n"
proof (cases entry)
  case (Some e)
  then have "unat (ent_data_len e) \<le> FBSEC_AEAD_MAX_PROTECTED" using assms by (simp add: entry_fits_def)
  then show ?thesis
    using assms(2)
    by (auto simp: rx_pieces_def Some Let_def u16_lengths simp del: of_nat_add of_nat_Suc of_nat_numeral)
qed (use assms in \<open>simp add: rx_pieces_def u16_lengths\<close>)

lemma tx_pieces_tile:
  assumes "entry_fits entry" "n < 65536"
  shows "tiles 0 (tx_pieces entry (of_nat n)) n"
proof (cases entry)
  case (Some e)
  then have "unat (ent_data_len e) \<le> FBSEC_AEAD_MAX_PROTECTED" using assms by (simp add: entry_fits_def)
  then show ?thesis
    using assms(2)
    by (auto simp: tx_pieces_def Some Let_def u16_lengths simp del: of_nat_add of_nat_Suc of_nat_numeral)
qed (use assms in \<open>simp add: tx_pieces_def u16_lengths\<close>)

lemma log_segments_plain:
  assumes "entry_fits entry" "length p < 65536" "\<not> st_use_color t"
  shows "log_rx_segments entry p t = hex_row p" "log_tx_segments entry p t = hex_row p"
  using tiles_hex [OF rx_pieces_tile, OF assms(1,2)] tiles_hex [OF tx_pieces_tile, OF assms(1,2)] assms(3)
  by (simp_all add: log_rx_segments_def log_tx_segments_def plain_server_seg pieces_hex_def)

text \<open>What a row is without colours.\<close>

lemma server_hex_seg_plain [simp]: "server_hex_seg [] q t = hex_row q"
  using hex_joined_row [of q] by (auto simp: server_hex_seg_def)

lemma rx_row_plain:
  assumes "registry_wf (registry s)" "length req < 65536" "\<not> st_use_color t"
  shows "rx_row now src dst d verb status req s t =
    server_row_header ANSI_BLUE now ''RX'' verb src dst d t @
    (if req \<noteq> [] then hex_row req
     else if take 3 verb = ''SRD'' then '' SRD REQ'' else if take 3 verb = ''SWR'' then '' SWR REQ'' else '''') @
    (case trace_plain verb d s of
       Some p \<Rightarrow> if verb = ''SWR2'' \<and> status = FBSEC_ABORT_NONE then '' Plain:'' @ hex_row p else ''''
     | None \<Rightarrow> '''') @ [newline]"
  using log_segments_plain [OF registry_entry_fits [OF assms(1)] assms(2,3)] assms(3)
  by (auto simp: rx_row_def plain_note_def plain_server_seg server_meta_def server_col_def split: option.split)

lemma tx_row_plain:
  assumes "registry_wf (registry s)" "length data < 65536" "\<not> st_use_color t"
  shows "tx_row now src dst d verb status data s t =
    server_row_header ANSI_MAGENTA now ''TX'' verb dst src d t @
    (if status \<noteq> FBSEC_ABORT_NONE then '' abort 0x'' @ hex2 status
     else if data \<noteq> [] then hex_row data else '' ACK'') @
    (case trace_plain verb d s of
       Some p \<Rightarrow> if verb = ''SRD2'' \<and> status = FBSEC_ABORT_NONE then '' Plain:'' @ hex_row p else ''''
     | None \<Rightarrow> '''') @ [newline]"
  using log_segments_plain [OF registry_entry_fits [OF assms(1)] assms(2,3)] assms(3)
  by (auto simp: tx_row_def plain_note_def plain_server_seg server_meta_def server_col_def split: option.split)

definition rx_text :: "string \<Rightarrow> bytes \<Rightarrow> string" where
  "rx_text verb req =
     (if req \<noteq> [] then hex_row req
      else if take 3 verb = ''SRD'' then '' SRD REQ'' else if take 3 verb = ''SWR'' then '' SWR REQ'' else '''')"

definition tx_text :: "abort \<Rightarrow> bytes \<Rightarrow> string" where
  "tx_text status data =
     (if status \<noteq> FBSEC_ABORT_NONE then '' abort 0x'' @ hex2 status
      else if data \<noteq> [] then hex_row data else '' ACK'')"

definition plain_text :: "bool \<Rightarrow> bytes option \<Rightarrow> string" where
  "plain_text on plain = (case plain of Some p \<Rightarrow> if on then '' Plain:'' @ hex_row p else '''' | None \<Rightarrow> '''')"

lemma traced_request_state:
  "traced_request E g F now c d req s t = ((status, data), s', t') \<Longrightarrow>
   fbsec_server_dispatch_request E g F c d req s = ((status, data), s')"
  by (auto simp: traced_request_def split: prod.splits)

lemma traced_request_rows:
  assumes "srv_wf s" "ed_ok E" "platform_ok F" "gcm_ok g" "length req < 65536" "\<not> st_quiet t" "\<not> st_use_color t"
    and "traced_request E g F now c d req s t = ((status, data), s', t')"
  shows "st_out t' = st_out t @
       server_row_header ANSI_BLUE now ''RX'' (request_verb E g F c d req s) c (sv_my_dev (host s')) d t @
       rx_text (request_verb E g F c d req s) req @
       plain_text (request_verb E g F c d req s = ''SWR2'' \<and> status = FBSEC_ABORT_NONE)
         (trace_plain (request_verb E g F c d req s) d s') @ [newline] @
       server_row_header ANSI_MAGENTA now ''TX'' (request_verb E g F c d req s) (sv_my_dev (host s')) c d t @
       tx_text status data @
       plain_text (request_verb E g F c d req s = ''SRD2'' \<and> status = FBSEC_ABORT_NONE)
         (trace_plain (request_verb E g F c d req s) d s') @ [newline]"
proof -
  note r = traced_request_state [OF assms(8)]
  have l: "length data < 65536" using request_reply_length [OF r assms(1-4)] by simp
  have w: "registry_wf (registry s')"
    using request_wf [OF r assms(1,3,4)] by (simp add: srv_wf_def sod_wf_def)
  have "t' = fbsec_server_trace_request now c (sv_my_dev (host s')) d (request_verb E g F c d req s) status req data s' t"
    using assms(8) r by (simp add: traced_request_def fbsec_sod_port_get_device_id_def)
  then show "st_out t' = st_out t @
       server_row_header ANSI_BLUE now ''RX'' (request_verb E g F c d req s) c (sv_my_dev (host s')) d t @
       rx_text (request_verb E g F c d req s) req @
       plain_text (request_verb E g F c d req s = ''SWR2'' \<and> status = FBSEC_ABORT_NONE)
         (trace_plain (request_verb E g F c d req s) d s') @ [newline] @
       server_row_header ANSI_MAGENTA now ''TX'' (request_verb E g F c d req s) (sv_my_dev (host s')) c d t @
       tx_text status data @
       plain_text (request_verb E g F c d req s = ''SRD2'' \<and> status = FBSEC_ABORT_NONE)
         (trace_plain (request_verb E g F c d req s) d s') @ [newline]"
    using rx_row_plain [OF w assms(5,7)] tx_row_plain [OF w l assms(7)] assms(6)
    by (simp add: fbsec_server_trace_request_def rx_text_def tx_text_def plain_text_def)
qed

lemma traced_request_output:
  assumes "srv_wf s" "ed_ok E" "platform_ok F" "gcm_ok g"
    and "fbsec_server_dispatch_request E g F c d req s = ((status, data), s')"
    and "\<not> st_quiet t" "\<not> st_use_color t" "length req < 65536"
  shows "st_out (snd (snd (traced_request E g F now c d req s t))) = st_out t @
       server_row_header ANSI_BLUE now ''RX'' (request_verb E g F c d req s) c (sv_my_dev (host s')) d t @
       rx_text (request_verb E g F c d req s) req @
       plain_text (request_verb E g F c d req s = ''SWR2'' \<and> status = FBSEC_ABORT_NONE)
         (trace_plain (request_verb E g F c d req s) d s') @ [newline] @
       server_row_header ANSI_MAGENTA now ''TX'' (request_verb E g F c d req s) (sv_my_dev (host s')) c d t @
       tx_text status data @
       plain_text (request_verb E g F c d req s = ''SRD2'' \<and> status = FBSEC_ABORT_NONE)
         (trace_plain (request_verb E g F c d req s) d s') @ [newline]"
proof -
  obtain t' where t: "traced_request E g F now c d req s t = ((status, data), s', t')"
    using assms(5) by (auto simp: traced_request_def)
  show ?thesis
    using traced_request_rows [OF assms(1-4,8,6,7) t] by (simp only: t prod.sel)
qed

section \<open>The value beside a read\<close>

text \<open>
  The hook serves the counter object and then advances it, and the trace prints the
  object as it is after the dispatch: the plaintext shown beside the reply of a read
  is the next value, not the one that was sent.
\<close>

lemma bump_be_changes: "length v = 4 \<Longrightarrow> bump_be v \<noteq> v"
proof
  assume l: "length v = 4" and b: "bump_be v = v"
  from l obtain a b c d where v: "v = [a, b, c, d]" by (auto simp: numeral_eq_Suc length_Suc_conv)
  then have "le32 (rd32 d c b a + 1) = [d, c, b, a]" using b by (simp add: bump_be_def rev_swap)
  also have "\<dots> = le32 (rd32 d c b a)" by simp
  finally have "rd32 d c b a + 1 = rd32 d c b a" by (simp only: le32_inject)
  then show False by simp
qed

lemma srv_value_length: "srv_wf s \<Longrightarrow> length (sv_value (host s)) = 4"
  by (simp add: srv_wf_def host_wf_def)

lemma read_trace_ahead:
  assumes "fbsec_sod_port_read_before FBSEC_SERVER_ENTRY_RD_DATA_ID len s = ((FBSEC_ABORT_NONE, v), s')"
    and "length (sv_value (host s)) = 4"
  shows "trace_plain ''SRD2'' FBSEC_SERVER_ENTRY_RD_DATA_ID s' = Some (bump_be v)" "bump_be v \<noteq> v"
  using assms bump_be_changes [of v] by (auto simp: fbsec_sod_port_read_before_def trace_plain_def)

end
