(* ===== verification/Console.thy ===== *)
theory Console
  imports Trace_Text Server_Main Client_Scan
begin

text \<open>
  What the programs report on the console beside their traces: the capability
  descriptor the \<open>caps\<close> command of the client prints, and the state lines of the
  server (\<open>fbsec_co_fd_server.c\<close>), printed at start-up and again when a request
  changes them.
\<close>

section \<open>The capability report of the client\<close>

definition aead_bitmap_name :: "u8 \<Rightarrow> string" where
  "aead_bitmap_name bitmap =
     (if bitmap AND FBSEC_DESC_AEAD_AES128_GCM \<noteq> 0 then ''AES-128-GCM''
      else if bitmap AND 0x02 \<noteq> 0 then ''AES-256-GCM''
      else if bitmap AND 0x04 \<noteq> 0 then ''ASCON-128''
      else if bitmap AND 0x08 \<noteq> 0 then ''ChaCha20-Poly1305'' else ''unknown'')"

definition profile_name :: "u8 \<Rightarrow> string" where
  "profile_name p =
     (if p = 0x00 then ''Custom'' else if p = 0x01 then ''Open'' else if p = 0x02 then ''Claimed''
      else if p = 0x03 then ''Authorized'' else if p = 0x04 then ''Identified''
      else if p = 0x05 then ''Confidential'' else ''unknown'')"

definition yes_no :: "bool \<Rightarrow> string" where
  "yes_no b = (if b then ''yes'' else ''no'')"

definition hex4 :: "u16 \<Rightarrow> string" where
  "hex4 w = concat (map hex2 (rev (le16 w)))"

definition print_caps :: "u32 \<Rightarrow> caps \<Rightarrow> string list" where
  "print_caps target c =
     [''capability descriptor of node '' @ decimal (unat target) @ '':'',
      ''  highest sub-index       : 0x'' @ hex2 (caps_highest_sub c)] @
     (if caps_highest_sub c \<ge> 0x01 then
        [''  security type word      : 0x'' @ hex8 (type_word c),
         ''    profile               : '' @ decimal (unat (FBSEC_TYPEWORD_PROFILE (type_word c))) @ '' ('' @
           profile_name (ucast (FBSEC_TYPEWORD_PROFILE (type_word c))) @ '')'',
         ''    capability level      : C'' @ decimal (unat (FBSEC_TYPEWORD_LEVEL (type_word c)))] else []) @
     (if caps_highest_sub c \<ge> 0x02 then
        [''  AEAD / tag length       : 0x'' @ hex8 (aead_and_tag c) @ '' ('' @
           aead_bitmap_name (ucast (aead_and_tag c AND 0xFF)) @ '', tag '' @
           decimal (unat (drop_bit 8 (aead_and_tag c) AND 0xFF)) @ '' bytes)''] else []) @
     (if caps_highest_sub c \<ge> 0x03 then
        [''  key derivation functions: 0x'' @ hex4 (kdf c) @ '' (HKDF-SHA-256 '' @
           yes_no (kdf c AND FBSEC_DESC_KDF_HKDF_SHA256 \<noteq> 0) @ '')''] else []) @
     (if caps_highest_sub c \<ge> 0x04 then
        [''  signature algorithms    : 0x'' @ hex4 (sig_alg c) @ '' (Ed25519 '' @
           yes_no (fbsec_caps_has_ed25519 (Some c)) @ '')''] else []) @
     (if caps_highest_sub c \<ge> 0x05 then
        [''  symmetric key levels    : 0x'' @ hex2 (sym_levels c) @ '' (Provisioning '' @
           yes_no (sym_levels c AND FBSEC_DESC_SYMLVL_PROVISIONING \<noteq> 0) @ '', Integrator '' @
           yes_no (sym_levels c AND FBSEC_DESC_SYMLVL_INTEGRATOR \<noteq> 0) @ '', Operator '' @
           yes_no (sym_levels c AND FBSEC_DESC_SYMLVL_OPERATOR \<noteq> 0) @ '')''] else []) @
     (if caps_highest_sub c \<ge> 0x06 then
        [''  asymmetric key presence : 0x'' @ hex2 (id_flags c) @ '' (IDevID '' @
           yes_no (id_flags c AND FBSEC_DESC_ID_IDEVID \<noteq> 0) @ '', LDevID '' @
           yes_no (id_flags c AND FBSEC_DESC_ID_LDEVID \<noteq> 0) @ '', X509 '' @
           yes_no (id_flags c AND 0x08 \<noteq> 0) @ '')''] else []) @
     (if caps_highest_sub c \<ge> 0x07 then
        [''  claim gates supported   : 0x'' @ hex2 (handover_model c) @ '' (TOFU '' @
           yes_no (handover_model c AND FBSEC_DESC_HANDOVER_TOFU \<noteq> 0) @ '', token '' @
           yes_no (handover_model c AND FBSEC_DESC_HANDOVER_TOKEN \<noteq> 0) @ '', voucher '' @
           yes_no (handover_model c AND FBSEC_DESC_HANDOVER_VOUCHER \<noteq> 0) @ '')''] else []) @
     (if caps_highest_sub c \<ge> 0x08 then
        [''  mechanisms implemented  : 0x'' @ hex4 (mechanisms c) @ '' (AEAD '' @
           yes_no (mechanisms c AND FBSEC_MECH_AEAD \<noteq> 0) @ '', RPK '' @
           yes_no (mechanisms c AND FBSEC_MECH_RPK \<noteq> 0) @ '', X509 '' @
           yes_no (mechanisms c AND 0x04 \<noteq> 0) @ '')''] else [])"

section \<open>The state lines of the server\<close>

definition server_key_mask :: "'e srv \<Rightarrow> u8" where
  "server_key_mask s =
     (if fbsec_sod_has_key s FBSEC_DEMO_KEYID_PROVISIONING then 0x01 else 0) OR
     (if fbsec_sod_has_key s FBSEC_DEMO_KEYID_INTEGRATOR then 0x02 else 0) OR
     (if fbsec_sod_has_key s FBSEC_DEMO_KEYID_OPERATOR then 0x04 else 0)"

definition loaded :: "bool \<Rightarrow> string" where
  "loaded b = (if b then ''loaded'' else ''absent'')"

definition print_key_store :: "'e srv \<Rightarrow> string list" where
  "print_key_store s =
     [''key store: Provisioning Key '' @ loaded (fbsec_sod_has_key s FBSEC_DEMO_KEYID_PROVISIONING) @
      '', Integrator Key '' @ loaded (fbsec_sod_has_key s FBSEC_DEMO_KEYID_INTEGRATOR) @
      '', Operator Key '' @ loaded (fbsec_sod_has_key s FBSEC_DEMO_KEYID_OPERATOR)]"

definition print_commissioning :: "'e srv \<Rightarrow> string list" where
  "print_commissioning s =
     [''commissioning (C001h:01h): '' @
      (if fbsec_server_lifecycle_commissioning s = FBSEC_STAT_COMMISSIONED then ''commissioned / owned''
       else ''uncommissioned'')]"

definition print_handover_gate :: "string list" where
  "print_handover_gate =
     (let c = fbsec_descriptor_build_caps 0 in
      [''handover gate (C000h:06h):'' @
       (if handover_model c AND FBSEC_DESC_HANDOVER_TOFU \<noteq> 0 then '' TOFU'' else '''') @
       (if handover_model c AND FBSEC_DESC_HANDOVER_TOKEN \<noteq> 0 then '' token'' else '''') @
       (if handover_model c AND FBSEC_DESC_HANDOVER_VOUCHER \<noteq> 0 then '' voucher'' else '''')])"

definition print_rpk_identity :: "'e srv \<Rightarrow> string list" where
  "print_rpk_identity s =
     [''RPK identity: IDevID '' @ (if fbsec_server_asym_idevid_present s then ''present'' else ''absent'') @
      '', owner epoch '' @ decimal (unat (fbsec_server_asym_owner_epoch s)) @ '', '' @
      (if fbsec_server_asym_is_uncommissioned s then ''not yet claimed'' else ''owned'')] @
     (if fbsec_server_lifecycle_commissioning s \<noteq> FBSEC_STAT_COMMISSIONED then
        [''  -> uncommissioned: from the client, use the L) lifecycle submenu'',
         ''     to claim ownership (voucher) and install the Provisioning key'']
      else [])"

text \<open>The state lines \<open>main\<close> prints before the receive loop.\<close>

definition print_server_state :: "'e srv \<Rightarrow> string list" where
  "print_server_state s = print_key_store s @ print_commissioning s @ print_handover_gate @ print_rpk_identity s"

definition reprint_on_change :: "lifecycle_stage \<Rightarrow> u8 \<Rightarrow> 'e srv \<Rightarrow> string list" where
  "reprint_on_change stage_before mask_before s =
     (if server_key_mask s \<noteq> mask_before then print_key_store s else []) @
     (if fbsec_server_lifecycle_get s \<noteq> stage_before then print_commissioning s @ print_handover_gate else [])"

text \<open>
  The console over a sequence of frames. In the loop the two values are sampled before
  a dispatch and compared after it; a frame that is not dispatched leaves the state,
  and so prints nothing here.
\<close>

fun console_frames ::
  "ed25519 \<Rightarrow> gcm \<Rightarrow> 'e platform \<Rightarrow> frame list \<Rightarrow> co_fd \<Rightarrow> 'e srv \<Rightarrow> string list \<times> co_fd \<times> 'e srv" where
  "console_frames E g F [] c s = ([], c, s)"
| "console_frames E g F (f # fs) c s =
     (case run_dispatch_frame E g F f c s of (out, c1, s1) \<Rightarrow>
        (case console_frames E g F fs c1 s1 of (lines, c2, s2) \<Rightarrow>
           (reprint_on_change (fbsec_server_lifecycle_get s) (server_key_mask s) s1 @ lines, c2, s2)))"

section \<open>The last line shown is the current one\<close>

definition last_line :: "string \<Rightarrow> string list \<Rightarrow> string option" where
  "last_line pre ls =
     (case rev (filter (\<lambda>l. take (length pre) l = pre) ls) of [] \<Rightarrow> None | l # _ \<Rightarrow> Some l)"

lemma last_line_append:
  "last_line pre (ls @ ms) = (case last_line pre ms of None \<Rightarrow> last_line pre ls | Some l \<Rightarrow> Some l)"
  by (auto simp: last_line_def split: list.split)

lemma last_line_Nil [simp]: "last_line pre [] = None"
  by (simp add: last_line_def)

definition console_shows :: "string list \<Rightarrow> 'e srv \<Rightarrow> bool" where
  "console_shows ls s \<longleftrightarrow>
     last_line ''key store: '' ls = Some (hd (print_key_store s)) \<and>
     last_line ''commissioning (C001h:01h): '' ls = Some (hd (print_commissioning s))"

lemma line_simps [simp]:
  "last_line ''key store: '' (print_key_store s) = Some (hd (print_key_store s))"
  "last_line ''key store: '' (print_commissioning s) = None"
  "last_line ''key store: '' print_handover_gate = None"
  "last_line ''key store: '' (print_rpk_identity s) = None"
  "last_line ''commissioning (C001h:01h): '' (print_key_store s) = None"
  "last_line ''commissioning (C001h:01h): '' (print_commissioning s) = Some (hd (print_commissioning s))"
  "last_line ''commissioning (C001h:01h): '' print_handover_gate = None"
  "last_line ''commissioning (C001h:01h): '' (print_rpk_identity s) = None"
  by (simp_all add: last_line_def print_key_store_def print_commissioning_def print_handover_gate_def
      print_rpk_identity_def Let_def)

lemma state_shown: "console_shows (print_server_state s) s"
  by (simp add: console_shows_def print_server_state_def last_line_append)

text \<open>The mask and the stage determine the lines.\<close>

lemma mask_bits:
  "server_key_mask s AND 0x01 \<noteq> 0 \<longleftrightarrow> fbsec_sod_has_key s FBSEC_DEMO_KEYID_PROVISIONING"
  "server_key_mask s AND 0x02 \<noteq> 0 \<longleftrightarrow> fbsec_sod_has_key s FBSEC_DEMO_KEYID_INTEGRATOR"
  "server_key_mask s AND 0x04 \<noteq> 0 \<longleftrightarrow> fbsec_sod_has_key s FBSEC_DEMO_KEYID_OPERATOR"
  by (simp_all add: server_key_mask_def)

lemma key_line_cong: "server_key_mask s' = server_key_mask s \<Longrightarrow> print_key_store s' = print_key_store s"
  using mask_bits [of s] mask_bits [of s'] by (simp add: print_key_store_def)

lemma commissioning_line_cong:
  "fbsec_server_lifecycle_get s' = fbsec_server_lifecycle_get s \<Longrightarrow> print_commissioning s' = print_commissioning s"
  by (simp add: print_commissioning_def fbsec_server_lifecycle_commissioning_def fbsec_server_lifecycle_get_def)

lemma reprint_shows:
  assumes "console_shows ls s"
  shows "console_shows (ls @ reprint_on_change (fbsec_server_lifecycle_get s) (server_key_mask s) s') s'"
  using assms key_line_cong [of s' s] commissioning_line_cong [of s' s]
  by (auto simp: console_shows_def reprint_on_change_def last_line_append)

lemma console_frames_show:
  "console_shows ls s \<Longrightarrow> console_frames E g F fs c s = (ms, c', s') \<Longrightarrow>
   console_shows (ls @ ms) s' \<and> (c', s') = snd (run_frames E g F fs c s)"
proof (induction fs arbitrary: ls ms c s)
  case (Cons f fs)
  obtain out c1 s1 where r: "run_dispatch_frame E g F f c s = (out, c1, s1)" by (metis surj_pair)
  obtain ms1 where m: "console_frames E g F fs c1 s1 = (ms1, c', s')"
    "ms = reprint_on_change (fbsec_server_lifecycle_get s) (server_key_mask s) s1 @ ms1"
    using Cons.prems(2) r by (auto split: prod.splits)
  have "console_shows (ls @ reprint_on_change (fbsec_server_lifecycle_get s) (server_key_mask s) s1) s1"
    by (rule reprint_shows [OF Cons.prems(1)])
  from Cons.IH [OF this m(1)] m(2) r show ?case by (auto split: prod.splits)
qed simp

end
