(* ===== verification/Spec2Isabelle.thy ===== *)
theory Spec2Isabelle
  imports Prelude Sofa_Config Aead Hkdf Descriptor Secure_Od Secure_Od_Dispatch Secure_Od_Props Secure_Proto Secure_Link Sod_Demo Asym Host_Relation Server_State Server_Handover Server_Rpk Server_Dispatch Server_Props Server_Run Server_Replies Server_Demo Co_Fd_Frame Co_Fd_Usdo Co_Fd_Server Co_Fd_Server_Props Co_Fd_Client Transport_Refinement Co_Fd_Link C_Text Co_Fd_Carrier Co_Fd_Pcan Bus_Common Co_Fd_Bus Co_Fd_Bus_Props Bus_Demo C_File Client_Keys Client_Verbs Client_Rpk Client_Commission Client_Link Client_Ladder Client_Gate Client_Files Client_Cli Client_Main Server_Files Server_Main Client_Demo Client_Scan Client_Menu Client_Menu_Props Server_Ends Trace_Text Client_Trace Server_Trace Console
begin

text \<open>
  SOFA secure object access over CANopen FD.

  \<^bold>\<open>The program.\<close> A client reads and writes objects of a server over a CAN FD
  bus. Sensitive objects are protected by AES-GCM: a client arms an object, the
  two ends exchange randoms, and the value travels sealed under a key both hold; a
  cyclic session then carries further values under counted nonces. A server is
  handed over from manufacturer to owner by signed vouchers, and a second group of
  objects is protected by Ed25519 signatures over challenges. The layers are
  \<open>shared/\<close> (protocol and cryptography), \<open>server_common/\<close> (the reference server's
  objects, keys, ownership), \<open>client_common/\<close> (the client's keys and procedures)
  and \<open>variants/canopen_fd/\<close> (frames, USDO messages, segmentation, the bus).

  \<^bold>\<open>Theories, from the bottom.\<close>
  \<^item> \<open>Prelude\<close>, \<open>Sofa_Config\<close>: words, byte strings, little-endian codecs, the result
    type, the hint collections; the constants of \<open>fbsec_config.h\<close>, \<open>fbsec_abort.h\<close>.
  \<^item> \<open>Aead\<close> (\<open>shared/fbsec_aead\<close>), \<open>Hkdf\<close> (\<open>shared/fbsec_hkdf\<close>), \<open>Asym\<close>
    (\<open>shared/fbsec_asym\<close>), \<open>Descriptor\<close> (\<open>shared/fbsec_descriptor\<close>). The vendored GCM,
    SHA-256 and Ed25519 are the records \<open>gcm\<close>, \<open>sha\<close> and \<open>ed25519\<close>; what the code relies
    on is \<open>gcm_ok\<close> (decryption accepts exactly what encryption produced), \<open>sha_ok\<close> (the
    digest context absorbs its input) and \<open>ed_ok\<close> (an honest signature verifies; sizes).
    Executable instances of each serve the witnesses.
  \<^item> \<open>Secure_Od\<close>, \<open>Secure_Od_Dispatch\<close> (\<open>shared/fbsec_secure_od.c\<close>): registry, key store,
    slots and sessions as the record \<open>sod\<close>, the host's hooks as the record \<open>port\<close>, every
    handler of \<open>fbsec_sod_dispatch\<close>. \<open>Secure_Od_Props\<close>: the invariant \<open>sod_wf\<close> over the
    reachable states, authentication of writes, consumption of slots, the nonces of the
    polls of a session, and what a slot keeps when a cyclic session starts.
  \<^item> \<open>Secure_Proto\<close> (\<open>shared/fbsec_secure_proto.c\<close>): the client operations over a record
    \<open>transport\<close>. \<open>Secure_Link\<close> composes them with the dispatcher and shows that values
    arrive; \<open>Sod_Demo\<close> is the example the witnesses evaluate.
  \<^item> \<open>Server_State\<close>, \<open>Server_Handover\<close>, \<open>Server_Rpk\<close>, \<open>Server_Dispatch\<close>
    (\<open>server_common/\<close>): the reference server, whose statics are the host part of
    \<open>sod\<close>, so that its hooks instantiate \<open>port\<close> and one state carries everything.
    \<open>Host_Relation\<close> is the interface by which a relation kept by the hooks is kept by every
    secure request. \<open>Server_Props\<close>, \<open>Server_Run\<close>: invariant, authority for keys and
    ownership, runs of requests; \<open>Server_Replies\<close>: reply sizes; \<open>Server_Demo\<close>: the
    booted example server.
  \<^item> \<open>Co_Fd_Frame\<close>, \<open>Co_Fd_Usdo\<close> (\<open>variants/canopen_fd/common/\<close>): frames and messages;
    \<open>Co_Fd_Server\<close>, \<open>Co_Fd_Server_Props\<close> (\<open>variants/canopen_fd/server/\<close>): the
    segmentation state machine around the dispatcher.
  \<^item> \<open>Co_Fd_Client\<close> (\<open>variants/canopen_fd/client/\<close>): the client's transport, round trips and
    segments. \<open>Transport_Refinement\<close> states when one transport refines another and what the
    protocol engine then preserves; \<open>Co_Fd_Link\<close> shows it of the client's transport on the
    server's frame dispatch against a link that hands over the request bodies.
  \<^item> \<open>C_Text\<close>, \<open>C_File\<close>: \<open>strtoul\<close>, \<open>strtok\<close>, \<open>fgets\<close>, number formats, for the
    parsers. \<open>Co_Fd_Carrier\<close> (frames over TCP), \<open>Co_Fd_Pcan\<close> (the adapter bridge),
    \<open>Bus_Common\<close> (\<open>bus_common/\<close>: peer table, relay, event loop) and \<open>Co_Fd_Bus\<close>
    (\<open>variants/canopen_fd/bus/\<close>): the bus simulator; \<open>Co_Fd_Bus_Props\<close>: delivery and
    the consistency of its tables; \<open>Bus_Demo\<close>: its example.
  \<^item> \<open>Client_Keys\<close>, \<open>Client_Verbs\<close>, \<open>Client_Rpk\<close>, \<open>Client_Commission\<close>
    (\<open>client_common/\<close>): key store and key files, the verbs with their cyclic loops and the
    capability gate, signed operations, commissioning. \<open>Client_Link\<close>, \<open>Client_Ladder\<close>,
    \<open>Client_Gate\<close>: what each does to the reference server (the menu is not gated, only the
    node of the command line); \<open>Client_Files\<close>: what is written
    is read back.
  \<^item> \<open>Client_Scan\<close>, \<open>Client_Menu\<close>, \<open>Client_Menu_Props\<close> (\<open>client_common_menu.c\<close>): the
    parameter scan, the prompts, the lifecycle submenu and the menu loop.
  \<^item> \<open>Client_Cli\<close>, \<open>Client_Main\<close>, \<open>Server_Files\<close>, \<open>Server_Main\<close>: the command lines, the
    files and \<open>main\<close> of the client and the server, with what an accepted command line
    says; \<open>Server_Ends\<close>: the server process from its options to its exit, the frames of a
    prompt connection served in order, its end on finite input; \<open>Client_Demo\<close>: an
    evaluated command line.
  \<^item> \<open>Trace_Text\<close>, \<open>Client_Trace\<close> (\<open>client_common_trace.c\<close>), \<open>Server_Trace\<close>
    (\<open>server_common_trace.c\<close>): the rows of both traces as text; without colours each byte
    of a frame is in its row, and between two calls that print rows there are whole lines; \<open>Console\<close>: the capability report of the client and
    the state lines of the server, which stay current.

  \<^bold>\<open>Interfaces.\<close> \<open>entry_map\<close> (registry), \<open>write_once_store\<close> (key store),
  \<open>record_codec\<close> (descriptor subs), \<open>host_relation\<close> (hooks), \<open>transport_refinement\<close> (a
  transport and its abstraction), \<open>peer_accounting\<close> (the callbacks of a bus variant); each
  is interpreted on the code's own definitions where those stand.

  \<^bold>\<open>Conventions.\<close> A static variable of a module is a field of its state; an output
  parameter is part of the result; a NULL pointer is \<open>None\<close>. Integers keep their C
  width; the width of \<open>long\<close> is a parameter of the parsers. The configuration is the
  default one of \<open>fbsec_config.h\<close> (reads, writes, cyclic sessions, encryption and
  public-key operations enabled). The operating system is a world with the records
  \<open>sockets\<close>, \<open>connects\<close>, \<open>bus_os\<close>, \<open>platform\<close>; a file is its text, the standard
  input the text still to come. Loops that the input bounds are total functions; the
  event loop of the bus and the receive loop of the server may run for ever and are
  \<open>partial_function (option)\<close>, \<open>None\<close> for a run that does not end: the bus invariant is
  proved for every round of its loop as well as for the end, and the server is proved
  to end when every receive brings a byte or the end of a finite stream (on an idle open
  connection it waits for ever, as it should). No fuel is used. The console handler of
  the bus, a thread of its own in the source, is taken to run while \<open>select\<close> waits.

  \<^bold>\<open>Not modelled.\<close> The rest of the console output (usage texts, banners, error
  messages, the menu's own rows and the object list at start-up of the server), which no
  state depends on, and the calls the client's transport makes of its trace (the trace is
  modelled for every sequence of calls); the operating system and the driver calls, which
  are parameters; the vendored cryptography, likewise.
\<close>

section \<open>The secure object dictionary and its client\<close>

text \<open>
  C1. No write reaches the host unauthenticated. If the outcome of a request depends at all on
  the host's write hook, then the object is registered for secure writes, its write slot is
  armed, the request ends in a ciphertext and tag that are exactly the seal of some
  plaintext of the entry's length under a key that is installed and whose role may write,
  and the nonce is the one the slot was armed with: the two randoms for a single-shot
  write, the session's base and its next counter for a poll.
\<close>

theorem no_write_without_authentication:
  assumes "gcm_ok g" "sod_wf s"
    and "fbsec_sod_dispatch g (P\<lparr>port_write_after := w\<rparr>) c d req rm s
           \<noteq> fbsec_sod_dispatch g P c d req rm s"
  shows "\<exists>e i kb key kid nonce dir dev peer cr sr hdr ct tag pt.
    find_index s d = Some i \<and> e = registry s ! i \<and>
    ent_access_flags e AND FBSEC_SOD_ACCESS_SECURE_WO \<noteq> 0 \<and>
    ws_in_use (write_slot s ! i) \<and> ws_client_dev (write_slot s ! i) = peer \<and>
    kb = FBSEC_AEAD_KEYID_BASE kid \<and> get_key s kb = Some key \<and>
    port_role_allowed P SOD_OP_WRITE kb d s \<and>
    req = hdr @ ct @ tag \<and> length pt = unat (ent_data_len e) \<and>
    fbsec_aead_seal g key nonce dir kid dev peer d cr sr pt = Some (ct, tag) \<and>
    (dir = FBSEC_AEAD_DIR_WRITE_REQUEST \<and> sr = Some (ws_server_random (write_slot s ! i)) \<and>
       (ent_key_id e = FBSEC_SOD_KEY_NONE \<or> kb = ent_key_id e) \<and>
       (\<exists>r. cr = Some r \<and> nonce = fbsec_aead_xor_nonce r (ws_server_random (write_slot s ! i))) \<or>
     dir = FBSEC_AEAD_DIR_WRITE_POLL_REQUEST \<and> peer = c \<and> cr = None \<and> sr = None \<and>
       nonce = build_session_nonce (ws_nonce_base (write_slot s ! i))
                 (ws_counter (write_slot s ! i) + 1))"
  by (rule authenticated_write_evidence [OF assms])

text \<open>The example server, armed for a write by node 9, and the frame node 9 then sends.\<close>

definition demo_write_armed :: "demo_host sod" where
  "demo_write_armed = snd (fbsec_sod_dispatch demo_gcm demo_port 9 0x20160000 [] 64 demo_srv)"

definition demo_write_frame :: "u8 \<Rightarrow> bytes \<Rightarrow> bytes" where
  "demo_write_frame kid v =
     (let cr = replicate 12 3; sr = replicate 12 0x5A in
      case fbsec_aead_seal demo_gcm demo_key (fbsec_aead_xor_nonce cr sr)
             FBSEC_AEAD_DIR_WRITE_REQUEST kid 5 9 0x20160000 (Some cr) (Some sr) v of
        Some (ct, tag) \<Rightarrow> kid # cr @ ct @ tag | None \<Rightarrow> [])"

lemma demo_write_armed_wf: "sod_wf demo_write_armed"
  unfolding demo_write_armed_def
  by (rule dispatch_wf [OF surjective_pairing demo_port_ok demo_gcm_ok demo_srv_wf])

theorem no_write_without_authentication_witness:
  "\<exists>key nonce dir kid dev peer cr sr pt ct tag.
     fbsec_aead_seal demo_gcm key nonce dir kid dev peer 0x20160000 cr sr pt = Some (ct, tag)
     \<and> length pt = 4"
proof -
  have "fbsec_sod_dispatch demo_gcm (demo_port\<lparr>port_write_after := \<lambda>d v s. (1, s)\<rparr>) 9 0x20160000
          (demo_write_frame 0x82 [9, 8, 7, 6]) 64 demo_write_armed
        \<noteq> fbsec_sod_dispatch demo_gcm demo_port 9 0x20160000
          (demo_write_frame 0x82 [9, 8, 7, 6]) 64 demo_write_armed"
    by code_simp
  from no_write_without_authentication [OF demo_gcm_ok demo_write_armed_wf this]
  have "\<exists>e i kb key kid nonce dir dev peer cr sr hdr ct tag pt.
      find_index demo_write_armed 0x20160000 = Some i \<and> e = registry demo_write_armed ! i \<and>
      length pt = unat (ent_data_len e) \<and>
      fbsec_aead_seal demo_gcm key nonce dir kid dev peer 0x20160000 cr sr pt = Some (ct, tag)"
    by blast
  moreover have "find_index demo_write_armed 0x20160000 = Some 0"
    "ent_data_len (registry demo_write_armed ! 0) = 4"
    by code_simp+
  ultimately show ?thesis by fastforce
qed

text \<open>
  C2. A secure read returns what the server's host produced. Over a carrier that hands each
  request to the server once, and on a server that allows the read, the client ends with
  status OK and exactly the plaintext of the server's read hook, in both AEAD modes; the
  server's slot is then released, or kept as a session when bit 6 of the key id asked for it.
\<close>

theorem secure_read_delivers:
  assumes "gcm_ok g" "host_ok P dev" "client_ok C c" "sod_wf s"
    and "read_allowed P c d kid key pt s i sr s2"
    and "\<not> key_id_invalid kid"
    and "secure_port_random C FBSEC_AEAD_RAND_SIZE (s, x) = (Some cr, w1)"
    and "READ_RESPONSE_MAX \<le> rm" "length pt \<le> buf_size"
  shows "\<exists>s' x'. fbsec_secure_read g C (sod_link g P c rm) dev d key kid buf_size t (s, x)
      = ((SECP_OK, pt, 0), (s', x'))
    \<and> rs_in_use (read_slot s' ! i) = FBSEC_AEAD_KEYID_IS_CYCLIC kid"
  using secure_read_end_to_end [OF assms] by blast

lemma demo_read_allowed:
  "read_allowed demo_port 9 0x20160000 0x82 demo_key [1, 2, 3, 4] demo_srv 0 (replicate 12 0x5A)
     (snd (port_random demo_port 12 demo_srv))"
  by (simp add: read_allowed_def Let_def demo_srv_eq demo_port_def demo_entry_def find_index_def
      FBSEC_AEAD_KEYID_BASE_def get_key_def fbsec_sod_has_key_def slot_held_by_other_def
      read_state_zero_def)

theorem secure_read_delivers_witness:
  "\<exists>w'. fbsec_secure_read demo_gcm demo_client (sod_link demo_gcm demo_port 9 64) 5 0x20160000
          demo_key 0x82 32 1000 (demo_srv, 3) = ((SECP_OK, [1, 2, 3, 4], 0), w')"
proof -
  have "\<not> key_id_invalid 0x82" by code_simp
  from secure_read_delivers [OF demo_gcm_ok demo_host_ok demo_client_ok demo_srv_wf
      demo_read_allowed this, of 3 "replicate 12 3" "(demo_srv, 4)" 64 32 1000]
  show ?thesis by (auto simp: demo_client_def)
qed

text \<open>
  C3. A secure write hands the host's write hook exactly the client's bytes. Over the same
  carrier the client's status is the hook's answer, and the server's slot is released, or
  starts a session from counter 0 when the key id asked for one and the hook accepted.
\<close>

theorem secure_write_delivers:
  assumes "gcm_ok g" "host_ok P dev" "client_ok C c" "sod_wf s"
    and "write_allowed P c d kid key buf s i sr s1"
    and "\<not> key_id_invalid kid" "buf \<noteq> []"
    and "secure_port_random C FBSEC_AEAD_RAND_SIZE
           (notify_salt C sr (write_armed_state P i c sr s1, x)) = (Some cr, w3)"
    and "FBSEC_AEAD_RAND_SIZE \<le> rm"
  shows "\<exists>frame rc s3 x'.
    port_write_after P d buf (write_hook_state i frame (write_armed_state P i c sr s1)) = (rc, s3)
    \<and> frame ! 0 = kid \<and> slice frame 1 FBSEC_AEAD_RAND_SIZE = cr
    \<and> fbsec_secure_write g C (sod_link g P c rm) dev d key kid buf t (s, x) =
        ((if rc = FBSEC_ABORT_NONE then SECP_OK else SECP_ABORT, rc),
         (if rc = FBSEC_ABORT_NONE \<and> FBSEC_AEAD_KEYID_IS_CYCLIC kid
          then start_write_session P i frame s3 else release_write i s3, x'))"
  by (rule secure_write_end_to_end [OF assms])

lemma demo_write_allowed:
  "write_allowed demo_port 9 0x20160000 0x82 demo_key [9, 8, 7, 6] demo_srv 0 (replicate 12 0x5A)
     (snd (port_random demo_port 12 demo_srv))"
  by (simp add: write_allowed_def Let_def demo_srv_eq demo_port_def demo_entry_def find_index_def
      FBSEC_AEAD_KEYID_BASE_def get_key_def fbsec_sod_has_key_def slot_held_by_other_def
      write_state_zero_def read_state_zero_def)

theorem secure_write_delivers_witness:
  "\<exists>s' x'. fbsec_secure_write demo_gcm demo_client (sod_link demo_gcm demo_port 9 64) 5 0x20160000
       demo_key 0x82 [9, 8, 7, 6] 1000 (demo_srv, 3) = ((SECP_OK, 0), (s', x'))
     \<and> dh_value (host s') = [9, 8, 7, 6]"
proof -
  have "\<not> key_id_invalid 0x82" "\<not> FBSEC_AEAD_KEYID_IS_CYCLIC 0x82" by code_simp+
  with secure_write_delivers [OF demo_gcm_ok demo_host_ok demo_client_ok demo_srv_wf
      demo_write_allowed this(1), of 3 "replicate 12 3" _ 64 1000]
  show ?thesis
    by (auto simp: demo_client_def notify_salt_def demo_port_def release_write_def)
qed

text \<open>
  C4. A cyclic read poll keeps both ends in step. When the client's session record and the
  server's slot agree (same data id, client, key id, nonce base and counter), a poll on a
  fresh session with a remaining key budget returns exactly the plaintext of the read hook,
  both counters advance by one, and the records agree again.
\<close>

theorem read_poll_delivers:
  assumes "gcm_ok g" "host_ok P dev" "client_ok C c" "sod_wf s"
    and "read_in_sync sess c d i s"
    and "ent_access_flags (registry s ! i) AND FBSEC_SOD_ACCESS_SECURE_RO \<noteq> 0"
    and "session_is_fresh P s (rs_armed_at (read_slot s ! i))"
    and "se_counter sess < FBSEC_AEAD_KEY_USE_LIMIT"
    and "get_key s (FBSEC_AEAD_KEYID_BASE (se_key_id sess)) = Some key"
    and "port_access_allowed P SOD_OP_READ d s"
      "port_role_allowed P SOD_OP_READ (FBSEC_AEAD_KEYID_BASE (se_key_id sess)) d s"
    and "port_read_before P d (unat (ent_data_len (registry s ! i))) s = ((FBSEC_ABORT_NONE, pt), s1)"
    and "length pt = unat (ent_data_len (registry s ! i))" "length pt \<le> plain_max"
    and "POLL_BUF_LEN \<le> rm"
  shows "\<exists>tag sess' s'. fbsec_secure_poll_read g C (sod_link g P c rm) dev key t sess plain_max (s, x)
      = ((SECP_OK, pt, tag, 0, sess'), (s', x))
    \<and> read_in_sync sess' c d i s' \<and> se_counter sess' = se_counter sess + 1"
  using poll_read_end_to_end [OF assms] by blast

text \<open>The example server with an armed read session of node 9, as both ends record it.\<close>

definition demo_read_session :: session where
  "demo_read_session = \<lparr>se_in_use = True, se_data_id = 0x20160000, se_key_id = 0xC2,
     se_nonce_base = replicate 12 7, se_counter = 41\<rparr>"

definition demo_read_cyclic :: "demo_host sod" where
  "demo_read_cyclic = demo_srv\<lparr>read_slot := (read_slot demo_srv)[0 := read_state_zero\<lparr>
     rs_in_use := True, rs_cyclic := True, rs_client_dev := 9, rs_armed_at := 90, rs_key_id := 0xC2,
     rs_nonce_base := replicate 12 7, rs_counter := 41\<rparr>]\<rparr>"

lemma demo_read_cyclic_wf: "sod_wf demo_read_cyclic"
  using demo_srv_wf
  by (auto simp: demo_read_cyclic_def sod_wf_def keys_wf_def read_state_wf_def read_state_zero_def
      dest!: set_update_subset_insert [THEN subsetD])

theorem read_poll_delivers_witness:
  "\<exists>tag sess' w'. fbsec_secure_poll_read demo_gcm demo_client (sod_link demo_gcm demo_port 9 64) 5
      demo_key 1000 demo_read_session 32 (demo_read_cyclic, 3) = ((SECP_OK, [1, 2, 3, 4], tag, 0, sess'), w')
    \<and> se_counter sess' = 42"
proof -
  have "read_in_sync demo_read_session 9 0x20160000 0 demo_read_cyclic"
    "ent_access_flags (registry demo_read_cyclic ! 0) AND FBSEC_SOD_ACCESS_SECURE_RO \<noteq> 0"
    "session_is_fresh demo_port demo_read_cyclic (rs_armed_at (read_slot demo_read_cyclic ! 0))"
    "se_counter demo_read_session < FBSEC_AEAD_KEY_USE_LIMIT"
    "get_key demo_read_cyclic (FBSEC_AEAD_KEYID_BASE (se_key_id demo_read_session)) = Some demo_key"
    "port_access_allowed demo_port SOD_OP_READ 0x20160000 demo_read_cyclic"
    "port_role_allowed demo_port SOD_OP_READ (FBSEC_AEAD_KEYID_BASE (se_key_id demo_read_session))
       0x20160000 demo_read_cyclic"
    "length [1, 2, 3, 4 :: u8] = unat (ent_data_len (registry demo_read_cyclic ! 0))"
    by code_simp+
  note facts = this
  have rb: "port_read_before demo_port 0x20160000 (unat (ent_data_len (registry demo_read_cyclic ! 0)))
      demo_read_cyclic = ((FBSEC_ABORT_NONE, [1, 2, 3, 4]), demo_read_cyclic)"
    by (simp add: demo_port_def demo_read_cyclic_def demo_srv_eq)
  from read_poll_delivers [OF demo_gcm_ok demo_host_ok demo_client_ok demo_read_cyclic_wf facts(1-7) rb
      facts(8), of 32 64 1000 3]
  show ?thesis by (auto simp: demo_read_session_def)
qed

text \<open>
  C5. A cyclic write poll hands the write hook exactly the client's bytes, and when the hook
  accepts them both ends advance to the same next counter.
\<close>

theorem write_poll_delivers:
  assumes "gcm_ok g" "host_ok P dev" "client_ok C c" "sod_wf s"
    and "write_in_sync sess c d i s"
    and "ent_access_flags (registry s ! i) AND FBSEC_SOD_ACCESS_SECURE_WO \<noteq> 0"
    and "session_is_fresh P s (ws_armed_at (write_slot s ! i))"
    and "se_counter sess < FBSEC_AEAD_KEY_USE_LIMIT"
    and "get_key s (FBSEC_AEAD_KEYID_BASE (se_key_id sess)) = Some key"
    and "port_role_allowed P SOD_OP_WRITE (FBSEC_AEAD_KEYID_BASE (se_key_id sess)) d s"
    and "length plain = unat (ent_data_len (registry s ! i))" "plain \<noteq> []"
    and "port_write_after P d plain s = (FBSEC_ABORT_NONE, s1)"
  shows "\<exists>tag sess'. fbsec_secure_poll_write g C (sod_link g P c rm) dev key t sess plain (s, x)
      = ((SECP_OK, tag, 0, sess'), (advance_write P i (se_counter sess + 1) s1, x))
    \<and> write_in_sync sess' c d i (advance_write P i (se_counter sess + 1) s1)
    \<and> se_counter sess' = se_counter sess + 1"
  by (rule poll_write_end_to_end [OF assms])

definition demo_write_cyclic :: "demo_host sod" where
  "demo_write_cyclic = demo_srv\<lparr>write_slot := (write_slot demo_srv)[0 := write_state_zero\<lparr>
     ws_in_use := True, ws_cyclic := True, ws_client_dev := 9, ws_armed_at := 90, ws_key_id := 0xC2,
     ws_nonce_base := replicate 12 7, ws_counter := 41\<rparr>]\<rparr>"

lemma demo_write_cyclic_wf: "sod_wf demo_write_cyclic"
  using demo_srv_wf
  by (auto simp: demo_write_cyclic_def sod_wf_def keys_wf_def write_state_wf_def write_state_zero_def
      dest!: set_update_subset_insert [THEN subsetD])

theorem write_poll_delivers_witness:
  "\<exists>tag sess' w'. fbsec_secure_poll_write demo_gcm demo_client (sod_link demo_gcm demo_port 9 64) 5
      demo_key 1000 demo_read_session [9, 8, 7, 6] (demo_write_cyclic, 3) = ((SECP_OK, tag, 0, sess'), w')
    \<and> se_counter sess' = 42"
proof -
  have facts: "write_in_sync demo_read_session 9 0x20160000 0 demo_write_cyclic"
    "ent_access_flags (registry demo_write_cyclic ! 0) AND FBSEC_SOD_ACCESS_SECURE_WO \<noteq> 0"
    "session_is_fresh demo_port demo_write_cyclic (ws_armed_at (write_slot demo_write_cyclic ! 0))"
    "se_counter demo_read_session < FBSEC_AEAD_KEY_USE_LIMIT"
    "get_key demo_write_cyclic (FBSEC_AEAD_KEYID_BASE (se_key_id demo_read_session)) = Some demo_key"
    "port_role_allowed demo_port SOD_OP_WRITE (FBSEC_AEAD_KEYID_BASE (se_key_id demo_read_session))
       0x20160000 demo_write_cyclic"
    "length [9, 8, 7, 6 :: u8] = unat (ent_data_len (registry demo_write_cyclic ! 0))"
    "[9, 8, 7, 6 :: u8] \<noteq> []"
    by code_simp+
  obtain s1 where "port_write_after demo_port 0x20160000 [9, 8, 7, 6] demo_write_cyclic
      = (FBSEC_ABORT_NONE, s1)" by (simp add: demo_port_def)
  from write_poll_delivers [OF demo_gcm_ok demo_host_ok demo_client_ok demo_write_cyclic_wf facts this,
      of 64 1000 3]
  show ?thesis by (auto simp: demo_read_session_def)
qed

section \<open>The reference server\<close>

text \<open>
  C6. A request changes a key slot in three ways only. It is a factory reset signed by the
  integrator, which clears every slot but the claim token; or a provisioning message with the
  owner's signature that fills the empty provisioning slot; or a write of the key set object
  C01Fh that the AEAD verified, that fills an empty slot. A single-shot write of that object is
  held to the ladder by its own key: the claim token installs the provisioning key, this the
  integrator key, and this the operator key. A poll is not: it is judged by the key recorded
  for the last single-shot write of any object, whatever key its session runs under, so that
  under a recorded provisioning key a cyclic session of the claim token installs the
  integrator key.
\<close>

theorem keys_change_only_by_authority:
  assumes "fbsec_server_dispatch_request E g F c d req s = (r, s')" "srv_wf s"
    and "ladder = {(FBSEC_DEMO_KEYID_CLAIM_TOKEN, FBSEC_DEMO_KEYID_PROVISIONING),
     (FBSEC_DEMO_KEYID_PROVISIONING, FBSEC_DEMO_KEYID_INTEGRATOR),
     (FBSEC_DEMO_KEYID_INTEGRATOR, FBSEC_DEMO_KEYID_OPERATOR)}"
  shows "(get_key s' k \<noteq> get_key s k \<longrightarrow>
      d = FBSEC_SEC_KEY_SET_DATA_ID \<and> get_key s k = None \<and>
      (\<exists>i v. find_index s d = Some i \<and> v ! 0 = k \<and> get_key s' k = Some (drop 5 v) \<and>
        (write_request_opens g (server_port F) i (registry s ! i) req s v \<and>
           (FBSEC_AEAD_KEYID_BASE (req ! 0), k) \<in> ladder \<or>
         (\<exists>ctr. write_poll_opens g (server_port F) i (registry s ! i) c req s v ctr) \<and>
           (last_write_kid_base s, k) \<in> ladder))
    \<or> d = FBSEC_HO_PROVISION_ID \<and> k = FBSEC_DEMO_KEYID_PROVISIONING \<and> get_key s k = None \<and>
      provision_ok E req s \<and> get_key s' k = Some (take 16 req)
    \<or> d = FBSEC_RPK_FUNCCMD_ID \<and> reset_signed E c req s \<and>
      get_key s' k = (if k = FBSEC_DEMO_KEYID_CLAIM_TOKEN
                      then Some (take 16 FBSEC_DEMO_CLAIM_TOKEN) else None)) \<and>
    (\<forall>i v ctr. find_index s FBSEC_SEC_KEY_SET_DATA_ID = Some i \<and>
        ent_access_flags (registry s ! i) AND FBSEC_SOD_ACCESS_SECURE_WO \<noteq> 0 \<and>
        write_poll_opens g (server_port F) i (registry s ! i) c' poll s v ctr \<and>
        length v = FBSEC_KEY_SET_BODY_LEN \<and> (last_write_kid_base s, v ! 0) \<in> ladder \<and> get_key s (v ! 0) = None \<longrightarrow>
      get_key (snd (fbsec_sod_dispatch g (server_port F) c' FBSEC_SEC_KEY_SET_DATA_ID poll rm s)) (v ! 0)
        = Some (drop 5 v))"
proof -
  have "keys_wf s" using assms(2) by (simp add: srv_wf_def sod_wf_def)
  note poll = poll_key_set_installs [OF this]
  show ?thesis
    unfolding assms(3) ladder_need_rungs [symmetric]
  proof (intro conjI allI impI, goal_cases)
    case 1
    then show ?case by (rule key_change_authority [OF assms(1,2)])
  next
    case (2 i v ctr)
    then show ?case by (elim conjE) (rule poll)
  qed
qed

text \<open>The claim token installs a provisioning key on a device without keys.\<close>

definition demo_key_set :: "(u32 \<times> u8) srv \<times> bytes" where
  "demo_key_set = demo_swr (take 16 FBSEC_DEMO_CLAIM_TOKEN) 4 FBSEC_SEC_KEY_SET_DATA_ID
     ([1, 9, 0, 0, 0] @ demo_key) (demo_boot False)"

lemma demo_request_wf: "demo_request c d req s = (r, s') \<Longrightarrow> srv_wf s \<Longrightarrow> srv_wf s'"
  unfolding demo_request_def by (rule request_wf [OF _ _ demo_platform_ok demo_gcm_ok])

lemma demo_swr_wf: "srv_wf s \<Longrightarrow> srv_wf (fst (demo_swr key kid d v s))"
  using demo_request_wf [of 9 d "[]" s]
  by (auto simp: demo_swr_def Let_def split: prod.split option.split)

text \<open>
  A session of the claim token on the key set object: its first frame installs the
  provisioning key, which then writes another object. The next poll of the session
  installs the integrator key.
\<close>

definition demo_claim_session :: "(u32 \<times> u8) srv" where
  "demo_claim_session =
     (case demo_swr (take 16 FBSEC_DEMO_CLAIM_TOKEN) 0x44 FBSEC_SEC_KEY_SET_DATA_ID
             ([1, 9, 0, 0, 0] @ demo_key) (demo_boot False) of
        (s, req) \<Rightarrow>
          (case demo_swr demo_key 1 FBSEC_SERVER_ENTRY_SWR_DATA_ID (replicate 16 8)
                  (snd (demo_request 9 FBSEC_SEC_KEY_SET_DATA_ID req s)) of
             (t, w) \<Rightarrow> snd (demo_request 9 FBSEC_SERVER_ENTRY_SWR_DATA_ID w t)))"

definition demo_claim_poll :: bytes where
  "demo_claim_poll =
     (case fbsec_aead_seal demo_gcm (take 16 FBSEC_DEMO_CLAIM_TOKEN)
             (build_session_nonce (fbsec_aead_xor_nonce (replicate 12 3) (replicate 12 1)) 1)
             FBSEC_AEAD_DIR_WRITE_POLL_REQUEST 0x44 5 9 FBSEC_SEC_KEY_SET_DATA_ID None None
             ([2, 9, 0, 0, 0] @ demo_key) of
        Some (ct, tag) \<Rightarrow> 1 # ct @ tag | None \<Rightarrow> [])"

definition demo_claim_armed :: "(u32 \<times> u8) srv \<Rightarrow> bytes \<Rightarrow> bool" where
  "demo_claim_armed s poll \<longleftrightarrow>
     (let P = server_port demo_platform; w = write_slot s ! 4; e = registry s ! 4; key = take 16 FBSEC_DEMO_CLAIM_TOKEN in
      find_index s FBSEC_SEC_KEY_SET_DATA_ID = Some 4 \<and> ent_access_flags e AND FBSEC_SOD_ACCESS_SECURE_WO \<noteq> 0 \<and>
      last_write_kid_base s = FBSEC_DEMO_KEYID_PROVISIONING \<and> get_key s FBSEC_DEMO_KEYID_INTEGRATOR = None \<and>
      FBSEC_AEAD_KEYID_BASE (ws_key_id w) = FBSEC_DEMO_KEYID_CLAIM_TOKEN \<and>
      ws_in_use w \<and> ws_cyclic w \<and> ws_client_dev w = 9 \<and> ws_key_id w = 0x44 \<and>
      session_is_fresh P s (ws_armed_at w) \<and> poll_check_counter (ws_counter w) (poll ! 0) = Inr 1 \<and>
      ent_data_id e = FBSEC_SEC_KEY_SET_DATA_ID \<and> unat (ent_data_len e) = 21 \<and> length poll = 1 + 21 + FBSEC_AEAD_TAG_SIZE \<and>
      port_role_allowed P SOD_OP_WRITE 4 FBSEC_SEC_KEY_SET_DATA_ID s \<and> port_get_device_id P s = 5 \<and>
      get_key s 4 = Some key \<and>
      fbsec_aead_open demo_gcm key (build_session_nonce (ws_nonce_base w) 1) FBSEC_AEAD_DIR_WRITE_POLL_REQUEST
        0x44 5 9 FBSEC_SEC_KEY_SET_DATA_ID None None (slice poll 1 21) (slice poll (1 + 21) FBSEC_AEAD_TAG_SIZE)
        = Some ([2, 9, 0, 0, 0] @ demo_key))"

lemma demo_claim_session_armed: "demo_claim_armed demo_claim_session demo_claim_poll"
  by code_simp

lemma demo_claim_session_wf: "srv_wf demo_claim_session"
  using demo_swr_wf demo_request_wf [OF surjective_pairing] demo_boot_wf
  by (simp add: demo_claim_session_def case_prod_unfold)

theorem keys_change_only_by_authority_witness:
  "(\<exists>i v. write_request_opens demo_gcm (server_port demo_platform) i (registry (fst demo_key_set) ! i)
      (snd demo_key_set) (fst demo_key_set) v \<and> v ! 0 = 1 \<and> FBSEC_AEAD_KEYID_BASE (snd demo_key_set ! 0) = 4) \<and>
   FBSEC_AEAD_KEYID_BASE (ws_key_id (write_slot demo_claim_session ! 4)) = FBSEC_DEMO_KEYID_CLAIM_TOKEN \<and>
   get_key (snd (fbsec_sod_dispatch demo_gcm (server_port demo_platform) 9 FBSEC_SEC_KEY_SET_DATA_ID
      demo_claim_poll 64 demo_claim_session)) FBSEC_DEMO_KEYID_INTEGRATOR = Some demo_key"
proof -
  have wf: "srv_wf (fst demo_key_set)"
    unfolding demo_key_set_def by (rule demo_swr_wf [OF demo_boot_wf])
  have k: "get_key (snd (fbsec_server_dispatch_request demo_ed demo_gcm demo_platform 9
      FBSEC_SEC_KEY_SET_DATA_ID (snd demo_key_set) (fst demo_key_set))) 1 \<noteq> get_key (fst demo_key_set) 1"
    "\<not> ws_in_use (write_slot (fst demo_key_set) ! 4) \<or> \<not> ws_cyclic (write_slot (fst demo_key_set) ! 4)"
    "FBSEC_AEAD_KEYID_BASE (snd demo_key_set ! 0) = 4"
    "find_index (fst demo_key_set) FBSEC_SEC_KEY_SET_DATA_ID = Some 4"
    by code_simp+
  have one: "\<exists>i v. write_request_opens demo_gcm (server_port demo_platform) i (registry (fst demo_key_set) ! i)
      (snd demo_key_set) (fst demo_key_set) v \<and> v ! 0 = 1"
    using keys_change_only_by_authority [OF surjective_pairing wf refl, THEN conjunct1, rule_format, OF k(1)] k(2,4)
    by (auto simp: write_poll_opens_def Let_def)
  note p = demo_claim_session_armed [unfolded demo_claim_armed_def Let_def]
  have b: "FBSEC_AEAD_KEYID_BASE 0x44 = 4" "length ([2, 9, 0, 0, 0] @ demo_key) = FBSEC_KEY_SET_BODY_LEN" by code_simp+
  have opens: "write_poll_opens demo_gcm (server_port demo_platform) 4 (registry demo_claim_session ! 4) 9
      demo_claim_poll demo_claim_session ([2, 9, 0, 0, 0] @ demo_key) 1"
    unfolding write_poll_opens_def Let_def using p b(1) by simp
  have "get_key (snd (fbsec_sod_dispatch demo_gcm (server_port demo_platform) 9 FBSEC_SEC_KEY_SET_DATA_ID
      demo_claim_poll 64 demo_claim_session)) FBSEC_DEMO_KEYID_INTEGRATOR = Some demo_key"
    using keys_change_only_by_authority [OF surjective_pairing demo_claim_session_wf refl, THEN conjunct2,
        rule_format, of 4 demo_gcm demo_platform 9 demo_claim_poll "[2, 9, 0, 0, 0] @ demo_key" 1 64] p b(2) opens
    by simp
  then show ?thesis using one k(3) p by blast
qed

text \<open>
  C7. The owner, the owner epoch and the claim state change only by a voucher that the
  manufacturer signed for this device's serial number with an epoch above the current one
  while the device is unclaimed, or by a factory reset signed by the integrator, which keeps
  the epoch.
\<close>

theorem ownership_changes_only_by_authority:
  assumes "fbsec_server_dispatch_request E g F c d req s = (r, s')" "owner_data s' \<noteq> owner_data s"
  shows "d = FBSEC_HO_VOUCHER_ID \<and> voucher_ok E req s \<and>
      owner_data s' = (slice req 8 32, True, voucher_epoch req, False)
    \<or> d = FBSEC_RPK_FUNCCMD_ID \<and> reset_signed E c req s \<and>
      owner_data s' = (replicate 32 0, False, as_owner_epoch (astore s), True)"
  by (rule owner_change_authority [OF assms])

theorem ownership_changes_only_by_authority_witness:
  "voucher_ok demo_ed (demo_voucher 2) (demo_boot False)"
proof -
  have "owner_data (snd (fbsec_server_dispatch_request demo_ed demo_gcm demo_platform 9
      FBSEC_HO_VOUCHER_ID (demo_voucher 2) (demo_boot False))) \<noteq> owner_data (demo_boot False)"
    by code_simp
  from ownership_changes_only_by_authority [OF surjective_pairing this] show ?thesis by auto
qed

text \<open>
  C8. A voucher is accepted at most once: after it was accepted, whatever requests follow, a
  factory reset included, presenting it again is refused with the voucher error, because no
  request lowers the owner epoch.
\<close>

theorem voucher_is_single_use:
  assumes "fbsec_server_dispatch_request E g F c FBSEC_HO_VOUCHER_ID v s = ((FBSEC_ABORT_NONE, []), s1)"
    and "voucher_ok E v s"
  shows "fst (fbsec_server_dispatch_request E g F c' FBSEC_HO_VOUCHER_ID v (srv_run E g F xs s1))
    = (FBSEC_ABORT_VOUCHER, [])"
  by (rule voucher_single_use [OF assms])

lemma demo_voucher_ok: "voucher_ok demo_ed (demo_voucher 2) (demo_boot False)"
  by code_simp

theorem voucher_is_single_use_witness:
  "fst (fbsec_server_dispatch_request demo_ed demo_gcm demo_platform 7 FBSEC_HO_VOUCHER_ID (demo_voucher 2)
     (srv_run demo_ed demo_gcm demo_platform [Request 9 FBSEC_HO_PROVISION_ID (demo_provision demo_key)]
        demo_claimed)) = (FBSEC_ABORT_VOUCHER, [])"
proof -
  have "fst (demo_request 9 FBSEC_HO_VOUCHER_ID (demo_voucher 2) (demo_boot False)) = (FBSEC_ABORT_NONE, [])"
    by code_simp
  then have "fbsec_server_dispatch_request demo_ed demo_gcm demo_platform 9 FBSEC_HO_VOUCHER_ID
      (demo_voucher 2) (demo_boot False) = ((FBSEC_ABORT_NONE, []), demo_claimed)"
    by (simp add: demo_request_def demo_claimed_def prod_eq_iff)
  from voucher_is_single_use [OF this demo_voucher_ok] show ?thesis .
qed

text \<open>
  C9. Every reachable state of the server is well formed: buffers and keys have their sizes,
  the session slots stay within the key budget, the constant table within its bounds, the
  device is owned exactly when it is not unclaimed, and the registry holds exactly the
  entries installed at start-up. From there no sequence of requests and platform changes
  alters the device's identity (its key pair, certificate, serial number, trust anchor and
  peer keys), its configuration (registry, device id, constant entries and identity value),
  or lowers the owner epoch.
\<close>

theorem server_state_invariant:
  assumes "srv_reachable E g F s" "ed_ok E" "platform_ok F" "gcm_ok g"
  shows "srv_wf s \<and> (\<exists>i. registry s = server_entries i) \<and> same_identity s (srv_run E g F xs s)"
  using reachable_wf [OF assms] run_identity by blast

theorem server_state_invariant_witness:
  "srv_wf (demo_boot True) \<and>
   same_identity (demo_boot True)
     (srv_run demo_ed demo_gcm demo_platform [Request 9 FBSEC_HO_IDENTITY_ID []] (demo_boot True))"
  using server_state_invariant [OF demo_boot_reachable demo_ed_ok demo_platform_ok demo_gcm_ok] by blast

text \<open>
  C10. The 16-byte secure value of object 2016h changes only by a write that the AEAD verified, to
  exactly the bytes that were verified, or by a signed generic write of the integrator to that
  object, to exactly the signed value.
\<close>

theorem secure_value_authority:
  assumes "fbsec_server_dispatch_request E g F c d req s = (r, s')"
    and "sv_secure_wo (host s') \<noteq> sv_secure_wo (host s)"
  shows "d = FBSEC_SERVER_ENTRY_SWR_DATA_ID \<and>
      (\<exists>a. write_reaches g (server_port F) c d req s (sv_secure_wo (host s')) a)
    \<or> d = FBSEC_RPK_GENERIC_WRITE_ID \<and> gw_signed E c req s \<and>
      target_of req = FBSEC_SERVER_ENTRY_SWR_DATA_ID \<and> gw_value req = sv_secure_wo (host s')"
  by (rule secure_wo_authority [OF assms])

definition demo_swr_2016 :: "(u32 \<times> u8) srv \<times> bytes" where
  "demo_swr_2016 = demo_swr (take 16 FBSEC_DEMO_KEY_PROVISIONING) 1 FBSEC_SERVER_ENTRY_SWR_DATA_ID
     (replicate 16 7) (demo_boot True)"

theorem secure_value_authority_witness:
  "\<exists>v a. write_reaches demo_gcm (server_port demo_platform) 9 FBSEC_SERVER_ENTRY_SWR_DATA_ID
     (snd demo_swr_2016) (fst demo_swr_2016) v a"
proof -
  have "sv_secure_wo (host (snd (fbsec_server_dispatch_request demo_ed demo_gcm demo_platform 9
      FBSEC_SERVER_ENTRY_SWR_DATA_ID (snd demo_swr_2016) (fst demo_swr_2016))))
      \<noteq> sv_secure_wo (host (fst demo_swr_2016))"
    by code_simp
  from secure_value_authority [OF surjective_pairing this] show ?thesis by auto
qed

text \<open>
  C11. Object 2017h, reachable by the signed generic write only, changes only by a write that
  answers the outstanding challenge of this client with a signature of the installed
  integrator key over the target, both nonces and the value.
\<close>

theorem signed_value_authority:
  assumes "fbsec_server_dispatch_request E g F c d req s = (r, s')"
    and "sv_rpk_wo (host s') \<noteq> sv_rpk_wo (host s)" and "registry s = server_entries i"
  shows "d = FBSEC_RPK_GENERIC_WRITE_ID \<and> gw_signed E c req s \<and>
    target_of req = FBSEC_SERVER_ENTRY_RPK_WR_DATA_ID \<and> gw_value req = sv_rpk_wo (host s')"
  by (rule rpk_wo_authority [OF assms])

text \<open>Node 9 answers its challenge with a write of sixteen sevens to object 2017h.\<close>

definition demo_gw_armed :: "(u32 \<times> u8) srv" where
  "demo_gw_armed = snd (demo_request 9 FBSEC_RPK_GENERIC_WRITE_ID [0x17, 0x20, 0] (demo_boot True))"

definition demo_gw_frame :: bytes where
  "demo_gw_frame =
     [0x17, 0x20, 0] @ replicate 16 3 @ replicate 16 7 @
     fbsec_asym_sign demo_ed (fbsec_asym_keygen demo_ed FBSEC_DEMO_INTEGRATOR_SEED)
       (transcript_of FBSEC_ASYM_RD_GENERIC_WRITE
         (build_signed_body 5 9 FBSEC_SERVER_ENTRY_RPK_WR_DATA_ID (replicate 16 3)
            (ch_server_nonce (chall demo_gw_armed)) (replicate 16 7)))"

theorem signed_value_authority_witness: "gw_signed demo_ed 9 demo_gw_frame demo_gw_armed"
proof -
  have "sv_rpk_wo (host (snd (fbsec_server_dispatch_request demo_ed demo_gcm demo_platform 9
      FBSEC_RPK_GENERIC_WRITE_ID demo_gw_frame demo_gw_armed))) \<noteq> sv_rpk_wo (host demo_gw_armed)"
    "registry demo_gw_armed = server_entries True"
    by code_simp+
  from signed_value_authority [OF surjective_pairing this] show ?thesis by blast
qed

section \<open>The CANopen FD transport\<close>

text \<open>
  C12. A segmented download reaches the server as one request. When a client sends the initiate
  message, the segments and the end message of a body of 1 to 256 bytes, the server
  acknowledges the initiation and every segment in order, dispatches exactly that body
  exactly once, and answers with that dispatch's reply; the reassembly slot is free again.
\<close>

theorem segmented_download_delivers:
  assumes "list_all2 (usdo_carries a b ses)
      (Download_Init_Req i j (of_nat (length body)) # seg_reqs 0 body) fs"
    and "node_ok a" "node_ok b" "g_node_id c = b" "ses \<noteq> 0" "0x1000 \<le> i"
    and "length body \<le> 256" "length (dl_buf (g_segdl c)) = 256"
    and "fbsec_server_dispatch_request E g F (ucast a) (fbsec_co_fd_data_id_from_index_sub i j) body s
      = ((st, data), s')"
    and "length data < 65536"
  shows "\<exists>acks final c'. run_frames E g F fs c s = (acks @ final, c', s') \<and>
    list_all2 (usdo_carries b a ses) (Download_Init_Resp i j # seg_acks 0 body) acks \<and>
    list_all2 (usdo_carries b a ses)
      (opt_list (reply_msg (seg_ctx a FBSEC_CO_FD_USDO_CMD_DOWNLOAD_END_REQ ses i j) st data)) final \<and>
    \<not> dl_active (g_segdl c')"
proof -
  let ?x = "seg_ctx a FBSEC_CO_FD_USDO_CMD_DOWNLOAD_END_REQ ses i j"
  obtain acks c1 where r: "list_all2 (usdo_carries b a ses) (Download_Init_Resp i j # seg_acks 0 body) acks"
    "g_node_id c1 = b"
    "run_frames E g F fs c s =
      (case dispatch_and_reply E g F ?x body c1 s
       of (out, c2, s1) \<Rightarrow> (acks @ out, c2\<lparr>g_segdl := (g_segdl c2)\<lparr>dl_active := False\<rparr>\<rparr>, s1))"
    using seg_download_run [OF assms(1-8)] by blast
  have "list_all2 (usdo_carries b a ses) (opt_list (reply_msg ?x st data)) (fst (send_reply_cb ?x st data c1))"
    using send_reply_carries [OF assms(10), of ?x c1 st] assms r(2) by (simp add: seg_ctx_def)
  moreover obtain final c2 where "send_reply_cb ?x st data c1 = (final, c2)" by fastforce
  moreover from this have "run_frames E g F fs c s =
      (acks @ final, c2\<lparr>g_segdl := (g_segdl c2)\<lparr>dl_active := False\<rparr>\<rparr>, s')"
    using r(3) assms(9) by (simp add: dispatch_and_reply_def seg_ctx_def)
  ultimately show ?thesis using r(1) by fastforce
qed

text \<open>Node 9 presents a voucher of 108 bytes to node 5.\<close>

definition demo_co_fd :: co_fd where
  "demo_co_fd = \<lparr>g_node_id = 5,
     g_segdl = \<lparr>dl_active = False, dl_src = 0, dl_session = 0, dl_sub = 0, dl_index = 0,
       dl_counter = 0, dl_total = 0, dl_have = 0, dl_buf = replicate 256 0\<rparr>,
     g_segul = \<lparr>ul_active = False, ul_dst = 0, ul_session = 0, ul_total = 0, ul_sent = 0,
       ul_counter = 0, ul_buf = replicate 256 0\<rparr>\<rparr>"

lemma encoded_messages:
  assumes "node_ok a" "node_ok b" "ses \<noteq> 0" "list_all usdo_msg_ok ms"
  shows "\<exists>fs. list_all2 (usdo_carries a b ses) ms fs"
  using assms(4)
proof (induction ms)
  case (Cons m ms)
  then obtain f fs where "usdo_carries a b ses m f" "list_all2 (usdo_carries a b ses) ms fs"
    using usdo_roundtrip_all [OF assms(1-3), of m] by auto
  then show ?case by blast
qed (metis list_all2_Nil)

theorem segmented_download_delivers_witness:
  "\<exists>fs out c' s'. list_all2 (usdo_carries 9 5 1)
     (Download_Init_Req 0xC020 2 108 # seg_reqs 0 (demo_voucher 2)) fs \<and>
   run_frames demo_ed demo_gcm demo_platform fs demo_co_fd (demo_boot False) = (out, c', s') \<and>
   s' = demo_claimed"
proof -
  have len: "length (demo_voucher 2) = 108" by code_simp
  have n: "node_ok 9" "node_ok 5" by code_simp+
  have ok: "list_all usdo_msg_ok (Download_Init_Req 0xC020 2 108 # seg_reqs 0 (demo_voucher 2))"
    by (simp add: seg_reqs.simps [of 0] seg_reqs.simps [of 1] len word_le_nat_alt)
  obtain fs where fs: "list_all2 (usdo_carries 9 5 1)
     (Download_Init_Req 0xC020 2 108 # seg_reqs 0 (demo_voucher 2)) fs"
    using encoded_messages [OF n _ ok, of 1] by auto
  have d: "fbsec_co_fd_data_id_from_index_sub 0xC020 2 = FBSEC_HO_VOUCHER_ID" by code_simp
  have "fst (demo_request 9 FBSEC_HO_VOUCHER_ID (demo_voucher 2) (demo_boot False)) = (FBSEC_ABORT_NONE, [])"
    by code_simp
  then have "fbsec_server_dispatch_request demo_ed demo_gcm demo_platform (ucast (9 :: u8))
      (fbsec_co_fd_data_id_from_index_sub 0xC020 2) (demo_voucher 2) (demo_boot False)
      = ((FBSEC_ABORT_NONE, []), demo_claimed)"
    by (simp add: demo_request_def demo_claimed_def prod_eq_iff d)
  from segmented_download_delivers [OF _ n _ _ _ _ _ this, of 1 fs demo_co_fd] fs
  show ?thesis by (auto simp: len demo_co_fd_def)
qed

text \<open>
  C13. A reply of 57 to 256 bytes is served back in segments. After it was parked, the client's
  upload-segment requests with counters 0, 1, ... are answered with the segments and the end
  message that carry the reply, whose data put together is exactly the reply; the server's
  state is untouched and the upload slot is free again.
\<close>

theorem segmented_upload_delivers:
  assumes "56 < length data" "length data \<le> 256" "length (ul_buf (g_segul c)) = 256"
    and "node_ok a" "node_ok b" "g_node_id c = b" "ses \<noteq> 0"
    and "list_all2 (usdo_carries a b ses) (upload_reqs 0 data) fs"
    and "rc_src_node_id x = a" "rc_session x = ses"
  shows "\<exists>out c1. run_frames E g F fs (snd (send_reply_cb x FBSEC_ABORT_NONE data c)) s = (out, c1, s) \<and>
    list_all2 (usdo_carries b a ses) (upload_resps 0 data) out \<and>
    concat (map resp_data (upload_resps 0 data)) = data \<and> \<not> ul_active (g_segul c1)"
proof -
  have "parked (snd (send_reply_cb x FBSEC_ABORT_NONE data c)) a ses data 0 0"
    using reply_parked [OF assms(1-3), of x] assms(9,10) by simp
  moreover have "g_node_id (snd (send_reply_cb x FBSEC_ABORT_NONE data c)) = b"
    using assms(6) by (simp add: send_reply_cb_def Let_def)
  ultimately obtain out c1 where "list_all2 (usdo_carries b a ses) (upload_resps 0 data) out"
    "run_frames E g F fs (snd (send_reply_cb x FBSEC_ABORT_NONE data c)) s = (out, c1, s)"
    "\<not> ul_active (g_segul c1)"
    using run_upload [of a b ses 0 0 data fs "snd (send_reply_cb x FBSEC_ABORT_NONE data c)" E g F s]
      assms(4,5,7,8) by auto
  then show ?thesis using upload_resps_data by blast
qed

theorem segmented_upload_delivers_witness:
  "\<exists>fs out c1. run_frames demo_ed demo_gcm demo_platform fs
      (snd (send_reply_cb (seg_ctx 9 FBSEC_CO_FD_USDO_CMD_UPLOAD_REQ 1 0xC028 0) FBSEC_ABORT_NONE
         (replicate 168 7) demo_co_fd)) (demo_boot False) = (out, c1, demo_boot False)
    \<and> length out = 3"
proof -
  let ?d = "replicate 168 7 :: bytes"
  have n: "node_ok 9" "node_ok 5" by code_simp+
  obtain fs where "list_all2 (usdo_carries 9 5 1) (upload_reqs 0 ?d) fs"
    using encoded_messages [OF n, of 1 "upload_reqs 0 ?d"]
    by (auto simp: upload_reqs.simps)
  from segmented_upload_delivers [OF _ _ _ n _ _ this, of demo_co_fd
      "seg_ctx 9 FBSEC_CO_FD_USDO_CMD_UPLOAD_REQ 1 0xC028 0" demo_ed demo_gcm demo_platform "demo_boot False"]
  show ?thesis
    by (fastforce simp: demo_co_fd_def seg_ctx_def upload_resps.simps dest: list_all2_lengthD)
qed

text \<open>
  C14. Whatever frames arrive in whatever order, the reassembly and upload buffers keep their 256
  bytes, the fill marks stay within the announced sizes, and the server behind stays well
  formed. No reply of the server is longer than the 168 bytes of a signed identity read, so
  every reply fits the buffer from which the segments are served.
\<close>

theorem transport_buffers_bounded:
  assumes "co_fd_wf c" "srv_wf s" "ed_ok E" "platform_ok F" "gcm_ok g"
  shows "(run_frames E g F fs c s = (out, c', s') \<longrightarrow> co_fd_wf c' \<and> srv_wf s') \<and>
    (fbsec_server_dispatch_request E g F d d_id req s = ((st, data), s1) \<longrightarrow>
      length data \<le> FBSEC_HO_IDENTITY_REPLY_LEN)"
  using run_frames_wf [OF _ assms] request_reply_length [OF _ assms(2-5)] by blast

theorem transport_buffers_bounded_witness:
  "co_fd_wf (fst (snd (run_frames demo_ed demo_gcm demo_platform
     [\<lparr>fr_can_id = 0x609, fr_flags = 1, fr_len = 12, fr_payload = [5, 2, 1, 2, 0x20, 0xC0, 0, 0, 200, 0, 0, 0]
        @ replicate 52 0\<rparr>,
      \<lparr>fr_can_id = 0x609, fr_flags = 1, fr_len = 64, fr_payload = [5, 3, 1, 0] @ replicate 60 9\<rparr>]
     demo_co_fd (demo_boot False)))) \<and>
   length (snd (fst (demo_request 9 FBSEC_HO_IDENTITY_ID (replicate 16 1) (demo_boot False)))) \<le> 168"
proof -
  have c: "co_fd_wf demo_co_fd" by (simp add: co_fd_wf_def demo_co_fd_def)
  note bounded = transport_buffers_bounded [OF c demo_boot_wf demo_ed_ok demo_platform_ok demo_gcm_ok]
  obtain st data s' where r: "demo_request 9 FBSEC_HO_IDENTITY_ID (replicate 16 1) (demo_boot False) = ((st, data), s')"
    by (metis surj_pair)
  have "length data \<le> 168"
    using bounded [THEN conjunct2, rule_format] r by (fastforce simp: demo_request_def)
  moreover have "co_fd_wf (fst (snd (run_frames demo_ed demo_gcm demo_platform fs demo_co_fd (demo_boot False))))" for fs
    using bounded [THEN conjunct1, rule_format, where fs = fs] by (metis prod.collapse)
  ultimately show ?thesis by (simp only: r fst_conv snd_conv simp_thms)
qed

text \<open>
  C15. A frame on the request identifier whose command is a response or an abort is not refused
  before it acts: the server dispatches its data like a download request, keeps the resulting
  state, and only then answers with the bad-command abort.
\<close>

theorem stray_command_is_applied:
  assumes "fbsec_co_fd_usdo_decode f = Inr p"
    "fbsec_co_fd_usdo_can_id_split (fbsec_co_fd_frame_id_value f) = (a, USDO_KIND_REQUEST, u)"
    "pdu_dst_node_id p = g_node_id c" "\<not> cmd_is_request (pdu_cmd p)"
    "fbsec_server_dispatch_request E g F (ucast (pdu_src_node_id p))
       (fbsec_co_fd_data_id_from_index_sub (pdu_index p) (pdu_subindex p))
       (case pdu_data p of None \<Rightarrow> [] | Some d \<Rightarrow> take (unat (pdu_data_len p)) d) s
     = ((FBSEC_ABORT_NONE, data), s')" "length data \<le> FBSEC_CO_FD_USDO_DATA_MAX"
  shows "run_dispatch_frame E g F f c s =
    (opt_list (usdo_encode (g_node_id c) (pdu_src_node_id p) (pdu_session p)
       (Abort_Msg (pdu_index p) (pdu_subindex p) FBSEC_ABORT_BAD_CMD)), c, s')"
  by (rule stray_command [OF assms])

text \<open>A secure write's second pass as the data of an upload response on the request identifier.\<close>

definition demo_stray_frame :: frame where
  "demo_stray_frame = \<lparr>fr_can_id = 0x609, fr_flags = 1, fr_len = 53,
     fr_payload = [5, 0x31, 1, 0, 0x16, 0x20, 0x0F, 45] @ snd demo_swr_2016 @ replicate 11 0\<rparr>"

theorem stray_command_is_applied_witness:
  "\<exists>out s'. run_dispatch_frame demo_ed demo_gcm demo_platform demo_stray_frame demo_co_fd (fst demo_swr_2016)
     = (out, demo_co_fd, s') \<and> sv_secure_wo (host s') = replicate 16 7"
proof -
  let ?req = "\<lambda>p. fbsec_server_dispatch_request demo_ed demo_gcm demo_platform (ucast (pdu_src_node_id p))
       (fbsec_co_fd_data_id_from_index_sub (pdu_index p) (pdu_subindex p))
       (case pdu_data p of None \<Rightarrow> [] | Some d \<Rightarrow> take (unat (pdu_data_len p)) d) (fst demo_swr_2016)"
  have "case fbsec_co_fd_usdo_decode demo_stray_frame of Inl e \<Rightarrow> False
    | Inr p \<Rightarrow> pdu_dst_node_id p = g_node_id demo_co_fd \<and> \<not> cmd_is_request (pdu_cmd p) \<and>
        (case ?req p of (r, s') \<Rightarrow> r = (FBSEC_ABORT_NONE, []) \<and> sv_secure_wo (host s') = replicate 16 7)"
    by code_simp
  then obtain p s' where p: "fbsec_co_fd_usdo_decode demo_stray_frame = Inr p"
    "pdu_dst_node_id p = g_node_id demo_co_fd" "\<not> cmd_is_request (pdu_cmd p)"
    "?req p = ((FBSEC_ABORT_NONE, []), s')" "sv_secure_wo (host s') = replicate 16 7"
    by (auto split: sum.splits prod.splits)
  have k: "fbsec_co_fd_usdo_can_id_split (fbsec_co_fd_frame_id_value demo_stray_frame)
      = (9, USDO_KIND_REQUEST, True)"
    by (simp add: demo_stray_frame_def fbsec_co_fd_frame_id_value_def fbsec_co_fd_usdo_can_id_split_def)
  from stray_command_is_applied [OF p(1) k p(2-4)] p(5) show ?thesis by simp
qed

section \<open>The client on the bus\<close>

text \<open>
  C16. The secure operations work over the bus as if the client called the server directly. A
  secure read and a secure write through the client's CANopen FD transport, its frames and
  segments and the server's frame dispatch return the same status, value and abort code as
  over a link that hands each request body to the reference server, leave the server in the
  same state, and leave both ends ready for the next operation.
\<close>

theorem engine_over_bus:
  assumes "same_server E g F X a dev d v w" "length key = FBSEC_AEAD_KEY_SIZE"
  shows "agree (same_server E g F X a dev d)
      (fbsec_secure_read g (co_port X) (co_link E g F) dev d key kid n t v)
      (fbsec_secure_read g (srv_client_port a X) (srv_link E g F a) dev d key kid n t w) \<and>
    agree (same_server E g F X a dev d)
      (fbsec_secure_write g (co_port X) (co_link E g F) dev d key kid buf t v)
      (fbsec_secure_write g (srv_client_port a X) (srv_link E g F a) dev d key kid buf t w)"
  using co_fd_refines.secure_read [OF assms(1)] co_fd_refines.secure_write [OF assms(1) _ assms(2)] assms(1)
  by (auto simp: same_server_def env_ok_def)

text \<open>Client node 9 on the bus with the booted server, and a random source that counts.\<close>

definition demo_client_node :: "bool \<Rightarrow> (u32 \<times> u8) wire client" where
  "demo_client_node keys = \<lparr>cl_node_id = 9, cl_session = 0,
     cl_carrier = \<lparr>wi_co_fd = demo_co_fd, wi_server = demo_boot keys, wi_queue = []\<rparr>\<rparr>"

definition demo_env :: "u8 client_port" where
  "demo_env = \<lparr>secure_port_random = (\<lambda>n x. (Some (replicate n x), x + 1)),
     secure_port_get_client_id = (\<lambda>x. 9), salt_cb = None\<rparr>"

lemma demo_linked: "linked 9 5 (demo_client_node keys)"
  by (simp add: linked_def demo_client_node_def demo_boot_wf co_fd_wf_def node_ok_def demo_co_fd_def)

lemma demo_env_ok: "env_ok demo_ed demo_gcm demo_platform"
  by (simp add: env_ok_def demo_ed_ok demo_gcm_ok demo_platform_ok)

lemma demo_same_server:
  assumes "fbsec_co_fd_data_id_is_canopen_form d"
  shows "same_server demo_ed demo_gcm demo_platform demo_env 9 5 d (demo_client_node keys, 3) (demo_boot keys, 3)"
  using demo_linked demo_env_ok assms
  by (auto simp: same_server_def env_port_ok_def demo_env_def demo_client_node_def)

theorem engine_over_bus_witness:
  "case fbsec_secure_write demo_gcm (co_port demo_env) (co_link demo_ed demo_gcm demo_platform) 5
      FBSEC_SERVER_ENTRY_SWR_DATA_ID (take 16 FBSEC_DEMO_KEY_PROVISIONING) 1 (replicate 16 7) 1000
      (demo_client_node True, 3) of
    (r, v) \<Rightarrow> r = (SECP_OK, 0) \<and> sv_secure_wo (host (wi_server (cl_carrier (fst v)))) = replicate 16 7"
proof -
  let ?d = "FBSEC_SERVER_ENTRY_SWR_DATA_ID" and ?k = "take 16 FBSEC_DEMO_KEY_PROVISIONING"
  have d: "fbsec_co_fd_data_id_is_canopen_form ?d" and k: "length ?k = FBSEC_AEAD_KEY_SIZE"
    and direct: "case fbsec_secure_write demo_gcm (srv_client_port 9 demo_env)
        (srv_link demo_ed demo_gcm demo_platform 9) 5 ?d ?k 1 (replicate 16 7) 1000 (demo_boot True, 3) of
      (r, w) \<Rightarrow> r = (SECP_OK, 0) \<and> sv_secure_wo (host (fst w)) = replicate 16 7"
    by code_simp+
  from engine_over_bus [OF demo_same_server [OF d, of True] k, where kid = 1 and t = 1000 and buf = "replicate 16 7"] direct
  show ?thesis by (auto simp: agree_def same_server_def split: prod.splits)
qed

text \<open>
  C17. Each call of the client's transport is exactly one request to the reference server. A read
  with a body of up to 56 bytes and a write of 1 to 256 bytes, expedited or in segments,
  return what the server answered to that body (an abort with its code, the data if they fit
  the caller's buffer, a success), and leave the server in the state after that request with
  nothing left on the wire.
\<close>

theorem client_call_is_one_request:
  assumes "linked a b c" "env_ok E g F" "fbsec_co_fd_data_id_is_canopen_form d" "(ucast dev :: u8) = b"
    and "fbsec_server_dispatch_request E g F (ucast a) d body (wi_server (cl_carrier c)) = (r, s')"
  shows "(length body \<le> 56 \<longrightarrow> (\<exists>co ses. transport_read (pipe E g F) dev d body n t c =
      Some (co_read_answer n r, with_wire co s' (c\<lparr>cl_session := ses\<rparr>)) \<and>
    linked a b (with_wire co s' (c\<lparr>cl_session := ses\<rparr>)))) \<and>
   (body \<noteq> [] \<and> length body \<le> 256 \<longrightarrow> (\<exists>co ses. transport_write (pipe E g F) dev d body t c =
      Some (co_write_answer r, with_wire co s' (c\<lparr>cl_session := ses\<rparr>)) \<and>
    linked a b (with_wire co s' (c\<lparr>cl_session := ses\<rparr>))))"
  using transport_read_pipe [OF assms(1-4) _ assms(5)] transport_write_pipe [OF assms(1-4) _ _ assms(5)]
  by blast

theorem client_call_is_one_request_witness:
  "\<exists>co ses. transport_write (pipe demo_ed demo_gcm demo_platform) 5 FBSEC_HO_VOUCHER_ID (demo_voucher 2) 1000
      (demo_client_node False) = Some ((SECP_OK, 0),
        with_wire co demo_claimed ((demo_client_node False)\<lparr>cl_session := ses\<rparr>))"
proof -
  have d: "fbsec_co_fd_data_id_is_canopen_form FBSEC_HO_VOUCHER_ID" and b: "(ucast (5 :: u16) :: u8) = 5"
    and n: "length (demo_voucher 2) = 108"
    and r: "fst (demo_request 9 FBSEC_HO_VOUCHER_ID (demo_voucher 2) (demo_boot False)) = (FBSEC_ABORT_NONE, [])"
    by code_simp+
  have "fbsec_server_dispatch_request demo_ed demo_gcm demo_platform (ucast (9 :: u8)) FBSEC_HO_VOUCHER_ID
      (demo_voucher 2) (wi_server (cl_carrier (demo_client_node False))) = ((FBSEC_ABORT_NONE, []), demo_claimed)"
    using r by (simp add: demo_request_def demo_claimed_def demo_client_node_def prod_eq_iff)
  from client_call_is_one_request [OF demo_linked demo_env_ok d b this, of 0 1000] n
  show ?thesis by fastforce
qed

text \<open>
  C18. Every call of the client's transport returns, whatever the carrier delivers, as long as the
  carrier cannot deliver frames for ever before it reports the deadline: the receive loop
  skips foreign frames, and the segment loops end with the body or with the counter.
\<close>

theorem client_calls_return:
  assumes "carrier_runs_dry C m"
  shows "(\<exists>r. transport_read C dev d body n t c = Some r) \<and> (\<exists>r. transport_write C dev d buf t c = Some r)"
  using transport_read_returns [OF assms] transport_write_returns [OF assms] by blast

theorem client_calls_return_witness:
  "\<exists>r. transport_write (pipe demo_ed demo_gcm demo_platform) 6 0x20160000 (replicate 200 1) 1000
     (demo_client_node True) = Some r"
  using client_calls_return [OF pipe_runs_dry] by blast

section \<open>The commissioning client\<close>

text \<open>
  C19. The commission command hands an unclaimed device over. Against the reference server with its
  factory identity, and as long as the owner epoch is not the largest number, all four steps
  return 0: the identity read proves genuine, the voucher minted for the next epoch is
  accepted, the provisioning step succeeds and a local identity is generated. The device ends
  owned by the integrator, with the epoch advanced by one and the local identity the server
  derives. An empty provisioning slot holds the provisioning key of the client afterwards; a
  slot that held a key keeps that key, and the step returns 0 all the same, so that its
  result does not say which of the two keys the device has.
\<close>

theorem commissioning_completes:
  assumes "demo_device E dev s" "ed_ok E" "keys_wf s"
    and "as_uncommissioned (astore s)" "as_owner_epoch (astore s) \<noteq> -1"
    and "\<not> ap_voucher_loaded ap" "ap_net ap = (s, x)"
    and "secure_port_random X FBSEC_HO_RT_LEN x = (Some rt, x')" "length rt = FBSEC_HO_RT_LEN"
  shows "\<exists>s'. run_commission E (srv_client_port a X) (srv_link E g F a) tgt t ap =
      (([0, 0, 0, 0], 0), ap\<lparr>ap_net := (s', x')\<rparr>) \<and>
    as_owner_set (astore s') \<and> as_owner (astore s') = kp_pub (fbsec_client_asym_integrator E) \<and>
    as_owner_epoch (astore s') = as_owner_epoch (astore s) + 1 \<and>
    as_ldevid_present (astore s') \<and> as_ldevid (astore s') = fbsec_asym_keygen E FBSEC_DEMO_LDEVID_SEED \<and>
    (get_key s FBSEC_DEMO_KEYID_PROVISIONING = None \<longrightarrow>
       get_key s' FBSEC_DEMO_KEYID_PROVISIONING = Some DEMO_PROVISIONING_KEY) \<and>
    (\<forall>k. get_key s FBSEC_DEMO_KEYID_PROVISIONING = Some k \<longrightarrow>
       get_key s' FBSEC_DEMO_KEYID_PROVISIONING = Some k)"
proof -
  note c = commissioned_state [OF assms(2,3)]
  show ?thesis
    by (rule exI [of _ "commissioned E s"], use commission_link [OF assms(1,2,4-9)] c in \<open>auto split: option.splits\<close>)
qed

text \<open>Client node 9 with its demo keys, and the device as it leaves the factory.\<close>

definition demo_app :: "((u32 \<times> u8) srv \<times> u8) app" where
  "demo_app = upd_keys fbsec_client_keys_load_demo_all (app_zero (demo_boot False, 3))"

lemma demo_boot_device: "demo_device demo_ed 5 (demo_boot keys)"
  by (rule booted_device [OF demo_boot_Some demo_ed_ok]) (simp add: demo_identity_od_def)

lemma demo_app_simps [simp]:
  "ap_net demo_app = (demo_boot False, 3)" "\<not> ap_voucher_loaded demo_app"
  "client_keys_wf (ap_keys demo_app)"
  by (simp_all add: demo_app_def upd_keys_def app_zero_def load_demo_all_wf client_keys_zero_wf)

theorem commissioning_completes_witness:
  "\<exists>s'. run_commission demo_ed (srv_client_port 9 demo_env) (srv_link demo_ed demo_gcm demo_platform 9) 5 1000
      demo_app = (([0, 0, 0, 0], 0), demo_app\<lparr>ap_net := (s', 4)\<rparr>) \<and>
    get_key s' FBSEC_DEMO_KEYID_PROVISIONING = Some DEMO_PROVISIONING_KEY"
proof -
  have "as_uncommissioned (astore (demo_boot False))" "as_owner_epoch (astore (demo_boot False)) \<noteq> -1"
    and k: "get_key (demo_boot False) FBSEC_DEMO_KEYID_PROVISIONING = None"
    by code_simp+
  moreover have "secure_port_random demo_env FBSEC_HO_RT_LEN 3 = (Some (replicate 16 3), 4)" "keys_wf (demo_boot False)"
    using demo_boot_wf [of False] by (simp_all add: demo_env_def srv_wf_def sod_wf_def)
  ultimately show ?thesis
    using commissioning_completes [OF demo_boot_device demo_ed_ok, of False demo_app 3 demo_env "replicate 16 3" 4
        9 demo_gcm demo_platform 5 1000] by auto
qed

text \<open>
  C20. The claim token bootstraps all three key levels. When the device holds the client's claim
  token and none of the three session keys, and the random sources deliver, the install by
  token and then the install of the ladder both return 0; the device then holds exactly the
  client's provisioning, integrator and operator keys and is operational, and the client's
  selected key slot is what it was.
\<close>

theorem key_ladder_completes:
  assumes "gcm_ok g" "ed_ok E" "randoms_ok F X" "ladder_ready E dev s"
    and "ap_net ap = (s, x)" "client_keys_wf (ap_keys ap)"
    and "FBSEC_AEAD_KEY_SIZE \<le> length (fbsec_commission_claim_token ap)"
    and "get_key s FBSEC_DEMO_KEYID_CLAIM_TOKEN
      = Some (take FBSEC_AEAD_KEY_SIZE (fbsec_commission_claim_token ap))"
    and "\<forall>i \<in> {1, 2, 3}. ck_loaded (ap_keys ap) ! i" "\<forall>i \<in> {1, 2, 3}. get_key s i = None"
  shows "\<exists>ap1 ap2 s' x'.
    fbsec_commission_install_provisioning_by_token g (srv_client_port a X) (srv_link E g F a) dev t ap = (0, ap1) \<and>
    fbsec_commission_install_ladder g (srv_client_port a X) (srv_link E g F a) dev t ap1 = (0, ap2) \<and>
    ap_net ap2 = (s', x') \<and> ck_key_id (ap_keys ap2) = ck_key_id (ap_keys ap) \<and>
    (\<forall>j \<in> {1, 2, 3}. get_key s' j = Some (ck_session_keys (ap_keys ap) ! unat j)) \<and>
    sv_stage (host s') = FBSEC_STAGE_OPERATIONAL"
  by (rule ladder_completes [OF assms])

lemma demo_randoms: "randoms_ok demo_platform demo_env"
  using demo_platform_ok by (simp add: randoms_ok_def) (simp add: demo_platform_def demo_env_def)

lemma demo_ladder_ready: "ladder_ready demo_ed 5 (demo_boot False)"
proof -
  have "registry (demo_boot False) = server_entries True"
    and w: "list_all (\<lambda>w. \<not> ws_in_use w) (write_slot (demo_boot False))" by code_simp+
  have "\<not> ws_in_use (write_slot (demo_boot False) ! i)"
    if "find_index (demo_boot False) FBSEC_SEC_KEY_SET_DATA_ID = Some i" for i
    using w find_index_SomeD(1) [OF that] demo_boot_wf [of False]
    by (auto simp: list_all_length srv_wf_def sod_wf_def registry_wf_def)
  with \<open>registry (demo_boot False) = server_entries True\<close> show ?thesis
    using demo_boot_device demo_boot_wf [of False] by (auto simp: ladder_ready_def)
qed

theorem key_ladder_completes_witness:
  "\<exists>ap1 ap2. fbsec_commission_install_provisioning_by_token demo_gcm (srv_client_port 9 demo_env)
      (srv_link demo_ed demo_gcm demo_platform 9) 5 1000 demo_app = (0, ap1) \<and>
    fbsec_commission_install_ladder demo_gcm (srv_client_port 9 demo_env)
      (srv_link demo_ed demo_gcm demo_platform 9) 5 1000 ap1 = (0, ap2) \<and>
    get_key (fst (ap_net ap2)) 3 = Some (take 16 DEMO_KEY_OPERATOR)"
proof -
  have "FBSEC_AEAD_KEY_SIZE \<le> length (fbsec_commission_claim_token demo_app)"
    "get_key (demo_boot False) FBSEC_DEMO_KEYID_CLAIM_TOKEN
      = Some (take FBSEC_AEAD_KEY_SIZE (fbsec_commission_claim_token demo_app))"
    "\<forall>i \<in> {1, 2, 3}. ck_loaded (ap_keys demo_app) ! i" "\<forall>i \<in> {1, 2, 3}. get_key (demo_boot False) i = None"
    and k: "ck_session_keys (ap_keys demo_app) ! 3 = take 16 DEMO_KEY_OPERATOR"
    by code_simp+
  from key_ladder_completes [OF demo_gcm_ok demo_ed_ok demo_randoms demo_ladder_ready demo_app_simps(1,3) this(1-4),
      where a = 9 and t = 1000] k
  show ?thesis by fastforce
qed

text \<open>
  C21. The lifecycle submenu takes a device from the factory to operation. It reads the state of the
  reference server as it is; an uncommissioned server is offered the voucher and the token, and
  the line 2 selects the token. When the device holds the client's claim token and no session
  key, the selected action leaves it with exactly the client's three keys, whatever is typed at
  the key prompt; the state read next offers only to decommission, and the line 2 selects
  nothing any more.
\<close>

theorem lifecycle_menu_commissions:
  assumes "gcm_ok g" "ed_ok E" "randoms_ok F X" "ladder_ready E dev s"
    and "ap_net ap = (s, x)" "client_keys_wf (ap_keys ap)"
    and "FBSEC_AEAD_KEY_SIZE \<le> length (fbsec_commission_claim_token ap)"
    and "get_key s FBSEC_DEMO_KEYID_CLAIM_TOKEN
      = Some (take FBSEC_AEAD_KEY_SIZE (fbsec_commission_claim_token ap))"
    and "\<forall>i \<in> {1, 2, 3}. ck_loaded (ap_keys ap) ! i" "\<forall>i \<in> {1, 2, 3}. get_key s i = None"
    and "fbsec_server_lifecycle_commissioning s = FBSEC_STAT_UNCOMMISSIONED" "bits = 32 \<or> bits = 64"
  shows "\<exists>st inp' ap' s' x' st'.
    lifecycle_read_state (srv_link E g F a) dev t (s, x) = (st, (s, x)) \<and> lc_ok st \<and>
    lifecycle_actions st = [LC_ACT_VOUCHER, LC_ACT_TOKEN] \<and>
    lifecycle_choice bits ''2'' (lifecycle_actions st) = Some LC_ACT_TOKEN \<and>
    lifecycle_do_action E g (srv_client_port a X) (srv_link E g F a) LC_ACT_TOKEN dev t inp ap = (inp', ap') \<and>
    ap_net ap' = (s', x') \<and>
    (\<forall>j \<in> {1, 2, 3}. get_key s' j = Some (ck_session_keys (ap_keys ap) ! unat j)) \<and>
    lifecycle_read_state (srv_link E g F a) dev t (s', x') = (st', (s', x')) \<and>
    lifecycle_actions st' = [LC_ACT_DECOMMISSION] \<and>
    lifecycle_choice bits ''2'' (lifecycle_actions st') = None"
proof -
  have u: "lifecycle_actions (server_lifecycle s) = [LC_ACT_VOUCHER, LC_ACT_TOKEN]" "lc_ok (server_lifecycle s)"
    using unclaimed_offers [OF assms(11)] by (simp_all add: server_lifecycle_def)
  obtain inp' ap' s' x' where r: "lifecycle_do_action E g (srv_client_port a X) (srv_link E g F a) LC_ACT_TOKEN dev t inp ap
      = (inp', ap')" "ap_net ap' = (s', x')"
    "\<forall>j \<in> {1, 2, 3}. get_key s' j = Some (ck_session_keys (ap_keys ap) ! unat j)"
    "lifecycle_actions (server_lifecycle s') = [LC_ACT_DECOMMISSION]"
    using token_action_link [OF assms(1-10), where a = a and t = t and inp = inp] by blast
  have "lifecycle_choice bits ''2'' (lifecycle_actions (server_lifecycle s)) = Some LC_ACT_TOKEN"
    "lifecycle_choice bits ''2'' (lifecycle_actions (server_lifecycle s')) = None"
    by (simp_all add: u r(4) choice_of_digit [OF assms(12)])
  then show ?thesis
    using u r lifecycle_state_link [of E g F a dev t s x] lifecycle_state_link [of E g F a dev t s' x'] by blast
qed

theorem lifecycle_menu_commissions_witness:
  "\<exists>inp' ap'. lifecycle_do_action demo_ed demo_gcm (srv_client_port 9 demo_env)
      (srv_link demo_ed demo_gcm demo_platform 9) LC_ACT_TOKEN 5 1000 ''q'' demo_app = (inp', ap') \<and>
    get_key (fst (ap_net ap')) 3 = Some (take 16 DEMO_KEY_OPERATOR)"
proof -
  have "FBSEC_AEAD_KEY_SIZE \<le> length (fbsec_commission_claim_token demo_app)"
    "get_key (demo_boot False) FBSEC_DEMO_KEYID_CLAIM_TOKEN
      = Some (take FBSEC_AEAD_KEY_SIZE (fbsec_commission_claim_token demo_app))"
    "\<forall>i \<in> {1, 2, 3}. ck_loaded (ap_keys demo_app) ! i" "\<forall>i \<in> {1, 2, 3}. get_key (demo_boot False) i = None"
    "fbsec_server_lifecycle_commissioning (demo_boot False) = FBSEC_STAT_UNCOMMISSIONED"
    and k: "ck_session_keys (ap_keys demo_app) ! 3 = take 16 DEMO_KEY_OPERATOR"
    by code_simp+
  from lifecycle_menu_commissions [OF demo_gcm_ok demo_ed_ok demo_randoms demo_ladder_ready demo_app_simps(1,3) this(1-5)
      disjI2 [OF refl], where a = 9 and t = 1000 and inp = "''q''"] k
  show ?thesis by fastforce
qed

text \<open>
  C22. The parameter scan of the menu leaves its 64-byte buffer in one case only. Over any transport
  that respects the size it is given, if a row is computed from bytes outside the buffer then
  the device answered a read of a public key (C021h) with a single byte that is not zero, where
  the index of the last but one byte wraps; and any such reply does it, whatever the buffer
  holds.
\<close>

theorem scan_stays_in_buffer:
  "(reads_bounded T \<and> scan_security_params stale T target t w = (rows, w') \<and>
      list_ex (\<lambda>(i, rs). Row_Outside \<in> set rs) rows \<longrightarrow>
    (\<exists>sub w1 key ac w2. key \<noteq> 0 \<and>
      tp_read T target (push_bit 16 0xC021 OR push_bit 8 (of_nat sub)) [] SCAN_BUF_SIZE t w1 = ((SECP_OK, [key], ac), w2))) \<and>
   (key \<noteq> 0 \<longrightarrow> interpret_sub 0xC021 sub (scan_buffer stale 0xC021 sub [key]) 1 = Outside_Buffer)"
proof (intro conjI impI)
  assume a: "reads_bounded T \<and> scan_security_params stale T target t w = (rows, w') \<and>
      list_ex (\<lambda>(i, rs). Row_Outside \<in> set rs) rows"
  then have "short_public_key T target t"
    unfolding scan_security_params_def by (blast intro: scan_list_outside)
  then show "\<exists>sub w1 key ac w2. key \<noteq> 0 \<and>
      tp_read T target (push_bit 16 0xC021 OR push_bit 8 (of_nat sub)) [] SCAN_BUF_SIZE t w1 = ((SECP_OK, [key], ac), w2)"
    unfolding short_public_key_def .
next
  assume "key \<noteq> 0"
  then show "interpret_sub 0xC021 sub (scan_buffer stale 0xC021 sub [key]) 1 = Outside_Buffer"
    by (subst interpret_outside) (simp_all add: scan_buffer_def)
qed

text \<open>A device that answers the reads of its public keys with the byte 1, and no others.\<close>

definition one_byte_device :: "unit transport" where
  "one_byte_device = \<lparr>tp_read = (\<lambda>dev d body n t w.
       ((if d AND 0xFFFF0000 = 0xC0210000 then (SECP_OK, take n [1], 0) else (SECP_ABORT, [], 0)), w)),
     tp_write = (\<lambda>dev d body t w. ((SECP_OK, 0), w))\<rparr>"

theorem scan_stays_in_buffer_witness:
  "\<exists>sub key. key \<noteq> 0 \<and> fst (fst (tp_read one_byte_device 5 (push_bit 16 0xC021 OR push_bit 8 (of_nat sub)) []
      SCAN_BUF_SIZE 1000 ())) = SECP_OK \<and>
    interpret_sub 0xC021 1 (scan_buffer (\<lambda>_ _ _. []) 0xC021 1 [key]) 1 = Outside_Buffer"
proof -
  let ?S = "scan_security_params (\<lambda>_ _ _. []) one_byte_device 5 1000 ()"
  have "interpret_sub 0xC021 1 (scan_buffer (\<lambda>_ _ _. []) 0xC021 1 [1]) 1 = Outside_Buffer"
    using scan_stays_in_buffer [THEN conjunct2, rule_format, of 1] by simp
  then have "list_ex (\<lambda>(i, rs). Row_Outside \<in> set rs) (fst ?S)"
    by (simp add: scan_security_params_def scan_objects_def scan_one_object_def one_byte_device_def)
  moreover have "reads_bounded one_byte_device" by (simp add: reads_bounded_def one_byte_device_def)
  ultimately have "reads_bounded one_byte_device \<and> ?S = (fst ?S, snd ?S) \<and> list_ex (\<lambda>(i, rs). Row_Outside \<in> set rs) (fst ?S)"
    by (metis prod.collapse)
  from scan_stays_in_buffer [THEN conjunct1, rule_format, OF this] obtain sub w1 key ac w2 where r: "key \<noteq> 0"
    "tp_read one_byte_device 5 (push_bit 16 0xC021 OR push_bit 8 (of_nat sub)) [] SCAN_BUF_SIZE 1000 w1 = ((SECP_OK, [key], ac), w2)"
    by blast
  moreover have "interpret_sub 0xC021 1 (scan_buffer (\<lambda>_ _ _. []) 0xC021 1 [key]) 1 = Outside_Buffer"
    using scan_stays_in_buffer [THEN conjunct2, rule_format, OF r(1)] by blast
  ultimately show ?thesis by (intro exI [of _ sub] exI [of _ key]) (simp add: one_byte_device_def)
qed

text \<open>
  C23. The client's signed operations are accepted by the reference server. With the challenge of
  the server's random source and a fresh client random, a signed write of up to 16 bytes hands
  exactly that value to the server's write hook and returns 0 when the hook accepts it and 2
  otherwise, and a signed function command is always executed, where factory restore
  decommissions the device; in both cases the challenge is spent.
\<close>

theorem signed_operations_applied:
  assumes "demo_device E dev s" "ed_ok E" "platform_ok F"
    and "fbsec_sod_port_random F FBSEC_RPK_NONCE_LEN s = (Some nonce, s1)"
    and "secure_port_random X FBSEC_RPK_NONCE_LEN x = (Some cn, x')" "length cn = FBSEC_RPK_NONCE_LEN"
  shows "(length v \<le> 16 \<longrightarrow>
      fbsec_rpk_signed_write E (srv_client_port a X) (srv_link E g F a) dev i j v t (s, x) =
        (case fbsec_sod_port_write_after (rpk_target_id i j) v
                (disarm (challenged (ucast a) FBSEC_RPK_GENERIC_WRITE_ID nonce s1)) of
           (rc, s2) \<Rightarrow> (if rc = FBSEC_ABORT_NONE then 0 else 2, (s2, x')))) \<and>
    fbsec_rpk_command E (srv_client_port a X) (srv_link E g F a) dev code_v t (s, x) =
      (0, (if code_v = FBSEC_HO_CMD_FACTORY_RESTORE
           then fbsec_server_handover_decommission
                  (disarm (challenged (ucast a) FBSEC_RPK_FUNCCMD_ID nonce s1))
           else disarm (challenged (ucast a) FBSEC_RPK_FUNCCMD_ID nonce s1), x'))"
  using signed_write_link [OF assms(1-3) _ assms(4-6)] command_link [OF assms]
  by (auto split: prod.split)

theorem signed_operations_applied_witness:
  "sv_secure_wo (host (fst (snd (fbsec_rpk_signed_write demo_ed (srv_client_port 9 demo_env)
      (srv_link demo_ed demo_gcm demo_platform 9) 5 0x2016 0 (replicate 16 7) 1000 (demo_boot True, 3)))))
    = replicate 16 7"
proof -
  obtain s1 where r: "fbsec_sod_port_random demo_platform FBSEC_RPK_NONCE_LEN (demo_boot True) = (Some (replicate 16 1), s1)"
    and w: "sv_secure_wo (host (snd (fbsec_sod_port_write_after (rpk_target_id 0x2016 0) (replicate 16 7)
        (disarm (challenged 9 FBSEC_RPK_GENERIC_WRITE_ID (replicate 16 1) s1))))) = replicate 16 7"
  proof -
    let ?r = "fbsec_sod_port_random demo_platform FBSEC_RPK_NONCE_LEN (demo_boot True)"
    have "fst ?r = Some (replicate 16 1)"
      "sv_secure_wo (host (snd (fbsec_sod_port_write_after (rpk_target_id 0x2016 0) (replicate 16 7)
        (disarm (challenged 9 FBSEC_RPK_GENERIC_WRITE_ID (replicate 16 1) (snd ?r)))))) = replicate 16 7"
      by code_simp+
    then show ?thesis using that [of "snd ?r"] by (simp add: prod_eq_iff)
  qed
  have "secure_port_random demo_env FBSEC_RPK_NONCE_LEN 3 = (Some (replicate 16 3), 4)"
    "length (replicate 16 (3 :: u8)) = FBSEC_RPK_NONCE_LEN"
    by (simp_all add: demo_env_def)
  from signed_operations_applied [OF demo_boot_device demo_ed_ok demo_platform_ok r this,
      where v = "replicate 16 7" and a = 9 and g = demo_gcm and i = "0x2016" and j = 0 and t = 1000] w
  show ?thesis by (simp add: case_prod_beta)
qed

text \<open>
  C24. The security floor fails closed. Over any transport, the gate lets the client proceed under a
  floor only if some read of the mechanism sub-index succeeded with a two-byte value that has
  the bit of the required mechanism; and on the reference server it reads the server's own
  capability record, so that it proceeds for every floor except X.509. Under a floor, no
  session of the client ends with exit code 0 without such a read: of the node the verb is
  then sent to when one verb is run, and of the node of \<open>--target-node\<close> for
  \<open>--check-policy\<close> and for the menu. The menu is not held to it: once that one node has
  passed, the session is the menu's, whatever node its operations then ask the user for.
\<close>

theorem capability_gate_fails_closed:
  "(fst (fbsec_client_enforce_min_security T target t floor w) = 0 \<and> floor \<noteq> SEC_ANY \<longrightarrow>
     (\<exists>w1 buf ac w2. tp_read T target (caps_data_id 8) [] 8 t w1 = ((SECP_OK, buf, ac), w2) \<and>
        length buf = 2 \<and> get_u16le buf AND floor_bit floor \<noteq> 0)) \<and>
   fbsec_client_read_caps (srv_link E g F a) target t caps_zero (s, x) = ((0, server_caps s), (s, x)) \<and>
   fbsec_client_enforce_min_security (srv_link E g F a) target t floor (s, x)
     = (if floor = SEC_X509 then 1 else 0, (s, x)) \<and>
   (secure_session H h C T menu r ap = (0, ap') \<and> cc_min_security (vc_common (cr_cfg r)) \<noteq> SEC_ANY \<longrightarrow>
     (\<exists>w1 buf ac w2. tp_read T (if cc_menu_mode (vc_common (cr_cfg r)) \<or> cc_check_policy (vc_common (cr_cfg r))
           then ucast (vc_target_node (cr_cfg r)) else ucast (cr_target r))
         (caps_data_id 8) [] 8 (cc_timeout_ms (vc_common (cr_cfg r))) w1 = ((SECP_OK, buf, ac), w2) \<and>
        length buf = 2 \<and> get_u16le buf AND floor_bit (cc_min_security (vc_common (cr_cfg r))) \<noteq> 0)) \<and>
   (cc_menu_mode (vc_common (cr_cfg r)) \<and> \<not> cc_check_policy (vc_common (cr_cfg r)) \<and>
      fbsec_client_keys_derive_session_if_needed H (ap_keys ap) = (0, k) \<and>
      on_net (fbsec_client_enforce_min_security T (ucast (vc_target_node (cr_cfg r)))
          (cc_timeout_ms (vc_common (cr_cfg r))) (cc_min_security (vc_common (cr_cfg r))))
        (upd_keys fbsec_client_keys_load_demo_all (ap\<lparr>ap_keys := k\<rparr>)) = (0, a1) \<longrightarrow>
    secure_session H h C T menu r ap =
      (case menu (cr_cfg r) a1 of (rc, a2) \<Rightarrow> (rc, upd_keys fbsec_client_keys_wipe a2)))"
  using gate_evidence [of T target t floor w] read_caps_link [of E g F a target t s x]
    gate_link [of E g F a target t floor s x] session_gate [of H h C T menu r ap ap']
    menu_session [of r H ap k T a1 h C menu]
  unfolding mech_advertised_def gate_target_def by blast

theorem capability_gate_fails_closed_witness:
  "\<exists>(w1 :: (u32 \<times> u8) srv \<times> u8) buf ac w2. tp_read (srv_link demo_ed demo_gcm demo_platform 9) 5 (caps_data_id 8) [] 8 1000 w1
     = ((SECP_OK, buf, ac), w2) \<and> get_u16le buf AND FBSEC_MECH_RPK \<noteq> 0"
proof -
  let ?L = "srv_link demo_ed demo_gcm demo_platform 9"
  have "fbsec_client_enforce_min_security ?L 5 1000 SEC_SIGNED (demo_boot False, 3 :: u8)
      = (if SEC_SIGNED = SEC_X509 then 1 else 0, (demo_boot False, 3))" by (rule gate_link)
  then have "fst (fbsec_client_enforce_min_security ?L 5 1000 SEC_SIGNED (demo_boot False, 3 :: u8)) = 0 \<and>
      SEC_SIGNED \<noteq> SEC_ANY"
    by (simp only:) simp
  from capability_gate_fails_closed [THEN conjunct1, rule_format, OF this]
  show ?thesis unfolding floor_bit.simps by blast
qed

text \<open>
  C25. The files the client writes and reads carry their content. A voucher written out as text
  with its comments is loaded back as the same bytes; and a key file with one row of key id,
  label and hexadecimal key per line, for valid ids and full keys, is accepted and stores
  exactly those keys, the last row of a repeated id winning, with either width of long.
\<close>

theorem setup_files_roundtrip:
  "(ed_ok E \<longrightarrow> (\<exists>v file. fbsec_commission_build_voucher E FBSEC_HO_VOUCHER_LEN = (0, v) \<and>
      fbsec_commission_emit_voucher_file E True = (0, Some file) \<and>
      fbsec_commission_load_voucher_file (Some file) ap = (0, ap\<lparr>ap_voucher := v, ap_voucher_loaded := True\<rparr>))) \<and>
   ((\<forall>r\<in>set rows. key_row_ok r) \<and> (bits = 32 \<or> bits = 64) \<and> client_keys_wf k \<and> rows \<noteq> [] \<longrightarrow>
      fbsec_client_keys_load_file bits (Some (key_file_text rows)) k = (0, fold store_key rows k))"
proof (intro conjI impI)
  assume E: "ed_ok E"
  let ?v = "client_voucher E DEMO_VOUCHER_EPOCH"
  have "fbsec_commission_build_voucher E FBSEC_HO_VOUCHER_LEN = (0, ?v)"
    by (simp add: fbsec_commission_build_voucher_def E)
  then show "\<exists>v file. fbsec_commission_build_voucher E FBSEC_HO_VOUCHER_LEN = (0, v) \<and>
      fbsec_commission_emit_voucher_file E True = (0, Some file) \<and>
      fbsec_commission_load_voucher_file (Some file) ap = (0, ap\<lparr>ap_voucher := v, ap_voucher_loaded := True\<rparr>)"
    using voucher_file_loads [of ?v ap] client_voucher_fields(1) [OF E]
    by (simp add: fbsec_commission_emit_voucher_file_def)
qed (use key_file_loads in blast)

theorem setup_files_roundtrip_witness:
  "(\<exists>v file. fbsec_commission_emit_voucher_file demo_ed True = (0, Some file) \<and>
      fbsec_commission_load_voucher_file (Some file) demo_app = (0, demo_app\<lparr>ap_voucher := v, ap_voucher_loaded := True\<rparr>)) \<and>
   fst (fbsec_client_keys_load_file 64 (Some (key_file_text [(7, ''cell'', replicate 16 0xA5)])) client_keys_zero) = 0"
proof -
  have "key_row_ok (7, ''cell'', replicate 16 0xA5)" by code_simp
  then have "(\<forall>r\<in>set [(7, ''cell'', replicate 16 0xA5)]. key_row_ok r) \<and> (64 = (32 :: nat) \<or> 64 = (64 :: nat)) \<and>
      client_keys_wf client_keys_zero \<and> [(7 :: nat, ''cell'', replicate 16 (0xA5 :: u8))] \<noteq> []"
    by (simp add: client_keys_zero_wf)
  with setup_files_roundtrip [of demo_ed demo_app "[(7, ''cell'', replicate 16 0xA5)]" 64 client_keys_zero] demo_ed_ok
  show ?thesis by auto
qed

section \<open>The programs\<close>

text \<open>
  C26. Every command line the client accepts for a single operation is complete and well formed: a
  secure verb, a target node and an own node in range and different, an object address of the
  CANopen form, a write with 1 to 32 bytes, a positive timeout and count, a name and host that
  fit their buffers. A key is then in force: the derivation succeeds, and the key used is the
  one given, or the RFC 5869 derivation of the main key with the salt under the key id, never
  a demo key.
\<close>

theorem accepted_command_is_complete:
  assumes "parse_args bits files argv (run_start verb0 buf0 (app_zero w)) = (0, r)"
    and "length buf0 = FBSEC_AEAD_MAX_PROTECTED" "sha_ok S absorbed D"
    and "\<not> cc_menu_mode (vc_common (cr_cfg r))" "\<not> cc_check_policy (vc_common (cr_cfg r))"
  defines "k \<equiv> ap_keys (cr_app r)"
  shows "FBSEC_CLIENT_VERB_IS_SECURE (cr_verb r) \<and> 0 < cr_target r \<and> cr_target r \<le> 127 \<and>
    0 < vc_node_id (cr_cfg r) \<and> vc_node_id (cr_cfg r) \<le> FBSEC_CO_FD_NODE_ID_MAX \<and>
    ucast (vc_node_id (cr_cfg r)) \<noteq> cr_target r \<and>
    fbsec_co_fd_data_id_is_canopen_form (cr_data_id r) \<and>
    (needs_payload (cr_verb r) \<longrightarrow> 0 < cr_write_len r \<and> cr_write_len r \<le> FBSEC_AEAD_MAX_PROTECTED) \<and>
    cc_timeout_ms (vc_common (cr_cfg r)) \<noteq> 0 \<and> cc_count (vc_common (cr_cfg r)) \<noteq> 0 \<and>
    length (vc_bus_host (cr_cfg r)) < BUS_HOST_SIZE \<and> length (vc_name (cr_cfg r)) \<le> CLIENT_NAME_MAX \<and>
    (\<exists>k'. fbsec_client_keys_derive_session_if_needed S k = (0, k') \<and>
       fbsec_client_keys_session_set (fbsec_client_keys_load_demo_all k') \<and>
       fbsec_client_keys_session (fbsec_client_keys_load_demo_all k') =
         (if ck_main_key_set k then hkdf_ref D (take (ck_salt_len k) (ck_salt k)) (ck_main_key k)
            (FBSEC_CLIENT_KDF_INFO_PREFIX @ [ck_key_id k]) FBSEC_AEAD_KEY_SIZE
          else fbsec_client_keys_session k))"
proof -
  have "options_ok (run_start verb0 buf0 (app_zero w))" by (rule run_start_ok)
  then have r: "single_shot_ok r" using parse_args_accepts [OF assms(1)] assms(2,4,5) by (simp add: run_start_def)
  then show ?thesis
    using key_in_force [OF r assms(3)] unfolding k_def
    by (auto simp: single_shot_ok_def options_ok_def cfg_ok_def node_in_range_def)
qed

theorem accepted_command_is_complete_witness:
  "(\<exists>k'. fbsec_client_keys_derive_session_if_needed demo_sha (ap_keys (cr_app (demo_run ()))) = (0, k') \<and>
     fbsec_client_keys_session (fbsec_client_keys_load_demo_all k') = take 16 FBSEC_DEMO_KEY_PROVISIONING)"
proof -
  have "fbsec_client_keys_session (ap_keys (cr_app (demo_run ()))) = take 16 FBSEC_DEMO_KEY_PROVISIONING" by code_simp
  with accepted_command_is_complete [OF demo_accepted [of "\<lambda>_. None" VERB_RD "()"] _ demo_sha_ok demo_run_modes(1,2)]
    demo_run_modes(6) [of "()"]
  show ?thesis by auto
qed

text \<open>
  C27. The write command, from the command line to the object. When the argument vector is accepted
  for a single secure write under a given key and no security floor, then its first word is
  \<open>swr\<close>, its second the node, its third the object, and the payload is the value that the
  hexadecimal word behind a \<open>--data\<close> option denotes. If the server allows a write of these
  bytes under that key, the session ends with the exit code that is the answer of the server's
  write hook for that object to exactly these bytes, 0 for success and 2 otherwise; the server
  is left with its write slot released, and the client with every session key erased.
\<close>

theorem write_command_delivers:
  assumes "parse_args bits files argv (run_start verb0 buf0 (app_zero (s, x))) = (0, r)"
    and "length buf0 = FBSEC_AEAD_MAX_PROTECTED" "cr_verb r = VERB_SWR"
    and "\<not> cc_menu_mode (vc_common (cr_cfg r))" "\<not> cc_check_policy (vc_common (cr_cfg r))"
    and "cc_min_security (vc_common (cr_cfg r)) = SEC_ANY" "\<not> ck_main_key_set (ap_keys (cr_app r))"
    and "gcm_ok g" "platform_ok F" "sod_wf s"
    and "sv_my_dev (host s) = ucast (cr_target r)" "routed E g F (ucast a) (cr_data_id r) s"
    and "write_allowed (server_port F) (ucast a) (cr_data_id r)
        (fbsec_client_keys_effective_keyid (ap_keys (cr_app r))) (fbsec_client_keys_session (ap_keys (cr_app r)))
        (take (cr_write_len r) (cr_write_buf r)) s i sr s1"
    and "secure_port_random X FBSEC_AEAD_RAND_SIZE x = (Some cr, x')" "length cr = FBSEC_AEAD_RAND_SIZE"
  shows "argv ! 1 = ''swr'' \<and> fbsec_client_cli_parse_u32 bits (argv ! 2) = Some (cr_target r) \<and>
    (\<exists>j d. 4 \<le> j \<and> j + 1 < length argv \<and> argv ! j = ''--data'' \<and>
      fbsec_client_cli_parse_u32 bits (argv ! 3) = Some d \<and>
      (\<exists>frame rc s3 a'.
        fbsec_sod_port_write_after d (hex_value (argv ! (j + 1)))
          (write_hook_state i frame (write_armed_state (server_port F) i (ucast a) sr s1)) = (rc, s3) \<and>
        secure_session H g (srv_client_port a X) (srv_link E g F a) menu r (cr_app r)
          = (if rc = FBSEC_ABORT_NONE then 0 else 2, a') \<and>
        ap_net a' = (release_write i s3, x') \<and>
        \<not> fbsec_client_keys_session_set (ap_keys a') \<and>
        (\<forall>b \<in> set (ck_session_keys (ap_keys a')). set b \<subseteq> {0})))"
proof -
  have l: "length (cr_write_buf (run_start verb0 buf0 (app_zero (s, x)))) = FBSEC_AEAD_MAX_PROTECTED"
    using assms(2) by (simp add: run_start_def)
  have r: "single_shot_ok r" "ap_net (cr_app r) = (s, x)"
    using parse_args_accepts [OF assms(1) run_start_ok] assms(2,4,5) by (simp_all add: run_start_def app_zero_def)
  have "needs_payload (cr_verb r)" using assms(3) by (simp add: needs_payload_def)
  with parse_args_spelled [OF assms(1) l assms(4,5) run_start_ok] obtain j where
    sp: "argv ! 1 = ''swr''" "fbsec_client_cli_parse_u32 bits (argv ! 2) = Some (cr_target r)"
      "fbsec_client_cli_parse_u32 bits (argv ! 3) = Some (cr_data_id r)"
      "4 \<le> j" "j + 1 < length argv" "argv ! j = ''--data''"
      "take (cr_write_len r) (cr_write_buf r) = hex_value (argv ! (j + 1))"
    using assms(3) by (auto simp: parse_verb_swr)
  from write_command_link [OF r(1) assms(3,6,4,5,7) refl assms(8-12) r(2) assms(13-15), where H = H and menu = menu]
  have "\<exists>frame rc s3 a'.
        fbsec_sod_port_write_after (cr_data_id r) (hex_value (argv ! (j + 1)))
          (write_hook_state i frame (write_armed_state (server_port F) i (ucast a) sr s1)) = (rc, s3) \<and>
        secure_session H g (srv_client_port a X) (srv_link E g F a) menu r (cr_app r)
          = (if rc = FBSEC_ABORT_NONE then 0 else 2, a') \<and>
        ap_net a' = (release_write i s3, x') \<and>
        \<not> fbsec_client_keys_session_set (ap_keys a') \<and>
        (\<forall>b \<in> set (ck_session_keys (ap_keys a')). set b \<subseteq> {0})"
    unfolding sp(7) .
  then show ?thesis using sp(1-6) by blast
qed

lemma demo_swr_routed: "routed demo_ed demo_gcm demo_platform 9 FBSEC_SERVER_ENTRY_SWR_DATA_ID (demo_boot True)"
proof -
  have "list_all (\<lambda>e. ce_index e \<noteq> 0x2016) (sv_const_od (host (demo_boot True)))" by code_simp
  then have "try_serve_const_od FBSEC_SERVER_ENTRY_SWR_DATA_ID req s' = None"
    if "sv_const_od (host s') = sv_const_od (host (demo_boot True))" for req and s' :: "(u32 \<times> u8) srv"
    using that by (simp add: try_serve_const_od_def fbsec_const_od_get_def const_od_lookup_None list_all_iff id_index_def)
  then show ?thesis
    by (simp add: routed_def fbsec_server_dispatch_request_def try_serve_descriptor_def
        fbsec_server_security_try_def fbsec_server_handover_try_def fbsec_server_rpk_try_def Let_def id_index_def)
qed

theorem write_command_delivers_witness:
  "\<exists>a'. secure_session demo_sha demo_gcm (srv_client_port 9 demo_env) (srv_link demo_ed demo_gcm demo_platform 9)
      (\<lambda>c a. (0, a)) (demo_run (demo_boot True, 3 :: u8)) (cr_app (demo_run (demo_boot True, 3))) = (0, a') \<and>
    sv_secure_wo (host (fst (ap_net a'))) = hex_value ''07070707070707070707070707070707''"
proof -
  let ?s = "demo_boot True" and ?P = "server_port demo_platform"
  let ?r = "demo_run (?s, 3 :: u8)" and ?s1 = "snd (port_random ?P 12 ?s)" and ?sr = "replicate 12 (1 :: u8)"
  have al: "write_allowed ?P 9 FBSEC_SERVER_ENTRY_SWR_DATA_ID 0x81 (take 16 FBSEC_DEMO_KEY_PROVISIONING) (replicate 16 7)
      ?s 1 ?sr ?s1"
    by code_simp
  have hk: "fbsec_sod_port_write_after FBSEC_SERVER_ENTRY_SWR_DATA_ID (replicate 16 7) s
      = (FBSEC_ABORT_NONE, upd_host (\<lambda>h. h\<lparr>sv_secure_wo := replicate 16 7\<rparr>) s)" for s :: "(u32 \<times> u8) srv"
    by (simp add: fbsec_sod_port_write_after_def)
  have r: "cr_target ?r = 5" "cr_data_id ?r = FBSEC_SERVER_ENTRY_SWR_DATA_ID"
    "take (cr_write_len ?r) (cr_write_buf ?r) = replicate 16 7"
    "fbsec_client_keys_effective_keyid (ap_keys (cr_app ?r)) = 0x81"
    "fbsec_client_keys_session (ap_keys (cr_app ?r)) = take 16 FBSEC_DEMO_KEY_PROVISIONING"
    "hex_value ''07070707070707070707070707070707'' = replicate 16 7"
    by code_simp+
  have c: "secure_port_random demo_env FBSEC_AEAD_RAND_SIZE 3 = (Some (replicate 12 3), 4)" by (simp add: demo_env_def)
  have dev: "sv_my_dev (host ?s) = ucast (cr_target ?r)" by code_simp
  have wf: "sod_wf ?s" using demo_boot_wf by (simp add: srv_wf_def)
  have rt: "routed demo_ed demo_gcm demo_platform (ucast (9 :: u8)) (cr_data_id ?r) ?s" by (simp add: r demo_swr_routed)
  have al': "write_allowed ?P (ucast (9 :: u8)) (cr_data_id ?r) (fbsec_client_keys_effective_keyid (ap_keys (cr_app ?r)))
      (fbsec_client_keys_session (ap_keys (cr_app ?r))) (take (cr_write_len ?r) (cr_write_buf ?r)) ?s 1 ?sr ?s1"
    using al by (simp only: r) simp
  have data: "demo_argv ! (j + 1) = ''07070707070707070707070707070707''"
    if "4 \<le> j" "j + 1 < length demo_argv" "demo_argv ! j = ''--data''" for j
  proof -
    have "\<forall>j\<in>set [4..<11]. demo_argv ! j = ''--data'' \<longrightarrow> j = 10" by code_simp
    moreover have "j \<in> set [4..<11]" using that(1,2) by (auto simp: demo_nth(1))
    ultimately have "j = 10" using that(3) by blast
    then show ?thesis by (simp add: demo_nth)
  qed
  have id: "fbsec_client_cli_parse_u32 64 (demo_argv ! 3) = Some FBSEC_SERVER_ENTRY_SWR_DATA_ID"
    by (simp add: demo_argv_def nums)
  obtain j d frame rc s3 a' where w: "4 \<le> j" "j + 1 < length demo_argv" "demo_argv ! j = ''--data''"
    "fbsec_client_cli_parse_u32 64 (demo_argv ! 3) = Some d"
    "fbsec_sod_port_write_after d (hex_value (demo_argv ! (j + 1)))
        (write_hook_state 1 frame (write_armed_state ?P 1 (ucast (9 :: u8)) ?sr ?s1)) = (rc, s3)"
    "secure_session demo_sha demo_gcm (srv_client_port 9 demo_env) (srv_link demo_ed demo_gcm demo_platform 9)
        (\<lambda>c a. (0, a)) ?r (cr_app ?r) = (if rc = FBSEC_ABORT_NONE then 0 else 2, a')"
    "ap_net a' = (release_write 1 s3, 4)"
    using write_command_delivers [OF demo_accepted [of "\<lambda>_. None" VERB_RD "(?s, 3)"] _ demo_run_modes(4,1,2,3,6)
        demo_gcm_ok demo_platform_ok wf dev rt al' c, where H = demo_sha and menu = "\<lambda>c a. (0, a)"] by auto
  have "rc = FBSEC_ABORT_NONE \<and> sv_secure_wo (host s3) = replicate 16 7"
    using w(4,5) unfolding data [OF w(1-3)] id r(6) by (auto simp: hk upd_host_def)
  then show ?thesis using w(6,7) r(6) by (simp add: release_write_def)
qed

text \<open>
  C28. The server process is the reference server. When the program ends after its receive loop, for
  whatever bytes on the connection and timing, then its command line was accepted, with the
  key file, the object dictionary file, the demo keys and the node id that the last occurrence
  of each option gives; the bus was joined; the start-up read these files for this node; the
  state it ends in is the started server after a sequence of requests and platform changes;
  the invariants hold; and the exit code is 0. If the connection brings the wire form of a list
  of valid frames without delay and then ends, and nobody interrupts the program, then it does
  end, every frame has been served once and in order, and its valid reply frames, in
  order and nothing else, have gone on the wire after the announcement. It ends too on any connection on which every
  receive brings a byte or the end of the stream and the bytes to come are finite, however they
  are cut and whatever the clock does; a connection that stays open and idle is not covered, on
  it the loop runs until it is told to stop.
\<close>

theorem server_process_is_requests:
  assumes "ed_ok E" "platform_ok F" "gcm_ok g" "length key0 = FBSEC_AEAD_KEY_SIZE"
  shows "(server_main bits files E g F S N shutdown tick f0 key0 env0 argv w = Some (rc, Some (c, s), w') \<longrightarrow>
     (\<exists>c0 h w1 s0 xs. server_started bits files E S N key0 env0 argv w c0 h w1 s0 \<and>
       options_hold bits (server_options (tl argv)) server_defaults c0 \<and>
       0 < sw_node_id c0 \<and> sw_node_id c0 \<le> FBSEC_CO_FD_NODE_ID_MAX \<and>
       srv_reachable E g F s0 \<and> s = srv_run E g F xs s0 \<and> rc = 0 \<and> co_fd_wf c \<and> srv_wf s)) \<and>
   (server_started bits files E S N key0 env0 argv w c0 (Some sock) w1 s0 \<and>
     prompt_connection S N sock inp out \<and> (\<forall>w. \<not> shutdown w) \<and>
     (\<forall>f\<in>set fs. wire_frame f) \<and> inp w1 = frames_wire fs \<longrightarrow>
     (\<exists>es sent c s w'. length es = length fs \<and>
       serve_frames E g F (zip (map (received_frame f0) fs) es) (transport_statics (sw_node_id c0)) s0 = (sent, c, s) \<and>
       server_main bits files E g F S N shutdown tick f0 key0 env0 argv w = Some (0, Some (c, s), w') \<and>
       out w' = out w1 @ sent_wire sent)) \<and>
   ((\<forall>sock. finite_stream S sock (inps sock)) \<longrightarrow>
     server_main bits files E g F S N shutdown tick f0 key0 env0 argv w \<noteq> None)"
proof (intro conjI impI)
  assume "\<forall>sock. finite_stream S sock (inps sock)"
  then have "finite_stream S sock (inps sock)" for sock by blast
  then show "server_main bits files E g F S N shutdown tick f0 key0 env0 argv w \<noteq> None"
    by (rule server_main_ends)
next
  assume "server_started bits files E S N key0 env0 argv w c0 (Some sock) w1 s0 \<and>
     prompt_connection S N sock inp out \<and> (\<forall>w. \<not> shutdown w) \<and>
     (\<forall>f\<in>set fs. wire_frame f) \<and> inp w1 = frames_wire fs"
  then have C: "prompt_connection S N sock inp out" and sh: "\<And>w. \<not> shutdown w"
    and st: "server_started bits files E S N key0 env0 argv w c0 (Some sock) w1 s0"
    and fs: "\<forall>f\<in>set fs. wire_frame f" "inp w1 = frames_wire fs" by blast+
  show "\<exists>es sent c s w'. length es = length fs \<and>
       serve_frames E g F (zip (map (received_frame f0) fs) es) (transport_statics (sw_node_id c0)) s0 = (sent, c, s) \<and>
       server_main bits files E g F S N shutdown tick f0 key0 env0 argv w = Some (0, Some (c, s), w') \<and>
       out w' = out w1 @ sent_wire sent"
    by (rule server_main_serves [OF C sh st fs])
qed (rule server_main_started [OF _ assms])

text \<open>A connection on socket 1 whose stream holds one upload request and then ends.\<close>

definition demo_connects :: "demo_world connects" where
  "demo_connects = \<lparr>co_startup = (\<lambda>w. (True, w)), co_cleanup = (\<lambda>w. w), co_socket = (\<lambda>w. (Some 1, w)),
     co_pton = (\<lambda>h. Some 0x7F000001), co_connect = (\<lambda>s a p w. (True, w))\<rparr>"

text \<open>An upload request of node 9 to node 5.\<close>

definition demo_ask :: frame where
  "demo_ask = the (fbsec_co_fd_usdo_encode_upload_req 9 5 1 0xC001 1 None 0)"

definition demo_stream :: demo_world where
  "demo_stream = \<lparr>dw_in = (\<lambda>s. if s = 1 then frames_wire [demo_ask] else []), dw_out = (\<lambda>_. [])\<rparr>"

lemma demo_finite: "finite_stream demo_sockets sock (\<lambda>w. dw_in w sock)"
  by (auto simp: finite_stream_def demo_sockets_def min_def)

lemma demo_prompt: "prompt_connection demo_sockets demo_connects 1 (\<lambda>w. dw_in w 1) (\<lambda>w. dw_out w 1)"
  by (auto simp: prompt_connection_def demo_sockets_def demo_connects_def min_def)

definition demo_server_argv :: "string list" where
  "demo_server_argv = [''fbsec_co_fd_server'', ''--demo-keys'']"

definition demo_server_cfg :: server_variant_cfg where
  "demo_server_cfg = server_defaults\<lparr>sw_common := (sw_common server_defaults)\<lparr>sc_demo_keys := True\<rparr>\<rparr>"

lemma demo_server_started:
  "\<exists>w1 s0. server_started 64 (\<lambda>_. None) demo_ed demo_sockets demo_connects (replicate 16 0) (100 :: u32, 0 :: u8)
     demo_server_argv demo_stream demo_server_cfg (Some 1) w1 s0 \<and> dw_in w1 1 = frames_wire [demo_ask]"
proof -
  have "server_parse_args 64 demo_server_argv 1 server_defaults = (0, demo_server_cfg)"
    by (simp add: server_parse_args.simps fbsec_server_cli_try_common_flag_def demo_server_argv_def
        demo_server_cfg_def)
  moreover obtain w1 where "send_all demo_sockets 1 buf demo_stream = (CARRIER_OK, w1 buf)"
    "dw_in (w1 buf) 1 = dw_in demo_stream 1" for buf
    using send_all_prompt [OF demo_prompt, where w = demo_stream] by metis
  moreover have "fst (fbsec_co_fd_carrier_send demo_sockets (Some 1) (server_announce_frame demo_server_cfg) demo_stream)
      = CARRIER_OK" by code_simp
  ultimately have "\<exists>w. server_join_bus demo_sockets demo_connects demo_server_cfg demo_stream = (Some (Some 1), w) \<and>
      dw_in w 1 = frames_wire [demo_ask]"
    by (auto simp: server_join_bus_def fbsec_co_fd_carrier_global_init_def demo_connects_def demo_stream_def
        fbsec_co_fd_carrier_connect_def fbsec_co_fd_carrier_send_def split: prod.splits option.splits if_splits)
  moreover have "fbsec_server_od_init_files 64 (\<lambda>_. None) demo_ed (replicate 16 0) 5 None None True
     (server_statics (100 :: u32, 0 :: u8)) \<noteq> None" by code_simp
  moreover have "ucast (sw_node_id demo_server_cfg) = (5 :: u16)" "sc_key_file_path (sw_common demo_server_cfg) = None"
    "sc_od_file_path (sw_common demo_server_cfg) = None" "sc_demo_keys (sw_common demo_server_cfg)"
    by (simp_all add: demo_server_cfg_def server_defaults_def)
  ultimately show ?thesis
    using \<open>server_parse_args 64 demo_server_argv 1 server_defaults = (0, demo_server_cfg)\<close>
    by (auto simp: server_started_def)
qed

theorem server_process_is_requests_witness:
  "\<exists>s0 e sent c s w' pre. serve_frames demo_ed demo_gcm demo_platform
      [(received_frame (fbsec_co_fd_frame_init 0 False) demo_ask, e)] (transport_statics 5) s0 = (sent, c, s) \<and>
    server_main 64 (\<lambda>_. None) demo_ed demo_gcm demo_platform demo_sockets demo_connects (\<lambda>_. False)
      (\<lambda>w e. e) (fbsec_co_fd_frame_init 0 False) (replicate 16 0) (100, 0) demo_server_argv demo_stream
      = Some (0, Some (c, s), w') \<and> dw_out w' 1 = pre @ sent_wire sent \<and> srv_wf s"
proof -
  obtain w1 s0 where st: "server_started 64 (\<lambda>_. None) demo_ed demo_sockets demo_connects (replicate 16 0)
     (100 :: u32, 0 :: u8) demo_server_argv demo_stream demo_server_cfg (Some 1) w1 s0"
    "dw_in w1 1 = frames_wire [demo_ask]" using demo_server_started by blast
  have l: "length (replicate 16 (0 :: u8)) = FBSEC_AEAD_KEY_SIZE" by simp
  have w: "\<forall>f\<in>set [demo_ask]. wire_frame f" unfolding wire_frame_def by code_simp
  note runs = server_process_is_requests [OF demo_ed_ok demo_platform_ok demo_gcm_ok l]
  obtain es sent c s w' where r: "length es = length [demo_ask]"
    "serve_frames demo_ed demo_gcm demo_platform (zip (map (received_frame (fbsec_co_fd_frame_init 0 False)) [demo_ask]) es)
       (transport_statics (sw_node_id demo_server_cfg)) s0 = (sent, c, s)"
    "server_main 64 (\<lambda>_. None) demo_ed demo_gcm demo_platform demo_sockets demo_connects (\<lambda>_. False)
      (\<lambda>w e. e) (fbsec_co_fd_frame_init 0 False) (replicate 16 0) (100, 0) demo_server_argv demo_stream
      = Some (0, Some (c, s), w')" "dw_out w' 1 = dw_out w1 1 @ sent_wire sent"
    using runs [THEN conjunct2, THEN conjunct1, rule_format, where out = "\<lambda>w. dw_out w 1" and inp = "\<lambda>w. dw_in w 1"
        and shutdown = "\<lambda>_. False", OF conjI, OF st(1) conjI, OF demo_prompt conjI, OF _ conjI, OF _ w st(2)] by blast
  obtain e where "es = [e]" using r(1) by (cases es) auto
  moreover have "sw_node_id demo_server_cfg = 5" by (simp add: demo_server_cfg_def server_defaults_def)
  ultimately have "serve_frames demo_ed demo_gcm demo_platform
      [(received_frame (fbsec_co_fd_frame_init 0 False) demo_ask, e)] (transport_statics 5) s0 = (sent, c, s)"
    using r(2) by (simp only: list.map zip_Cons_Cons zip_Nil)
  moreover have "srv_wf s" using runs [THEN conjunct1, rule_format, OF r(3)] by blast
  ultimately show ?thesis using r(3,4) by blast
qed

text \<open>
  C29. With colours and quiet mode off, the traces show the wire. The row of a client frame that is
  sent, or received without an abort, carries its payload, each byte once and in order,
  whichever verb shapes it, so the payload can be read off the row. After any sequence of calls
  of the module on a fresh trace that leaves out the bare \<open>print_hex_seg\<close>, which writes
  inside a row of its caller's, the output ends with a whole line unless the row of a received
  frame is still open for its plaintext. The two rows of a server request carry the request and
  the reply that was sent. The plaintext printed beside a read of the counter object 2020h is
  not the one that was sent: the hook serves the value and then advances it, and the row shows
  the next.
\<close>

theorem trace_shows_the_wire:
  assumes "srv_wf s" "ed_ok E" "platform_ok F" "gcm_ok g"
  shows "(\<not> ct_quiet t \<and> \<not> ct_use_color t \<and> (is_tx \<or> status = FBSEC_ABORT_NONE) \<and> p \<noteq> [] \<and> length p < 65536 \<longrightarrow>
      ct_out (fbsec_client_trace_secure_frame now is_tx src dst data_id p status t) =
        ct_out t @ (if ct_rx_open t then [newline] else []) @ row_header now is_tx src dst data_id t @ hex_row p @
        (if row_deferred is_tx p t then [] else [newline])) \<and>
    (hex_row p = hex_row q \<longrightarrow> p = q) \<and> ((\<forall>cl\<in>set cs. whole_row_call cl) \<longrightarrow> whole_lines (fold run_call cs trace_zero)) \<and>
    (fbsec_server_dispatch_request E g F c d req s = ((ac, data), s') \<and>
      \<not> st_quiet u \<and> \<not> st_use_color u \<and> length req < 65536 \<longrightarrow>
      (let v = request_verb E g F c d req s; me = sv_my_dev (host s') in
       st_out (snd (snd (traced_request E g F now c d req s u))) = st_out u @
         server_row_header ANSI_BLUE now ''RX'' v c me d u @ rx_text v req @
           plain_text (v = ''SWR2'' \<and> ac = FBSEC_ABORT_NONE) (trace_plain v d s') @ [newline] @
         server_row_header ANSI_MAGENTA now ''TX'' v me c d u @ tx_text ac data @
           plain_text (v = ''SRD2'' \<and> ac = FBSEC_ABORT_NONE) (trace_plain v d s') @ [newline])) \<and>
    (fbsec_sod_port_read_before FBSEC_SERVER_ENTRY_RD_DATA_ID len s = ((FBSEC_ABORT_NONE, value), s1) \<longrightarrow>
      trace_plain ''SRD2'' FBSEC_SERVER_ENTRY_RD_DATA_ID s1 = Some (bump_be value) \<and> bump_be value \<noteq> value)"
  unfolding Let_def
  by (intro conjI impI; (rule fresh_trace_lines, assumption)?; (rule frame_row; simp)?;
      (use traced_request_output [OF assms] in blast)?;
      (simp add: hex_row_inject read_trace_ahead srv_value_length [OF assms(1)])?)

theorem trace_shows_the_wire_witness:
  "ct_out (fbsec_client_trace_secure_frame None True 9 5 0x20140000 [0xC1, 7] 0 trace_zero) =
     ''[] TX --   09->05 [201400] C1 07'' @ [newline]"
proof -
  have h: "row_header None True 9 5 0x20140000 trace_zero @ hex_row [0xC1, 7] = ''[] TX --   09->05 [201400] C1 07''"
    "\<not> row_deferred True [0xC1, 7] trace_zero"
    by code_simp+
  have "ct_out (fbsec_client_trace_secure_frame None True 9 5 0x20140000 [0xC1, 7] 0 trace_zero) =
     row_header None True 9 5 0x20140000 trace_zero @ hex_row [0xC1, 7] @ [newline]"
    using trace_shows_the_wire [OF demo_boot_wf demo_ed_ok demo_platform_ok demo_gcm_ok, THEN conjunct1, rule_format,
        where t = trace_zero and is_tx = True and status = 0 and p = "[0xC1, 7]" and now = None] h(2)
    by (simp add: trace_zero_def)
  then show ?thesis using h(1) by (simp flip: append_assoc)
qed

text \<open>
  C30. The operator's console is never stale: after the start-up report and whatever frames
  arrive, the last key-store line and the last commissioning line on it describe the keys
  and the lifecycle stage the server has now.
\<close>

theorem console_is_current:
  "case console_frames E g F fs c s of (shown, c', s') \<Rightarrow>
     (c', s') = snd (run_frames E g F fs c s) \<and>
     last_line ''key store: '' (print_server_state s @ shown) = Some (hd (print_key_store s')) \<and>
     last_line ''commissioning (C001h:01h): '' (print_server_state s @ shown) = Some (hd (print_commissioning s'))"
  using console_frames_show [OF state_shown, of E g F fs c s] by (auto simp: console_shows_def split: prod.split)

section \<open>The bus simulator\<close>

text \<open>
  C31. A protocol frame of one peer reaches every other peer byte for byte. When the stream of a
  peer begins with the wire form of a valid frame that decodes, then, however the stream and
  the sends are cut into pieces, the callback keeps the sender, which gets nothing, and every
  other connected peer either keeps its place and gets exactly these bytes, or is gone because
  the send of these bytes to it failed. A peer whose socket takes at least one byte in every
  send keeps its place and gets the bytes. Unused entries of the table stay as they are.
\<close>

theorem bus_relays_frames:
  assumes "sends (os_sockets os) out" "adapter_quiet A out" "sockets_ok (g_peers b)"
    and "recv_stream (os_sockets os) s inp" "inp (bus_world b) = wire @ rest"
    and "fbsec_co_fd_frame_serialize f FBSEC_CO_FD_WIRE_MAX = Some wire" "wire_frame f"
    and "fbsec_co_fd_usdo_decode f = Inr pdu" "frame_ok f0"
  shows "\<exists>b'. cb_on_peer_readable os A f0 (Some s) peer b = (0, b') \<and>
    out s (bus_world b') = out s (bus_world b) \<and> length (g_peers b') = length (g_peers b) \<and>
    (\<forall>i < length (g_peers b). \<not> bp_in_use (g_peers b ! i) \<or> bp_sock (g_peers b ! i) = Some s \<longrightarrow>
       g_peers b' ! i = g_peers b ! i) \<and>
    (\<forall>i < length (g_peers b). \<forall>t. bp_in_use (g_peers b ! i) \<and> bp_sock (g_peers b ! i) = Some t \<and> t \<noteq> s \<longrightarrow>
       (g_peers b' ! i = g_peers b ! i \<and> out t (bus_world b') = out t (bus_world b) @ wire \<or>
        g_peers b' ! i = gone (g_peers b ! i) \<and> (\<exists>w1 w2. out t w1 = out t (bus_world b) \<and>
          fbsec_bus_send_all (os_sockets os) (Some t) wire w1 = (False, w2) \<and>
          out t (bus_world b') = out t w2)) \<and>
       ((\<forall>bs w. bs \<noteq> [] \<longrightarrow> 0 < fst (so_send (os_sockets os) t bs w)) \<longrightarrow>
          g_peers b' ! i = g_peers b ! i \<and> out t (bus_world b') = out t (bus_world b) @ wire))"
proof (rule bus_relays_usdo_frame [OF assms, where peer = peer], intro exI conjI allI impI)
  fix b' i t
  assume cb: "\<And>i t. i < length (g_peers b) \<Longrightarrow> bp_in_use (g_peers b ! i) \<Longrightarrow> bp_sock (g_peers b ! i) = Some t \<Longrightarrow>
       t \<noteq> s \<Longrightarrow> g_peers b' ! i = g_peers b ! i \<and> out t (bus_world b') = out t (bus_world b) @ wire \<or>
         g_peers b' ! i = gone (g_peers b ! i) \<and> (\<exists>w1 w2. out t w1 = out t (bus_world b) \<and>
           fbsec_bus_send_all (os_sockets os) (Some t) wire w1 = (False, w2) \<and>
           out t (bus_world b') = out t w2)"
    and i: "i < length (g_peers b)" "bp_in_use (g_peers b ! i) \<and> bp_sock (g_peers b ! i) = Some t \<and> t \<noteq> s"
    and progress: "\<forall>bs w. bs \<noteq> [] \<longrightarrow> 0 < fst (so_send (os_sockets os) t bs w)"
  have "fst (fbsec_bus_send_all (os_sockets os) (Some t) wire w1)" for w1
    by (rule send_all_progress) (use progress in blast)
  then have "g_peers b' ! i = g_peers b ! i \<and> out t (bus_world b') = out t (bus_world b) @ wire"
    using cb [OF i(1)] i(2) by (metis fst_conv)
  then show "g_peers b' ! i = g_peers b ! i" "out t (bus_world b') = out t (bus_world b) @ wire"
    by blast+
qed blast+

definition demo_relay :: "demo_world fd_bus_state" where
  "demo_relay = snd (cb_on_peer_readable demo_os demo_pcan (fbsec_co_fd_frame_init 0 False) (Some 1) (Some 0)
     (demo_bus (demo_wire @ [1, 2, 3])))"

theorem bus_relays_frames_witness:
  "dw_out (bus_world demo_relay) 1 = [] \<and> dw_out (bus_world demo_relay) 2 = demo_wire \<and>
   dw_out (bus_world demo_relay) 3 = demo_wire \<and> bp_in_use (g_peers demo_relay ! 2)"
proof -
  let ?b = "demo_bus (demo_wire @ [1, 2, 3])"
  obtain pdu where d: "fbsec_co_fd_usdo_decode demo_frame = Inr pdu" using demo_frame_facts(4) by blast
  have ok: "sockets_ok (g_peers ?b)"
    by (auto simp: demo_bus_def sockets_ok_def demo_peer_def no_peer_def)
  have i: "dw_in (bus_world ?b) 1 = demo_wire @ [1, 2, 3]" by (simp add: demo_bus_def)
  have h: "sends (os_sockets demo_os) (\<lambda>t w. dw_out w t)"
    "recv_stream (os_sockets demo_os) 1 (\<lambda>w. dw_in w 1)"
    by (simp_all add: demo_sends demo_recv_stream)
  from bus_relays_frames [OF h(1) demo_adapter_quiet ok h(2) i demo_frame_facts(3,2) d frame_init_ok [of 0 False], where peer = "Some 0"]
  obtain b' where b': "cb_on_peer_readable demo_os demo_pcan (fbsec_co_fd_frame_init 0 False) (Some 1) (Some 0) ?b = (0, b')"
    "dw_out (bus_world b') 1 = dw_out (bus_world ?b) 1"
    "\<forall>i < length (g_peers ?b). \<forall>t. bp_in_use (g_peers ?b ! i) \<and> bp_sock (g_peers ?b ! i) = Some t \<and> t \<noteq> 1 \<longrightarrow>
       (\<forall>bs w. bs \<noteq> [] \<longrightarrow> 0 < fst (so_send (os_sockets demo_os) t bs w)) \<longrightarrow>
       g_peers b' ! i = g_peers ?b ! i \<and> dw_out (bus_world b') t = dw_out (bus_world ?b) t @ demo_wire"
    by blast
  have "demo_relay = b'" using b'(1) by (simp add: demo_relay_def)
  moreover have "length (g_peers ?b) = 63" "g_peers ?b ! 1 = demo_peer 2 None" "g_peers ?b ! 2 = demo_peer 3 None"
    "dw_out (bus_world ?b) t = []" for t by (simp_all add: demo_bus_def numeral_2_eq_2)
  moreover have "0 < fst (so_send (os_sockets demo_os) t bs w)" if "bs \<noteq> []" for t bs w
    using that by (simp add: demo_sockets_def)
  ultimately show ?thesis
    using b'(2) b'(3) [rule_format, of 1 2] b'(3) [rule_format, of 2 3] by (simp add: demo_peer_def)
qed

text \<open>
  C32. The tables of the bus fit together at the end of every run, whatever connected, sent,
  failed and disconnected and however the control handler interfered: a peer in use that has
  a pool entry has one that is allocated, no two peers share one, and every recorded name
  fits its array. While the bus runs, every round of its event loop keeps this.
\<close>

theorem bus_tables_consistent:
  "(fbsec_bus_run os opts (fd_callbacks os A f0) b = Some (0, b') \<and> fd_start b \<longrightarrow>
      fd_inv (g_peers b') (bus_variant b')) \<and>
   (fd_inv (g_peers b) (bus_variant b) \<and> loop_step os (fd_callbacks os A f0) b = Some (go, b') \<longrightarrow>
      fd_inv (g_peers b') (bus_variant b'))"
  using fd_inv_run [of os opts A f0 b 0 b'] fd.good_step [of b os A f0 go b'] by (auto simp: fd.good_def)

theorem bus_tables_consistent_witness:
  "case fbsec_bus_run demo_os default_options (fd_callbacks demo_os demo_pcan (fbsec_co_fd_frame_init 0 False)) (demo_bus []) of
     None \<Rightarrow> False | Some (rc, b') \<Rightarrow> fd_inv (g_peers b') (bus_variant b')"
proof -
  let ?c = "fd_callbacks demo_os demo_pcan (fbsec_co_fd_frame_init 0 False)"
  have start: "fd_start (demo_bus [])"
    by (auto simp: fd_start_def demo_bus_def fd_peer_ok_def zero_peer_def)
  have loop: "run_event_loop demo_os ?c b = Some b" if "\<not> g_shutdown_flag b" for b
    using that by (subst run_event_loop.simps) (simp add: loop_step_def demo_os_def Let_def)
  have start_l: "start_listening demo_os p b = (True, b\<lparr>g_listen_sock := Some 9\<rparr>)" for p b
    by (simp add: start_listening_def demo_os_def numeral_eq_Suc)
  have "\<exists>b'. fbsec_bus_run demo_os default_options ?c (demo_bus []) = Some (0, b')"
    by (simp add: fbsec_bus_run_def demo_os_def [THEN arg_cong [where f = os_startup]] start_l loop bus_reset_def
        resolve_color_def Let_def)
  then show ?thesis using bus_tables_consistent [THEN conjunct1, rule_format, OF conjI [OF _ start]] by auto
qed

text \<open>
  C33. The CAN FD adapter is transparent. The message one bus makes of a valid protocol frame,
  read by another bus, is a frame that bus broadcasts; although the adapter pads it to a
  length CAN FD has, it has the same identifier and decodes to the same PDU.
\<close>

theorem adapter_is_transparent:
  assumes "wire_frame f" "fbsec_co_fd_usdo_decode f = Inr pdu"
  shows "\<exists>g. pcan_frame (pcan_received (pcan_message (fbsec_co_fd_frame_id_value f)
        (fbsec_co_fd_frame_is_extended f) (fr_flags f AND FBSEC_CO_FD_FLAG_BRS \<noteq> 0) (fr_payload f) (fr_len f))) = Some g \<and>
    fbsec_co_fd_usdo_decode g = Inr pdu \<and> wire_frame g \<and>
    fbsec_co_fd_frame_id_value g = fbsec_co_fd_frame_id_value f \<and>
    fbsec_co_fd_frame_is_extended g = fbsec_co_fd_frame_is_extended f"
  by (rule pcan_bridges_pdus [OF assms])

text \<open>A frame of 9 bytes, which the adapter pads to 12.\<close>

definition demo_short :: frame where
  "demo_short = the (fbsec_co_fd_usdo_encode_download_req 5 2 1 0x2015 1 (Some [7]) 1)"

theorem adapter_is_transparent_witness:
  "\<exists>g. pcan_frame (pcan_received (pcan_message 0x605 False True (fr_payload demo_short) 9)) = Some g \<and>
     fbsec_co_fd_usdo_decode g = fbsec_co_fd_usdo_decode demo_short"
proof -
  obtain pdu where d: "fbsec_co_fd_usdo_decode demo_short = Inr pdu"
  proof (cases "fbsec_co_fd_usdo_decode demo_short")
    case (Inl e)
    have "case fbsec_co_fd_usdo_decode demo_short of Inl _ \<Rightarrow> False | Inr _ \<Rightarrow> True" by code_simp
    then show ?thesis using Inl by simp
  qed (rule that)
  have "wire_frame demo_short \<and> fbsec_co_fd_frame_id_value demo_short = 0x605 \<and>
      \<not> fbsec_co_fd_frame_is_extended demo_short \<and> fr_flags demo_short AND FBSEC_CO_FD_FLAG_BRS \<noteq> 0 \<and> fr_len demo_short = 9"
    unfolding wire_frame_def by code_simp
  then show ?thesis using adapter_is_transparent [OF _ d] d by auto
qed

section \<open>Frames and messages\<close>

text \<open>
  C34. Every message the protocol can carry survives the wire: for all fifteen commands, between
  nodes 1 to 127 and with a session other than 0, the encoder produces a frame that passes
  the frame validation and from which the decoder reads back exactly the message, its sender,
  its receiver, its session and whether it is a request.
\<close>

theorem usdo_messages_roundtrip:
  assumes "node_ok a" "node_ok b" "ses \<noteq> 0" "usdo_msg_ok m"
  shows "\<exists>f. usdo_encode a b ses m = Some f \<and> usdo_carries a b ses m f"
  by (rule usdo_roundtrip_all [OF assms])

theorem usdo_messages_roundtrip_witness:
  "\<exists>f. usdo_encode 9 5 1 (Upload_Seg_Resp 3 (replicate 60 7)) = Some f \<and>
     usdo_carries 9 5 1 (Upload_Seg_Resp 3 (replicate 60 7)) f"
  by (rule usdo_messages_roundtrip) (code_simp+)

text \<open>
  C35. Frames sent one behind the other over a connection are received one by one, in that order
  and unchanged, however the connection cuts the bytes into pieces, and what follows them in
  the stream is left for the next call.
\<close>

theorem frames_received_in_order:
  assumes "delivers S sock deadline inp" "\<forall>f\<in>set fs. wire_frame f" "inp w = frames_wire fs @ rest"
  shows "\<exists>w'. recv_frames S sock (length fs) f0 deadline w =
    (map (\<lambda>f. (CARRIER_OK, received_frame f0 f)) fs, w') \<and> inp w' = rest"
  by (rule recv_frames_stream [OF assms])

theorem frames_received_in_order_witness:
  "\<exists>w'. recv_frames demo_sockets 1 2 demo_frame 1000
     \<lparr>dw_in = (\<lambda>s. frames_wire [demo_short, demo_frame] @ [5]), dw_out = (\<lambda>_. [])\<rparr> =
     ([(CARRIER_OK, received_frame demo_frame demo_short), (CARRIER_OK, received_frame demo_frame demo_frame)], w') \<and>
   dw_in w' 1 = [5]"
proof -
  have "0 < sint (1000 :: u32)" by code_simp
  note d = demo_delivers [OF this, of 1]
  have w: "\<forall>f\<in>set [demo_short, demo_frame]. wire_frame f"
    unfolding wire_frame_def by code_simp
  show ?thesis
    using frames_received_in_order [OF d w, of "\<lparr>dw_in = (\<lambda>s. frames_wire [demo_short, demo_frame] @ [5]), dw_out = (\<lambda>_. [])\<rparr>"
        "[5]" demo_frame] by (simp add: numeral_2_eq_2 del: recv_frames.simps)
qed

section \<open>Secure objects over time\<close>

text \<open>
  C36. A read session never seals two polls under one nonce. Take any run of requests to any
  objects by any clients that does not re-arm the object. Every poll the run serves from the
  object's slot is the seal of a plaintext of the object's length under the slot's key, its
  header and the nonce that its base gives for the counter; the counters are consecutive,
  start after the slot's own and stop at the use limit of a million; and the nonces of the
  served polls are pairwise different.
\<close>

theorem session_counters_consecutive:
  assumes "port_ok P" "gcm_ok g" "sod_wf s" "find_index s d = Some i"
    and "ent_access_flags (registry s ! i) AND FBSEC_SOD_ACCESS_SECURE_RO \<noteq> 0"
    and "\<forall>(c, d', req)\<in>set xs. \<not> (d' = d \<and> length req = READ_CHALLENGE_LEN)"
    and "slot = read_slot s ! i" "n = unat (rs_counter slot)" "polls = served_polls g P rm d i xs s"
  shows "n + length polls \<le> 1000000 \<and>
    (\<forall>j < length polls. \<exists>key dev plain ct tag.
       polls ! j = (Some key, ucast (of_nat (n + 1 + j) :: u32) # ct @ tag) \<and>
       length plain = unat (ent_data_len (registry s ! i)) \<and>
       fbsec_aead_seal g key (build_session_nonce (rs_nonce_base slot) (of_nat (n + 1 + j)))
         FBSEC_AEAD_DIR_READ_POLL_RESPONSE (rs_key_id slot) dev (rs_client_dev slot) d None None plain
         = Some (ct, tag)) \<and>
    distinct (map (\<lambda>j. build_session_nonce (rs_nonce_base slot) (of_nat (n + 1 + j)))
                [0..<length polls])"
proof -
  note seals = served_polls_seals [OF assms(1-6), of n rm, unfolded assms(7,8), OF refl]
  have nb: "length (rs_nonce_base slot) = FBSEC_AEAD_NONCE_SIZE"
    using sod_wf_read_slot [OF assms(3) sod_wf_find_index [OF assms(3,4)]] assms(7)
    by (simp add: read_state_wf_def)
  show ?thesis
    using seals session_nonces_distinct [OF nb, of n "length polls"] unfolding assms(7-9)
    by (auto simp: poll_reply_seals_def read_session_of_def prod_eq_iff)
qed

text \<open>Three polls at the example session, the second from a node it was not armed for.\<close>

definition demo_poll_run :: "(u16 \<times> u32 \<times> bytes) list" where
  "demo_poll_run = [(9, 0x20160000, [42]), (7, 0x20160000, [43]), (9, 0x20160000, [43])]"

theorem session_counters_consecutive_witness:
  "length (served_polls demo_gcm demo_port 64 0x20160000 0 demo_poll_run demo_read_cyclic) = 2 \<and>
   (\<exists>key dev plain ct tag.
      served_polls demo_gcm demo_port 64 0x20160000 0 demo_poll_run demo_read_cyclic ! 1 = (Some key, 43 # ct @ tag) \<and>
      length plain = 4 \<and>
      fbsec_aead_seal demo_gcm key (build_session_nonce (replicate 12 7) 43)
        FBSEC_AEAD_DIR_READ_POLL_RESPONSE 0xC2 dev 9 0x20160000 None None plain = Some (ct, tag)) \<and>
   build_session_nonce (replicate 12 7) 42 \<noteq> build_session_nonce (replicate 12 7) 43"
proof -
  have s: "length (served_polls demo_gcm demo_port 64 0x20160000 0 demo_poll_run demo_read_cyclic) = 2"
    "find_index demo_read_cyclic 0x20160000 = Some 0"
    "ent_access_flags (registry demo_read_cyclic ! 0) AND FBSEC_SOD_ACCESS_SECURE_RO \<noteq> 0"
    "\<forall>(c, d', req)\<in>set demo_poll_run. \<not> (d' = 0x20160000 \<and> length req = READ_CHALLENGE_LEN)"
    by code_simp+
  have r: "41 = unat (rs_counter (read_slot demo_read_cyclic ! 0))"
    "unat (ent_data_len (registry demo_read_cyclic ! 0)) = 4"
    "rs_nonce_base (read_slot demo_read_cyclic ! 0) = replicate 12 7"
    "rs_key_id (read_slot demo_read_cyclic ! 0) = 0xC2" "rs_client_dev (read_slot demo_read_cyclic ! 0) = 9"
    by code_simp+
  note c = session_counters_consecutive [OF demo_port_ok demo_gcm_ok demo_read_cyclic_wf s(2-4) refl r(1) refl,
      of 64, unfolded r(2-5) s(1)]
  have poll: "\<exists>key dev plain ct tag.
      served_polls demo_gcm demo_port 64 0x20160000 0 demo_poll_run demo_read_cyclic ! 1 = (Some key, 43 # ct @ tag) \<and>
      length plain = 4 \<and>
      fbsec_aead_seal demo_gcm key (build_session_nonce (replicate 12 7) 43)
        FBSEC_AEAD_DIR_READ_POLL_RESPONSE 0xC2 dev 9 0x20160000 None None plain = Some (ct, tag)"
    using c [THEN conjunct2, THEN conjunct1, rule_format, of 1] by simp
  show ?thesis
    using s(1) poll c [THEN conjunct2, THEN conjunct2] by (simp add: upt_rec)
qed

section \<open>Cryptographic building blocks\<close>

text \<open>
  C37. In both modes, opening accepts exactly what sealing produced: for keys, nonces and tags of
  the protocol's sizes, a ciphertext and tag open to a plaintext if and only if sealing that
  plaintext under the same key, nonce and header gives them.
\<close>

theorem aead_open_inverts_seal:
  assumes "gcm_ok g" "length key = FBSEC_AEAD_KEY_SIZE" "length nonce = FBSEC_AEAD_NONCE_SIZE"
    and "length tag = FBSEC_AEAD_TAG_SIZE"
  shows "fbsec_aead_open g key nonce dir kid sid cid d cr sr ct tag = Some pt \<longleftrightarrow>
    fbsec_aead_seal g key nonce dir kid sid cid d cr sr pt = Some (ct, tag)"
  by (rule open_iff_seal [OF assms])

theorem aead_open_inverts_seal_witness:
  "\<exists>ct tag. fbsec_aead_seal demo_gcm demo_key (replicate 12 1) 2 0x82 5 9 0x20160000 None None [4, 2]
      = Some (ct, tag) \<and>
    fbsec_aead_open demo_gcm demo_key (replicate 12 1) 2 0x82 5 9 0x20160000 None None ct tag = Some [4, 2]"
proof -
  have len: "length demo_key = 16" "length (replicate 12 1 :: bytes) = 12" by code_simp+
  obtain ct tag where seal:
    "fbsec_aead_seal demo_gcm demo_key (replicate 12 1) 2 0x82 5 9 0x20160000 None None [4, 2]
      = Some (ct, tag)" "length tag = 16"
    by (rule seal_succeeds [OF demo_gcm_ok len, where pt = "[4, 2]"]) auto
  with aead_open_inverts_seal [OF demo_gcm_ok len seal(2)] show ?thesis by blast
qed

section \<open>Limits of the code\<close>

text \<open>
  C38. An accepted first frame of a cyclic write can be replayed. The slot keeps the server random
  it was armed with when the session starts, and no request other than a new write arming of
  the object changes it: after any run of other requests the frame that the server accepted
  once opens again, whoever sends it, as long as the slot is in use and fresh, the key is the
  same and its role may write. Its value is applied again, and the session starts over with the
  counter at zero under the very nonce base the accepted frame had given it.
\<close>

theorem cyclic_write_replays:
  assumes "port_ok P" and "gcm_ok g" and "sod_wf s" and "find_index s d = Some i"
    and "ent_access_flags (registry s ! i) AND FBSEC_SOD_ACCESS_SECURE_WO \<noteq> 0"
    and "length req = 1 + FBSEC_AEAD_RAND_SIZE + unat (ent_data_len (registry s ! i)) + FBSEC_AEAD_TAG_SIZE"
    and "FBSEC_AEAD_KEYID_IS_CYCLIC (req ! 0)"
    and "fbsec_sod_dispatch g P c d req rm s = (SOD_OK r, s1)"
    and "sod_run g P rm xs s1 = (sts, s2)" "\<forall>(c, d', req)\<in>set xs. \<not> (d' = d \<and> length req \<le> 1)"
    and "ws_in_use (write_slot s2 ! i)" "slot_is_fresh P s2 (ws_armed_at (write_slot s2 ! i))"
    and "get_key s2 (FBSEC_AEAD_KEYID_BASE (req ! 0)) = get_key s (FBSEC_AEAD_KEYID_BASE (req ! 0))"
    and "port_role_allowed P SOD_OP_WRITE (FBSEC_AEAD_KEYID_BASE (req ! 0)) d s2"
    and "\<And>s. port_get_device_id P s = dev"
  shows "\<exists>pt. write_request_opens g P i (registry s ! i) req s pt \<and>
    fst (port_write_after P d pt (write_hook_state i req s)) = FBSEC_ABORT_NONE \<and>
    (\<forall>c' rm' s3. port_write_after P d pt (write_hook_state i req s2) = (FBSEC_ABORT_NONE, s3) \<longrightarrow>
       fbsec_sod_dispatch g P c' d req rm' s2 = (SOD_OK [], start_write_session P i req s3) \<and>
       ws_counter (write_slot (start_write_session P i req s3) ! i) = 0 \<and>
       ws_nonce_base (write_slot (start_write_session P i req s3) ! i) = ws_nonce_base (write_slot s1 ! i))"
  by (rule accepted_cyclic_replays [OF assms])

text \<open>The example server after the frame was accepted once: the same frame is accepted again, from
  another node and after a third one has read the object.\<close>

definition demo_cyclic_frame :: bytes where
  "demo_cyclic_frame = demo_write_frame 0xC2 [9, 8, 7, 6]"

definition demo_write_accepted :: "demo_host sod" where
  "demo_write_accepted =
     snd (fbsec_sod_dispatch demo_gcm demo_port 9 0x20160000 demo_cyclic_frame 64 demo_write_armed)"

theorem cyclic_write_replays_witness:
  "fst (fbsec_sod_dispatch demo_gcm demo_port 7 0x20160000 demo_cyclic_frame 64
     (snd (fbsec_sod_dispatch demo_gcm demo_port 3 0x20160000 (0x82 # replicate 12 1) 64 demo_write_accepted))) = SOD_OK []"
proof -
  let ?s2 = "snd (fbsec_sod_dispatch demo_gcm demo_port 3 0x20160000 (0x82 # replicate 12 1) 64 demo_write_accepted)"
  have f: "find_index demo_write_armed 0x20160000 = Some 0"
    "ent_access_flags (registry demo_write_armed ! 0) AND FBSEC_SOD_ACCESS_SECURE_WO \<noteq> 0"
    "length demo_cyclic_frame = 1 + FBSEC_AEAD_RAND_SIZE +
       unat (ent_data_len (registry demo_write_armed ! 0)) + FBSEC_AEAD_TAG_SIZE"
    "FBSEC_AEAD_KEYID_IS_CYCLIC (demo_cyclic_frame ! 0)"
    "fst (fbsec_sod_dispatch demo_gcm demo_port 9 0x20160000 demo_cyclic_frame 64 demo_write_armed) = SOD_OK []"
    "\<forall>(c, d', req)\<in>set [(3 :: u16, 0x20160000 :: u32, 0x82 # replicate 12 1 :: bytes)]. \<not> (d' = 0x20160000 \<and> length req \<le> 1)"
    by code_simp+
  have h: "ws_in_use (write_slot ?s2 ! 0)" "slot_is_fresh demo_port ?s2 (ws_armed_at (write_slot ?s2 ! 0))"
    "get_key ?s2 (FBSEC_AEAD_KEYID_BASE (demo_cyclic_frame ! 0)) =
       get_key demo_write_armed (FBSEC_AEAD_KEYID_BASE (demo_cyclic_frame ! 0))"
    "port_role_allowed demo_port SOD_OP_WRITE (FBSEC_AEAD_KEYID_BASE (demo_cyclic_frame ! 0)) 0x20160000 ?s2"
    by code_simp+
  have first: "fbsec_sod_dispatch demo_gcm demo_port 9 0x20160000 demo_cyclic_frame 64 demo_write_armed
      = (SOD_OK [], demo_write_accepted)"
    using f(5) by (simp add: prod_eq_iff demo_write_accepted_def)
  have run: "sod_run demo_gcm demo_port 64 [(3, 0x20160000, 0x82 # replicate 12 1)] demo_write_accepted =
      ([fst (fbsec_sod_dispatch demo_gcm demo_port 3 0x20160000 (0x82 # replicate 12 1) 64 demo_write_accepted)], ?s2)"
    by (simp add: case_prod_beta)
  obtain pt where p: "\<forall>c' rm' s3.
      port_write_after demo_port 0x20160000 pt (write_hook_state 0 demo_cyclic_frame ?s2) = (FBSEC_ABORT_NONE, s3) \<longrightarrow>
      fbsec_sod_dispatch demo_gcm demo_port c' 0x20160000 demo_cyclic_frame rm' ?s2 =
        (SOD_OK [], start_write_session demo_port 0 demo_cyclic_frame s3)"
    using cyclic_write_replays [OF demo_port_ok demo_gcm_ok demo_write_armed_wf f(1-4) first run f(6) h
        host_ok_device [OF demo_host_ok]] by blast
  then show ?thesis by (simp add: demo_port_def [THEN arg_cong [where f = port_write_after]])
qed

text \<open>
  C39. The one-byte arming of a cyclic write opens a session without any random of its own, if the
  client goes on with a poll instead of the second pass. The first poll the server then accepts
  is a seal under the nonce 0...01, whatever random the server drew and returned; and in any
  other session that the same node opens on the object in this way under the same key, whatever
  the server drew there, the recorded poll is accepted and its value applied. (A second pass,
  as the module's header documents it, would replace the zero base by the randoms.)
\<close>

theorem one_byte_session_nonce:
  assumes "gcm_ok g" and "port_ok P" and "sod_wf s" and "sod_wf t"
    and "registry t = registry s" and "find_index s d = Some i"
    and "ent_access_flags (registry s ! i) AND FBSEC_SOD_ACCESS_SECURE_WO \<noteq> 0"
    and "\<not> (rs_in_use (read_slot s ! i) \<and> rs_cyclic (read_slot s ! i))"
      "\<not> (rs_in_use (read_slot t ! i) \<and> rs_cyclic (read_slot t ! i))"
    and "fbsec_sod_dispatch g P c d [kid] rm s = (SOD_OK r, s1)"
      "fbsec_sod_dispatch g P c d [kid] rm t = (SOD_OK r', t1)"
    and "length req = 1 + unat (ent_data_len (registry s ! i)) + FBSEC_AEAD_TAG_SIZE"
    and "fbsec_sod_dispatch g P c d req rm s1 = (SOD_OK q, s2)"
    and "session_is_fresh P t1 (ws_armed_at (write_slot t1 ! i))"
    and "get_key t1 (FBSEC_AEAD_KEYID_BASE kid) = get_key s1 (FBSEC_AEAD_KEYID_BASE kid)"
    and "port_role_allowed P SOD_OP_WRITE (FBSEC_AEAD_KEYID_BASE kid) d t1"
    and "\<And>s. port_get_device_id P s = dev"
  shows "\<exists>key pt ct tag. get_key s1 (FBSEC_AEAD_KEYID_BASE kid) = Some key \<and> req = 1 # ct @ tag \<and>
    fbsec_aead_seal g key (replicate 11 0 @ [1]) FBSEC_AEAD_DIR_WRITE_POLL_REQUEST kid dev c d
      None None pt = Some (ct, tag) \<and>
    (\<forall>rm' t2. port_write_after P d pt t1 = (FBSEC_ABORT_NONE, t2) \<longrightarrow>
       fbsec_sod_dispatch g P c d req rm' t1 = (SOD_OK [], advance_write P i 1 t2))"
  by (rule one_byte_poll_replays [OF assms])

text \<open>
  Two sessions that node 9 opens with the one-byte arming on servers that draw
  different randoms, and a poll it seals for the first.
\<close>

definition demo_other_srv :: "demo_host sod" where
  "demo_other_srv = demo_srv\<lparr>host := (host demo_srv)\<lparr>dh_seed := 0x33, dh_value := [9, 9, 9, 9]\<rparr>\<rparr>"

definition demo_one_byte :: "demo_host sod \<Rightarrow> demo_host sod" where
  "demo_one_byte s = snd (fbsec_sod_dispatch demo_gcm demo_port 9 0x20160000 [0xC2] 64 s)"

definition demo_zero_poll :: bytes where
  "demo_zero_poll =
     (case fbsec_aead_seal demo_gcm demo_key (replicate 11 0 @ [1]) FBSEC_AEAD_DIR_WRITE_POLL_REQUEST
             0xC2 5 9 0x20160000 None None [9, 8, 7, 6] of
        Some (ct, tag) \<Rightarrow> 1 # ct @ tag | None \<Rightarrow> [])"

theorem one_byte_session_nonce_witness:
  "fst (fbsec_sod_dispatch demo_gcm demo_port 9 0x20160000 demo_zero_poll 64 (demo_one_byte demo_other_srv)) = SOD_OK []"
proof -
  have f: "registry demo_other_srv = registry demo_srv" "find_index demo_srv 0x20160000 = Some 0"
    "ent_access_flags (registry demo_srv ! 0) AND FBSEC_SOD_ACCESS_SECURE_WO \<noteq> 0"
    "\<not> (rs_in_use (read_slot demo_srv ! 0) \<and> rs_cyclic (read_slot demo_srv ! 0))"
    "\<not> (rs_in_use (read_slot demo_other_srv ! 0) \<and> rs_cyclic (read_slot demo_other_srv ! 0))"
    by code_simp+
  have r: "fst (fbsec_sod_dispatch demo_gcm demo_port 9 0x20160000 [0xC2] 64 demo_srv) = SOD_OK (replicate 12 0x5A)"
    "fst (fbsec_sod_dispatch demo_gcm demo_port 9 0x20160000 [0xC2] 64 demo_other_srv) = SOD_OK (replicate 12 0x33)"
    "fst (fbsec_sod_dispatch demo_gcm demo_port 9 0x20160000 demo_zero_poll 64 (demo_one_byte demo_srv)) = SOD_OK []"
    "length demo_zero_poll = 1 + unat (ent_data_len (registry demo_srv ! 0)) + FBSEC_AEAD_TAG_SIZE"
    by code_simp+
  have h: "session_is_fresh demo_port (demo_one_byte demo_other_srv)
      (ws_armed_at (write_slot (demo_one_byte demo_other_srv) ! 0))"
    "get_key (demo_one_byte demo_other_srv) (FBSEC_AEAD_KEYID_BASE 0xC2) =
       get_key (demo_one_byte demo_srv) (FBSEC_AEAD_KEYID_BASE 0xC2)"
    "port_role_allowed demo_port SOD_OP_WRITE (FBSEC_AEAD_KEYID_BASE 0xC2) 0x20160000 (demo_one_byte demo_other_srv)"
    by code_simp+
  have arm: "fbsec_sod_dispatch demo_gcm demo_port 9 0x20160000 [0xC2] 64 demo_srv =
      (SOD_OK (replicate 12 0x5A), demo_one_byte demo_srv)"
    "fbsec_sod_dispatch demo_gcm demo_port 9 0x20160000 [0xC2] 64 demo_other_srv =
      (SOD_OK (replicate 12 0x33), demo_one_byte demo_other_srv)"
    using r(1,2) by (simp_all add: prod_eq_iff demo_one_byte_def)
  have poll: "fbsec_sod_dispatch demo_gcm demo_port 9 0x20160000 demo_zero_poll 64 (demo_one_byte demo_srv) =
      (SOD_OK [], snd (fbsec_sod_dispatch demo_gcm demo_port 9 0x20160000 demo_zero_poll 64 (demo_one_byte demo_srv)))"
    using r(3) by (simp add: prod_eq_iff)
  have wf: "sod_wf demo_other_srv" using demo_srv_wf by (simp add: demo_other_srv_def sod_wf_def keys_wf_def)
  obtain pt where "\<forall>rm' t2. port_write_after demo_port 0x20160000 pt (demo_one_byte demo_other_srv) = (FBSEC_ABORT_NONE, t2) \<longrightarrow>
      fbsec_sod_dispatch demo_gcm demo_port 9 0x20160000 demo_zero_poll rm' (demo_one_byte demo_other_srv) =
        (SOD_OK [], advance_write demo_port 0 1 t2)"
    using one_byte_session_nonce [OF demo_gcm_ok demo_port_ok demo_srv_wf wf f arm r(4) poll h
        host_ok_device [OF demo_host_ok]] by blast
  then show ?thesis by (simp add: demo_port_def [THEN arg_cong [where f = port_write_after]])
qed

text \<open>
  C40. A recorded installation of the provisioning key is accepted again after a factory reset:
  its signature covers the key alone, so once the same owner claims the device again with a
  newer voucher, anyone can reinstall the old key.
\<close>

theorem provisioning_replays:
  assumes "provision_ok E p s" "slice v 8 32 = as_owner (astore s)"
    and "voucher_ok E v (fbsec_server_handover_decommission (disarm t))"
    and "as_ready (astore t)"
  shows "handle_provision E p (claimed v (fbsec_server_handover_decommission (disarm t))) =
    ((FBSEC_ABORT_NONE, []), provisioned p (claimed v (fbsec_server_handover_decommission (disarm t))))"
  by (rule provision_replays [OF assms])

theorem provisioning_replays_witness:
  "fst (handle_provision demo_ed (demo_provision demo_key)
     (claimed (demo_voucher 3) (fbsec_server_handover_decommission (disarm demo_provisioned))))
     = (FBSEC_ABORT_NONE, [])"
proof -
  have "provision_ok demo_ed (demo_provision demo_key) demo_claimed"
    "slice (demo_voucher 3) 8 32 = as_owner (astore demo_claimed)"
    "voucher_ok demo_ed (demo_voucher 3) (fbsec_server_handover_decommission (disarm demo_provisioned))"
    "as_ready (astore demo_provisioned)"
    by code_simp+
  from provisioning_replays [OF this] show ?thesis by simp
qed

end
